(* ===== verification/Prelude.thy ===== *)
theory Prelude
  imports Complex_Main "HOL-Library.AList" "HOL-Library.Char_ord" "HOL-Library.List_Lexorder"
    "HOL-Library.Sublist"
begin

text \<open>What the components share: the Python values, strings, slices and
  insertion-ordered dicts the code works on, the result type for raised
  exceptions, the interfaces (locales) of keyed stores and FIFO queues, and the
  collections of rewrite rules the component proofs use.

  A Python string is a list of characters with code points below 256, a
  float is an exact rational, a dict is an association list in insertion order
  (assignment to an existing key keeps its position, as CPython does), and a
  raise is the left injection of a sum.\<close>

named_theorems dict_simps \<open>lookup and update laws of insertion-ordered dicts\<close>
named_theorems result_simps \<open>case rules of the result type\<close>

type_synonym time = rat
type_synonym 'v dict = "(string \<times> 'v) list"

text \<open>Dynamic values: what json.loads gives and payload dicts hold.\<close>

datatype pyval =
    PNone
  | PBool bool
  | PInt int
  | PFloat rat
  | PStr string
  | PList "pyval list"
  | PDict "(string \<times> pyval) list"

type_synonym payload = "pyval dict"

fun truthy :: "pyval \<Rightarrow> bool" where
  "truthy PNone = False"
| "truthy (PBool b) = b"
| "truthy (PInt i) = (i \<noteq> 0)"
| "truthy (PFloat r) = (r \<noteq> 0)"
| "truthy (PStr s) = (s \<noteq> [])"
| "truthy (PList xs) = (xs \<noteq> [])"
| "truthy (PDict d) = (d \<noteq> [])"

subsection \<open>Dicts\<close>

abbreviation dget :: "'v dict \<Rightarrow> string \<Rightarrow> 'v option" where
  "dget d k \<equiv> map_of d k"

abbreviation dput :: "string \<Rightarrow> 'v \<Rightarrow> 'v dict \<Rightarrow> 'v dict" where
  "dput k v d \<equiv> AList.update k v d"

definition get_or :: "('k \<times> 'v) list \<Rightarrow> 'k \<Rightarrow> 'v \<Rightarrow> 'v" where
  "get_or d k dflt = (case map_of d k of Some v \<Rightarrow> v | None \<Rightarrow> dflt)"

lemma map_of_update [dict_simps, simp]:
  "map_of (AList.update k v d) k' = (if k' = k then Some v else map_of d k')"
  by (simp add: update_conv')

lemma map_of_delete [dict_simps, simp]:
  "map_of (AList.delete k d) k' = (if k' = k then None else map_of d k')"
  by (induction d) auto

lemma update_fresh:
  "k \<notin> fst ` set d \<Longrightarrow> AList.update k v d = d @ [(k, v)]"
  by (induction d) auto

lemma set_update_subset:
  "set (AList.update k v d) \<subseteq> insert (k, v) (set d)"
  by (induction d) auto

lemma values_update_subset:
  "snd ` set (AList.update k v d) \<subseteq> insert v (snd ` set d)"
  by (induction d) auto

lemma keys_update: "fst ` set (AList.update k v d) = insert k (fst ` set d)"
  by (induction d) auto

lemma get_or_Some [simp]: "map_of d k = Some v \<Longrightarrow> get_or d k e = v"
  by (simp add: get_or_def)

lemma get_or_None [simp]: "map_of d k = None \<Longrightarrow> get_or d k e = e"
  by (simp add: get_or_def)

lemma get_or_update [dict_simps, simp]:
  "get_or (AList.update k v d) k' e = (if k' = k then v else get_or d k' e)"
  by (simp add: get_or_def)

lemma get_or_in: "get_or d k e \<in> insert e (snd ` set d)"
  by (auto simp: get_or_def split: option.splits dest!: map_of_SomeD intro: rev_image_eqI)

text \<open>A dict rebuilt entry by entry keeps the keys that were inserted first.\<close>

lemma filter_keys_map_of:
  "map_of (filter (\<lambda>p. Q (fst p)) d) k = (if Q k then map_of d k else None)"
  by (induction d) auto

subsection \<open>Lists\<close>

text \<open>xs[:n] and xs[-n:] for any int n.\<close>

definition py_take :: "int \<Rightarrow> 'a list \<Rightarrow> 'a list" where
  "py_take n xs = (if n \<ge> 0 then take (nat n) xs else take (length xs - nat (- n)) xs)"

definition py_last :: "int \<Rightarrow> 'a list \<Rightarrow> 'a list" where
  "py_last n xs = (if n > 0 then drop (length xs - nat n) xs else drop (nat (- n)) xs)"

lemma length_py_take_le: "n \<ge> 0 \<Longrightarrow> length (py_take n xs) \<le> nat n"
  by (simp add: py_take_def)

lemma int_length_py_take: "n \<ge> 0 \<Longrightarrow> int (length (py_take n xs)) \<le> n"
  using length_py_take_le[of n xs] by linarith

lemma set_py_take_subset: "set (py_take n xs) \<subseteq> set xs"
  by (auto simp: py_take_def dest: in_set_takeD)

lemma set_py_last_subset: "set (py_last n xs) \<subseteq> set xs"
  by (auto simp: py_last_def dest: in_set_dropD)

lemma length_py_last_le: "n > 0 \<Longrightarrow> length (py_last n xs) \<le> nat n"
  by (simp add: py_last_def)

text \<open>list(dict.fromkeys(xs)): the first occurrence of each element, in order.\<close>

fun fromkeys :: "'a list \<Rightarrow> 'a list" where
  "fromkeys [] = []"
| "fromkeys (x # xs) = x # filter (\<lambda>y. y \<noteq> x) (fromkeys xs)"

lemma set_fromkeys [simp]: "set (fromkeys xs) = set xs"
  by (induction xs) auto

lemma distinct_fromkeys [simp]: "distinct (fromkeys xs)"
  by (induction xs) auto

lemma fromkeys_distinct: "distinct xs \<Longrightarrow> fromkeys xs = xs"
  by (induction xs) (auto intro: filter_True)

lemma length_fromkeys_le: "length (fromkeys xs) \<le> length xs"
  by (induction xs) (auto intro: le_trans[OF length_filter_le])

fun enumerate_from :: "int \<Rightarrow> 'a list \<Rightarrow> (int \<times> 'a) list" where
  "enumerate_from n [] = []"
| "enumerate_from n (x # xs) = (n, x) # enumerate_from (n + 1) xs"

lemma map_snd_enumerate_from [simp]: "map snd (enumerate_from n xs) = xs"
  by (induction xs arbitrary: n) auto

subsection \<open>Strings\<close>

text \<open>str.lower and str.isspace on code points below 256.\<close>

definition char_lower :: "char \<Rightarrow> char" where
  "char_lower c = (let n = (of_char c :: nat) in
     if (65 \<le> n \<and> n \<le> 90) \<or> (192 \<le> n \<and> n \<le> 222 \<and> n \<noteq> 215) then char_of (n + 32) else c)"

definition lower :: "string \<Rightarrow> string" where
  "lower s = map char_lower s"

definition is_space :: "char \<Rightarrow> bool" where
  "is_space c = (let n = (of_char c :: nat) in
     (9 \<le> n \<and> n \<le> 13) \<or> (28 \<le> n \<and> n \<le> 32) \<or> n = 133 \<or> n = 160)"

definition lstrip :: "string \<Rightarrow> string" where
  "lstrip s = dropWhile is_space s"

definition strip :: "string \<Rightarrow> string" where
  "strip s = rev (dropWhile is_space (rev (dropWhile is_space s)))"

lemma length_lower [simp]: "length (lower s) = length s"
  by (simp add: lower_def)

lemma lower_Nil [simp]: "lower [] = []"
  by (simp add: lower_def)

lemma strip_Nil [simp]: "strip [] = []"
  by (simp add: strip_def)

lemma char_lower_idem [simp]: "char_lower (char_lower c) = char_lower c"
proof -
  let ?n = "of_char c :: nat"
  have lt: "?n < 256" by simp
  show ?thesis
  proof (cases "(65 \<le> ?n \<and> ?n \<le> 90) \<or> (192 \<le> ?n \<and> ?n \<le> 222 \<and> ?n \<noteq> 215)")
    case True
    then have "?n + 32 < 256" by auto
    then have "(of_char (char_of (?n + 32) :: char) :: nat) = ?n + 32"
      by (simp only: of_char_of mod_less)
    moreover have "char_lower c = char_of (?n + 32)"
      using True by (simp add: char_lower_def Let_def)
    ultimately show ?thesis
      using True by (auto simp: char_lower_def Let_def)
  next
    case False
    then have "char_lower c = c"
      by (auto simp: char_lower_def Let_def)
    then show ?thesis by simp
  qed
qed

lemma lower_idem [simp]: "lower (lower s) = lower s"
  by (simp add: lower_def)

definition startswith :: "string \<Rightarrow> string \<Rightarrow> bool" where
  "startswith s p = (take (length p) s = p)"

lemma startswith_append [simp]: "startswith (p @ s) p"
  by (simp add: startswith_def)

lemma startswith_iff: "startswith s p \<longleftrightarrow> (\<exists>r. s = p @ r)"
  by (auto simp: startswith_def) (metis append_take_drop_id)

lemma strip_keeps_prefix:
  assumes "p \<noteq> []" and "\<not> is_space (hd p)" and "\<not> is_space (last p)"
  shows "startswith (strip (p @ s)) p"
proof -
  have "dropWhile is_space (p @ s) = p @ s" using assms(1,2) by (cases p) auto
  moreover have "dropWhile is_space (rev p) = rev p" using assms(1,3) by (cases p rule: rev_cases) auto
  ultimately have "strip (p @ s) = p @ rev (dropWhile is_space (rev s)) \<or> strip (p @ s) = p"
    by (auto simp: strip_def dropWhile_append)
  then show ?thesis by (auto simp: startswith_def)
qed

text \<open>needle in haystack.\<close>

fun contains :: "string \<Rightarrow> string \<Rightarrow> bool" where
  "contains [] n = (n = [])"
| "contains (c # s) n = (startswith (c # s) n \<or> contains s n)"

lemma contains_iff: "contains s n \<longleftrightarrow> (\<exists>a b. s = a @ n @ b)"
proof (induction s)
  case (Cons c s)
  show ?case
    by (auto simp: Cons startswith_iff Cons_eq_append_conv)
qed auto

fun py_join :: "string \<Rightarrow> string list \<Rightarrow> string" where
  "py_join sep [] = []"
| "py_join sep [x] = x"
| "py_join sep (x # y # xs) = x @ sep @ py_join sep (y # xs)"

lemma py_join_Cons: "py_join sep (x # xs) = x @ (if xs = [] then [] else sep @ py_join sep xs)"
  by (cases xs) auto

text \<open>A string with no white space at either end.\<close>

definition trimmed :: "string \<Rightarrow> bool" where
  "trimmed s = (s \<noteq> [] \<and> \<not> is_space (hd s) \<and> \<not> is_space (last s))"

lemma trimmed_strip: "strip s \<noteq> [] \<Longrightarrow> trimmed (strip s)"
proof -
  assume ne: "strip s \<noteq> []"
  define a where "a = dropWhile is_space s"
  define b where "b = dropWhile is_space (rev a)"
  have st: "strip s = rev b" by (simp add: strip_def a_def b_def)
  with ne have bne: "b \<noteq> []" by auto
  then have "\<not> is_space (hd b)" unfolding b_def by (rule hd_dropWhile)
  moreover have "\<not> is_space (last b)"
  proof -
    have "last b = last (rev a)" using bne unfolding b_def by (metis last_appendR takeWhile_dropWhile_id)
    moreover have "a \<noteq> []" using bne b_def by auto
    then have "\<not> is_space (hd a)" unfolding a_def by (rule hd_dropWhile)
    ultimately show ?thesis using \<open>a \<noteq> []\<close> by (simp add: last_rev)
  qed
  ultimately show ?thesis using bne by (simp add: trimmed_def st hd_rev last_rev)
qed

lemma strip_trimmed: "trimmed s \<Longrightarrow> strip s = s"
proof -
  assume t: "trimmed s"
  have "dropWhile is_space s = s" using t by (cases s) (auto simp: trimmed_def)
  moreover have "dropWhile is_space (rev s) = rev s"
    using t by (cases s rule: rev_cases) (auto simp: trimmed_def)
  ultimately show ?thesis by (simp add: strip_def)
qed

lemma trimmed_append: "trimmed a \<Longrightarrow> trimmed b \<Longrightarrow> trimmed (a @ m @ b)"
  by (simp add: trimmed_def)

text \<open>Splitting at every occurrence of one character.\<close>

fun py_split :: "char \<Rightarrow> string \<Rightarrow> string list" where
  "py_split c [] = [[]]"
| "py_split c (x # xs) = (if x = c then [] # py_split c xs
     else (case py_split c xs of [] \<Rightarrow> [[x]] | w # ws \<Rightarrow> (x # w) # ws))"

text \<open>a or b on strings.\<close>

definition str_or :: "string \<Rightarrow> string \<Rightarrow> string" where
  "str_or a b = (if a \<noteq> [] then a else b)"

text \<open>str.splitlines: carriage return and line feed together end one line.\<close>

definition line_break :: "char \<Rightarrow> bool" where
  "line_break c = (let n = (of_char c :: nat) in n \<in> {10, 11, 12, 13, 28, 29, 30, 133})"

fun splitlines_acc :: "string \<Rightarrow> string \<Rightarrow> string list" where
  "splitlines_acc acc [] = (if acc = [] then [] else [rev acc])"
| "splitlines_acc acc (c # cs) = (if line_break c
     then rev acc # (if of_char c = (13::nat) \<and> cs \<noteq> [] \<and> of_char (hd cs) = (10::nat)
                     then splitlines_acc [] (tl cs) else splitlines_acc [] cs)
     else splitlines_acc (c # acc) cs)"

definition splitlines :: "string \<Rightarrow> string list" where
  "splitlines s = splitlines_acc [] s"

definition digit_char :: "nat \<Rightarrow> char" where
  "digit_char n = char_of (48 + n)"

fun nat_str :: "nat \<Rightarrow> string" where
  "nat_str n = (if n < 10 then [digit_char n] else nat_str (n div 10) @ [digit_char (n mod 10)])"

declare nat_str.simps [simp del]

definition int_str :: "int \<Rightarrow> string" where
  "int_str i = (if i < 0 then ''-'' @ nat_str (nat (- i)) else nat_str (nat i))"

subsection \<open>Results\<close>

text \<open>Exceptions: the domain's security violation, and those of the Python library by name.\<close>

datatype exc = SecurityViolation string | PyExc string

text \<open>Rules for programs that raise: the left injection propagates.\<close>

definition rbind :: "('e + 'a) \<Rightarrow> ('a \<Rightarrow> 'e + 'b) \<Rightarrow> 'e + 'b" where
  "rbind r f = (case r of Inl e \<Rightarrow> Inl e | Inr a \<Rightarrow> f a)"

lemma rbind_Inl [result_simps, simp]: "rbind (Inl e) f = Inl e"
  by (simp add: rbind_def)

lemma rbind_Inr [result_simps, simp]: "rbind (Inr a) f = f a"
  by (simp add: rbind_def)

lemma rbind_Inr_iff [result_simps]: "rbind r f = Inr b \<longleftrightarrow> (\<exists>a. r = Inr a \<and> f a = Inr b)"
  by (cases r) auto

lemma rbind_Inl_iff [result_simps]:
  "rbind r f = Inl e \<longleftrightarrow> r = Inl e \<or> (\<exists>a. r = Inr a \<and> f a = Inl e)"
  by (cases r) auto

lemma ex_Inr_isl [simp]: "(\<exists>a. r = Inr a) \<longleftrightarrow> \<not> isl r"
  by (cases r) auto

lemma not_islE: "\<not> isl r \<Longrightarrow> (\<And>a. r = Inr a \<Longrightarrow> P) \<Longrightarrow> P"
  by (cases r) auto

lemma isl_rbind [simp]: "isl (rbind r f) \<longleftrightarrow> isl r \<or> (\<exists>a. r = Inr a \<and> isl (f a))"
  by (cases r) auto

text \<open>The message of an exception; that of a Python exception is its name. Iterating a value: the
  elements of a list, the characters of a string, the keys of a dict. What a value that is no dict
  raises when a key is tested, then read, else looked up with get.\<close>

definition exc_message :: "exc \<Rightarrow> string" where
  "exc_message e = (case e of SecurityViolation s \<Rightarrow> s | PyExc s \<Rightarrow> s)"

definition py_iter :: "pyval \<Rightarrow> exc + pyval list" where
  "py_iter v = (case v of PList vs \<Rightarrow> Inr vs | PStr s \<Rightarrow> Inr (map (\<lambda>c. PStr [c]) s)
     | PDict d \<Rightarrow> Inr (map (\<lambda>(k, x). PStr k) d) | _ \<Rightarrow> Inl (PyExc ''TypeError''))"

definition key_error :: "string \<Rightarrow> pyval \<Rightarrow> exc" where
  "key_error key v = (case v of
     PStr s \<Rightarrow> PyExc (if contains s key then ''TypeError'' else ''AttributeError'')
   | PList vs \<Rightarrow> PyExc (if PStr key \<in> set vs then ''TypeError'' else ''AttributeError'')
   | _ \<Rightarrow> PyExc ''TypeError'')"

subsection \<open>Interfaces\<close>

text \<open>A store addressed by keys: what a component that keeps values under
  keys may assume of it. A store with an invariant keeps it on every write.\<close>

locale keyed_store =
  fixes get :: "'s \<Rightarrow> 'k \<Rightarrow> 'v option"
    and put :: "'k \<Rightarrow> 'v \<Rightarrow> 's \<Rightarrow> 's"
    and inv :: "'s \<Rightarrow> bool"
  assumes get_put: "inv s \<Longrightarrow> get (put k v s) k' = (if k' = k then Some v else get s k')"
    and inv_put: "inv s \<Longrightarrow> inv (put k v s)"
begin

fun put_all :: "('k \<times> 'v) list \<Rightarrow> 's \<Rightarrow> 's" where
  "put_all [] s = s"
| "put_all (p # ps) s = put_all ps (put (fst p) (snd p) s)"

lemma get_same: "inv s \<Longrightarrow> get (put k v s) k = Some v"
  by (simp add: get_put)

lemma get_other: "inv s \<Longrightarrow> k' \<noteq> k \<Longrightarrow> get (put k v s) k' = get s k'"
  by (simp add: get_put)

lemma inv_put_all: "inv s \<Longrightarrow> inv (put_all ps s)"
  by (induction ps arbitrary: s) (auto simp: inv_put)

lemma get_put_all:
  "inv s \<Longrightarrow> get (put_all ps s) k = (case map_of (rev ps) k of None \<Rightarrow> get s k | Some v \<Rightarrow> Some v)"
  by (induction ps arbitrary: s) (auto simp: inv_put get_put map_add_def split: option.splits)

lemma put_put: "inv s \<Longrightarrow> get (put k v (put k w s)) = get (put k v s)"
  by (rule ext) (simp add: get_put inv_put)

end

interpretation dict: keyed_store dget dput "\<lambda>d. distinct (map fst d)"
  by unfold_locales (auto simp: distinct_update)

text \<open>A FIFO queue, seen through the list of its elements.\<close>

locale fifo_queue =
  fixes enq :: "'a \<Rightarrow> 'q \<Rightarrow> 'q"
    and deq :: "'q \<Rightarrow> ('a \<times> 'q) option"
    and content :: "'q \<Rightarrow> 'a list"
  assumes content_enq: "content (enq x q) = content q @ [x]"
    and deq_None: "deq q = None \<longleftrightarrow> content q = []"
    and deq_Some: "deq q = Some (x, q') \<Longrightarrow> content q = x # content q'"
begin

fun enq_all :: "'a list \<Rightarrow> 'q \<Rightarrow> 'q" where
  "enq_all [] q = q"
| "enq_all (x # xs) q = enq_all xs (enq x q)"

text \<open>At most n elements, oldest first.\<close>

fun drain :: "nat \<Rightarrow> 'q \<Rightarrow> 'a list \<times> 'q" where
  "drain 0 q = ([], q)"
| "drain (Suc n) q = (case deq q of None \<Rightarrow> ([], q)
     | Some (x, q') \<Rightarrow> (case drain n q' of (xs, q'') \<Rightarrow> (x # xs, q'')))"

lemma content_enq_all: "content (enq_all xs q) = content q @ xs"
  by (induction xs arbitrary: q) (auto simp: content_enq)

lemma drain_content:
  "content q = fst (drain n q) @ content (snd (drain n q)) \<and> fst (drain n q) = take n (content q)"
proof (induction n arbitrary: q)
  case (Suc n)
  show ?case
  proof (cases "deq q")
    case None
    then show ?thesis using deq_None[of q] by simp
  next
    case (Some p)
    obtain x q1 where p: "p = (x, q1)" by (cases p)
    have c: "content q = x # content q1" using Some p deq_Some by simp
    have d: "drain (Suc n) q = (x # fst (drain n q1), snd (drain n q1))"
      using Some p by (simp add: split_beta)
    show ?thesis
      using Suc.IH[of q1, THEN conjunct1, symmetric] Suc.IH[of q1, THEN conjunct2] unfolding c d by simp
  qed
qed simp

lemma drain_enq_all:
  assumes "content q = []" and "length xs \<le> n"
  shows "fst (drain n (enq_all xs q)) = xs"
proof -
  have c: "content (enq_all xs q) = xs" using assms(1) by (simp add: content_enq_all)
  have "fst (drain n (enq_all xs q)) = take n (content (enq_all xs q))"
    using drain_content[of "enq_all xs q" n] by blast
  then show ?thesis unfolding c using assms(2) by simp
qed

end

end
