(* ===== verification/Models.thy ===== *)
theory Models
  imports Prelude
begin

text \<open>The data the components exchange: the catalog entries and policies of
  cys_core/domain/catalog/models.py, the worker job types of
  cys_core/domain/workers/models.py, the run context of
  cys_core/domain/runs/models.py and the schema-guided reasoning policy of
  cys_core/domain/reasoning/sgr_models.py.\<close>

definition DEFAULT_PROFILE_ID :: string where
  "DEFAULT_PROFILE_ID = ''cybersec-soc''"

subsection \<open>Reasoning and runs\<close>

datatype sgr_mode = Sgr_off | Sgr_hybrid | Sgr_iron

record sgr_policy =
  sgr_enabled :: bool
  sgr_mode_of :: sgr_mode
  sgr_require_before_action :: bool

definition SgrPolicy :: sgr_policy where
  "SgrPolicy = \<lparr>sgr_enabled = False, sgr_mode_of = Sgr_off, sgr_require_before_action = True\<rparr>"

datatype interaction_mode = PLAN | ASK | AGENT | DEBUG

datatype context_kind = JOB | EVENT | INVESTIGATION | SESSION | BATCH | STREAM

fun kind_value :: "context_kind \<Rightarrow> string" where
  "kind_value JOB = ''job''"
| "kind_value EVENT = ''event''"
| "kind_value INVESTIGATION = ''investigation''"
| "kind_value SESSION = ''session''"
| "kind_value BATCH = ''batch''"
| "kind_value STREAM = ''stream''"

definition build_correlation_key :: "context_kind \<Rightarrow> string \<Rightarrow> string" where
  "build_correlation_key kind cid = kind_value kind @ '':'' @ cid"

subsection \<open>Workers\<close>

datatype job_status = PENDING | RUNNING | AWAITING_APPROVAL | COMPLETED | FAILED

record persona_budget =
  bud_max_tokens :: int
  bud_max_cost_usd :: rat
  bud_max_tool_calls :: int

definition DEFAULT_BUDGET :: persona_budget where
  "DEFAULT_BUDGET = \<lparr>bud_max_tokens = 40000, bud_max_cost_usd = 2, bud_max_tool_calls = 50\<rparr>"

record worker_job =
  job_id :: string
  job_event_id :: string
  job_persona :: string
  job_playbook_id :: string
  job_payload :: payload
  job_correlation_id :: string
  job_tenant_id :: string
  job_status :: job_status
  job_sandbox_id :: string
  job_feedback :: string
  job_depends_on :: string
  job_max_tokens :: int
  job_max_cost_usd :: rat
  job_max_tool_calls :: int

record hitl_action =
  ha_job_id :: string
  ha_session_id :: string
  ha_persona :: string
  ha_tool_name :: string
  ha_tool_args :: payload
  ha_risk_level :: string
  ha_approval_id :: string

record resume_request =
  rr_decision :: string
  rr_edited_args :: payload
  rr_approval_id :: string
  rr_actor :: string

record run_result =
  res_job_id :: string
  res_persona :: string
  res_success :: bool
  res_finding :: payload
  res_error :: string
  res_sandbox_id :: string

subsection \<open>Run contexts\<close>

record run_context =
  ctx_id :: string
  ctx_kind :: context_kind
  ctx_tenant_id :: string
  ctx_parent_id :: "string option"
  ctx_parent_kind :: "context_kind option"
  ctx_mode :: "interaction_mode option"
  ctx_profile_id :: string
  ctx_spawn_depth :: int
  ctx_correlation_key :: string

text \<open>The validator that runs after construction fills an empty key.\<close>

definition fill_correlation_key :: "run_context \<Rightarrow> run_context" where
  "fill_correlation_key c = (if ctx_correlation_key c = []
     then c\<lparr>ctx_correlation_key := build_correlation_key (ctx_kind c) (ctx_id c)\<rparr> else c)"

definition RunContext :: "string \<Rightarrow> context_kind \<Rightarrow> run_context" where
  "RunContext cid kind = \<lparr>ctx_id = cid, ctx_kind = kind, ctx_tenant_id = ''default'',
     ctx_parent_id = None, ctx_parent_kind = None, ctx_mode = None,
     ctx_profile_id = ''cybersec-soc'', ctx_spawn_depth = 0, ctx_correlation_key = []\<rparr>"

definition spawn_child :: "run_context \<Rightarrow> string \<Rightarrow> run_context" where
  "spawn_child c child_id = fill_correlation_key
     ((RunContext child_id JOB)\<lparr>ctx_tenant_id := ctx_tenant_id c,
        ctx_parent_id := Some (ctx_id c), ctx_parent_kind := Some (ctx_kind c),
        ctx_mode := ctx_mode c, ctx_profile_id := ctx_profile_id c,
        ctx_spawn_depth := ctx_spawn_depth c + 1\<rparr>)"

definition from_session_id ::
  "string \<Rightarrow> string \<Rightarrow> interaction_mode option \<Rightarrow> string \<Rightarrow> run_context" where
  "from_session_id sid tenant mode profile = fill_correlation_key
     ((RunContext sid SESSION)\<lparr>ctx_tenant_id := tenant, ctx_mode := mode, ctx_profile_id := profile\<rparr>)"

definition one_shot_job ::
  "string \<Rightarrow> string \<Rightarrow> interaction_mode option \<Rightarrow> string \<Rightarrow> run_context" where
  "one_shot_job jid tenant mode profile = fill_correlation_key
     ((RunContext jid JOB)\<lparr>ctx_tenant_id := tenant, ctx_mode := mode, ctx_profile_id := profile\<rparr>)"

definition is_stateful :: "run_context \<Rightarrow> bool" where
  "is_stateful c = (ctx_kind c = SESSION \<or> ctx_kind c = INVESTIGATION)"

text \<open>int(job.payload.get(''spawn_depth'', 0)): ints and booleans convert, a
  float is truncated towards zero, a string of digits is read; everything else
  raises (the left result).\<close>

fun read_digits :: "int \<Rightarrow> bool \<Rightarrow> string \<Rightarrow> int option" where
  "read_digits acc digit_before [] = (if digit_before then Some acc else None)"
| "read_digits acc digit_before (c # cs) = (let n = (of_char c :: int) in
     if 48 \<le> n \<and> n \<le> 57 then read_digits (10 * acc + (n - 48)) True cs
     else if c = CHR ''_'' \<and> digit_before then read_digits acc False cs
     else None)"

fun int_of_str :: "string \<Rightarrow> int option" where
  "int_of_str [] = None"
| "int_of_str (c # cs) =
    (if c = CHR ''-'' then map_option uminus (read_digits 0 False cs)
     else if c = CHR ''+'' then read_digits 0 False cs
     else read_digits 0 False (c # cs))"

definition py_int :: "pyval \<Rightarrow> string + int" where
  "py_int v = (case v of
      PInt i \<Rightarrow> Inr i
    | PBool b \<Rightarrow> Inr (if b then 1 else 0)
    | PFloat r \<Rightarrow> Inr (if r \<ge> 0 then \<lfloor>r\<rfloor> else \<lceil>r\<rceil>)
    | PStr s \<Rightarrow> (case int_of_str (strip s) of None \<Rightarrow> Inl ''ValueError'' | Some n \<Rightarrow> Inr n)
    | _ \<Rightarrow> Inl ''TypeError'')"

definition from_job :: "worker_job \<Rightarrow> string + run_context" where
  "from_job job = rbind (py_int (get_or (job_payload job) ''spawn_depth'' (PInt 0)))
     (\<lambda>depth. let parent = job_correlation_id job in
        Inr (fill_correlation_key ((RunContext (job_id job) JOB)\<lparr>
          ctx_tenant_id := job_tenant_id job,
          ctx_parent_id := (if parent \<noteq> [] \<and> parent \<noteq> job_id job then Some parent else None),
          ctx_parent_kind := (if parent \<noteq> [] then Some EVENT else None),
          ctx_spawn_depth := depth\<rparr>)))"

subsection \<open>Catalog entries and policies\<close>

datatype catalog_source = FILESYSTEM | API | SEED

datatype staging_status = DRAFT | VETTED | BUILTIN

record persona_quality =
  pq_empirical_trust :: rat
  pq_critic_pass_rate :: rat
  pq_trace_critic_pass_rate :: rat
  pq_hitl_rate :: rat
  pq_avg_cost_usd :: rat
  pq_job_success_rate :: rat
  pq_sample_size :: int
  pq_last_evaluated_at :: "time option"

definition PersonaQuality :: persona_quality where
  "PersonaQuality = \<lparr>pq_empirical_trust = 3/4, pq_critic_pass_rate = 0, pq_trace_critic_pass_rate = 0,
     pq_hitl_rate = 0, pq_avg_cost_usd = 0, pq_job_success_rate = 0, pq_sample_size = 0,
     pq_last_evaluated_at = None\<rparr>"

record plan_quality =
  plq_match_count :: int
  plq_false_positive_rate :: rat
  plq_avg_jobs_per_event :: rat

record skill_quality =
  usage_count :: int
  load_errors :: int

record trace_critic_policy =
  tc_enabled :: bool
  tc_threshold :: rat
  tc_every_n_steps :: int
  tc_rerun_max :: int
  tc_hitl_on_exhausted :: bool
  tc_use_reasoning :: bool

definition TraceCriticPolicy :: trace_critic_policy where
  "TraceCriticPolicy = \<lparr>tc_enabled = True, tc_threshold = 55/100, tc_every_n_steps = 3,
     tc_rerun_max = 2, tc_hitl_on_exhausted = True, tc_use_reasoning = False\<rparr>"

record anomaly_policy =
  an_tool_calls_per_minute :: int
  an_failed_tool_calls :: int
  an_injection_attempts :: int
  an_sensitive_data_access :: int

definition AnomalyPolicy :: anomaly_policy where
  "AnomalyPolicy = \<lparr>an_tool_calls_per_minute = 30, an_failed_tool_calls = 5,
     an_injection_attempts = 1, an_sensitive_data_access = 3\<rparr>"

record quality_signals =
  qs_job_success :: rat
  qs_job_failure :: rat
  qs_trace_critic_pass :: rat
  qs_trace_critic_fail :: rat
  qs_hitl_pause :: rat
  qs_bus_failure :: rat
  qs_ema_alpha :: rat

definition QualitySignals :: quality_signals where
  "QualitySignals = \<lparr>qs_job_success = 85/100, qs_job_failure = 35/100,
     qs_trace_critic_pass = 8/10, qs_trace_critic_fail = 4/10, qs_hitl_pause = 5/10,
     qs_bus_failure = 25/100, qs_ema_alpha = 15/100\<rparr>"

record mode_policy =
  mp_read_only_tools :: "string list"
  mp_plan_blocked_tools :: "string list"
  mp_mutating_tools :: "string list"

definition ModePolicyPayload :: mode_policy where
  "ModePolicyPayload = \<lparr>mp_read_only_tools = [], mp_plan_blocked_tools = [],
     mp_mutating_tools = [''spawn_worker'', ''update_todos'']\<rparr>"

record profile_policy =
  pol_trust_floor :: rat
  pol_bus_policy :: "string list dict"
  pol_breaker_failure_threshold :: int
  pol_breaker_reset_seconds :: int
  pol_tool_allowlist :: "string list option dict"
  pol_tool_risk :: "string dict"
  pol_hitl_auto_approve_threshold :: string
  pol_mode_policy :: mode_policy
  pol_escalation_paths :: "string list list"
  pol_max_spawn_depth :: int
  pol_cost_per_1k_tokens_usd :: rat
  pol_delegate_budget_fraction :: rat
  pol_trace_critic :: trace_critic_policy
  pol_anomaly :: anomaly_policy
  pol_quality_signals :: quality_signals
  pol_notify_control_severities :: "string list"
  pol_sgr :: sgr_policy

definition ProfilePolicyPayload :: profile_policy where
  "ProfilePolicyPayload = \<lparr>pol_trust_floor = 1/2, pol_bus_policy = [], pol_breaker_failure_threshold = 5,
     pol_breaker_reset_seconds = 60, pol_tool_allowlist = [], pol_tool_risk = [],
     pol_hitl_auto_approve_threshold = ''low'', pol_mode_policy = ModePolicyPayload,
     pol_escalation_paths = [], pol_max_spawn_depth = 5, pol_cost_per_1k_tokens_usd = 3/1000,
     pol_delegate_budget_fraction = 35/100, pol_trace_critic = TraceCriticPolicy,
     pol_anomaly = AnomalyPolicy, pol_quality_signals = QualitySignals,
     pol_notify_control_severities = [''high'', ''critical''], pol_sgr = SgrPolicy\<rparr>"

record agent_entry =
  ag_name :: string
  ag_description :: string
  ag_role :: string
  ag_output_schema :: "string option"
  ag_tools :: "string list"
  ag_skills :: "string list"
  ag_capabilities :: "string list"
  ag_hitl_tools :: "bool dict"
  ag_trust_level :: string
  ag_bus_recipients :: "string list"
  ag_system_prompt :: string
  ag_system_prompt_digest :: string
  ag_profile_id :: string
  ag_version :: int
  ag_version_tag :: string
  ag_source :: catalog_source
  ag_enabled :: bool
  ag_tags :: "string list"
  ag_quality :: persona_quality
  ag_budget_max_tokens :: "int option"
  ag_budget_max_cost_usd :: "rat option"
  ag_budget_max_tool_calls :: "int option"
  ag_data_clearance :: string
  ag_updated_at :: time

definition AgentCatalogEntry :: "string \<Rightarrow> time \<Rightarrow> agent_entry" where
  "AgentCatalogEntry name now = \<lparr>ag_name = name, ag_description = [], ag_role = ''worker'',
     ag_output_schema = None, ag_tools = [], ag_skills = [], ag_capabilities = [],
     ag_hitl_tools = [], ag_trust_level = ''internal'', ag_bus_recipients = [],
     ag_system_prompt = [], ag_system_prompt_digest = [], ag_profile_id = DEFAULT_PROFILE_ID,
     ag_version = 1, ag_version_tag = [], ag_source = FILESYSTEM, ag_enabled = True,
     ag_tags = [], ag_quality = PersonaQuality, ag_budget_max_tokens = None,
     ag_budget_max_cost_usd = None, ag_budget_max_tool_calls = None,
     ag_data_clearance = ''internal'', ag_updated_at = now\<rparr>"

record skill_entry =
  sk_id :: string
  sk_profile_id :: string
  sk_name :: string
  sk_description :: string
  sk_body :: string
  sk_content_hash :: string
  sk_trust_tier :: string
  sk_staging_status :: staging_status
  sk_enabled :: bool
  sk_version :: int
  sk_quality :: skill_quality
  sk_source :: catalog_source
  sk_updated_at :: time

record plan_entry =
  pl_id :: string
  pl_profile_id :: string
  pl_name :: string
  pl_description :: string
  pl_rules :: "payload list"
  pl_enabled :: bool
  pl_active :: bool
  pl_version :: int
  pl_quality :: plan_quality
  pl_source :: catalog_source
  pl_updated_at :: time

record mcp_server_entry =
  mcp_id :: string
  mcp_url :: string
  mcp_trust_tier :: string
  mcp_allowed_tools :: "string list"
  mcp_enabled :: bool
  mcp_health_status :: string
  mcp_profile_id :: string
  mcp_updated_at :: time

record profile_pack =
  pk_id :: string
  pk_name :: string
  pk_description :: string
  pk_default_personas :: "string list"
  pk_default_skills :: "string list"
  pk_default_plan :: string
  pk_global_rules :: string
  pk_hints_template :: string
  pk_policy :: profile_policy

record tool_entry =
  tl_id :: string
  tl_profile_id :: string
  tl_name :: string
  tl_description :: string
  tl_risk_tier :: string
  tl_handler :: string
  tl_enabled :: bool
  tl_source :: catalog_source
  tl_updated_at :: time

text \<open>resolve_profile_id: the explicit id, then a truthy profile_id of the
  payload (its string form is a parameter, str), then the one of a catalog entry.\<close>

definition resolve_profile_id ::
  "(pyval \<Rightarrow> string) \<Rightarrow> string option \<Rightarrow> payload option \<Rightarrow> string option \<Rightarrow> string" where
  "resolve_profile_id str explicit payload catalog_entry = (
     let from_payload = (case payload of None \<Rightarrow> None
           | Some d \<Rightarrow> (case dget d ''profile_id'' of Some v \<Rightarrow> if truthy v then Some (str v) else None
                       | None \<Rightarrow> None)) in
     case explicit of
       Some (c # cs) \<Rightarrow> c # cs
     | _ \<Rightarrow> (case from_payload of
         Some p \<Rightarrow> p
       | None \<Rightarrow> (case catalog_entry of Some (c # cs) \<Rightarrow> c # cs | _ \<Rightarrow> DEFAULT_PROFILE_ID)))"

fun mode_value :: "interaction_mode \<Rightarrow> string" where
  "mode_value PLAN = ''plan''"
| "mode_value ASK = ''ask''"
| "mode_value AGENT = ''agent''"
| "mode_value DEBUG = ''debug''"

definition context_dump :: "run_context \<Rightarrow> pyval" where
  "context_dump c = (let opt = (\<lambda>f x. case x of None \<Rightarrow> PNone | Some y \<Rightarrow> PStr (f y)) in
     PDict [(''context_id'', PStr (ctx_id c)), (''kind'', PStr (kind_value (ctx_kind c))),
     (''tenant_id'', PStr (ctx_tenant_id c)), (''parent_context_id'', opt id (ctx_parent_id c)),
     (''parent_kind'', case ctx_parent_kind c of None \<Rightarrow> PNone | Some k \<Rightarrow> PStr (kind_value k)),
     (''mode'', case ctx_mode c of None \<Rightarrow> PNone | Some m \<Rightarrow> PStr (mode_value m)),
     (''profile_id'', PStr (ctx_profile_id c)), (''spawn_depth'', PInt (ctx_spawn_depth c)),
     (''correlation_key'', PStr (ctx_correlation_key c))])"

end
