(* ===== verification/Risk_Policy.thy ===== *)
theory Risk_Policy
  imports Models
begin

text \<open>Risk levels and the pure policy functions: cys_core/domain/security/risk_level.py,
  risk.py and profile_tools.py, cys_core/domain/policy/defaults.py and pure.py,
  cys_core/domain/runs/mode_policy.py and the policy loader of
  cys_core/infrastructure/catalog/profile_policy.py. A catalog read that may
  raise is a sum; the code catches everything and falls back.\<close>

subsection \<open>Risk levels\<close>

datatype risk_level = LOW | MEDIUM | HIGH | CRITICAL

fun risk_value :: "risk_level \<Rightarrow> string" where
  "risk_value LOW = ''low''"
| "risk_value MEDIUM = ''medium''"
| "risk_value HIGH = ''high''"
| "risk_value CRITICAL = ''critical''"

text \<open>The index in the list [LOW, MEDIUM, HIGH, CRITICAL].\<close>

fun risk_index :: "risk_level \<Rightarrow> nat" where
  "risk_index LOW = 0"
| "risk_index MEDIUM = 1"
| "risk_index HIGH = 2"
| "risk_index CRITICAL = 3"

lemma risk_index_inj [simp]: "risk_index a = risk_index b \<longleftrightarrow> a = b"
  by (cases a; cases b) auto

lemma risk_index_nth: "[LOW, MEDIUM, HIGH, CRITICAL] ! risk_index a = a"
  by (cases a) auto

instantiation risk_level :: linorder
begin

definition less_eq_risk_level :: "risk_level \<Rightarrow> risk_level \<Rightarrow> bool" where
  "less_eq_risk_level a b = (risk_index a \<le> risk_index b)"

definition less_risk_level :: "risk_level \<Rightarrow> risk_level \<Rightarrow> bool" where
  "less_risk_level a b = (risk_index a < risk_index b)"

instance
  by standard (auto simp: less_eq_risk_level_def less_risk_level_def)

end

lemmas risk_order = less_eq_risk_level_def less_risk_level_def

text \<open>RiskLevel(value): the member with that value, or ValueError.\<close>

definition RiskLevel :: "string \<Rightarrow> string + risk_level" where
  "RiskLevel v = (if v = ''low'' then Inr LOW else if v = ''medium'' then Inr MEDIUM
     else if v = ''high'' then Inr HIGH else if v = ''critical'' then Inr CRITICAL
     else Inl ''ValueError'')"

lemma RiskLevel_value [simp]: "RiskLevel (risk_value r) = Inr r"
  by (cases r) (simp_all add: RiskLevel_def)

lemma RiskLevel_Inr: "RiskLevel v = Inr r \<Longrightarrow> v = risk_value r"
  by (auto simp: RiskLevel_def split: if_splits)

text \<open>RiskLevel is a subclass of str and overrides only <= and
  >=: the inherited < compares the values as strings.\<close>

definition risk_le :: "risk_level \<Rightarrow> risk_level \<Rightarrow> bool" where
  "risk_le a b = (risk_index a \<le> risk_index b)"

definition risk_ge :: "risk_level \<Rightarrow> risk_level \<Rightarrow> bool" where
  "risk_ge a b = (risk_index a \<ge> risk_index b)"

definition risk_str_lt :: "risk_level \<Rightarrow> risk_level \<Rightarrow> bool" where
  "risk_str_lt a b = (risk_value a < risk_value b)"

lemma risk_le_iff [simp]: "risk_le a b \<longleftrightarrow> a \<le> b"
  by (simp add: risk_le_def risk_order)

lemma risk_ge_iff [simp]: "risk_ge a b \<longleftrightarrow> b \<le> a"
  by (simp add: risk_ge_def risk_order)

definition SEVERITY_RISK :: "risk_level dict" where
  "SEVERITY_RISK = [(''critical'', CRITICAL), (''high'', HIGH), (''medium'', MEDIUM),
     (''low'', LOW), (''info'', LOW), (''informational'', LOW)]"

definition classify_severity :: "string \<Rightarrow> risk_level" where
  "classify_severity severity = get_or SEVERITY_RISK (strip (lower severity)) MEDIUM"

definition parse_threshold :: "string \<Rightarrow> risk_level" where
  "parse_threshold v = (case RiskLevel (lower v) of Inr r \<Rightarrow> r | Inl _ \<Rightarrow> LOW)"

subsection \<open>Defaults\<close>

definition DEFAULT_BUS_POLICY :: "string list dict" where
  "DEFAULT_BUS_POLICY = [(''critic'', [''control'']), (''worker'', [''critic'', ''control''])]"

definition ESCALATION_ONLY_PATHS :: "(string \<times> string) list" where
  "ESCALATION_ONLY_PATHS = [(''soc'', ''redteam''), (''network'', ''redteam''),
     (''intel'', ''redteam''), (''hunter'', ''redteam'')]"

definition MUTATING_TOOLS :: "string list" where
  "MUTATING_TOOLS = [''spawn_worker'', ''update_todos'']"

definition READ_ONLY_TOOLS :: "string list" where
  "READ_ONLY_TOOLS = [''query_siem_readonly'', ''rag_query'', ''playbook_search'',
     ''playbook_get'', ''playbook_for_technique'', ''playbook_procedure'',
     ''playbook_framework'', ''ti_search_in_category'', ''search_personas'',
     ''search_skills'', ''search_tools'', ''read_repo_metadata'', ''parse_sast_report'',
     ''parse_netflow'', ''enrich_ioc'', ''correlate_dns'', ''dedup_alerts'',
     ''build_timeline'', ''correlate_findings'', ''load_skill'', ''web_search'',
     ''read_document'', ''reasoning_check'', ''reasoning_step'', ''vision_analyze'',
     ''search_archived_webpage'']"

definition PLAN_BLOCKED_TOOLS :: "string list" where
  "PLAN_BLOCKED_TOOLS = MUTATING_TOOLS @ [''ask_user'', ''delegate_research'',
     ''python_sandbox'', ''browser_use'', ''plan_tool_calls'']"

definition DEFAULT_MODE_POLICY :: mode_policy where
  "DEFAULT_MODE_POLICY = \<lparr>mp_read_only_tools = sort READ_ONLY_TOOLS,
     mp_plan_blocked_tools = sort PLAN_BLOCKED_TOOLS, mp_mutating_tools = sort MUTATING_TOOLS\<rparr>"

definition ACTION_RISK_MAPPING :: "string dict" where
  "ACTION_RISK_MAPPING = [(''parse_netflow'', ''low''), (''enrich_ioc'', ''low''), (''correlate_dns'', ''low''),
     (''query_siem_readonly'', ''low''), (''rag_query'', ''low''), (''dedup_alerts'', ''low''),
     (''build_timeline'', ''low''), (''correlate_findings'', ''low''),
     (''check_control'', ''low''), (''map_framework'', ''low''), (''audit_evidence'', ''low''),
     (''read_repo_metadata'', ''low''), (''parse_sast_report'', ''low''),
     (''web_search'', ''low''), (''read_document'', ''low''),
     (''search_archived_webpage'', ''low''), (''vision_analyze'', ''medium''),
     (''reasoning_check'', ''low''), (''reasoning_step'', ''low''),
     (''extract_structured_output'', ''low''), (''search_personas'', ''low''),
     (''search_skills'', ''low''), (''search_tools'', ''low''), (''ask_user'', ''low''),
     (''load_skill'', ''low''), (''update_todos'', ''medium''),
     (''delegate_research'', ''medium''), (''spawn_worker'', ''high''),
     (''plan_tool_calls'', ''medium''), (''create_report_outline'', ''low''),
     (''transcribe_audio'', ''medium''), (''analyze_workflow'', ''medium''),
     (''python_sandbox'', ''high''), (''browser_use'', ''high''), (''write_file'', ''medium''),
     (''run_active_scan'', ''high''), (''execute_command'', ''critical''),
     (''send_email'', ''high''), (''database_delete'', ''critical''),
     (''transfer_funds'', ''critical'')]"

definition PROFILE_TOOL_ALLOWLIST :: "string list option dict" where
  "PROFILE_TOOL_ALLOWLIST = [(DEFAULT_PROFILE_ID, None),
     (''gaia-bench'', Some [''web_search'', ''read_document'', ''reasoning_check'', ''extract_structured_output'',
     ''delegate_research'', ''python_sandbox'', ''vision_analyze'', ''search_archived_webpage'',
     ''plan_tool_calls'', ''browser_use'', ''transcribe_audio'', ''load_skill'',
     ''search_personas'', ''search_skills'', ''search_tools'', ''update_todos'', ''ask_user'']),
     (''general'', Some [''search_personas'', ''search_skills'', ''search_tools'', ''update_todos'', ''ask_user'',
     ''web_search'', ''read_document'', ''reasoning_check'', ''extract_structured_output'',
     ''delegate_research'', ''load_skill'', ''plan_tool_calls'', ''create_report_outline''])]"

definition PERSONA_BUDGETS :: "persona_budget dict" where
  "PERSONA_BUDGETS = map (\<lambda>(p, t, c). (p, \<lparr>bud_max_tokens = t, bud_max_cost_usd = c, bud_max_tool_calls = 50\<rparr>))
    [(''soc'', 50000, 2), (''network'', 50000, 2), (''compliance'', 40000, 3/2),
     (''redteam'', 80000, 5), (''intel'', 45000, 2), (''hunter'', 55000, 5/2),
     (''identity'', 50000, 2), (''dfir'', 60000, 3), (''cloud'', 50000, 2),
     (''purple'', 45000, 3/2), (''consultant'', 35000, 1), (''conductor'', 60000, 3),
     (''gaia_solver'', 80000, 4), (''research'', 55000, 5/2), (''coding'', 70000, 7/2)]"

datatype data_classification = PUBLIC | INTERNAL | CONFIDENTIAL | RESTRICTED

fun class_value :: "data_classification \<Rightarrow> string" where
  "class_value PUBLIC = ''public''"
| "class_value INTERNAL = ''internal''"
| "class_value CONFIDENTIAL = ''confidential''"
| "class_value RESTRICTED = ''restricted''"

definition DataClassification :: "string \<Rightarrow> string + data_classification" where
  "DataClassification v = (if v = ''public'' then Inr PUBLIC else if v = ''internal'' then Inr INTERNAL
     else if v = ''confidential'' then Inr CONFIDENTIAL
     else if v = ''restricted'' then Inr RESTRICTED else Inl ''ValueError'')"

lemma DataClassification_value [simp]: "DataClassification (class_value c) = Inr c"
  by (cases c) (simp_all add: DataClassification_def)

definition PERSONA_CLEARANCE :: "string dict" where
  "PERSONA_CLEARANCE = [(''soc'', ''confidential''), (''network'', ''confidential''),
     (''compliance'', ''restricted''), (''redteam'', ''confidential''),
     (''intel'', ''confidential''), (''hunter'', ''confidential''),
     (''identity'', ''confidential''), (''dfir'', ''restricted''), (''cloud'', ''confidential''),
     (''purple'', ''internal''), (''consultant'', ''internal''), (''coordinator'', ''restricted''),
     (''critic'', ''internal'')]"

definition default_profile_policy_payload :: profile_policy where
  "default_profile_policy_payload = ProfilePolicyPayload\<lparr>
     pol_tool_allowlist := map (\<lambda>(p, a). (p, map_option sort a)) PROFILE_TOOL_ALLOWLIST,
     pol_tool_risk := ACTION_RISK_MAPPING,
     pol_hitl_auto_approve_threshold := ''low'',
     pol_mode_policy := DEFAULT_MODE_POLICY,
     pol_escalation_paths := map (\<lambda>(a, b). [a, b]) (sort_key (\<lambda>(a, b). [a, b]) ESCALATION_ONLY_PATHS),
     pol_max_spawn_depth := 5,
     pol_cost_per_1k_tokens_usd := 3/1000,
     pol_delegate_budget_fraction := 35/100,
     pol_sgr := SgrPolicy\<rparr>"

definition gaia_profile_policy_payload :: profile_policy where
  "gaia_profile_policy_payload = default_profile_policy_payload\<lparr>
     pol_sgr := SgrPolicy\<lparr>sgr_enabled := True, sgr_mode_of := Sgr_hybrid\<rparr>\<rparr>"

subsection \<open>Pure policy\<close>

text \<open>A frozenset of tool names is a list whose order is not looked at.\<close>

definition classify_tool_risk_pure :: "string \<Rightarrow> profile_policy option \<Rightarrow> string + risk_level" where
  "classify_tool_risk_pure tool_name policy = (
     let dflt = RiskLevel (get_or ACTION_RISK_MAPPING tool_name (risk_value HIGH)) in
     case policy of None \<Rightarrow> dflt
     | Some p \<Rightarrow> (case dget (pol_tool_risk p) tool_name of
           Some (c # cs) \<Rightarrow> RiskLevel (c # cs) | _ \<Rightarrow> dflt))"

definition mode_sets_from_policy ::
  "mode_policy option \<Rightarrow> string list \<times> string list \<times> string list" where
  "mode_sets_from_policy policy = (case policy of
     Some p \<Rightarrow> if mp_read_only_tools p \<noteq> [] \<or> mp_plan_blocked_tools p \<noteq> [] then
         (if mp_read_only_tools p \<noteq> [] then mp_read_only_tools p else READ_ONLY_TOOLS,
          if mp_plan_blocked_tools p \<noteq> [] then mp_plan_blocked_tools p else PLAN_BLOCKED_TOOLS,
          if mp_mutating_tools p \<noteq> [] then mp_mutating_tools p else MUTATING_TOOLS)
       else (READ_ONLY_TOOLS, PLAN_BLOCKED_TOOLS, MUTATING_TOOLS)
   | None \<Rightarrow> (READ_ONLY_TOOLS, PLAN_BLOCKED_TOOLS, MUTATING_TOOLS))"

definition MUTATING_TOOL_PREFIXES :: "string list" where
  "MUTATING_TOOL_PREFIXES = [''run_'', ''write_'', ''spawn_'', ''execute_'']"

definition is_mutating :: "string \<Rightarrow> string list \<Rightarrow> bool" where
  "is_mutating tool_name mutating =
     (tool_name \<in> set mutating \<or> list_ex (startswith tool_name) MUTATING_TOOL_PREFIXES)"

definition allow_tool_pure ::
  "interaction_mode option \<Rightarrow> string \<Rightarrow> mode_policy option \<Rightarrow> bool" where
  "allow_tool_pure mode tool_name policy = (case mode of
     None \<Rightarrow> True
   | Some m \<Rightarrow> (case mode_sets_from_policy (Some (case policy of Some p \<Rightarrow> p | None \<Rightarrow> DEFAULT_MODE_POLICY)) of
       (read_only, plan_blocked, mutating) \<Rightarrow>
         (if m = PLAN then tool_name \<notin> set plan_blocked \<and> \<not> is_mutating tool_name mutating
          else if m = ASK then tool_name \<in> set read_only \<or> startswith tool_name ''search_''
          else True)))"

definition allowlist_for_profile :: "string \<Rightarrow> profile_policy option \<Rightarrow> string list option" where
  "allowlist_for_profile profile_id policy = (
     let dflt = (case dget PROFILE_TOOL_ALLOWLIST profile_id of Some a \<Rightarrow> a | None \<Rightarrow> None) in
     case policy of None \<Rightarrow> dflt
     | Some p \<Rightarrow> (case dget (pol_tool_allowlist p) profile_id of Some a \<Rightarrow> a | None \<Rightarrow> dflt))"

definition filter_tools_pure :: "string list \<Rightarrow> string \<Rightarrow> profile_policy option \<Rightarrow> string list" where
  "filter_tools_pure tool_names profile_id policy =
     (case allowlist_for_profile profile_id policy of
        None \<Rightarrow> tool_names
      | Some allowed \<Rightarrow> filter (\<lambda>name. name \<in> set allowed) tool_names)"

text \<open>x or default on optional numbers: 0 and None give the default.\<close>

definition num_or :: "'a::zero option \<Rightarrow> 'a \<Rightarrow> 'a" where
  "num_or x d = (case x of Some v \<Rightarrow> if v \<noteq> 0 then v else d | None \<Rightarrow> d)"

definition persona_budget_pure :: "string \<Rightarrow> agent_entry option \<Rightarrow> persona_budget" where
  "persona_budget_pure persona entry = (
     let dflt = get_or PERSONA_BUDGETS persona DEFAULT_BUDGET in
     case entry of None \<Rightarrow> dflt
     | Some e \<Rightarrow> if ag_budget_max_tokens e \<noteq> None \<or> ag_budget_max_cost_usd e \<noteq> None then
         \<lparr>bud_max_tokens = num_or (ag_budget_max_tokens e) (bud_max_tokens DEFAULT_BUDGET),
          bud_max_cost_usd = num_or (ag_budget_max_cost_usd e) (bud_max_cost_usd DEFAULT_BUDGET),
          bud_max_tool_calls = num_or (ag_budget_max_tool_calls e) (bud_max_tool_calls DEFAULT_BUDGET)\<rparr>
       else dflt)"

definition persona_clearance_pure :: "string \<Rightarrow> agent_entry option \<Rightarrow> string + data_classification" where
  "persona_clearance_pure persona entry = (
     let dflt = DataClassification (get_or PERSONA_CLEARANCE persona (class_value INTERNAL)) in
     case entry of None \<Rightarrow> dflt
     | Some e \<Rightarrow> if ag_data_clearance e \<noteq> [] then DataClassification (ag_data_clearance e) else dflt)"

subsection \<open>The policy loader and its callers\<close>

text \<open>catalog.list_profiles() either raises or gives the profile packs. A pack
  without a policy cannot occur: the field has a default.\<close>

type_synonym profiles_read = "string + profile_pack list"

definition get_policy :: "profiles_read \<Rightarrow> string \<Rightarrow> string + profile_policy" where
  "get_policy cat profile_id = rbind cat (\<lambda>profiles.
     Inr (case find (\<lambda>p. pk_id p = profile_id) profiles of
            Some p \<Rightarrow> pk_policy p
          | None \<Rightarrow> default_profile_policy_payload))"

definition get_trust_floor :: "profiles_read \<Rightarrow> string \<Rightarrow> string + rat" where
  "get_trust_floor cat pid = rbind (get_policy cat pid) (\<lambda>p. Inr (pol_trust_floor p))"

definition get_bus_policy :: "profiles_read \<Rightarrow> string \<Rightarrow> string + string list dict" where
  "get_bus_policy cat pid = rbind (get_policy cat pid)
     (\<lambda>p. Inr (if pol_bus_policy p \<noteq> [] then pol_bus_policy p else DEFAULT_BUS_POLICY))"

definition get_breaker_config :: "profiles_read \<Rightarrow> string \<Rightarrow> string + int \<times> int" where
  "get_breaker_config cat pid = rbind (get_policy cat pid)
     (\<lambda>p. Inr (pol_breaker_failure_threshold p, pol_breaker_reset_seconds p))"

fun pair_of :: "string list \<Rightarrow> (string \<times> string) option" where
  "pair_of [a, b] = Some (a, b)"
| "pair_of _ = None"

definition get_escalation_paths :: "profiles_read \<Rightarrow> string \<Rightarrow> string + (string \<times> string) list" where
  "get_escalation_paths cat pid = rbind (get_policy cat pid)
     (\<lambda>p. Inr (if pol_escalation_paths p \<noteq> [] then List.map_filter pair_of (pol_escalation_paths p)
               else ESCALATION_ONLY_PATHS))"

definition get_hitl_threshold :: "profiles_read \<Rightarrow> string \<Rightarrow> string + string" where
  "get_hitl_threshold cat pid = rbind (get_policy cat pid) (\<lambda>p. Inr (pol_hitl_auto_approve_threshold p))"

definition get_max_spawn_depth :: "profiles_read \<Rightarrow> string \<Rightarrow> string + int" where
  "get_max_spawn_depth cat pid = rbind (get_policy cat pid) (\<lambda>p. Inr (pol_max_spawn_depth p))"

definition get_cost_per_1k_tokens :: "profiles_read \<Rightarrow> string \<Rightarrow> string + rat" where
  "get_cost_per_1k_tokens cat pid = rbind (get_policy cat pid) (\<lambda>p. Inr (pol_cost_per_1k_tokens_usd p))"

definition get_notify_control_severities :: "profiles_read \<Rightarrow> string \<Rightarrow> string + string list" where
  "get_notify_control_severities cat pid =
     rbind (get_policy cat pid) (\<lambda>p. Inr (pol_notify_control_severities p))"

definition get_default_personas :: "profiles_read \<Rightarrow> string \<Rightarrow> string + string list option" where
  "get_default_personas cat pid = rbind cat (\<lambda>profiles.
     Inr (map_option pk_default_personas
       (find (\<lambda>p. pk_id p = pid \<and> pk_default_personas p \<noteq> []) profiles)))"

definition classify_tool_risk :: "profiles_read \<Rightarrow> string \<Rightarrow> string option \<Rightarrow> string + risk_level" where
  "classify_tool_risk cat tool_name profile_id = (case profile_id of
     Some (c # cs) \<Rightarrow>
       (case rbind (get_policy cat (c # cs)) (\<lambda>p. classify_tool_risk_pure tool_name (Some p)) of
          Inr r \<Rightarrow> Inr r
        | Inl _ \<Rightarrow> classify_tool_risk_pure tool_name None)
   | _ \<Rightarrow> classify_tool_risk_pure tool_name None)"

definition filter_tools_for_profile ::
  "profiles_read \<Rightarrow> string list \<Rightarrow> string \<Rightarrow> profile_policy option \<Rightarrow> string list" where
  "filter_tools_for_profile cat tool_names profile_id policy = (
     let effective = (case policy of Some p \<Rightarrow> Some p
           | None \<Rightarrow> (case get_policy cat profile_id of Inr p \<Rightarrow> Some p | Inl _ \<Rightarrow> None))
     in filter_tools_pure tool_names profile_id effective)"

definition ModePolicy_allow_tool ::
  "profiles_read \<Rightarrow> interaction_mode option \<Rightarrow> string \<Rightarrow> string option \<Rightarrow> mode_policy option \<Rightarrow> bool" where
  "ModePolicy_allow_tool cat mode tool_name profile_id policy = (case policy of
     Some p \<Rightarrow> allow_tool_pure mode tool_name (Some p)
   | None \<Rightarrow> (case profile_id of
       Some (c # cs) \<Rightarrow> (case get_policy cat (c # cs) of
           Inr p \<Rightarrow> allow_tool_pure mode tool_name (Some (pol_mode_policy p))
         | Inl _ \<Rightarrow> allow_tool_pure mode tool_name (Some DEFAULT_MODE_POLICY))
     | _ \<Rightarrow> allow_tool_pure mode tool_name (Some DEFAULT_MODE_POLICY)))"

definition allow_bus_message :: "interaction_mode option \<Rightarrow> string \<Rightarrow> bool" where
  "allow_bus_message mode message_type = (case mode of
     None \<Rightarrow> True
   | Some m \<Rightarrow> if m = PLAN \<or> m = ASK then message_type \<noteq> ''spawn_worker'' else True)"

definition allow_spawn :: "interaction_mode option \<Rightarrow> bool" where
  "allow_spawn mode = (case mode of None \<Rightarrow> True | Some m \<Rightarrow> m = AGENT \<or> m = DEBUG)"

subsection \<open>The resolver: catalog policy, environment, defaults\<close>

record env_overrides =
  env_trace_critic_threshold :: "rat option"
  env_trace_critic_every_n_steps :: "int option"
  env_trace_critic_rerun_max :: "int option"
  env_delegate_budget_fraction :: "rat option"
  env_max_spawn_depth :: "int option"

record resolver =
  rs_loader :: "profiles_read option"
  rs_env :: env_overrides

definition resolver_policy :: "resolver \<Rightarrow> string \<Rightarrow> profile_policy" where
  "resolver_policy r pid = (case rs_loader r of
     Some cat \<Rightarrow> (case get_policy cat pid of Inr p \<Rightarrow> p | Inl _ \<Rightarrow> default_profile_policy_payload)
   | None \<Rightarrow> default_profile_policy_payload)"

definition env_or :: "'a option \<Rightarrow> 'a \<Rightarrow> 'a" where
  "env_or e d = (case e of Some v \<Rightarrow> v | None \<Rightarrow> d)"

definition resolver_trace_critic_threshold :: "resolver \<Rightarrow> string \<Rightarrow> rat" where
  "resolver_trace_critic_threshold r pid =
     env_or (env_trace_critic_threshold (rs_env r)) (tc_threshold (pol_trace_critic (resolver_policy r pid)))"

definition resolver_trace_critic_every_n :: "resolver \<Rightarrow> string \<Rightarrow> int" where
  "resolver_trace_critic_every_n r pid =
     env_or (env_trace_critic_every_n_steps (rs_env r)) (tc_every_n_steps (pol_trace_critic (resolver_policy r pid)))"

definition resolver_trace_critic_rerun_max :: "resolver \<Rightarrow> string \<Rightarrow> int" where
  "resolver_trace_critic_rerun_max r pid =
     env_or (env_trace_critic_rerun_max (rs_env r)) (tc_rerun_max (pol_trace_critic (resolver_policy r pid)))"

definition resolver_delegate_budget_fraction :: "resolver \<Rightarrow> string \<Rightarrow> rat" where
  "resolver_delegate_budget_fraction r pid =
     env_or (env_delegate_budget_fraction (rs_env r)) (pol_delegate_budget_fraction (resolver_policy r pid))"

definition resolver_max_spawn_depth :: "resolver \<Rightarrow> string \<Rightarrow> int" where
  "resolver_max_spawn_depth r pid = (case env_max_spawn_depth (rs_env r) of
     Some v \<Rightarrow> v
   | None \<Rightarrow> (case rs_loader r of
       Some cat \<Rightarrow> (case get_max_spawn_depth cat pid of
           Inr v \<Rightarrow> v | Inl _ \<Rightarrow> pol_max_spawn_depth (resolver_policy r pid))
     | None \<Rightarrow> pol_max_spawn_depth (resolver_policy r pid)))"

definition planner_fallback_personas :: "resolver \<Rightarrow> string \<Rightarrow> string \<Rightarrow> string list" where
  "planner_fallback_personas r pid env_csv = (
     let from_env = (if strip env_csv \<noteq> []
           then map strip (filter (\<lambda>p. strip p \<noteq> []) (py_split CHR '','' env_csv))
           else [''consultant'']) in
     case rs_loader r of
       Some cat \<Rightarrow> (case get_default_personas cat pid of
           Inr (Some (p # ps)) \<Rightarrow> p # ps | _ \<Rightarrow> from_env)
     | None \<Rightarrow> from_env)"

subsection \<open>What the policy functions guarantee\<close>

text \<open>The mode policy a call of allow_tool ends up with: the one given, the one of
  the profile, or the default where the catalog raises.\<close>

definition effective_mode_policy ::
  "profiles_read \<Rightarrow> string option \<Rightarrow> mode_policy option \<Rightarrow> mode_policy" where
  "effective_mode_policy cat profile_id policy = (case policy of
     Some p \<Rightarrow> p
   | None \<Rightarrow> (case profile_id of
       None \<Rightarrow> DEFAULT_MODE_POLICY
     | Some pid \<Rightarrow> if pid = [] then DEFAULT_MODE_POLICY
         else (case get_policy cat pid of Inr p \<Rightarrow> pol_mode_policy p | Inl _ \<Rightarrow> DEFAULT_MODE_POLICY)))"

lemma allow_tool_effective:
  "ModePolicy_allow_tool cat mode tool pid mp
     = allow_tool_pure mode tool (Some (effective_mode_policy cat pid mp))"
  by (auto simp: ModePolicy_allow_tool_def effective_mode_policy_def
      split: option.splits list.splits sum.splits)

lemma allow_tool_None [simp]: "allow_tool_pure None tool p"
  by (simp add: allow_tool_pure_def)

lemma allow_tool_AGENT [simp]: "m = AGENT \<or> m = DEBUG \<Longrightarrow> allow_tool_pure (Some m) tool p"
  by (auto simp: allow_tool_pure_def split: prod.splits)

lemma allow_tool_PLAN:
  "allow_tool_pure (Some PLAN) tool (Some p) \<longleftrightarrow>
     tool \<notin> set (fst (snd (mode_sets_from_policy (Some p))))
     \<and> \<not> is_mutating tool (snd (snd (mode_sets_from_policy (Some p))))"
  by (auto simp: allow_tool_pure_def split: prod.splits)

lemma allow_tool_ASK:
  "allow_tool_pure (Some ASK) tool (Some p) \<longleftrightarrow>
     tool \<in> set (fst (mode_sets_from_policy (Some p))) \<or> startswith tool ''search_''"
  by (auto simp: allow_tool_pure_def split: prod.splits)

lemma is_mutating_prefix:
  "p \<in> set MUTATING_TOOL_PREFIXES \<Longrightarrow> is_mutating (p @ rest) mutating"
  by (auto simp: is_mutating_def list_ex_iff intro!: bexI[of _ p])

lemma is_mutating_iff:
  "is_mutating tool m \<longleftrightarrow> tool \<in> set m \<or>
     (\<exists>p r. p \<in> set [''run_'', ''write_'', ''spawn_'', ''execute_''] \<and> tool = p @ r)"
  unfolding is_mutating_def list_ex_iff MUTATING_TOOL_PREFIXES_def startswith_iff by blast

lemma spawn_worker_mutating [simp]: "is_mutating ''spawn_worker'' mutating"
  using is_mutating_prefix[of "''spawn_''" "''worker''" mutating]
  by (simp add: MUTATING_TOOL_PREFIXES_def)

lemma risk_table_valid: "\<forall>v \<in> snd ` set ACTION_RISK_MAPPING. \<exists>r. RiskLevel v = Inr r"
  by (simp add: ACTION_RISK_MAPPING_def RiskLevel_def)

lemma default_risk_valid: "\<exists>r. RiskLevel (get_or ACTION_RISK_MAPPING tool (risk_value HIGH)) = Inr r"
  using get_or_in[of ACTION_RISK_MAPPING tool "risk_value HIGH"] risk_table_valid RiskLevel_value[of HIGH]
  by (metis insert_iff)

lemma classify_pure_None:
  "tool \<notin> fst ` set ACTION_RISK_MAPPING \<Longrightarrow> classify_tool_risk_pure tool None = Inr HIGH"
  by (simp add: classify_tool_risk_pure_def get_or_def RiskLevel_def map_of_eq_None_iff[symmetric])

lemma classify_pure_None_ok: "\<exists>r. classify_tool_risk_pure tool None = Inr r"
  using default_risk_valid[of tool] by (simp add: classify_tool_risk_pure_def)

lemma classify_tool_risk_ok: "\<exists>r. classify_tool_risk cat tool pid = Inr r"
proof (cases "pid = None \<or> pid = Some []")
  case True
  then show ?thesis using classify_pure_None_ok[of tool] by (auto simp: classify_tool_risk_def)
next
  case False
  then obtain c cs where pid: "pid = Some (c # cs)" by (cases pid) (auto simp: neq_Nil_conv)
  show ?thesis
    using classify_pure_None_ok[of tool]
    by (cases "rbind (get_policy cat (c # cs)) (\<lambda>p. classify_tool_risk_pure tool (Some p))")
      (simp_all add: classify_tool_risk_def pid)
qed

lemma classify_tool_risk_raise: "classify_tool_risk (Inl exc) tool pid = classify_tool_risk_pure tool None"
  by (simp add: classify_tool_risk_def get_policy_def split: option.split list.split)

lemma clearance_table_valid: "\<forall>v \<in> snd ` set PERSONA_CLEARANCE. \<exists>c. DataClassification v = Inr c"
  by (simp add: PERSONA_CLEARANCE_def DataClassification_def)

lemma clearance_valid: "\<exists>c. DataClassification (get_or PERSONA_CLEARANCE p (class_value INTERNAL)) = Inr c"
  using get_or_in[of PERSONA_CLEARANCE p "class_value INTERNAL"] clearance_table_valid
    DataClassification_value[of INTERNAL]
  by (metis insert_iff)

text \<open>In plan mode the three gates in front of a subagent spawn agree: whatever the
  catalog holds (or if reading it raises), whatever profile and mode policy are
  given, spawn_worker is no allowed tool, no allowed bus message, and allow_spawn
  is false.\<close>

theorem plan_mode_never_spawns:
  "ModePolicy_allow_tool cat (Some PLAN) ''spawn_worker'' pid mp = False
   \<and> allow_bus_message (Some PLAN) ''spawn_worker'' = False
   \<and> allow_spawn (Some PLAN) = False"
  by (simp add: allow_tool_effective allow_tool_PLAN allow_bus_message_def allow_spawn_def)

text \<open>In plan mode no tool is allowed whose name starts with run_, write_, spawn_ or
  execute_, nor one on the effective plan_blocked or mutating list; every other tool is.
  A mode policy of a profile replaces the lists but can never lift the prefix rule.\<close>

theorem plan_mode_allows_iff:
  "ModePolicy_allow_tool cat (Some PLAN) tool pid mp \<longleftrightarrow>
     (case mode_sets_from_policy (Some (effective_mode_policy cat pid mp)) of
        (read_only, blocked, mutating) \<Rightarrow>
          tool \<notin> set blocked \<union> set mutating
          \<and> \<not> (\<exists>prefix rest. prefix \<in> set [''run_'', ''write_'', ''spawn_'', ''execute_''] \<and> tool = prefix @ rest))"
  unfolding allow_tool_effective allow_tool_PLAN is_mutating_iff Un_iff split_beta by blast

text \<open>The risk of a tool is always defined: a catalog that raises, or a profile policy
  with a risk string that is no risk level, falls back to the built-in table, and a tool
  the table does not list is HIGH.\<close>

theorem classify_tool_risk_total:
  "(\<exists>r. classify_tool_risk cat tool pid = Inr r)
   \<and> (tool \<notin> fst ` set ACTION_RISK_MAPPING \<longrightarrow> classify_tool_risk (Inl exc) tool pid = Inr HIGH)"
  using classify_tool_risk_ok[of cat tool pid] classify_tool_risk_raise[of exc tool pid]
    classify_pure_None[of tool] by simp

theorem classify_tool_risk_total_witness:
  "classify_tool_risk (Inl ''db down'') ''format_disk'' (Some ''general'') = Inr HIGH"
  by (rule classify_tool_risk_total[THEN conjunct2, rule_format])
    (simp add: ACTION_RISK_MAPPING_def)

end
