(* ===== verification/Agent_Bus.thy ===== *)
theory Agent_Bus
  imports Sanitizer
begin

text \<open>The signed agent-to-agent bus: cys_core/domain/security/agent_bus.py and a2a.py.
  The message digest, the canonical JSON text and the ISO date conversions are
  parameters, fields of the record bus_env; the clock is an argument.\<close>

subsection \<open>Circuit breaker\<close>

record breaker =
  failure_threshold :: int
  recovery_timeout :: int
  failures :: int
  opened_at :: time

definition CircuitBreaker :: "int \<Rightarrow> int \<Rightarrow> breaker" where
  "CircuitBreaker threshold timeout = \<lparr>failure_threshold = threshold, recovery_timeout = timeout,
     failures = 0, opened_at = 0\<rparr>"

text \<open>The property is_open also resets the breaker when the timeout has passed.\<close>

definition is_open :: "time \<Rightarrow> breaker \<Rightarrow> bool \<times> breaker" where
  "is_open now b = (if failures b < failure_threshold b then (False, b)
     else if now - opened_at b \<ge> of_int (recovery_timeout b)
     then (False, b\<lparr>failures := 0, opened_at := 0\<rparr>)
     else (True, b))"

definition record_failure :: "time \<Rightarrow> breaker \<Rightarrow> breaker" where
  "record_failure now b = (let n = failures b + 1 in
     if n \<ge> failure_threshold b then b\<lparr>failures := n, opened_at := now\<rparr> else b\<lparr>failures := n\<rparr>)"

definition record_success :: "breaker \<Rightarrow> breaker" where
  "record_success b = b\<lparr>failures := 0, opened_at := 0\<rparr>"

subsection \<open>Bus state\<close>

datatype trust_level = UNTRUSTED | TRUST_INTERNAL | PRIVILEGED | SYSTEM

fun trust_value :: "trust_level \<Rightarrow> nat" where
  "trust_value UNTRUSTED = 0"
| "trust_value TRUST_INTERNAL = 1"
| "trust_value PRIVILEGED = 2"
| "trust_value SYSTEM = 3"

record agent_info =
  ai_trust_level :: trust_level
  ai_allowed_recipients :: "string list"
  ai_allowed_message_types :: "string list"

record bus =
  bus_signing_key :: string
  agent_registry :: "agent_info dict"
  circuit_breakers :: "breaker dict"
  security_events :: "(string \<times> string dict) list"
  bus_breaker_threshold :: int
  bus_breaker_reset :: int
  bus_escalation_paths :: "(string \<times> string) list"

record bus_env =
  be_detector :: detector
  be_hmac :: "string \<Rightarrow> string \<Rightarrow> string"
  be_canon :: "pyval \<Rightarrow> pyval \<Rightarrow> pyval \<Rightarrow> pyval \<Rightarrow> pyval \<Rightarrow> string"
  be_isoformat :: "time \<Rightarrow> string"
  be_fromisoformat :: "string \<Rightarrow> string + time"

definition SecureAgentBus :: "string \<Rightarrow> profile_policy option \<Rightarrow> bus" where
  "SecureAgentBus key policy = (
     let p = (case policy of Some p \<Rightarrow> p | None \<Rightarrow> default_profile_policy_payload) in
     \<lparr>bus_signing_key = key, agent_registry = [], circuit_breakers = [], security_events = [],
      bus_breaker_threshold = pol_breaker_failure_threshold p,
      bus_breaker_reset = pol_breaker_reset_seconds p,
      bus_escalation_paths = (if pol_escalation_paths p \<noteq> []
        then List.map_filter pair_of (pol_escalation_paths p) else ESCALATION_ONLY_PATHS)\<rparr>)"

definition allowed_types :: "trust_level \<Rightarrow> string list" where
  "allowed_types t = (if trust_value t \<le> trust_value UNTRUSTED then [''finding'']
     else if trust_value t \<ge> trust_value PRIVILEGED then [''finding'', ''escalation'', ''control'', ''report'']
     else [''finding'', ''escalation''])"

definition register_agent :: "string \<Rightarrow> trust_level \<Rightarrow> string list \<Rightarrow> bus \<Rightarrow> bus" where
  "register_agent agent_id trust recipients b = b\<lparr>
     agent_registry := dput agent_id \<lparr>ai_trust_level = trust, ai_allowed_recipients = recipients,
       ai_allowed_message_types = allowed_types trust\<rparr> (agent_registry b),
     circuit_breakers := dput agent_id (CircuitBreaker (bus_breaker_threshold b) (bus_breaker_reset b))
       (circuit_breakers b)\<rparr>"

definition record_agent_failure :: "time \<Rightarrow> string \<Rightarrow> bus \<Rightarrow> bus" where
  "record_agent_failure now agent_id b = (case dget (circuit_breakers b) agent_id of
     None \<Rightarrow> b
   | Some br \<Rightarrow> b\<lparr>circuit_breakers := dput agent_id (record_failure now br) (circuit_breakers b)\<rparr>)"

definition log_event :: "string \<Rightarrow> string dict \<Rightarrow> bus \<Rightarrow> bus" where
  "log_event kind details b = b\<lparr>security_events := security_events b @ [(kind, details)]\<rparr>"

subsection \<open>Sending\<close>

fun bus_items :: "detector \<Rightarrow> pyval list \<Rightarrow> pyval list" where
  "bus_items d [] = []"
| "bus_items d (PStr s # vs) = PStr (filter_untrusted d Src_agent_bus s) # bus_items d vs"
| "bus_items d (v # vs) = v # bus_items d vs"

text \<open>Reserved keys are dropped on every dict level the walk reaches, unless the sender
  is privileged.\<close>

fun bus_sanitize_payload :: "detector \<Rightarrow> trust_level \<Rightarrow> payload \<Rightarrow> payload" where
  "bus_sanitize_payload d t [] = []"
| "bus_sanitize_payload d t ((k, v) # rest) =
     (if trust_value t < trust_value PRIVILEGED \<and> startswith k ''_system''
      then bus_sanitize_payload d t rest
      else (k, case v of
          PStr s \<Rightarrow> PStr (filter_untrusted d Src_agent_bus s)
        | PDict e \<Rightarrow> PDict (bus_sanitize_payload d t e)
        | PList xs \<Rightarrow> PList (bus_items d xs)
        | _ \<Rightarrow> v) # bus_sanitize_payload d t rest)"

definition A2A_PROTOCOL_VERSION :: string where
  "A2A_PROTOCOL_VERSION = ''a2a/1.0''"

definition default_mtls_subject :: "string \<Rightarrow> string" where
  "default_mtls_subject agent_id = ''spiffe://cys-agi/agent/'' @ agent_id"

definition sign_message ::
  "bus_env \<Rightarrow> bus \<Rightarrow> pyval \<Rightarrow> pyval \<Rightarrow> pyval \<Rightarrow> pyval \<Rightarrow> pyval \<Rightarrow> string" where
  "sign_message E b sender recipient message_type payload timestamp =
     be_hmac E (bus_signing_key b) (be_canon E sender recipient message_type payload timestamp)"

definition signed_message ::
  "bus_env \<Rightarrow> time \<Rightarrow> bus \<Rightarrow> string \<Rightarrow> string \<Rightarrow> string \<Rightarrow> payload \<Rightarrow> payload" where
  "signed_message E now b sender recipient message_type sanitized = (
     let ts = PStr (be_isoformat E now) in
     [(''protocol'', PStr A2A_PROTOCOL_VERSION),
      (''sender'', PStr sender),
      (''recipient'', PStr recipient),
      (''type'', PStr message_type),
      (''payload'', PDict sanitized),
      (''timestamp'', ts),
      (''signature'', PStr (sign_message E b (PStr sender) (PStr recipient) (PStr message_type) (PDict sanitized) ts)),
      (''mtls'', PDict [(''required'', PBool True),
        (''sender_subject'', PStr (default_mtls_subject sender)),
        (''recipient_subject'', PStr (default_mtls_subject recipient))])])"

definition send_message ::
  "bus_env \<Rightarrow> time \<Rightarrow> string \<Rightarrow> string \<Rightarrow> string \<Rightarrow> payload \<Rightarrow> bus \<Rightarrow> bus \<times> (exc + payload)" where
  "send_message E now sender recipient message_type payload b = (
     case dget (agent_registry b) sender of
       None \<Rightarrow> (b, Inl (SecurityViolation (''Unknown sender agent: '' @ sender)))
     | Some info \<Rightarrow>
       (let (opened, b1) = (case dget (circuit_breakers b) sender of
              None \<Rightarrow> (False, b)
            | Some br \<Rightarrow> (case is_open now br of (opn, br') \<Rightarrow>
                (opn, b\<lparr>circuit_breakers := dput sender br' (circuit_breakers b)\<rparr>))) in
        if opened then (b1, Inl (SecurityViolation (''Agent '' @ sender @ '' circuit breaker open'')))
        else if recipient \<notin> set (ai_allowed_recipients info) then
          (log_event ''unauthorized_message_attempt'' [(''sender'', sender), (''recipient'', recipient)] b1,
           Inl (SecurityViolation (''Sender '' @ sender @ '' not authorized to message '' @ recipient)))
        else if message_type \<notin> set (ai_allowed_message_types info) then
          (b1, Inl (SecurityViolation (''Message type '' @ squote @ message_type @ squote @ '' not allowed for '' @ sender)))
        else if (sender, recipient) \<in> set (bus_escalation_paths b1)
            \<and> (message_type \<noteq> ''escalation'' \<or> \<not> truthy (get_or payload ''critic_approved'' PNone)) then
          (log_event ''blocked_privileged_escalation_path''
             [(''sender'', sender), (''recipient'', recipient), (''type'', message_type)] b1,
           Inl (SecurityViolation ''Privileged escalation requires critic-approved escalation message''))
        else (b1, Inr (signed_message E now b1 sender recipient message_type
               (bus_sanitize_payload (be_detector E) (ai_trust_level info) payload)))))"

subsection \<open>Receiving\<close>

definition need_key :: "payload \<Rightarrow> string \<Rightarrow> exc + pyval" where
  "need_key m k = (case dget m k of Some v \<Rightarrow> Inr v | None \<Rightarrow> Inl (PyExc ''KeyError''))"

text \<open>hmac.compare_digest: text must be ASCII, other types are refused.\<close>

definition compare_digest :: "pyval \<Rightarrow> string \<Rightarrow> exc + bool" where
  "compare_digest v expected = (case v of
     PStr s \<Rightarrow> if list_ex (\<lambda>c. of_char c > (127::nat)) s then Inl (PyExc ''TypeError'') else Inr (s = expected)
   | _ \<Rightarrow> Inl (PyExc ''TypeError''))"

definition receive_message :: "bus_env \<Rightarrow> time \<Rightarrow> string \<Rightarrow> payload \<Rightarrow> bus \<Rightarrow> exc + pyval" where
  "receive_message E now recipient m b = (
     if dget m ''protocol'' \<noteq> Some (PStr A2A_PROTOCOL_VERSION)
     then Inl (SecurityViolation ''Unsupported A2A protocol version'')
     else if dget m ''recipient'' \<noteq> Some (PStr recipient)
     then Inl (SecurityViolation ''Message recipient mismatch'')
     else rbind (need_key m ''sender'') (\<lambda>snd_v.
       rbind (need_key m ''type'') (\<lambda>type_v.
       rbind (need_key m ''payload'') (\<lambda>payload_v.
       rbind (need_key m ''timestamp'') (\<lambda>ts_v.
       rbind (compare_digest (get_or m ''signature'' (PStr []))
                (sign_message E b snd_v (PStr recipient) type_v payload_v ts_v)) (\<lambda>sig_ok.
       if \<not> sig_ok then Inl (SecurityViolation ''Invalid message signature'')
       else rbind (case ts_v of
             PStr s \<Rightarrow> (case be_fromisoformat E s of Inr t \<Rightarrow> Inr t | Inl e \<Rightarrow> Inl (PyExc e))
           | _ \<Rightarrow> Inl (PyExc ''TypeError'')) (\<lambda>msg_time.
         if now - msg_time > 300
         then Inl (SecurityViolation ''Message expired (possible replay attack)'')
         else rbind (case get_or m ''mtls'' (PDict []) of
               PDict e \<Rightarrow> Inr e | _ \<Rightarrow> Inl (PyExc ''AttributeError'')) (\<lambda>mtls.
           if dget mtls ''recipient_subject'' \<noteq> Some (PStr (default_mtls_subject recipient))
           then Inl (SecurityViolation ''mTLS recipient identity mismatch'')
           else Inr payload_v))))))))"

subsection \<open>The breaker as a state machine\<close>

lemma fold_record_failure:
  "failure_threshold (fold record_failure ts b) = failure_threshold b
   \<and> recovery_timeout (fold record_failure ts b) = recovery_timeout b
   \<and> failures (fold record_failure ts b) = failures b + int (length ts)"
  by (induction ts arbitrary: b) (auto simp: record_failure_def Let_def)

lemma opened_at_fold:
  "ts \<noteq> [] \<Longrightarrow> failure_threshold b \<le> failures b + int (length ts) \<Longrightarrow>
     opened_at (fold record_failure ts b) = last ts"
proof (induction ts rule: rev_induct)
  case (snoc t ts)
  define c where "c = fold record_failure ts b"
  have "failure_threshold c \<le> failures c + 1"
    using snoc.prems fold_record_failure[of ts b] by (simp add: c_def)
  then have "opened_at (record_failure t c) = t" by (simp add: record_failure_def Let_def)
  then show ?case by (simp add: c_def)
qed simp

lemma breaker_open_iff:
  assumes "1 \<le> k"
  shows "fst (is_open now (fold record_failure ts (CircuitBreaker k r))) \<longleftrightarrow>
     k \<le> int (length ts) \<and> now - last ts < of_int r"
proof (cases "k \<le> int (length ts)")
  case True
  with assms have "ts \<noteq> []" by auto
  then show ?thesis
    using fold_record_failure[of ts "CircuitBreaker k r"] opened_at_fold[of ts "CircuitBreaker k r"] True
    by (auto simp: is_open_def CircuitBreaker_def)
next
  case False
  then show ?thesis
    using fold_record_failure[of ts "CircuitBreaker k r"] by (auto simp: is_open_def CircuitBreaker_def)
qed

lemma is_open_closed_record: "\<not> fst (is_open now b) \<Longrightarrow> failures (snd (is_open now b)) < failure_threshold b \<or>
    failures (snd (is_open now b)) = 0"
  by (auto simp: is_open_def split: if_splits)

definition fail_times :: "string \<Rightarrow> time list \<Rightarrow> bus \<Rightarrow> bus" where
  "fail_times agent_id ts b = fold (\<lambda>t. record_agent_failure t agent_id) ts b"

lemma fail_times_simps [simp]:
  "agent_registry (fail_times a ts b) = agent_registry b"
  "bus_signing_key (fail_times a ts b) = bus_signing_key b"
  "bus_escalation_paths (fail_times a ts b) = bus_escalation_paths b"
  by (induction ts arbitrary: b) (auto simp: fail_times_def record_agent_failure_def split: option.splits)

lemma fail_times_breakers:
  "dget (circuit_breakers (fail_times a ts b)) a
     = map_option (fold record_failure ts) (dget (circuit_breakers b) a)"
proof (induction ts arbitrary: b)
  case (Cons t ts)
  have "fail_times a (t # ts) b = fail_times a ts (record_agent_failure t a b)" by (simp add: fail_times_def)
  then show ?case using Cons.IH[of "record_agent_failure t a b"]
    by (simp add: record_agent_failure_def split: option.splits)
qed (simp add: fail_times_def option.map_id0 id_def[symmetric])

subsection \<open>Sending\<close>

text \<open>What a message that was sent had to pass.\<close>

definition send_ok :: "time \<Rightarrow> bus \<Rightarrow> string \<Rightarrow> string \<Rightarrow> string \<Rightarrow> payload \<Rightarrow> agent_info \<Rightarrow> bool" where
  "send_ok now b sender recipient kind payload info = (
     dget (agent_registry b) sender = Some info
     \<and> (case dget (circuit_breakers b) sender of None \<Rightarrow> True | Some br \<Rightarrow> \<not> fst (is_open now br))
     \<and> recipient \<in> set (ai_allowed_recipients info)
     \<and> kind \<in> set (ai_allowed_message_types info)
     \<and> ((sender, recipient) \<in> set (bus_escalation_paths b) \<longrightarrow>
          kind = ''escalation'' \<and> truthy (get_or payload ''critic_approved'' PNone)))"

lemma signed_message_cong:
  "bus_signing_key b1 = bus_signing_key b2 \<Longrightarrow> signed_message E now b1 = signed_message E now b2"
  by (intro ext) (simp add: signed_message_def sign_message_def Let_def)

lemma send_message_Inr_iff:
  "snd (send_message E now sender recipient kind payload b) = Inr m \<longleftrightarrow>
     (\<exists>info. send_ok now b sender recipient kind payload info
        \<and> m = signed_message E now b sender recipient kind
              (bus_sanitize_payload (be_detector E) (ai_trust_level info) payload))"
proof (cases "dget (agent_registry b) sender")
  case None
  then show ?thesis by (simp add: send_message_def send_ok_def)
next
  case (Some info)
  let ?upd = "\<lambda>br'. b\<lparr>circuit_breakers := dput sender br' (circuit_breakers b)\<rparr>"
  have c: "signed_message E now (?upd br') = signed_message E now b" for br'
    by (rule signed_message_cong) simp
  show ?thesis
  proof (cases "dget (circuit_breakers b) sender")
    case None
    with Some show ?thesis by (auto simp: send_message_def send_ok_def)
  next
    case (Some br)
    then show ?thesis using \<open>dget (agent_registry b) sender = Some info\<close> c
      by (auto simp: send_message_def send_ok_def split_beta Let_def)
  qed
qed

lemma bus_items_eq: "flt.items_of d Src_agent_bus vs = Inr (bus_items d vs)"
  by (induction d vs rule: bus_items.induct) auto

fun no_reserved_keys :: "payload \<Rightarrow> bool" where
  "no_reserved_keys [] = True"
| "no_reserved_keys ((k, v) # rest) = (\<not> startswith k ''_system''
     \<and> (case v of PDict e \<Rightarrow> no_reserved_keys e | _ \<Rightarrow> True) \<and> no_reserved_keys rest)"

lemma bus_sanitize_marked: "strings_marked (bus_sanitize_payload d t p)"
proof (induction d t p rule: bus_sanitize_payload.induct)
  case (2 d t k v rest)
  have "flt.items_marked (bus_items d vs)" for vs by (rule flt.items_marked[OF bus_items_eq])
  then show ?case using 2 by (cases v) (auto simp: flt.items_marked_def)
qed simp

lemma bus_sanitize_no_reserved:
  "trust_value t < trust_value PRIVILEGED \<Longrightarrow> no_reserved_keys (bus_sanitize_payload d t p)"
proof (induction d t p rule: bus_sanitize_payload.induct)
  case (2 d t k v rest)
  then show ?case by (cases v) auto
qed simp

lemma bus_sanitize_keep:
  "strings_marked p \<Longrightarrow> no_reserved_keys p \<Longrightarrow> bus_sanitize_payload d t p = p"
proof (induction d t p rule: bus_sanitize_payload.induct)
  case (2 d t k v rest)
  have "flt.items_marked vs \<Longrightarrow> bus_items d vs = vs" for vs
    using flt.items_keep[of vs d Src_agent_bus] bus_items_eq[of d vs] by simp
  then show ?case using 2 by (cases v) (auto simp: flt.items_marked_def)
qed simp

subsection \<open>Receiving\<close>

lemma compare_digest_refl:
  "list_all (\<lambda>c. of_char c \<le> (127::nat)) s \<Longrightarrow> compare_digest (PStr s) s = Inr True"
  by (auto simp: compare_digest_def list_ex_iff list_all_iff not_less)

lemma compare_digest_True: "compare_digest v e = Inr True \<Longrightarrow> v = PStr e"
  by (auto simp: compare_digest_def split: pyval.splits if_splits)

lemma receive_message_Inr:
  assumes "receive_message E now recipient m b = Inr v"
  shows "dget m ''protocol'' = Some (PStr A2A_PROTOCOL_VERSION)
     \<and> dget m ''recipient'' = Some (PStr recipient) \<and> dget m ''payload'' = Some v
     \<and> (\<exists>sender kind ts t. dget m ''sender'' = Some sender \<and> dget m ''type'' = Some kind
          \<and> dget m ''timestamp'' = Some (PStr ts) \<and> be_fromisoformat E ts = Inr t
          \<and> get_or m ''signature'' (PStr []) = PStr (sign_message E b sender (PStr recipient) kind v (PStr ts))
          \<and> now - t \<le> 300)"
  using assms unfolding receive_message_def
  by (auto simp: result_simps need_key_def dest!: compare_digest_True
      split: if_splits option.splits pyval.splits sum.splits)

lemma receive_signed:
  assumes "be_fromisoformat E (be_isoformat E now) = Inr now"
    and "list_all (\<lambda>c. of_char c \<le> (127::nat))
           (sign_message E b (PStr sender) (PStr recipient) (PStr kind) (PDict p) (PStr (be_isoformat E now)))"
    and "now' - now \<le> 300"
    and "bus_signing_key b' = bus_signing_key b"
  shows "receive_message E now' recipient (signed_message E now b sender recipient kind p) b' = Inr (PDict p)"
proof -
  have "sign_message E b' = sign_message E b" by (intro ext) (simp add: sign_message_def assms(4))
  then show ?thesis using assms(1,3) compare_digest_refl[OF assms(2)]
    by (simp add: receive_message_def signed_message_def need_key_def Let_def get_or_def)
qed

subsection \<open>What the bus guarantees\<close>

text \<open>A concrete environment: a constant digest, dates as a count of seconds.\<close>

definition demo_env :: bus_env where
  "demo_env = \<lparr>be_detector = demo_detector, be_hmac = (\<lambda>k m. ''5e''),
     be_canon = (\<lambda>a b c d e. ''canon''), be_isoformat = (\<lambda>t. nat_str (nat \<lfloor>t\<rfloor>)),
     be_fromisoformat = (\<lambda>s. case int_of_str s of Some i \<Rightarrow> Inr (of_int i) | None \<Rightarrow> Inl ''ValueError'')\<rparr>"

definition demo_bus :: bus where
  "demo_bus = register_agent ''soc'' TRUST_INTERNAL [''critic'', ''redteam'']
     (SecureAgentBus ''key'' None)"

text \<open>C8: What is sent is what arrives: a message that send_message accepted is accepted by
  receive_message for its recipient on any bus with the same signing key up to five minutes
  later, and yields exactly the sanitised payload. The digest is a hex string and ISO dates
  read back, as the standard library documents.\<close>

theorem bus_delivers:
  assumes "snd (send_message E now sender recipient kind payload b) = Inr m"
    and "be_fromisoformat E (be_isoformat E now) = Inr now"
    and "\<And>key text. list_all (\<lambda>c. of_char c \<le> (127::nat)) (be_hmac E key text)"
    and "bus_signing_key b' = bus_signing_key b" and "now' - now \<le> 300"
  shows "\<exists>info. dget (agent_registry b) sender = Some info
     \<and> receive_message E now' recipient m b'
       = Inr (PDict (bus_sanitize_payload (be_detector E) (ai_trust_level info) payload))"
proof -
  from assms(1) obtain info where info: "send_ok now b sender recipient kind payload info"
    and m: "m = signed_message E now b sender recipient kind
              (bus_sanitize_payload (be_detector E) (ai_trust_level info) payload)"
    unfolding send_message_Inr_iff by blast
  then have "dget (agent_registry b) sender = Some info" by (simp add: send_ok_def)
  moreover have "receive_message E now' recipient m b'
      = Inr (PDict (bus_sanitize_payload (be_detector E) (ai_trust_level info) payload))"
    unfolding m by (rule receive_signed[OF assms(2) _ assms(5,4)]) (simp add: sign_message_def assms(3))
  ultimately show ?thesis by blast
qed

theorem bus_delivers_witness:
  "\<exists>m. snd (send_message demo_env 7 ''soc'' ''critic'' ''finding'' [(''score'', PInt 3), (''_system_role'', PStr ''root'')] demo_bus) = Inr m
     \<and> receive_message demo_env 300 ''critic'' m demo_bus = Inr (PDict [(''score'', PInt 3)])"
proof -
  let ?p = "[(''score'', PInt 3), (''_system_role'', PStr ''root'')]"
  have "\<not> isl (snd (send_message demo_env 7 ''soc'' ''critic'' ''finding'' ?p demo_bus))" by code_simp
  then obtain m where m: "snd (send_message demo_env 7 ''soc'' ''critic'' ''finding'' ?p demo_bus) = Inr m"
    by (rule not_islE)
  have iso: "be_fromisoformat demo_env (be_isoformat demo_env 7) = Inr 7" by code_simp
  have asc: "list_all (\<lambda>c. of_char c \<le> (127::nat)) (be_hmac demo_env key t)" for key t
    by (simp add: demo_env_def)
  have reg: "dget (agent_registry demo_bus) ''soc''
      = Some \<lparr>ai_trust_level = TRUST_INTERNAL, ai_allowed_recipients = [''critic'', ''redteam''],
          ai_allowed_message_types = [''finding'', ''escalation'']\<rparr>" by code_simp
  have san: "bus_sanitize_payload (be_detector demo_env) TRUST_INTERNAL ?p = [(''score'', PInt 3)]" by code_simp
  show ?thesis using bus_delivers[OF m iso asc refl, of 300] m reg san by (auto simp: startswith_def)
qed

text \<open>A payload that travels is clean: whatever was handed to send_message, every string
  the walk reaches carries the untrusted-data wrapper, a sender below the privileged level
  cannot smuggle a reserved _system key on any dict level, and forwarding the received payload
  would leave it as it is.\<close>

theorem bus_payload_clean:
  assumes "snd (send_message E now sender recipient kind payload b) = Inr m"
  shows "\<exists>info p. dget (agent_registry b) sender = Some info \<and> dget m ''payload'' = Some (PDict p)
     \<and> strings_marked p
     \<and> (trust_value (ai_trust_level info) < trust_value PRIVILEGED \<longrightarrow>
          no_reserved_keys p \<and> (\<forall>t. bus_sanitize_payload (be_detector E) t p = p))"
proof -
  from assms obtain info where "send_ok now b sender recipient kind payload info"
    and m: "m = signed_message E now b sender recipient kind
              (bus_sanitize_payload (be_detector E) (ai_trust_level info) payload)"
    unfolding send_message_Inr_iff by blast
  then have "dget (agent_registry b) sender = Some info" by (simp add: send_ok_def)
  moreover have "dget m ''payload'' = Some (PDict (bus_sanitize_payload (be_detector E) (ai_trust_level info) payload))"
    by (simp add: m signed_message_def Let_def)
  ultimately show ?thesis
    using bus_sanitize_marked bus_sanitize_no_reserved bus_sanitize_keep by blast
qed

theorem bus_payload_clean_witness:
  "\<exists>m p. snd (send_message demo_env 7 ''soc'' ''critic'' ''finding'' [(''x'', PStr ''hi''), (''_system'', PInt 1)] demo_bus) = Inr m
     \<and> dget m ''payload'' = Some (PDict p) \<and> strings_marked p \<and> no_reserved_keys p"
proof -
  let ?s = "snd (send_message demo_env 7 ''soc'' ''critic'' ''finding'' [(''x'', PStr ''hi''), (''_system'', PInt 1)] demo_bus)"
  have "\<not> isl ?s" by code_simp
  then obtain m where m: "?s = Inr m" by (rule not_islE)
  have reg: "dget (agent_registry demo_bus) ''soc''
      = Some \<lparr>ai_trust_level = TRUST_INTERNAL, ai_allowed_recipients = [''critic'', ''redteam''],
          ai_allowed_message_types = [''finding'', ''escalation'']\<rparr>" by code_simp
  show ?thesis using bus_payload_clean[OF m] m reg by auto
qed

text \<open>C10: The escalation gate: on an escalation-only path nothing gets through but an escalation message
  with critic_approved set. The refused attempt of a registered sender whose breaker lets it send and
  whose recipient and message type are allowed adds exactly one entry to the security log, with its
  sender, recipient and type.\<close>

theorem bus_escalation_gate:
  assumes "(sender, recipient) \<in> set (bus_escalation_paths b)"
    and "kind \<noteq> ''escalation'' \<or> \<not> truthy (get_or payload ''critic_approved'' PNone)"
  shows "isl (snd (send_message E now sender recipient kind payload b))
     \<and> (dget (agent_registry b) sender = Some info \<and> dget (circuit_breakers b) sender = Some br \<and> \<not> fst (is_open now br)
        \<and> recipient \<in> set (ai_allowed_recipients info) \<and> kind \<in> set (ai_allowed_message_types info)
        \<longrightarrow> security_events (fst (send_message E now sender recipient kind payload b))
            = security_events b @ [(''blocked_privileged_escalation_path'',
                [(''sender'', sender), (''recipient'', recipient), (''type'', kind)])])"
proof -
  have "snd (send_message E now sender recipient kind payload b) \<noteq> Inr m" for m
    using assms by (auto simp: send_message_Inr_iff send_ok_def)
  then have "isl (snd (send_message E now sender recipient kind payload b))"
    by (cases "snd (send_message E now sender recipient kind payload b)") auto
  then show ?thesis using assms by (auto simp: send_message_def log_event_def Let_def split: prod.split)
qed

text \<open>A registered sender with four failures behind it, one short of an open breaker.\<close>

theorem bus_escalation_gate_witness:
  "isl (snd (send_message demo_env 7 ''soc'' ''redteam'' ''finding'' [(''critic_approved'', PBool True)] (fail_times ''soc'' [1, 2, 3, 4] demo_bus)))
   \<and> security_events (fst (send_message demo_env 7 ''soc'' ''redteam'' ''finding'' [(''critic_approved'', PBool True)]
        (fail_times ''soc'' [1, 2, 3, 4] demo_bus)))
     = [(''blocked_privileged_escalation_path'', [(''sender'', ''soc''), (''recipient'', ''redteam''), (''type'', ''finding'')])]"
proof -
  let ?b = "fail_times ''soc'' [1, 2, 3, 4] demo_bus"
  let ?info = "\<lparr>ai_trust_level = TRUST_INTERNAL, ai_allowed_recipients = [''critic'', ''redteam''],
    ai_allowed_message_types = [''finding'', ''escalation'']\<rparr>"
  let ?br = "fold record_failure [1, 2, 3, 4] (CircuitBreaker 5 60)"
  have path: "(''soc'', ''redteam'') \<in> set (bus_escalation_paths ?b)" by code_simp
  have b: "dget (agent_registry ?b) ''soc'' = Some ?info" "dget (circuit_breakers ?b) ''soc'' = Some ?br"
    "security_events ?b = []" by code_simp+
  have closed: "\<not> fst (is_open 7 ?br)" by code_simp
  show ?thesis using bus_escalation_gate[OF path, of "''finding''" _ demo_env 7 ?info ?br] b closed by simp
qed

text \<open>The breaker over time: an agent registered with threshold k (at least one) and
  reset time r, whose failures were recorded at the times ts, is refused as breaker-open
  exactly while there were at least k failures and less than r seconds passed since the last;
  after that its messages reach the other gates again.\<close>

theorem breaker_cycle:
  fixes a :: string and ts :: "time list" and trust :: trust_level and recipients :: "string list"
  assumes "1 \<le> bus_breaker_threshold b"
  defines "b' \<equiv> fail_times a ts (register_agent a trust recipients b)"
  shows "snd (send_message E now a recipient kind payload b')
       = Inl (SecurityViolation (''Agent '' @ a @ '' circuit breaker open''))
     \<longleftrightarrow> bus_breaker_threshold b \<le> int (length ts) \<and> now - last ts < of_int (bus_breaker_reset b)"
proof -
  let ?br = "fold record_failure ts (CircuitBreaker (bus_breaker_threshold b) (bus_breaker_reset b))"
  have br: "dget (circuit_breakers b') a = Some ?br"
    unfolding b'_def fail_times_breakers by (simp add: register_agent_def)
  obtain info where info: "dget (agent_registry b') a = Some info"
    unfolding b'_def by (simp add: register_agent_def)
  have "snd (send_message E now a recipient kind payload b')
       = Inl (SecurityViolation (''Agent '' @ a @ '' circuit breaker open'')) \<longleftrightarrow> fst (is_open now ?br)"
    using br info by (simp add: send_message_def split_beta Let_def)
  then show ?thesis using breaker_open_iff[OF assms(1)] by simp
qed

theorem breaker_cycle_witness:
  "snd (send_message demo_env 65 ''soc'' ''critic'' ''finding'' []
        (fail_times ''soc'' [1, 2, 3, 4, 6] (register_agent ''soc'' TRUST_INTERNAL [''critic''] (SecureAgentBus ''key'' None))))
     = Inl (SecurityViolation (''Agent '' @ ''soc'' @ '' circuit breaker open''))
   \<and> snd (send_message demo_env 66 ''soc'' ''critic'' ''finding'' []
        (fail_times ''soc'' [1, 2, 3, 4, 6] (register_agent ''soc'' TRUST_INTERNAL [''critic''] (SecureAgentBus ''key'' None))))
     \<noteq> Inl (SecurityViolation (''Agent '' @ ''soc'' @ '' circuit breaker open''))"
proof -
  have t: "1 \<le> bus_breaker_threshold (SecureAgentBus ''key'' None)"
    "bus_breaker_threshold (SecureAgentBus ''key'' None) = 5"
    "bus_breaker_reset (SecureAgentBus ''key'' None) = 60"
    by (simp_all add: SecureAgentBus_def default_profile_policy_payload_def ProfilePolicyPayload_def Let_def)
  show ?thesis
    unfolding breaker_cycle[OF t(1)] t(2,3) by simp
qed

text \<open>Nothing unsigned is accepted: a message that receive_message accepts names this
  recipient and protocol, carries the digest of exactly its sender, type, payload and
  timestamp under the bus key, and is at most five minutes old by its own timestamp.\<close>

theorem receive_only_signed:
  assumes "receive_message E now recipient m b = Inr v"
  shows "dget m ''recipient'' = Some (PStr recipient) \<and> dget m ''payload'' = Some v
     \<and> (\<exists>sender kind ts t. dget m ''sender'' = Some sender \<and> dget m ''type'' = Some kind
          \<and> dget m ''timestamp'' = Some (PStr ts) \<and> be_fromisoformat E ts = Inr t \<and> now - t \<le> 300
          \<and> get_or m ''signature'' (PStr []) = PStr (be_hmac E (bus_signing_key b)
               (be_canon E sender (PStr recipient) kind v (PStr ts))))"
  using receive_message_Inr[OF assms] unfolding sign_message_def by blast

theorem receive_only_signed_witness:
  "dget (signed_message demo_env 7 demo_bus ''soc'' ''critic'' ''finding'' [(''n'', PInt 1)]) ''payload''
     = Some (PDict [(''n'', PInt 1)])"
proof -
  have "receive_message demo_env 9 ''critic''
      (signed_message demo_env 7 demo_bus ''soc'' ''critic'' ''finding'' [(''n'', PInt 1)]) demo_bus
     = Inr (PDict [(''n'', PInt 1)])"
    by (rule receive_signed) (code_simp, code_simp, simp_all)
  from receive_only_signed[OF this] show ?thesis by blast
qed

end
