(* ===== verification/Guardrails.thy ===== *)
theory Guardrails
  imports Sanitizer
begin

text \<open>Redaction, output guardrails, least-privilege scope and the assessment approval
  policy: cys_core/domain/security/redaction.py, guardrails.py, scope.py and
  cys_core/domain/assessment/services.py. The regular expressions, json.dumps and
  str are parameters.\<close>

subsection \<open>Redaction\<close>

text \<open>The Cyrillic members of SENSITIVE_KEYS are no strings of this model; they are the
  argument extra_keys.\<close>

definition SENSITIVE_KEYS :: "string list \<Rightarrow> string list" where
  "SENSITIVE_KEYS extra_keys = [''password'', ''api_key'', ''token'', ''secret'', ''credential''] @ extra_keys"

definition REDACTED :: string where
  "REDACTED = ''***REDACTED***''"

fun redact_sensitive_keys :: "string list \<Rightarrow> pyval \<Rightarrow> pyval"
  and redact_items :: "string list \<Rightarrow> payload \<Rightarrow> payload"
  and redact_list :: "string list \<Rightarrow> pyval list \<Rightarrow> pyval list" where
  "redact_sensitive_keys K (PDict d) = PDict (redact_items K d)"
| "redact_sensitive_keys K (PList xs) = PList (redact_list K xs)"
| "redact_sensitive_keys K v = v"
| "redact_items K [] = []"
| "redact_items K ((k, v) # d) =
     (k, if lower k \<in> set (SENSITIVE_KEYS K) then PStr REDACTED else redact_sensitive_keys K v) # redact_items K d"
| "redact_list K [] = []"
| "redact_list K (x # xs) = redact_sensitive_keys K x # redact_list K xs"

definition redact_pii :: "(string \<Rightarrow> string) list \<Rightarrow> string \<Rightarrow> string" where
  "redact_pii subs text = fold (\<lambda>sub t. sub t) subs text"

definition contains_sensitive_data :: "(string \<Rightarrow> bool) list \<Rightarrow> string \<Rightarrow> bool" where
  "contains_sensitive_data patterns text = list_ex (\<lambda>p. p text) patterns"

text \<open>Below every sensitive key, at any depth, stands the redaction mark.\<close>

fun value_redacted :: "string list \<Rightarrow> pyval \<Rightarrow> bool"
  and items_redacted :: "string list \<Rightarrow> payload \<Rightarrow> bool"
  and list_redacted :: "string list \<Rightarrow> pyval list \<Rightarrow> bool" where
  "value_redacted K (PDict d) = items_redacted K d"
| "value_redacted K (PList xs) = list_redacted K xs"
| "value_redacted K v = True"
| "items_redacted K [] = True"
| "items_redacted K ((k, v) # d) =
     ((if lower k \<in> set (SENSITIVE_KEYS K) then v = PStr REDACTED else value_redacted K v) \<and> items_redacted K d)"
| "list_redacted K [] = True"
| "list_redacted K (x # xs) = (value_redacted K x \<and> list_redacted K xs)"

lemma redact_redacts:
  "value_redacted K (redact_sensitive_keys K v)"
  "items_redacted K (redact_items K d)"
  "list_redacted K (redact_list K xs)"
  by (induction K v and K d and K xs rule: redact_sensitive_keys_redact_items_redact_list.induct) auto

lemma redact_keeps:
  "value_redacted K v \<Longrightarrow> redact_sensitive_keys K v = v"
  "items_redacted K d \<Longrightarrow> redact_items K d = d"
  "list_redacted K xs \<Longrightarrow> redact_list K xs = xs"
  by (induction K v and K d and K xs rule: redact_sensitive_keys_redact_items_redact_list.induct)
    (auto split: if_splits)

subsection \<open>Scope\<close>

record scope_policy =
  scope_allowed_tools :: "string list"
  scope_blocked_patterns :: "string list"

definition DEFAULT_BLOCKED_PATTERNS :: "string list" where
  "DEFAULT_BLOCKED_PATTERNS = [''*.env'', ''*.key'', ''*.pem'', ''*secret*'']"

definition scope_from_tools :: "string list \<Rightarrow> string list option \<Rightarrow> scope_policy" where
  "scope_from_tools tools patterns = \<lparr>scope_allowed_tools = tools,
     scope_blocked_patterns = (case patterns of Some p \<Rightarrow> p | None \<Rightarrow> DEFAULT_BLOCKED_PATTERNS)\<rparr>"

definition check_tool :: "scope_policy \<Rightarrow> string \<Rightarrow> string option" where
  "check_tool s tool_name = (if tool_name \<notin> set (scope_allowed_tools s)
     then Some (''Access denied: tool '' @ squote @ tool_name @ squote @ '' is not allowed for this agent.'')
     else None)"

definition path_blocked :: "scope_policy \<Rightarrow> string \<Rightarrow> bool" where
  "path_blocked s v = list_ex (\<lambda>pattern. let clean = filter (\<lambda>c. c \<noteq> CHR ''*'') pattern in
     clean \<noteq> [] \<and> contains (lower v) clean) (scope_blocked_patterns s)"

definition check_path_arg :: "scope_policy \<Rightarrow> string \<Rightarrow> string \<Rightarrow> string option" where
  "check_path_arg s key v = (if \<not> contains (lower key) ''path'' then None
     else if path_blocked s v
     then Some (''Access denied: path '' @ squote @ v @ squote @ '' matches blocked pattern.'')
     else None)"

fun check_args :: "scope_policy \<Rightarrow> payload \<Rightarrow> string option" where
  "check_args s [] = None"
| "check_args s ((key, v) # rest) = (case v of
     PStr str \<Rightarrow> (case check_path_arg s key str of Some reason \<Rightarrow> Some reason | None \<Rightarrow> check_args s rest)
   | _ \<Rightarrow> check_args s rest)"

definition check_tool_call :: "scope_policy \<Rightarrow> string \<Rightarrow> payload \<Rightarrow> string option" where
  "check_tool_call s tool_name args = (case check_tool s tool_name of
     Some reason \<Rightarrow> Some reason | None \<Rightarrow> check_args s args)"

lemma check_args_None:
  "check_args s args = None \<longleftrightarrow>
     (\<forall>k v. (k, PStr v) \<in> set args \<longrightarrow> \<not> (contains (lower k) ''path'' \<and> path_blocked s v))"
proof (induction args)
  case (Cons a args)
  obtain key v where a: "a = (key, v)" by (cases a)
  then show ?case using Cons by (cases v) (auto simp: check_path_arg_def)
qed simp

subsection \<open>Output guardrails\<close>

record guardrails =
  gr_max_payload_size :: int
  gr_pii_subs :: "(string \<Rightarrow> string) list"
  gr_sensitive_params :: "(string \<Rightarrow> bool) list"
  gr_leakage :: "(string \<Rightarrow> bool) list"
  gr_dumps :: "pyval \<Rightarrow> string"
  gr_str :: "pyval \<Rightarrow> string"

definition validate_tool_call :: "guardrails \<Rightarrow> pyval \<Rightarrow> exc + unit" where
  "validate_tool_call g parameters = (let text = lower (gr_dumps g parameters) in
     if list_ex (\<lambda>p. p text) (gr_sensitive_params g)
     then Inl (SecurityViolation ''Parameters contain potentially sensitive data'') else Inr ())"

definition detect_prompt_leakage :: "guardrails \<Rightarrow> string \<Rightarrow> bool" where
  "detect_prompt_leakage g text = list_ex (\<lambda>p. p text) (gr_leakage g)"

definition detect_exfiltration :: "guardrails \<Rightarrow> payload \<Rightarrow> bool" where
  "detect_exfiltration g output = (
     let tool_name = get_or output ''tool_name'' (PStr []);
         params = get_or output ''parameters'' (PDict []);
         blob = lower (gr_str g (PDict output)) in
     (contains blob ''http'' \<and> list_ex (contains blob) [''base64'', ''encode'', ''password''])
     \<or> ((tool_name = PStr ''http_request'' \<or> tool_name = PStr ''webhook'')
        \<and> int (length (gr_str g params)) > gr_max_payload_size g))"

text \<open>The calls of a tool_calls value: items without a get method raise.\<close>

fun validate_calls :: "guardrails \<Rightarrow> pyval list \<Rightarrow> exc + unit" where
  "validate_calls g [] = Inr ()"
| "validate_calls g (PDict call # rest) =
     rbind (validate_tool_call g (get_or call ''parameters'' (PDict []))) (\<lambda>_. validate_calls g rest)"
| "validate_calls g (_ # rest) = Inl (PyExc ''AttributeError'')"

definition items_of_value :: "pyval \<Rightarrow> exc + pyval list" where
  "items_of_value v = (case v of
     PList xs \<Rightarrow> Inr xs
   | PStr s \<Rightarrow> Inr (map (\<lambda>c. PStr [c]) s)
   | PDict d \<Rightarrow> Inr (map (\<lambda>p. PStr (fst p)) d)
   | _ \<Rightarrow> Inl (PyExc ''TypeError''))"

definition validate_output :: "guardrails \<Rightarrow> payload \<Rightarrow> exc + payload" where
  "validate_output g output = (
     if detect_exfiltration g output then Inl (SecurityViolation ''Potential data exfiltration detected'')
     else rbind (case dget output ''response'' of
          None \<Rightarrow> Inr output
        | Some r \<Rightarrow> if detect_prompt_leakage g (gr_str g r)
            then Inl (SecurityViolation ''Potential system prompt leakage detected'')
            else Inr (dput ''response'' (PStr (redact_pii (gr_pii_subs g) (gr_str g r))) output))
       (\<lambda>out. rbind (case dget out ''tool_calls'' of
            None \<Rightarrow> Inr ()
          | Some v \<Rightarrow> rbind (items_of_value v) (validate_calls g))
         (\<lambda>_. Inr out)))"

definition severe :: "pyval \<Rightarrow> bool" where
  "severe v = (case v of PStr s \<Rightarrow> lower s = ''critical'' \<or> lower s = ''high'' | _ \<Rightarrow> False)"

definition finding_data :: "payload \<Rightarrow> pyval \<Rightarrow> exc + payload" where
  "finding_data f dflt = (case get_or f ''data'' dflt of PDict d \<Rightarrow> Inr d | _ \<Rightarrow> Inl (PyExc ''AttributeError''))"

fun any_severe :: "payload list \<Rightarrow> exc + bool" where
  "any_severe [] = Inr False"
| "any_severe (f # fs) = rbind (finding_data f (PDict f)) (\<lambda>d.
     if severe (get_or d ''severity'' (PStr [])) then Inr True
     else if severe (get_or d ''risk_level'' (PStr [])) then Inr True
     else any_severe fs)"

definition requires_hitl :: "payload list \<Rightarrow> rat \<Rightarrow> rat \<Rightarrow> exc + bool" where
  "requires_hitl findings trust_score threshold =
     (if trust_score < threshold then Inr True else any_severe findings)"

subsection \<open>Assessment approval\<close>

record hitl_decision =
  hd_approved :: pyval
  hd_pending :: "payload option"
  hd_preview :: "payload option"

fun high_findings :: "payload list \<Rightarrow> exc + payload list" where
  "high_findings [] = Inr []"
| "high_findings (f # fs) = rbind (finding_data f (PDict [])) (\<lambda>d. rbind (high_findings fs) (\<lambda>hs.
     Inr (if severe (get_or d ''severity'' (PStr [])) then f # hs else hs)))"

definition hitl_preview :: "rat \<Rightarrow> payload list \<Rightarrow> exc + payload" where
  "hitl_preview trust_score findings = rbind (high_findings findings) (\<lambda>hs.
     Inr [(''trust_score'', PFloat trust_score), (''findings_count'', PInt (int (length findings))),
          (''high_severity'', PList (map PDict hs)),
          (''message'', PStr ''Human approval required before publishing assessment report.'')])"

text \<open>float(x); the reading of numerals in strings is a parameter.\<close>

definition py_float :: "(string \<Rightarrow> rat option) \<Rightarrow> pyval \<Rightarrow> exc + rat" where
  "py_float read v = (case v of
     PInt i \<Rightarrow> Inr (of_int i) | PFloat r \<Rightarrow> Inr r | PBool b \<Rightarrow> Inr (if b then 1 else 0)
   | PStr s \<Rightarrow> (case read s of Some r \<Rightarrow> Inr r | None \<Rightarrow> Inl (PyExc ''ValueError''))
   | _ \<Rightarrow> Inl (PyExc ''TypeError''))"

definition decide ::
  "(string \<Rightarrow> rat option) \<Rightarrow> payload \<Rightarrow> payload list \<Rightarrow> rat \<Rightarrow> string \<Rightarrow> string
    \<Rightarrow> (bool + payload) option \<Rightarrow> exc + hitl_decision" where
  "decide read critic findings threshold stage auto_approve manual =
     rbind (py_float read (get_or critic ''trust_score'' (PFloat 0))) (\<lambda>trust.
     rbind (requires_hitl findings trust threshold) (\<lambda>needs.
     if \<not> needs then Inr \<lparr>hd_approved = PBool True, hd_pending = None, hd_preview = None\<rparr>
     else if stage = ''dev'' \<and> risk_ge (parse_threshold auto_approve) (parse_threshold ''medium'')
     then Inr \<lparr>hd_approved = PBool True,
       hd_pending = Some [(''auto_approved'', PBool True), (''reason'', PStr ''dev stage'')], hd_preview = None\<rparr>
     else rbind (hitl_preview trust findings) (\<lambda>preview.
       case manual of
         None \<Rightarrow> Inr \<lparr>hd_approved = PBool False, hd_pending = Some preview, hd_preview = Some preview\<rparr>
       | Some (Inl b) \<Rightarrow> Inr \<lparr>hd_approved = PBool b, hd_pending = Some preview, hd_preview = None\<rparr>
       | Some (Inr d) \<Rightarrow> Inr \<lparr>hd_approved = get_or d ''approved'' (PBool False), hd_pending = Some preview,
                           hd_preview = None\<rparr>)))"

text \<open>AssessmentReportBuilder.build; model_dump drops the fields that are None.\<close>

definition non_none :: "string \<Rightarrow> pyval \<Rightarrow> payload" where
  "non_none k v = (if v = PNone then [] else [(k, v)])"

definition build_report :: "payload \<Rightarrow> payload" where
  "build_report state = (
     if \<not> truthy (get_or state ''approved'' PNone)
     then [(''status'', PStr ''rejected''), (''reason'', PStr ''Assessment not approved''),
           (''pending_approval'', get_or state ''pending_approval'' PNone)]
     else [(''status'', PStr ''published'')] @ non_none ''session_id'' (get_or state ''session_id'' PNone)
          @ [(''findings'', get_or state ''findings'' (PList []))]
          @ non_none ''critic_result'' (get_or state ''critic_result'' PNone)
          @ [(''errors'', get_or state ''errors'' (PList []))])"

subsection \<open>What the guardrails guarantee\<close>

text \<open>Redaction is complete and stable: at every depth of dicts and lists the value
  under a sensitive key (compared in lower case) is the redaction mark, and redacting a
  second time changes nothing.\<close>

theorem redaction_complete:
  "value_redacted K (redact_sensitive_keys K v)
   \<and> redact_sensitive_keys K (redact_sensitive_keys K v) = redact_sensitive_keys K v"
  using redact_redacts(1) redact_keeps(1) by blast

text \<open>A tool call is in scope exactly when the tool is on the allow list and no string
  argument whose key mentions path contains (in lower case) a blocked pattern; arguments of
  other types and strings nested in lists or dicts are not looked at.\<close>

theorem scope_allows_iff:
  "check_tool_call s tool args = None \<longleftrightarrow>
     tool \<in> set (scope_allowed_tools s)
     \<and> (\<forall>k v. (k, PStr v) \<in> set args \<longrightarrow> \<not> (contains (lower k) ''path'' \<and> path_blocked s v))"
  by (auto simp: check_tool_call_def check_tool_def check_args_None split: option.splits)

theorem scope_allows_iff_witness:
  "check_tool_call (scope_from_tools [''read_document''] None) ''read_document''
     [(''path'', PList [PStr ''/app/.env'']), (''Path'', PStr ''/app/readme'')] = None
   \<and> check_tool_call (scope_from_tools [''read_document''] None) ''read_document''
     [(''file_path'', PStr ''/app/prod.ENV'')] \<noteq> None"
proof -
  have "\<not> path_blocked (scope_from_tools [''read_document''] None) ''/app/readme''" by code_simp
  then have a: "check_tool_call (scope_from_tools [''read_document''] None) ''read_document''
     [(''path'', PList [PStr ''/app/.env'']), (''Path'', PStr ''/app/readme'')] = None"
    unfolding scope_allows_iff by (simp add: scope_from_tools_def)
  have b: "contains (lower ''file_path'') ''path''"
    "path_blocked (scope_from_tools [''read_document''] None) ''/app/prod.ENV''" by code_simp+
  have "check_tool_call (scope_from_tools [''read_document''] None) ''read_document''
     [(''file_path'', PStr ''/app/prod.ENV'')] \<noteq> None"
    unfolding scope_allows_iff using b by auto
  with a show ?thesis by blast
qed

text \<open>No assessment is approved behind a human's back: an approval means that no finding
  is severe and the trust score reaches the threshold, or that the stage is dev with an
  auto-approve threshold of at least medium, or that the manual decision says so.\<close>

theorem approval_needs_reason:
  assumes "decide read critic findings threshold stage auto_approve manual = Inr h"
    and "truthy (hd_approved h)"
  shows "(\<exists>trust. py_float read (get_or critic ''trust_score'' (PFloat 0)) = Inr trust
            \<and> threshold \<le> trust \<and> any_severe findings = Inr False)
     \<or> (stage = ''dev'' \<and> MEDIUM \<le> parse_threshold auto_approve)
     \<or> manual = Some (Inl True)
     \<or> (\<exists>d v. manual = Some (Inr d) \<and> dget d ''approved'' = Some v \<and> truthy v)"
proof -
  have m: "parse_threshold ''medium'' = MEDIUM"
    by (simp add: parse_threshold_def RiskLevel_def lower_def char_lower_def)
  from assms(1) obtain trust needs where t: "py_float read (get_or critic ''trust_score'' (PFloat 0)) = Inr trust"
    and n: "requires_hitl findings trust threshold = Inr needs"
    and rest: "(if \<not> needs then Inr \<lparr>hd_approved = PBool True, hd_pending = None, hd_preview = None\<rparr>
     else if stage = ''dev'' \<and> risk_ge (parse_threshold auto_approve) (parse_threshold ''medium'')
     then Inr \<lparr>hd_approved = PBool True,
       hd_pending = Some [(''auto_approved'', PBool True), (''reason'', PStr ''dev stage'')], hd_preview = None\<rparr>
     else rbind (hitl_preview trust findings) (\<lambda>preview.
       case manual of
         None \<Rightarrow> Inr \<lparr>hd_approved = PBool False, hd_pending = Some preview, hd_preview = Some preview\<rparr>
       | Some (Inl b) \<Rightarrow> Inr \<lparr>hd_approved = PBool b, hd_pending = Some preview, hd_preview = None\<rparr>
       | Some (Inr d) \<Rightarrow> Inr \<lparr>hd_approved = get_or d ''approved'' (PBool False), hd_pending = Some preview,
                           hd_preview = None\<rparr>)) = Inr h"
    unfolding decide_def by (auto simp: result_simps)
  show ?thesis
  proof (cases needs)
    case False
    then show ?thesis using t n by (auto simp: requires_hitl_def split: if_splits)
  next
    case True
    show ?thesis
    proof (cases "stage = ''dev'' \<and> risk_ge (parse_threshold auto_approve) (parse_threshold ''medium'')")
      case dev: True
      then show ?thesis by (simp add: m)
    next
      case False
      with True rest obtain preview where p: "(case manual of
         None \<Rightarrow> Inr \<lparr>hd_approved = PBool False, hd_pending = Some preview, hd_preview = Some preview\<rparr>
       | Some (Inl b) \<Rightarrow> Inr \<lparr>hd_approved = PBool b, hd_pending = Some preview, hd_preview = None\<rparr>
       | Some (Inr d) \<Rightarrow> Inr \<lparr>hd_approved = get_or d ''approved'' (PBool False), hd_pending = Some preview,
                           hd_preview = None\<rparr>) = (Inr h :: exc + hitl_decision)"
        by (simp only: not_True_eq_False if_False rbind_Inr_iff) blast
      show ?thesis
      proof (cases manual)
        case None
        with p assms(2) show ?thesis by auto
      next
        case (Some d)
        with p assms(2) show ?thesis
          by (cases d) (auto simp: get_or_def split: option.splits)
      qed
    qed
  qed
qed

theorem approval_needs_reason_witness:
  "decide (\<lambda>s. None) [(''trust_score'', PFloat (9/10))] [[(''severity'', PStr ''Low'')]] (1/2) ''prod'' ''medium'' None
     = Inr \<lparr>hd_approved = PBool True, hd_pending = None, hd_preview = None\<rparr>
   \<and> any_severe [[(''severity'', PStr ''Low'')]] = Inr False"
proof -
  have r: "decide (\<lambda>s. None) [(''trust_score'', PFloat (9/10))] [[(''severity'', PStr ''Low'')]] (1/2) ''prod'' ''medium'' None
     = Inr \<lparr>hd_approved = PBool True, hd_pending = None, hd_preview = None\<rparr>"
    by code_simp
  show ?thesis using approval_needs_reason[OF r] r by (auto simp del: any_severe.simps)
qed

end
