(* ===== verification/Memory.thy ===== *)
theory Memory
  imports Guardrails
begin

text \<open>Episodic memory: cys_core/domain/memory (models.py, validator.py, services.py), the
  in-memory stores of cys_core/infrastructure/memory/stores.py and
  cys_core/security/memory.py. The digest, the PII expressions, entry ids and the
  clock are parameters. A stored object is a value: the stores only change objects
  they put back.\<close>

subsection \<open>Entries and their validation\<close>

datatype memory_type = Mem_finding | Mem_pending_finding | Mem_ioc | Mem_lesson | Mem_preference
  | Mem_conversation

fun memory_type_value :: "memory_type \<Rightarrow> string" where
  "memory_type_value Mem_finding = ''finding''"
| "memory_type_value Mem_pending_finding = ''pending_finding''"
| "memory_type_value Mem_ioc = ''ioc''"
| "memory_type_value Mem_lesson = ''lesson''"
| "memory_type_value Mem_preference = ''preference''"
| "memory_type_value Mem_conversation = ''conversation''"

record memory_scope =
  ms_tenant_id :: string
  ms_investigation_id :: string
  ms_persona :: "string option"

record memory_entry =
  me_id :: string
  me_scope :: memory_scope
  me_content :: string
  me_type :: memory_type
  me_source_agent :: string
  me_source_job_id :: string
  me_trust_score :: rat
  me_checksum :: string
  me_created_at :: time

record mem_env =
  mv_detector :: detector
  mv_pii_patterns :: "(string \<Rightarrow> bool) list"
  mv_pii_subs :: "(string \<Rightarrow> string) list"
  mv_digest :: "string \<Rightarrow> string \<Rightarrow> string"

record mem_validator =
  mv_namespace_key :: string
  mv_signing_key :: string

definition MemoryEntryValidator :: "string \<Rightarrow> string option \<Rightarrow> mem_validator" where
  "MemoryEntryValidator ns key = \<lparr>mv_namespace_key = ns,
     mv_signing_key = (case key of Some (c # cs) \<Rightarrow> c # cs | _ \<Rightarrow> ''cys-agi-default-key'')\<rparr>"

record validated_content =
  vc_content :: string
  vc_checksum :: string
  vc_rejected :: bool

definition MAX_ITEM_LENGTH :: int where
  "MAX_ITEM_LENGTH = 5000"

text \<open>The digest is taken of the content followed by the namespace, under the key.\<close>

definition checksum :: "mem_env \<Rightarrow> mem_validator \<Rightarrow> string \<Rightarrow> string" where
  "checksum E v content = mv_digest E (content @ mv_namespace_key v) (mv_signing_key v)"

definition verify_checksum :: "mem_env \<Rightarrow> mem_validator \<Rightarrow> string \<Rightarrow> string \<Rightarrow> bool" where
  "verify_checksum E v content given = (checksum E v content = given)"

definition validate :: "mem_env \<Rightarrow> mem_validator \<Rightarrow> string \<Rightarrow> validated_content" where
  "validate E v content = (
     if classify (mv_detector E) content \<noteq> V_NONE
     then \<lparr>vc_content = [], vc_checksum = [], vc_rejected = True\<rparr>
     else let c1 = (if int (length content) > MAX_ITEM_LENGTH then py_take MAX_ITEM_LENGTH content else content);
              c2 = (if contains_sensitive_data (mv_pii_patterns E) c1 then redact_pii (mv_pii_subs E) c1 else c1);
              c3 = filter_patterns (mv_detector E) c2
          in \<lparr>vc_content = c3, vc_checksum = checksum E v c3, vc_rejected = False\<rparr>)"

subsection \<open>The in-memory store\<close>

type_synonym memory_store = "memory_entry list"

definition store_append :: "memory_entry \<Rightarrow> memory_store \<Rightarrow> memory_store" where
  "store_append e s = s @ [e]"

definition scope_matches :: "memory_scope \<Rightarrow> memory_entry \<Rightarrow> bool" where
  "scope_matches scope e = (ms_tenant_id (me_scope e) = ms_tenant_id scope
     \<and> ms_investigation_id (me_scope e) = ms_investigation_id scope
     \<and> (ms_persona scope = None \<or> ms_persona (me_scope e) = None \<or> ms_persona (me_scope e) = ms_persona scope))"

definition store_query :: "memory_scope \<Rightarrow> int \<Rightarrow> memory_store \<Rightarrow> memory_entry list" where
  "store_query scope limit s =
     py_take limit (sort_key (\<lambda>e. - me_created_at e) (filter (scope_matches scope) s))"

definition search_by_investigation :: "string \<Rightarrow> string \<Rightarrow> int \<Rightarrow> memory_store \<Rightarrow> memory_entry list" where
  "search_by_investigation tenant iid limit s = store_query
     \<lparr>ms_tenant_id = tenant, ms_investigation_id = iid, ms_persona = None\<rparr> limit s"

subsection \<open>Writing and reading\<close>

definition namespace_of :: "string \<Rightarrow> string \<Rightarrow> string" where
  "namespace_of tenant iid = tenant @ '':'' @ iid"

definition memory_append ::
  "mem_env \<Rightarrow> string option \<Rightarrow> string \<Rightarrow> time \<Rightarrow> memory_scope \<Rightarrow> string \<Rightarrow> memory_type \<Rightarrow> string
    \<Rightarrow> string \<Rightarrow> rat \<Rightarrow> memory_store \<Rightarrow> memory_store \<times> memory_entry option" where
  "memory_append E key eid now scope content kind agent job trust s = (
     let vc = validate E (MemoryEntryValidator
           (namespace_of (ms_tenant_id scope) (ms_investigation_id scope)) key) content in
     if vc_rejected vc \<or> vc_content vc = [] then (s, None)
     else let e = \<lparr>me_id = eid, me_scope = scope, me_content = vc_content vc, me_type = kind,
            me_source_agent = agent, me_source_job_id = job, me_trust_score = trust,
            me_checksum = vc_checksum vc, me_created_at = now\<rparr>
          in (store_append e s, Some e))"

definition append_finding ::
  "mem_env \<Rightarrow> string option \<Rightarrow> string \<Rightarrow> time \<Rightarrow> (payload \<Rightarrow> string) \<Rightarrow> string \<Rightarrow> string \<Rightarrow> string
    \<Rightarrow> string \<Rightarrow> payload \<Rightarrow> rat \<Rightarrow> memory_store \<Rightarrow> memory_store \<times> memory_entry option" where
  "append_finding E key eid now dumps tenant iid agent job finding trust s =
     memory_append E key eid now \<lparr>ms_tenant_id = tenant, ms_investigation_id = iid, ms_persona = None\<rparr>
       (dumps finding) Mem_finding agent job trust s"

definition append_pending_finding ::
  "mem_env \<Rightarrow> string option \<Rightarrow> string \<Rightarrow> time \<Rightarrow> (payload \<Rightarrow> string) \<Rightarrow> string \<Rightarrow> string \<Rightarrow> string
    \<Rightarrow> string \<Rightarrow> payload \<Rightarrow> rat \<Rightarrow> memory_store \<Rightarrow> memory_store \<times> memory_entry option" where
  "append_pending_finding E key eid now dumps tenant iid agent job finding trust s =
     memory_append E key eid now \<lparr>ms_tenant_id = tenant, ms_investigation_id = iid, ms_persona = None\<rparr>
       (dumps finding) Mem_pending_finding agent job trust s"

text \<open>Seven days in seconds.\<close>

definition MEMORY_TTL :: time where
  "MEMORY_TTL = 604800"

definition entry_valid :: "mem_env \<Rightarrow> mem_validator \<Rightarrow> time \<Rightarrow> memory_entry \<Rightarrow> bool" where
  "entry_valid E v cutoff e = (\<not> me_created_at e < cutoff
     \<and> (me_checksum e = [] \<or> verify_checksum E v (me_content e) (me_checksum e)))"

definition query_investigation ::
  "mem_env \<Rightarrow> string option \<Rightarrow> time \<Rightarrow> string \<Rightarrow> string \<Rightarrow> int \<Rightarrow> string option \<Rightarrow> memory_store
    \<Rightarrow> memory_entry list" where
  "query_investigation E key now tenant iid limit requesting s = (
     if requesting \<noteq> None \<and> requesting \<noteq> Some tenant then []
     else let entries = store_query \<lparr>ms_tenant_id = tenant, ms_investigation_id = iid, ms_persona = None\<rparr> limit s;
              v = MemoryEntryValidator (namespace_of tenant iid) key
          in py_take limit (sort_key (\<lambda>e. - me_trust_score e) (filter (entry_valid E v (now - MEMORY_TTL)) entries)))"

definition prompt_line :: "memory_entry \<Rightarrow> string" where
  "prompt_line e =
     ''- '' @ (if me_type e = Mem_pending_finding then ''[UNTRUSTED PENDING] '' else [])
     @ (if me_source_agent e \<noteq> [] then me_source_agent e else ''agent'') @ '': '' @ me_content e
     @ '' (type='' @ memory_type_value (me_type e) @ '', job='' @ me_source_job_id e @ '')''"

primrec prompt_lines :: "int \<Rightarrow> int \<Rightarrow> memory_entry list \<Rightarrow> string list" where
  "prompt_lines max_chars used [] = []"
| "prompt_lines max_chars used (e # es) = (let line = prompt_line e in
     if used + int (length line) > max_chars then []
     else line # prompt_lines max_chars (used + int (length line)) es)"

definition format_for_prompt :: "int \<Rightarrow> memory_entry list \<Rightarrow> string" where
  "format_for_prompt max_chars entries = py_join newline (prompt_lines max_chars 0 entries)"

subsection \<open>Investigation states\<close>

datatype inv_status = Inv_open | Inv_in_progress | Inv_closed

datatype planner_status = Pl_planning | Pl_ok | Pl_fallback | Pl_error

record inv_state =
  is_investigation_id :: string
  is_tenant_id :: string
  is_goal :: string
  is_status :: inv_status
  is_completed_personas :: "string list"
  is_findings_summary :: "payload list"
  is_planner_plan :: "string list option"
  is_planner_status :: "planner_status option"
  is_planner_rationale :: string
  is_planner_error :: string

definition InvestigationState :: "string \<Rightarrow> string \<Rightarrow> inv_status \<Rightarrow> inv_state" where
  "InvestigationState iid tenant st = \<lparr>is_investigation_id = iid, is_tenant_id = tenant, is_goal = [],
     is_status = st, is_completed_personas = [], is_findings_summary = [], is_planner_plan = None,
     is_planner_status = None, is_planner_rationale = [], is_planner_error = []\<rparr>"

type_synonym inv_store = "((string \<times> string) \<times> inv_state) list"

definition inv_get :: "inv_store \<Rightarrow> string \<times> string \<Rightarrow> inv_state option" where
  "inv_get s key = map_of s key"

definition inv_put :: "string \<times> string \<Rightarrow> inv_state \<Rightarrow> inv_store \<Rightarrow> inv_store" where
  "inv_put key st s = AList.update key st s"

definition inv_upsert :: "inv_state \<Rightarrow> inv_store \<Rightarrow> inv_store" where
  "inv_upsert st s = inv_put (is_tenant_id st, is_investigation_id st) st s"

definition inv_or_new :: "inv_store \<Rightarrow> string \<Rightarrow> string \<Rightarrow> inv_state" where
  "inv_or_new s tenant iid = (case inv_get s (tenant, iid) of
     Some st \<Rightarrow> st | None \<Rightarrow> InvestigationState iid tenant Inv_in_progress)"

definition inv_append_finding :: "string \<Rightarrow> string \<Rightarrow> payload \<Rightarrow> inv_store \<Rightarrow> inv_store" where
  "inv_append_finding tenant iid finding s = (let st = inv_or_new s tenant iid in
     inv_put (tenant, iid) (st\<lparr>is_findings_summary := is_findings_summary st @ [finding],
       is_status := (if is_status st = Inv_open then Inv_in_progress else is_status st)\<rparr>) s)"

definition inv_mark_persona_done :: "string \<Rightarrow> string \<Rightarrow> string \<Rightarrow> inv_store \<Rightarrow> inv_store" where
  "inv_mark_persona_done tenant iid persona s = (let st = inv_or_new s tenant iid in
     inv_put (tenant, iid)
       (if persona \<in> set (is_completed_personas st) then st
        else st\<lparr>is_completed_personas := is_completed_personas st @ [persona]\<rparr>) s)"

definition inv_list_recent :: "string \<Rightarrow> int \<Rightarrow> inv_store \<Rightarrow> inv_state list" where
  "inv_list_recent tenant limit s = py_take limit (filter (\<lambda>st. is_tenant_id st = tenant) (map snd s))"

interpretation inv_states: keyed_store inv_get inv_put "\<lambda>s. distinct (map fst s)"
  by unfold_locales (auto simp: inv_get_def inv_put_def distinct_update)

subsection \<open>Per-user agent memory\<close>

record agent_memory_item =
  am_content :: string
  am_type :: string
  am_timestamp :: time
  am_user_id :: string
  am_checksum :: string

record agent_memory =
  am_user :: string
  am_key :: string
  am_memories :: "agent_memory_item list"

definition MAX_MEMORY_ITEMS :: int where
  "MAX_MEMORY_ITEMS = 100"

definition SecureAgentMemory :: "string \<Rightarrow> string option \<Rightarrow> agent_memory" where
  "SecureAgentMemory user key = \<lparr>am_user = user,
     am_key = (case key of Some (c # cs) \<Rightarrow> c # cs | _ \<Rightarrow> ''cys-agi-default-key''), am_memories = []\<rparr>"

definition am_validator :: "agent_memory \<Rightarrow> mem_validator" where
  "am_validator m = MemoryEntryValidator (am_user m) (Some (am_key m))"

definition enforce_limits :: "agent_memory_item list \<Rightarrow> agent_memory_item list" where
  "enforce_limits ms = (if int (length ms) > MAX_MEMORY_ITEMS then py_last MAX_MEMORY_ITEMS ms else ms)"

definition am_add :: "mem_env \<Rightarrow> time \<Rightarrow> string \<Rightarrow> string \<Rightarrow> agent_memory \<Rightarrow> agent_memory" where
  "am_add E now content kind m = (let vc = validate E (am_validator m) content in
     if vc_rejected vc \<or> vc_content vc = [] then m
     else m\<lparr>am_memories := enforce_limits (am_memories m @ [\<lparr>am_content = vc_content vc, am_type = kind,
        am_timestamp = now, am_user_id = am_user m, am_checksum = vc_checksum vc\<rparr>])\<rparr>)"

definition am_get_context :: "mem_env \<Rightarrow> time \<Rightarrow> agent_memory \<Rightarrow> string list" where
  "am_get_context E now m = map am_content (filter (\<lambda>i. am_timestamp i > now - 86400
     \<and> verify_checksum E (am_validator m) (am_content i) (am_checksum i)) (am_memories m))"

subsection \<open>Lemmas\<close>

lemma set_sort_filter: "set (sort_key f (filter P xs)) = {x \<in> set xs. P x}"
  by auto

lemma store_query_sound:
  "e \<in> set (store_query scope limit s) \<Longrightarrow> e \<in> set s \<and> scope_matches scope e"
  unfolding store_query_def
  using set_py_take_subset[of limit "sort_key (\<lambda>e. - me_created_at e) (filter (scope_matches scope) s)"]
  by auto

lemma py_take_all: "int (length xs) \<le> n \<Longrightarrow> py_take n xs = xs"
  by (simp add: py_take_def)

lemma store_query_all:
  "int (length (filter (scope_matches scope) s)) \<le> limit \<Longrightarrow>
     set (store_query scope limit s) = {e \<in> set s. scope_matches scope e}"
  by (simp add: store_query_def py_take_all)

lemma sorted_take: "sorted xs \<Longrightarrow> sorted (take n xs)"
  by (rule sorted_wrt_take)

lemma map_py_take: "map f (py_take n xs) = py_take n (map f xs)"
  by (simp add: py_take_def take_map)

lemma sorted_py_take: "sorted xs \<Longrightarrow> sorted (py_take n xs)"
  by (simp add: py_take_def sorted_take)

lemma length_store_query: "0 \<le> limit \<Longrightarrow> int (length (store_query scope limit s)) \<le> limit"
  by (simp add: store_query_def py_take_def)

lemma validate_checksum:
  "\<not> vc_rejected (validate E v c) \<Longrightarrow> verify_checksum E v (vc_content (validate E v c)) (vc_checksum (validate E v c))"
  by (auto simp: validate_def verify_checksum_def Let_def split: if_splits)

lemma enforce_limits_length: "int (length (enforce_limits ms)) \<le> MAX_MEMORY_ITEMS"
  using length_py_last_le[of MAX_MEMORY_ITEMS ms] by (auto simp: enforce_limits_def MAX_MEMORY_ITEMS_def)

lemma enforce_limits_last: "ms \<noteq> [] \<Longrightarrow> enforce_limits ms \<noteq> [] \<and> last (enforce_limits ms) = last ms"
  by (auto simp: enforce_limits_def py_last_def MAX_MEMORY_ITEMS_def)

subsection \<open>What memory guarantees\<close>

lemma query_investigation_set:
  assumes "e \<in> set (query_investigation E key now tenant iid limit requesting s)"
  shows "e \<in> set s \<and> scope_matches \<lparr>ms_tenant_id = tenant, ms_investigation_id = iid, ms_persona = None\<rparr> e
     \<and> entry_valid E (MemoryEntryValidator (namespace_of tenant iid) key) (now - MEMORY_TTL) e
     \<and> (requesting = None \<or> requesting = Some tenant)"
proof -
  let ?v = "MemoryEntryValidator (namespace_of tenant iid) key"
  let ?q = "store_query \<lparr>ms_tenant_id = tenant, ms_investigation_id = iid, ms_persona = None\<rparr> limit s"
  have "e \<in> set (py_take limit (sort_key (\<lambda>e. - me_trust_score e) (filter (entry_valid E ?v (now - MEMORY_TTL)) ?q)))"
    and r: "requesting = None \<or> requesting = Some tenant"
    using assms unfolding query_investigation_def Let_def by (auto split: if_splits)
  then have "e \<in> set ?q \<and> entry_valid E ?v (now - MEMORY_TTL) e" using set_py_take_subset by fastforce
  with store_query_sound r show ?thesis by blast
qed

text \<open>C15: Reads are isolated, fresh, intact and ranked: query_investigation returns at most
  limit entries, by falling trust, each one stored for exactly this tenant and investigation,
  not older than seven days, and, where it has a checksum, with the checksum of its content
  in this namespace; a caller who names another tenant gets nothing.\<close>

theorem memory_read_safe:
  assumes "0 \<le> limit"
  shows "int (length (query_investigation E key now tenant iid limit requesting s)) \<le> limit
     \<and> sorted (map (\<lambda>e. - me_trust_score e) (query_investigation E key now tenant iid limit requesting s))
     \<and> (\<forall>e \<in> set (query_investigation E key now tenant iid limit requesting s).
          e \<in> set s \<and> ms_tenant_id (me_scope e) = tenant \<and> ms_investigation_id (me_scope e) = iid
          \<and> now - MEMORY_TTL \<le> me_created_at e
          \<and> (me_checksum e = [] \<or>
              me_checksum e = checksum E (MemoryEntryValidator (namespace_of tenant iid) key) (me_content e))
          \<and> (requesting = None \<or> requesting = Some tenant))"
proof -
  have "int (length (query_investigation E key now tenant iid limit requesting s)) \<le> limit"
    using assms by (simp add: query_investigation_def Let_def int_length_py_take)
  moreover have "sorted (map (\<lambda>e. - me_trust_score e) (query_investigation E key now tenant iid limit requesting s))"
    using assms by (simp add: query_investigation_def Let_def map_py_take sorted_py_take)
  moreover have "e \<in> set s \<and> ms_tenant_id (me_scope e) = tenant \<and> ms_investigation_id (me_scope e) = iid
          \<and> now - MEMORY_TTL \<le> me_created_at e
          \<and> (me_checksum e = [] \<or>
              me_checksum e = checksum E (MemoryEntryValidator (namespace_of tenant iid) key) (me_content e))
          \<and> (requesting = None \<or> requesting = Some tenant)"
    if "e \<in> set (query_investigation E key now tenant iid limit requesting s)" for e
    using query_investigation_set[OF that]
    by (auto simp: scope_matches_def entry_valid_def verify_checksum_def)
  ultimately show ?thesis by blast
qed

definition demo_mem_env :: mem_env where
  "demo_mem_env = \<lparr>mv_detector = demo_detector, mv_pii_patterns = [], mv_pii_subs = [],
     mv_digest = (\<lambda>text key. nat_str (length text))\<rparr>"

definition demo_scope :: memory_scope where
  "demo_scope = \<lparr>ms_tenant_id = ''acme'', ms_investigation_id = ''i1'', ms_persona = None\<rparr>"

theorem memory_read_safe_witness:
  "length (query_investigation demo_mem_env None 99 ''acme'' ''i1'' 20 None
       (fst (memory_append demo_mem_env None ''m1'' 7 demo_scope ''ok'' Mem_finding ''soc'' ''j'' 1 []))) = 1
   \<and> int (length (query_investigation demo_mem_env None 99 ''acme'' ''i1'' 20 None
       (fst (memory_append demo_mem_env None ''m1'' 7 demo_scope ''ok'' Mem_finding ''soc'' ''j'' 1 [])))) \<le> 20"
proof -
  have "length (query_investigation demo_mem_env None 99 ''acme'' ''i1'' 20 None
       (fst (memory_append demo_mem_env None ''m1'' 7 demo_scope ''ok'' Mem_finding ''soc'' ''j'' 1 []))) = 1"
    by code_simp
  with memory_read_safe[THEN conjunct1, of 20] show ?thesis by simp
qed

text \<open>What was written is read back: an entry that memory_append accepted is returned by a
  read of its investigation within seven days, as long as the store holds no more matching
  entries than the limit.\<close>

theorem memory_write_read:
  assumes "memory_append E key eid t scope content kind agent job trust s = (s', Some e)"
    and "now - t \<le> MEMORY_TTL"
    and "int (length (filter (scope_matches \<lparr>ms_tenant_id = ms_tenant_id scope,
            ms_investigation_id = ms_investigation_id scope, ms_persona = None\<rparr>) s')) \<le> limit"
  shows "e \<in> set (query_investigation E key now (ms_tenant_id scope) (ms_investigation_id scope) limit None s')"
proof -
  let ?sc = "\<lparr>ms_tenant_id = ms_tenant_id scope, ms_investigation_id = ms_investigation_id scope, ms_persona = None\<rparr>"
  let ?v = "MemoryEntryValidator (namespace_of (ms_tenant_id scope) (ms_investigation_id scope)) key"
  let ?f = "filter (entry_valid E ?v (now - MEMORY_TTL)) (store_query ?sc limit s')"
  from assms(1) have ok: "\<not> vc_rejected (validate E ?v content)"
    and e: "s' = s @ [e]" "me_scope e = scope" "me_content e = vc_content (validate E ?v content)"
      "me_checksum e = vc_checksum (validate E ?v content)" "me_created_at e = t"
    by (auto simp: memory_append_def store_append_def Let_def split: if_splits)
  have "scope_matches ?sc e" by (simp add: scope_matches_def e)
  then have q: "e \<in> set (store_query ?sc limit s')" using store_query_all[OF assms(3)] e(1) by simp
  have "entry_valid E ?v (now - MEMORY_TTL) e"
    using validate_checksum[OF ok] assms(2) e by (auto simp: entry_valid_def)
  with q have "e \<in> set ?f" by simp
  moreover have "int (length ?f) \<le> limit"
  proof -
    have "length ?f \<le> length (store_query ?sc limit s')" by (rule length_filter_le)
    moreover have "length (store_query ?sc limit s') \<le> length (filter (scope_matches ?sc) s')"
      by (simp add: store_query_def py_take_def)
    ultimately show ?thesis using assms(3) by linarith
  qed
  ultimately show ?thesis by (simp add: query_investigation_def Let_def py_take_all)
qed

theorem memory_write_read_witness:
  "\<exists>e. e \<in> set (query_investigation demo_mem_env None 604807 ''acme'' ''i1'' 20 None
      (fst (memory_append demo_mem_env None ''m1'' 7 demo_scope ''ok'' Mem_finding ''soc'' ''j'' 1 [])))"
proof -
  let ?r = "memory_append demo_mem_env None ''m1'' 7 demo_scope ''ok'' Mem_finding ''soc'' ''j'' 1 []"
  have "?r = (fst ?r, Some (hd (fst ?r)))" by code_simp
  moreover have "604807 - 7 \<le> MEMORY_TTL" by code_simp
  moreover have "int (length (filter (scope_matches \<lparr>ms_tenant_id = ms_tenant_id demo_scope,
            ms_investigation_id = ms_investigation_id demo_scope, ms_persona = None\<rparr>) (fst ?r))) \<le> 20" by code_simp
  ultimately have "hd (fst ?r) \<in> set (query_investigation demo_mem_env None 604807 (ms_tenant_id demo_scope)
      (ms_investigation_id demo_scope) 20 None (fst ?r))"
    by (rule memory_write_read)
  then show ?thesis by (auto simp: demo_scope_def)
qed

text \<open>The per-user memory is bounded and keeps the newest: after any sequence of
  additions to an empty memory there are at most 100 items, and an addition that was
  accepted is the last of them.\<close>

theorem agent_memory_bounded:
  "int (length (am_memories (fold (\<lambda>(t, c, k) m. am_add E t c k m) ops (SecureAgentMemory user key)))) \<le> MAX_MEMORY_ITEMS
   \<and> (let m = fold (\<lambda>(t, c, k) m. am_add E t c k m) ops (SecureAgentMemory user key);
          vc = validate E (am_validator m) content in
      \<not> vc_rejected vc \<and> vc_content vc \<noteq> [] \<longrightarrow>
        am_memories (am_add E now content kind m) \<noteq> []
        \<and> am_content (last (am_memories (am_add E now content kind m))) = vc_content vc)"
proof -
  have b: "int (length (am_memories m)) \<le> MAX_MEMORY_ITEMS \<Longrightarrow>
      int (length (am_memories (fold (\<lambda>(t, c, k) m. am_add E t c k m) ops m))) \<le> MAX_MEMORY_ITEMS" for m
  proof (induction ops arbitrary: m)
    case (Cons op ops)
    obtain t c k where op: "op = (t, c, k)" by (cases op)
    have "int (length (am_memories (am_add E t c k m))) \<le> MAX_MEMORY_ITEMS"
      using Cons.prems enforce_limits_length by (simp add: am_add_def Let_def)
    with Cons.IH show ?case by (simp add: op)
  qed simp
  have "int (length (am_memories (SecureAgentMemory user key))) \<le> MAX_MEMORY_ITEMS"
    by (simp add: SecureAgentMemory_def MAX_MEMORY_ITEMS_def)
  from b[OF this] show ?thesis
    using enforce_limits_last by (auto simp: am_add_def Let_def)
qed

theorem agent_memory_bounded_witness:
  "am_content (last (am_memories (am_add demo_mem_env 5 ''hi'' ''note'' (SecureAgentMemory ''u'' None)))) = ''hi''"
proof -
  have v: "validate demo_mem_env (am_validator (SecureAgentMemory ''u'' None)) ''hi''
      = \<lparr>vc_content = ''hi'', vc_checksum = ''3'', vc_rejected = False\<rparr>" by code_simp
  show ?thesis
    using agent_memory_bounded[THEN conjunct2, of demo_mem_env "[]" "''u''" None "''hi''" 5 "''note''"]
    by (simp add: v Let_def)
qed

text \<open>The checksum does not separate content from namespace: moving a piece of text from
  the end of the content to the front of the namespace key gives the same checksum, so an
  entry copied between two namespaces can still verify.\<close>

theorem checksum_not_separated:
  "checksum E \<lparr>mv_namespace_key = ns, mv_signing_key = key\<rparr> (content @ piece)
   = checksum E \<lparr>mv_namespace_key = piece @ ns, mv_signing_key = key\<rparr> content"
  by (simp add: checksum_def)

text \<open>list_recent of the in-memory store keeps the states that were created first: with
  a full window a newly created investigation of the tenant does not show up at all.\<close>

theorem list_recent_keeps_oldest:
  assumes "inv_get s (is_tenant_id st, is_investigation_id st) = None"
    and "0 \<le> limit" and "limit \<le> int (length (filter (\<lambda>st'. is_tenant_id st' = is_tenant_id st) (map snd s)))"
  shows "inv_list_recent (is_tenant_id st) limit (inv_upsert st s) = inv_list_recent (is_tenant_id st) limit s"
proof -
  have "(is_tenant_id st, is_investigation_id st) \<notin> fst ` set s"
    using assms(1) by (simp add: inv_get_def map_of_eq_None_iff)
  then have "inv_upsert st s = s @ [((is_tenant_id st, is_investigation_id st), st)]"
    by (simp add: inv_upsert_def inv_put_def update_fresh)
  moreover have "nat limit \<le> length (filter (\<lambda>st'. is_tenant_id st' = is_tenant_id st) (map snd s))"
    using assms(3) by linarith
  ultimately show ?thesis using assms(2) by (simp add: inv_list_recent_def py_take_def)
qed

theorem list_recent_keeps_oldest_witness:
  "inv_list_recent ''t'' 1 (inv_upsert (InvestigationState ''new'' ''t'' Inv_open)
      (inv_upsert (InvestigationState ''old'' ''t'' Inv_open) []))
   = inv_list_recent ''t'' 1 (inv_upsert (InvestigationState ''old'' ''t'' Inv_open) [])"
  using list_recent_keeps_oldest[of "inv_upsert (InvestigationState ''old'' ''t'' Inv_open) []"
      "InvestigationState ''new'' ''t'' Inv_open" 1]
  by (simp add: InvestigationState_def inv_upsert_def inv_put_def inv_get_def)

end
