(* ===== verification/Job_Limits.thy ===== *)
theory Job_Limits
  imports Guardrails
begin

text \<open>Budgets, rate limits and monitoring: cys_core/domain/workers/job_budget.py and
  budgets.py, cys_core/security/rate_limit.py and monitor.py. Money is an exact
  rational; the clock is an argument; the sorted-set commands of Redis are
  parameters.\<close>

subsection \<open>Job budgets\<close>

record budget_state =
  bs_max_tokens :: int
  bs_max_cost_usd :: rat
  bs_max_tool_calls :: int
  bs_tokens_used :: int
  bs_cost_usd :: rat
  bs_tool_calls :: int

record tracker =
  tk_states :: "budget_state dict"
  tk_profile_ids :: "string dict"
  tk_profile_costs :: "rat dict"
  tk_cost_per_1k :: rat

definition configure_job_cost :: "rat \<Rightarrow> string option \<Rightarrow> tracker \<Rightarrow> tracker" where
  "configure_job_cost cost profile_id t = (case profile_id of
     Some (c # cs) \<Rightarrow> t\<lparr>tk_profile_costs := dput (c # cs) cost (tk_profile_costs t)\<rparr>
   | _ \<Rightarrow> t\<lparr>tk_cost_per_1k := cost\<rparr>)"

definition cost_rate :: "tracker \<Rightarrow> string option \<Rightarrow> rat" where
  "cost_rate t profile_id = (case profile_id of
     Some (c # cs) \<Rightarrow> get_or (tk_profile_costs t) (c # cs) (tk_cost_per_1k t)
   | _ \<Rightarrow> tk_cost_per_1k t)"

definition budget_configure :: "string \<Rightarrow> int \<Rightarrow> rat \<Rightarrow> int \<Rightarrow> string \<Rightarrow> tracker \<Rightarrow> tracker" where
  "budget_configure sid mt mc mtc profile_id t = t\<lparr>
     tk_states := dput sid \<lparr>bs_max_tokens = mt, bs_max_cost_usd = mc, bs_max_tool_calls = mtc,
       bs_tokens_used = 0, bs_cost_usd = 0, bs_tool_calls = 0\<rparr> (tk_states t),
     tk_profile_ids := dput sid profile_id (tk_profile_ids t)\<rparr>"

definition budget_get :: "string \<Rightarrow> tracker \<Rightarrow> budget_state option" where
  "budget_get sid t = dget (tk_states t) sid"

definition budget_clear :: "string \<Rightarrow> tracker \<Rightarrow> tracker" where
  "budget_clear sid t = t\<lparr>tk_states := AList.delete sid (tk_states t),
     tk_profile_ids := AList.delete sid (tk_profile_ids t)\<rparr>"

definition budget_clear_all :: "tracker \<Rightarrow> tracker" where
  "budget_clear_all t = t\<lparr>tk_states := []\<rparr>"

datatype budget_exceeded = Tool_calls_exceeded int | Tokens_exceeded int | Cost_exceeded rat

definition check_tool_budget :: "string \<Rightarrow> tracker \<Rightarrow> budget_exceeded option" where
  "check_tool_budget sid t = (case dget (tk_states t) sid of
     None \<Rightarrow> None
   | Some st \<Rightarrow> if bs_tool_calls st \<ge> bs_max_tool_calls st
       then Some (Tool_calls_exceeded (bs_max_tool_calls st)) else None)"

text \<open>Where the code raises, the state reached so far is returned with the exception.\<close>

definition record_tool_call :: "string \<Rightarrow> tracker \<Rightarrow> tracker \<times> budget_exceeded option" where
  "record_tool_call sid t = (case check_tool_budget sid t of
     Some e \<Rightarrow> (t, Some e)
   | None \<Rightarrow> (case dget (tk_states t) sid of
       None \<Rightarrow> (t, None)
     | Some st \<Rightarrow> (t\<lparr>tk_states := dput sid (st\<lparr>bs_tool_calls := bs_tool_calls st + 1\<rparr>) (tk_states t)\<rparr>, None)))"

definition check_limits :: "budget_state \<Rightarrow> budget_exceeded option" where
  "check_limits st = (if bs_tokens_used st > bs_max_tokens st then Some (Tokens_exceeded (bs_max_tokens st))
     else if bs_cost_usd st > bs_max_cost_usd st then Some (Cost_exceeded (bs_max_cost_usd st))
     else None)"

definition record_tokens :: "string \<Rightarrow> int \<Rightarrow> tracker \<Rightarrow> tracker \<times> budget_exceeded option" where
  "record_tokens sid tokens t = (case dget (tk_states t) sid of
     None \<Rightarrow> (t, None)
   | Some st \<Rightarrow> if tokens \<le> 0 then (t, None)
     else let cost = (of_int tokens / 1000) * cost_rate t (dget (tk_profile_ids t) sid);
              st' = st\<lparr>bs_tokens_used := bs_tokens_used st + tokens, bs_cost_usd := bs_cost_usd st + cost\<rparr>
          in (t\<lparr>tk_states := dput sid st' (tk_states t)\<rparr>, check_limits st'))"

definition estimate_tokens :: "string \<Rightarrow> int" where
  "estimate_tokens text = max 1 (int (length text) div 4)"

definition persona_budget_for :: "(string \<Rightarrow> string + agent_entry option) \<Rightarrow> string \<Rightarrow> agent_entry option \<Rightarrow> persona_budget" where
  "persona_budget_for agents persona entry = persona_budget_pure persona
     (case entry of Some e \<Rightarrow> Some e
      | None \<Rightarrow> (case agents persona of Inr r \<Rightarrow> r | Inl _ \<Rightarrow> None))"

definition int_or :: "'a::zero \<Rightarrow> 'a \<Rightarrow> 'a" where
  "int_or x d = (if x \<noteq> 0 then x else d)"

definition enrich_job_budget :: "(string \<Rightarrow> string + agent_entry option) \<Rightarrow> worker_job \<Rightarrow> worker_job" where
  "enrich_job_budget agents job = (let b = persona_budget_for agents (job_persona job) None in
     job\<lparr>job_max_tokens := int_or (job_max_tokens job) (bud_max_tokens b),
         job_max_cost_usd := int_or (job_max_cost_usd job) (bud_max_cost_usd b),
         job_max_tool_calls := int_or (job_max_tool_calls job) (bud_max_tool_calls b)\<rparr>)"

subsection \<open>Rate limits\<close>

record rate_limiter =
  rl_max_calls :: int
  rl_window :: int
  rl_buckets :: "time list dict"

definition InMemoryRateLimiter :: "int \<Rightarrow> int \<Rightarrow> rate_limiter" where
  "InMemoryRateLimiter max_calls window = \<lparr>rl_max_calls = max_calls, rl_window = window, rl_buckets = []\<rparr>"

text \<open>One bucket: drop what left the window, refuse a full bucket, else add the call.\<close>

definition bucket_allow :: "int \<Rightarrow> int \<Rightarrow> time \<Rightarrow> time list \<Rightarrow> time list \<times> bool" where
  "bucket_allow max_calls window now bucket = (
     let b = dropWhile (\<lambda>t. now - t > of_int window) bucket in
     if int (length b) \<ge> max_calls then (b, False) else (b @ [now], True))"

definition rate_allow :: "time \<Rightarrow> string \<Rightarrow> rate_limiter \<Rightarrow> rate_limiter \<times> bool" where
  "rate_allow now key r = (
     case bucket_allow (rl_max_calls r) (rl_window r) now (get_or (rl_buckets r) key []) of
       (b, ok) \<Rightarrow> (r\<lparr>rl_buckets := dput key b (rl_buckets r)\<rparr>, ok))"

record 'z zset_ops =
  z_remrange :: "int \<Rightarrow> int \<Rightarrow> 'z \<Rightarrow> 'z"
  z_add :: "string \<Rightarrow> int \<Rightarrow> 'z \<Rightarrow> 'z"
  z_card :: "'z \<Rightarrow> int"

text \<open>The Redis limiter on the sorted set of one key; now is int(time.time()).\<close>

definition redis_allow :: "'z zset_ops \<Rightarrow> int \<Rightarrow> int \<Rightarrow> int \<Rightarrow> 'z \<Rightarrow> 'z \<times> bool" where
  "redis_allow Z max_calls window now z = (
     let z' = z_add Z (int_str now) now (z_remrange Z 0 (now - window) z)
     in (z', z_card Z z' \<le> max_calls))"

subsection \<open>Monitoring\<close>

record sec_event =
  se_event_type :: string
  se_severity :: string
  se_session_id :: string
  se_user_id :: string
  se_tool_name :: "string option"
  se_details :: payload

record session_metrics =
  sm_tool_calls :: "time list"
  sm_failed_calls :: int
  sm_injection_attempts :: int

record monitor =
  mo_agent_id :: string
  mo_thresholds :: anomaly_policy
  mo_metrics :: "session_metrics dict"
  mo_events :: "sec_event list"
  mo_extra_keys :: "string list"

definition emit :: "sec_event \<Rightarrow> monitor \<Rightarrow> monitor" where
  "emit e m = m\<lparr>mo_events := mo_events m @ [e]\<rparr>"

definition log_security_event ::
  "string \<Rightarrow> string \<Rightarrow> string \<Rightarrow> payload \<Rightarrow> string \<Rightarrow> monitor \<Rightarrow> monitor" where
  "log_security_event sid kind severity details user m = emit
     \<lparr>se_event_type = kind, se_severity = severity, se_session_id = sid, se_user_id = user,
      se_tool_name = None, se_details = details\<rparr> m"

definition metrics_of :: "string \<Rightarrow> monitor \<Rightarrow> session_metrics" where
  "metrics_of sid m = get_or (mo_metrics m) sid
     \<lparr>sm_tool_calls = [], sm_failed_calls = 0, sm_injection_attempts = 0\<rparr>"

definition check_anomalies :: "time \<Rightarrow> string \<Rightarrow> string \<Rightarrow> monitor \<Rightarrow> monitor" where
  "check_anomalies now sid user m = (
     let mt = metrics_of sid m;
         calls = sm_tool_calls mt @ [now];
         m1 = m\<lparr>mo_metrics := dput sid (mt\<lparr>sm_tool_calls := calls\<rparr>) (mo_metrics m)\<rparr>;
         recent = filter (\<lambda>t. now - t < 60) calls in
     if int (length recent) > an_tool_calls_per_minute (mo_thresholds m)
     then log_security_event sid ''anomaly_detected'' ''WARNING''
       [(''reason'', PStr ''excessive_tool_calls''), (''count'', PInt (int (length recent)))] user m1
     else m1)"

definition log_tool_call ::
  "time \<Rightarrow> string \<Rightarrow> string \<Rightarrow> payload \<Rightarrow> payload \<Rightarrow> string \<Rightarrow> monitor \<Rightarrow> monitor" where
  "log_tool_call now sid tool params result user m = check_anomalies now sid user (emit
     \<lparr>se_event_type = ''tool_call'', se_severity = ''INFO'', se_session_id = sid, se_user_id = user,
      se_tool_name = Some tool,
      se_details = [(''parameters'', redact_sensitive_keys (mo_extra_keys m) (PDict params)),
                    (''result_status'', get_or result ''status'' (PStr ''ok''))]\<rparr> m)"

definition log_orchestration_tool ::
  "time \<Rightarrow> string \<Rightarrow> string \<Rightarrow> payload \<Rightarrow> string \<Rightarrow> string \<Rightarrow> monitor \<Rightarrow> monitor" where
  "log_orchestration_tool now sid tool params outcome user m =
     log_tool_call now sid tool params [(''status'', PStr outcome), (''orchestration'', PBool True)] user m"

definition record_injection_attempt ::
  "string \<Rightarrow> string \<Rightarrow> payload \<Rightarrow> string \<Rightarrow> monitor \<Rightarrow> monitor" where
  "record_injection_attempt sid v details user m = (
     let mt = metrics_of sid m;
         n = sm_injection_attempts mt + 1;
         m1 = log_security_event sid ''injection_attempt'' ''WARNING''
           (fold (\<lambda>(k, x) d. dput k x d) details [(''verdict'', PStr v)]) user
           (m\<lparr>mo_metrics := dput sid (mt\<lparr>sm_injection_attempts := n\<rparr>) (mo_metrics m)\<rparr>) in
     if n > an_injection_attempts (mo_thresholds m)
     then log_security_event sid ''anomaly_detected'' ''WARNING''
       [(''reason'', PStr ''injection_attempts''), (''count'', PInt n)] user m1
     else m1)"

subsection \<open>Lemmas\<close>

text \<open>Any sequence of recorded tool calls and token counts on one session.\<close>

datatype budget_op = Rec_tool | Rec_tokens int

primrec budget_step :: "string \<Rightarrow> budget_op \<Rightarrow> tracker \<Rightarrow> tracker \<times> budget_exceeded option" where
  "budget_step sid Rec_tool t = record_tool_call sid t"
| "budget_step sid (Rec_tokens n) t = record_tokens sid n t"

text \<open>Runs a sequence and counts the tool calls that were not refused.\<close>

primrec budget_run :: "string \<Rightarrow> budget_op list \<Rightarrow> tracker \<Rightarrow> int \<times> tracker" where
  "budget_run sid [] t = (0, t)"
| "budget_run sid (op # ops) t = (case budget_step sid op t of (t1, e) \<Rightarrow>
     (case budget_run sid ops t1 of (n, t2) \<Rightarrow> ((if op = Rec_tool \<and> e = None then n + 1 else n), t2)))"

lemma budget_step_state:
  assumes "dget (tk_states t) sid = Some st"
  shows "\<exists>st'. dget (tk_states (fst (budget_step sid op t))) sid = Some st'
     \<and> bs_max_tool_calls st' = bs_max_tool_calls st
     \<and> bs_tool_calls st' = bs_tool_calls st + (if op = Rec_tool \<and> snd (budget_step sid op t) = None then 1 else 0)
     \<and> (op = Rec_tool \<and> snd (budget_step sid op t) = None \<longrightarrow> bs_tool_calls st < bs_max_tool_calls st)"
  using assms by (cases op) (auto simp: record_tool_call_def check_tool_budget_def record_tokens_def Let_def)

lemma budget_run_state:
  assumes "dget (tk_states t) sid = Some st" and "bs_tool_calls st \<le> bs_max_tool_calls st"
  shows "\<exists>st'. dget (tk_states (snd (budget_run sid ops t))) sid = Some st'
     \<and> bs_max_tool_calls st' = bs_max_tool_calls st
     \<and> bs_tool_calls st' = bs_tool_calls st + fst (budget_run sid ops t)
     \<and> bs_tool_calls st' \<le> bs_max_tool_calls st"
  using assms
proof (induction ops arbitrary: t st)
  case (Cons op ops)
  obtain t1 e where st1: "budget_step sid op t = (t1, e)" by (cases "budget_step sid op t")
  from budget_step_state[OF Cons.prems(1), of op] obtain s1 where
    s1: "dget (tk_states t1) sid = Some s1" "bs_max_tool_calls s1 = bs_max_tool_calls st"
      "bs_tool_calls s1 = bs_tool_calls st + (if op = Rec_tool \<and> e = None then 1 else 0)"
      "op = Rec_tool \<and> e = None \<longrightarrow> bs_tool_calls st < bs_max_tool_calls st"
    by (auto simp: st1)
  then have "bs_tool_calls s1 \<le> bs_max_tool_calls s1" using Cons.prems(2) by (auto split: if_splits)
  from Cons.IH[OF s1(1) this] obtain s2 where
    "dget (tk_states (snd (budget_run sid ops t1))) sid = Some s2" "bs_max_tool_calls s2 = bs_max_tool_calls s1"
    "bs_tool_calls s2 = bs_tool_calls s1 + fst (budget_run sid ops t1)" "bs_tool_calls s2 \<le> bs_max_tool_calls s1"
    by blast
  with s1 show ?case by (auto simp: st1 split_beta)
qed auto

definition pos_sum :: "int list \<Rightarrow> int" where
  "pos_sum ns = sum_list (filter (\<lambda>n. 0 < n) ns)"

definition token_run :: "string \<Rightarrow> int list \<Rightarrow> tracker \<Rightarrow> tracker" where
  "token_run sid ns t = fold (\<lambda>n t. fst (record_tokens sid n t)) ns t"

lemma token_run_state:
  assumes "dget (tk_states t) sid = Some st"
  shows "dget (tk_states (token_run sid ns t)) sid = Some (st\<lparr>bs_tokens_used := bs_tokens_used st + pos_sum ns,
       bs_cost_usd := bs_cost_usd st + of_int (pos_sum ns) / 1000 * cost_rate t (dget (tk_profile_ids t) sid)\<rparr>)
     \<and> tk_profile_ids (token_run sid ns t) = tk_profile_ids t
     \<and> cost_rate (token_run sid ns t) = cost_rate t"
  using assms
proof (induction ns arbitrary: t st)
  case Nil
  then show ?case by (simp add: token_run_def pos_sum_def)
next
  case (Cons n ns)
  let ?t1 = "fst (record_tokens sid n t)"
  have c: "cost_rate ?t1 = cost_rate t" "tk_profile_ids ?t1 = tk_profile_ids t"
    using Cons.prems by (auto simp: record_tokens_def Let_def cost_rate_def fun_eq_iff split: option.splits list.splits)
  have step: "token_run sid (n # ns) t = token_run sid ns ?t1" by (simp add: token_run_def)
  show ?case
  proof (cases "n \<le> 0")
    case True
    then have "?t1 = t" using Cons.prems by (simp add: record_tokens_def)
    with Cons.IH[OF Cons.prems] True show ?thesis by (simp add: step pos_sum_def)
  next
    case False
    let ?r = "cost_rate t (dget (tk_profile_ids t) sid)"
    have s1: "dget (tk_states ?t1) sid = Some (st\<lparr>bs_tokens_used := bs_tokens_used st + n,
        bs_cost_usd := bs_cost_usd st + of_int n / 1000 * ?r\<rparr>)"
      using Cons.prems False by (simp add: record_tokens_def Let_def)
    from Cons.IH[OF s1] False c show ?thesis
      by (simp add: step pos_sum_def algebra_simps add_divide_distrib)
  qed
qed

text \<open>A sequence of calls on one bucket; the times of the allowed ones, in order.\<close>

primrec allowed_times :: "int \<Rightarrow> int \<Rightarrow> time list \<Rightarrow> time list \<Rightarrow> time list" where
  "allowed_times k w b [] = []"
| "allowed_times k w b (t # ts) = (case bucket_allow k w t b of (b', ok) \<Rightarrow>
     if ok then t # allowed_times k w b' ts else allowed_times k w b' ts)"

definition spaced :: "nat \<Rightarrow> int \<Rightarrow> time list \<Rightarrow> bool" where
  "spaced k w al = (\<forall>i. i + k < length al \<longrightarrow> al ! (i + k) - al ! i > of_int w)"

lemma dropWhile_split: "\<exists>d. b = d @ dropWhile P b \<and> (\<forall>x \<in> set d. P x)"
  by (rule exI[of _ "takeWhile P b"]) (auto dest: set_takeWhileD)

lemma spaced_snoc:
  assumes "spaced k w al" and "k \<le> length al \<Longrightarrow> t - al ! (length al - k) > of_int w" and "0 < k"
  shows "spaced k w (al @ [t])"
  unfolding spaced_def
proof (intro allI impI)
  fix i assume i: "i + k < length (al @ [t])"
  show "(al @ [t]) ! (i + k) - (al @ [t]) ! i > of_int w"
  proof (cases "i + k < length al")
    case True
    then show ?thesis using assms(1) by (simp add: spaced_def nth_append)
  next
    case False
    with i have ik: "i = length al - k" "k \<le> length al" by auto
    then have "i < length al" "i + k = length al" using assms(3) by auto
    with assms(2) ik show ?thesis by (simp add: nth_append)
  qed
qed

lemma allowed_times_spaced:
  assumes "0 < k" and "sorted ts"
    and "spaced (nat k) w (pre @ b)" and "\<forall>x \<in> set pre. \<forall>t \<in> set ts. t - x > of_int w"
  shows "spaced (nat k) w (pre @ b @ allowed_times k w b ts)"
  using assms(2-4)
proof (induction ts arbitrary: pre b)
  case (Cons t ts)
  define b1 where "b1 = dropWhile (\<lambda>x. t - x > of_int w) b"
  obtain d where d: "b = d @ b1" "\<forall>x \<in> set d. t - x > of_int w"
    using dropWhile_split[of b "\<lambda>x. t - x > of_int w"] unfolding b1_def by blast
  have db: "d @ b1 @ X = b @ X" for X by (metis d(1) append.assoc)
  have late: "\<forall>x \<in> set (pre @ d). \<forall>u \<in> set ts. u - x > of_int w"
  proof (intro ballI)
    fix x u assume x: "x \<in> set (pre @ d)" and u: "u \<in> set ts"
    have "t \<le> u" using Cons.prems(1) u by simp
    moreover have "t - x > of_int w" using x d(2) Cons.prems(3) by auto
    ultimately show "u - x > of_int w" by linarith
  qed
  have srt: "sorted ts" using Cons.prems(1) by simp
  show ?case
  proof (cases "int (length b1) \<ge> k")
    case True
    then have ba: "bucket_allow k w t b = (b1, False)"
      by (simp add: bucket_allow_def b1_def Let_def)
    have "spaced (nat k) w ((pre @ d) @ b1)" using Cons.prems(2) d(1) by simp
    from Cons.IH[OF srt this late] show ?thesis by (simp add: ba db)
  next
    case False
    then have ba: "bucket_allow k w t b = (b1 @ [t], True)"
      by (simp add: bucket_allow_def b1_def Let_def)
    have "t - (pre @ b) ! (length (pre @ b) - nat k) > of_int w" if "nat k \<le> length (pre @ b)"
    proof -
      have "length (pre @ b) - nat k < length (pre @ d)"
        using that False d(1) by auto
      then have "(pre @ b) ! (length (pre @ b) - nat k) \<in> set (pre @ d)"
        using d(1) by (metis append.assoc nth_append nth_mem)
      then show ?thesis using d(2) Cons.prems(3) by auto
    qed
    then have "spaced (nat k) w ((pre @ b) @ [t])"
      using spaced_snoc[OF Cons.prems(2)] assms(1) by simp
    then have "spaced (nat k) w ((pre @ d) @ (b1 @ [t]))" by (simp add: d(1))
    from Cons.IH[OF srt this late] show ?thesis by (simp add: ba db)
  qed
qed simp

subsection \<open>What the limits guarantee\<close>

definition fresh_tracker :: tracker where
  "fresh_tracker = \<lparr>tk_states = [], tk_profile_ids = [], tk_profile_costs = [], tk_cost_per_1k = 3/1000\<rparr>"

text \<open>The tool-call budget is never overrun: after a session was configured, however tool
  calls and token counts are recorded, at most max_tool_calls recordings succeed, and the
  counter equals their number.\<close>

theorem tool_budget_bound:
  fixes ops :: "budget_op list" and t :: tracker and sid profile :: string and mt :: int and mc :: rat
  assumes "0 \<le> mtc"
  defines "r \<equiv> budget_run sid ops (budget_configure sid mt mc mtc profile t)"
  shows "fst r \<le> mtc \<and> map_option bs_tool_calls (budget_get sid (snd r)) = Some (fst r)"
proof -
  have "dget (tk_states (budget_configure sid mt mc mtc profile t)) sid
      = Some \<lparr>bs_max_tokens = mt, bs_max_cost_usd = mc, bs_max_tool_calls = mtc,
          bs_tokens_used = 0, bs_cost_usd = 0, bs_tool_calls = 0\<rparr>"
    by (simp add: budget_configure_def)
  from budget_run_state[OF this, of ops] assms(1) show ?thesis
    by (auto simp: r_def budget_get_def)
qed

theorem tool_budget_bound_witness:
  "fst (budget_run ''s'' [Rec_tool, Rec_tokens 400, Rec_tool, Rec_tool]
      (budget_configure ''s'' 100 1 2 ''p'' fresh_tracker)) \<le> 2"
  by (rule tool_budget_bound[THEN conjunct1]) simp

text \<open>Token accounting is exact: after the counts ns on a freshly configured session the
  tokens used are the sum of the positive counts and the cost is that sum at the rate of the
  profile, and recording one more positive count raises exactly when the new sum passes the
  token limit or its cost passes the cost limit.\<close>

theorem token_accounting:
  fixes ns :: "int list" and t :: tracker and sid profile :: string and mt mtc :: int and mc :: rat
  assumes "0 < n"
  defines "t1 \<equiv> token_run sid ns (budget_configure sid mt mc mtc profile t)"
  shows "map_option bs_tokens_used (budget_get sid t1) = Some (pos_sum ns)
     \<and> map_option bs_cost_usd (budget_get sid t1) = Some (of_int (pos_sum ns) / 1000 * cost_rate t (Some profile))
     \<and> (snd (record_tokens sid n t1) \<noteq> None \<longleftrightarrow>
          pos_sum ns + n > mt \<or> of_int (pos_sum ns + n) / 1000 * cost_rate t (Some profile) > mc)"
proof -
  let ?t0 = "budget_configure sid mt mc mtc profile t"
  have s0: "dget (tk_states ?t0) sid = Some \<lparr>bs_max_tokens = mt, bs_max_cost_usd = mc, bs_max_tool_calls = mtc,
          bs_tokens_used = 0, bs_cost_usd = 0, bs_tool_calls = 0\<rparr>"
    and p0: "dget (tk_profile_ids ?t0) sid = Some profile" and c0: "cost_rate ?t0 = cost_rate t"
    by (auto simp: budget_configure_def cost_rate_def fun_eq_iff split: option.splits list.splits)
  from token_run_state[OF s0, of ns] show ?thesis using assms(1)
    by (auto simp: t1_def budget_get_def record_tokens_def check_limits_def Let_def p0 c0
        algebra_simps add_divide_distrib)
qed

theorem token_accounting_witness:
  "snd (record_tokens ''s'' 50 (token_run ''s'' [40, -3, 20] (budget_configure ''s'' 100 1 2 ''p'' fresh_tracker))) \<noteq> None
   \<and> snd (record_tokens ''s'' 40 (token_run ''s'' [40, -3, 20] (budget_configure ''s'' 100 1 2 ''p'' fresh_tracker))) = None"
proof -
  have "pos_sum [40, -3, 20] = 60" by (simp add: pos_sum_def)
  moreover have "cost_rate fresh_tracker (Some ''p'') = 3/1000" by (simp add: cost_rate_def fresh_tracker_def get_or_def)
  ultimately show ?thesis
    using token_accounting[of 50 "''s''" "[40, -3, 20]" 100 1 2 "''p''" fresh_tracker]
      token_accounting[of 40 "''s''" "[40, -3, 20]" 100 1 2 "''p''" fresh_tracker] by simp
qed

text \<open>The in-memory limiter is a sliding window: for calls on one key in time order, any
  max_calls + 1 consecutive allowed calls span more than the window, so no window of that
  length ever contains more than max_calls of them.\<close>

theorem rate_window_bound:
  assumes "0 < k" and "sorted ts"
    and "i + nat k < length (allowed_times k w [] ts)"
  shows "allowed_times k w [] ts ! (i + nat k) - allowed_times k w [] ts ! i > of_int w"
  using allowed_times_spaced[OF assms(1,2), of w "[]" "[]"] assms(3) by (simp add: spaced_def)

theorem rate_window_bound_witness:
  "allowed_times 2 10 [] [0, 1, 2, 9, 11, 12] = [0, 1, 11, 12] \<and> (12::rat) - 1 > 10"
proof -
  have a: "allowed_times 2 10 [] [0, 1, 2, 9, 11, 12] = [0, 1, 11, 12]" by code_simp
  have "allowed_times 2 10 [] [0, 1, 2, 9, 11, 12] ! (1 + nat 2) - allowed_times 2 10 [] [0, 1, 2, 9, 11, 12] ! 1 > of_int 10"
    by (rule rate_window_bound) (simp_all only: a, simp_all)
  with a show ?thesis by simp
qed

text \<open>Calls within one second on the Redis limiter.\<close>

primrec redis_calls :: "'z zset_ops \<Rightarrow> int \<Rightarrow> int \<Rightarrow> int \<Rightarrow> nat \<Rightarrow> 'z \<Rightarrow> 'z \<times> bool list" where
  "redis_calls Z k w now 0 z = (z, [])"
| "redis_calls Z k w now (Suc n) z = (case redis_allow Z k w now z of (z', ok) \<Rightarrow>
     (case redis_calls Z k w now n z' of (z'', oks) \<Rightarrow> (z'', ok # oks)))"

lemma redis_same_second:
  assumes "z_card Z (z_add Z (int_str now) now z0) \<le> k"
    and "z_remrange Z 0 (now - w) (z_add Z (int_str now) now z0) = z_add Z (int_str now) now z0"
    and "z_add Z (int_str now) now (z_add Z (int_str now) now z0) = z_add Z (int_str now) now z0"
  shows "snd (redis_calls Z k w now n (z_add Z (int_str now) now z0)) = replicate n True"
  using assms by (induction n) (auto simp: redis_allow_def Let_def split_beta)

text \<open>The Redis limiter counts seconds, not calls: the member it adds is the current whole
  second, so with the documented sorted-set semantics (adding a present member with its score
  changes nothing, the score now is outside the removed range, one member counts as one) any
  number of calls within one second on a fresh key is allowed.\<close>

theorem redis_limiter_counts_seconds:
  assumes "z_remrange Z 0 (now - w) z0 = z0"
    and "z_card Z (z_add Z (int_str now) now z0) = 1" and "1 \<le> k"
    and "z_remrange Z 0 (now - w) (z_add Z (int_str now) now z0) = z_add Z (int_str now) now z0"
    and "z_add Z (int_str now) now (z_add Z (int_str now) now z0) = z_add Z (int_str now) now z0"
  shows "snd (redis_calls Z k w now n z0) = replicate n True"
proof (cases n)
  case (Suc m)
  have "snd (redis_calls Z k w now m (z_add Z (int_str now) now z0)) = replicate m True"
    by (rule redis_same_second) (use assms in auto)
  then show ?thesis using assms(1-3) by (simp add: Suc redis_allow_def Let_def split_beta)
qed simp

definition list_zset :: "(string \<times> int) list zset_ops" where
  "list_zset = \<lparr>z_remrange = (\<lambda>lo hi z. filter (\<lambda>p. \<not> (lo \<le> snd p \<and> snd p \<le> hi)) z),
     z_add = (\<lambda>m sc z. AList.update m sc z), z_card = (\<lambda>z. int (length z))\<rparr>"

theorem redis_limiter_counts_seconds_witness:
  "snd (redis_calls list_zset 2 60 1000 5 []) = [True, True, True, True, True]"
proof -
  have "snd (redis_calls list_zset 2 60 1000 5 []) = replicate 5 True"
    by (rule redis_limiter_counts_seconds) (simp_all add: list_zset_def)
  then show ?thesis by (simp add: numeral_eq_Suc)
qed

text \<open>The monitor keeps no secret and flags bursts: every logged tool call is an event
  whose parameters are redacted, and it is followed by an anomaly event exactly when the calls
  of the session within the last minute, this one included, exceed the threshold.\<close>

theorem monitor_logs_redacted:
  "\<exists>params' ev. value_redacted (mo_extra_keys m) params'
     \<and> dget (se_details ev) ''parameters'' = Some params' \<and> se_event_type ev = ''tool_call''
     \<and> (let n = int (length (filter (\<lambda>t. now - t < 60) (sm_tool_calls (metrics_of sid m) @ [now]))) in
        mo_events (log_tool_call now sid tool params result user m)
          = mo_events m @ ev # (if n > an_tool_calls_per_minute (mo_thresholds m)
              then [\<lparr>se_event_type = ''anomaly_detected'', se_severity = ''WARNING'', se_session_id = sid,
                     se_user_id = user, se_tool_name = None,
                     se_details = [(''reason'', PStr ''excessive_tool_calls''), (''count'', PInt n)]\<rparr>]
              else []))"
proof -
  let ?ev = "\<lparr>se_event_type = ''tool_call'', se_severity = ''INFO'', se_session_id = sid, se_user_id = user,
      se_tool_name = Some tool,
      se_details = [(''parameters'', redact_sensitive_keys (mo_extra_keys m) (PDict params)),
                    (''result_status'', get_or result ''status'' (PStr ''ok''))]\<rparr>"
  have "metrics_of sid (emit ?ev m) = metrics_of sid m" by (simp add: metrics_of_def emit_def)
  then show ?thesis
    by (intro exI[of _ "redact_sensitive_keys (mo_extra_keys m) (PDict params)"] exI[of _ ?ev])
      (simp add: redact_redacts(1)[of _ "PDict params", simplified] log_tool_call_def check_anomalies_def
        log_security_event_def emit_def Let_def)
qed

end
