(* ===== verification/Job_Hitl.thy ===== *)
theory Job_Hitl
  imports Guardrails
begin

text \<open>The job store and the human-approval pause: cys_core/infrastructure/job_store/in_memory.py
  with cys_core/application/ports/job_store.py, cys_core/middleware/hitl_pause.py,
  cys_core/domain/workers/hitl.py, interfaces/gateways/tool/approval.py and
  cys_core/application/use_cases/resume_hitl_job.py as wired by
  interfaces/worker/hitl_resume.py. The digests of tool arguments, fresh ids and the
  agent runtime are parameters.\<close>

subsection \<open>The job store\<close>

record job_record =
  jr_job_id :: string
  jr_session_id :: string
  jr_persona :: string
  jr_status :: job_status
  jr_hitl_preview :: payload
  jr_pending_hitl :: "hitl_action option"
  jr_correlation_id :: string
  jr_tenant_id :: string
  jr_event_id :: string

type_synonym job_store = "job_record dict"

definition JobRecord :: "string \<Rightarrow> string \<Rightarrow> string \<Rightarrow> job_status \<Rightarrow> job_record" where
  "JobRecord jid sid persona st = \<lparr>jr_job_id = jid, jr_session_id = sid, jr_persona = persona,
     jr_status = st, jr_hitl_preview = [], jr_pending_hitl = None, jr_correlation_id = [],
     jr_tenant_id = ''default'', jr_event_id = []\<rparr>"

definition upsert_pending ::
  "string \<Rightarrow> string \<Rightarrow> string \<Rightarrow> string \<Rightarrow> string \<Rightarrow> job_store \<Rightarrow> job_store" where
  "upsert_pending jid persona corr tenant event s = dput jid
     ((JobRecord jid [] persona PENDING)\<lparr>jr_correlation_id := corr, jr_tenant_id := tenant,
        jr_event_id := event\<rparr>) s"

definition upsert_running ::
  "string \<Rightarrow> string \<Rightarrow> string \<Rightarrow> string \<Rightarrow> string \<Rightarrow> string \<Rightarrow> job_store \<Rightarrow> job_store" where
  "upsert_running jid sid persona corr tenant event s = (let ex = dget s jid in
     dput jid ((JobRecord jid sid persona RUNNING)\<lparr>
       jr_correlation_id := str_or corr (case ex of Some r \<Rightarrow> jr_correlation_id r | None \<Rightarrow> []),
       jr_tenant_id := str_or tenant (case ex of Some r \<Rightarrow> jr_tenant_id r | None \<Rightarrow> ''default''),
       jr_event_id := str_or event (case ex of Some r \<Rightarrow> jr_event_id r | None \<Rightarrow> [])\<rparr>) s)"

definition pause_for_hitl :: "hitl_action \<Rightarrow> payload \<Rightarrow> job_store \<Rightarrow> job_store" where
  "pause_for_hitl p preview s = (let ex = dget s (ha_job_id p) in
     dput (ha_job_id p) ((JobRecord (ha_job_id p) (ha_session_id p) (ha_persona p) AWAITING_APPROVAL)\<lparr>
       jr_hitl_preview := preview, jr_pending_hitl := Some p,
       jr_correlation_id := (case ex of Some r \<Rightarrow> jr_correlation_id r | None \<Rightarrow> []),
       jr_tenant_id := (case ex of Some r \<Rightarrow> jr_tenant_id r | None \<Rightarrow> ''default''),
       jr_event_id := (case ex of Some r \<Rightarrow> jr_event_id r | None \<Rightarrow> [])\<rparr>) s)"

definition mark_running :: "string \<Rightarrow> job_store \<Rightarrow> job_store" where
  "mark_running jid s = (case dget s jid of None \<Rightarrow> s
     | Some r \<Rightarrow> dput jid (r\<lparr>jr_status := RUNNING, jr_pending_hitl := None\<rparr>) s)"

definition mark_completed :: "string \<Rightarrow> job_store \<Rightarrow> job_store" where
  "mark_completed jid s = (case dget s jid of None \<Rightarrow> s
     | Some r \<Rightarrow> dput jid (r\<lparr>jr_status := COMPLETED\<rparr>) s)"

definition mark_failed :: "string \<Rightarrow> job_store \<Rightarrow> job_store" where
  "mark_failed jid s = (case dget s jid of None \<Rightarrow> s
     | Some r \<Rightarrow> dput jid (r\<lparr>jr_status := FAILED\<rparr>) s)"

definition list_pending_approvals :: "job_store \<Rightarrow> hitl_action list" where
  "list_pending_approvals s = List.map_filter
     (\<lambda>(k, r). if jr_status r = AWAITING_APPROVAL then jr_pending_hitl r else None) s"

definition list_by_investigation :: "string \<Rightarrow> string \<Rightarrow> job_store \<Rightarrow> job_record list" where
  "list_by_investigation tenant iid s = sort_key jr_job_id
     (map (\<lambda>r. r\<lparr>jr_hitl_preview := [], jr_pending_hitl := None\<rparr>)
       (filter (\<lambda>r. jr_tenant_id r = tenant \<and> jr_correlation_id r = iid) (map snd s)))"

subsection \<open>The pause\<close>

fun split_first :: "char \<Rightarrow> string \<Rightarrow> string \<times> string option" where
  "split_first c [] = ([], None)"
| "split_first c (x # xs) = (if x = c then ([], Some xs)
     else (case split_first c xs of (a, r) \<Rightarrow> (x # a, r)))"

definition job_id_from_session :: "string \<Rightarrow> string option" where
  "job_id_from_session sid = (case split_first CHR '':'' sid of
     (a, Some r) \<Rightarrow> (case split_first CHR '':'' r of
         (b, Some c) \<Rightarrow> if a = ''worker'' then Some c else None
       | _ \<Rightarrow> None)
   | _ \<Rightarrow> None)"

definition build_hitl_preview ::
  "(payload \<Rightarrow> string) \<Rightarrow> string \<Rightarrow> string \<Rightarrow> payload \<Rightarrow> string \<Rightarrow> string \<Rightarrow> string \<Rightarrow> payload" where
  "build_hitl_preview params_hash approval_id tool args risk sid persona = (
     let jid = (case job_id_from_session sid of Some (c # cs) \<Rightarrow> c # cs | _ \<Rightarrow> sid) in
     [(''action'', PStr ''tool_call''), (''tool'', PStr tool), (''args'', PDict args),
      (''risk'', PStr risk), (''job_id'', PStr jid), (''session_id'', PStr sid),
      (''persona'', PStr persona), (''approval_id'', PStr approval_id),
      (''params_hash'', PStr (params_hash args))])"

definition as_str :: "pyval option \<Rightarrow> string" where
  "as_str v = (case v of Some (PStr s) \<Rightarrow> s | _ \<Rightarrow> [])"

definition as_dict :: "pyval option \<Rightarrow> payload" where
  "as_dict v = (case v of Some (PDict d) \<Rightarrow> d | _ \<Rightarrow> [])"

text \<open>The pending action of a preview that build_hitl_preview made.\<close>

definition pending_of_preview :: "payload \<Rightarrow> hitl_action" where
  "pending_of_preview pv = \<lparr>ha_job_id = as_str (dget pv ''job_id''), ha_session_id = as_str (dget pv ''session_id''),
     ha_persona = as_str (dget pv ''persona''), ha_tool_name = as_str (dget pv ''tool''),
     ha_tool_args = as_dict (dget pv ''args''), ha_risk_level = as_str (dget pv ''risk''),
     ha_approval_id = as_str (dget pv ''approval_id'')\<rparr>"

definition register_hitl_pause :: "payload \<Rightarrow> job_store \<Rightarrow> job_store" where
  "register_hitl_pause pv s = pause_for_hitl (pending_of_preview pv) pv s"

text \<open>What the interrupted tool call makes of the value it is resumed with.\<close>

definition resume_decision_approved :: "pyval \<Rightarrow> exc + bool" where
  "resume_decision_approved v = (case v of
     PDict d \<Rightarrow>
       if dget d ''decision'' = Some (PStr ''reject'') then Inr False
       else if dget d ''decision'' = Some (PStr ''approve'') \<or> dget d ''decision'' = Some (PStr ''edit'') then Inr True
       else (case get_or d ''decisions'' (PList []) of
           PList [] \<Rightarrow> Inr True
         | PList (PDict e # _) \<Rightarrow> Inr (dget e ''type'' \<noteq> Some (PStr ''reject''))
         | PList (_ # _) \<Rightarrow> Inl (PyExc ''AttributeError'')
         | PStr (_ # _) \<Rightarrow> Inl (PyExc ''AttributeError'')
         | PDict (_ # _) \<Rightarrow> Inl (PyExc ''KeyError'')
         | w \<Rightarrow> if truthy w then Inl (PyExc ''TypeError'') else Inr True)
   | w \<Rightarrow> Inr (truthy w))"

subsection \<open>Resuming\<close>

record approval_record =
  ap_approval_id :: string
  ap_actor :: string
  ap_tool :: string
  ap_persona :: string
  ap_job_id :: string
  ap_target_resource :: string
  ap_params_hash :: string
  ap_decision :: string

text \<open>The two ways the code writes tool arguments before hashing them: escaped to ASCII when
  the pause is made, as they are when an approval is checked. sha256 and json.dumps are
  parameters, and so is the agent runtime, which may change the job store.\<close>

record hitl_env =
  he_sha256 :: "string \<Rightarrow> string"
  he_dumps_ascii :: "payload \<Rightarrow> string"
  he_dumps_raw :: "payload \<Rightarrow> string"
  he_aresume :: "string \<Rightarrow> string \<Rightarrow> payload \<Rightarrow> job_store \<Rightarrow> job_store \<times> (exc + payload)"

definition params_hash :: "hitl_env \<Rightarrow> payload \<Rightarrow> string" where
  "params_hash E args = he_sha256 E (he_dumps_ascii E args)"

definition gateway_params_hash :: "hitl_env \<Rightarrow> payload \<Rightarrow> string" where
  "gateway_params_hash E args = he_sha256 E (he_dumps_raw E args)"

record hitl_world =
  hw_store :: job_store
  hw_approvals :: "approval_record list"
  hw_bypass :: "string list"

text \<open>The record's target_resource must be a string, or pydantic raises.\<close>

definition record_hitl_approval ::
  "hitl_env \<Rightarrow> string \<Rightarrow> string \<Rightarrow> string \<Rightarrow> string \<Rightarrow> string \<Rightarrow> string \<Rightarrow> payload \<Rightarrow> string
    \<Rightarrow> hitl_world \<Rightarrow> hitl_world \<times> exc option" where
  "record_hitl_approval E fresh_id actor tool persona jid decision args approval_id w =
     (case get_or args ''target'' (get_or args ''command'' (PStr [])) of
        PStr target \<Rightarrow> (w\<lparr>hw_approvals := hw_approvals w @
          [\<lparr>ap_approval_id = str_or approval_id fresh_id, ap_actor = actor, ap_tool = tool,
            ap_persona = persona, ap_job_id = jid, ap_target_resource = target,
            ap_params_hash = gateway_params_hash E args, ap_decision = decision\<rparr>]\<rparr>, None)
      | _ \<Rightarrow> (w, Some (PyExc ''ValidationError'')))"

datatype resume_error = ResumeHitlJobError string | Raised exc

definition resume_execute ::
  "hitl_env \<Rightarrow> string \<Rightarrow> string \<Rightarrow> resume_request \<Rightarrow> hitl_world \<Rightarrow> hitl_world \<times> (resume_error + payload)" where
  "resume_execute E fresh_id jid req w = (case dget (hw_store w) jid of
     None \<Rightarrow> (w, Inl (ResumeHitlJobError (''Unknown job: '' @ jid)))
   | Some record \<Rightarrow> (case (if jr_status record = AWAITING_APPROVAL then jr_pending_hitl record else None) of
       None \<Rightarrow> (w, Inl (ResumeHitlJobError (''Job '' @ jid @ '' is not awaiting approval'')))
     | Some pending \<Rightarrow>
       if rr_approval_id req \<noteq> [] \<and> rr_approval_id req \<noteq> ha_approval_id pending
       then (w\<lparr>hw_bypass := hw_bypass w @ [''invalid_approval_id'']\<rparr>,
             Inl (ResumeHitlJobError ''Invalid approval_id for high-risk action''))
       else if rr_decision req = ''reject'' then
         (case record_hitl_approval E fresh_id (rr_actor req) (ha_tool_name pending) (ha_persona pending) jid
                 ''reject'' (ha_tool_args pending) (ha_approval_id pending) w of
            (w1, Some e) \<Rightarrow> (w1, Inl (Raised e))
          | (w1, None) \<Rightarrow> (w1\<lparr>hw_store := mark_failed jid (hw_store w1)\<rparr>,
              Inr [(''job_id'', PStr jid), (''status'', PStr ''rejected'')]))
       else (let args = (if rr_decision req = ''edit'' \<and> rr_edited_args req \<noteq> []
                         then rr_edited_args req else ha_tool_args pending);
                 expected = get_or (jr_hitl_preview record) ''params_hash'' (PStr []) in
         if rr_decision req = ''approve'' \<and> truthy expected \<and> PStr (gateway_params_hash E args) \<noteq> expected
         then (w\<lparr>hw_bypass := hw_bypass w @ [''params_hash_mismatch'']\<rparr>,
               Inl (ResumeHitlJobError ''Tool args hash mismatch - approval bypass blocked''))
         else (case record_hitl_approval E fresh_id (rr_actor req) (ha_tool_name pending) (ha_persona pending) jid
                 (rr_decision req) args (ha_approval_id pending) w of
            (w1, Some e) \<Rightarrow> (w1, Inl (Raised e))
          | (w1, None) \<Rightarrow>
              (case he_aresume E (jr_persona record) (jr_session_id record)
                  [(''decision'', PStr (rr_decision req)), (''approval_id'', PStr (ha_approval_id pending))]
                  (mark_running jid (hw_store w1)) of
                (s2, Inl e) \<Rightarrow> (w1\<lparr>hw_store := s2\<rparr>, Inl (Raised e))
              | (s2, Inr result) \<Rightarrow> (w1\<lparr>hw_store := mark_completed jid s2\<rparr>,
                  Inr [(''job_id'', PStr jid), (''status'', PStr ''resumed''), (''result'', PDict result)])))))) "

subsection \<open>The store as a state machine\<close>

datatype store_op =
    Op_pending string string string string string
  | Op_running string string string string string string
  | Op_pause hitl_action payload
  | Op_mark_running string
  | Op_mark_completed string
  | Op_mark_failed string

primrec store_apply :: "store_op \<Rightarrow> job_store \<Rightarrow> job_store" where
  "store_apply (Op_pending j p c t e) s = upsert_pending j p c t e s"
| "store_apply (Op_running j sid p c t e) s = upsert_running j sid p c t e s"
| "store_apply (Op_pause a pv) s = pause_for_hitl a pv s"
| "store_apply (Op_mark_running j) s = mark_running j s"
| "store_apply (Op_mark_completed j) s = mark_completed j s"
| "store_apply (Op_mark_failed j) s = mark_failed j s"

inductive store_reach :: "job_store \<Rightarrow> bool" where
  empty: "store_reach []"
| step: "store_reach s \<Longrightarrow> store_reach (store_apply op s)"

inductive_simps store_reach_step: "store_reach (store_apply op s)"

definition record_wf :: "string \<Rightarrow> job_record \<Rightarrow> bool" where
  "record_wf k r = (jr_job_id r = k
     \<and> (jr_status r = AWAITING_APPROVAL \<longrightarrow> jr_pending_hitl r \<noteq> None)
     \<and> (jr_status r = PENDING \<or> jr_status r = RUNNING \<longrightarrow> jr_pending_hitl r = None)
     \<and> (\<forall>p. jr_pending_hitl r = Some p \<longrightarrow> ha_job_id p = k))"

definition store_wf :: "job_store \<Rightarrow> bool" where
  "store_wf s = (distinct (map fst s) \<and> (\<forall>k r. dget s k = Some r \<longrightarrow> record_wf k r))"

lemma store_wf_put: "store_wf s \<Longrightarrow> record_wf k r \<Longrightarrow> store_wf (dput k r s)"
  by (simp add: store_wf_def distinct_update)

lemma store_wf_get: "store_wf s \<Longrightarrow> dget s k = Some r \<Longrightarrow> record_wf k r"
  by (simp add: store_wf_def)

lemma store_wf_apply: "store_wf s \<Longrightarrow> store_wf (store_apply op s)"
  by (cases op)
    (auto intro!: store_wf_put dest: store_wf_get split: option.splits
      simp: record_wf_def JobRecord_def upsert_pending_def upsert_running_def pause_for_hitl_def
        mark_running_def mark_completed_def mark_failed_def Let_def)

lemma store_reach_wf: "store_reach s \<Longrightarrow> store_wf s"
  by (induction rule: store_reach.induct) (auto simp: store_wf_apply, simp add: store_wf_def)

lemma list_pending_set:
  "distinct (map fst s) \<Longrightarrow> p \<in> set (list_pending_approvals s) \<longleftrightarrow>
     (\<exists>k r. dget s k = Some r \<and> jr_status r = AWAITING_APPROVAL \<and> jr_pending_hitl r = Some p)"
  by (force simp: list_pending_approvals_def List.map_filter_def split: if_splits)

subsection \<open>What the pause and the resume guarantee\<close>

text \<open>The job of a preview, and its stored record.\<close>

definition preview_job :: "string \<Rightarrow> string" where
  "preview_job sid = (case job_id_from_session sid of Some (c # cs) \<Rightarrow> c # cs | _ \<Rightarrow> sid)"

lemma preview_pending:
  "pending_of_preview (build_hitl_preview h aid tool args risk sid persona)
     = \<lparr>ha_job_id = preview_job sid, ha_session_id = sid, ha_persona = persona, ha_tool_name = tool,
        ha_tool_args = args, ha_risk_level = risk, ha_approval_id = aid\<rparr>"
  by (simp add: pending_of_preview_def build_hitl_preview_def as_str_def as_dict_def preview_job_def Let_def)

lemma preview_hash: "get_or (build_hitl_preview h aid tool args risk sid persona) ''params_hash'' d = PStr (h args)"
  by (simp add: build_hitl_preview_def get_or_def Let_def)

lemma paused_record:
  "\<exists>r. dget (register_hitl_pause (build_hitl_preview h aid tool args risk sid persona) s) (preview_job sid) = Some r
     \<and> jr_status r = AWAITING_APPROVAL \<and> jr_session_id r = sid \<and> jr_persona r = persona
     \<and> jr_hitl_preview r = build_hitl_preview h aid tool args risk sid persona
     \<and> jr_pending_hitl r = Some \<lparr>ha_job_id = preview_job sid, ha_session_id = sid, ha_persona = persona,
          ha_tool_name = tool, ha_tool_args = args, ha_risk_level = risk, ha_approval_id = aid\<rparr>"
  by (simp add: register_hitl_pause_def pause_for_hitl_def preview_pending JobRecord_def Let_def)

definition target_ok :: "payload \<Rightarrow> bool" where
  "target_ok args = (case get_or args ''target'' (get_or args ''command'' (PStr [])) of PStr _ \<Rightarrow> True | _ \<Rightarrow> False)"

lemma record_hitl_approval_cases:
  "(snd (record_hitl_approval E f a t p j d args aid w) = None \<longleftrightarrow> target_ok args)
   \<and> hw_store (fst (record_hitl_approval E f a t p j d args aid w)) = hw_store w
   \<and> hw_bypass (fst (record_hitl_approval E f a t p j d args aid w)) = hw_bypass w
   \<and> (\<not> target_ok args \<longrightarrow> fst (record_hitl_approval E f a t p j d args aid w) = w
        \<and> snd (record_hitl_approval E f a t p j d args aid w) = Some (PyExc ''ValidationError''))
   \<and> (target_ok args \<longrightarrow> (\<exists>r. hw_approvals (fst (record_hitl_approval E f a t p j d args aid w)) = hw_approvals w @ [r]
        \<and> ap_decision r = d \<and> ap_job_id r = j \<and> ap_actor r = a \<and> ap_params_hash r = gateway_params_hash E args))"
  by (auto simp: record_hitl_approval_def target_ok_def split: pyval.splits)

lemma record_hitl_approval_None:
  "record_hitl_approval E f a t p j d args aid w = (w1, None) \<Longrightarrow>
     hw_store w1 = hw_store w \<and> target_ok args \<and> (\<exists>r. hw_approvals w1 = hw_approvals w @ [r] \<and> ap_decision r = d
        \<and> ap_job_id r = j \<and> ap_actor r = a \<and> ap_params_hash r = gateway_params_hash E args)"
  using record_hitl_approval_cases[of E f a t p j d args aid w] by auto

text \<open>C39: In every reachable job store each record stands under its own job id, a job awaits
  approval exactly when list_pending_approvals lists a pending action for it, and a pending or
  running job has no pending action left.\<close>

theorem job_store_invariant:
  assumes "store_reach s"
  shows "distinct (map fst s)
     \<and> (\<forall>k r. dget s k = Some r \<longrightarrow> jr_job_id r = k
          \<and> (jr_status r = AWAITING_APPROVAL \<longleftrightarrow>
              (\<exists>p \<in> set (list_pending_approvals s). ha_job_id p = k))
          \<and> (jr_status r = PENDING \<or> jr_status r = RUNNING \<longrightarrow> jr_pending_hitl r = None))"
proof -
  have wf: "store_wf s" using assms by (rule store_reach_wf)
  then have d: "distinct (map fst s)" by (simp add: store_wf_def)
  have "jr_status r = AWAITING_APPROVAL \<longleftrightarrow> (\<exists>p \<in> set (list_pending_approvals s). ha_job_id p = k)"
    if k: "dget s k = Some r" for k r
  proof
    assume a: "jr_status r = AWAITING_APPROVAL"
    with store_wf_get[OF wf k] obtain p where "jr_pending_hitl r = Some p" "ha_job_id p = k"
      by (auto simp: record_wf_def)
    with a k list_pending_set[OF d] show "\<exists>p \<in> set (list_pending_approvals s). ha_job_id p = k" by blast
  next
    assume "\<exists>p \<in> set (list_pending_approvals s). ha_job_id p = k"
    then obtain p k' r' where p: "ha_job_id p = k" "dget s k' = Some r'" "jr_status r' = AWAITING_APPROVAL"
      "jr_pending_hitl r' = Some p" using list_pending_set[OF d] by blast
    with store_wf_get[OF wf, of k' r'] have "k' = k" by (simp add: record_wf_def)
    with p k show "jr_status r = AWAITING_APPROVAL" by simp
  qed
  with d store_wf_get[OF wf] show ?thesis by (simp add: record_wf_def)
qed

definition demo_action :: hitl_action where
  "demo_action = \<lparr>ha_job_id = ''j1'', ha_session_id = ''worker:soc:j1'', ha_persona = ''soc'',
     ha_tool_name = ''run_active_scan'', ha_tool_args = [(''target'', PStr ''10.0.0.1'')],
     ha_risk_level = ''high'', ha_approval_id = ''appr-1''\<rparr>"

theorem job_store_invariant_witness:
  "(\<exists>p \<in> set (list_pending_approvals (pause_for_hitl demo_action [] [])). ha_job_id p = ''j1'')"
proof -
  have r: "store_reach (pause_for_hitl demo_action [] [])"
    using store_reach.step[OF store_reach.empty, of "Op_pause demo_action []"] by simp
  obtain rec where "dget (pause_for_hitl demo_action [] []) ''j1'' = Some rec" "jr_status rec = AWAITING_APPROVAL"
    by (simp add: pause_for_hitl_def demo_action_def JobRecord_def Let_def)
  with job_store_invariant[OF r] show ?thesis by blast
qed

text \<open>C4: Only an awaiting job is resumed, and only under its own approval: when resume_execute
  returns normally, the job had a pending action, a given approval id was the right one, an
  approval had the recorded argument hash (where one was recorded), and exactly one approval
  record with the operator's decision was added; a rejection marks the job failed and does
  not touch the runtime.\<close>

theorem resume_is_guarded:
  assumes "resume_execute E f jid req w = (w', Inr out)"
  shows "\<exists>record p. dget (hw_store w) jid = Some record \<and> jr_status record = AWAITING_APPROVAL
     \<and> jr_pending_hitl record = Some p
     \<and> (rr_approval_id req = [] \<or> rr_approval_id req = ha_approval_id p)
     \<and> (rr_decision req = ''approve'' \<longrightarrow>
          (let h = get_or (jr_hitl_preview record) ''params_hash'' (PStr []) in
           truthy h \<longrightarrow> h = PStr (gateway_params_hash E (ha_tool_args p))))
     \<and> (\<exists>r. hw_approvals w' = hw_approvals w @ [r] \<and> ap_decision r = rr_decision req
          \<and> ap_job_id r = jid \<and> ap_actor r = rr_actor req)
     \<and> (rr_decision req = ''reject'' \<longrightarrow> hw_store w' = mark_failed jid (hw_store w))"
proof (cases "dget (hw_store w) jid")
  case None
  with assms show ?thesis by (simp add: resume_execute_def)
next
  case (Some rec)
  show ?thesis
  proof (cases "if jr_status rec = AWAITING_APPROVAL then jr_pending_hitl rec else None")
    case None
    with Some assms show ?thesis by (simp add: resume_execute_def)
  next
    case p: (Some p)
    then have aw: "jr_status rec = AWAITING_APPROVAL" "jr_pending_hitl rec = Some p"
      by (auto split: if_splits)
    note run = assms[unfolded resume_execute_def Some p option.case]
    show ?thesis
    proof (cases "rr_decision req = ''reject''")
      case True
      with run aw Some show ?thesis
        by (auto split: if_splits prod.splits option.splits dest!: record_hitl_approval_None)
    next
      case False
      with run aw Some show ?thesis
        by (auto simp: Let_def split: if_splits prod.splits option.splits sum.splits
            dest!: record_hitl_approval_None)
    qed
  qed
qed

definition demo_hitl_env :: hitl_env where
  "demo_hitl_env = \<lparr>he_sha256 = (\<lambda>s. s),
     he_dumps_ascii = (\<lambda>d. concat (map (\<lambda>p. case snd p of PStr s \<Rightarrow> map (\<lambda>c. if of_char c > (127::nat) then CHR ''?'' else c) s | _ \<Rightarrow> []) d)),
     he_dumps_raw = (\<lambda>d. concat (map (\<lambda>p. case snd p of PStr s \<Rightarrow> s | _ \<Rightarrow> []) d)),
     he_aresume = (\<lambda>p sid r s. (s, Inr []))\<rparr>"

definition demo_world :: hitl_world where
  "demo_world = \<lparr>hw_store = register_hitl_pause (build_hitl_preview (params_hash demo_hitl_env) ''appr-1''
       ''run_active_scan'' [(''target'', PStr ''10.0.0.1'')] ''high'' ''worker:soc:j1'' ''soc'') [],
     hw_approvals = [], hw_bypass = []\<rparr>"

definition demo_request :: "string \<Rightarrow> resume_request" where
  "demo_request decision = \<lparr>rr_decision = decision, rr_edited_args = [], rr_approval_id = ''appr-1'',
     rr_actor = ''operator''\<rparr>"

theorem resume_is_guarded_witness:
  "\<exists>w'. resume_execute demo_hitl_env ''x'' ''j1'' (demo_request ''reject'') demo_world
       = (w', Inr [(''job_id'', PStr ''j1''), (''status'', PStr ''rejected'')])
     \<and> hw_store w' = mark_failed ''j1'' (hw_store demo_world)"
proof -
  have run: "snd (resume_execute demo_hitl_env ''x'' ''j1'' (demo_request ''reject'') demo_world)
      = Inr [(''job_id'', PStr ''j1''), (''status'', PStr ''rejected'')]" by code_simp
  obtain w' where w: "resume_execute demo_hitl_env ''x'' ''j1'' (demo_request ''reject'') demo_world
      = (w', Inr [(''job_id'', PStr ''j1''), (''status'', PStr ''rejected'')])"
    using run by (metis prod.collapse)
  have d: "rr_decision (demo_request ''reject'') = ''reject''" by (simp add: demo_request_def)
  show ?thesis using resume_is_guarded[OF w] w d by blast
qed

lemma resume_paused:
  fixes h :: "payload \<Rightarrow> string" and sid aid tool risk persona :: string and args :: payload and s :: job_store
  defines "st \<equiv> register_hitl_pause (build_hitl_preview h aid tool args risk sid persona) s"
  assumes "hw_store w = st" and "rr_approval_id req = [] \<or> rr_approval_id req = aid"
    and "rr_decision req \<noteq> ''reject''" and "rr_decision req \<noteq> ''edit''"
    and "rr_decision req = ''approve'' \<longrightarrow> gateway_params_hash E args = h args \<or> h args = []"
    and "target_ok args"
    and "he_aresume E persona sid [(''decision'', PStr (rr_decision req)), (''approval_id'', PStr aid)]
           (mark_running (preview_job sid) st) = (s2, Inr result)"
  shows "\<exists>w'. resume_execute E f (preview_job sid) req w = (w', Inr [(''job_id'', PStr (preview_job sid)),
       (''status'', PStr ''resumed''), (''result'', PDict result)])
     \<and> hw_store w' = mark_completed (preview_job sid) s2"
proof -
  let ?p = "\<lparr>ha_job_id = preview_job sid, ha_session_id = sid, ha_persona = persona,
          ha_tool_name = tool, ha_tool_args = args, ha_risk_level = risk, ha_approval_id = aid\<rparr>"
  obtain r where r: "dget st (preview_job sid) = Some r" "jr_status r = AWAITING_APPROVAL"
    "jr_session_id r = sid" "jr_persona r = persona"
    "jr_hitl_preview r = build_hitl_preview h aid tool args risk sid persona" "jr_pending_hitl r = Some ?p"
    using paused_record[of h aid tool args risk sid persona s] unfolding st_def by blast
  obtain w1 where w1: "record_hitl_approval E f (rr_actor req) tool persona (preview_job sid)
      (rr_decision req) args aid w = (w1, None)" and hs: "hw_store w1 = st"
    using record_hitl_approval_cases[of E f "rr_actor req" tool persona "preview_job sid" "rr_decision req" args aid w]
      assms(2,7) by (metis prod.collapse)
  have hash: "\<not> (rr_decision req = ''approve'' \<and> truthy (PStr (h args)) \<and> PStr (gateway_params_hash E args) \<noteq> PStr (h args))"
    using assms(6) by auto
  have "resume_execute E f (preview_job sid) req w = (w1\<lparr>hw_store := mark_completed (preview_job sid) s2\<rparr>,
      Inr [(''job_id'', PStr (preview_job sid)), (''status'', PStr ''resumed''), (''result'', PDict result)])"
    using r assms(3,4,5,8) w1 hs hash
    by (simp add: resume_execute_def assms(2) preview_hash Let_def)
  then show ?thesis by simp
qed

text \<open>Any decision but reject runs the tool: for a paused job a decision string that is
  neither approve, reject nor edit (a typo, or deny) skips the argument-hash check, resumes
  the runtime and completes the job, and the interrupted tool call reads the resume value as
  an approval.\<close>

theorem unknown_decision_resumes:
  fixes h :: "payload \<Rightarrow> string" and sid aid tool risk persona :: string and args :: payload and s :: job_store
  defines "st \<equiv> register_hitl_pause (build_hitl_preview h aid tool args risk sid persona) s"
  assumes "hw_store w = st" and "rr_approval_id req = []"
    and "rr_decision req \<notin> {''approve'', ''reject'', ''edit''}" and "target_ok args"
    and "he_aresume E persona sid [(''decision'', PStr (rr_decision req)), (''approval_id'', PStr aid)]
           (mark_running (preview_job sid) st) = (s2, Inr result)"
  shows "snd (resume_execute E f (preview_job sid) req w) = Inr [(''job_id'', PStr (preview_job sid)),
       (''status'', PStr ''resumed''), (''result'', PDict result)]
     \<and> resume_decision_approved (PDict [(''decision'', PStr (rr_decision req)), (''approval_id'', PStr aid)]) = Inr True"
proof -
  have "\<exists>w'. resume_execute E f (preview_job sid) req w = (w', Inr [(''job_id'', PStr (preview_job sid)),
       (''status'', PStr ''resumed''), (''result'', PDict result)]) \<and> hw_store w' = mark_completed (preview_job sid) s2"
    using assms unfolding st_def by (intro resume_paused[of w h aid tool args risk sid persona s]) auto
  then show ?thesis using assms(4) by (auto simp: resume_decision_approved_def get_or_def)
qed

theorem unknown_decision_resumes_witness:
  "snd (resume_execute demo_hitl_env ''x'' ''j1'' ((demo_request ''deny'')\<lparr>rr_approval_id := []\<rparr>) demo_world)
     = Inr [(''job_id'', PStr ''j1''), (''status'', PStr ''resumed''), (''result'', PDict [])]"
proof -
  have j: "preview_job ''worker:soc:j1'' = ''j1''" by code_simp
  have t: "target_ok [(''target'', PStr ''10.0.0.1'')]" by code_simp
  show ?thesis
    using unknown_decision_resumes[of demo_world "params_hash demo_hitl_env" "''appr-1''" "''run_active_scan''"
        "[(''target'', PStr ''10.0.0.1'')]" "''high''" "''worker:soc:j1''" "''soc''" "[]"
        "(demo_request ''deny'')\<lparr>rr_approval_id := []\<rparr>" demo_hitl_env
        "mark_running ''j1'' (hw_store demo_world)" "[]" "''x''"] t
    by (simp add: j demo_request_def demo_world_def demo_hitl_env_def)
qed

text \<open>The two argument hashes disagree: the pause stores the hash of the ASCII-escaped
  arguments, the approval compares it with the hash of the unescaped ones. Where they differ
  (arguments with characters outside ASCII) an approval of exactly the paused arguments is
  blocked as a bypass, and nothing but the bypass counter changes; where they agree it goes
  through and completes the job.\<close>

theorem approve_paused_iff_hashes_agree:
  fixes sid aid tool risk persona :: string and args :: payload and s :: job_store and E :: hitl_env
  defines "st \<equiv> register_hitl_pause (build_hitl_preview (params_hash E) aid tool args risk sid persona) s"
  assumes "hw_store w = st" and "rr_decision req = ''approve''" and "rr_approval_id req = aid"
    and "target_ok args" and "params_hash E args \<noteq> []"
    and "he_aresume E persona sid [(''decision'', PStr ''approve''), (''approval_id'', PStr aid)]
           (mark_running (preview_job sid) st) = (s2, Inr result)"
  shows "if params_hash E args = gateway_params_hash E args
     then snd (resume_execute E f (preview_job sid) req w) = Inr [(''job_id'', PStr (preview_job sid)),
       (''status'', PStr ''resumed''), (''result'', PDict result)]
     else resume_execute E f (preview_job sid) req w = (w\<lparr>hw_bypass := hw_bypass w @ [''params_hash_mismatch'']\<rparr>,
       Inl (ResumeHitlJobError ''Tool args hash mismatch - approval bypass blocked''))"
proof (cases "params_hash E args = gateway_params_hash E args")
  case True
  have "\<exists>w'. resume_execute E f (preview_job sid) req w = (w', Inr [(''job_id'', PStr (preview_job sid)),
       (''status'', PStr ''resumed''), (''result'', PDict result)]) \<and> hw_store w' = mark_completed (preview_job sid) s2"
    using assms True unfolding st_def
    by (intro resume_paused[of w "params_hash E" aid tool args risk sid persona s]) auto
  with True show ?thesis by auto
next
  case False
  then have ne: "gateway_params_hash E args \<noteq> params_hash E args" by simp
  obtain r where r: "dget st (preview_job sid) = Some r" "jr_status r = AWAITING_APPROVAL"
    "jr_hitl_preview r = build_hitl_preview (params_hash E) aid tool args risk sid persona"
    "jr_pending_hitl r = Some \<lparr>ha_job_id = preview_job sid, ha_session_id = sid, ha_persona = persona,
          ha_tool_name = tool, ha_tool_args = args, ha_risk_level = risk, ha_approval_id = aid\<rparr>"
    using paused_record[of "params_hash E" aid tool args risk sid persona s] unfolding st_def by blast
  show ?thesis using False ne r assms(2,3,4,6)
    by (simp add: resume_execute_def preview_hash Let_def)
qed

theorem approve_paused_iff_hashes_agree_witness:
  "snd (resume_execute demo_hitl_env ''x'' ''j1'' (demo_request ''approve'') demo_world)
     = Inr [(''job_id'', PStr ''j1''), (''status'', PStr ''resumed''), (''result'', PDict [])]"
proof -
  have j: "preview_job ''worker:soc:j1'' = ''j1''" by code_simp
  have t: "target_ok [(''target'', PStr ''10.0.0.1'')]" by code_simp
  have h: "params_hash demo_hitl_env [(''target'', PStr ''10.0.0.1'')] = ''10.0.0.1''"
    "gateway_params_hash demo_hitl_env [(''target'', PStr ''10.0.0.1'')] = ''10.0.0.1''" by code_simp+
  show ?thesis
    using approve_paused_iff_hashes_agree[of demo_world demo_hitl_env "''appr-1''" "''run_active_scan''"
        "[(''target'', PStr ''10.0.0.1'')]" "''high''" "''worker:soc:j1''" "''soc''" "[]"
        "demo_request ''approve''" "mark_running ''j1'' (hw_store demo_world)" "[]" "''x''"] t h
    by (simp add: j demo_request_def demo_world_def) (simp add: demo_hitl_env_def)
qed

text \<open>An argument called target (or command) that is not a string locks the job: the audit
  record cannot be built, so both an approval and a rejection raise and leave the store, the
  records and so the pause as they were.\<close>

theorem non_string_target_locks_job:
  fixes sid aid tool risk persona :: string and args :: payload and s :: job_store and E :: hitl_env
  defines "st \<equiv> register_hitl_pause (build_hitl_preview (params_hash E) aid tool args risk sid persona) s"
  assumes "hw_store w = st" and "\<not> target_ok args"
    and "rr_decision req = ''reject'' \<or> rr_decision req = ''approve'' \<and> params_hash E args = gateway_params_hash E args"
    and "rr_approval_id req = aid"
  shows "resume_execute E f (preview_job sid) req w = (w, Inl (Raised (PyExc ''ValidationError'')))"
proof -
  obtain r where r: "dget st (preview_job sid) = Some r" "jr_status r = AWAITING_APPROVAL"
    "jr_hitl_preview r = build_hitl_preview (params_hash E) aid tool args risk sid persona"
    "jr_pending_hitl r = Some \<lparr>ha_job_id = preview_job sid, ha_session_id = sid, ha_persona = persona,
          ha_tool_name = tool, ha_tool_args = args, ha_risk_level = risk, ha_approval_id = aid\<rparr>"
    using paused_record[of "params_hash E" aid tool args risk sid persona s] unfolding st_def by blast
  have rec: "record_hitl_approval E f a t p j d args i w = (w, Some (PyExc ''ValidationError''))" for a t p j d i
    using record_hitl_approval_cases[of E f a t p j d args i w] assms(3) by (metis prod.collapse)
  show ?thesis using r assms(2,4,5) by (auto simp: resume_execute_def preview_hash rec Let_def)
qed

theorem non_string_target_locks_job_witness:
  "resume_execute demo_hitl_env ''x'' ''j1'' (demo_request ''reject'')
      (demo_world\<lparr>hw_store := register_hitl_pause (build_hitl_preview (params_hash demo_hitl_env) ''appr-1''
         ''run_active_scan'' [(''target'', PList [PStr ''10.0.0.1''])] ''high'' ''worker:soc:j1'' ''soc'') []\<rparr>)
   = (demo_world\<lparr>hw_store := register_hitl_pause (build_hitl_preview (params_hash demo_hitl_env) ''appr-1''
         ''run_active_scan'' [(''target'', PList [PStr ''10.0.0.1''])] ''high'' ''worker:soc:j1'' ''soc'') []\<rparr>,
      Inl (Raised (PyExc ''ValidationError'')))"
proof -
  have j: "preview_job ''worker:soc:j1'' = ''j1''" by code_simp
  have t: "\<not> target_ok [(''target'', PList [PStr ''10.0.0.1''])]" by code_simp
  show ?thesis
    using non_string_target_locks_job[of "demo_world\<lparr>hw_store := register_hitl_pause (build_hitl_preview
         (params_hash demo_hitl_env) ''appr-1'' ''run_active_scan'' [(''target'', PList [PStr ''10.0.0.1''])]
         ''high'' ''worker:soc:j1'' ''soc'') []\<rparr>" demo_hitl_env "''appr-1''" "''run_active_scan''"
        "[(''target'', PList [PStr ''10.0.0.1''])]" "''high''" "''worker:soc:j1''" "''soc''" "[]"
        "demo_request ''reject''" "''x''"] t
    by (simp add: j demo_request_def)
qed

end
