(* ===== verification/Event_Routing.thy ===== *)
theory Event_Routing
  imports Risk_Policy
begin

text \<open>Events and their deterministic routing: cys_core/domain/events/models.py and plans.py,
  cys_core/application/routing/event_router.py and use_cases/route_event.py. Reading the
  plan files is a parameter; the rules are parsed here.\<close>

subsection \<open>Events, rules and plans\<close>

definition EVENT_TYPES :: "string list" where
  "EVENT_TYPES = [''siem.alert'', ''edr.alert'', ''iam.event'', ''ad.alert'', ''netflow.beacon'',
     ''dns.anomaly'', ''cloud.audit'', ''cloud.alert'', ''hunt.hypothesis'', ''incident.forensics'',
     ''purple.validation'', ''assessment.complete'', ''ti.feed'', ''osint.report'', ''doc.upload'',
     ''compliance.schedule'', ''finding.reference'', ''escalation'', ''manual.investigation'',
     ''manual.consultation'']"

datatype severity = Sev_info | Sev_low | Sev_medium | Sev_high | Sev_critical

fun severity_value :: "severity \<Rightarrow> string" where
  "severity_value Sev_info = ''info''"
| "severity_value Sev_low = ''low''"
| "severity_value Sev_medium = ''medium''"
| "severity_value Sev_high = ''high''"
| "severity_value Sev_critical = ''critical''"

fun severity_index :: "severity \<Rightarrow> nat" where
  "severity_index Sev_info = 0"
| "severity_index Sev_low = 1"
| "severity_index Sev_medium = 2"
| "severity_index Sev_high = 3"
| "severity_index Sev_critical = 4"

lemma severity_index_inj [simp]: "severity_index a = severity_index b \<longleftrightarrow> a = b"
  by (cases a; cases b) auto

instantiation severity :: linorder
begin

definition less_eq_severity :: "severity \<Rightarrow> severity \<Rightarrow> bool" where
  "less_eq_severity a b = (severity_index a \<le> severity_index b)"

definition less_severity :: "severity \<Rightarrow> severity \<Rightarrow> bool" where
  "less_severity a b = (severity_index a < severity_index b)"

instance
  by standard (auto simp: less_eq_severity_def less_severity_def)

end

definition parse_severity :: "string \<Rightarrow> exc + severity" where
  "parse_severity s = (if s = ''info'' then Inr Sev_info else if s = ''low'' then Inr Sev_low
     else if s = ''medium'' then Inr Sev_medium else if s = ''high'' then Inr Sev_high
     else if s = ''critical'' then Inr Sev_critical else Inl (PyExc ''ValidationError''))"

record security_event =
  ev_id :: string
  ev_type :: string
  ev_source :: string
  ev_severity :: severity
  ev_payload :: payload
  ev_tenant_id :: string
  ev_correlation_id :: string

record routing_rule =
  ru_event_types :: "string list"
  ru_min_severity :: "severity option"
  ru_personas :: "string list"
  ru_playbook_id :: string
  ru_notify_control :: bool

record routing_decision =
  rd_event_id :: string
  rd_jobs :: "string list"
  rd_playbook_id :: string
  rd_personas :: "string list"
  rd_notify_control :: bool
  rd_reason :: string
  rd_matched_plan_id :: string
  rd_matched_rule_idx :: int

definition RoutingDecision :: "string \<Rightarrow> routing_decision" where
  "RoutingDecision event_id = \<lparr>rd_event_id = event_id, rd_jobs = [], rd_playbook_id = [],
     rd_personas = [], rd_notify_control = False, rd_reason = [], rd_matched_plan_id = [],
     rd_matched_rule_idx = -1\<rparr>"

record plan_config =
  pc_id :: string
  pc_name :: string
  pc_description :: string
  pc_rules :: "routing_rule list"

subsection \<open>Parsing rules\<close>

text \<open>raw.get(key) or raw.get(''when'', {}).get(key): the fallback is only looked at when the
  first value is falsy.\<close>

definition get_or_when :: "payload \<Rightarrow> string \<Rightarrow> exc + pyval" where
  "get_or_when raw key = (let v = get_or raw key PNone in
     if truthy v then Inr v
     else (case get_or raw ''when'' (PDict []) of
         PDict w \<Rightarrow> Inr (get_or w key PNone) | _ \<Rightarrow> Inl (PyExc ''AttributeError'')))"

fun strings_of :: "pyval list \<Rightarrow> exc + string list" where
  "strings_of [] = Inr []"
| "strings_of (PStr s # vs) = rbind (strings_of vs) (\<lambda>ss. Inr (s # ss))"
| "strings_of (_ # vs) = Inl (PyExc ''ValidationError'')"

definition str_list :: "pyval \<Rightarrow> exc + string list" where
  "str_list v = (case v of PList vs \<Rightarrow> strings_of vs | _ \<Rightarrow> Inl (PyExc ''ValidationError''))"

definition parse_rule :: "payload \<Rightarrow> exc + routing_rule" where
  "parse_rule raw =
     rbind (get_or_when raw ''event_types'') (\<lambda>et.
     rbind (get_or_when raw ''min_severity'') (\<lambda>ms.
     (let p0 = (let p = get_or raw ''personas'' PNone in if truthy p then p
                else let q = get_or raw ''enqueue'' PNone in if truthy q then q else PList []);
          personas = (case p0 of PStr s \<Rightarrow> PList [PStr s] | _ \<Rightarrow> p0) in
     rbind (str_list (if truthy et then et else PList [])) (\<lambda>types.
     rbind (if list_all (\<lambda>t. t \<in> set EVENT_TYPES) types then Inr () else Inl (PyExc ''ValidationError'')) (\<lambda>_.
     rbind (case ms of PNone \<Rightarrow> Inr None
            | PStr s \<Rightarrow> rbind (parse_severity s) (\<lambda>v. Inr (Some v))
            | _ \<Rightarrow> Inl (PyExc ''ValidationError'')) (\<lambda>sev.
     rbind (str_list personas) (\<lambda>ps.
     rbind (case get_or raw ''playbook_id'' (PStr []) of PStr s \<Rightarrow> Inr s
            | _ \<Rightarrow> Inl (PyExc ''ValidationError'')) (\<lambda>pb.
     Inr \<lparr>ru_event_types = types, ru_min_severity = sev, ru_personas = ps, ru_playbook_id = pb,
          ru_notify_control = truthy (get_or raw ''notify_control'' (PBool False))\<rparr>))))))))"

fun parse_rules :: "payload list \<Rightarrow> exc + routing_rule list" where
  "parse_rules [] = Inr []"
| "parse_rules (r # rs) = rbind (parse_rule r) (\<lambda>x. rbind (parse_rules rs) (\<lambda>xs. Inr (x # xs)))"

definition config_of_plan :: "plan_entry \<Rightarrow> exc + plan_config" where
  "config_of_plan e = rbind (parse_rules (pl_rules e)) (\<lambda>rs.
     Inr \<lparr>pc_id = pl_id e, pc_name = pl_name e, pc_description = pl_description e, pc_rules = rs\<rparr>)"

subsection \<open>Matching and routing\<close>

definition severity_at_least :: "severity \<Rightarrow> severity \<Rightarrow> bool" where
  "severity_at_least actual minimum = (severity_index actual \<ge> severity_index minimum)"

definition rule_matches :: "routing_rule \<Rightarrow> string \<Rightarrow> severity \<Rightarrow> bool" where
  "rule_matches rule event_type sev = (
     if ru_event_types rule \<noteq> [] \<and> event_type \<notin> set (ru_event_types rule) then False
     else if (case ru_min_severity rule of Some m \<Rightarrow> \<not> severity_at_least sev m | None \<Rightarrow> False) then False
     else ru_personas rule \<noteq> [])"

record route_acc =
  ra_personas :: "string list"
  ra_playbook_id :: string
  ra_notify :: bool
  ra_matched :: int
  ra_plan_id :: string
  ra_rule_idx :: int

definition add_persona :: "string \<Rightarrow> string list \<Rightarrow> string list" where
  "add_persona p ps = (if p \<in> set ps then ps else ps @ [p])"

definition route_rule :: "security_event \<Rightarrow> plan_config \<Rightarrow> int \<times> routing_rule \<Rightarrow> route_acc \<Rightarrow> route_acc" where
  "route_rule event plan ir acc = (case ir of (idx, rule) \<Rightarrow>
     if \<not> rule_matches rule (ev_type event) (ev_severity event) then acc
     else acc\<lparr>ra_personas := fold add_persona (ru_personas rule) (ra_personas acc),
       ra_playbook_id := (if ru_playbook_id rule \<noteq> [] then ru_playbook_id rule
         else if pc_id plan \<noteq> [] \<and> ra_playbook_id acc = [] then pc_id plan else ra_playbook_id acc),
       ra_notify := ra_notify acc \<or> ru_notify_control rule,
       ra_matched := ra_matched acc + 1,
       ra_plan_id := pc_id plan,
       ra_rule_idx := idx\<rparr>)"

definition route_plan :: "security_event \<Rightarrow> plan_config \<Rightarrow> route_acc \<Rightarrow> route_acc" where
  "route_plan event plan acc = fold (route_rule event plan) (enumerate_from 0 (pc_rules plan)) acc"

definition init_acc :: route_acc where
  "init_acc = \<lparr>ra_personas = [], ra_playbook_id = [], ra_notify = False, ra_matched = 0,
     ra_plan_id = [], ra_rule_idx = -1\<rparr>"

definition route :: "plan_config list \<Rightarrow> string list \<Rightarrow> security_event \<Rightarrow> routing_decision" where
  "route plans notify_severities event = (
     let acc = fold (route_plan event) plans init_acc;
         notify = (ra_notify acc \<or> severity_value (ev_severity event) \<in> set notify_severities) in
     if ra_personas acc = [] then (RoutingDecision (ev_id event))\<lparr>rd_reason := ''no_matching_rule'',
         rd_matched_plan_id := ra_plan_id acc, rd_matched_rule_idx := ra_rule_idx acc\<rparr>
     else \<lparr>rd_event_id = ev_id event,
       rd_jobs = map (\<lambda>p. p @ '':'' @ ev_id event) (ra_personas acc),
       rd_playbook_id = ra_playbook_id acc, rd_personas = ra_personas acc, rd_notify_control = notify,
       rd_reason = ''matched_'' @ int_str (ra_matched acc) @ ''_rules'',
       rd_matched_plan_id = ra_plan_id acc, rd_matched_rule_idx = ra_rule_idx acc\<rparr>)"


subsection \<open>What routing computes\<close>

text \<open>The matches in the order the loops meet them, and the decision read off them.\<close>

definition plan_matches :: "security_event \<Rightarrow> plan_config \<Rightarrow> (plan_config \<times> int \<times> routing_rule) list" where
  "plan_matches event plan = map (Pair plan)
     (filter (\<lambda>(i, r). rule_matches r (ev_type event) (ev_severity event)) (enumerate_from 0 (pc_rules plan)))"

definition matches :: "security_event \<Rightarrow> plan_config list \<Rightarrow> (plan_config \<times> int \<times> routing_rule) list" where
  "matches event plans = concat (map (plan_matches event) plans)"

definition playbook_spec :: "(plan_config \<times> int \<times> routing_rule) list \<Rightarrow> string" where
  "playbook_spec ms = (
     let explicit = filter (\<lambda>s. s \<noteq> []) (map (\<lambda>(p, i, r). ru_playbook_id r) ms);
         named = filter (\<lambda>s. s \<noteq> []) (map (\<lambda>(p, i, r). pc_id p) ms) in
     if explicit \<noteq> [] then last explicit else if named \<noteq> [] then hd named else [])"

definition route_spec :: "plan_config list \<Rightarrow> string list \<Rightarrow> security_event \<Rightarrow> routing_decision" where
  "route_spec plans notify_severities event = (
     let ms = matches event plans;
         personas = fromkeys (concat (map (\<lambda>(p, i, r). ru_personas r) ms)) in
     if ms = [] then (RoutingDecision (ev_id event))\<lparr>rd_reason := ''no_matching_rule''\<rparr>
     else \<lparr>rd_event_id = ev_id event,
       rd_jobs = map (\<lambda>p. p @ '':'' @ ev_id event) personas,
       rd_playbook_id = playbook_spec ms, rd_personas = personas,
       rd_notify_control = ((\<exists>(p, i, r) \<in> set ms. ru_notify_control r)
          \<or> severity_value (ev_severity event) \<in> set notify_severities),
       rd_reason = ''matched_'' @ int_str (int (length ms)) @ ''_rules'',
       rd_matched_plan_id = pc_id (fst (last ms)), rd_matched_rule_idx = fst (snd (last ms))\<rparr>)"

definition apply_match :: "plan_config \<times> int \<times> routing_rule \<Rightarrow> route_acc \<Rightarrow> route_acc" where
  "apply_match m acc = (case m of (plan, idx, rule) \<Rightarrow>
     acc\<lparr>ra_personas := fold add_persona (ru_personas rule) (ra_personas acc),
       ra_playbook_id := (if ru_playbook_id rule \<noteq> [] then ru_playbook_id rule
         else if pc_id plan \<noteq> [] \<and> ra_playbook_id acc = [] then pc_id plan else ra_playbook_id acc),
       ra_notify := ra_notify acc \<or> ru_notify_control rule,
       ra_matched := ra_matched acc + 1, ra_plan_id := pc_id plan, ra_rule_idx := idx\<rparr>)"

lemma route_rules_fold:
  "fold (route_rule event plan) irs acc = fold apply_match (map (Pair plan)
     (filter (\<lambda>(i, r). rule_matches r (ev_type event) (ev_severity event)) irs)) acc"
  by (induction irs arbitrary: acc) (auto simp: route_rule_def apply_match_def)

lemma route_plans_fold: "fold (route_plan event) plans acc = fold apply_match (matches event plans) acc"
  by (induction plans arbitrary: acc)
    (simp_all add: matches_def route_plan_def route_rules_fold plan_matches_def)

lemma add_persona_simps:
  "p \<in> set ps \<Longrightarrow> add_persona p ps = ps" "p \<notin> set ps \<Longrightarrow> add_persona p ps = ps @ [p]"
  by (simp_all add: add_persona_def)

lemma add_personas: "fold add_persona ps acc = acc @ filter (\<lambda>p. p \<notin> set acc) (fromkeys ps)"
proof (induction ps arbitrary: acc)
  case (Cons p ps)
  show ?case
  proof (cases "p \<in> set acc")
    case True
    have "filter (\<lambda>q. q \<notin> set acc) (fromkeys (p # ps)) = filter (\<lambda>q. q \<notin> set acc) (fromkeys ps)"
      using True by (simp, intro filter_cong) auto
    then show ?thesis using True by (simp only: fold_simps add_persona_simps Cons.IH)
  next
    case False
    have "filter (\<lambda>q. q \<notin> set acc) (fromkeys (p # ps)) = p # filter (\<lambda>q. q \<notin> set (acc @ [p])) (fromkeys ps)"
      using False by (simp add: conj_commute)
    then show ?thesis using False by (simp only: fold_simps add_persona_simps Cons.IH append.simps append_assoc not_False_eq_True)
  qed
qed simp

lemma fold_personas:
  "ra_personas (fold apply_match ms acc)
     = fold add_persona (concat (map (\<lambda>(p, i, r). ru_personas r) ms)) (ra_personas acc)"
  by (induction ms arbitrary: acc) (auto simp: apply_match_def)

lemma fold_notify:
  "ra_notify (fold apply_match ms acc) \<longleftrightarrow> ra_notify acc \<or> (\<exists>(p, i, r) \<in> set ms. ru_notify_control r)"
  by (induction ms arbitrary: acc) (auto simp: apply_match_def)

lemma fold_matched: "ra_matched (fold apply_match ms acc) = ra_matched acc + int (length ms)"
  by (induction ms arbitrary: acc) (auto simp: apply_match_def)

lemma fold_last:
  "ms \<noteq> [] \<Longrightarrow> ra_plan_id (fold apply_match ms acc) = pc_id (fst (last ms))
     \<and> ra_rule_idx (fold apply_match ms acc) = fst (snd (last ms))"
  by (induction ms arbitrary: acc rule: rev_induct) (auto simp: apply_match_def split: prod.split)

lemma playbook_snoc:
  "playbook_spec (ms @ [(p, i, r)]) = (if ru_playbook_id r \<noteq> [] then ru_playbook_id r
     else if pc_id p \<noteq> [] \<and> playbook_spec ms = [] then pc_id p else playbook_spec ms)"
proof -
  let ?ex = "filter (\<lambda>s. s \<noteq> []) (map (\<lambda>(p, i, r). ru_playbook_id r) ms)"
  let ?nm = "filter (\<lambda>s. s \<noteq> []) (map (\<lambda>(p, i, r). pc_id p) ms)"
  have "?ex \<noteq> [] \<Longrightarrow> last ?ex \<in> set ?ex" "?nm \<noteq> [] \<Longrightarrow> hd ?nm \<in> set ?nm" by (rule last_in_set, simp) (rule hd_in_set, simp)
  then have "?ex \<noteq> [] \<Longrightarrow> last ?ex \<noteq> []" "?nm \<noteq> [] \<Longrightarrow> hd ?nm \<noteq> []"
    unfolding set_filter by blast+
  then show ?thesis by (auto simp: playbook_spec_def Let_def)
qed

lemma fold_playbook:
  "ra_playbook_id acc = [] \<Longrightarrow> ra_playbook_id (fold apply_match ms acc) = playbook_spec ms"
proof (induction ms rule: rev_induct)
  case Nil
  then show ?case by (simp add: playbook_spec_def)
next
  case (snoc m ms)
  then show ?case by (cases m) (simp add: playbook_snoc apply_match_def)
qed

lemma match_has_personas: "(p, i, r) \<in> set (matches event plans) \<Longrightarrow> ru_personas r \<noteq> []"
  by (auto simp: matches_def plan_matches_def rule_matches_def split: if_splits)

lemma no_personas_iff:
  "concat (map (\<lambda>(p, i, r). ru_personas r) (matches event plans)) = [] \<longleftrightarrow> matches event plans = []"
proof (cases "matches event plans")
  case (Cons m ms)
  then show ?thesis using match_has_personas[of "fst m" "fst (snd m)" "snd (snd m)" event plans]
    by (auto simp: split_beta)
qed simp

lemma fromkeys_Nil_iff [simp]: "fromkeys xs = [] \<longleftrightarrow> xs = []"
  by (cases xs) auto

text \<open>C14: Routing is deterministic and order-preserving: the personas are those of the matching
  rules over all plans, each once, in the order the rules name them; the playbook is the last one a
  matching rule names, else the first matching plan's id; the control plane is notified when a
  matching rule or the severity asks for it; the matched plan and rule are the last that matched.
  When nothing matches the decision is the empty one, and a severity that asks for
  notification is not notified.\<close>

theorem route_meets_spec: "route plans notify_severities event = route_spec plans notify_severities event"
proof -
  let ?acc = "fold (route_plan event) plans init_acc"
  let ?ms = "matches event plans"
  have p: "ra_personas ?acc = fromkeys (concat (map (\<lambda>(p, i, r). ru_personas r) ?ms))"
    by (simp add: route_plans_fold fold_personas add_personas init_acc_def)
  have n: "ra_notify ?acc \<longleftrightarrow> (\<exists>(p, i, r) \<in> set ?ms. ru_notify_control r)"
    by (simp add: route_plans_fold fold_notify init_acc_def)
  have m: "ra_matched ?acc = int (length ?ms)"
    by (simp add: route_plans_fold fold_matched init_acc_def)
  have b: "ra_playbook_id ?acc = playbook_spec ?ms"
    by (simp add: route_plans_fold fold_playbook init_acc_def)
  show ?thesis
  proof (cases "?ms = []")
    case True
    then show ?thesis
      by (simp add: route_def route_spec_def Let_def route_plans_fold init_acc_def RoutingDecision_def)
  next
    case False
    have l: "ra_plan_id ?acc = pc_id (fst (last ?ms))" "ra_rule_idx ?acc = fst (snd (last ?ms))"
      using fold_last[OF False, of init_acc] by (simp_all add: route_plans_fold)
    have ne: "ra_personas ?acc \<noteq> []" unfolding p using False no_personas_iff[of event plans] by simp
    show ?thesis unfolding route_def route_spec_def Let_def using ne False
      by (simp only: p[symmetric] n m b l if_False simp_thms)
  qed
qed

lemma route_personas_set:
  "set (rd_personas (route plans ns event)) = (\<Union>(p, i, r) \<in> set (matches event plans). set (ru_personas r))"
  unfolding route_def Let_def
  by (auto simp: route_plans_fold fold_personas add_personas init_acc_def RoutingDecision_def split_beta)

end
