(* ===== verification/Catalog.thy ===== *)
theory Catalog
  imports Event_Routing
begin

text \<open>The agent and plan catalogs and the quality learned in them: InMemoryAgentCatalog and
  PostgresAgentCatalog (cys_core/infrastructure/catalog/memory.py and postgres.py),
  JsonPayloadCatalog with the plan and skill catalogs over it (json_payload_catalog.py,
  memory_plans.py, memory_skills.py), UpdatePersonaQuality and UpdatePlanQuality of
  cys_core/application/use_cases, the hooks of persona_quality_hooks.py and
  rank_personas_by_quality of cys_core/registry/discovery_tools.py.

  The in-memory catalogs hold objects: what get_agent returns is the stored entry, and
  changing it changes the catalog. The Postgres catalog returns a fresh copy of a row.\<close>

subsection \<open>The in-memory agent catalog\<close>

record mem_catalog =
  mc_agents :: "agent_entry dict"
  mc_profiles :: "profile_pack dict"
  mc_versions :: "int dict"

definition InMemoryAgentCatalog :: mem_catalog where
  "InMemoryAgentCatalog = \<lparr>mc_agents = [], mc_profiles = [], mc_versions = []\<rparr>"

definition list_agents :: "string option \<Rightarrow> bool \<Rightarrow> mem_catalog \<Rightarrow> agent_entry list" where
  "list_agents profile_id enabled_only c = sort_key ag_name
     (filter (\<lambda>e. (case profile_id of Some (x # xs) \<Rightarrow> ag_profile_id e = x # xs | _ \<Rightarrow> True)
        \<and> (enabled_only \<longrightarrow> ag_enabled e)) (map snd (mc_agents c)))"

definition get_agent :: "mem_catalog \<Rightarrow> string \<Rightarrow> agent_entry option" where
  "get_agent c name = dget (mc_agents c) name"

text \<open>What both catalogs write over the entry they are given.\<close>

definition merge_entry :: "agent_entry option \<Rightarrow> agent_entry \<Rightarrow> agent_entry" where
  "merge_entry existing entry = (case existing of
       Some x \<Rightarrow> entry\<lparr>ag_version := ag_version x + 1, ag_quality := ag_quality x\<rparr>
     | None \<Rightarrow> entry)\<lparr>ag_source := API\<rparr>"

definition upsert_agent :: "agent_entry \<Rightarrow> mem_catalog \<Rightarrow> mem_catalog" where
  "upsert_agent entry c = (let e = merge_entry (dget (mc_agents c) (ag_name entry)) entry in
     c\<lparr>mc_agents := dput (ag_name entry) e (mc_agents c),
       mc_versions := dput (ag_profile_id e) (get_or (mc_versions c) (ag_profile_id e) 0 + 1) (mc_versions c)\<rparr>)"

definition delete_agent :: "string \<Rightarrow> string \<Rightarrow> mem_catalog \<Rightarrow> mem_catalog \<times> bool" where
  "delete_agent name profile_id c = (case dget (mc_agents c) name of
     None \<Rightarrow> (c, False)
   | Some e \<Rightarrow> if ag_profile_id e \<noteq> profile_id then (c, False)
     else (c\<lparr>mc_agents := dput name (e\<lparr>ag_enabled := False\<rparr>) (mc_agents c)\<rparr>, True))"

definition upsert_profile :: "profile_pack \<Rightarrow> mem_catalog \<Rightarrow> mem_catalog" where
  "upsert_profile p c = c\<lparr>mc_profiles := dput (pk_id p) p (mc_profiles c)\<rparr>"

definition list_profiles :: "mem_catalog \<Rightarrow> profile_pack list" where
  "list_profiles c = map snd (mc_profiles c)"

record catalog_version =
  cv_profile_id :: string
  cv_version :: int
  cv_agent_count :: int

definition get_version :: "string \<Rightarrow> mem_catalog \<Rightarrow> catalog_version" where
  "get_version profile_id c = \<lparr>cv_profile_id = profile_id, cv_version = get_or (mc_versions c) profile_id 0,
     cv_agent_count = int (length (filter (\<lambda>e. ag_profile_id e = profile_id \<and> ag_enabled e)
       (map snd (mc_agents c))))\<rparr>"

definition seed_agents :: "agent_entry list \<Rightarrow> profile_pack \<Rightarrow> mem_catalog \<Rightarrow> mem_catalog" where
  "seed_agents entries profile c = (upsert_profile profile c)\<lparr>
     mc_agents := fold (\<lambda>e. dput (ag_name e) e) entries (mc_agents c)\<rparr>"

subsection \<open>The Postgres agent catalog\<close>

text \<open>A row of agent_catalog; (name, profile_id) is the key of the table.\<close>

record agent_row =
  ar_payload :: agent_entry
  ar_version :: int
  ar_enabled :: bool

type_synonym agent_table = "((string \<times> string) \<times> agent_row) list"

definition newest :: "agent_row list \<Rightarrow> agent_row option" where
  "newest rows = (case sort_key (\<lambda>r. - ar_version r) rows of [] \<Rightarrow> None | r # _ \<Rightarrow> Some r)"

definition pg_get_agent :: "agent_table \<Rightarrow> string \<Rightarrow> agent_entry option" where
  "pg_get_agent t name = map_option ar_payload
     (newest (map snd (filter (\<lambda>(k, r). fst k = name) t)))"

definition pg_list_agents :: "string option \<Rightarrow> bool \<Rightarrow> agent_table \<Rightarrow> agent_entry list" where
  "pg_list_agents profile_id enabled_only t = map (\<lambda>(k, r). ar_payload r)
     (sort_key (\<lambda>(k, r). fst k) (filter (\<lambda>(k, r).
        (case profile_id of Some (x # xs) \<Rightarrow> snd k = x # xs | _ \<Rightarrow> True)
        \<and> (enabled_only \<longrightarrow> ar_enabled r)) t))"

definition pg_upsert_agent :: "agent_entry \<Rightarrow> agent_table \<Rightarrow> agent_table" where
  "pg_upsert_agent entry t = (let e = merge_entry (pg_get_agent t (ag_name entry)) entry in
     AList.update (ag_name e, ag_profile_id e)
       \<lparr>ar_payload = e, ar_version = ag_version e, ar_enabled = ag_enabled e\<rparr> t)"

definition pg_delete_agent :: "string \<Rightarrow> string \<Rightarrow> agent_table \<Rightarrow> agent_table \<times> bool" where
  "pg_delete_agent name profile_id t = (case pg_get_agent t name of
     None \<Rightarrow> (t, False)
   | Some e \<Rightarrow> if ag_profile_id e \<noteq> profile_id then (t, False)
     else (pg_upsert_agent (e\<lparr>ag_enabled := False\<rparr>) t, True))"

subsection \<open>Learning a persona's quality\<close>

datatype quality_kind = JOB_COMPLETED | JOB_FAILED | CRITIC_PASS | CRITIC_FAIL
  | TRACE_CRITIC_PASS | TRACE_CRITIC_FAIL | HITL_PAUSE | BUS_FAILURE

record quality_event =
  qe_persona :: string
  qe_profile_id :: string
  qe_kind :: quality_kind
  qe_trust_signal :: rat
  qe_cost_usd :: rat

definition ema :: "rat \<Rightarrow> rat \<Rightarrow> rat \<Rightarrow> rat" where
  "ema alpha previous sample = (if previous \<le> 0 then sample else (1 - alpha) * previous + alpha * sample)"

definition update_quality :: "rat \<Rightarrow> time \<Rightarrow> quality_event \<Rightarrow> persona_quality \<Rightarrow> persona_quality" where
  "update_quality alpha now ev q0 = (
     let q = q0\<lparr>pq_sample_size := pq_sample_size q0 + 1, pq_last_evaluated_at := Some now\<rparr>;
         trust = (\<lambda>q. q\<lparr>pq_empirical_trust := ema alpha (pq_empirical_trust q) (qe_trust_signal ev)\<rparr>) in
     case qe_kind ev of
       JOB_COMPLETED \<Rightarrow> trust (q\<lparr>pq_job_success_rate := ema alpha (pq_job_success_rate q) 1,
                             pq_avg_cost_usd := ema alpha (pq_avg_cost_usd q) (qe_cost_usd ev)\<rparr>)
     | JOB_FAILED \<Rightarrow> trust (q\<lparr>pq_job_success_rate := ema alpha (pq_job_success_rate q) 0,
                             pq_avg_cost_usd := ema alpha (pq_avg_cost_usd q) (qe_cost_usd ev)\<rparr>)
     | CRITIC_PASS \<Rightarrow> trust (q\<lparr>pq_critic_pass_rate := ema alpha (pq_critic_pass_rate q) 1\<rparr>)
     | CRITIC_FAIL \<Rightarrow> trust (q\<lparr>pq_critic_pass_rate := ema alpha (pq_critic_pass_rate q) 0\<rparr>)
     | TRACE_CRITIC_PASS \<Rightarrow> trust (q\<lparr>pq_trace_critic_pass_rate := ema alpha (pq_trace_critic_pass_rate q) 1\<rparr>)
     | TRACE_CRITIC_FAIL \<Rightarrow> trust (q\<lparr>pq_trace_critic_pass_rate := ema alpha (pq_trace_critic_pass_rate q) 0\<rparr>)
     | HITL_PAUSE \<Rightarrow> trust (q\<lparr>pq_hitl_rate := ema alpha (pq_hitl_rate q) 1\<rparr>)
     | BUS_FAILURE \<Rightarrow> trust q)"

definition policy_in :: "profile_pack list \<Rightarrow> string \<Rightarrow> profile_policy" where
  "policy_in profiles profile_id = (case find (\<lambda>p. pk_id p = profile_id) profiles of
     Some p \<Rightarrow> pk_policy p | None \<Rightarrow> default_profile_policy_payload)"

definition ema_alpha :: "profile_pack list \<Rightarrow> string \<Rightarrow> rat" where
  "ema_alpha profiles profile_id = qs_ema_alpha (pol_quality_signals (policy_in profiles profile_id))"

text \<open>UpdatePersonaQuality.apply on the in-memory catalog: the quality is changed in the stored
  entry first, so the upsert finds it there.\<close>

definition mem_apply_quality :: "time \<Rightarrow> quality_event \<Rightarrow> mem_catalog \<Rightarrow> mem_catalog" where
  "mem_apply_quality now ev c = (case get_agent c (qe_persona ev) of
     None \<Rightarrow> c
   | Some e \<Rightarrow> (let e1 = e\<lparr>ag_quality := update_quality (ema_alpha (list_profiles c) (qe_profile_id ev)) now ev (ag_quality e)\<rparr>
       in upsert_agent e1 (c\<lparr>mc_agents := dput (qe_persona ev) e1 (mc_agents c)\<rparr>)))"

text \<open>The same on the Postgres catalog: the changed entry is a copy.\<close>

definition pg_apply_quality :: "profile_pack list \<Rightarrow> time \<Rightarrow> quality_event \<Rightarrow> agent_table \<Rightarrow> agent_table" where
  "pg_apply_quality profiles now ev t = (case pg_get_agent t (qe_persona ev) of
     None \<Rightarrow> t
   | Some e \<Rightarrow> pg_upsert_agent
       (e\<lparr>ag_quality := update_quality (ema_alpha profiles (qe_profile_id ev)) now ev (ag_quality e)\<rparr>) t)"

definition trust_signal :: "profile_pack list \<Rightarrow> quality_kind \<Rightarrow> string \<Rightarrow> rat" where
  "trust_signal profiles kind profile_id = (let s = pol_quality_signals (policy_in profiles profile_id) in
     case kind of JOB_COMPLETED \<Rightarrow> qs_job_success s | JOB_FAILED \<Rightarrow> qs_job_failure s
     | TRACE_CRITIC_PASS \<Rightarrow> qs_trace_critic_pass s | TRACE_CRITIC_FAIL \<Rightarrow> qs_trace_critic_fail s
     | HITL_PAUSE \<Rightarrow> qs_hitl_pause s | BUS_FAILURE \<Rightarrow> qs_bus_failure s
     | CRITIC_PASS \<Rightarrow> 8/10 | CRITIC_FAIL \<Rightarrow> 4/10)"

definition record_event :: "time \<Rightarrow> quality_kind \<Rightarrow> string \<Rightarrow> string \<Rightarrow> rat option \<Rightarrow> rat \<Rightarrow> mem_catalog \<Rightarrow> mem_catalog" where
  "record_event now kind persona profile_id signal cost c = mem_apply_quality now
     \<lparr>qe_persona = persona, qe_profile_id = profile_id, qe_kind = kind,
      qe_trust_signal = (case signal of Some s \<Rightarrow> s | None \<Rightarrow> trust_signal (list_profiles c) kind profile_id),
      qe_cost_usd = cost\<rparr> c"

definition record_job_completed :: "time \<Rightarrow> string \<Rightarrow> bool \<Rightarrow> rat \<Rightarrow> string \<Rightarrow> mem_catalog \<Rightarrow> mem_catalog" where
  "record_job_completed now persona success cost profile_id c =
     record_event now (if success then JOB_COMPLETED else JOB_FAILED) persona profile_id None cost c"

definition record_critic_verdict :: "time \<Rightarrow> string \<Rightarrow> bool \<Rightarrow> rat \<Rightarrow> string \<Rightarrow> mem_catalog \<Rightarrow> mem_catalog" where
  "record_critic_verdict now persona passed trust_score profile_id c =
     record_event now (if passed then CRITIC_PASS else CRITIC_FAIL) persona profile_id
       (Some (if passed then trust_score else max (1/10) (trust_score * (1/2)))) 0 c"

definition record_trace_critic :: "time \<Rightarrow> string \<Rightarrow> bool \<Rightarrow> string \<Rightarrow> mem_catalog \<Rightarrow> mem_catalog" where
  "record_trace_critic now persona passed profile_id c =
     record_event now (if passed then TRACE_CRITIC_PASS else TRACE_CRITIC_FAIL) persona profile_id None 0 c"

definition record_hitl_pause :: "time \<Rightarrow> string \<Rightarrow> string \<Rightarrow> mem_catalog \<Rightarrow> mem_catalog" where
  "record_hitl_pause now persona profile_id c = record_event now HITL_PAUSE persona profile_id None 0 c"

definition record_bus_failure :: "time \<Rightarrow> string \<Rightarrow> string \<Rightarrow> mem_catalog \<Rightarrow> mem_catalog" where
  "record_bus_failure now persona profile_id c = record_event now BUS_FAILURE persona profile_id None 0 c"

definition persona_trust_score :: "string \<Rightarrow> mem_catalog option \<Rightarrow> rat" where
  "persona_trust_score name catalog = (case catalog of
     Some c \<Rightarrow> (case get_agent c name of Some e \<Rightarrow> pq_empirical_trust (ag_quality e) | None \<Rightarrow> 3/4)
   | None \<Rightarrow> 3/4)"

text \<open>A stable sort, the best first.\<close>

definition rank_personas_by_quality :: "mem_catalog option \<Rightarrow> rat \<Rightarrow> string list \<Rightarrow> string list" where
  "rank_personas_by_quality catalog trust_floor personas = map fst (sort_key (\<lambda>(n, s). - s)
     (filter (\<lambda>(n, s). s \<ge> trust_floor) (map (\<lambda>n. (n, persona_trust_score n catalog)) personas)))"

subsection \<open>Catalogs of payloads: plans and skills\<close>

text \<open>What JsonPayloadCatalog needs of an entry (its protocol), and the store keyed by id and profile.\<close>

record 'a payload_ops =
  po_id :: "'a \<Rightarrow> string"
  po_profile_id :: "'a \<Rightarrow> string"
  po_enabled :: "'a \<Rightarrow> bool"
  po_disable :: "'a \<Rightarrow> 'a"

type_synonym 'a payload_catalog = "((string \<times> string) \<times> 'a) list"

definition item_key :: "'a payload_ops \<Rightarrow> 'a \<Rightarrow> string \<times> string" where
  "item_key ops e = (po_id ops e, po_profile_id ops e)"

definition list_items ::
  "'a payload_ops \<Rightarrow> ('a \<Rightarrow> string) \<Rightarrow> string option \<Rightarrow> bool \<Rightarrow> 'a payload_catalog \<Rightarrow> 'a list" where
  "list_items ops sort_by profile_id enabled_only c = sort_key sort_by
     (filter (\<lambda>e. (case profile_id of Some (x # xs) \<Rightarrow> po_profile_id ops e = x # xs | _ \<Rightarrow> True)
        \<and> (enabled_only \<longrightarrow> po_enabled ops e)) (map snd c))"

definition get_item :: "'a payload_catalog \<Rightarrow> string \<Rightarrow> string \<Rightarrow> 'a option" where
  "get_item c item_id profile_id = map_of c (item_id, profile_id)"

definition upsert_item ::
  "'a payload_ops \<Rightarrow> ('a \<Rightarrow> 'a \<Rightarrow> 'a) option \<Rightarrow> 'a \<Rightarrow> 'a payload_catalog \<Rightarrow> 'a payload_catalog" where
  "upsert_item ops merge e c = (let k = item_key ops e;
     e' = (case (map_of c k, merge) of (Some ex, Some m) \<Rightarrow> m e ex | _ \<Rightarrow> e) in AList.update k e' c)"

definition soft_delete :: "'a payload_ops \<Rightarrow> string \<Rightarrow> string \<Rightarrow> 'a payload_catalog \<Rightarrow> 'a payload_catalog \<times> bool" where
  "soft_delete ops item_id profile_id c = (case map_of c (item_id, profile_id) of
     None \<Rightarrow> (c, False)
   | Some e \<Rightarrow> (AList.update (item_id, profile_id) (po_disable ops e) c, True))"

definition seed_items :: "'a payload_ops \<Rightarrow> 'a list \<Rightarrow> 'a payload_catalog \<Rightarrow> 'a payload_catalog" where
  "seed_items ops es c = fold (\<lambda>e. AList.update (item_key ops e) e) es c"

definition plan_ops :: "plan_entry payload_ops" where
  "plan_ops = \<lparr>po_id = pl_id, po_profile_id = pl_profile_id, po_enabled = pl_enabled,
     po_disable = pl_enabled_update (\<lambda>_. False)\<rparr>"

definition skill_ops :: "skill_entry payload_ops" where
  "skill_ops = \<lparr>po_id = sk_id, po_profile_id = sk_profile_id, po_enabled = sk_enabled,
     po_disable = sk_enabled_update (\<lambda>_. False)\<rparr>"

definition upsert_plan :: "plan_entry \<Rightarrow> plan_entry payload_catalog \<Rightarrow> plan_entry payload_catalog" where
  "upsert_plan e c = upsert_item plan_ops (Some (\<lambda>e ex. e\<lparr>pl_version := pl_version ex + 1\<rparr>)) e c"

definition list_plans :: "string option \<Rightarrow> bool \<Rightarrow> plan_entry payload_catalog \<Rightarrow> plan_entry list" where
  "list_plans profile_id enabled_only c = list_items plan_ops pl_id profile_id enabled_only c"

definition load_active :: "string \<Rightarrow> plan_entry payload_catalog \<Rightarrow> plan_entry list" where
  "load_active profile_id c = (
     let active = map snd (filter (\<lambda>(k, e). snd k = profile_id \<and> pl_enabled e \<and> pl_active e) c) in
     if active \<noteq> [] then active else list_plans (Some profile_id) True c)"

text \<open>A str never equals a tuple in Python; activate_plan compares the id of a key with the
  whole key of the plan to activate.\<close>

definition str_eq_tuple :: "string \<Rightarrow> string \<times> string \<Rightarrow> bool" where
  "str_eq_tuple s t = False"

definition activate_plan ::
  "string \<Rightarrow> string \<Rightarrow> plan_entry payload_catalog \<Rightarrow> plan_entry payload_catalog \<times> plan_entry option" where
  "activate_plan plan_id profile_id c = (
     let c' = map (\<lambda>(k, e). (k, if snd k = profile_id
           then e\<lparr>pl_active := str_eq_tuple (fst k) (plan_id, profile_id)\<rparr> else e)) c
     in (c', map_of c' (plan_id, profile_id)))"

definition upsert_skill :: "skill_entry \<Rightarrow> skill_entry payload_catalog \<Rightarrow> skill_entry payload_catalog" where
  "upsert_skill e c = upsert_item skill_ops
     (Some (\<lambda>e ex. e\<lparr>sk_version := sk_version ex + 1, sk_quality := sk_quality ex\<rparr>)) e c"

definition delete_skill :: "string \<Rightarrow> string \<Rightarrow> skill_entry payload_catalog \<Rightarrow> skill_entry payload_catalog \<times> bool" where
  "delete_skill skill_id profile_id c = soft_delete skill_ops skill_id profile_id c"

definition increment_usage ::
  "string \<Rightarrow> string \<Rightarrow> bool \<Rightarrow> skill_entry payload_catalog \<Rightarrow> skill_entry payload_catalog" where
  "increment_usage skill_id profile_id err c = (case get_item c skill_id profile_id of
     None \<Rightarrow> c
   | Some e \<Rightarrow> AList.update (skill_id, profile_id) (e\<lparr>sk_quality := (if err
       then (sk_quality e)\<lparr>load_errors := load_errors (sk_quality e) + 1\<rparr>
       else (sk_quality e)\<lparr>usage_count := usage_count (sk_quality e) + 1\<rparr>)\<rparr>) c)"

text \<open>UpdatePlanQuality.record_match: a running mean of the jobs per matched event.\<close>

definition match_quality :: "int \<Rightarrow> plan_quality \<Rightarrow> plan_quality" where
  "match_quality jobs q = (let n = plq_match_count q + 1 in
     q\<lparr>plq_match_count := n,
       plq_avg_jobs_per_event := (plq_avg_jobs_per_event q * of_int (max 0 (n - 1)) + of_int jobs)
          / of_int (max 1 n)\<rparr>)"

definition record_match ::
  "string \<Rightarrow> string \<Rightarrow> int \<Rightarrow> plan_entry payload_catalog \<Rightarrow> plan_entry payload_catalog" where
  "record_match plan_id profile_id jobs c = (case get_item c plan_id profile_id of
     None \<Rightarrow> c
   | Some e \<Rightarrow> (let e1 = e\<lparr>pl_quality := match_quality jobs (pl_quality e)\<rparr> in
       upsert_plan e1 (AList.update (plan_id, profile_id) e1 c)))"

text \<open>RouteEvent.execute with a plan catalog: the match is recorded for the default profile.\<close>

definition RouteEvent_execute ::
  "plan_config list \<Rightarrow> string list \<Rightarrow> security_event \<Rightarrow> plan_entry payload_catalog
    \<Rightarrow> plan_entry payload_catalog \<times> routing_decision" where
  "RouteEvent_execute plans notify_severities event c = (
     let d = route plans notify_severities event in
     if rd_matched_plan_id d \<noteq> []
     then (record_match (rd_matched_plan_id d) DEFAULT_PROFILE_ID (int (length (rd_personas d))) c, d)
     else (c, d))"

subsection \<open>The contract of an agent catalog\<close>

text \<open>What the use cases may assume of a catalog they read copies from: an upsert keeps the
  quality the catalog already holds, and only touches the entry it names.\<close>

locale agent_catalog =
  fixes get :: "'s \<Rightarrow> string \<Rightarrow> agent_entry option"
    and upsert :: "agent_entry \<Rightarrow> 's \<Rightarrow> 's"
    and ok :: "'s \<Rightarrow> bool"
  assumes get_upsert: "ok s \<Longrightarrow> get (upsert e s) n =
        (if n = ag_name e then Some (merge_entry (get s (ag_name e)) e) else get s n)"
    and ok_upsert: "ok s \<Longrightarrow> ok (upsert e s)"
    and get_name: "ok s \<Longrightarrow> get s n = Some e \<Longrightarrow> ag_name e = n"
begin

text \<open>A change to the quality of a copy, written back.\<close>

definition apply_copy :: "(persona_quality \<Rightarrow> persona_quality) \<Rightarrow> string \<Rightarrow> 's \<Rightarrow> 's" where
  "apply_copy f n s = (case get s n of None \<Rightarrow> s | Some e \<Rightarrow> upsert (e\<lparr>ag_quality := f (ag_quality e)\<rparr>) s)"

lemma ok_apply_copy: "ok s \<Longrightarrow> ok (apply_copy f n s)"
  by (simp add: apply_copy_def ok_upsert split: option.split)

lemma quality_kept:
  "ok s \<Longrightarrow> map_option ag_quality (get (apply_copy f n s) m) = map_option ag_quality (get s m)"
  using get_name[of s n] by (auto simp: apply_copy_def get_upsert merge_entry_def split: option.split)

lemma quality_kept_fold:
  "ok s \<Longrightarrow> map_option ag_quality (get (fold (\<lambda>(f, n). apply_copy f n) fs s) m)
     = map_option ag_quality (get s m)"
  by (induction fs arbitrary: s) (auto simp: ok_apply_copy quality_kept)

lemma version_grows:
  "ok s \<Longrightarrow> get s (ag_name e) = Some x \<Longrightarrow>
     map_option ag_version (get (upsert e s) (ag_name e)) = Some (ag_version x + 1)"
  by (simp add: get_upsert merge_entry_def)

end

definition agents_ok :: "mem_catalog \<Rightarrow> bool" where
  "agents_ok c = (\<forall>n e. dget (mc_agents c) n = Some e \<longrightarrow> ag_name e = n)"

lemma merge_entry_name [simp]: "ag_name (merge_entry ex e) = ag_name e"
  by (simp add: merge_entry_def split: option.split)

lemma merge_entry_profile [simp]: "ag_profile_id (merge_entry ex e) = ag_profile_id e"
  by (simp add: merge_entry_def split: option.split)

interpretation mem_agents: agent_catalog get_agent upsert_agent agents_ok
  by unfold_locales (auto simp: get_agent_def upsert_agent_def agents_ok_def Let_def split: if_splits)

text \<open>Rows carry the name and version of their payload, under their key.\<close>

definition row_ok :: "(string \<times> string) \<times> agent_row \<Rightarrow> bool" where
  "row_ok kr = (case kr of (k, r) \<Rightarrow> k = (ag_name (ar_payload r), ag_profile_id (ar_payload r))
     \<and> ar_version r = ag_version (ar_payload r))"

definition table_ok :: "agent_table \<Rightarrow> bool" where
  "table_ok t = (distinct (map fst t) \<and> (\<forall>kr \<in> set t. row_ok kr))"

lemma newest_None_iff: "newest rows = None \<longleftrightarrow> rows = []"
proof -
  have "set (sort_key (\<lambda>r. - ar_version r) rows) = set rows" by simp
  then show ?thesis unfolding newest_def by (cases "sort_key (\<lambda>r. - ar_version r) rows") auto
qed

lemma newest_Some:
  assumes "newest rows = Some x"
  shows "x \<in> set rows" and "r \<in> set rows \<Longrightarrow> ar_version r \<le> ar_version x"
proof -
  let ?s = "sort_key (\<lambda>r. - ar_version r) rows"
  obtain rest where s: "?s = x # rest" using assms unfolding newest_def by (cases ?s) auto
  have st: "set ?s = set rows" by simp
  have so: "sorted (map (\<lambda>r. - ar_version r) (x # rest))" using s sorted_sort_key[of "\<lambda>r. - ar_version r" rows] by simp
  have "x \<in> set ?s" by (simp only: s list.set_intros)
  then show "x \<in> set rows" by (simp only: st)
  assume "r \<in> set rows"
  then have "r \<in> set (x # rest)" using st s by simp
  then show "ar_version r \<le> ar_version x" using so by auto
qed

lemma newest_max:
  assumes "x \<in> set rows" and "\<And>r. r \<in> set rows \<Longrightarrow> r \<noteq> x \<Longrightarrow> ar_version r < ar_version x"
  shows "newest rows = Some x"
proof (cases "newest rows")
  case None
  then show ?thesis using assms(1) by (simp add: newest_None_iff)
next
  case (Some y)
  then have "y \<in> set rows" "ar_version x \<le> ar_version y" using newest_Some[OF Some] assms(1) by auto
  then show ?thesis using Some assms(2)[of y] by fastforce
qed

lemma filter_update_other:
  "fst k \<noteq> n \<Longrightarrow> filter (\<lambda>(k, r). fst k = n) (AList.update k v t) = filter (\<lambda>(k, r). fst k = n) t"
  by (induction t) auto

lemma set_update_distinct:
  "distinct (map fst t) \<Longrightarrow> set (AList.update k v t) = insert (k, v) {kr \<in> set t. fst kr \<noteq> k}"
  by (induction t) (auto simp: rev_image_eqI)

lemma pg_get_Some:
  assumes "table_ok t" and "pg_get_agent t n = Some e"
  obtains r k where "(k, r) \<in> set t" and "fst k = n" and "ar_payload r = e"
    and "\<And>k' r'. (k', r') \<in> set t \<Longrightarrow> fst k' = n \<Longrightarrow> ar_version r' \<le> ag_version e"
proof -
  obtain r where r: "newest (map snd (filter (\<lambda>(k, r). fst k = n) t)) = Some r" and e: "ar_payload r = e"
    using assms(2) by (auto simp: pg_get_agent_def)
  from newest_Some(1)[OF r] obtain k where k: "(k, r) \<in> set t" "fst k = n" by auto
  then have "ar_version r = ag_version e" using assms(1) e by (auto simp: table_ok_def row_ok_def)
  then have "ar_version r' \<le> ag_version e" if "(k', r') \<in> set t" "fst k' = n" for k' r'
    using newest_Some(2)[OF r, of r'] that by force
  with k e show thesis by (rule that)
qed

lemma pg_get_max:
  assumes "table_ok t" and "pg_get_agent t n = Some e" and "(k', r') \<in> set t" and "fst k' = n"
  shows "ar_version r' \<le> ag_version e"
  by (rule pg_get_Some[OF assms(1,2)]) (use assms(3,4) in blast)

lemma pg_get_upsert:
  assumes "table_ok t"
  shows "pg_get_agent (pg_upsert_agent e t) n =
     (if n = ag_name e then Some (merge_entry (pg_get_agent t (ag_name e)) e) else pg_get_agent t n)"
proof -
  define m where "m = merge_entry (pg_get_agent t (ag_name e)) e"
  define row where "row = \<lparr>ar_payload = m, ar_version = ag_version m, ar_enabled = ag_enabled m\<rparr>"
  define k where "k = (ag_name e, ag_profile_id e)"
  have up: "pg_upsert_agent e t = AList.update k row t"
    by (simp add: pg_upsert_agent_def Let_def m_def row_def k_def)
  show ?thesis
  proof (cases "n = ag_name e")
    case False
    then have "filter (\<lambda>(k, r). fst k = n) (AList.update k row t) = filter (\<lambda>(k, r). fst k = n) t"
      by (intro filter_update_other) (simp add: k_def)
    with False show ?thesis by (simp add: pg_get_agent_def up)
  next
    case True
    have older: "ar_version r < ag_version m" if "(k', r) \<in> set t" "fst k' = n" for k' r
    proof -
      have "map snd (filter (\<lambda>(k, r). fst k = n) t) \<noteq> []" using that by (auto simp: filter_empty_conv)
      then obtain x where x: "pg_get_agent t n = Some x"
        by (cases "newest (map snd (filter (\<lambda>(k, r). fst k = n) t))") (auto simp: newest_None_iff pg_get_agent_def)
      then have "ar_version r \<le> ag_version x" using that by (rule pg_get_max[OF assms])
      then show ?thesis using x True by (simp add: m_def merge_entry_def)
    qed
    let ?rows = "map snd (filter (\<lambda>(k, r). fst k = n) (AList.update k row t))"
    have S: "set (AList.update k row t) = insert (k, row) {kr \<in> set t. fst kr \<noteq> k}"
      using assms by (intro set_update_distinct) (simp add: table_ok_def)
    then have "(k, row) \<in> set (filter (\<lambda>(k, r). fst k = n) (AList.update k row t))"
      using True by (simp add: k_def)
    then have "row \<in> set ?rows" by force
    moreover have "ar_version r < ar_version row" if "r \<in> set ?rows" "r \<noteq> row" for r
    proof -
      from that S obtain k' where "(k', r) \<in> set t" "fst k' = n" by auto
      then show ?thesis using older by (simp add: row_def)
    qed
    ultimately have "newest ?rows = Some row" by (rule newest_max)
    with True show ?thesis by (simp add: pg_get_agent_def up row_def m_def)
  qed
qed

lemma table_ok_update: "table_ok t \<Longrightarrow> row_ok (k, r) \<Longrightarrow> table_ok (AList.update k r t)"
proof -
  assume t: "table_ok t" and r: "row_ok (k, r)"
  have "set (AList.update k r t) \<subseteq> insert (k, r) (set t)" by (rule set_update_subset)
  then have "row_ok kr" if "kr \<in> set (AList.update k r t)" for kr
    using that r t unfolding table_ok_def by blast
  moreover have "distinct (map fst (AList.update k r t))" using t unfolding table_ok_def by (intro distinct_update) blast
  ultimately show "table_ok (AList.update k r t)" unfolding table_ok_def by blast
qed

lemma pg_ok_upsert: "table_ok t \<Longrightarrow> table_ok (pg_upsert_agent e t)"
  unfolding pg_upsert_agent_def Let_def by (erule table_ok_update) (simp add: row_ok_def)

lemma pg_get_name: "table_ok t \<Longrightarrow> pg_get_agent t n = Some e \<Longrightarrow> ag_name e = n"
proof -
  assume t: "table_ok t" and g: "pg_get_agent t n = Some e"
  show "ag_name e = n"
  proof (rule pg_get_Some[OF t g])
    fix r k
    assume r: "(k, r) \<in> set t" "fst k = n" "ar_payload r = e"
    have "row_ok (k, r)" using t r(1) unfolding table_ok_def by (rule bspec[OF conjunct2])
    then show "ag_name e = n" using r(2,3) by (simp add: row_ok_def)
  qed
qed

interpretation pg_agents: agent_catalog pg_get_agent pg_upsert_agent table_ok
  by unfold_locales (auto simp: pg_get_upsert pg_ok_upsert pg_get_name)

lemma pg_apply_copy:
  "pg_apply_quality profiles now ev t = pg_agents.apply_copy
     (update_quality (ema_alpha profiles (qe_profile_id ev)) now ev) (qe_persona ev) t"
  by (simp add: pg_apply_quality_def pg_agents.apply_copy_def)

lemma mem_apply_get:
  assumes "agents_ok c" and "get_agent c (qe_persona ev) = Some e"
  shows "get_agent (mem_apply_quality now ev c) (qe_persona ev) = Some (e\<lparr>
     ag_quality := update_quality (ema_alpha (list_profiles c) (qe_profile_id ev)) now ev (ag_quality e),
     ag_version := ag_version e + 1, ag_source := API\<rparr>)"
proof -
  have "ag_name e = qe_persona ev" using assms by (simp add: agents_ok_def get_agent_def)
  then show ?thesis using assms(2)
    by (simp add: mem_apply_quality_def upsert_agent_def get_agent_def Let_def merge_entry_def)
qed

subsection \<open>Properties\<close>

definition unit_rate :: "rat \<Rightarrow> bool" where
  "unit_rate r = (0 \<le> r \<and> r \<le> 1)"

lemma ema_unit:
  assumes "unit_rate alpha" and "unit_rate p" and "unit_rate x"
  shows "unit_rate (ema alpha p x)"
proof -
  have "(1 - alpha) * p + alpha * x \<le> (1 - alpha) * 1 + alpha * 1"
    using assms by (intro add_mono mult_left_mono) (auto simp: unit_rate_def)
  moreover have "0 \<le> (1 - alpha) * p + alpha * x"
    using assms by (auto simp: unit_rate_def)
  ultimately show ?thesis using assms(3) by (auto simp: ema_def unit_rate_def)
qed

definition rates_ok :: "persona_quality \<Rightarrow> bool" where
  "rates_ok q = (list_all unit_rate [pq_empirical_trust q, pq_critic_pass_rate q,
     pq_trace_critic_pass_rate q, pq_hitl_rate q, pq_job_success_rate q])"

lemma unit_rate_01 [simp]: "unit_rate 0" "unit_rate 1"
  by (simp_all add: unit_rate_def)

lemma update_rates_ok:
  "unit_rate alpha \<Longrightarrow> unit_rate (qe_trust_signal ev) \<Longrightarrow> rates_ok q \<Longrightarrow> rates_ok (update_quality alpha now ev q)"
  by (cases "qe_kind ev") (auto simp: update_quality_def rates_ok_def Let_def ema_unit)

lemma update_sample: "pq_sample_size (update_quality alpha now ev q) = pq_sample_size q + 1"
  by (cases "qe_kind ev") (auto simp: update_quality_def Let_def)

lemma update_hitl:
  "pq_hitl_rate q = (if b then 1 else 0) \<Longrightarrow>
   pq_hitl_rate (update_quality alpha now ev q) = (if b \<or> qe_kind ev = HITL_PAUSE then 1 else 0)"
  by (cases "qe_kind ev") (auto simp: update_quality_def Let_def ema_def)

definition learn :: "rat \<Rightarrow> (time \<times> quality_event) list \<Rightarrow> persona_quality \<Rightarrow> persona_quality" where
  "learn alpha evs q = fold (\<lambda>(now, ev). update_quality alpha now ev) evs q"

lemma learn_rates_ok:
  "unit_rate alpha \<Longrightarrow> list_all (\<lambda>(now, ev). unit_rate (qe_trust_signal ev)) evs \<Longrightarrow> rates_ok q \<Longrightarrow>
     rates_ok (learn alpha evs q)"
  by (induction evs arbitrary: q) (auto simp: learn_def update_rates_ok)

lemma learn_sample: "pq_sample_size (learn alpha evs q) = pq_sample_size q + int (length evs)"
  by (induction evs arbitrary: q) (auto simp: learn_def update_sample)

lemma learn_hitl:
  "pq_hitl_rate q = (if b then 1 else 0) \<Longrightarrow>
   pq_hitl_rate (learn alpha evs q) = (if b \<or> list_ex (\<lambda>(now, ev). qe_kind ev = HITL_PAUSE) evs then 1 else 0)"
proof (induction evs arbitrary: q b)
  case (Cons p evs)
  obtain now ev where p: "p = (now, ev)" by (cases p)
  have "pq_hitl_rate (update_quality alpha now ev q) = (if b \<or> qe_kind ev = HITL_PAUSE then 1 else 0)"
    using Cons.prems by (rule update_hitl)
  from Cons.IH[OF this] show ?case by (auto simp: learn_def p)
qed (simp add: learn_def)

text \<open>Whatever events a new persona meets, with a smoothing factor and signals between 0 and 1,
  its trust and every rate stay between 0 and 1 and the sample size counts the events. The rate of
  human pauses is no rate: it is 1 as soon as there was one pause, however many jobs ran without.\<close>

theorem persona_rates_bounded:
  assumes "unit_rate alpha" and "list_all (\<lambda>(now, ev). unit_rate (qe_trust_signal ev)) evs"
  shows "rates_ok (learn alpha evs PersonaQuality)
    \<and> pq_sample_size (learn alpha evs PersonaQuality) = int (length evs)
    \<and> pq_hitl_rate (learn alpha evs PersonaQuality)
        = (if list_ex (\<lambda>(now, ev). qe_kind ev = HITL_PAUSE) evs then 1 else 0)"
proof -
  have "rates_ok PersonaQuality" by (simp add: rates_ok_def PersonaQuality_def unit_rate_def)
  moreover have "pq_hitl_rate PersonaQuality = (if False then 1 else 0)" "pq_sample_size PersonaQuality = 0"
    by (simp_all add: PersonaQuality_def)
  ultimately show ?thesis
    using learn_rates_ok[OF assms] learn_sample[of alpha evs PersonaQuality] learn_hitl[of PersonaQuality False alpha evs]
    by simp
qed

definition demo_quality_events :: "(time \<times> quality_event) list" where
  "demo_quality_events = [(1, \<lparr>qe_persona = ''soc'', qe_profile_id = ''p'', qe_kind = HITL_PAUSE,
       qe_trust_signal = 1/2, qe_cost_usd = 0\<rparr>),
     (2, \<lparr>qe_persona = ''soc'', qe_profile_id = ''p'', qe_kind = JOB_FAILED, qe_trust_signal = 35/100, qe_cost_usd = 1\<rparr>)]"

theorem persona_rates_bounded_witness:
  "pq_hitl_rate (learn (15/100) demo_quality_events PersonaQuality) = 1
     \<and> pq_job_success_rate (learn (15/100) demo_quality_events PersonaQuality) = 0
     \<and> rates_ok (learn (15/100) demo_quality_events PersonaQuality)"
proof -
  have "unit_rate (15/100)" "list_all (\<lambda>(now, ev). unit_rate (qe_trust_signal ev)) demo_quality_events"
    by (simp_all add: unit_rate_def demo_quality_events_def)
  from persona_rates_bounded[OF this] show ?thesis
    by (simp add: demo_quality_events_def learn_def update_quality_def Let_def ema_def PersonaQuality_def)
qed

text \<open>The same use case learns on one backend only. The in-memory catalog reads back the updated
  quality, with the version one higher and the source turned to API; on the Postgres catalog, whatever
  events arrive, every persona's quality reads back as it was, because the upsert writes the stored
  quality over the updated copy.\<close>

theorem quality_learned_only_in_memory:
  assumes "agents_ok c" and "get_agent c (qe_persona ev) = Some e" and "table_ok t"
  shows "get_agent (mem_apply_quality now ev c) (qe_persona ev) = Some (e\<lparr>
       ag_quality := update_quality (ema_alpha (list_profiles c) (qe_profile_id ev)) now ev (ag_quality e),
       ag_version := ag_version e + 1, ag_source := API\<rparr>)
    \<and> map_option ag_quality (pg_get_agent (fold (\<lambda>(now, ev). pg_apply_quality profiles now ev) evs t) name)
        = map_option ag_quality (pg_get_agent t name)"
proof -
  let ?up = "\<lambda>(now, ev). (update_quality (ema_alpha profiles (qe_profile_id ev)) now ev, qe_persona ev)"
  have eq: "fold (\<lambda>(now, ev). pg_apply_quality profiles now ev) evs t
      = fold (\<lambda>(f, n). pg_agents.apply_copy f n) (map ?up evs) t"
    by (induction evs arbitrary: t) (auto simp: pg_apply_copy)
  show ?thesis unfolding eq using mem_apply_get[OF assms(1,2)] pg_agents.quality_kept_fold[OF assms(3)] by blast
qed

definition demo_agent :: agent_entry where
  "demo_agent = AgentCatalogEntry ''soc'' 0"

theorem quality_learned_only_in_memory_witness:
  "map_option (\<lambda>e. pq_sample_size (ag_quality e))
      (get_agent (mem_apply_quality 1 (snd (hd demo_quality_events)) (upsert_agent demo_agent InMemoryAgentCatalog)) ''soc'') = Some 1
   \<and> map_option (\<lambda>e. pq_sample_size (ag_quality e))
      (pg_get_agent (fold (\<lambda>(now, ev). pg_apply_quality [] now ev) demo_quality_events (pg_upsert_agent demo_agent [])) ''soc'') = Some 0"
proof -
  let ?c = "upsert_agent demo_agent InMemoryAgentCatalog"
  let ?e = "merge_entry None demo_agent"
  have ok: "agents_ok ?c" "table_ok (pg_upsert_agent demo_agent [])"
    by (rule mem_agents.ok_upsert, simp add: agents_ok_def InMemoryAgentCatalog_def)
      (rule pg_agents.ok_upsert, simp add: table_ok_def)
  have p: "qe_persona (snd (hd demo_quality_events)) = ''soc''" by (simp add: demo_quality_events_def)
  have g: "get_agent ?c (qe_persona (snd (hd demo_quality_events))) = Some ?e"
    unfolding p by (simp add: upsert_agent_def InMemoryAgentCatalog_def get_agent_def demo_agent_def AgentCatalogEntry_def Let_def)
  have s: "pq_sample_size (ag_quality ?e) = 0"
    by (simp add: merge_entry_def demo_agent_def AgentCatalogEntry_def PersonaQuality_def)
  have pg: "map_option ag_quality (pg_get_agent (pg_upsert_agent demo_agent []) ''soc'') = Some (ag_quality ?e)"
    using pg_get_upsert[of "[]" demo_agent "''soc''"]
    by (simp add: table_ok_def demo_agent_def AgentCatalogEntry_def pg_get_agent_def[of "[]"] newest_def)
  note T = quality_learned_only_in_memory[OF ok(1) g ok(2), of 1 "[]" demo_quality_events "''soc''"]
  have "map_option (\<lambda>e. pq_sample_size (ag_quality e)) (pg_get_agent (fold (\<lambda>(now, ev). pg_apply_quality [] now ev)
      demo_quality_events (pg_upsert_agent demo_agent [])) ''soc'') = Some 0"
    using T[THEN conjunct2] pg s by (cases "pg_get_agent (fold (\<lambda>(now, ev). pg_apply_quality [] now ev)
      demo_quality_events (pg_upsert_agent demo_agent [])) ''soc''") auto
  with T[THEN conjunct1] s show ?thesis unfolding p by (simp add: update_sample)
qed

lemma activate_none_active:
  "filter (\<lambda>(k, e). snd k = profile_id \<and> pl_active e) (fst (activate_plan plan_id profile_id c)) = []"
  by (induction c) (auto simp: activate_plan_def str_eq_tuple_def Let_def)

text \<open>Activating a plan in the in-memory catalog deactivates every plan of the profile, the one to
  activate included, so that the router then loads all enabled plans of the profile; the plan is
  returned as inactive.\<close>

theorem activate_plan_deactivates_all:
  "filter (\<lambda>(k, e). snd k = profile_id \<and> pl_active e) (fst (activate_plan plan_id profile_id c)) = []
   \<and> load_active profile_id (fst (activate_plan plan_id profile_id c))
       = list_plans (Some profile_id) True (fst (activate_plan plan_id profile_id c))
   \<and> snd (activate_plan plan_id profile_id c)
       = map_option (\<lambda>e. e\<lparr>pl_active := False\<rparr>) (get_item c plan_id profile_id)"
proof -
  let ?c = "fst (activate_plan plan_id profile_id c)"
  have "filter (\<lambda>(k, e). snd k = profile_id \<and> pl_enabled e \<and> pl_active e) ?c
      = filter (\<lambda>(k, e). pl_enabled e) (filter (\<lambda>(k, e). snd k = profile_id \<and> pl_active e) ?c)"
    by (auto simp: filter_filter intro!: filter_cong)
  then have "load_active profile_id ?c = list_plans (Some profile_id) True ?c"
    by (simp add: load_active_def activate_none_active)
  moreover have "snd (activate_plan plan_id profile_id c)
      = map_option (\<lambda>e. e\<lparr>pl_active := False\<rparr>) (get_item c plan_id profile_id)"
    by (induction c) (auto simp: activate_plan_def str_eq_tuple_def Let_def get_item_def)
  ultimately show ?thesis by (simp add: activate_none_active)
qed

lemma get_item_upsert:
  "get_item (upsert_item ops m e c) i p = (if (i, p) = item_key ops e
     then Some (case (map_of c (item_key ops e), m) of (Some ex, Some f) \<Rightarrow> f e ex | _ \<Rightarrow> e)
     else get_item c i p)"
  by (simp add: get_item_def upsert_item_def Let_def)

lemma match_quality_mean:
  "0 \<le> plq_match_count q \<Longrightarrow>
     plq_avg_jobs_per_event (match_quality j q) * of_int (plq_match_count (match_quality j q))
       = plq_avg_jobs_per_event q * of_int (plq_match_count q) + of_int j
     \<and> plq_match_count (match_quality j q) = plq_match_count q + 1"
  by (auto simp: match_quality_def Let_def max_def)

text \<open>The average of a plan is the exact mean of the jobs of its matches.\<close>

lemma match_quality_fold:
  "0 \<le> plq_match_count q \<Longrightarrow>
     plq_avg_jobs_per_event (fold match_quality js q) * of_int (plq_match_count (fold match_quality js q))
       = plq_avg_jobs_per_event q * of_int (plq_match_count q) + of_int (sum_list js)
     \<and> plq_match_count (fold match_quality js q) = plq_match_count q + int (length js)"
proof (induction js arbitrary: q)
  case (Cons j js)
  have "0 \<le> plq_match_count (match_quality j q)" using match_quality_mean[OF Cons.prems, of j] Cons.prems by simp
  note I = Cons.IH[OF this] and M = match_quality_mean[OF Cons.prems, of j]
  have "plq_avg_jobs_per_event (fold match_quality (j # js) q) * of_int (plq_match_count (fold match_quality (j # js) q))
      = plq_avg_jobs_per_event q * of_int (plq_match_count q) + of_int j + of_int (sum_list js)"
    using I[THEN conjunct1] unfolding M[THEN conjunct1] by simp
  then show ?case using I[THEN conjunct2] M[THEN conjunct2] by (simp add: add_ac)
qed simp

lemma rank_personas_subset: "set (rank_personas_by_quality cat trust_floor ps) \<subseteq> set ps"
  by (auto simp: rank_personas_by_quality_def)

lemma rank_personas_iff:
  "set (rank_personas_by_quality cat trust_floor ps) = {p \<in> set ps. trust_floor \<le> persona_trust_score p cat}"
  by (force simp: rank_personas_by_quality_def)

end
