(* ===== verification/Worker.thy ===== *)
theory Worker
  imports Agent_Bus Memory Job_Limits Job_Hitl Catalog
begin

text \<open>One worker run: cys_core/application/use_cases/run_worker_job.py over the in-memory
  connectors (cys_core/infrastructure/sandbox.py, job store, investigation and memory stores,
  agent bus, catalog), and _parse_json_text of cys_core/runtime/agent.py.

  The state every step threads is the record worker_world; a step returns the new world and
  either an exception or a value. The agent runtime is a parameter that may change the whole
  world (its tools pause jobs, enqueue work, write memory); so are the transport's handlers,
  tool resolution, the output schemas, json and the clock, which is read once per run.\<close>

subsection \<open>World and environment\<close>

datatype job_exc = JobBudgetExceeded string | Exc exc

record sandbox_credentials =
  sc_sandbox_id :: string
  sc_endpoint :: string
  sc_token :: string

datatype metric =
    Sanitizer_block string string
  | Memory_write string string
  | Job_usage string int rat

record worker_world =
  ww_queue :: "worker_job list"
  ww_jobs :: job_store
  ww_inv :: inv_store
  ww_memory :: memory_store
  ww_bus :: bus
  ww_published :: "(string \<times> payload) list"
  ww_sandboxes :: "sandbox_credentials dict"
  ww_budgets :: tracker
  ww_chains :: "int dict"
  ww_catalog :: mem_catalog
  ww_metrics :: "metric list"

record agent_definition =
  ad_name :: string
  ad_trust_level :: string
  ad_schema_name :: "string option"
  ad_tools :: "string list"
  ad_skills :: "string list"
  ad_bus_recipients :: "string list"

text \<open>What arun is called with.\<close>

record arun_call =
  ac_persona :: string
  ac_input :: string
  ac_session_id :: string
  ac_tools :: "string list"
  ac_sandbox_id :: string

text \<open>A schema reads a dict or gives the text of its validation error.\<close>

record worker_env =
  we_detector :: detector
  we_bus :: bus_env
  we_memory :: mem_env
  we_memory_key :: "string option"
  we_registry :: "agent_definition dict"
  we_schemas :: "(payload \<Rightarrow> string + payload) dict"
  we_stage :: string
  we_self_refine_max :: int
  we_tools :: "worker_job \<Rightarrow> string list \<Rightarrow> string \<Rightarrow> job_exc + string list"
  we_arun :: "arun_call \<Rightarrow> worker_world \<Rightarrow> worker_world \<times> (job_exc + pyval)"
  we_publish :: "string \<Rightarrow> payload \<Rightarrow> job_exc option"
  we_dumps :: "pyval \<Rightarrow> string"
  we_loads :: "string \<Rightarrow> pyval option"
  we_str :: "pyval \<Rightarrow> string"
  we_float :: "string \<Rightarrow> rat option"

text \<open>The clock and the random ids of one run.\<close>

record run_tick =
  rt_now :: time
  rt_hex :: string
  rt_entry_id :: string

type_synonym 'a step = "worker_world \<Rightarrow> worker_world \<times> (job_exc + 'a)"

definition wret :: "'a \<Rightarrow> 'a step" where
  "wret a w = (w, Inr a)"

definition wfail :: "job_exc \<Rightarrow> 'a step" where
  "wfail e w = (w, Inl e)"

definition wbind :: "'a step \<Rightarrow> ('a \<Rightarrow> 'b step) \<Rightarrow> 'b step" where
  "wbind m f w = (case m w of (w', Inl e) \<Rightarrow> (w', Inl e) | (w', Inr a) \<Rightarrow> f a w')"

definition wread :: "(worker_world \<Rightarrow> 'a) \<Rightarrow> 'a step" where
  "wread f w = (w, Inr (f w))"

definition wmodify :: "(worker_world \<Rightarrow> worker_world) \<Rightarrow> unit step" where
  "wmodify f w = (f w, Inr ())"

definition wlift :: "job_exc + 'a \<Rightarrow> 'a step" where
  "wlift r w = (w, r)"

definition exc_text :: "job_exc \<Rightarrow> string" where
  "exc_text e = (case e of JobBudgetExceeded s \<Rightarrow> s | Exc (SecurityViolation s) \<Rightarrow> s | Exc (PyExc s) \<Rightarrow> s)"

subsection \<open>Sandbox\<close>

definition sandbox_create :: "string \<Rightarrow> string \<Rightarrow> string \<Rightarrow> sandbox_credentials step" where
  "sandbox_create hex run_id persona w = (
     let creds = \<lparr>sc_sandbox_id = ''local-'' @ run_id @ ''-'' @ hex,
           sc_endpoint = ''sandbox://local/'' @ persona @ ''/'' @ run_id,
           sc_token = ''tok-default-'' @ run_id\<rparr>
     in (w\<lparr>ww_sandboxes := dput run_id creds (ww_sandboxes w)\<rparr>, Inr creds))"

definition sandbox_destroy :: "string \<Rightarrow> worker_world \<Rightarrow> worker_world" where
  "sandbox_destroy run_id w = w\<lparr>ww_sandboxes := AList.delete run_id (ww_sandboxes w)\<rparr>"

subsection \<open>Input of the agent\<close>

definition memory_investigation_id :: "(pyval \<Rightarrow> string) \<Rightarrow> worker_job \<Rightarrow> string" where
  "memory_investigation_id str job = (
     let parent_key = get_or (job_payload job) ''parent_correlation_key'' PNone in
     if truthy parent_key then str parent_key else str_or (job_correlation_id job) (job_event_id job))"

fun inv_status_value :: "inv_status \<Rightarrow> string" where
  "inv_status_value Inv_open = ''open''"
| "inv_status_value Inv_in_progress = ''in_progress''"
| "inv_status_value Inv_closed = ''closed''"

fun planner_status_value :: "planner_status \<Rightarrow> string" where
  "planner_status_value Pl_planning = ''planning''"
| "planner_status_value Pl_ok = ''ok''"
| "planner_status_value Pl_fallback = ''fallback''"
| "planner_status_value Pl_error = ''error''"

text \<open>state.model_dump(mode=''json'').\<close>

definition state_dump :: "inv_state \<Rightarrow> pyval" where
  "state_dump st = PDict [(''investigation_id'', PStr (is_investigation_id st)),
     (''tenant_id'', PStr (is_tenant_id st)), (''goal'', PStr (is_goal st)),
     (''status'', PStr (inv_status_value (is_status st))),
     (''completed_personas'', PList (map PStr (is_completed_personas st))),
     (''findings_summary'', PList (map PDict (is_findings_summary st))),
     (''planner_plan'', case is_planner_plan st of None \<Rightarrow> PNone | Some ps \<Rightarrow> PList (map PStr ps)),
     (''planner_status'', case is_planner_status st of None \<Rightarrow> PNone | Some s \<Rightarrow> PStr (planner_status_value s)),
     (''planner_rationale'', PStr (is_planner_rationale st)),
     (''planner_error'', PStr (is_planner_error st))]"

definition entry_dump :: "memory_entry \<Rightarrow> pyval" where
  "entry_dump e = PDict [(''agent'', PStr (me_source_agent e)), (''type'', PStr (memory_type_value (me_type e))),
     (''content'', PStr (me_content e)), (''job_id'', PStr (me_source_job_id e))]"

definition investigation_context :: "worker_env \<Rightarrow> time \<Rightarrow> worker_job \<Rightarrow> worker_world \<Rightarrow> payload" where
  "investigation_context E now job w = (
     let iid = memory_investigation_id (we_str E) job;
         entries = query_investigation (we_memory E) (we_memory_key E) now (job_tenant_id job) iid 10
           (Some (job_tenant_id job)) (ww_memory w) in
     [(''investigation_id'', PStr iid), (''tenant_id'', PStr (job_tenant_id job))]
     @ (case inv_get (ww_inv w) (job_tenant_id job, iid) of Some st \<Rightarrow> [(''state'', state_dump st)] | None \<Rightarrow> [])
     @ (if entries \<noteq> [] then [(''prior_findings'', PList (map entry_dump entries))] else []))"

definition job_input :: "worker_env \<Rightarrow> time \<Rightarrow> worker_job \<Rightarrow> worker_world \<Rightarrow> string" where
  "job_input E now job w = we_dumps E (PDict [(''event_id'', PStr (job_event_id job)),
     (''playbook_id'', PStr (job_playbook_id job)), (''payload'', PDict (job_payload job)),
     (''sandbox_id'', PStr (job_sandbox_id job)), (''feedback'', PStr (job_feedback job)),
     (''investigation_context'', PDict (investigation_context E now job w))])"

subsection \<open>Output of the agent\<close>

definition fence :: string where
  "fence = replicate 3 (char_of (96::nat))"

definition parse_json_text :: "(string \<Rightarrow> pyval option) \<Rightarrow> string \<Rightarrow> payload option" where
  "parse_json_text loads txt = (case loads txt of
     Some (PDict d) \<Rightarrow> Some d
   | _ \<Rightarrow> (let stripped = strip txt in
       if \<not> startswith stripped fence then None
       else let l0 = splitlines stripped;
                l1 = (if l0 \<noteq> [] \<and> startswith (hd l0) fence then tl l0 else l0);
                l2 = (if l1 \<noteq> [] \<and> strip (last l1) = fence then butlast l1 else l1)
            in (case loads (strip (py_join newline l2)) of Some (PDict d) \<Rightarrow> Some d | _ \<Rightarrow> None)))"

definition has_error :: "payload \<Rightarrow> bool" where
  "has_error d = (dget d ''error'' \<noteq> None)"

definition unwrap_raw :: "worker_env \<Rightarrow> pyval \<Rightarrow> pyval" where
  "unwrap_raw E result = (case result of
     PDict d \<Rightarrow> (case dget d ''raw_response'' of
         Some raw \<Rightarrow> if has_error d then result
           else (case parse_json_text (we_loads E) (we_str E raw) of
               Some (x # xs) \<Rightarrow> PDict (x # xs) | _ \<Rightarrow> result)
       | None \<Rightarrow> result)
   | _ \<Rightarrow> result)"

text \<open>The rounds of _maybe_self_refine; the list is what is left of range(max_rounds).\<close>

definition critique_prompt :: "string \<Rightarrow> string \<Rightarrow> string \<Rightarrow> string" where
  "critique_prompt persona sanitized draft = ''Critique this worker output for persona '' @ persona @ ''. Input:''
     @ newline @ py_take 2000 sanitized @ newline @ ''Output:'' @ newline @ py_take 4000 draft @ newline
     @ ''Reply JSON: {'' @ quote @ ''revise'' @ quote @ '':true|false,'' @ quote @ ''notes'' @ quote
     @ '':'' @ quote @ ''...'' @ quote @ ''}''"

definition revise_prompt :: "string \<Rightarrow> string \<Rightarrow> string" where
  "revise_prompt notes draft = ''Revise your prior output addressing: '' @ notes @ newline @ ''Prior:''
     @ newline @ py_take 4000 draft"

primrec refine_rounds ::
  "worker_env \<Rightarrow> worker_job \<Rightarrow> string \<Rightarrow> int list \<Rightarrow> payload \<Rightarrow> string \<Rightarrow> int \<Rightarrow> (payload \<times> int) step" where
  "refine_rounds E job sanitized [] result draft done = wret (result, done)"
| "refine_rounds E job sanitized (i # is) result draft done =
     wbind (we_arun E \<lparr>ac_persona = job_persona job, ac_input = critique_prompt (job_persona job) sanitized draft,
         ac_session_id = ''refine:'' @ job_id job @ '':'' @ int_str i, ac_tools = [], ac_sandbox_id = []\<rparr>) (\<lambda>revised.
     case revised of
       PDict d \<Rightarrow> (let notes = we_str E (get_or d ''notes'' (get_or d ''raw_response'' (PStr []))) in
         if notes = [] then wret (result, i + 1)
         else wbind (we_arun E \<lparr>ac_persona = job_persona job, ac_input = revise_prompt notes draft,
             ac_session_id = ''refine:'' @ job_id job @ '':'' @ int_str i @ '':write'', ac_tools = [], ac_sandbox_id = []\<rparr>)
           (\<lambda>updated. case updated of
              PDict u \<Rightarrow> if has_error u then wret (result, i + 1)
                else refine_rounds E job sanitized is u (we_dumps E (PDict u)) (i + 1)
            | _ \<Rightarrow> wret (result, i + 1)))
     | _ \<Rightarrow> wret (result, i + 1))"

definition maybe_self_refine :: "worker_env \<Rightarrow> worker_job \<Rightarrow> string \<Rightarrow> pyval \<Rightarrow> pyval step" where
  "maybe_self_refine E job sanitized result = (case result of
     PDict d \<Rightarrow> if we_self_refine_max E \<le> 0 \<or> has_error d then wret result
       else wbind (refine_rounds E job sanitized (map int [0..<nat (we_self_refine_max E)]) d
              (we_dumps E (PDict d)) 0)
            (\<lambda>(d', n). wret (PDict (dput ''self_refine_rounds'' (PInt n) d')))
   | _ \<Rightarrow> wret result)"

definition schema_get :: "worker_env \<Rightarrow> string \<Rightarrow> job_exc + (payload \<Rightarrow> string + payload) option" where
  "schema_get E name = (if name = [] then Inr None
     else case dget (we_schemas E) name of Some s \<Rightarrow> Inr (Some s) | None \<Rightarrow> Inl (Exc (PyExc ''KeyError'')))"

definition add_sgr_metadata :: "payload \<Rightarrow> payload" where
  "add_sgr_metadata d = (case dget d ''reasoning_steps'' of
     Some (PList steps) \<Rightarrow> dput ''sgr_metadata'' (PDict [(''reasoning_steps'', PList steps),
         (''plan_status'', get_or d ''plan_status'' (PStr [])),
         (''enough_data'', get_or d ''enough_data'' (PBool False))]) d
   | _ \<Rightarrow> d)"

definition check_schema :: "worker_env \<Rightarrow> (payload \<Rightarrow> string + payload) option \<Rightarrow> pyval \<Rightarrow> job_exc + pyval" where
  "check_schema E schema result = (case result of
     PDict d \<Rightarrow> if has_error d then Inr result
       else (let d1 = add_sgr_metadata d in case schema of
           None \<Rightarrow> Inr (PDict d1)
         | Some s \<Rightarrow> (case s d1 of
             Inr d2 \<Rightarrow> Inr (PDict d2)
           | Inl msg \<Rightarrow> if we_stage E = ''dev'' then Inr (PDict d1)
               else Inl (Exc (SecurityViolation (''Schema validation failed: '' @ msg)))))
   | _ \<Rightarrow> Inr result)"

subsection \<open>Publishing and remembering\<close>

definition with_bus :: "bus \<times> (exc + 'a) \<Rightarrow> worker_world \<Rightarrow> worker_world \<times> (job_exc + 'a)" where
  "with_bus br w = (w\<lparr>ww_bus := fst br\<rparr>, case snd br of Inl e \<Rightarrow> Inl (Exc e) | Inr a \<Rightarrow> Inr a)"

definition bus_recipients :: "agent_definition \<Rightarrow> string list" where
  "bus_recipients defn = fromkeys (ad_bus_recipients defn @ [''critic''])"

text \<open>One recipient: sign and send, check what the recipient would receive, publish.\<close>

definition deliver :: "worker_env \<Rightarrow> time \<Rightarrow> string \<Rightarrow> payload \<Rightarrow> string \<Rightarrow> unit step" where
  "deliver E now persona payload recipient =
     wbind (\<lambda>w. with_bus (send_message (we_bus E) now persona recipient ''finding'' payload (ww_bus w)) w) (\<lambda>envelope.
     wbind (\<lambda>w. with_bus (ww_bus w, receive_message (we_bus E) now recipient envelope (ww_bus w)) w) (\<lambda>_.
     wbind (wlift (case we_publish E recipient envelope of None \<Rightarrow> Inr () | Some e \<Rightarrow> Inl e)) (\<lambda>_.
     wmodify (\<lambda>w. w\<lparr>ww_published := ww_published w @ [(recipient, envelope)]\<rparr>))))"

primrec deliver_all :: "worker_env \<Rightarrow> time \<Rightarrow> string \<Rightarrow> payload \<Rightarrow> string list \<Rightarrow> unit step" where
  "deliver_all E now persona payload [] = wret ()"
| "deliver_all E now persona payload (r # rs) =
     wbind (deliver E now persona payload r) (\<lambda>_. deliver_all E now persona payload rs)"

definition remember :: "worker_env \<Rightarrow> run_tick \<Rightarrow> worker_job \<Rightarrow> string \<Rightarrow> pyval \<Rightarrow> worker_world \<Rightarrow> worker_world" where
  "remember E tick job iid result w = (case result of
     PDict d \<Rightarrow>
       (let (mem, entry) = append_pending_finding (we_memory E) (we_memory_key E) (rt_entry_id tick) (rt_now tick)
              (\<lambda>p. we_dumps E (PDict p)) (job_tenant_id job) iid (job_persona job) (job_id job) d (3/10) (ww_memory w);
            w1 = w\<lparr>ww_memory := mem, ww_metrics := ww_metrics w @ (case entry of None \<Rightarrow> []
              | Some e \<Rightarrow> [Memory_write (job_tenant_id job) (memory_type_value (me_type e))])\<rparr>
        in if has_error d then w1
           else w1\<lparr>ww_inv := inv_append_finding (job_tenant_id job) iid
              [(''persona'', PStr (job_persona job)), (''job_id'', PStr (job_id job)), (''finding'', result)] (ww_inv w1)\<rparr>)
   | _ \<Rightarrow> w)"

definition mark_persona_terminal :: "worker_job \<Rightarrow> worker_world \<Rightarrow> worker_world" where
  "mark_persona_terminal job w = w\<lparr>ww_inv := inv_mark_persona_done (job_tenant_id job)
     (str_or (job_correlation_id job) (job_event_id job)) (job_persona job) (ww_inv w)\<rparr>"

definition job_profile_id :: "worker_env \<Rightarrow> worker_job \<Rightarrow> mem_catalog \<Rightarrow> string" where
  "job_profile_id E job c = resolve_profile_id (we_str E) None (Some (job_payload job))
     (map_option ag_profile_id (get_agent c (job_persona job)))"

text \<open>The quality hooks run inside try/except: a cost that is no number skips them.\<close>

definition quality_success :: "worker_env \<Rightarrow> time \<Rightarrow> worker_job \<Rightarrow> worker_world \<Rightarrow> worker_world" where
  "quality_success E now job w = (
     case py_float (we_float E) (get_or (job_payload job) ''estimated_cost_usd'' (PFloat 0)) of
       Inl _ \<Rightarrow> w
     | Inr cost \<Rightarrow> w\<lparr>ww_catalog := record_job_completed now (job_persona job) True cost
          (job_profile_id E job (ww_catalog w)) (ww_catalog w)\<rparr>)"

definition quality_failure :: "worker_env \<Rightarrow> time \<Rightarrow> worker_job \<Rightarrow> worker_world \<Rightarrow> worker_world" where
  "quality_failure E now job w = (let pid = job_profile_id E job (ww_catalog w) in
     w\<lparr>ww_catalog := record_job_completed now (job_persona job) False 0 pid
        (record_bus_failure now (job_persona job) pid (ww_catalog w))\<rparr>)"

subsection \<open>RunWorkerJob.execute\<close>

text \<open>The sandbox and the running record, then everything up to the validated result.\<close>

definition start_run :: "run_tick \<Rightarrow> worker_job \<Rightarrow> string \<Rightarrow> worker_job step" where
  "start_run tick job0 session_id =
     wbind (sandbox_create (rt_hex tick) (job_id job0) (job_persona job0)) (\<lambda>creds.
     (let job = job0\<lparr>job_sandbox_id := sc_sandbox_id creds, job_status := RUNNING\<rparr> in
     wbind (wmodify (\<lambda>w. w\<lparr>ww_jobs := upsert_running (job_id job) session_id (job_persona job)
         (job_correlation_id job) (job_tenant_id job) (job_event_id job) (ww_jobs w)\<rparr>)) (\<lambda>_.
     wret job)))"

definition produce ::
  "worker_env \<Rightarrow> time \<Rightarrow> worker_job \<Rightarrow> string \<Rightarrow> (agent_definition \<times> pyval) step" where
  "produce E now job session_id =
     wbind (wread (job_input E now job)) (\<lambda>raw_input.
     wbind (wlift (case sanitize (we_detector E) Src_external raw_input of
         Inr s \<Rightarrow> Inr s | Inl e \<Rightarrow> Inl (Exc (SecurityViolation e)))) (\<lambda>sanitized.
     wbind (wlift (case dget (we_registry E) (job_persona job) of
         Some d \<Rightarrow> Inr d | None \<Rightarrow> Inl (Exc (PyExc ''KeyError'')))) (\<lambda>defn.
     wbind (wlift (we_tools E job (ad_tools defn) (job_sandbox_id job))) (\<lambda>tools.
     wbind (we_arun E \<lparr>ac_persona = job_persona job, ac_input = sanitized, ac_session_id = session_id,
         ac_tools = tools @ (if ad_skills defn \<noteq> [] then [''load_skill''] else []),
         ac_sandbox_id = job_sandbox_id job\<rparr>) (\<lambda>answer.
     wbind (maybe_self_refine E job sanitized (unwrap_raw E answer)) (\<lambda>refined.
     wbind (wlift (schema_get E (case ad_schema_name defn of Some n \<Rightarrow> n | None \<Rightarrow> []))) (\<lambda>schema.
     wbind (wlift (check_schema E schema refined)) (\<lambda>result.
     wret (defn, result)))))))))"

definition finding_payload :: "worker_job \<Rightarrow> string \<Rightarrow> pyval \<Rightarrow> payload" where
  "finding_payload job iid result = [(''agent'', PStr (job_persona job)), (''event_id'', PStr (job_event_id job)),
     (''correlation_id'', PStr iid), (''tenant_id'', PStr (job_tenant_id job)), (''job_id'', PStr (job_id job)),
     (''data'', result), (''sandbox_id'', PStr (job_sandbox_id job))]"

text \<open>RunResult wants a dict; anything else raises after the job was marked completed.\<close>

definition finish :: "worker_env \<Rightarrow> run_tick \<Rightarrow> worker_job \<Rightarrow> pyval \<Rightarrow> run_result step" where
  "finish E tick job result =
     wbind (wmodify (\<lambda>w. remember E tick job (memory_investigation_id (we_str E) job) result w)) (\<lambda>_.
     wbind (wmodify (mark_persona_terminal job)) (\<lambda>_.
     wbind (wmodify (\<lambda>w. w\<lparr>ww_jobs := mark_completed (job_id job) (ww_jobs w)\<rparr>)) (\<lambda>_.
     wbind (wmodify (quality_success E (rt_now tick) job)) (\<lambda>_.
     wlift (case result of
       PDict d \<Rightarrow> Inr \<lparr>res_job_id = job_id job, res_persona = job_persona job, res_success = True,
          res_finding = d, res_error = [], res_sandbox_id = job_sandbox_id job\<rparr>
     | _ \<Rightarrow> Inl (Exc (PyExc ''ValidationError'')))))))"

definition execute_body :: "worker_env \<Rightarrow> run_tick \<Rightarrow> worker_job \<Rightarrow> string \<Rightarrow> run_result step" where
  "execute_body E tick job0 session_id =
     wbind (start_run tick job0 session_id) (\<lambda>job.
     wbind (produce E (rt_now tick) job session_id) (\<lambda>(defn, result).
     wbind (deliver_all E (rt_now tick) (job_persona job)
         (finding_payload job (memory_investigation_id (we_str E) job) result) (bus_recipients defn)) (\<lambda>_.
     finish E tick job result)))"

definition failed_result :: "worker_job \<Rightarrow> job_exc \<Rightarrow> run_result" where
  "failed_result job e = \<lparr>res_job_id = job_id job, res_persona = job_persona job, res_success = False,
     res_finding = [], res_error = exc_text e, res_sandbox_id = []\<rparr>"

definition settle_failed :: "worker_job \<Rightarrow> worker_world \<Rightarrow> worker_world" where
  "settle_failed job w = mark_persona_terminal job (w\<lparr>ww_jobs := mark_failed (job_id job) (ww_jobs w)\<rparr>)"

text \<open>The except clauses; the in-memory and Redis queues have no dead-letter queue.\<close>

definition handle_failure :: "worker_env \<Rightarrow> time \<Rightarrow> worker_job \<Rightarrow> job_exc \<Rightarrow> worker_world \<Rightarrow> worker_world" where
  "handle_failure E now job e w = (case e of
     JobBudgetExceeded s \<Rightarrow> settle_failed job w
   | Exc (SecurityViolation s) \<Rightarrow> settle_failed job
       (w\<lparr>ww_metrics := ww_metrics w @ [Sanitizer_block ''worker'' ''hard'']\<rparr>)
   | Exc (PyExc s) \<Rightarrow> settle_failed job (quality_failure E now job
       (w\<lparr>ww_bus := record_agent_failure now (job_persona job) (ww_bus w)\<rparr>)))"

definition execute :: "worker_env \<Rightarrow> run_tick \<Rightarrow> worker_job \<Rightarrow> string \<Rightarrow> worker_world \<Rightarrow> worker_world \<times> run_result" where
  "execute E tick job session_id w = (
     let (w1, r) = (case execute_body E tick job session_id w of
           (w0, Inr res) \<Rightarrow> (w0, res)
         | (w0, Inl e) \<Rightarrow> (handle_failure E (rt_now tick) job e w0, failed_result job e))
     in (sandbox_destroy (job_id job) w1, r))"

subsection \<open>Every run settles\<close>

lemma wbind_Inr:
  assumes "wbind m f w = (w2, Inr b)"
  obtains w1 a where "m w = (w1, Inr a)" and "f a w1 = (w2, Inr b)"
  using assms by (auto simp: wbind_def split: prod.splits sum.splits)

lemma wbind_simps [simp]:
  "wbind (wret a) f = f a"
  "wbind (wmodify g) h w = h () (g w)"
  "wbind (wread r) f w = f (r w) w"
  by (auto simp: wbind_def wret_def wmodify_def wread_def fun_eq_iff)

lemma wbind_lift_Inr [simp]: "wbind (wlift (Inr a)) f = f a"
  by (auto simp: wbind_def wlift_def fun_eq_iff)

lemma wbind_lift_Inl [simp]: "wbind (wlift (Inl e)) f w = (w, Inl e)"
  by (auto simp: wbind_def wlift_def)

text \<open>A step that keeps a property of the world, whether it returns or raises.\<close>

definition keeps :: "(worker_world \<Rightarrow> bool) \<Rightarrow> 'a step \<Rightarrow> bool" where
  "keeps P m = (\<forall>w. P w \<longrightarrow> P (fst (m w)))"

named_theorems keeps_rules \<open>steps that keep a property\<close>

lemma keepsI: "(\<And>w. P w \<Longrightarrow> P (fst (m w))) \<Longrightarrow> keeps P m"
  by (simp add: keeps_def)

lemma keepsD: "keeps P m \<Longrightarrow> P w \<Longrightarrow> P (fst (m w))"
  by (simp add: keeps_def)

lemma keeps_bind [keeps_rules]: "keeps P m \<Longrightarrow> (\<And>a. keeps P (f a)) \<Longrightarrow> keeps P (wbind m f)"
  unfolding keeps_def wbind_def by (auto split: prod.split sum.split)

lemma keeps_pure [keeps_rules]: "keeps P (wret a)" "keeps P (wlift r)" "keeps P (wread g)"
  by (simp_all add: keeps_def wret_def wlift_def wread_def)

lemma keeps_modify [keeps_rules]: "(\<And>w. P w \<Longrightarrow> P (g w)) \<Longrightarrow> keeps P (wmodify g)"
  by (simp add: keeps_def wmodify_def)

lemma keeps_rounds:
  "(\<And>c. keeps P (we_arun E c)) \<Longrightarrow> keeps P (refine_rounds E job sanitized idx result draft n)"
  by (induction idx arbitrary: result draft n)
    (auto intro!: keeps_rules simp: Let_def split: pyval.split)

lemma keeps_refine: "(\<And>c. keeps P (we_arun E c)) \<Longrightarrow> keeps P (maybe_self_refine E job sanitized result)"
  unfolding maybe_self_refine_def
  by (auto intro!: keeps_rules keeps_rounds split: pyval.split)

lemma keeps_produce: "(\<And>c. keeps P (we_arun E c)) \<Longrightarrow> keeps P (produce E now job sid)"
  unfolding produce_def by (intro keeps_rules keeps_refine) auto

lemma keeps_deliver:
  assumes "\<And>w b. P w \<Longrightarrow> P (w\<lparr>ww_published := b\<rparr>)"
    and "\<And>w p r q. P w \<Longrightarrow> P (w\<lparr>ww_bus := fst (send_message (we_bus E) now p r ''finding'' q (ww_bus w))\<rparr>)"
  shows "keeps P (deliver E now persona payload r)"
  using assms by (auto intro!: keeps_rules simp: deliver_def with_bus_def keeps_def[of P "\<lambda>w. (_ w, _ w)"])

lemma keeps_deliver_all:
  assumes "\<And>w b. P w \<Longrightarrow> P (w\<lparr>ww_published := b\<rparr>)"
    and "\<And>w p r q. P w \<Longrightarrow> P (w\<lparr>ww_bus := fst (send_message (we_bus E) now p r ''finding'' q (ww_bus w))\<rparr>)"
  shows "keeps P (deliver_all E now persona payload rs)"
  by (induction rs) (auto intro!: keeps_rules keeps_deliver assms)

lemma start_run_eq: "start_run tick job0 sid w = (let
     sid' = ''local-'' @ job_id job0 @ ''-'' @ rt_hex tick;
     job = job0\<lparr>job_sandbox_id := sid', job_status := RUNNING\<rparr> in
   (w\<lparr>ww_sandboxes := dput (job_id job0) \<lparr>sc_sandbox_id = sid',
         sc_endpoint = ''sandbox://local/'' @ job_persona job0 @ ''/'' @ job_id job0,
         sc_token = ''tok-default-'' @ job_id job0\<rparr> (ww_sandboxes w),
      ww_jobs := upsert_running (job_id job0) sid (job_persona job0) (job_correlation_id job0)
         (job_tenant_id job0) (job_event_id job0) (ww_jobs w)\<rparr>, Inr job))"
  by (simp add: start_run_def wbind_def sandbox_create_def Let_def wmodify_def wret_def)

lemma execute_body_eq:
  "execute_body E tick job0 sid w = (case start_run tick job0 sid w of (w1, r1) \<Rightarrow>
     wbind (produce E (rt_now tick) (projr r1) sid) (\<lambda>(defn, result).
     wbind (deliver_all E (rt_now tick) (job_persona job0)
         (finding_payload (projr r1) (memory_investigation_id (we_str E) job0) result) (bus_recipients defn)) (\<lambda>_.
     finish E tick (projr r1) result)) w1)"
  by (simp add: execute_body_def wbind_def[of "start_run tick job0 sid"] start_run_eq Let_def memory_investigation_id_def)

text \<open>The persona of the job is done in its investigation.\<close>

definition persona_done :: "worker_job \<Rightarrow> worker_world \<Rightarrow> bool" where
  "persona_done job w = (case inv_get (ww_inv w) (job_tenant_id job, str_or (job_correlation_id job) (job_event_id job)) of
     Some st \<Rightarrow> job_persona job \<in> set (is_completed_personas st) | None \<Rightarrow> False)"

definition job_status_of :: "string \<Rightarrow> worker_world \<Rightarrow> job_status option" where
  "job_status_of jid w = map_option jr_status (dget (ww_jobs w) jid)"

lemma inv_get_put: "inv_get (inv_put k st s) k' = (if k' = k then Some st else inv_get s k')"
  by (simp add: inv_get_def inv_put_def)

lemma persona_done_mark: "persona_done job (mark_persona_terminal job w)"
  by (simp add: persona_done_def mark_persona_terminal_def inv_mark_persona_done_def Let_def inv_get_put)

lemma mark_persona_simps [simp]:
  "ww_jobs (mark_persona_terminal job w) = ww_jobs w"
  "ww_queue (mark_persona_terminal job w) = ww_queue w"
  "ww_bus (mark_persona_terminal job w) = ww_bus w"
  by (simp_all add: mark_persona_terminal_def)

lemma quality_success_simps [simp]:
  "ww_jobs (quality_success E now job w) = ww_jobs w"
  "ww_inv (quality_success E now job w) = ww_inv w"
  "ww_queue (quality_success E now job w) = ww_queue w"
  by (simp_all add: quality_success_def split: sum.split)

lemma quality_failure_simps [simp]:
  "ww_jobs (quality_failure E now job w) = ww_jobs w"
  "ww_inv (quality_failure E now job w) = ww_inv w"
  "ww_queue (quality_failure E now job w) = ww_queue w"
  by (simp_all add: quality_failure_def Let_def)

lemma remember_simps [simp]:
  "ww_jobs (remember E tick job iid result w) = ww_jobs w"
  "ww_queue (remember E tick job iid result w) = ww_queue w"
  by (simp_all add: remember_def split_beta Let_def split: pyval.split)

lemma sandbox_destroy_simps [simp]:
  "ww_jobs (sandbox_destroy i w) = ww_jobs w"
  "ww_inv (sandbox_destroy i w) = ww_inv w"
  "ww_queue (sandbox_destroy i w) = ww_queue w"
  "dget (ww_sandboxes (sandbox_destroy i w)) i = None"
  by (simp_all add: sandbox_destroy_def)

lemma status_mark_completed:
  "map_option jr_status (dget (mark_completed jid s) j)
     = (if j = jid then map_option (\<lambda>_. COMPLETED) (dget s j) else map_option jr_status (dget s j))"
  by (auto simp: mark_completed_def split: option.split)

lemma status_mark_failed:
  "map_option jr_status (dget (mark_failed jid s) j)
     = (if j = jid then map_option (\<lambda>_. FAILED) (dget s j) else map_option jr_status (dget s j))"
  by (auto simp: mark_failed_def split: option.split)

text \<open>What finish leaves behind, whether the result is a dict or not.\<close>

lemma finish_eq: "finish E tick job result w = (
   let w1 = quality_success E (rt_now tick) job ((mark_persona_terminal job
         (remember E tick job (memory_investigation_id (we_str E) job) result w))\<lparr>
         ww_jobs := mark_completed (job_id job) (ww_jobs w)\<rparr>) in
   (w1, case result of
       PDict d \<Rightarrow> Inr \<lparr>res_job_id = job_id job, res_persona = job_persona job, res_success = True,
          res_finding = d, res_error = [], res_sandbox_id = job_sandbox_id job\<rparr>
     | _ \<Rightarrow> Inl (Exc (PyExc ''ValidationError''))))"
  by (simp add: finish_def wlift_def Let_def)

lemma persona_done_cong: "ww_inv w = ww_inv w' \<Longrightarrow> persona_done job w = persona_done job w'"
  by (simp add: persona_done_def)

lemma finish_done: "persona_done job (fst (finish E tick job result w))"
proof -
  define w1 where "w1 = mark_persona_terminal job (remember E tick job (memory_investigation_id (we_str E) job) result w)"
  have "persona_done job w1" unfolding w1_def by (rule persona_done_mark)
  moreover have "ww_inv (fst (finish E tick job result w)) = ww_inv w1" by (simp add: finish_eq Let_def w1_def)
  ultimately show ?thesis by (simp add: persona_done_def)
qed

lemma finish_status:
  "job_status_of (job_id job) (fst (finish E tick job result w)) = map_option (\<lambda>_. COMPLETED) (dget (ww_jobs w) (job_id job))"
  by (simp add: finish_eq Let_def job_status_of_def status_mark_completed)

lemma failure_done: "persona_done job (handle_failure E now job e w)"
  by (cases e; cases "case e of Exc x \<Rightarrow> x")
    (auto simp: handle_failure_def settle_failed_def persona_done_mark split: exc.split)

lemma failure_status:
  "job_status_of (job_id job) (handle_failure E now job e w) = map_option (\<lambda>_. FAILED) (dget (ww_jobs w) (job_id job))"
  by (cases e; cases "case e of Exc x \<Rightarrow> x")
    (auto simp: handle_failure_def settle_failed_def job_status_of_def status_mark_failed split: exc.split)

definition same_job :: "worker_job \<Rightarrow> worker_job \<Rightarrow> bool" where
  "same_job a b = (job_id a = job_id b \<and> job_persona a = job_persona b \<and> job_tenant_id a = job_tenant_id b
     \<and> job_correlation_id a = job_correlation_id b \<and> job_event_id a = job_event_id b)"

lemma same_job_done: "same_job a b \<Longrightarrow> persona_done a w = persona_done b w"
  by (simp add: same_job_def persona_done_def split: option.split)

lemma start_run_job:
  "\<exists>job. snd (start_run tick job0 sid w) = Inr job \<and> same_job job job0 \<and> job_payload job = job_payload job0"
  by (simp add: start_run_eq Let_def same_job_def)

lemma execute_body_Inr:
  assumes "execute_body E tick job0 sid w = (w', Inr res)"
  obtains job result w1 where "finish E tick job result w1 = (w', Inr res)" and "same_job job job0"
proof -
  obtain w0 job where st: "start_run tick job0 sid w = (w0, Inr job)" and sj: "same_job job job0"
    using start_run_job[of tick job0 sid w] by (cases "start_run tick job0 sid w") auto
  from assms[unfolded execute_body_eq st] obtain defn result w1
    where "finish E tick job result w1 = (w', Inr res)"
    by (auto elim!: wbind_Inr)
  then show thesis using sj by (rule that)
qed

lemma finish_result:
  assumes "finish E tick job result w = (w', Inr res)"
  shows "res_success res" and "res_job_id res = job_id job" and "res_persona res = job_persona job"
  using assms by (auto simp: finish_eq Let_def split: pyval.splits)

lemma execute_cases:
  obtains (completed) job1 result w1 res where "same_job job1 job"
      and "execute E tick job sid w = (sandbox_destroy (job_id job) (fst (finish E tick job1 result w1)), res)"
      and "execute_body E tick job sid w = (fst (finish E tick job1 result w1), Inr res)"
      and "finish E tick job1 result w1 = (fst (finish E tick job1 result w1), Inr res)"
    | (failed) w0 e where "execute_body E tick job sid w = (w0, Inl e)"
      and "execute E tick job sid w = (sandbox_destroy (job_id job) (handle_failure E (rt_now tick) job e w0), failed_result job e)"
proof (cases "execute_body E tick job sid w")
  case (Pair w0 r)
  show thesis
  proof (cases r)
    case (Inl e)
    then show thesis using Pair failed by (simp add: execute_def)
  next
    case (Inr res)
    with Pair have b: "execute_body E tick job sid w = (w0, Inr res)" by simp
    from execute_body_Inr[OF b] obtain job1 result w1
      where f: "finish E tick job1 result w1 = (w0, Inr res)" and sj: "same_job job1 job" .
    show thesis by (rule completed[OF sj, of result w1 res]) (simp_all add: b f execute_def)
  qed
qed

text \<open>A property the runtime, the bus and the bookkeeping keep holds to the end of the body.\<close>

lemma execute_body_keeps:
  assumes "P (fst (start_run tick job0 sid w))"
    and "\<And>c. keeps P (we_arun E c)"
    and "\<And>w b. P w \<Longrightarrow> P (w\<lparr>ww_published := b\<rparr>)"
    and "\<And>w p r q. P w \<Longrightarrow> P (w\<lparr>ww_bus := fst (send_message (we_bus E) (rt_now tick) p r ''finding'' q (ww_bus w))\<rparr>)"
    and "\<And>job result. same_job job job0 \<Longrightarrow> keeps P (finish E tick job result)"
  shows "P (fst (execute_body E tick job0 sid w))"
proof -
  obtain w0 job where st: "start_run tick job0 sid w = (w0, Inr job)" and sj: "same_job job job0"
    using start_run_job[of tick job0 sid w] by (cases "start_run tick job0 sid w") auto
  have k: "keeps P (wbind (produce E (rt_now tick) job sid) (\<lambda>(defn, result).
     wbind (deliver_all E (rt_now tick) (job_persona job0)
         (finding_payload job (memory_investigation_id (we_str E) job0) result) (bus_recipients defn)) (\<lambda>_.
     finish E tick job result)))"
    using assms(3-4) by (auto intro!: keeps_rules keeps_produce keeps_deliver_all assms(2) assms(5)[OF sj])
  show ?thesis unfolding execute_body_eq st using keepsD[OF k, of w0] assms(1) by (simp add: st)
qed

lemma has_record_finish: "keeps (\<lambda>w. dget (ww_jobs w) jid \<noteq> None) (finish E tick job result)"
  by (rule keepsI) (auto simp: finish_eq Let_def mark_completed_def split: option.split)

text \<open>The runtime never removes a job record: the store has no operation that does.\<close>

definition keeps_records :: "worker_env \<Rightarrow> bool" where
  "keeps_records E = (\<forall>c w jid. dget (ww_jobs w) jid \<noteq> None \<longrightarrow> dget (ww_jobs (fst (we_arun E c w))) jid \<noteq> None)"

lemma body_has_record:
  assumes "keeps_records E"
  shows "dget (ww_jobs (fst (execute_body E tick job sid w))) (job_id job) \<noteq> None"
proof (rule execute_body_keeps)
  show "dget (ww_jobs (fst (start_run tick job sid w))) (job_id job) \<noteq> None"
    by (simp add: start_run_eq Let_def upsert_running_def)
next
  show "keeps (\<lambda>w. dget (ww_jobs w) (job_id job) \<noteq> None) (we_arun E c)" for c
    using assms unfolding keeps_records_def by (intro keepsI) blast
qed (rule has_record_finish | simp)+

lemma execute_settled:
  assumes "execute E tick job sid w = (w', r)"
  shows "dget (ww_sandboxes w') (job_id job) = None \<and> persona_done job w'
    \<and> res_job_id r = job_id job \<and> res_persona r = job_persona job
    \<and> (\<forall>st. job_status_of (job_id job) w' = Some st \<longrightarrow> st = (if res_success r then COMPLETED else FAILED))"
proof (cases rule: execute_cases[of job E tick sid w])
  case (completed job1 result w1 res)
  then have w': "w' = sandbox_destroy (job_id job) (fst (finish E tick job1 result w1))" and r: "r = res"
    using assms by auto
  have "persona_done job (fst (finish E tick job1 result w1))"
    using finish_done same_job_done[OF completed(1)] by blast
  moreover have "job_id job1 = job_id job" "job_persona job1 = job_persona job" using completed(1) by (simp_all add: same_job_def)
  ultimately show ?thesis using finish_result[OF completed(4)] finish_status[of job1 E tick result w1]
    by (auto simp: w' r persona_done_def job_status_of_def)
next
  case (failed w0 e)
  then have w': "w' = sandbox_destroy (job_id job) (handle_failure E (rt_now tick) job e w0)" and r: "r = failed_result job e"
    using assms by auto
  show ?thesis using failure_done[of job E "rt_now tick" e w0] failure_status[of job E "rt_now tick" e w0]
    by (auto simp: w' r failed_result_def persona_done_def job_status_of_def)
qed

subsection \<open>The bus of the workers\<close>

definition TRUST_MAP :: "trust_level dict" where
  "TRUST_MAP = [(''untrusted'', UNTRUSTED), (''internal'', TRUST_INTERNAL), (''privileged'', PRIVILEGED), (''system'', SYSTEM)]"

definition build_agent_bus :: "string \<Rightarrow> profile_policy \<Rightarrow> agent_definition list \<Rightarrow> bus" where
  "build_agent_bus key policy defs = fold (\<lambda>d. register_agent (ad_name d)
     (get_or TRUST_MAP (ad_trust_level d) TRUST_INTERNAL) (ad_bus_recipients d)) defs
     (SecureAgentBus key (Some policy))"

definition policy_paths :: "profile_policy \<Rightarrow> (string \<times> string) list" where
  "policy_paths policy = bus_escalation_paths (SecureAgentBus [] (Some policy))"

lemma build_paths: "bus_escalation_paths (build_agent_bus key policy defs) = policy_paths policy"
proof -
  have "bus_escalation_paths (fold (\<lambda>d. register_agent (ad_name d)
     (get_or TRUST_MAP (ad_trust_level d) TRUST_INTERNAL) (ad_bus_recipients d)) defs b) = bus_escalation_paths b" for b
    by (induction defs arbitrary: b) (auto simp: register_agent_def)
  then show ?thesis by (simp add: build_agent_bus_def policy_paths_def SecureAgentBus_def Let_def)
qed

lemma fold_register:
  "distinct (map ad_name defs) \<Longrightarrow> d \<in> set defs \<Longrightarrow>
   map_option ai_allowed_recipients (dget (agent_registry (fold (\<lambda>d. register_agent (ad_name d)
     (get_or TRUST_MAP (ad_trust_level d) TRUST_INTERNAL) (ad_bus_recipients d)) defs b)) (ad_name d))
   = Some (ad_bus_recipients d)"
proof (induction defs arbitrary: b rule: rev_induct)
  case (snoc x defs)
  then show ?case by (cases "d = x") (auto simp: register_agent_def rev_image_eqI)
qed simp

lemma build_recipients:
  "distinct (map ad_name defs) \<Longrightarrow> d \<in> set defs \<Longrightarrow>
   map_option ai_allowed_recipients (dget (agent_registry (build_agent_bus key policy defs)) (ad_name d)) = Some (ad_bus_recipients d)"
  unfolding build_agent_bus_def by (rule fold_register)

text \<open>Whom a persona may send a finding to, read off the registration and the escalation paths.\<close>

definition can_send :: "bus \<Rightarrow> string \<Rightarrow> string \<Rightarrow> bool" where
  "can_send b persona r = (case dget (agent_registry b) persona of None \<Rightarrow> False
     | Some info \<Rightarrow> r \<in> set (ai_allowed_recipients info) \<and> ''finding'' \<in> set (ai_allowed_message_types info)
         \<and> (persona, r) \<notin> set (bus_escalation_paths b))"

lemma cannot_send: "\<not> can_send b persona r \<Longrightarrow> isl (snd (send_message E now persona r ''finding'' p b))"
  using send_message_Inr_iff[of E now persona r "''finding''" p b]
  by (cases "snd (send_message E now persona r ''finding'' p b)") (auto simp: can_send_def send_ok_def split: option.splits)

lemma send_keeps_rules:
  "agent_registry (fst (send_message E now p r k q b)) = agent_registry b
   \<and> bus_escalation_paths (fst (send_message E now p r k q b)) = bus_escalation_paths b
   \<and> bus_signing_key (fst (send_message E now p r k q b)) = bus_signing_key b"
  by (auto simp: send_message_def log_event_def Let_def split: option.split prod.split)

definition same_rules :: "bus \<Rightarrow> bus \<Rightarrow> bool" where
  "same_rules a b = (agent_registry a = agent_registry b \<and> bus_escalation_paths a = bus_escalation_paths b)"

lemma same_rules_can_send: "same_rules a b \<Longrightarrow> can_send a p r = can_send b p r"
  by (simp add: same_rules_def can_send_def split: option.split)

lemma deliver_cannot:
  "\<not> can_send (ww_bus w) persona r \<Longrightarrow> isl (snd (deliver E now persona payload r w))"
  using cannot_send[of "ww_bus w" persona r "we_bus E" now payload]
  by (auto simp: deliver_def wbind_def with_bus_def split: sum.splits prod.splits)

lemma deliver_all_cannot:
  "same_rules (ww_bus w) b \<Longrightarrow> r \<in> set rs \<Longrightarrow> \<not> can_send b persona r \<Longrightarrow>
     isl (snd (deliver_all E now persona payload rs w))"
proof (induction rs arbitrary: w)
  case (Cons x rs)
  show ?case
  proof (cases "deliver E now persona payload x w")
    case (Pair w1 d)
    have k: "keeps (\<lambda>w. same_rules (ww_bus w) b) (deliver E now persona payload x)"
      by (rule keeps_deliver) (auto simp: same_rules_def send_keeps_rules)
    show ?thesis
    proof (cases d)
      case (Inl e)
      then show ?thesis by (simp add: Pair wbind_def)
    next
      case (Inr u)
      with Pair Cons.prems(3) same_rules_can_send[OF Cons.prems(1)] have "x \<noteq> r"
        using deliver_cannot[of w persona x E now payload] by auto
      moreover have "same_rules (ww_bus w1) b" using keepsD[OF k, of w] Cons.prems(1) Pair by simp
      ultimately show ?thesis using Cons.IH[of w1] Cons.prems by (simp add: Pair Inr wbind_def)
    qed
  qed
qed simp

text \<open>The agent runtime does not touch registrations and escalation paths.\<close>

definition keeps_bus_rules :: "worker_env \<Rightarrow> bool" where
  "keeps_bus_rules E = (\<forall>c w. same_rules (ww_bus (fst (we_arun E c w))) (ww_bus w))"

lemma produce_defn:
  "produce E now job sid w = (w', Inr (defn, result)) \<Longrightarrow> dget (we_registry E) (job_persona job) = Some defn"
  unfolding produce_def by (auto elim!: wbind_Inr simp: wret_def wlift_def wread_def split: option.splits)

lemma execute_cannot_send:
  assumes "keeps_bus_rules E" and "dget (we_registry E) (job_persona job) = Some d"
    and "r \<in> set (bus_recipients d)" and "\<not> can_send (ww_bus w) (job_persona job) r"
  shows "\<not> res_success (snd (execute E tick job sid w))"
proof (cases rule: execute_cases[of job E tick sid w])
  case (completed job1 result w1 res)
  obtain w0 job2 where st: "start_run tick job sid w = (w0, Inr job2)" and sj: "same_job job2 job"
    using start_run_job[of tick job sid w] by (cases "start_run tick job sid w") auto
  have b0: "ww_bus w0 = ww_bus w" using st by (auto simp: start_run_eq Let_def)
  let ?P = "\<lambda>v. same_rules (ww_bus v) (ww_bus w)"
  have k: "keeps ?P (produce E (rt_now tick) job2 sid)"
    using assms(1) by (intro keeps_produce keepsI) (auto simp: keeps_bus_rules_def same_rules_def)
  from completed(3)[unfolded execute_body_eq st] obtain defn result w1 w2 where
      p: "produce E (rt_now tick) job2 sid w0 = (w1, Inr (defn, result))"
    and dl: "deliver_all E (rt_now tick) (job_persona job)
         (finding_payload job2 (memory_investigation_id (we_str E) job) result) (bus_recipients defn) w1 = (w2, Inr ())"
    by (auto elim!: wbind_Inr)
  from produce_defn[OF p] assms(2) sj have "defn = d" by (simp add: same_job_def)
  moreover have "?P w1" using keepsD[OF k, of w0] by (simp add: p b0 same_rules_def)
  ultimately have "isl (snd (deliver_all E (rt_now tick) (job_persona job)
         (finding_payload job2 (memory_investigation_id (we_str E) job) result) (bus_recipients defn) w1))"
    using assms(3,4) by (intro deliver_all_cannot) auto
  then show ?thesis by (simp add: dl)
next
  case (failed w0 e)
  then show ?thesis by (simp add: failed_result_def)
qed

subsection \<open>Delivering\<close>

text \<open>The sender's breaker has seen fewer failures than it takes to open.\<close>

definition breaker_closed :: "bus \<Rightarrow> string \<Rightarrow> bool" where
  "breaker_closed b persona = (case dget (circuit_breakers b) persona of None \<Rightarrow> True
     | Some br \<Rightarrow> failures br < failure_threshold br)"

text \<open>What the standard library documents of the digest and of ISO dates, and a transport whose
  handlers do not raise.\<close>

definition transport_ok :: "worker_env \<Rightarrow> time \<Rightarrow> bool" where
  "transport_ok E now = (be_fromisoformat (we_bus E) (be_isoformat (we_bus E) now) = Inr now
     \<and> (\<forall>key text. list_all (\<lambda>c. of_char c \<le> (127::nat)) (be_hmac (we_bus E) key text))
     \<and> (\<forall>r m. we_publish E r m = None))"

lemma send_closed:
  assumes "can_send b persona r" and "breaker_closed b persona"
  obtains b' q where "send_message E now persona r ''finding'' p b = (b', Inr (signed_message E now b' persona r ''finding'' q))"
    and "same_rules b' b" and "breaker_closed b' persona"
proof -
  obtain info where i: "dget (agent_registry b) persona = Some info" "r \<in> set (ai_allowed_recipients info)"
      "''finding'' \<in> set (ai_allowed_message_types info)" "(persona, r) \<notin> set (bus_escalation_paths b)"
    using assms(1) by (auto simp: can_send_def split: option.splits)
  let ?q = "bus_sanitize_payload (be_detector E) (ai_trust_level info) p"
  show thesis
  proof (cases "dget (circuit_breakers b) persona")
    case None
    show thesis by (rule that[of b ?q]) (simp_all add: send_message_def i None same_rules_def assms(2))
  next
    case (Some br)
    then have "is_open now br = (False, br)" using assms(2) by (simp add: breaker_closed_def is_open_def)
    then show thesis using Some assms(2)
      by (intro that[of "b\<lparr>circuit_breakers := dput persona br (circuit_breakers b)\<rparr>" ?q])
        (simp_all add: send_message_def i same_rules_def breaker_closed_def)
  qed
qed

lemma deliver_ok:
  assumes "transport_ok E now" and "can_send (ww_bus w) persona r" and "breaker_closed (ww_bus w) persona"
  obtains w' where "deliver E now persona payload r w = (w', Inr ())"
    and "same_rules (ww_bus w') (ww_bus w)" and "breaker_closed (ww_bus w') persona"
    and "ww_jobs w' = ww_jobs w" and "ww_inv w' = ww_inv w"
proof -
  obtain b' q where s: "send_message (we_bus E) now persona r ''finding'' payload (ww_bus w)
        = (b', Inr (signed_message (we_bus E) now b' persona r ''finding'' q))"
      and b': "same_rules b' (ww_bus w)" "breaker_closed b' persona"
    using send_closed[OF assms(2,3)] .
  have "receive_message (we_bus E) now r (signed_message (we_bus E) now b' persona r ''finding'' q) b' = Inr (PDict q)"
    using assms(1) by (intro receive_signed) (simp_all add: transport_ok_def sign_message_def)
  then have "deliver E now persona payload r w = (w\<lparr>ww_bus := b', ww_published := ww_published w
       @ [(r, signed_message (we_bus E) now b' persona r ''finding'' q)]\<rparr>, Inr ())"
    using assms(1) by (simp add: deliver_def wbind_def with_bus_def s wlift_def wmodify_def transport_ok_def)
  from that[OF this] b' show thesis by simp
qed

lemma deliver_all_ok:
  assumes "transport_ok E now" and "list_all (can_send (ww_bus w) persona) rs" and "breaker_closed (ww_bus w) persona"
  shows "\<exists>w'. deliver_all E now persona payload rs w = (w', Inr ()) \<and> ww_jobs w' = ww_jobs w \<and> ww_inv w' = ww_inv w"
  using assms(2,3)
proof (induction rs arbitrary: w)
  case Nil
  then show ?case by (simp add: wret_def)
next
  case (Cons r rs)
  then obtain w1 where d: "deliver E now persona payload r w = (w1, Inr ())"
      and b: "same_rules (ww_bus w1) (ww_bus w)" "breaker_closed (ww_bus w1) persona"
      and j: "ww_jobs w1 = ww_jobs w" "ww_inv w1 = ww_inv w"
    using deliver_ok[OF assms(1), of w persona r payload] by auto
  have "list_all (can_send (ww_bus w1) persona) rs"
    using Cons.prems(1) same_rules_can_send[OF b(1)] by (simp add: list_all_iff)
  from Cons.IH[OF this b(2)] show ?case by (simp add: wbind_def d j)
qed

text \<open>A run whose agent answers with an error is carried to the end.\<close>

lemma produce_error_answer:
  assumes "sanitize (we_detector E) Src_external (job_input E now job w) = Inr s"
    and "dget (we_registry E) (job_persona job) = Some d"
    and "we_tools E job (ad_tools d) (job_sandbox_id job) = Inr tools"
    and "we_arun E \<lparr>ac_persona = job_persona job, ac_input = s, ac_session_id = sid,
         ac_tools = tools @ (if ad_skills d \<noteq> [] then [''load_skill''] else []),
         ac_sandbox_id = job_sandbox_id job\<rparr> w = (w1, Inr (PDict answer))"
    and "has_error answer"
    and "schema_get E (case ad_schema_name d of Some n \<Rightarrow> n | None \<Rightarrow> []) = Inr schema"
  shows "produce E now job sid w = (w1, Inr (d, PDict answer))"
proof -
  have "unwrap_raw E (PDict answer) = PDict answer"
    using assms(5) by (simp add: unwrap_raw_def split: option.split)
  moreover have "maybe_self_refine E job s (PDict answer) = wret (PDict answer)"
    using assms(5) by (simp add: maybe_self_refine_def)
  moreover have "check_schema E schema (PDict answer) = Inr (PDict answer)"
    using assms(5) by (simp add: check_schema_def)
  ultimately show ?thesis using assms(1-4,6)
    by (simp add: produce_def wbind_def[of "we_arun E c" for c] wret_def)
qed

subsection \<open>What a run guarantees\<close>

text \<open>A concrete worker: one persona, an agent that answers with a given dict after pausing the job
  for the tool call it was given.\<close>

definition demo_persona :: "string \<Rightarrow> string list \<Rightarrow> agent_definition" where
  "demo_persona name recipients = \<lparr>ad_name = name, ad_trust_level = ''internal'', ad_schema_name = None,
     ad_tools = [], ad_skills = [], ad_bus_recipients = recipients\<rparr>"

definition demo_registry :: "agent_definition dict" where
  "demo_registry = [(''soc'', demo_persona ''soc'' [''critic'']),
     (''intel'', demo_persona ''intel'' [''critic'', ''soc'', ''hunter'', ''redteam''])]"

definition demo_worker_env :: "(worker_world \<Rightarrow> worker_world) \<Rightarrow> payload \<Rightarrow> worker_env" where
  "demo_worker_env effect answer = \<lparr>we_detector = demo_detector, we_bus = demo_env, we_memory = demo_mem_env,
     we_memory_key = None, we_registry = demo_registry, we_schemas = [], we_stage = ''test'', we_self_refine_max = 0,
     we_tools = (\<lambda>j ts sb. Inr ts), we_arun = (\<lambda>c w. (effect w, Inr (PDict answer))),
     we_publish = (\<lambda>r m. None), we_dumps = (\<lambda>v. ''json''), we_loads = (\<lambda>s. None), we_str = (\<lambda>v. ''str''),
     we_float = (\<lambda>s. None)\<rparr>"

definition demo_job :: "string \<Rightarrow> string \<Rightarrow> worker_job" where
  "demo_job jid persona = \<lparr>job_id = jid, job_event_id = ''e1'', job_persona = persona, job_playbook_id = [],
     job_payload = [], job_correlation_id = [], job_tenant_id = ''default'', job_status = PENDING,
     job_sandbox_id = [], job_feedback = [], job_depends_on = [], job_max_tokens = 0,
     job_max_cost_usd = 0, job_max_tool_calls = 0\<rparr>"

definition empty_world :: "bus \<Rightarrow> worker_world" where
  "empty_world b = \<lparr>ww_queue = [], ww_jobs = [], ww_inv = [], ww_memory = [], ww_bus = b, ww_published = [],
     ww_sandboxes = [], ww_budgets = \<lparr>tk_states = [], tk_profile_ids = [], tk_profile_costs = [], tk_cost_per_1k = 3/1000\<rparr>,
     ww_chains = [], ww_catalog = InMemoryAgentCatalog, ww_metrics = []\<rparr>"

definition demo_ww :: worker_world where
  "demo_ww = empty_world (build_agent_bus ''key'' default_profile_policy_payload (map snd demo_registry))"

definition demo_tick :: run_tick where
  "demo_tick = \<lparr>rt_now = 7, rt_hex = ''ab'', rt_entry_id = ''m1''\<rparr>"

definition pause_j1 :: "worker_world \<Rightarrow> worker_world" where
  "pause_j1 w = w\<lparr>ww_jobs := pause_for_hitl \<lparr>ha_job_id = ''j1'', ha_session_id = ''worker:soc:j1'', ha_persona = ''soc'',
     ha_tool_name = ''run_active_scan'', ha_tool_args = [], ha_risk_level = ''high'', ha_approval_id = ''a1''\<rparr> [] (ww_jobs w)\<rparr>"

text \<open>C1: Every run settles, whatever the agent did and whichever step raised: the job's record is
  COMPLETED when the run reports success and FAILED when it does not, its persona counts as done in the
  investigation (so that jobs depending on it can start), and its sandbox is gone. The runtime must
  keep the record of the job, which no operation of the store removes.\<close>

theorem execute_settles:
  assumes "keeps_records E" and "execute E tick job sid w = (w', r)"
  shows "job_status_of (job_id job) w' = Some (if res_success r then COMPLETED else FAILED)
    \<and> persona_done job w' \<and> dget (ww_sandboxes w') (job_id job) = None
    \<and> res_job_id r = job_id job \<and> res_persona r = job_persona job"
proof -
  note s = execute_settled[OF assms(2)]
  have rec: "dget (ww_jobs (fst (execute_body E tick job sid w))) (job_id job) \<noteq> None"
    by (rule body_has_record[OF assms(1)])
  have "job_status_of (job_id job) w' \<noteq> None"
  proof (cases rule: execute_cases[of job E tick sid w])
    case (completed job1 result w1 res)
    then show ?thesis using rec assms(2) by (auto simp: job_status_of_def)
  next
    case (failed w0 e)
    then show ?thesis using rec assms(2) failure_status[of job E "rt_now tick" e w0]
      by (auto simp: job_status_of_def)
  qed
  then show ?thesis using s by auto
qed

theorem execute_settles_witness:
  "\<exists>w' r. execute (demo_worker_env pause_j1 [(''summary'', PStr ''ok'')]) demo_tick (demo_job ''j1'' ''soc'') ''worker:soc:j1'' demo_ww = (w', r)
     \<and> res_success r \<and> job_status_of ''j1'' w' = Some COMPLETED
     \<and> job_status_of ''j1'' (pause_j1 w') = Some AWAITING_APPROVAL"
proof -
  let ?E = "demo_worker_env pause_j1 [(''summary'', PStr ''ok'')]"
  let ?x = "execute ?E demo_tick (demo_job ''j1'' ''soc'') ''worker:soc:j1'' demo_ww"
  have k: "keeps_records ?E" by (simp add: keeps_records_def demo_worker_env_def pause_j1_def pause_for_hitl_def Let_def)
  have s: "res_success (snd ?x)" by code_simp
  show ?thesis using execute_settles[OF k surjective_pairing[of ?x]] s
    by (intro exI[of _ "fst ?x"] exI[of _ "snd ?x"])
      (simp add: demo_job_def job_status_of_def pause_j1_def pause_for_hitl_def Let_def JobRecord_def)
qed

text \<open>C38: A job that a worker has executed can never be resumed: a run writes COMPLETED or FAILED over
  the AWAITING_APPROVAL that a paused tool call left behind, so ResumeHitlJob answers every request for
  the job, approvals included, with an error and changes nothing.\<close>

theorem executed_job_never_resumes:
  "\<exists>m. resume_execute H fresh (job_id job) req
     \<lparr>hw_store = ww_jobs (fst (execute E tick job sid w)), hw_approvals = aps, hw_bypass = bp\<rparr>
   = (\<lparr>hw_store = ww_jobs (fst (execute E tick job sid w)), hw_approvals = aps, hw_bypass = bp\<rparr>,
      Inl (ResumeHitlJobError m))"
proof -
  obtain w' r where x: "execute E tick job sid w = (w', r)" by fastforce
  have "job_status_of (job_id job) w' \<noteq> Some AWAITING_APPROVAL"
    using execute_settled[OF x] by (auto split: if_splits)
  then show ?thesis by (auto simp: x resume_execute_def job_status_of_def split: option.split)
qed

text \<open>A persona that is registered with a recipient it may not send findings to, or without critic
  among its recipients, never completes a run: whatever its agent answers and whatever the other
  parameters are, execute reports failure. The bus is the one build_agent_bus makes of the registry; the
  agent runtime does not change registrations.\<close>

theorem unreachable_recipient_never_completes:
  assumes "keeps_bus_rules E" and "ww_bus w = build_agent_bus key policy (map snd (we_registry E))"
    and "distinct (map ad_name (map snd (we_registry E)))"
    and "dget (we_registry E) (job_persona job) = Some d" and "ad_name d = job_persona job"
    and "''critic'' \<notin> set (ad_bus_recipients d)
       \<or> (\<exists>r \<in> set (ad_bus_recipients d). (job_persona job, r) \<in> set (policy_paths policy))"
  shows "\<not> res_success (snd (execute E tick job sid w))"
proof -
  have "(job_persona job, d) \<in> set (we_registry E)" using assms(4) by (rule map_of_SomeD)
  then have "d \<in> set (map snd (we_registry E))" by force
  from build_recipients[OF assms(3) this, of key policy]
  have al: "map_option ai_allowed_recipients (dget (agent_registry (ww_bus w)) (job_persona job)) = Some (ad_bus_recipients d)"
    by (simp add: assms(2,5))
  from assms(6) obtain r where "r \<in> set (bus_recipients d)"
    and "r \<notin> set (ad_bus_recipients d) \<or> (job_persona job, r) \<in> set (policy_paths policy)"
    by (auto simp: bus_recipients_def)
  moreover from this(2) al have "\<not> can_send (ww_bus w) (job_persona job) r"
    by (auto simp: can_send_def assms(2) build_paths split: option.splits)
  ultimately show ?thesis using execute_cannot_send[OF assms(1,4)] by blast
qed

theorem unreachable_recipient_never_completes_witness:
  "\<not> res_success (snd (execute (demo_worker_env id [(''summary'', PStr ''ok'')]) demo_tick (demo_job ''j2'' ''intel'') ''worker:intel:j2'' demo_ww))
   \<and> res_success (snd (execute (demo_worker_env id [(''summary'', PStr ''ok'')]) demo_tick (demo_job ''j1'' ''soc'') ''worker:soc:j1'' demo_ww))"
proof -
  let ?E = "demo_worker_env id [(''summary'', PStr ''ok'')]"
  let ?d = "demo_persona ''intel'' [''critic'', ''soc'', ''hunter'', ''redteam'']"
  have k: "keeps_bus_rules ?E" by (simp add: keeps_bus_rules_def demo_worker_env_def same_rules_def)
  have b: "ww_bus demo_ww = build_agent_bus ''key'' default_profile_policy_payload (map snd (we_registry ?E))"
    by (simp add: demo_ww_def empty_world_def demo_worker_env_def)
  have r: "distinct (map ad_name (map snd (we_registry ?E)))" "dget (we_registry ?E) (job_persona (demo_job ''j2'' ''intel'')) = Some ?d"
      "ad_name ?d = job_persona (demo_job ''j2'' ''intel'')"
    by (simp_all add: demo_worker_env_def demo_registry_def demo_persona_def demo_job_def)
  have "(''intel'', ''redteam'') \<in> set (policy_paths default_profile_policy_payload)" by code_simp
  then have bad: "''critic'' \<notin> set (ad_bus_recipients ?d)
       \<or> (\<exists>r \<in> set (ad_bus_recipients ?d). (job_persona (demo_job ''j2'' ''intel''), r) \<in> set (policy_paths default_profile_policy_payload))"
    by (simp add: demo_persona_def demo_job_def)
  have "res_success (snd (execute ?E demo_tick (demo_job ''j1'' ''soc'') ''worker:soc:j1'' demo_ww))" by code_simp
  then show ?thesis using unreachable_recipient_never_completes[OF k b r bad] by blast
qed

text \<open>An agent that fails by answering with an error (a refused input, an exhausted budget, no
  response) still completes its job: whenever the prompt passes the sanitiser, the tools and the schema
  resolve and the bus takes the messages, the run reports success with the error as its finding and the
  job is COMPLETED.\<close>

theorem failed_agent_run_completes:
  assumes "start_run tick job0 sid w = (w1, Inr job)"
    and "sanitize (we_detector E) Src_external (job_input E (rt_now tick) job w1) = Inr s"
    and "dget (we_registry E) (job_persona job) = Some d"
    and "we_tools E job (ad_tools d) (job_sandbox_id job) = Inr tools"
    and "we_arun E \<lparr>ac_persona = job_persona job, ac_input = s, ac_session_id = sid,
         ac_tools = tools @ (if ad_skills d \<noteq> [] then [''load_skill''] else []),
         ac_sandbox_id = job_sandbox_id job\<rparr> w1 = (w2, Inr (PDict answer))"
    and "has_error answer" and "schema_get E (case ad_schema_name d of Some n \<Rightarrow> n | None \<Rightarrow> []) = Inr schema"
    and "transport_ok E (rt_now tick)" and "breaker_closed (ww_bus w2) (job_persona job)"
    and "list_all (can_send (ww_bus w2) (job_persona job)) (bus_recipients d)"
    and "dget (ww_jobs w2) (job_id job) \<noteq> None"
  shows "res_success (snd (execute E tick job0 sid w)) \<and> res_finding (snd (execute E tick job0 sid w)) = answer
    \<and> job_status_of (job_id job0) (fst (execute E tick job0 sid w)) = Some COMPLETED"
proof -
  have sj: "same_job job job0" using start_run_job[of tick job0 sid w] assms(1) by auto
  note p = produce_error_answer[OF assms(2-7)]
  obtain w3 where d: "deliver_all E (rt_now tick) (job_persona job0)
        (finding_payload job (memory_investigation_id (we_str E) job0) (PDict answer)) (bus_recipients d) w2 = (w3, Inr ())"
      and j: "ww_jobs w3 = ww_jobs w2"
    using deliver_all_ok[OF assms(8,10,9)] sj by (auto simp: same_job_def)
  have body: "execute_body E tick job0 sid w = finish E tick job (PDict answer) w3"
    by (simp add: execute_body_eq assms(1) wbind_def p d)
  have "job_status_of (job_id job0) (fst (finish E tick job (PDict answer) w3)) = Some COMPLETED"
    using finish_status[of job E tick "PDict answer" w3] assms(11) sj by (auto simp: j same_job_def)
  then show ?thesis
    by (simp add: execute_def body finish_eq Let_def job_status_of_def)
qed

theorem failed_agent_run_completes_witness:
  "job_status_of ''j1'' (fst (execute (demo_worker_env id [(''error'', PStr ''refused'')]) demo_tick (demo_job ''j1'' ''soc'') ''sid'' demo_ww)) = Some COMPLETED
   \<and> res_finding (snd (execute (demo_worker_env id [(''error'', PStr ''refused'')]) demo_tick (demo_job ''j1'' ''soc'') ''sid'' demo_ww)) = [(''error'', PStr ''refused'')]"
proof -
  let ?E = "demo_worker_env id [(''error'', PStr ''refused'')]"
  obtain w1 job where st: "start_run demo_tick (demo_job ''j1'' ''soc'') ''sid'' demo_ww = (w1, Inr job)"
    and w1: "ww_bus w1 = ww_bus demo_ww" "dget (ww_jobs w1) ''j1'' \<noteq> None" and job: "job_id job = ''j1''" "job_persona job = ''soc''"
    by (simp add: start_run_eq Let_def demo_job_def upsert_running_def)
  have tr: "transport_ok ?E (rt_now demo_tick)"
  proof -
    have "be_fromisoformat demo_env (be_isoformat demo_env 7) = Inr 7" by code_simp
    then show ?thesis by (simp add: transport_ok_def demo_worker_env_def demo_tick_def demo_env_def)
  qed
  have inp: "sanitize demo_detector Src_external ''json'' = Inr (projr (sanitize demo_detector Src_external ''json''))" by code_simp
  have bus: "list_all (can_send (ww_bus w1) (job_persona job)) (bus_recipients (demo_persona ''soc'' [''critic'']))"
      "breaker_closed (ww_bus w1) (job_persona job)"
    unfolding w1(1) job by code_simp+
  have "res_finding (snd (execute ?E demo_tick (demo_job ''j1'' ''soc'') ''sid'' demo_ww)) = [(''error'', PStr ''refused'')]
    \<and> job_status_of (job_id (demo_job ''j1'' ''soc'')) (fst (execute ?E demo_tick (demo_job ''j1'' ''soc'') ''sid'' demo_ww)) = Some COMPLETED"
    by (rule failed_agent_run_completes[OF st, THEN conjunct2, of ?E _ "demo_persona ''soc'' [''critic'']" "[]" w1, OF _ _ _ _ _ _ tr bus(2,1)])
      (use inp w1 in \<open>simp_all add: job_input_def demo_worker_env_def demo_registry_def job demo_persona_def has_error_def schema_get_def\<close>)
  then show ?thesis by (simp add: demo_job_def)
qed

end
