(* ===== verification/Orchestrator.thy ===== *)
theory Orchestrator
  imports Worker
begin

text \<open>The worker's loop: InMemoryJobQueue of cys_core/infrastructure/queue.py and
  WorkerOrchestrator of interfaces/worker/orchestrator.py. A job travels through the queue as the
  dict model_dump makes of it and model_validate reads back; the queue of the model holds the job.
  Fresh hexadecimal suffixes of job ids are a function of the position.\<close>

subsection \<open>The job queue\<close>

type_synonym job_queue = "worker_job list"

definition InMemoryJobQueue :: job_queue where
  "InMemoryJobQueue = []"

definition enqueue :: "worker_job \<Rightarrow> job_queue \<Rightarrow> job_queue" where
  "enqueue job q = q @ [job]"

fun dequeue :: "job_queue \<Rightarrow> (worker_job \<times> job_queue) option" where
  "dequeue [] = None"
| "dequeue (job # q) = Some (job, q)"

interpretation jq: fifo_queue enqueue dequeue "\<lambda>q. q"
proof unfold_locales
  fix x q' and q :: job_queue
  show "dequeue q = None \<longleftrightarrow> q = []" by (cases q) auto
  show "dequeue q = Some (x, q') \<Longrightarrow> q = x # q'" by (cases q) auto
qed (simp add: enqueue_def)

subsection \<open>Running a job\<close>

definition investigation_of :: "worker_job \<Rightarrow> string" where
  "investigation_of job = str_or (job_correlation_id job) (job_event_id job)"

definition completed_in :: "string \<Rightarrow> string \<Rightarrow> worker_world \<Rightarrow> string list" where
  "completed_in tenant iid w = (case inv_get (ww_inv w) (tenant, iid) of
     Some st \<Rightarrow> is_completed_personas st | None \<Rightarrow> [])"

definition not_ready_result :: "worker_job \<Rightarrow> run_result" where
  "not_ready_result job = \<lparr>res_job_id = job_id job, res_persona = job_persona job, res_success = False,
     res_finding = [], res_error = ''dependency_not_ready:'' @ job_depends_on job, res_sandbox_id = []\<rparr>"

definition session_of :: "worker_job \<Rightarrow> string" where
  "session_of job = ''worker:'' @ job_persona job @ '':'' @ job_id job"

text \<open>Budgets are configured from the enriched copy of the job, the run gets the job itself.\<close>

definition configure_budget :: "worker_env \<Rightarrow> worker_job \<Rightarrow> worker_world \<Rightarrow> worker_world" where
  "configure_budget E job w = (
     let budgeted = enrich_job_budget (\<lambda>p. Inr (get_agent (ww_catalog w) p)) job;
         pid = job_profile_id E budgeted (ww_catalog w);
         rate = pol_cost_per_1k_tokens_usd (policy_in (list_profiles (ww_catalog w)) pid) in
     w\<lparr>ww_budgets := budget_configure (session_of job) (job_max_tokens budgeted) (job_max_cost_usd budgeted)
        (job_max_tool_calls budgeted) pid (configure_job_cost rate (Some pid) (ww_budgets w))\<rparr>)"

definition release_run :: "worker_job \<Rightarrow> worker_world \<Rightarrow> worker_world" where
  "release_run job w = w\<lparr>
     ww_metrics := ww_metrics w @ (case budget_get (session_of job) (ww_budgets w) of None \<Rightarrow> []
        | Some st \<Rightarrow> [Job_usage (job_persona job) (bs_tokens_used st) (bs_cost_usd st)]),
     ww_budgets := budget_clear (session_of job) (ww_budgets w),
     ww_chains := AList.delete (job_id job) (ww_chains w)\<rparr>"

definition run_job :: "worker_env \<Rightarrow> run_tick \<Rightarrow> worker_job \<Rightarrow> worker_world \<Rightarrow> worker_world \<times> run_result" where
  "run_job E tick job w = (
     if job_depends_on job \<noteq> []
        \<and> job_depends_on job \<notin> set (completed_in (job_tenant_id job) (investigation_of job) w)
     then (w\<lparr>ww_queue := enqueue job (ww_queue w)\<rparr>, not_ready_result job)
     else (case execute E tick job (session_of job) (configure_budget E job w) of
         (w', r) \<Rightarrow> (release_run job w', r)))"

text \<open>A message of the queue is a job here, as enqueue_job writes it. A message that WorkerJob.model_validate refuses, which
  would end the daemon with a ValidationError, is not modelled.\<close>

definition process_next :: "worker_env \<Rightarrow> run_tick \<Rightarrow> worker_world \<Rightarrow> worker_world \<times> run_result option" where
  "process_next E tick w = (case dequeue (ww_queue w) of
     None \<Rightarrow> (w, None)
   | Some (job, q) \<Rightarrow> (case run_job E tick job (w\<lparr>ww_queue := q\<rparr>) of (w', r) \<Rightarrow> (w', Some r)))"

subsection \<open>Enqueueing\<close>

fun jobs_from ::
  "(nat \<Rightarrow> string \<Rightarrow> worker_job) \<Rightarrow> bool \<Rightarrow> nat \<Rightarrow> string \<Rightarrow> string list \<Rightarrow> worker_job list" where
  "jobs_from mk sequential n previous [] = []"
| "jobs_from mk sequential n previous (p # ps) =
     (mk n p)\<lparr>job_depends_on := (if sequential then previous else [])\<rparr>
       # jobs_from mk sequential (Suc n) (if sequential then p else previous) ps"

definition routed_job ::
  "(nat \<Rightarrow> string) \<Rightarrow> string \<Rightarrow> string \<Rightarrow> payload \<Rightarrow> string \<Rightarrow> string \<Rightarrow> nat \<Rightarrow> string \<Rightarrow> worker_job" where
  "routed_job hex event_id playbook_id payload correlation_id tenant_id n persona =
     \<lparr>job_id = persona @ ''-'' @ event_id @ ''-'' @ hex n, job_event_id = event_id, job_persona = persona,
      job_playbook_id = playbook_id, job_payload = payload, job_correlation_id = str_or correlation_id event_id,
      job_tenant_id = tenant_id, job_status = PENDING, job_sandbox_id = [], job_feedback = [],
      job_depends_on = [], job_max_tokens = 0, job_max_cost_usd = 0, job_max_tool_calls = 0\<rparr>"

definition jobs_for_routing ::
  "(nat \<Rightarrow> string) \<Rightarrow> string \<Rightarrow> string list \<Rightarrow> string \<Rightarrow> payload \<Rightarrow> string \<Rightarrow> string \<Rightarrow> bool \<Rightarrow> worker_job list" where
  "jobs_for_routing hex event_id personas playbook_id payload correlation_id tenant_id sequential =
     jobs_from (routed_job hex event_id playbook_id payload correlation_id tenant_id) sequential 0 [] personas"

primrec persist_and_enqueue :: "worker_job list \<Rightarrow> worker_world \<Rightarrow> worker_world" where
  "persist_and_enqueue [] w = w"
| "persist_and_enqueue (job # jobs) w = persist_and_enqueue jobs (w\<lparr>
     ww_jobs := upsert_pending (job_id job) (job_persona job) (job_correlation_id job) (job_tenant_id job)
        (job_event_id job) (ww_jobs w),
     ww_queue := enqueue job (ww_queue w)\<rparr>)"

definition enqueue_from_routing ::
  "(nat \<Rightarrow> string) \<Rightarrow> string \<Rightarrow> string list \<Rightarrow> string \<Rightarrow> payload \<Rightarrow> string \<Rightarrow> string \<Rightarrow> bool
    \<Rightarrow> worker_world \<Rightarrow> worker_world \<times> string list" where
  "enqueue_from_routing hex event_id personas playbook_id payload correlation_id tenant_id sequential w = (
     let jobs = jobs_for_routing hex event_id personas playbook_id payload correlation_id tenant_id sequential
     in (persist_and_enqueue jobs w, map job_id jobs))"

text \<open>The daemon calls process_next again and again.\<close>

primrec process_all :: "worker_env \<Rightarrow> run_tick list \<Rightarrow> worker_world \<Rightarrow> worker_world \<times> run_result option list" where
  "process_all E [] w = (w, [])"
| "process_all E (t # ts) w = (case process_next E t w of (w1, r) \<Rightarrow>
     (case process_all E ts w1 of (w2, rs) \<Rightarrow> (w2, r # rs)))"

subsection \<open>What a run does to the schedule\<close>

text \<open>The agent's tools neither enqueue work nor change which personas are done.\<close>

definition keeps_schedule :: "worker_env \<Rightarrow> bool" where
  "keeps_schedule E = (\<forall>c w. ww_queue (fst (we_arun E c w)) = ww_queue w
     \<and> (\<forall>t i. completed_in t i (fst (we_arun E c w)) = completed_in t i w))"

lemma completed_append_finding:
  "(case inv_get (inv_append_finding t' i' f s) (t, i) of Some st \<Rightarrow> is_completed_personas st | None \<Rightarrow> [])
     = (case inv_get s (t, i) of Some st \<Rightarrow> is_completed_personas st | None \<Rightarrow> [])"
  by (auto simp: inv_append_finding_def inv_or_new_def InvestigationState_def Let_def inv_get_put split: option.split)

lemma completed_cong: "ww_inv w = ww_inv w' \<Longrightarrow> completed_in t i w = completed_in t i w'"
  by (simp add: completed_in_def)

lemma completed_mark:
  "set (completed_in t i (mark_persona_terminal job w)) =
     (if (t, i) = (job_tenant_id job, investigation_of job) then insert (job_persona job) (set (completed_in t i w))
      else set (completed_in t i w))"
  by (auto simp: completed_in_def mark_persona_terminal_def inv_mark_persona_done_def inv_or_new_def
      investigation_of_def InvestigationState_def Let_def inv_get_put split: option.split)

lemma completed_remember: "completed_in t i (remember E tick job iid result w) = completed_in t i w"
  by (cases result)
    (simp_all add: remember_def split_beta Let_def completed_in_def completed_append_finding)

text \<open>After the body: the queue is as it was, and the persona joined the done ones at most.\<close>

definition schedule_is :: "job_queue \<Rightarrow> (string \<Rightarrow> string \<Rightarrow> string set) \<Rightarrow> worker_world \<Rightarrow> bool" where
  "schedule_is q done_set w = (ww_queue w = q \<and> (\<forall>t i. set (completed_in t i w) = done_set t i))"

lemma schedule_arun: "keeps_schedule E \<Longrightarrow> keeps (schedule_is q d) (we_arun E c)"
  by (rule keepsI) (auto simp: schedule_is_def keeps_schedule_def)

definition add_done :: "worker_job \<Rightarrow> (string \<Rightarrow> string \<Rightarrow> string set) \<Rightarrow> string \<Rightarrow> string \<Rightarrow> string set" where
  "add_done job d t i = (if (t, i) = (job_tenant_id job, investigation_of job)
     then insert (job_persona job) (d t i) else d t i)"

lemma add_done_idem [simp]: "add_done job (add_done job d) = add_done job d"
  by (intro ext) (simp add: add_done_def)

lemma add_done_same: "same_job job job0 \<Longrightarrow> add_done job = add_done job0"
  by (intro ext) (simp add: add_done_def same_job_def investigation_of_def)

lemma schedule_cong: "ww_inv v = ww_inv w \<Longrightarrow> ww_queue v = ww_queue w \<Longrightarrow> schedule_is q d v = schedule_is q d w"
  by (simp add: schedule_is_def completed_in_def)

lemma schedule_mark: "schedule_is q d w \<Longrightarrow> schedule_is q (add_done job d) (mark_persona_terminal job w)"
  by (simp add: schedule_is_def completed_mark add_done_def)

lemma finish_schedule:
  assumes "schedule_is q d w"
  shows "schedule_is q (add_done job d) (fst (finish E tick job result w))"
proof -
  let ?v = "remember E tick job (memory_investigation_id (we_str E) job) result w"
  have "schedule_is q d ?v" using assms by (simp add: schedule_is_def completed_remember)
  then have "schedule_is q (add_done job d) (mark_persona_terminal job ?v)" by (rule schedule_mark)
  moreover have "ww_inv (fst (finish E tick job result w)) = ww_inv (mark_persona_terminal job ?v)"
      "ww_queue (fst (finish E tick job result w)) = ww_queue (mark_persona_terminal job ?v)"
    by (simp_all add: finish_eq Let_def)
  ultimately show ?thesis using schedule_cong by blast
qed

lemma failure_schedule:
  assumes "schedule_is q d w"
  shows "schedule_is q (add_done job d) (handle_failure E now job e w)"
proof -
  have m: "schedule_is q (add_done job d) (settle_failed job v)"
    if "ww_inv v = ww_inv w" and "ww_queue v = ww_queue w" for v
    unfolding settle_failed_def
    by (rule schedule_mark) (use assms schedule_cong[of "v\<lparr>ww_jobs := mark_failed (job_id job) (ww_jobs v)\<rparr>" w] that in simp)
  show ?thesis
  proof (cases e)
    case (JobBudgetExceeded s)
    then show ?thesis using m[of w] by (simp add: handle_failure_def)
  next
    case (Exc x)
    then show ?thesis by (cases x) (simp_all add: handle_failure_def m)
  qed
qed

text \<open>The body keeps the schedule until finish; after the whole run exactly the job's persona has joined.\<close>

lemma body_schedule:
  assumes "keeps_schedule E" and "schedule_is q d w"
  shows "schedule_is q d (fst (execute_body E tick job sid w))
    \<or> schedule_is q (add_done job d) (fst (execute_body E tick job sid w))"
proof (rule execute_body_keeps[where P = "\<lambda>w. schedule_is q d w \<or> schedule_is q (add_done job d) w"])
  show "schedule_is q d (fst (start_run tick job sid w)) \<or> schedule_is q (add_done job d) (fst (start_run tick job sid w))"
    using assms(2) by (simp add: start_run_eq Let_def schedule_is_def completed_in_def)
  show "keeps (\<lambda>w. schedule_is q d w \<or> schedule_is q (add_done job d) w) (we_arun E c)" for c
    using schedule_arun[OF assms(1), of q d c] schedule_arun[OF assms(1), of q "add_done job d" c]
    unfolding keeps_def by blast
  show "keeps (\<lambda>w. schedule_is q d w \<or> schedule_is q (add_done job d) w) (finish E tick job1 result)"
    if "same_job job1 job" for job1 result
    using finish_schedule[of q d _ job1 E tick result] finish_schedule[of q "add_done job d" _ job1 E tick result]
    by (intro keepsI) (auto simp: add_done_same[OF that])
qed (simp_all add: schedule_is_def completed_in_def)

lemma execute_schedule:
  assumes "keeps_schedule E" and "schedule_is q d w"
  shows "schedule_is q (add_done job d) (fst (execute E tick job sid w))"
proof -
  have destroy: "schedule_is q D (sandbox_destroy x v) = schedule_is q D v" for D x v
    by (rule schedule_cong) simp_all
  note body = body_schedule[OF assms, of tick job sid]
  show ?thesis
  proof (cases rule: execute_cases[of job E tick sid w])
    case (completed job1 result w1 res)
    have "persona_done job (fst (finish E tick job1 result w1))"
      using finish_done same_job_done[OF completed(1)] by blast
    then have "job_persona job \<in> set (completed_in (job_tenant_id job) (investigation_of job) (fst (execute_body E tick job sid w)))"
      by (simp add: completed(3) persona_done_def completed_in_def investigation_of_def split: option.splits)
    moreover have "schedule_is q d v \<Longrightarrow> job_persona job \<in> set (completed_in (job_tenant_id job) (investigation_of job) v)
        \<Longrightarrow> schedule_is q (add_done job d) v" for v
      unfolding schedule_is_def add_done_def by (simp add: insert_absorb)
    ultimately have "schedule_is q (add_done job d) (fst (execute_body E tick job sid w))" using body by blast
    then show ?thesis by (simp add: completed(2,3) destroy)
  next
    case (failed w0 e)
    from body have "schedule_is q (add_done job d) (handle_failure E (rt_now tick) job e w0)"
      using failure_schedule[of q d w0 job E "rt_now tick" e] failure_schedule[of q "add_done job d" w0 job E "rt_now tick" e]
      by (auto simp: failed(1))
    then show ?thesis by (simp add: failed destroy)
  qed
qed

subsection \<open>One step of the loop\<close>

definition ready :: "worker_job \<Rightarrow> worker_world \<Rightarrow> bool" where
  "ready job w = (job_depends_on job = []
     \<or> job_depends_on job \<in> set (completed_in (job_tenant_id job) (investigation_of job) w))"

lemma run_job_not_ready:
  "\<not> ready job w \<Longrightarrow> run_job E tick job w = (w\<lparr>ww_queue := enqueue job (ww_queue w)\<rparr>, not_ready_result job)"
  by (simp add: run_job_def ready_def)

lemma run_job_ready:
  assumes "ready job w" and "keeps_schedule E" and "schedule_is q d w"
  shows "schedule_is q (add_done job d) (fst (run_job E tick job w))
    \<and> res_job_id (snd (run_job E tick job w)) = job_id job
    \<and> res_persona (snd (run_job E tick job w)) = job_persona job"
proof -
  obtain w' r where x: "execute E tick job (session_of job) (configure_budget E job w) = (w', r)" by fastforce
  have "schedule_is q d (configure_budget E job w)"
    using assms(3) schedule_cong[of "configure_budget E job w" w] by (simp add: configure_budget_def Let_def)
  from execute_schedule[OF assms(2) this, of job tick "session_of job"]
  have "schedule_is q (add_done job d) (release_run job w')"
    using schedule_cong[of "release_run job w'" w'] by (simp add: x release_run_def)
  then show ?thesis using assms(1) x execute_settled[OF x] by (auto simp: run_job_def ready_def)
qed

lemma run_job_result_ids:
  "res_job_id (snd (run_job E tick job w)) = job_id job \<and> res_persona (snd (run_job E tick job w)) = job_persona job"
proof -
  obtain w' r where x: "execute E tick job (session_of job) (configure_budget E job w) = (w', r)" by fastforce
  then show ?thesis using execute_settled[OF x] by (simp add: run_job_def not_ready_result_def)
qed

lemma schedule_refl: "schedule_is (ww_queue w) (\<lambda>t i. set (completed_in t i w)) w"
  by (simp add: schedule_is_def)

lemma process_next_Cons:
  assumes "ww_queue w = job # q" and "keeps_schedule E"
  obtains (ran) w' r where "process_next E tick w = (w', Some r)" and "ready job w"
      and "res_job_id r = job_id job" and "res_persona r = job_persona job"
      and "schedule_is q (add_done job (\<lambda>t i. set (completed_in t i w))) w'"
    | (deferred) "process_next E tick w = (w\<lparr>ww_queue := q @ [job]\<rparr>, Some (not_ready_result job))" and "\<not> ready job w"
proof (cases "ready job w")
  case True
  have rd: "ready job (w\<lparr>ww_queue := q\<rparr>)" using True by (simp add: ready_def completed_in_def)
  have "schedule_is q (\<lambda>t i. set (completed_in t i w)) (w\<lparr>ww_queue := q\<rparr>)"
    by (simp add: schedule_is_def completed_in_def)
  from run_job_ready[OF rd assms(2) this, of tick] show thesis
    using True ran by (cases "run_job E tick job (w\<lparr>ww_queue := q\<rparr>)") (auto simp: process_next_def assms(1))
next
  case False
  then have "\<not> ready job (w\<lparr>ww_queue := q\<rparr>)" by (simp add: ready_def completed_in_def)
  then show thesis using False deferred
    by (simp add: process_next_def assms(1) run_job_not_ready enqueue_def)
qed

subsection \<open>The abstract schedule\<close>

text \<open>A line of personas with what each waits for, and the set of those that are done. A step takes
  the head: done if what it waits for is, back to the end of the line otherwise.\<close>

type_synonym schedule = "(string \<times> string) list \<times> string set"

fun schedule_step :: "schedule \<Rightarrow> schedule" where
  "schedule_step ([], done_set) = ([], done_set)"
| "schedule_step ((p, dep) # line, done_set) =
     (if dep = [] \<or> dep \<in> done_set then (line, insert p done_set) else (line @ [(p, dep)], done_set))"

definition schedule_of :: "string \<Rightarrow> string \<Rightarrow> worker_world \<Rightarrow> schedule" where
  "schedule_of tenant iid w = (map (\<lambda>j. (job_persona j, job_depends_on j)) (ww_queue w), set (completed_in tenant iid w))"

definition queue_in :: "string \<Rightarrow> string \<Rightarrow> worker_world \<Rightarrow> bool" where
  "queue_in tenant iid w = list_all (\<lambda>j. job_tenant_id j = tenant \<and> investigation_of j = iid) (ww_queue w)"

lemma step_refines:
  assumes "keeps_schedule E" and "queue_in tenant iid w"
  shows "schedule_of tenant iid (fst (process_next E tick w)) = schedule_step (schedule_of tenant iid w)
    \<and> queue_in tenant iid (fst (process_next E tick w))"
proof (cases "ww_queue w")
  case Nil
  then show ?thesis using assms(2) by (simp add: process_next_def schedule_of_def)
next
  case (Cons job q)
  with assms(2) have j: "job_tenant_id job = tenant" "investigation_of job = iid"
      "list_all (\<lambda>j. job_tenant_id j = tenant \<and> investigation_of j = iid) q"
    by (simp_all add: queue_in_def)
  show ?thesis
  proof (cases rule: process_next_Cons[OF Cons assms(1), of tick])
    case (1 w' r)
    then show ?thesis using j by (simp add: Cons schedule_of_def queue_in_def schedule_is_def add_done_def ready_def)
  next
    case 2
    then show ?thesis using j by (simp add: Cons schedule_of_def queue_in_def ready_def completed_in_def)
  qed
qed

lemma process_all_refines:
  "keeps_schedule E \<Longrightarrow> queue_in tenant iid w \<Longrightarrow>
     schedule_of tenant iid (fst (process_all E ts w)) = (schedule_step ^^ length ts) (schedule_of tenant iid w)"
proof (induction ts arbitrary: w)
  case (Cons t ts)
  note s = step_refines[OF Cons.prems, of t]
  from Cons.IH[OF Cons.prems(1) s[THEN conjunct2]] s[THEN conjunct1] show ?case
    by (simp add: split_beta funpow_swap1)
qed simp

subsection \<open>Enqueueing a plan\<close>

lemma persist_queue: "ww_queue (persist_and_enqueue jobs w) = ww_queue w @ jobs"
  by (induction jobs arbitrary: w) (auto simp: enqueue_def)

lemma persist_inv: "ww_inv (persist_and_enqueue jobs w) = ww_inv w"
  by (induction jobs arbitrary: w) auto

lemma persist_pending:
  "distinct (map job_id jobs) \<Longrightarrow> job \<in> set jobs \<Longrightarrow>
     job_status_of (job_id job) (persist_and_enqueue jobs w) = Some PENDING"
proof (induction jobs arbitrary: w)
  case (Cons x jobs)
  have keep: "job_status_of jid (persist_and_enqueue js v) = job_status_of jid v"
    if "jid \<notin> set (map job_id js)" for jid js v
    using that by (induction js arbitrary: v) (auto simp: job_status_of_def upsert_pending_def)
  show ?case
  proof (cases "job = x")
    case True
    then show ?thesis using Cons.prems(1) by (simp add: keep) (simp add: job_status_of_def upsert_pending_def JobRecord_def)
  next
    case False
    then show ?thesis using Cons by simp
  qed
qed simp

text \<open>Jobs of one plan, each waiting for the one before.\<close>

fun chained :: "string \<Rightarrow> worker_job list \<Rightarrow> bool" where
  "chained prev [] = True"
| "chained prev (j # js) = (job_depends_on j = prev \<and> chained (job_persona j) js)"

lemma jobs_from_chained:
  "(\<And>n p. job_persona (mk n p) = p) \<Longrightarrow> chained prev (jobs_from mk True n prev ps)"
  by (induction ps arbitrary: n prev) auto

lemma jobs_from_all:
  "(\<And>n p. Q (mk n p)) \<Longrightarrow> (\<And>j d. Q j \<Longrightarrow> Q (j\<lparr>job_depends_on := d\<rparr>)) \<Longrightarrow> list_all Q (jobs_from mk sq n prev ps)"
  by (induction ps arbitrary: n prev) auto

lemma jobs_from_personas:
  "(\<And>n p. job_persona (mk n p) = p) \<Longrightarrow> map job_persona (jobs_from mk sq n prev ps) = ps"
  by (induction ps arbitrary: n prev) auto

lemma chain_runs:
  assumes "keeps_schedule E" and "ww_queue w = js" and "chained prev js" and "length ts = length js"
    and "list_all (\<lambda>j. job_tenant_id j = tenant \<and> investigation_of j = iid) js"
    and "prev = [] \<or> prev \<in> set (completed_in tenant iid w)"
  shows "ww_queue (fst (process_all E ts w)) = []
    \<and> set (completed_in tenant iid (fst (process_all E ts w))) = set (map job_persona js) \<union> set (completed_in tenant iid w)
    \<and> map (map_option res_job_id) (snd (process_all E ts w)) = map (\<lambda>j. Some (job_id j)) js"
  using assms(2-6)
proof (induction js arbitrary: w ts prev)
  case (Cons j js)
  obtain t ts' where ts: "ts = t # ts'" "length ts' = length js" using Cons.prems(3) by (cases ts) auto
  have rd: "ready j w" using Cons.prems(2,4,5) by (auto simp: ready_def)
  obtain w1 r where p: "process_next E t w = (w1, Some r)" and r: "res_job_id r = job_id j"
      and s: "schedule_is js (add_done j (\<lambda>t i. set (completed_in t i w))) w1"
    using process_next_Cons[OF Cons.prems(1) assms(1), of t] rd by metis
  have c: "set (completed_in tenant iid w1) = insert (job_persona j) (set (completed_in tenant iid w))"
    using s Cons.prems(4) by (simp add: schedule_is_def add_done_def)
  have "ww_queue w1 = js" using s by (simp add: schedule_is_def)
  from Cons.IH[OF this _ ts(2), of "job_persona j"] Cons.prems(2,4) c
  show ?case by (simp add: ts p r split_beta)
qed simp

subsection \<open>What the loop guarantees\<close>

text \<open>C2: The dependency gate refines an abstract schedule: however the runs end, each process_next is
  one step of the line of waiting personas and the set of done ones (the head joins the done set if what
  it waits for is done, and goes to the end of the line if not), and so are any number of them in a row,
  as long as the agents' own tools leave queue and done personas alone and the queued jobs belong to one
  investigation.\<close>

theorem worker_refines_schedule:
  assumes "keeps_schedule E" and "queue_in tenant iid w"
  shows "schedule_of tenant iid (fst (process_next E tick w)) = schedule_step (schedule_of tenant iid w)
    \<and> schedule_of tenant iid (fst (process_all E ticks w))
        = (schedule_step ^^ length ticks) (schedule_of tenant iid w)"
  using step_refines[OF assms] process_all_refines[OF assms] by blast

definition demo_waiting :: worker_world where
  "demo_waiting = demo_ww\<lparr>ww_queue := [(demo_job ''j2'' ''intel'')\<lparr>job_depends_on := ''soc''\<rparr>, demo_job ''j1'' ''soc'']\<rparr>"

lemma demo_keeps_schedule: "keeps_schedule (demo_worker_env id answer)"
  by (simp add: keeps_schedule_def demo_worker_env_def)

theorem worker_refines_schedule_witness:
  "schedule_of ''default'' ''e1'' (fst (process_all (demo_worker_env id []) [demo_tick, demo_tick, demo_tick] demo_waiting))
     = ([], {''soc'', ''intel''})"
proof -
  have q: "queue_in ''default'' ''e1'' demo_waiting"
    by (simp add: queue_in_def demo_waiting_def demo_job_def investigation_of_def str_or_def)
  have s: "schedule_of ''default'' ''e1'' demo_waiting = ([(''intel'', ''soc''), (''soc'', [])], {})"
    by (simp add: schedule_of_def demo_waiting_def demo_ww_def empty_world_def demo_job_def completed_in_def inv_get_def)
  show ?thesis
    using worker_refines_schedule[where ticks = "[demo_tick, demo_tick, demo_tick]", OF demo_keeps_schedule q]
    by (simp add: s numeral_3_eq_3 insert_commute)
qed

text \<open>C11: A sequential plan drains: enqueued into an empty queue, its n jobs are all pending records and
  are run by the next n calls of process_next, in plan order, none of them deferred, whether runs succeed
  or fail; afterwards the queue is empty and exactly the plan's personas have joined the done ones.\<close>

theorem sequential_plan_drains:
  assumes "keeps_schedule E" and "ww_queue w = []" and "length ticks = length personas"
    and "enqueue_from_routing hex ev personas pb pl corr tenant True w = (w1, ids)"
    and "process_all E ticks w1 = (w2, results)"
  shows "ww_queue w2 = []
    \<and> map (map_option res_job_id) results = map Some ids
    \<and> set (completed_in tenant (str_or corr ev) w2) = set personas \<union> set (completed_in tenant (str_or corr ev) w)"
proof -
  let ?mk = "routed_job hex ev pb pl corr tenant"
  let ?js = "jobs_for_routing hex ev personas pb pl corr tenant True"
  have w1: "w1 = persist_and_enqueue ?js w" and ids: "ids = map job_id ?js"
    using assms(4) by (auto simp: enqueue_from_routing_def Let_def)
  have q: "ww_queue w1 = ?js" by (simp add: w1 persist_queue assms(2))
  have ch: "chained [] ?js" unfolding jobs_for_routing_def by (rule jobs_from_chained) (simp add: routed_job_def)
  have per: "map job_persona ?js = personas"
    unfolding jobs_for_routing_def by (rule jobs_from_personas) (simp add: routed_job_def)
  have al: "list_all (\<lambda>j. job_tenant_id j = tenant \<and> investigation_of j = str_or corr ev) ?js"
    unfolding jobs_for_routing_def
    by (rule jobs_from_all) (auto simp: routed_job_def investigation_of_def str_or_def)
  have len: "length ticks = length ?js" using assms(3) per by (metis length_map)
  have "completed_in tenant (str_or corr ev) w1 = completed_in tenant (str_or corr ev) w"
    by (rule completed_cong) (simp add: w1 persist_inv)
  with chain_runs[OF assms(1) q ch len al] show ?thesis
    by (simp add: assms(5) per ids o_def)
qed

theorem sequential_plan_drains_witness:
  "\<exists>w2 results. process_all (demo_worker_env id [(''summary'', PStr ''ok'')]) [demo_tick, demo_tick]
       (fst (enqueue_from_routing nat_str ''e1'' [''intel'', ''soc''] [] [] [] ''default'' True demo_ww)) = (w2, results)
     \<and> ww_queue w2 = [] \<and> map (map_option res_job_id) results = [Some ''intel-e1-0'', Some ''soc-e1-1'']
     \<and> set (completed_in ''default'' ''e1'' w2) = {''intel'', ''soc''}"
proof -
  let ?E = "demo_worker_env id [(''summary'', PStr ''ok'')]"
  define x where "x = enqueue_from_routing nat_str ''e1'' [''intel'', ''soc''] [] [] [] ''default'' True demo_ww"
  define y where "y = process_all ?E [demo_tick, demo_tick] (fst x)"
  have q: "ww_queue demo_ww = []" by (simp add: demo_ww_def empty_world_def)
  have i: "snd x = [''intel-e1-0'', ''soc-e1-1'']"
  proof -
    have "nat_str 0 = ''0''" "nat_str 1 = ''1''" by code_simp+
    then show ?thesis by (simp add: x_def enqueue_from_routing_def jobs_for_routing_def routed_job_def)
  qed
  have c: "completed_in ''default'' ''e1'' demo_ww = []" by (simp add: demo_ww_def empty_world_def completed_in_def inv_get_def)
  have y: "process_all ?E [demo_tick, demo_tick] (fst x) = (fst y, snd y)" by (simp add: y_def)
  have x: "enqueue_from_routing nat_str ''e1'' [''intel'', ''soc''] [] [] [] ''default'' True demo_ww = (fst x, snd x)"
    by (simp add: x_def)
  have l: "length [demo_tick, demo_tick] = length [''intel'', ''soc'']" by simp
  note t = sequential_plan_drains[OF demo_keeps_schedule q l x y]
  show ?thesis
    by (intro exI conjI, rule y[unfolded x_def]) (use t i c in \<open>simp_all add: str_or_def\<close>)
qed

text \<open>A job whose dependency is not done is never run and never given up: with nothing else in the
  queue, every call of process_next leaves the whole world as it was and reports the missing dependency,
  so a worker spins on it for ever.\<close>

theorem missing_dependency_spins:
  assumes "ww_queue w = [job]" and "job_depends_on job \<noteq> []"
    and "job_depends_on job \<notin> set (completed_in (job_tenant_id job) (str_or (job_correlation_id job) (job_event_id job)) w)"
  shows "process_all E ticks w = (w, replicate (length ticks) (Some (not_ready_result job)))"
proof -
  have nr: "\<not> ready job (w\<lparr>ww_queue := []\<rparr>)"
    using assms(2,3) by (simp add: ready_def completed_in_def investigation_of_def)
  have "process_next E t w = (w, Some (not_ready_result job))" for t
    using run_job_not_ready[OF nr] assms(1) by (simp add: process_next_def enqueue_def)
  then show ?thesis by (induction ticks) simp_all
qed

theorem missing_dependency_spins_witness:
  "process_all (demo_worker_env id []) [demo_tick, demo_tick]
      (demo_ww\<lparr>ww_queue := [(demo_job ''j2'' ''intel'')\<lparr>job_depends_on := ''soc''\<rparr>]\<rparr>)
   = (demo_ww\<lparr>ww_queue := [(demo_job ''j2'' ''intel'')\<lparr>job_depends_on := ''soc''\<rparr>]\<rparr>,
      [Some (not_ready_result ((demo_job ''j2'' ''intel'')\<lparr>job_depends_on := ''soc''\<rparr>)),
       Some (not_ready_result ((demo_job ''j2'' ''intel'')\<lparr>job_depends_on := ''soc''\<rparr>))])"
proof -
  let ?j = "(demo_job ''j2'' ''intel'')\<lparr>job_depends_on := ''soc''\<rparr>"
  have "''soc'' \<notin> set (completed_in (job_tenant_id ?j) (str_or (job_correlation_id ?j) (job_event_id ?j)) (demo_ww\<lparr>ww_queue := [?j]\<rparr>))"
    by (simp add: demo_ww_def empty_world_def completed_in_def inv_get_def)
  then show ?thesis using missing_dependency_spins[of "demo_ww\<lparr>ww_queue := [?j]\<rparr>" ?j "demo_worker_env id []" "[demo_tick, demo_tick]"]
    by (simp add: numeral_2_eq_2)
qed

end
