(* ===== verification/Dispatch.thy ===== *)
theory Dispatch
  imports Orchestrator
begin

text \<open>From an event to jobs: cys_core/application/use_cases/plan_investigation.py (the planner),
  dispatch_event.py, route_and_enqueue.py and async_manual_investigation.py, over the router of
  Event_Routing and the enqueuer of Orchestrator. The planner's agent is the runtime of the worker
  environment; personas the resource source lists, settings and plan hints are arguments.\<close>

subsection \<open>Plans\<close>

record investigation_plan =
  ip_personas :: "string list"
  ip_sub_goals :: "string dict"
  ip_rationale :: string
  ip_depends_on :: "string list dict"
  ip_reasoning_steps :: "string list"
  ip_plan_status :: string

definition InvestigationPlan :: investigation_plan where
  "InvestigationPlan = \<lparr>ip_personas = [], ip_sub_goals = [], ip_rationale = [], ip_depends_on = [],
     ip_reasoning_steps = [], ip_plan_status = []\<rparr>"

record planner_env =
  pe_worker :: worker_env
  pe_resolver :: resolver
  pe_env_csv :: string
  pe_profile_id :: string
  pe_persona :: string
  pe_available :: "string list"

definition py_str :: "worker_env \<Rightarrow> pyval \<Rightarrow> string" where
  "py_str E v = (case v of PStr s \<Rightarrow> s | _ \<Rightarrow> we_str E v)"

definition event_investigation_id :: "security_event \<Rightarrow> string" where
  "event_investigation_id ev = str_or (ev_correlation_id ev) (ev_id ev)"

definition goal_from_event :: "worker_env \<Rightarrow> security_event \<Rightarrow> string" where
  "goal_from_event E ev = py_str E (get_or (ev_payload ev) ''goal''
     (get_or (ev_payload ev) ''message'' (PStr ''Investigate security incident'')))"

definition plan_for_all :: "string list \<Rightarrow> string \<Rightarrow> string \<Rightarrow> investigation_plan" where
  "plan_for_all personas goal rationale = InvestigationPlan\<lparr>ip_personas := personas,
     ip_sub_goals := fold (\<lambda>p. dput p goal) personas [], ip_rationale := rationale\<rparr>"

definition fallback_personas :: "planner_env \<Rightarrow> string \<Rightarrow> string list" where
  "fallback_personas P profile_id = planner_fallback_personas (pe_resolver P) profile_id (pe_env_csv P)"

definition planner_fallback_plan :: "planner_env \<Rightarrow> string \<Rightarrow> string \<Rightarrow> investigation_plan" where
  "planner_fallback_plan P goal rationale = plan_for_all (fallback_personas P (pe_profile_id P)) goal rationale"

subsection \<open>Parsing the planner's answer\<close>

definition plan_of_dict :: "worker_env \<Rightarrow> pyval list \<Rightarrow> payload \<Rightarrow> exc + investigation_plan" where
  "plan_of_dict E personas d = rbind (py_iter (get_or d ''reasoning_steps'' (PList []))) (\<lambda>steps.
     Inr (InvestigationPlan\<lparr>ip_personas := map (py_str E) personas,
       ip_sub_goals := (case get_or d ''sub_goals'' (PDict []) of
          PDict sg \<Rightarrow> map (\<lambda>(k, v). (k, py_str E v)) sg | _ \<Rightarrow> []),
       ip_rationale := py_str E (get_or d ''rationale'' (PStr [])),
       ip_reasoning_steps := map (py_str E) (filter truthy steps),
       ip_plan_status := py_str E (get_or d ''plan_status'' (PStr []))\<rparr>))"

text \<open>A raw response is decoded and parsed in turn; what json.loads gives may be anything, and
  only a dict has get. Python stops the nesting at its recursion limit.\<close>

definition RECURSION_LIMIT :: nat where
  "RECURSION_LIMIT = 1000"

definition plan_of_raw ::
  "(payload \<Rightarrow> exc + investigation_plan) \<Rightarrow> planner_env \<Rightarrow> string \<Rightarrow> pyval \<Rightarrow> exc + investigation_plan" where
  "plan_of_raw parse P goal raw = (
     if \<not> truthy raw then Inr (planner_fallback_plan P goal ''fallback_default_plan'')
     else (case raw of
         PStr s \<Rightarrow> (case we_loads (pe_worker P) s of
             None \<Rightarrow> Inr (planner_fallback_plan P goal ''fallback_default_plan'')
           | Some (PDict d) \<Rightarrow> parse d
           | Some v \<Rightarrow> Inl (key_error ''personas'' v))
       | _ \<Rightarrow> Inl (PyExc ''TypeError'')))"

primrec parse_plan :: "nat \<Rightarrow> planner_env \<Rightarrow> string \<Rightarrow> payload \<Rightarrow> exc + investigation_plan" where
  "parse_plan 0 P goal d = Inl (PyExc ''RecursionError'')"
| "parse_plan (Suc n) P goal d = (case dget d ''personas'' of
       Some (PList ps) \<Rightarrow> plan_of_dict (pe_worker P) ps d
     | _ \<Rightarrow> plan_of_raw (parse_plan n P goal) P goal (get_or d ''raw_response'' (PStr [])))"

subsection \<open>Planning\<close>

definition begin_planning :: "planner_env \<Rightarrow> security_event \<Rightarrow> worker_world \<Rightarrow> worker_world" where
  "begin_planning P ev w = (
     let goal = goal_from_event (pe_worker P) ev; iid = event_investigation_id ev;
         st = (case inv_get (ww_inv w) (ev_tenant_id ev, iid) of Some st \<Rightarrow> st
               | None \<Rightarrow> (InvestigationState iid (ev_tenant_id ev) Inv_in_progress)\<lparr>is_goal := goal\<rparr>) in
     w\<lparr>ww_inv := inv_upsert (st\<lparr>is_goal := goal, is_status := Inv_in_progress, is_planner_status := Some Pl_planning,
        is_planner_plan := None, is_planner_rationale := [], is_planner_error := []\<rparr>) (ww_inv w)\<rparr>)"

text \<open>The state object is the stored one, so what happened to it in between is kept.\<close>

definition apply_plan_to_state ::
  "string \<Rightarrow> string \<Rightarrow> investigation_plan \<Rightarrow> planner_status \<Rightarrow> string \<Rightarrow> worker_world \<Rightarrow> worker_world" where
  "apply_plan_to_state tenant iid plan status err w = (let st = inv_or_new (ww_inv w) tenant iid in
     w\<lparr>ww_inv := inv_put (tenant, iid) (st\<lparr>is_planner_plan := Some (ip_personas plan), is_planner_status := Some status,
        is_planner_rationale := ip_rationale plan, is_planner_error := err,
        is_status := (if is_status st = Inv_open then Inv_in_progress else is_status st)\<rparr>) (ww_inv w)\<rparr>)"

definition mark_planning :: "planner_env \<Rightarrow> security_event \<Rightarrow> worker_world \<Rightarrow> worker_world" where
  "mark_planning P ev w = (case inv_get (ww_inv w) (ev_tenant_id ev, event_investigation_id ev) of
     None \<Rightarrow> begin_planning P ev w
   | Some st \<Rightarrow> if is_planner_status st = Some Pl_planning then w
     else w\<lparr>ww_inv := inv_upsert (st\<lparr>is_planner_status := Some Pl_planning, is_planner_error := []\<rparr>) (ww_inv w)\<rparr>)"

definition planner_prompt :: "planner_env \<Rightarrow> security_event \<Rightarrow> string" where
  "planner_prompt P ev = we_dumps (pe_worker P) (PDict [(''goal'', PStr (goal_from_event (pe_worker P) ev)),
     (''event_type'', PStr (ev_type ev)), (''severity'', PStr (severity_value (ev_severity ev))),
     (''available_personas'', PList (map PStr (pe_available P))),
     (''instructions'', PStr (''Return JSON with keys: personas (ordered list), sub_goals (map persona->task), rationale. ''
        @ ''Use consultant alone for general IB advisory questions.''))])"

definition or_fallback :: "planner_env \<Rightarrow> string \<Rightarrow> string \<Rightarrow> investigation_plan \<Rightarrow> investigation_plan" where
  "or_fallback P goal rationale plan =
     (if ip_personas plan = [] then planner_fallback_plan P goal rationale else plan)"

text \<open>What is made of an answer: the known personas of the plan, ranked, those below the trust
  floor of the profile dropped.\<close>

definition refine_plan :: "planner_env \<Rightarrow> string \<Rightarrow> mem_catalog \<Rightarrow> investigation_plan \<Rightarrow> investigation_plan" where
  "refine_plan P goal catalog plan0 = (
     let p1 = or_fallback P goal ''fallback_default_plan'' plan0;
         p2 = p1\<lparr>ip_personas := filter (\<lambda>p. p \<in> set (pe_available P)) (ip_personas p1)\<rparr>;
         p3 = or_fallback P goal ''planner_invalid_personas_fallback'' p2;
         trust_floor = pol_trust_floor (policy_in (list_profiles catalog) (pe_profile_id P)) in
     p3\<lparr>ip_personas := rank_personas_by_quality (Some catalog) trust_floor (ip_personas p3)\<rparr>)"

definition planner_call :: "planner_env \<Rightarrow> security_event \<Rightarrow> arun_call" where
  "planner_call P ev = \<lparr>ac_persona = pe_persona P, ac_input = planner_prompt P ev,
     ac_session_id = ''planner:'' @ event_investigation_id ev, ac_tools = [], ac_sandbox_id = []\<rparr>"

definition plan_execute :: "planner_env \<Rightarrow> security_event \<Rightarrow> worker_world \<Rightarrow> worker_world \<times> investigation_plan" where
  "plan_execute P ev w = (
     let goal = goal_from_event (pe_worker P) ev; tenant = ev_tenant_id ev; iid = event_investigation_id ev;
         (w1, answer) = we_arun (pe_worker P) (planner_call P ev) (mark_planning P ev w);
         outcome = (case answer of Inl e \<Rightarrow> Inl (exc_text e)
           | Inr (PDict d) \<Rightarrow> (case parse_plan RECURSION_LIMIT P goal d of
               Inl e \<Rightarrow> Inl (exc_text (Exc e)) | Inr plan \<Rightarrow> Inr (refine_plan P goal (ww_catalog w1) plan))
           | Inr _ \<Rightarrow> Inl ''TypeError'') in
     case outcome of
       Inr plan \<Rightarrow> (apply_plan_to_state tenant iid plan Pl_ok [] w1, plan)
     | Inl err \<Rightarrow> (let plan = planner_fallback_plan P goal ''planner_unavailable_fallback'' in
         (apply_plan_to_state tenant iid plan Pl_fallback err w1, plan)))"

definition to_worker_jobs_payload :: "investigation_plan \<Rightarrow> payload" where
  "to_worker_jobs_payload plan = [(''planner_plan'', PList (map PStr (ip_personas plan))),
     (''sub_goals'', PDict (map (\<lambda>(k, v). (k, PStr v)) (ip_sub_goals plan))),
     (''rationale'', PStr (ip_rationale plan)),
     (''depends_on'', PDict (map (\<lambda>(k, v). (k, PList (map PStr v))) (ip_depends_on plan)))]"

subsection \<open>Dispatching\<close>

record dispatch_env =
  de_planner :: "planner_env option"
  de_plans :: "plan_config list"
  de_notify :: "string list"
  de_conductor :: bool
  de_manual_async :: bool
  de_hints :: pyval
  de_hex :: "nat \<Rightarrow> string"

text \<open>A merged dict: the right one wins, existing keys keep their place.\<close>

definition merge :: "payload \<Rightarrow> payload \<Rightarrow> payload" where
  "merge a b = fold (\<lambda>(k, v). dput k v) b a"

definition from_event :: "security_event \<Rightarrow> run_context" where
  "from_event ev = fill_correlation_key ((RunContext (event_investigation_id ev) EVENT)\<lparr>ctx_tenant_id := ev_tenant_id ev\<rparr>)"

definition enrich_payload_with_run_context :: "security_event \<Rightarrow> payload \<Rightarrow> payload" where
  "enrich_payload_with_run_context ev p = dput ''run_context'' (context_dump (from_event ev)) p"

definition apply_conductor_routing ::
  "dispatch_env \<Rightarrow> security_event \<Rightarrow> routing_decision \<Rightarrow> payload \<Rightarrow> routing_decision \<times> payload" where
  "apply_conductor_routing D ev decision p = (
     if \<not> de_conductor D \<or> rd_personas decision = [] then (decision, enrich_payload_with_run_context ev p)
     else ((RoutingDecision (rd_event_id decision))\<lparr>rd_personas := [''conductor''],
         rd_playbook_id := rd_playbook_id decision, rd_notify_control := rd_notify_control decision,
         rd_reason := ''conductor_meta_worker''\<rparr>,
       dput ''suggested_personas'' (PList (map PStr (rd_personas decision)))
         (dput ''routing_hints'' (de_hints D) (enrich_payload_with_run_context ev p))))"

definition manual_decision :: "security_event \<Rightarrow> string list \<Rightarrow> string \<Rightarrow> routing_decision" where
  "manual_decision ev personas reason = (RoutingDecision (ev_id ev))\<lparr>rd_personas := personas,
     rd_playbook_id := ''manual-investigation'', rd_notify_control := True, rd_reason := reason\<rparr>"

definition enqueue_plan ::
  "dispatch_env \<Rightarrow> security_event \<Rightarrow> payload \<Rightarrow> investigation_plan \<Rightarrow> bool \<Rightarrow> worker_world \<Rightarrow> worker_world \<times> string list" where
  "enqueue_plan D ev p plan sequential w = enqueue_from_routing (de_hex D) (ev_id ev) (ip_personas plan)
     ''manual-investigation'' (merge p (to_worker_jobs_payload plan)) (event_investigation_id ev)
     (ev_tenant_id ev) sequential w"

definition dispatch_routed ::
  "dispatch_env \<Rightarrow> security_event \<Rightarrow> payload \<Rightarrow> worker_world \<Rightarrow> worker_world \<times> routing_decision \<times> string list" where
  "dispatch_routed D ev p w = (let decision = route (de_plans D) (de_notify D) ev in
     if rd_personas decision = [] then (w, decision, [])
     else (let (d, enriched) = apply_conductor_routing D ev decision p;
               (w', ids) = enqueue_from_routing (de_hex D) (ev_id ev) (rd_personas d) (rd_playbook_id d) enriched
                 (event_investigation_id ev) (ev_tenant_id ev) False w
           in (w', d, ids)))"

text \<open>The sync path uses the fallback plan; its personas are those of the default profile.\<close>

definition sync_fallback_plan :: "planner_env \<Rightarrow> security_event \<Rightarrow> investigation_plan" where
  "sync_fallback_plan P ev = plan_for_all (fallback_personas P DEFAULT_PROFILE_ID)
     (goal_from_event (pe_worker P) ev) ''sync_fallback_plan''"

definition dispatch_sync ::
  "dispatch_env \<Rightarrow> security_event \<Rightarrow> payload \<Rightarrow> worker_world \<Rightarrow> worker_world \<times> routing_decision \<times> string list" where
  "dispatch_sync D ev p w = (case (ev_type ev = ''manual.investigation'', de_planner D) of
     (True, Some P) \<Rightarrow>
       (let plan = sync_fallback_plan P ev; (w', ids) = enqueue_plan D ev p plan True w
        in (w', manual_decision ev (ip_personas plan) ''llm_planner'', ids))
   | _ \<Rightarrow> dispatch_routed D ev p w)"

definition dispatch_async ::
  "dispatch_env \<Rightarrow> security_event \<Rightarrow> payload \<Rightarrow> worker_world \<Rightarrow> worker_world \<times> routing_decision \<times> string list" where
  "dispatch_async D ev p w = (case (ev_type ev = ''manual.investigation'', de_planner D) of
     (True, Some P) \<Rightarrow>
       if de_manual_async D then (begin_planning P ev w, manual_decision ev [] ''async_planner_pending'', [])
       else (let (w1, plan) = plan_execute P ev w;
                 (w2, ids) = enqueue_plan D ev p plan (ip_depends_on plan \<noteq> []) w1
             in (w2, manual_decision ev (ip_personas plan) ''llm_planner'', ids))
   | _ \<Rightarrow> dispatch_routed D ev p w)"

text \<open>The background task after an accepted request.\<close>

definition complete_manual_planning ::
  "dispatch_env \<Rightarrow> planner_env \<Rightarrow> security_event \<Rightarrow> payload \<Rightarrow> worker_world \<Rightarrow> worker_world \<times> string list" where
  "complete_manual_planning D P ev p w = (let (w1, plan) = plan_execute P ev w in enqueue_plan D ev p plan True w1)"

subsection \<open>Ingress\<close>

record ingress_env =
  ie_dispatch :: dispatch_env
  ie_use_kafka :: bool
  ie_publish :: "security_event \<Rightarrow> bool"

definition build_event ::
  "string \<Rightarrow> string \<Rightarrow> payload \<Rightarrow> string \<Rightarrow> string \<Rightarrow> string option \<Rightarrow> string \<Rightarrow> string \<Rightarrow> exc + security_event" where
  "build_event fresh event_type payload severity source event_id correlation_id tenant_id =
     (if event_type \<notin> set EVENT_TYPES then Inl (PyExc ''ValidationError'')
      else rbind (parse_severity severity) (\<lambda>sev. Inr
        \<lparr>ev_id = (case event_id of Some (c # cs) \<Rightarrow> c # cs | _ \<Rightarrow> ''evt-'' @ fresh), ev_type = event_type,
         ev_source = source, ev_severity = sev, ev_payload = payload, ev_tenant_id = tenant_id,
         ev_correlation_id = correlation_id\<rparr>))"

text \<open>A published event is only routed: its jobs are made by the consumer of the topic.\<close>

definition ingest ::
  "(security_event \<Rightarrow> payload \<Rightarrow> worker_world \<Rightarrow> worker_world \<times> routing_decision \<times> string list)
    \<Rightarrow> ingress_env \<Rightarrow> security_event \<Rightarrow> worker_world \<Rightarrow> worker_world \<times> routing_decision \<times> string list" where
  "ingest dispatch I ev w = (
     if ie_use_kafka I \<and> ie_publish I ev
     then (w, route (de_plans (ie_dispatch I)) (de_notify (ie_dispatch I)) ev, [])
     else dispatch ev (ev_payload ev) w)"

definition route_and_enqueue :: "ingress_env \<Rightarrow> security_event \<Rightarrow> worker_world \<Rightarrow> worker_world \<times> routing_decision \<times> string list" where
  "route_and_enqueue I = ingest (dispatch_sync (ie_dispatch I)) I"

definition aroute_and_enqueue :: "ingress_env \<Rightarrow> security_event \<Rightarrow> worker_world \<Rightarrow> worker_world \<times> routing_decision \<times> string list" where
  "aroute_and_enqueue I = ingest (dispatch_async (ie_dispatch I)) I"

subsection \<open>The jobs of a dispatch\<close>

text \<open>The jobs an enqueueing adds: one per persona, in order, in the event's investigation.\<close>

definition jobs_of :: "security_event \<Rightarrow> string list \<Rightarrow> worker_job list \<Rightarrow> bool" where
  "jobs_of ev personas js = (map job_persona js = personas
     \<and> list_all (\<lambda>j. job_tenant_id j = ev_tenant_id ev \<and> investigation_of j = event_investigation_id ev
          \<and> job_event_id j = ev_id ev \<and> job_status j = PENDING) js)"

definition unordered :: "worker_job list \<Rightarrow> bool" where
  "unordered js = list_all (\<lambda>j. job_depends_on j = []) js"

lemma jobs_from_unordered:
  "(\<And>n p. job_depends_on (mk n p) = []) \<Longrightarrow> unordered (jobs_from mk False n prev ps)"
  by (induction ps arbitrary: n prev) (auto simp: unordered_def)

lemma enqueue_jobs:
  assumes js_def: "js = jobs_for_routing hex (ev_id ev) personas pb pl (event_investigation_id ev) (ev_tenant_id ev) sq"
    and "enqueue_from_routing hex (ev_id ev) personas pb pl (event_investigation_id ev) (ev_tenant_id ev) sq w = (w', ids)"
  shows "ww_queue w' = ww_queue w @ js" and "ids = map job_id js" and "jobs_of ev personas js"
    and "sq \<Longrightarrow> chained [] js" and "\<not> sq \<Longrightarrow> unordered js"
proof -
  have e: "w' = persist_and_enqueue js w" "ids = map job_id js"
    using assms(2) by (simp_all add: enqueue_from_routing_def Let_def js_def)
  show "ww_queue w' = ww_queue w @ js" "ids = map job_id js" by (simp_all add: e persist_queue)
  have "map job_persona js = personas"
    unfolding js_def jobs_for_routing_def by (rule jobs_from_personas) (simp add: routed_job_def)
  moreover have "list_all (\<lambda>j. job_tenant_id j = ev_tenant_id ev \<and> investigation_of j = event_investigation_id ev
          \<and> job_event_id j = ev_id ev \<and> job_status j = PENDING) js"
    unfolding js_def jobs_for_routing_def
    by (rule jobs_from_all) (auto simp: routed_job_def investigation_of_def str_or_def event_investigation_id_def)
  ultimately show "jobs_of ev personas js" by (simp add: jobs_of_def)
  show "sq \<Longrightarrow> chained [] js"
    unfolding js_def jobs_for_routing_def by (simp, rule jobs_from_chained) (simp add: routed_job_def)
  show "\<not> sq \<Longrightarrow> unordered js"
    unfolding js_def jobs_for_routing_def by (simp, rule jobs_from_unordered) (simp add: routed_job_def)
qed

lemma enqueue_plan_jobs:
  assumes "enqueue_plan D ev p plan sq w = (w', ids)"
  shows "\<exists>js. ww_queue w' = ww_queue w @ js \<and> ids = map job_id js \<and> jobs_of ev (ip_personas plan) js
    \<and> (sq \<longrightarrow> chained [] js) \<and> (\<not> sq \<longrightarrow> unordered js)"
  using enqueue_jobs[OF refl assms[unfolded enqueue_plan_def]] by blast

lemma dispatch_routed_jobs:
  assumes "dispatch_routed D ev p w = (w', d, ids)"
  shows "\<exists>js. ww_queue w' = ww_queue w @ js \<and> ids = map job_id js \<and> jobs_of ev (rd_personas d) js \<and> unordered js"
proof (cases "rd_personas (route (de_plans D) (de_notify D) ev) = []")
  case True
  then show ?thesis using assms by (auto simp: dispatch_routed_def Let_def jobs_of_def unordered_def)
next
  case False
  obtain d1 pl where c: "apply_conductor_routing D ev (route (de_plans D) (de_notify D) ev) p = (d1, pl)" by fastforce
  obtain w1 ids1 where e: "enqueue_from_routing (de_hex D) (ev_id ev) (rd_personas d1) (rd_playbook_id d1) pl
      (event_investigation_id ev) (ev_tenant_id ev) False w = (w1, ids1)" by fastforce
  have "w' = w1" "d = d1" "ids = ids1" using assms False by (auto simp: dispatch_routed_def Let_def c e)
  then show ?thesis using enqueue_jobs[OF refl e] by blast
qed

lemma plan_of_dict_deps: "plan_of_dict E ps d = Inr plan \<Longrightarrow> ip_depends_on plan = []"
  by (auto simp: plan_of_dict_def InvestigationPlan_def rbind_Inr_iff)

lemma fallback_deps [simp]: "ip_depends_on (planner_fallback_plan P goal r) = []"
  by (simp add: planner_fallback_plan_def plan_for_all_def InvestigationPlan_def)

lemma plan_of_raw_deps:
  "plan_of_raw parse P goal raw = Inr plan \<Longrightarrow> (\<And>d. parse d = Inr plan \<Longrightarrow> ip_depends_on plan = []) \<Longrightarrow>
     ip_depends_on plan = []"
  unfolding plan_of_raw_def by (auto split: if_splits pyval.splits option.splits)

lemma parse_plan_deps: "parse_plan n P goal d = Inr plan \<Longrightarrow> ip_depends_on plan = []"
proof (induction n arbitrary: d)
  case (Suc n)
  show ?case
  proof (cases "\<exists>ps. dget d ''personas'' = Some (PList ps)")
    case True
    then show ?thesis using Suc.prems by (auto dest: plan_of_dict_deps)
  next
    case False
    then have "parse_plan (Suc n) P goal d = plan_of_raw (parse_plan n P goal) P goal (get_or d ''raw_response'' (PStr []))"
      by (simp split: option.split pyval.split)
    then show ?thesis using Suc.prems Suc.IH plan_of_raw_deps by metis
  qed
qed simp

lemma refine_plan_deps: "ip_depends_on plan = [] \<Longrightarrow> ip_depends_on (refine_plan P goal c plan) = []"
  by (simp add: refine_plan_def or_fallback_def Let_def)

lemma plan_execute_deps: "ip_depends_on (snd (plan_execute P ev w)) = []"
  by (auto simp: plan_execute_def Let_def split_beta refine_plan_deps dest: parse_plan_deps
      split: sum.split pyval.split)

text \<open>What the planner leaves behind.\<close>

lemma plan_execute_cases:
  obtains (planned) w1 plan where "plan_execute P ev w =
        (apply_plan_to_state (ev_tenant_id ev) (event_investigation_id ev) (refine_plan P (goal_from_event (pe_worker P) ev) (ww_catalog w1) plan) Pl_ok [] w1,
         refine_plan P (goal_from_event (pe_worker P) ev) (ww_catalog w1) plan)"
      and "w1 = fst (we_arun (pe_worker P) (planner_call P ev) (mark_planning P ev w))"
    | (unavailable) w1 err where "plan_execute P ev w =
        (apply_plan_to_state (ev_tenant_id ev) (event_investigation_id ev) (planner_fallback_plan P (goal_from_event (pe_worker P) ev) ''planner_unavailable_fallback'') Pl_fallback err w1,
         planner_fallback_plan P (goal_from_event (pe_worker P) ev) ''planner_unavailable_fallback'')"
      and "w1 = fst (we_arun (pe_worker P) (planner_call P ev) (mark_planning P ev w))"
proof (cases "we_arun (pe_worker P) (planner_call P ev) (mark_planning P ev w)")
  case (Pair w1 answer)
  define out where "out = (case answer of Inl e \<Rightarrow> Inl (exc_text e)
           | Inr (PDict d) \<Rightarrow> (case parse_plan RECURSION_LIMIT P (goal_from_event (pe_worker P) ev) d of
               Inl e \<Rightarrow> Inl (exc_text (Exc e)) | Inr plan \<Rightarrow> Inr (refine_plan P (goal_from_event (pe_worker P) ev) (ww_catalog w1) plan))
           | Inr _ \<Rightarrow> Inl ''TypeError'')"
  have ex: "plan_execute P ev w = (case out of
       Inr plan \<Rightarrow> (apply_plan_to_state (ev_tenant_id ev) (event_investigation_id ev) plan Pl_ok [] w1, plan)
     | Inl err \<Rightarrow> (let plan = planner_fallback_plan P (goal_from_event (pe_worker P) ev) ''planner_unavailable_fallback'' in
         (apply_plan_to_state (ev_tenant_id ev) (event_investigation_id ev) plan Pl_fallback err w1, plan)))"
    unfolding plan_execute_def Let_def Pair out_def by simp
  show thesis
  proof (cases out)
    case (Inl err)
    show thesis by (rule unavailable[of err w1]) (simp_all only: ex Inl sum.case Let_def Pair fst_conv)
  next
    case (Inr plan)
    then obtain plan0 where "plan = refine_plan P (goal_from_event (pe_worker P) ev) (ww_catalog w1) plan0"
      by (auto simp: out_def split: sum.splits pyval.splits)
    then show thesis by (intro planned[of w1 plan0]) (simp_all only: ex Inr sum.case Pair fst_conv)
  qed
qed

subsection \<open>What dispatching guarantees\<close>

text \<open>What an enqueueing of a decision adds to the end of the queue.\<close>

definition adds_jobs ::
  "security_event \<Rightarrow> routing_decision \<Rightarrow> string list \<Rightarrow> worker_world \<Rightarrow> worker_world \<Rightarrow> worker_job list \<Rightarrow> bool" where
  "adds_jobs ev d ids w w' js = (ww_queue w' = ww_queue w @ js \<and> ids = map job_id js \<and> jobs_of ev (rd_personas d) js)"

lemma routed_adds:
  "dispatch_routed D ev p w = (w', d, ids) \<Longrightarrow> \<exists>js. adds_jobs ev d ids w w' js \<and> unordered js"
  using dispatch_routed_jobs by (simp add: adds_jobs_def)

definition planned :: "dispatch_env \<Rightarrow> security_event \<Rightarrow> planner_env option" where
  "planned D ev = (if ev_type ev = ''manual.investigation'' then de_planner D else None)"

lemma dispatch_sync_jobs:
  assumes "dispatch_sync D ev p w = (w', d, ids)"
  shows "\<exists>js. adds_jobs ev d ids w w' js \<and> (if planned D ev \<noteq> None then chained [] js else unordered js)"
proof (cases "planned D ev")
  case (Some P)
  then have P: "ev_type ev = ''manual.investigation''" "de_planner D = Some P" by (auto simp: planned_def split: if_splits)
  obtain w1 ids1 where e: "enqueue_plan D ev p (sync_fallback_plan P ev) True w = (w1, ids1)" by fastforce
  have "w' = w1" "ids = ids1" "rd_personas d = ip_personas (sync_fallback_plan P ev)"
    using assms by (auto simp: dispatch_sync_def P Let_def e manual_decision_def)
  with enqueue_plan_jobs[OF e] Some show ?thesis by (auto simp: adds_jobs_def)
next
  case None
  then have "dispatch_sync D ev p w = dispatch_routed D ev p w"
    by (auto simp: planned_def dispatch_sync_def split: bool.split option.split if_splits)
  with assms routed_adds[of D ev p w] None show ?thesis by simp
qed

text \<open>The three ways of the asynchronous dispatch: routing, planning now, and leaving the plan to the background task.\<close>

lemma dispatch_async_jobs:
  assumes "dispatch_async D ev p w = (w', d, ids)"
  shows "case planned D ev of
       None \<Rightarrow> \<exists>js. adds_jobs ev d ids w w' js \<and> unordered js
     | Some P \<Rightarrow> if de_manual_async D
         then w' = begin_planning P ev w \<and> d = manual_decision ev [] ''async_planner_pending'' \<and> ids = []
         else d = manual_decision ev (ip_personas (snd (plan_execute P ev w))) ''llm_planner''
           \<and> (\<exists>js. adds_jobs ev d ids (fst (plan_execute P ev w)) w' js \<and> unordered js)"
proof (cases "planned D ev")
  case (Some P)
  then have P: "ev_type ev = ''manual.investigation''" "de_planner D = Some P" by (auto simp: planned_def split: if_splits)
  show ?thesis
  proof (cases "de_manual_async D")
    case True
    with assms Some P show ?thesis by (simp add: dispatch_async_def)
  next
    case False
    obtain w1 plan where pl: "plan_execute P ev w = (w1, plan)" by fastforce
    have dep: "ip_depends_on plan = []" using plan_execute_deps[of P ev w] by (simp add: pl)
    obtain w2 ids2 where e: "enqueue_plan D ev p plan False w1 = (w2, ids2)" by fastforce
    have "w' = w2" "ids = ids2" "d = manual_decision ev (ip_personas plan) ''llm_planner''"
      using assms False by (simp_all add: dispatch_async_def P pl dep e)
    with enqueue_plan_jobs[OF e] False Some show ?thesis by (auto simp: pl adds_jobs_def manual_decision_def)
  qed
next
  case None
  then have "dispatch_async D ev p w = dispatch_routed D ev p w"
    by (auto simp: planned_def dispatch_async_def split: bool.split option.split if_splits)
  with assms routed_adds[of D ev p w] None show ?thesis by simp
qed

lemma planning_keeps_queue [simp]: "ww_queue (begin_planning P ev w) = ww_queue w"
  by (simp add: begin_planning_def Let_def)

text \<open>C36: Every dispatch adds to the end of the queue exactly one pending job per persona of the decision it returns, in its
  order, in the event's tenant and investigation, and returns their ids. The jobs of a routed event wait for nothing. A
  manual investigation with a planner is dispatched synchronously as a chain of the fallback personas; asynchronously it
  is planned and its plan's jobs wait for nothing, or, when planning is left to the background task, its decision has no
  persona and nothing is enqueued until that task enqueues its plan as a chain. What the planner's own run does to the
  queue comes before.\<close>

theorem dispatch_enqueues_decision:
  assumes "dispatch_sync D ev p w = (w1, d1, ids1)" and "dispatch_async D ev p w = (w2, d2, ids2)"
  shows "(\<exists>js. adds_jobs ev d1 ids1 w w1 js
        \<and> (if ev_type ev = ''manual.investigation'' \<and> de_planner D \<noteq> None then chained [] js else unordered js))
    \<and> (case (if ev_type ev = ''manual.investigation'' then de_planner D else None) of
         None \<Rightarrow> \<exists>js. adds_jobs ev d2 ids2 w w2 js \<and> unordered js
       | Some P \<Rightarrow> (\<exists>js. adds_jobs ev d2 ids2 (if de_manual_async D then w else fst (plan_execute P ev w)) w2 js \<and> unordered js)
           \<and> rd_personas d2 = (if de_manual_async D then [] else ip_personas (snd (plan_execute P ev w)))
           \<and> (\<forall>w3 ids3. complete_manual_planning D P ev p w = (w3, ids3) \<longrightarrow>
               (\<exists>js. ww_queue w3 = ww_queue (fst (plan_execute P ev w)) @ js \<and> ids3 = map job_id js
                 \<and> jobs_of ev (ip_personas (snd (plan_execute P ev w))) js \<and> chained [] js)))"
proof -
  have sync: "\<exists>js. adds_jobs ev d1 ids1 w w1 js
      \<and> (if ev_type ev = ''manual.investigation'' \<and> de_planner D \<noteq> None then chained [] js else unordered js)"
    using dispatch_sync_jobs[OF assms(1)] by (auto simp: planned_def split: if_splits)
  have task: "\<exists>js. ww_queue w3 = ww_queue (fst (plan_execute P ev w)) @ js \<and> ids3 = map job_id js
      \<and> jobs_of ev (ip_personas (snd (plan_execute P ev w))) js \<and> chained [] js"
    if "complete_manual_planning D P ev p w = (w3, ids3)" for P w3 ids3
    using that enqueue_plan_jobs[of D ev p "snd (plan_execute P ev w)" True "fst (plan_execute P ev w)" w3 ids3]
    by (simp add: complete_manual_planning_def split_beta)
  have none: "adds_jobs ev (manual_decision ev [] r) [] w (begin_planning P ev w) []" for P r
    by (simp add: adds_jobs_def jobs_of_def manual_decision_def)
  show ?thesis
  proof (cases "planned D ev")
    case None
    with sync dispatch_async_jobs[OF assms(2)] show ?thesis by (simp add: planned_def)
  next
    case (Some P)
    have "(\<exists>js. adds_jobs ev d2 ids2 (if de_manual_async D then w else fst (plan_execute P ev w)) w2 js \<and> unordered js)
        \<and> rd_personas d2 = (if de_manual_async D then [] else ip_personas (snd (plan_execute P ev w)))"
    proof (cases "de_manual_async D")
      case True
      with dispatch_async_jobs[OF assms(2)] Some have "w2 = begin_planning P ev w" "d2 = manual_decision ev [] ''async_planner_pending''" "ids2 = []"
        by simp_all
      with none True show ?thesis by (auto simp: unordered_def manual_decision_def intro!: exI[of _ "[]"])
    next
      case False
      with dispatch_async_jobs[OF assms(2)] Some show ?thesis by (auto simp: manual_decision_def)
    qed
    with sync task Some show ?thesis by (simp add: planned_def split: if_splits)
  qed
qed

definition demo_event :: "string \<Rightarrow> security_event" where
  "demo_event kind = \<lparr>ev_id = ''e1'', ev_type = kind, ev_source = [], ev_severity = Sev_high, ev_payload = [],
     ev_tenant_id = ''default'', ev_correlation_id = []\<rparr>"

definition demo_planner :: planner_env where
  "demo_planner = \<lparr>pe_worker = demo_worker_env id [(''personas'', PList [PStr ''soc'', PStr ''intel''])],
     pe_resolver = \<lparr>rs_loader = None, rs_env = \<lparr>env_trace_critic_threshold = None, env_trace_critic_every_n_steps = None,
        env_trace_critic_rerun_max = None, env_delegate_budget_fraction = None, env_max_spawn_depth = None\<rparr>\<rparr>,
     pe_env_csv = ''soc,hunter'', pe_profile_id = ''cybersec-soc'', pe_persona = ''planner'',
     pe_available = [''intel'', ''soc'']\<rparr>"

definition demo_dispatch :: dispatch_env where
  "demo_dispatch = \<lparr>de_planner = Some demo_planner, de_plans = [], de_notify = [], de_conductor = False,
     de_manual_async = False, de_hints = PNone, de_hex = nat_str\<rparr>"

theorem dispatch_enqueues_decision_witness:
  "(\<exists>js. ww_queue (fst (dispatch_sync demo_dispatch (demo_event ''manual.investigation'') [] demo_ww)) = js
      \<and> map job_persona js = [''soc'', ''hunter''] \<and> chained [] js)
   \<and> (\<exists>js. ww_queue (fst (dispatch_async demo_dispatch (demo_event ''manual.investigation'') [] demo_ww))
        = ww_queue (fst (plan_execute demo_planner (demo_event ''manual.investigation'') demo_ww)) @ js
      \<and> map job_persona js = [''soc'', ''intel''] \<and> unordered js)"
proof -
  let ?ev = "demo_event ''manual.investigation''"
  obtain w1 d1 ids1 where x: "dispatch_sync demo_dispatch ?ev [] demo_ww = (w1, d1, ids1)" using prod_cases3 by blast
  obtain w2 d2 ids2 where y: "dispatch_async demo_dispatch ?ev [] demo_ww = (w2, d2, ids2)" using prod_cases3 by blast
  have "rd_personas (fst (snd (dispatch_sync demo_dispatch ?ev [] demo_ww))) = [''soc'', ''hunter'']" by code_simp
  then have d1: "rd_personas d1 = [''soc'', ''hunter'']" by (simp add: x)
  have plan: "ip_personas (snd (plan_execute demo_planner ?ev demo_ww)) = [''soc'', ''intel'']" by code_simp
  have q: "ww_queue demo_ww = []" by (simp add: demo_ww_def empty_world_def)
  have e: "ev_type ?ev = ''manual.investigation''" "de_planner demo_dispatch = Some demo_planner" "\<not> de_manual_async demo_dispatch"
    by (simp_all add: demo_event_def demo_dispatch_def)
  from dispatch_enqueues_decision[OF x y] e have
    "\<exists>js. adds_jobs ?ev d1 ids1 demo_ww w1 js \<and> chained [] js"
    "\<exists>js. adds_jobs ?ev d2 ids2 (fst (plan_execute demo_planner ?ev demo_ww)) w2 js \<and> unordered js"
    "rd_personas d2 = [''soc'', ''intel'']" by (simp_all add: plan)
  with d1 q show ?thesis by (auto simp: adds_jobs_def jobs_of_def x y)
qed

text \<open>The documented sequential chain of a manual investigation is not what the asynchronous
  dispatch makes: the planner never fills the dependencies of its plan, so its jobs are enqueued without
  any ordering, while the same plan enqueued by the background task is a chain in plan order.\<close>

theorem async_manual_plan_unordered:
  assumes "ev_type ev = ''manual.investigation''" and "de_planner D = Some P" and "\<not> de_manual_async D"
    and "dispatch_async D ev p w = (w2, d, ids)" and "complete_manual_planning D P ev p w = (w3, ids3)"
  shows "\<exists>js js3. ww_queue w2 = ww_queue (fst (plan_execute P ev w)) @ js \<and> unordered js
     \<and> jobs_of ev (ip_personas (snd (plan_execute P ev w))) js
     \<and> ww_queue w3 = ww_queue (fst (plan_execute P ev w)) @ js3 \<and> chained [] js3
     \<and> jobs_of ev (ip_personas (snd (plan_execute P ev w))) js3"
proof -
  obtain w1 plan where pl: "plan_execute P ev w = (w1, plan)" by fastforce
  have dep: "ip_depends_on plan = []" using plan_execute_deps[of P ev w] by (simp add: pl)
  obtain wa idsa where a: "enqueue_plan D ev p plan False w1 = (wa, idsa)" by fastforce
  have "w2 = wa" using assms(1-4) by (simp add: dispatch_async_def pl dep a)
  moreover have b: "enqueue_plan D ev p plan True w1 = (w3, ids3)"
    using assms(5) by (simp add: complete_manual_planning_def pl)
  ultimately show ?thesis using enqueue_plan_jobs[OF a] enqueue_plan_jobs[OF b] by (auto simp: pl)
qed

theorem async_manual_plan_unordered_witness:
  "\<exists>js. ww_queue (fst (dispatch_async demo_dispatch (demo_event ''manual.investigation'') [] demo_ww))
       = ww_queue (fst (plan_execute demo_planner (demo_event ''manual.investigation'') demo_ww)) @ js
     \<and> map job_persona js = [''soc'', ''intel''] \<and> unordered js"
proof -
  let ?ev = "demo_event ''manual.investigation''"
  obtain w2 d ids where x: "dispatch_async demo_dispatch ?ev [] demo_ww = (w2, d, ids)" using prod_cases3 by blast
  obtain w3 ids3 where y: "complete_manual_planning demo_dispatch demo_planner ?ev [] demo_ww = (w3, ids3)" by fastforce
  have e: "ev_type ?ev = ''manual.investigation''" "de_planner demo_dispatch = Some demo_planner" "\<not> de_manual_async demo_dispatch"
    by (simp_all add: demo_event_def demo_dispatch_def)
  have "ip_personas (snd (plan_execute demo_planner ?ev demo_ww)) = [''soc'', ''intel'']" by code_simp
  with async_manual_plan_unordered[OF e x y] show ?thesis by (auto simp: x jobs_of_def)
qed

text \<open>Planning always ends: the investigation records the plan that is returned, with status ok
  or fallback. An ok plan names only personas at or above the trust floor of the profile, so it is empty,
  and still ok, when no candidate reaches the floor; a fallback plan is the configured personas, whatever
  their trust.\<close>

theorem planner_settles:
  assumes "plan_execute P ev w = (w', plan)"
    and "inv_get (ww_inv w') (ev_tenant_id ev, event_investigation_id ev) = Some st"
  shows "is_planner_plan st = Some (ip_personas plan) \<and> is_planner_rationale st = ip_rationale plan
    \<and> ((is_planner_status st = Some Pl_ok \<and> is_planner_error st = []
         \<and> (\<exists>c p0. plan = refine_plan P (goal_from_event (pe_worker P) ev) c p0
           \<and> (\<forall>p \<in> set (ip_personas plan). pol_trust_floor (policy_in (list_profiles c) (pe_profile_id P)) \<le> persona_trust_score p (Some c))))
       \<or> (is_planner_status st = Some Pl_fallback \<and> ip_personas plan = fallback_personas P (pe_profile_id P)))"
proof (cases rule: plan_execute_cases[of P ev w])
  case (planned w1 plan0)
  have "pol_trust_floor (policy_in (list_profiles (ww_catalog w1)) (pe_profile_id P)) \<le> persona_trust_score p (Some (ww_catalog w1))"
    if "p \<in> set (ip_personas (refine_plan P (goal_from_event (pe_worker P) ev) (ww_catalog w1) plan0))" for p
    using that by (simp add: refine_plan_def Let_def rank_personas_iff)
  then show ?thesis using assms planned(1)
    by (auto simp: apply_plan_to_state_def Let_def inv_get_put)
next
  case (unavailable w1 err)
  then show ?thesis using assms
    by (auto simp: apply_plan_to_state_def Let_def inv_get_put planner_fallback_plan_def plan_for_all_def InvestigationPlan_def)
qed

definition distrusted :: agent_entry where
  "distrusted = (AgentCatalogEntry ''soc'' 0)\<lparr>ag_quality := PersonaQuality\<lparr>pq_empirical_trust := 1/10\<rparr>\<rparr>"

theorem planner_settles_witness:
  "\<exists>st. inv_get (ww_inv (fst (plan_execute (demo_planner\<lparr>pe_available := [''soc'']\<rparr>) (demo_event ''manual.investigation'')
        (demo_ww\<lparr>ww_catalog := upsert_agent distrusted InMemoryAgentCatalog\<rparr>)))) (''default'', ''e1'') = Some st
     \<and> is_planner_plan st = Some [] \<and> is_planner_status st = Some Pl_ok"
proof -
  let ?P = "demo_planner\<lparr>pe_available := [''soc'']\<rparr>" and ?ev = "demo_event ''manual.investigation''"
  let ?x = "plan_execute ?P ?ev (demo_ww\<lparr>ww_catalog := upsert_agent distrusted InMemoryAgentCatalog\<rparr>)"
  have "map_option is_planner_status (inv_get (ww_inv (fst ?x)) (''default'', ''e1'')) = Some (Some Pl_ok)
      \<and> ip_personas (snd ?x) = []" by code_simp
  then obtain st where st: "inv_get (ww_inv (fst ?x)) (''default'', ''e1'') = Some st" "is_planner_status st = Some Pl_ok"
      "ip_personas (snd ?x) = []" by auto
  have k: "(ev_tenant_id ?ev, event_investigation_id ?ev) = (''default'', ''e1'')"
    by (simp add: demo_event_def event_investigation_id_def str_or_def)
  from planner_settles[OF surjective_pairing[of ?x]] st show ?thesis unfolding k by auto
qed

end
