(* ===== verification/Rag.thy ===== *)
theory Rag
  imports Sanitizer
begin

text \<open>Data classification and retrieval: cys_core/domain/security/classification.py,
  cys_core/domain/rag/models.py and interfaces/rag (retrieve.py, store.py and the
  ingest pipeline). The fuzzy match score of the in-memory store and the digest of
  a document are parameters.\<close>

subsection \<open>Classification\<close>

fun class_index :: "data_classification \<Rightarrow> nat" where
  "class_index PUBLIC = 0"
| "class_index INTERNAL = 1"
| "class_index CONFIDENTIAL = 2"
| "class_index RESTRICTED = 3"

lemma class_index_inj [simp]: "class_index a = class_index b \<longleftrightarrow> a = b"
  by (cases a; cases b) auto

lemma class_index_le_3: "class_index a \<le> 3"
  by (cases a) auto

lemma class_index_3 [simp]: "3 \<le> class_index a \<longleftrightarrow> a = RESTRICTED"
  by (cases a) auto

instantiation data_classification :: linorder
begin

definition less_eq_data_classification :: "data_classification \<Rightarrow> data_classification \<Rightarrow> bool" where
  "less_eq_data_classification a b = (class_index a \<le> class_index b)"

definition less_data_classification :: "data_classification \<Rightarrow> data_classification \<Rightarrow> bool" where
  "less_data_classification a b = (class_index a < class_index b)"

instance
  by standard (auto simp: less_eq_data_classification_def less_data_classification_def)

end

lemmas class_order = less_eq_data_classification_def less_data_classification_def

text \<open>The catalog lookup of an agent may raise or find nothing.\<close>

type_synonym agent_read = "string \<Rightarrow> string + agent_entry option"

definition persona_clearance_for ::
  "agent_read \<Rightarrow> string \<Rightarrow> agent_entry option \<Rightarrow> string + data_classification" where
  "persona_clearance_for agents persona entry = persona_clearance_pure persona
     (case entry of Some e \<Rightarrow> Some e
      | None \<Rightarrow> (case agents persona of Inr r \<Rightarrow> r | Inl _ \<Rightarrow> None))"

record secure_ctx =
  sc_persona :: string
  sc_tenant :: string
  sc_roles :: "string list"

definition ctx_clearance :: "agent_read \<Rightarrow> secure_ctx \<Rightarrow> string + data_classification" where
  "ctx_clearance agents ctx = persona_clearance_for agents (sc_persona ctx) None"

text \<open>The Cyrillic keyword of the first test has no character below 256 and cannot
  occur in the strings of this model.\<close>

definition classify_text :: "string \<Rightarrow> data_classification" where
  "classify_text text = (let l = lower text in
     if list_ex (contains l) [''ssn'', ''passport'', ''credit card''] then RESTRICTED
     else if list_ex (contains l) [''password'', ''api_key'', ''secret'', ''token''] then CONFIDENTIAL
     else if list_ex (contains l) [''internal only'', ''confidential''] then CONFIDENTIAL
     else INTERNAL)"

definition can_access :: "agent_read \<Rightarrow> secure_ctx \<Rightarrow> data_classification \<Rightarrow> string + bool" where
  "can_access agents ctx c =
     rbind (ctx_clearance agents ctx) (\<lambda>clr. Inr (class_index c \<le> class_index clr))"

definition include_in_context :: "agent_read \<Rightarrow> secure_ctx \<Rightarrow> data_classification \<Rightarrow> string + bool" where
  "include_in_context agents ctx c = (if c = RESTRICTED
     then rbind (ctx_clearance agents ctx) (\<lambda>clr. Inr (clr = RESTRICTED))
     else can_access agents ctx c)"

definition redact_for_output ::
  "agent_read \<Rightarrow> secure_ctx \<Rightarrow> string \<Rightarrow> data_classification \<Rightarrow> string + string" where
  "redact_for_output agents ctx text c = rbind (include_in_context agents ctx c)
     (\<lambda>ok. Inr (if ok then text else ''[REDACTED_CLASSIFICATION]''))"

definition log_allowed :: "data_classification \<Rightarrow> bool" where
  "log_allowed c = (c \<noteq> RESTRICTED)"

definition class_of_value :: "pyval \<Rightarrow> string + data_classification" where
  "class_of_value v = (case v of PStr s \<Rightarrow> DataClassification s | _ \<Rightarrow> Inl ''ValueError'')"

definition apply_protection ::
  "agent_read \<Rightarrow> (pyval \<Rightarrow> string) \<Rightarrow> secure_ctx \<Rightarrow> payload \<Rightarrow> string + payload" where
  "apply_protection agents str ctx p =
     rbind (class_of_value (get_or p ''classification'' (PStr (class_value INTERNAL)))) (\<lambda>c.
       rbind (include_in_context agents ctx c) (\<lambda>ok.
         if ok then Inr p
         else rbind (redact_for_output agents ctx (str (get_or p ''text'' (PStr []))) c)
           (\<lambda>red. Inr (dput ''redacted'' (PBool True) (dput ''text'' (PStr red) p)))))"

subsection \<open>Chunks and the in-memory store\<close>

record chunk_acl =
  acl_tenant :: string
  acl_classification :: data_classification
  acl_roles :: "string list"
  acl_owner :: string

record provenance =
  pv_source_id :: string
  pv_source_name :: string
  pv_uploaded_by :: string
  pv_content_hash :: string
  pv_approved :: bool
  pv_metadata :: payload

record rag_chunk =
  chunk_id :: string
  chunk_text :: string
  chunk_acl_of :: chunk_acl
  chunk_provenance :: provenance
  token_estimate :: int

record retrieval_result =
  rr_query :: string
  rr_chunks :: "rag_chunk list"
  rr_denied_count :: int
  rr_fail_closed :: bool
  rr_error :: string

type_synonym vector_store = "rag_chunk list"

definition vs_upsert :: "rag_chunk list \<Rightarrow> vector_store \<Rightarrow> vector_store \<times> int" where
  "vs_upsert chunks store = (store @ chunks, int (length chunks))"

definition vs_search :: "(string \<Rightarrow> string \<Rightarrow> rat) \<Rightarrow> vector_store \<Rightarrow> string \<Rightarrow> int \<Rightarrow> rag_chunk list" where
  "vs_search ratio store query limit = (
     let scored = map (\<lambda>c. (ratio (lower query) (lower (chunk_text c)), c)) store;
         ranked = sort_key (\<lambda>item. - fst item) scored
     in map snd (filter (\<lambda>item. fst item > 0) (py_take limit ranked)))"

definition vs_delete_tenant :: "string \<Rightarrow> vector_store \<Rightarrow> vector_store \<times> int" where
  "vs_delete_tenant tenant store = (
     let kept = filter (\<lambda>c. acl_tenant (chunk_acl_of c) \<noteq> tenant) store
     in (kept, int (length store) - int (length kept)))"

subsection \<open>Retrieval\<close>

definition acl_allows ::
  "agent_read \<Rightarrow> secure_ctx \<Rightarrow> string list \<Rightarrow> chunk_acl \<Rightarrow> string + bool" where
  "acl_allows agents ctx persona_roles acl = (
     if acl_tenant acl \<noteq> sc_tenant ctx \<and> sc_tenant ctx \<noteq> ''default'' then Inr False
     else rbind (can_access agents ctx (acl_classification acl)) (\<lambda>ok.
       if \<not> ok then Inr False
       else if acl_roles acl \<noteq> [] \<and> persona_roles \<noteq> []
       then Inr (list_ex (\<lambda>r. r \<in> set persona_roles) (acl_roles acl))
       else Inr True))"

text \<open>The loop over the candidates: collected chunks and the number of refusals.\<close>

fun rag_scan :: "agent_read \<Rightarrow> secure_ctx \<Rightarrow> string list \<Rightarrow> int \<Rightarrow> rag_chunk list \<Rightarrow> int
    \<Rightarrow> rag_chunk list \<Rightarrow> string + rag_chunk list \<times> int" where
  "rag_scan agents ctx roles limit allowed denied [] = Inr (allowed, denied)"
| "rag_scan agents ctx roles limit allowed denied (c # cs) =
     rbind (acl_allows agents ctx roles (chunk_acl_of c)) (\<lambda>ok.
       rbind (if ok then include_in_context agents ctx (acl_classification (chunk_acl_of c)) else Inr False)
         (\<lambda>inc. let allowed' = (if ok \<and> inc then allowed @ [c] else allowed);
                    denied' = (if ok then denied else denied + 1) in
            if int (length allowed') \<ge> limit then Inr (allowed', denied')
            else rag_scan agents ctx roles limit allowed' denied' cs))"

definition rag_query ::
  "agent_read \<Rightarrow> (string \<Rightarrow> int \<Rightarrow> string + rag_chunk list) \<Rightarrow> int \<Rightarrow> string \<Rightarrow> string \<Rightarrow> string
    \<Rightarrow> string list option \<Rightarrow> int option \<Rightarrow> string + retrieval_result" where
  "rag_query agents search dflt_limit query persona tenant roles max_chunks = (
     if strip query = [] then
       Inr \<lparr>rr_query = query, rr_chunks = [], rr_denied_count = 0, rr_fail_closed = True,
            rr_error = ''empty query''\<rparr>
     else let
       limit = num_or max_chunks dflt_limit;
       rs = (case roles of Some (r # rs) \<Rightarrow> r # rs | _ \<Rightarrow> [''analyst'']);
       ctx = \<lparr>sc_persona = persona, sc_tenant = tenant, sc_roles = rs\<rparr> in
     (case search query (limit * 3) of
        Inl e \<Rightarrow> Inr \<lparr>rr_query = query, rr_chunks = [], rr_denied_count = 0, rr_fail_closed = True,
                    rr_error = ''retrieval failed: '' @ e\<rparr>
      | Inr candidates \<Rightarrow> rbind (rag_scan agents ctx rs limit [] 0 candidates) (\<lambda>(allowed, denied).
          if allowed = [] then
            Inr \<lparr>rr_query = query, rr_chunks = [], rr_denied_count = denied, rr_fail_closed = True,
                 rr_error = ''no ACL-authorized chunks retrieved''\<rparr>
          else Inr \<lparr>rr_query = query, rr_chunks = allowed, rr_denied_count = denied,
                 rr_fail_closed = False, rr_error = []\<rparr>)))"

definition wrap_retrieved_chunks :: "rag_chunk list \<Rightarrow> string" where
  "wrap_retrieved_chunks chunks = wrap_retrieved_chunks_body
     (py_join (newline @ newline @ ''---'' @ newline @ newline) (map chunk_text chunks))"

subsection \<open>Ingest\<close>

text \<open>text.split on an empty line, non-overlapping from the left.\<close>

fun split_paras :: "string \<Rightarrow> string list" where
  "split_paras [] = [[]]"
| "split_paras [c] = [[c]]"
| "split_paras (a # b # s) = (if a = nl \<and> b = nl then [] # split_paras s
     else (case split_paras (b # s) of [] \<Rightarrow> [[a]] | w # ws \<Rightarrow> (a # w) # ws))"

definition paragraphs_of :: "string \<Rightarrow> string list" where
  "paragraphs_of text = (
     let ps = map strip (filter (\<lambda>p. strip p \<noteq> []) (split_paras text)) in
     if ps \<noteq> [] then ps else if strip text \<noteq> [] then [strip text] else [])"

primrec chunk_buffers :: "int \<Rightarrow> string \<Rightarrow> string list \<Rightarrow> string list" where
  "chunk_buffers max_chars buffer [] = (if buffer \<noteq> [] then [buffer] else [])"
| "chunk_buffers max_chars buffer (p # ps) = (
     let candidate = (if buffer \<noteq> [] then strip (buffer @ newline @ newline @ p) else p) in
     if int (length candidate) > max_chars \<and> buffer \<noteq> []
     then buffer # chunk_buffers max_chars p ps
     else chunk_buffers max_chars candidate ps)"

definition make_chunk ::
  "string \<Rightarrow> string \<Rightarrow> provenance \<Rightarrow> string \<Rightarrow> data_classification \<Rightarrow> string list \<Rightarrow> rag_chunk" where
  "make_chunk cid text pv tenant c roles = \<lparr>chunk_id = cid, chunk_text = text,
     chunk_acl_of = \<lparr>acl_tenant = tenant, acl_classification = c, acl_roles = roles,
       acl_owner = pv_uploaded_by pv\<rparr>,
     chunk_provenance = pv, token_estimate = max 1 (int (length text) div 4)\<rparr>"

text \<open>The ids of the chunks are fresh 0, fresh 1 and so on.\<close>

definition chunk_document ::
  "(nat \<Rightarrow> string) \<Rightarrow> string \<Rightarrow> provenance \<Rightarrow> string \<Rightarrow> data_classification \<Rightarrow> string list
    \<Rightarrow> int \<Rightarrow> rag_chunk list" where
  "chunk_document fresh text pv tenant c roles max_chars = (
     let rs = (if roles \<noteq> [] then roles else [''analyst'']);
         detected = classify_text text;
         effective = (if class_index detected > class_index c then detected else c);
         bufs = chunk_buffers max_chars [] (paragraphs_of text)
     in map (\<lambda>(i, b). make_chunk (fresh i) b pv tenant effective rs) (zip [0..<length bufs] bufs))"

record scan_result =
  sr_content_hash :: string
  sr_approved :: bool
  sr_verdict :: verdict
  sr_reason :: string

definition scan_document :: "detector \<Rightarrow> (string \<Rightarrow> string) \<Rightarrow> string \<Rightarrow> scan_result" where
  "scan_document d sha256 text = (
     let v = classify d text in
     if v = V_HARD then \<lparr>sr_content_hash = sha256 text, sr_approved = False, sr_verdict = v,
         sr_reason = ''hard injection detected at ingest''\<rparr>
     else (case sanitize d Src_external text of
         Inl e \<Rightarrow> \<lparr>sr_content_hash = sha256 text, sr_approved = False, sr_verdict = V_HARD, sr_reason = e\<rparr>
       | Inr _ \<Rightarrow> \<lparr>sr_content_hash = sha256 text, sr_approved = True, sr_verdict = v, sr_reason = []\<rparr>))"

subsection \<open>What retrieval guarantees\<close>

definition chunk_visible ::
  "agent_read \<Rightarrow> secure_ctx \<Rightarrow> string list \<Rightarrow> rag_chunk \<Rightarrow> bool" where
  "chunk_visible agents ctx roles c = (
     let acl = chunk_acl_of c in
     (sc_tenant ctx = ''default'' \<or> acl_tenant acl = sc_tenant ctx)
     \<and> (\<exists>clr. ctx_clearance agents ctx = Inr clr \<and> acl_classification acl \<le> clr)
     \<and> (acl_roles acl = [] \<or> roles = [] \<or> set (acl_roles acl) \<inter> set roles \<noteq> {}))"

lemma acl_allows_visible: "acl_allows agents ctx roles (chunk_acl_of c) = Inr True \<Longrightarrow> chunk_visible agents ctx roles c"
  by (auto simp: acl_allows_def chunk_visible_def can_access_def result_simps class_order list_ex_iff
      split: if_splits)

lemma rag_scan_visible:
  "rag_scan agents ctx roles limit allowed denied cs = Inr (al, de) \<Longrightarrow>
     \<forall>c \<in> set al. c \<in> set allowed \<or> c \<in> set cs \<and> chunk_visible agents ctx roles c"
proof (induction cs arbitrary: allowed denied)
  case (Cons c cs)
  from Cons.prems obtain ok inc where ok: "acl_allows agents ctx roles (chunk_acl_of c) = Inr ok"
    and rest: "(let allowed' = (if ok \<and> inc then allowed @ [c] else allowed);
                    denied' = (if ok then denied else denied + 1) in
            if int (length allowed') \<ge> limit then Inr (allowed', denied')
            else rag_scan agents ctx roles limit allowed' denied' cs) = Inr (al, de)"
    by (auto simp: result_simps)
  have vis: "ok \<Longrightarrow> chunk_visible agents ctx roles c" using ok acl_allows_visible by simp
  show ?case using rest vis Cons.IH by (fastforce simp: Let_def split: if_splits)
qed auto

lemma rag_scan_length:
  "rag_scan agents ctx roles limit allowed denied cs = Inr (al, de) \<Longrightarrow>
     int (length allowed) < limit \<Longrightarrow> int (length al) \<le> limit"
proof (induction cs arbitrary: allowed denied)
  case (Cons c cs)
  from Cons.prems(1) obtain ok inc where
    rest: "(let allowed' = (if ok \<and> inc then allowed @ [c] else allowed);
                    denied' = (if ok then denied else denied + 1) in
            if int (length allowed') \<ge> limit then Inr (allowed', denied')
            else rag_scan agents ctx roles limit allowed' denied' cs) = Inr (al, de)"
    by (auto simp: result_simps)
  let ?al = "if ok \<and> inc then allowed @ [c] else allowed"
  have "int (length ?al) \<le> limit" using Cons.prems(2) by auto
  then show ?case using rest Cons.IH[of ?al] by (fastforce simp: Let_def split: if_splits)
qed auto

lemma rag_query_chunks:
  assumes "rag_query agents search dflt query persona tenant roles mx = Inr r" and "c \<in> set (rr_chunks r)"
  defines "rs \<equiv> (case roles of Some (x # xs) \<Rightarrow> x # xs | _ \<Rightarrow> [''analyst''])"
  shows "chunk_visible agents \<lparr>sc_persona = persona, sc_tenant = tenant, sc_roles = rs\<rparr> rs c
     \<and> (\<exists>cands. search query (num_or mx dflt * 3) = Inr cands \<and> c \<in> set cands)"
proof -
  let ?ctx = "\<lparr>sc_persona = persona, sc_tenant = tenant, sc_roles = rs\<rparr>"
  from assms(1,2) obtain cands al de where
    s: "search query (num_or mx dflt * 3) = Inr cands"
    and sc: "rag_scan agents ?ctx rs (num_or mx dflt) [] 0 cands = Inr (al, de)" and c: "c \<in> set al"
    unfolding rag_query_def rs_def[symmetric] Let_def
    by (auto simp: result_simps split: if_splits sum.splits)
  from rag_scan_visible[OF sc] c have "c \<in> set cands \<and> chunk_visible agents ?ctx rs c" by auto
  with s show ?thesis by blast
qed

lemma rag_query_fail_closed:
  "rag_query agents search dflt query persona tenant roles mx = Inr r \<Longrightarrow>
     rr_fail_closed r \<longleftrightarrow> rr_chunks r = []"
  unfolding rag_query_def Let_def by (auto simp: result_simps split: if_splits sum.splits)

lemma rag_query_length:
  "rag_query agents search dflt query persona tenant roles mx = Inr r \<Longrightarrow> 0 < num_or mx dflt \<Longrightarrow>
     int (length (rr_chunks r)) \<le> num_or mx dflt"
  unfolding rag_query_def Let_def
  by (auto simp: result_simps split: if_splits sum.splits dest: rag_scan_length)

lemma vs_search_subset: "set (vs_search ratio store query limit) \<subseteq> set store"
  unfolding vs_search_def Let_def using set_py_take_subset by fastforce

subsection \<open>What chunking guarantees\<close>

abbreviation blank_line :: string where
  "blank_line \<equiv> newline @ newline"

lemma paragraphs_trimmed: "p \<in> set (paragraphs_of text) \<Longrightarrow> trimmed p"
  by (auto simp: paragraphs_of_def Let_def intro: trimmed_strip split: if_splits)

lemma chunk_buffers_join:
  "(buffer = [] \<or> trimmed buffer) \<Longrightarrow> list_all trimmed ps \<Longrightarrow>
     py_join blank_line (chunk_buffers m buffer ps)
       = py_join blank_line (if buffer = [] then ps else buffer # ps)
     \<and> list_all trimmed (chunk_buffers m buffer ps)
     \<and> (chunk_buffers m buffer ps = [] \<longleftrightarrow> buffer = [] \<and> ps = [])"
proof (induction ps arbitrary: buffer)
  case (Cons p ps)
  show ?case
  proof (cases "buffer = []")
    case True
    have "trimmed p" using Cons.prems(2) by simp
    moreover then have "p \<noteq> []" by (simp add: trimmed_def)
    ultimately show ?thesis using Cons.IH[of p] Cons.prems(2) True by simp
  next
    case False
    then have tb: "trimmed buffer" and tp: "trimmed p" and tps: "list_all trimmed ps"
      using Cons.prems by auto
    let ?cand = "buffer @ newline @ newline @ p"
    have tc: "trimmed ?cand" using trimmed_append[OF tb tp, of blank_line] by simp
    have pne: "p \<noteq> []" and cne: "?cand \<noteq> []" using tp False by (auto simp: trimmed_def)
    have step: "chunk_buffers m buffer (p # ps)
        = (if int (length ?cand) > m then buffer # chunk_buffers m p ps else chunk_buffers m ?cand ps)"
      using False by (simp only: chunk_buffers.simps strip_trimmed[OF tc] Let_def if_True simp_thms)
    from Cons.IH[of p] tp tps pne have ip: "py_join blank_line (chunk_buffers m p ps) = py_join blank_line (p # ps)"
      "list_all trimmed (chunk_buffers m p ps)" "chunk_buffers m p ps \<noteq> []"
      by auto
    from Cons.IH[of ?cand] tc tps cne have ic:
      "py_join blank_line (chunk_buffers m ?cand ps) = py_join blank_line (?cand # ps)"
      "list_all trimmed (chunk_buffers m ?cand ps)" "chunk_buffers m ?cand ps \<noteq> []"
      by auto
    have join_cand: "py_join blank_line (?cand # ps) = py_join blank_line (buffer # p # ps)"
      by (simp add: py_join_Cons)
    have jb: "py_join blank_line (buffer # chunk_buffers m p ps) = py_join blank_line (buffer # p # ps)"
      using ip(1,3) by (simp only: py_join_Cons[of _ buffer] if_False list.distinct(2) simp_thms)
    show ?thesis
    proof (cases "int (length ?cand) > m")
      case True
      then show ?thesis using step jb ip(2) tb False by simp
    next
      case small: False
      then have "chunk_buffers m buffer (p # ps) = chunk_buffers m ?cand ps" using step by simp
      then show ?thesis using ic join_cand False by simp
    qed
  qed
qed auto

lemma chunk_buffers_size:
  "b \<in> set (chunk_buffers m buffer ps) \<Longrightarrow>
     int (length b) \<le> m \<or> b = buffer \<or> b \<in> set ps"
proof (induction ps arbitrary: buffer)
  case (Cons p ps)
  define cand where "cand = (if buffer \<noteq> [] then strip (buffer @ newline @ newline @ p) else p)"
  have step: "chunk_buffers m buffer (p # ps)
      = (if int (length cand) > m \<and> buffer \<noteq> [] then buffer # chunk_buffers m p ps
         else chunk_buffers m cand ps)"
    by (simp only: chunk_buffers.simps cand_def Let_def)
  show ?case
  proof (cases "int (length cand) > m \<and> buffer \<noteq> []")
    case True
    with Cons.prems step have "b = buffer \<or> b \<in> set (chunk_buffers m p ps)" by simp
    then show ?thesis using Cons.IH[of p] by auto
  next
    case False
    with Cons.prems step have "b \<in> set (chunk_buffers m cand ps)" by simp
    then have "int (length b) \<le> m \<or> b = cand \<or> b \<in> set ps" by (rule Cons.IH)
    moreover have "buffer = [] \<Longrightarrow> cand = p" by (simp add: cand_def)
    moreover have "buffer \<noteq> [] \<Longrightarrow> int (length cand) \<le> m" using False by linarith
    ultimately show ?thesis by (metis list.set_intros)
  qed
qed (simp split: if_splits)

definition chunk_texts :: "rag_chunk list \<Rightarrow> string list" where
  "chunk_texts cs = map chunk_text cs"

lemma chunk_texts_document:
  "chunk_texts (chunk_document fresh text pv tenant c roles m) = chunk_buffers m [] (paragraphs_of text)"
  by (simp add: chunk_texts_def chunk_document_def Let_def make_chunk_def split_beta comp_def
      flip: map_map[of chunk_text])

lemma chunk_document_acl:
  "ch \<in> set (chunk_document fresh text pv tenant c roles m) \<Longrightarrow>
     acl_tenant (chunk_acl_of ch) = tenant
     \<and> classify_text text \<le> acl_classification (chunk_acl_of ch)
     \<and> c \<le> acl_classification (chunk_acl_of ch)"
  by (auto simp: chunk_document_def Let_def make_chunk_def class_order)

text \<open>C6: Retrieval never leaks: every chunk that rag_query returns was given by the
  store, belongs to the caller's tenant (unless the caller is the tenant called default),
  has a classification no higher than the persona's clearance, and shares a role with the
  caller when it names roles. Without such a chunk the result is marked fail-closed and empty.\<close>

theorem rag_query_isolation:
  assumes "rag_query agents search dflt query persona tenant roles mx = Inr r"
  defines "rs \<equiv> (case roles of Some (x # xs) \<Rightarrow> x # xs | _ \<Rightarrow> [''analyst''])"
  shows "(rr_fail_closed r \<longleftrightarrow> rr_chunks r = [])
     \<and> (\<forall>c \<in> set (rr_chunks r).
          (\<exists>cands. search query (num_or mx dflt * 3) = Inr cands \<and> c \<in> set cands)
          \<and> (tenant = ''default'' \<or> acl_tenant (chunk_acl_of c) = tenant)
          \<and> (\<exists>clr. persona_clearance_for agents persona None = Inr clr
                \<and> acl_classification (chunk_acl_of c) \<le> clr)
          \<and> (acl_roles (chunk_acl_of c) = [] \<or> set (acl_roles (chunk_acl_of c)) \<inter> set rs \<noteq> {}))"
proof -
  have "rs \<noteq> []" by (auto simp: rs_def split: option.splits list.splits)
  then show ?thesis
    using rag_query_fail_closed[OF assms(1)] rag_query_chunks[OF assms(1), folded rs_def]
    by (simp add: chunk_visible_def ctx_clearance_def Let_def)
qed

definition demo_chunk :: "string \<Rightarrow> data_classification \<Rightarrow> rag_chunk" where
  "demo_chunk tenant c = make_chunk ''c0'' ''firewall log''
     \<lparr>pv_source_id = ''s'', pv_source_name = [], pv_uploaded_by = [], pv_content_hash = [],
      pv_approved = True, pv_metadata = []\<rparr> tenant c [''analyst'']"

theorem rag_query_isolation_witness:
  "acl_tenant (chunk_acl_of (demo_chunk ''acme'' INTERNAL)) = ''acme''
   \<and> rag_query (\<lambda>p. Inr None) (\<lambda>q l. Inr [demo_chunk ''other'' INTERNAL, demo_chunk ''acme'' INTERNAL])
       5 ''log'' ''soc'' ''acme'' None None
     = Inr \<lparr>rr_query = ''log'', rr_chunks = [demo_chunk ''acme'' INTERNAL], rr_denied_count = 1,
            rr_fail_closed = False, rr_error = []\<rparr>"
proof -
  have run: "rag_query (\<lambda>p. Inr None) (\<lambda>q l. Inr [demo_chunk ''other'' INTERNAL, demo_chunk ''acme'' INTERNAL])
       5 ''log'' ''soc'' ''acme'' None None
     = Inr \<lparr>rr_query = ''log'', rr_chunks = [demo_chunk ''acme'' INTERNAL], rr_denied_count = 1,
            rr_fail_closed = False, rr_error = []\<rparr>"
    by code_simp
  show ?thesis
    using rag_query_isolation[OF run] run by simp
qed

text \<open>Chunking loses nothing: joining the chunk texts with blank lines gives the
  stripped paragraphs joined with blank lines, every chunk is non-empty with no white space
  at its ends, and a chunk longer than max_chars is a single paragraph that was too long itself.\<close>

theorem chunk_document_complete:
  "py_join blank_line (chunk_texts (chunk_document fresh text pv tenant c roles m))
     = py_join blank_line (paragraphs_of text)
   \<and> list_all (\<lambda>t. trimmed t \<and> (int (length t) \<le> m \<or> t \<in> set (paragraphs_of text)))
       (chunk_texts (chunk_document fresh text pv tenant c roles m))"
proof -
  have "list_all trimmed (paragraphs_of text)" using paragraphs_trimmed by (simp add: list_all_iff)
  from chunk_buffers_join[OF disjI1[OF refl] this, of m]
  have "py_join blank_line (chunk_buffers m [] (paragraphs_of text)) = py_join blank_line (paragraphs_of text)"
    and "list_all trimmed (chunk_buffers m [] (paragraphs_of text))" by auto
  moreover have "b \<in> set (chunk_buffers m [] (paragraphs_of text)) \<Longrightarrow> trimmed b \<Longrightarrow>
      int (length b) \<le> m \<or> b \<in> set (paragraphs_of text)" for b
    using chunk_buffers_size[of b m "[]" "paragraphs_of text"] by (auto simp: trimmed_def)
  ultimately show ?thesis unfolding chunk_texts_document by (simp add: list_all_iff)
qed

text \<open>From ingest to retrieval: a chunk of a document that was uploaded for a tenant is
  only ever returned to that tenant (or to the tenant called default), and only to personas
  cleared for both the declared class and the class that the keyword scan of the text finds.\<close>

theorem ingested_text_stays_confined:
  assumes "rag_query agents
      (\<lambda>q l. Inr (vs_search ratio (fst (vs_upsert (chunk_document fresh text pv owner c roles0 m) store)) q l))
      dflt query persona tenant roles mx = Inr r"
    and "ch \<in> set (rr_chunks r)"
    and "ch \<in> set (chunk_document fresh text pv owner c roles0 m)"
  shows "(tenant = ''default'' \<or> owner = tenant)
     \<and> (\<exists>clr. persona_clearance_for agents persona None = Inr clr \<and> classify_text text \<le> clr \<and> c \<le> clr)"
  using rag_query_chunks[OF assms(1,2)] chunk_document_acl[OF assms(3)]
  by (auto simp: chunk_visible_def Let_def ctx_clearance_def)

theorem ingested_text_stays_confined_witness:
  "\<exists>ch. ch \<in> set (chunk_document (\<lambda>i. ''c'') ''the api_key leaked'' (chunk_provenance (demo_chunk [] PUBLIC))
        ''acme'' PUBLIC [''analyst''] 1200)
     \<and> classify_text ''the api_key leaked'' \<le> CONFIDENTIAL"
proof -
  let ?doc = "chunk_document (\<lambda>i. ''c'') ''the api_key leaked'' (chunk_provenance (demo_chunk [] PUBLIC))
        ''acme'' PUBLIC [''analyst''] 1200"
  let ?q = "rag_query (\<lambda>p. Inr None) (\<lambda>q l. Inr (vs_search (\<lambda>a b. 1) (fst (vs_upsert ?doc [])) q l))
       5 ''key'' ''soc'' ''acme'' None None"
  have doc: "?doc = [hd ?doc]" by code_simp
  have run: "?q = Inr \<lparr>rr_query = ''key'', rr_chunks = ?doc, rr_denied_count = 0,
      rr_fail_closed = False, rr_error = []\<rparr>"
    by code_simp
  have clr: "persona_clearance_for (\<lambda>p. Inr None) ''soc'' None = Inr CONFIDENTIAL" by code_simp
  have mem: "hd ?doc \<in> set ?doc" by (subst (2) doc) simp
  show ?thesis using ingested_text_stays_confined[OF run _ mem] mem clr by auto
qed

end
