(* ===== verification/Schemas.thy ===== *)
theory Schemas
  imports Prelude
begin

text \<open>What the components use of pydantic: validation of dicts read from JSON into the fields of a
  model. Strings are strict, booleans and numbers accept what pydantic takes for one; the parser of
  numeric strings is an argument. Every failure is a ValidationError.\<close>

definition invalid :: "exc + 'a" where
  "invalid = Inl (PyExc ''ValidationError'')"

definition lax_bool :: "pyval \<Rightarrow> bool option" where
  "lax_bool v = (case v of
     PBool b \<Rightarrow> Some b
   | PInt i \<Rightarrow> if i = 0 then Some False else if i = 1 then Some True else None
   | PFloat r \<Rightarrow> if r = 0 then Some False else if r = 1 then Some True else None
   | PStr s \<Rightarrow> if lower s \<in> {''0'', ''off'', ''f'', ''false'', ''n'', ''no''} then Some False
       else if lower s \<in> {''1'', ''on'', ''t'', ''true'', ''y'', ''yes''} then Some True else None
   | _ \<Rightarrow> None)"

definition lax_float :: "(string \<Rightarrow> rat option) \<Rightarrow> pyval \<Rightarrow> rat option" where
  "lax_float parse v = (case v of
     PBool b \<Rightarrow> Some (if b then 1 else 0) | PInt i \<Rightarrow> Some (of_int i) | PFloat r \<Rightarrow> Some r
   | PStr s \<Rightarrow> parse s | _ \<Rightarrow> None)"

primrec traverse :: "('a \<Rightarrow> 'e + 'b) \<Rightarrow> 'a list \<Rightarrow> 'e + 'b list" where
  "traverse f [] = Inr []"
| "traverse f (x # xs) = rbind (f x) (\<lambda>y. rbind (traverse f xs) (\<lambda>ys. Inr (y # ys)))"

text \<open>A field with its validator, and its default when it has one.\<close>

definition field :: "(pyval \<Rightarrow> exc + 'a) \<Rightarrow> 'a option \<Rightarrow> string \<Rightarrow> payload \<Rightarrow> exc + 'a" where
  "field validate dflt key d = (case dget d key of
     Some v \<Rightarrow> validate v
   | None \<Rightarrow> (case dflt of Some x \<Rightarrow> Inr x | None \<Rightarrow> invalid))"

definition a_str :: "pyval \<Rightarrow> exc + string" where
  "a_str v = (case v of PStr s \<Rightarrow> Inr s | _ \<Rightarrow> invalid)"

definition a_bool :: "pyval \<Rightarrow> exc + bool" where
  "a_bool v = (case lax_bool v of Some b \<Rightarrow> Inr b | None \<Rightarrow> invalid)"

definition a_dict :: "pyval \<Rightarrow> exc + payload" where
  "a_dict v = (case v of PDict d \<Rightarrow> Inr d | _ \<Rightarrow> invalid)"

definition a_list :: "(pyval \<Rightarrow> exc + 'a) \<Rightarrow> pyval \<Rightarrow> exc + 'a list" where
  "a_list validate v = (case v of PList vs \<Rightarrow> traverse validate vs | _ \<Rightarrow> invalid)"

definition a_float_in :: "(string \<Rightarrow> rat option) \<Rightarrow> rat \<Rightarrow> rat \<Rightarrow> pyval \<Rightarrow> exc + rat" where
  "a_float_in parse lo hi v = (case lax_float parse v of
     Some r \<Rightarrow> if lo \<le> r \<and> r \<le> hi then Inr r else invalid | None \<Rightarrow> invalid)"

text \<open>str of a value; floats and containers are left to an argument.\<close>

definition py_text :: "(pyval \<Rightarrow> string) \<Rightarrow> pyval \<Rightarrow> string" where
  "py_text str v = (case v of
     PStr s \<Rightarrow> s | PInt i \<Rightarrow> int_str i | PBool b \<Rightarrow> (if b then ''True'' else ''False'') | PNone \<Rightarrow> ''None''
   | _ \<Rightarrow> str v)"

text \<open>The Python or: the first truthy value, else the last.\<close>

definition py_or :: "pyval \<Rightarrow> pyval \<Rightarrow> pyval" where
  "py_or a b = (if truthy a then a else b)"

lemma traverse_length: "traverse f xs = Inr ys \<Longrightarrow> length ys = length xs"
  by (induction xs arbitrary: ys) (auto simp: result_simps)

lemma traverse_all: "traverse f xs = Inr ys \<Longrightarrow> (\<And>x y. f x = Inr y \<Longrightarrow> P y) \<Longrightarrow> list_all P ys"
  by (induction xs arbitrary: ys) (auto simp: result_simps)

end
