(* ===== verification/Tool_Gateway.thy ===== *)
theory Tool_Gateway
  imports Rag Schemas
begin

text \<open>The tool gateway: cys_core/application/use_cases/invoke_tool.py with
  interfaces/gateways/tool (policy.py, handler.py, audit.py, the RAG, SIEM and Veil adapters) and
  cys_core/registry/mcp_tools.py, through which a sandboxed worker reaches it. Backends (registered
  tools, HTTP, the vector store) act on an external state of any type and are parameters.\<close>

subsection \<open>Requests\<close>

record tool_request =
  tr_tool_name :: string
  tr_args :: payload
  tr_persona :: string
  tr_sandbox_id :: string
  tr_job_id :: string
  tr_correlation_id :: string

record tool_response =
  ts_success :: bool
  ts_tool_name :: string
  ts_data :: payload
  ts_sanitized_payload :: string
  ts_error :: string

record audit_record =
  au_timestamp :: time
  au_tool :: string
  au_persona :: string
  au_sandbox_id :: string
  au_job_id :: string
  au_correlation_id :: string
  au_success :: bool
  au_error :: string
  au_args_keys :: "string list"

datatype gateway_metric = Tool_invocation string bool | Tool_output_blocked

record 'x gateway_world =
  gw_chains :: "int dict"
  gw_audit :: "audit_record list"
  gw_metrics :: "gateway_metric list"
  gw_ext :: 'x

datatype http_answer = Http_error string | Bad_json string | Http_body pyval

text \<open>Settings and backends. A backend may change the external state; what it raises is an exc.\<close>

record 'x gateway_env =
  ge_limit :: int
  ge_siem_adapter :: string
  ge_siem_base_url :: string
  ge_siem_get :: "string \<Rightarrow> payload \<Rightarrow> 'x \<Rightarrow> exc + pyval"
  ge_veil_enabled :: bool
  ge_veil_allowed :: "string list"
  ge_veil_post :: "payload \<Rightarrow> 'x \<Rightarrow> http_answer"
  ge_agents :: agent_read
  ge_search :: "'x \<Rightarrow> string \<Rightarrow> int \<Rightarrow> string + rag_chunk list"
  ge_rag_max :: int
  ge_registry :: "string \<Rightarrow> (payload \<Rightarrow> 'x \<Rightarrow> 'x \<times> (exc + pyval)) option"
  ge_loads :: "string \<Rightarrow> pyval option"
  ge_dumps :: "pyval \<Rightarrow> string"
  ge_str :: "pyval \<Rightarrow> string"
  ge_detector :: detector

subsection \<open>The chain of high-risk tools\<close>

definition chain_key :: "tool_request \<Rightarrow> string" where
  "chain_key r = (if tr_job_id r \<noteq> [] then tr_job_id r else tr_sandbox_id r)"

definition is_high_risk_tool :: "string \<Rightarrow> bool" where
  "is_high_risk_tool tool = (case classify_tool_risk (Inr []) tool None of
     Inr level \<Rightarrow> HIGH \<le> level | Inl _ \<Rightarrow> False)"

definition chain_of :: "string \<Rightarrow> int dict \<Rightarrow> int" where
  "chain_of key cs = get_or cs key 0"

definition chain_exceeded :: "int \<Rightarrow> string" where
  "chain_exceeded limit = ''High-risk tool chain depth exceeded ('' @ int_str limit @ '' sequential max)''"

text \<open>The state is created by the check, also when it raises.\<close>

definition check_tool_chain :: "int \<Rightarrow> tool_request \<Rightarrow> int dict \<Rightarrow> int dict \<times> string option" where
  "check_tool_chain limit r cs = (let key = chain_key r; n = chain_of key cs in
     if is_high_risk_tool (tr_tool_name r)
     then if n \<ge> limit then (dput key n cs, Some (chain_exceeded limit))
       else (dput key (n + 1) cs, None)
     else (dput key 0 cs, None))"

definition get_chain_state :: "string \<Rightarrow> int dict \<Rightarrow> int dict \<times> int" where
  "get_chain_state key cs = (dput key (chain_of key cs) cs, chain_of key cs)"

definition clear_chain_state :: "string \<Rightarrow> int dict \<Rightarrow> int dict" where
  "clear_chain_state key cs = AList.delete key cs"

definition clear_all_chain_states :: "int dict \<Rightarrow> int dict" where
  "clear_all_chain_states cs = []"

definition require_sandbox :: "string \<Rightarrow> exc + unit" where
  "require_sandbox sandbox_id = (if sandbox_id = [] \<or> sandbox_id = ''host''
     then Inl (PyExc ''PermissionError'') else Inr ())"

subsection \<open>Adapters\<close>

text \<open>Keyword arguments: an unknown name or a missing required one is a TypeError.\<close>

definition kwargs :: "string list \<Rightarrow> string list \<Rightarrow> payload \<Rightarrow> exc + unit" where
  "kwargs required optional args = (
     if (\<forall>k \<in> set (map fst args). k \<in> set required \<or> k \<in> set optional)
        \<and> (\<forall>k \<in> set required. k \<in> set (map fst args))
     then Inr () else Inl (PyExc ''TypeError''))"

definition roles_arg :: "pyval \<Rightarrow> exc + string list option" where
  "roles_arg v = (if \<not> truthy v then Inr None else (case v of
     PList vs \<Rightarrow> if list_all (\<lambda>x. case x of PStr _ \<Rightarrow> True | _ \<Rightarrow> False) vs
       then Inr (Some (List.map_filter (\<lambda>x. case x of PStr s \<Rightarrow> Some s | _ \<Rightarrow> None) vs))
       else Inl (PyExc ''ValidationError'')
   | _ \<Rightarrow> Inl (PyExc ''ValidationError'')))"

definition source_of_chunk :: "rag_chunk \<Rightarrow> pyval" where
  "source_of_chunk c = PDict [(''chunk_id'', PStr (chunk_id c)),
     (''source_id'', PStr (pv_source_id (chunk_provenance c))),
     (''hash'', PStr (pv_content_hash (chunk_provenance c))),
     (''tenant'', PStr (acl_tenant (chunk_acl_of c))),
     (''classification'', PStr (class_value (acl_classification (chunk_acl_of c))))]"

definition rag_payload :: "retrieval_result \<Rightarrow> payload" where
  "rag_payload r = (if rr_fail_closed r \<or> rr_error r \<noteq> [] then
       [(''success'', PBool False), (''fail_closed'', PBool True),
        (''error'', PStr (if rr_error r \<noteq> [] then rr_error r else ''retrieval blocked'')),
        (''denied_count'', PInt (rr_denied_count r)), (''query'', PStr (rr_query r))]
     else [(''success'', PBool True), (''fail_closed'', PBool False), (''query'', PStr (rr_query r)),
        (''chunk_count'', PInt (int (length (rr_chunks r)))), (''denied_count'', PInt (rr_denied_count r)),
        (''content'', PStr (wrap_retrieved_chunks (rr_chunks r))),
        (''sources'', PList (map source_of_chunk (rr_chunks r)))])"

text \<open>Persona, tenant and roles are arguments of the tool; an empty query is answered before
  they are looked at.\<close>

definition rag_query_tool :: "'x gateway_env \<Rightarrow> payload \<Rightarrow> 'x \<Rightarrow> exc + payload" where
  "rag_query_tool E args x = rbind (kwargs [''query''] [''persona'', ''tenant'', ''roles''] args) (\<lambda>_.
     case get_or args ''query'' PNone of
       PStr query \<Rightarrow>
         if strip query = [] then Inr (rag_payload \<lparr>rr_query = query, rr_chunks = [], rr_denied_count = 0,
           rr_fail_closed = True, rr_error = ''empty query''\<rparr>)
         else rbind (roles_arg (get_or args ''roles'' PNone)) (\<lambda>roles.
           case (get_or args ''persona'' (PStr ''soc''), get_or args ''tenant'' (PStr ''default'')) of
             (PStr persona, PStr tenant) \<Rightarrow>
               (case rag_query (ge_agents E) (ge_search E x) (ge_rag_max E) query persona tenant roles None of
                  Inl e \<Rightarrow> Inl (PyExc e) | Inr r \<Rightarrow> Inr (rag_payload r))
           | _ \<Rightarrow> Inl (PyExc ''ValidationError''))
     | _ \<Rightarrow> Inl (PyExc ''AttributeError''))"

text \<open>min and max of numbers keep the first of two equal ones.\<close>

definition num_of :: "pyval \<Rightarrow> rat option" where
  "num_of v = (case v of PInt i \<Rightarrow> Some (of_int i) | PFloat r \<Rightarrow> Some r
     | PBool b \<Rightarrow> Some (if b then 1 else 0) | _ \<Rightarrow> None)"

definition capped :: "pyval \<Rightarrow> exc + pyval" where
  "capped limit = (case num_of limit of None \<Rightarrow> Inl (PyExc ''TypeError'')
     | Some n \<Rightarrow> let low = (if 100 < n then PInt 100 else limit); m = (if 100 < n then 100 else n) in
         Inr (if 1 < m then low else PInt 1))"

definition mock_search :: "string \<Rightarrow> pyval \<Rightarrow> pyval \<Rightarrow> pyval \<Rightarrow> payload" where
  "mock_search query_text query time_range limit = [(''query'', query), (''time_range'', time_range),
     (''limit'', limit),
     (''result_count'', case num_of limit of Some n \<Rightarrow> if n < 2 then limit else PInt 2 | None \<Rightarrow> PInt 2),
     (''readonly'', PBool True), (''adapter'', PStr ''mock''),
     (''results'', PList [
        PDict [(''timestamp'', PStr ''2026-06-11T10:00:00Z''), (''host'', PStr ''ws-01''),
          (''rule'', PStr ''Suspicious PowerShell''),
          (''message'', PStr (''Encoded command matching query: '' @ query_text)), (''severity'', PStr ''high'')],
        PDict [(''timestamp'', PStr ''2026-06-11T10:05:00Z''), (''host'', PStr ''ws-01''),
          (''rule'', PStr ''Lateral movement''),
          (''message'', PStr (''Related auth event for query: '' @ query_text)), (''severity'', PStr ''medium'')]])]"

definition setdefault :: "string \<Rightarrow> 'v \<Rightarrow> 'v dict \<Rightarrow> 'v dict" where
  "setdefault k v d = (case dget d k of Some _ \<Rightarrow> d | None \<Rightarrow> dput k v d)"

definition http_search :: "'x gateway_env \<Rightarrow> pyval \<Rightarrow> pyval \<Rightarrow> pyval \<Rightarrow> 'x \<Rightarrow> exc + payload" where
  "http_search E query time_range limit x =
     rbind (ge_siem_get E (rev (dropWhile (\<lambda>c. c = CHR ''/'') (rev (ge_siem_base_url E))) @ ''/search'')
         [(''q'', query), (''time_range'', time_range), (''limit'', limit), (''readonly'', PStr ''true'')] x)
       (\<lambda>data. Inr (case data of
          PDict d \<Rightarrow> setdefault ''readonly'' (PBool True) (setdefault ''adapter'' (PStr ''http'') d)
        | _ \<Rightarrow> [(''query'', query), (''time_range'', time_range), (''limit'', limit), (''readonly'', PBool True),
            (''adapter'', PStr ''http''), (''results'', data)]))"

definition siem_search_tool :: "'x gateway_env \<Rightarrow> payload \<Rightarrow> 'x \<Rightarrow> exc + payload" where
  "siem_search_tool E args x = rbind (kwargs [''query''] [''time_range'', ''limit''] args) (\<lambda>_.
     rbind (capped (get_or args ''limit'' (PInt 50))) (\<lambda>limit.
       let query = get_or args ''query'' PNone; time_range = get_or args ''time_range'' (PStr ''24h'') in
       if lower (ge_siem_adapter E) = ''http'' \<and> ge_siem_base_url E \<noteq> []
       then http_search E query time_range limit x
       else Inr (mock_search (case query of PStr s \<Rightarrow> s | _ \<Rightarrow> ge_str E query) query time_range limit)))"

definition VEIL_MCP_TOOL_NAMES :: "string list" where
  "VEIL_MCP_TOOL_NAMES = [''ti_list_categories'', ''ti_list_kinds_in_category'', ''ti_nodes_by_category'',
     ''ti_search_in_category'', ''ti_get_node'', ''ti_neighbors'', ''ti_health'', ''playbook_search'',
     ''playbook_get'', ''playbook_procedure'', ''playbook_for_technique'', ''playbook_framework'',
     ''playbook_subdomains'', ''playbook_ontology_subdomains'']"

definition veil_failure :: "pyval \<Rightarrow> string option \<Rightarrow> payload" where
  "veil_failure message tool = [(''success'', PBool False), (''error'', message), (''source'', PStr ''veil-mcp'')]
     @ (case tool of Some t \<Rightarrow> [(''tool'', PStr t)] | None \<Rightarrow> [])"

definition str_of :: "'x gateway_env \<Rightarrow> pyval \<Rightarrow> string" where
  "str_of E v = (case v of PStr s \<Rightarrow> s | _ \<Rightarrow> ge_str E v)"

text \<open>The text blocks of a result: only strings can be joined.\<close>

definition veil_content :: "'x gateway_env \<Rightarrow> payload \<Rightarrow> exc + pyval" where
  "veil_content E result = rbind (py_iter (get_or result ''content'' (PList []))) (\<lambda>blocks.
     let texts = filter truthy (List.map_filter (\<lambda>b. case b of
           PDict d \<Rightarrow> if dget d ''type'' = Some (PStr ''text'') then Some (get_or d ''text'' (PStr [])) else None
         | _ \<Rightarrow> None) blocks) in
     if list_ex (\<lambda>t. case t of PStr _ \<Rightarrow> False | _ \<Rightarrow> True) texts then Inl (PyExc ''TypeError'')
     else (let combined = strip (py_join newline (List.map_filter (\<lambda>t. case t of PStr s \<Rightarrow> Some s | _ \<Rightarrow> None) texts)) in
       Inr (if combined \<noteq> [] then (case ge_loads E combined of Some v \<Rightarrow> v | None \<Rightarrow> PStr combined)
            else PStr combined)))"

definition call_veil_mcp_tool :: "'x gateway_env \<Rightarrow> string \<Rightarrow> payload \<Rightarrow> 'x \<Rightarrow> exc + payload" where
  "call_veil_mcp_tool E tool args x = (
     if \<not> ge_veil_enabled E then Inr (veil_failure (PStr ''Veil MCP disabled (VEIL_MCP_ENABLED=false)'') None)
     else if tool \<notin> set (ge_veil_allowed E) then Inr (veil_failure (PStr (''Veil tool not allowlisted: '' @ tool)) None)
     else (case ge_veil_post E [(''jsonrpc'', PStr ''2.0''), (''id'', PInt 1), (''method'', PStr ''tools/call''),
              (''params'', PDict [(''name'', PStr tool), (''arguments'', PDict args)])] x of
         Http_error e \<Rightarrow> Inr (veil_failure (PStr (''Veil MCP HTTP error: '' @ e)) (Some tool))
       | Bad_json e \<Rightarrow> Inr (veil_failure (PStr (''Veil MCP invalid JSON: '' @ e)) (Some tool))
       | Http_body (PDict body) \<Rightarrow> (case dget body ''error'' of
           Some (PDict err) \<Rightarrow> Inr (veil_failure (case dget err ''message'' of
               Some m \<Rightarrow> m | None \<Rightarrow> PStr (ge_str E (PDict err))) (Some tool))
         | Some err \<Rightarrow> Inr (veil_failure (PStr (str_of E err)) (Some tool))
         | None \<Rightarrow> rbind (let v = get_or body ''result'' PNone in if truthy v
               then (case v of PDict d \<Rightarrow> Inr d | _ \<Rightarrow> Inl (PyExc ''AttributeError'')) else Inr []) (\<lambda>result.
             rbind (veil_content E result) (\<lambda>content. Inr [(''success'', PBool True), (''source'', PStr ''veil-mcp''),
               (''tool'', PStr tool), (''content'', content), (''readonly'', PBool True)])))
       | Http_body v \<Rightarrow> Inl (key_error ''error'' v)))"

definition invoke_adapter :: "'x gateway_env \<Rightarrow> string \<Rightarrow> payload \<Rightarrow> 'x \<Rightarrow> exc + payload option" where
  "invoke_adapter E tool args x = (
     if tool \<in> set VEIL_MCP_TOOL_NAMES then rbind (call_veil_mcp_tool E tool args x) (Inr \<circ> Some)
     else if tool = ''query_siem_readonly'' then rbind (siem_search_tool E args x) (Inr \<circ> Some)
     else if tool = ''rag_query'' then rbind (rag_query_tool E args x) (Inr \<circ> Some)
     else Inr None)"


subsection \<open>Invoking a tool\<close>

definition normalize_raw_result :: "'x gateway_env \<Rightarrow> pyval \<Rightarrow> payload" where
  "normalize_raw_result E raw = (case raw of
     PDict d \<Rightarrow> d
   | PStr s \<Rightarrow> (case ge_loads E s of Some (PDict d) \<Rightarrow> d | _ \<Rightarrow> [(''raw'', PStr s)])
   | _ \<Rightarrow> [(''result'', raw)])"

definition execute_tool :: "'x gateway_env \<Rightarrow> tool_request \<Rightarrow> 'x \<Rightarrow> 'x \<times> (exc + payload)" where
  "execute_tool E r x = (case invoke_adapter E (tr_tool_name r) (tr_args r) x of
     Inl e \<Rightarrow> (x, Inl e)
   | Inr (Some d) \<Rightarrow> (x, Inr d)
   | Inr None \<Rightarrow> (case ge_registry E (tr_tool_name r) of
       None \<Rightarrow> (x, Inl (PyExc ''KeyError''))
     | Some tool \<Rightarrow> (case tool (tr_args r) x of (x', res) \<Rightarrow>
         (x', rbind res (\<lambda>raw. Inr (normalize_raw_result E raw))))))"

definition failed_response :: "tool_request \<Rightarrow> string \<Rightarrow> tool_response" where
  "failed_response r err = \<lparr>ts_success = False, ts_tool_name = tr_tool_name r, ts_data = [],
     ts_sanitized_payload = [], ts_error = err\<rparr>"

definition build_audit_record :: "time \<Rightarrow> tool_request \<Rightarrow> tool_response \<Rightarrow> audit_record" where
  "build_audit_record now r resp = \<lparr>au_timestamp = now, au_tool = tr_tool_name r, au_persona = tr_persona r,
     au_sandbox_id = tr_sandbox_id r, au_job_id = tr_job_id r, au_correlation_id = tr_correlation_id r,
     au_success = ts_success resp, au_error = ts_error resp, au_args_keys = sort (map fst (tr_args r))\<rparr>"

text \<open>The guarded part of execute: the sandbox, the chain, the tool, its output.\<close>

definition guarded_call ::
  "'x gateway_env \<Rightarrow> tool_request \<Rightarrow> 'x gateway_world \<Rightarrow> 'x gateway_world \<times> tool_response" where
  "guarded_call E r w = (case require_sandbox (tr_sandbox_id r) of
     Inl e \<Rightarrow> (w, failed_response r (exc_message e))
   | Inr _ \<Rightarrow> (case check_tool_chain (ge_limit E) r (gw_chains w) of
       (cs, Some err) \<Rightarrow> (w\<lparr>gw_chains := cs\<rparr>, failed_response r err)
     | (cs, None) \<Rightarrow> (case execute_tool E r (gw_ext w) of
         (x, Inl e) \<Rightarrow> (w\<lparr>gw_chains := cs, gw_ext := x\<rparr>, failed_response r (exc_message e))
       | (x, Inr d) \<Rightarrow> (case sanitize_tool_output_or_raise (ge_detector E) (ge_dumps E \<circ> PDict) (ge_str E) (PDict d) of
           Inl err \<Rightarrow> (w\<lparr>gw_chains := cs, gw_ext := x, gw_metrics := gw_metrics w @ [Tool_output_blocked]\<rparr>,
             failed_response r err)
         | Inr out \<Rightarrow> (w\<lparr>gw_chains := cs, gw_ext := x\<rparr>,
             \<lparr>ts_success = True, ts_tool_name = tr_tool_name r, ts_data = d, ts_sanitized_payload = out,
              ts_error = []\<rparr>)))))"

definition invoke_tool ::
  "'x gateway_env \<Rightarrow> time \<Rightarrow> tool_request \<Rightarrow> 'x gateway_world \<Rightarrow> 'x gateway_world \<times> tool_response" where
  "invoke_tool E now r w = (case guarded_call E r w of (w1, resp) \<Rightarrow>
     (w1\<lparr>gw_audit := gw_audit w1 @ [build_audit_record now r resp],
        gw_metrics := gw_metrics w1 @ [Tool_invocation (tr_tool_name r) (ts_success resp)]\<rparr>, resp))"

subsection \<open>The worker's registry\<close>

record mcp_tool =
  mt_name :: string
  mt_sandbox_id :: string
  mt_persona :: string
  mt_job_id :: string
  mt_correlation_id :: string

definition make_tool ::
  "'x gateway_env \<Rightarrow> string \<Rightarrow> string \<Rightarrow> string \<Rightarrow> string \<Rightarrow> string \<Rightarrow> exc + mcp_tool" where
  "make_tool E sandbox_id persona jid corr name = (case ge_registry E name of
     None \<Rightarrow> Inl (PyExc ''KeyError'')
   | Some _ \<Rightarrow> Inr \<lparr>mt_name = name, mt_sandbox_id = sandbox_id, mt_persona = persona, mt_job_id = jid,
       mt_correlation_id = corr\<rparr>)"

definition mcp_resolve ::
  "'x gateway_env \<Rightarrow> string list \<Rightarrow> string \<Rightarrow> string \<Rightarrow> string \<Rightarrow> string \<Rightarrow> exc + mcp_tool list" where
  "mcp_resolve E names sandbox_id persona jid corr = rbind (require_sandbox sandbox_id)
     (\<lambda>_. traverse (make_tool E sandbox_id persona jid corr) names)"

definition response_dump :: "tool_response \<Rightarrow> payload" where
  "response_dump resp = [(''success'', PBool (ts_success resp)), (''tool_name'', PStr (ts_tool_name resp)),
     (''data'', PDict (ts_data resp)), (''sanitized_payload'', PStr (ts_sanitized_payload resp)),
     (''error'', PStr (ts_error resp))]"

definition local_invoke ::
  "'x gateway_env \<Rightarrow> time \<Rightarrow> string \<Rightarrow> string \<Rightarrow> payload \<Rightarrow> 'x gateway_world \<Rightarrow> 'x gateway_world \<times> payload" where
  "local_invoke E now tool sandbox_id args w = (case invoke_tool E now
       \<lparr>tr_tool_name = tool, tr_args = args, tr_persona = ''local'', tr_sandbox_id = sandbox_id, tr_job_id = [],
        tr_correlation_id = []\<rparr> w of (w1, resp) \<Rightarrow> (w1, response_dump resp))"

text \<open>The remote gateway, when it is used, answers with the JSON of its response or fails: an HTTP
  error status, a refused token and a lost connection are all exceptions.\<close>

type_synonym 'x gateway_post = "tool_request \<Rightarrow> 'x \<Rightarrow> 'x \<times> (exc + pyval)"

definition mcp_invoke ::
  "'x gateway_env \<Rightarrow> 'x gateway_post option \<Rightarrow> time \<Rightarrow> mcp_tool \<Rightarrow> payload
    \<Rightarrow> 'x gateway_world \<Rightarrow> 'x gateway_world \<times> (exc + pyval)" where
  "mcp_invoke E post now t args w = (case require_sandbox (mt_sandbox_id t) of
     Inl e \<Rightarrow> (w, Inl e)
   | Inr _ \<Rightarrow> (let here = (\<lambda>w. case local_invoke E now (mt_name t) (mt_sandbox_id t) args w of
         (w1, d) \<Rightarrow> (w1, Inr (PDict d))) in
     case post of None \<Rightarrow> here w
     | Some p \<Rightarrow> (case p \<lparr>tr_tool_name = mt_name t, tr_args = args, tr_persona = mt_persona t,
             tr_sandbox_id = mt_sandbox_id t, tr_job_id = mt_job_id t, tr_correlation_id = mt_correlation_id t\<rparr>
             (gw_ext w) of
           (x, Inr v) \<Rightarrow> (w\<lparr>gw_ext := x\<rparr>, Inr v)
         | (x, Inl _) \<Rightarrow> here (w\<lparr>gw_ext := x\<rparr>))))"

text \<open>What the model is shown of a call: the wrapped payload, else the raw data.\<close>

definition shown :: "'x gateway_env \<Rightarrow> payload \<Rightarrow> pyval" where
  "shown E result = (if \<not> truthy (get_or result ''success'' (PBool True))
     then PStr (ge_dumps E (PDict [(''error'', get_or result ''error'' (PStr ''gateway invoke failed''))]))
     else (let p = get_or result ''sanitized_payload'' PNone in
       if truthy p then p else PStr (ge_dumps E (get_or result ''data'' (PDict [])))))"

definition mcp_run ::
  "'x gateway_env \<Rightarrow> 'x gateway_post option \<Rightarrow> time \<Rightarrow> mcp_tool \<Rightarrow> payload
    \<Rightarrow> 'x gateway_world \<Rightarrow> 'x gateway_world \<times> (exc + pyval)" where
  "mcp_run E post now t args w = (case mcp_invoke E post now t args w of
     (w1, Inl e) \<Rightarrow> (w1, Inl e)
   | (w1, Inr (PDict d)) \<Rightarrow> (w1, Inr (shown E d))
   | (w1, Inr _) \<Rightarrow> (w1, Inl (PyExc ''AttributeError'')))"


subsection \<open>What the gateway guarantees\<close>

primrec invoke_all ::
  "'x gateway_env \<Rightarrow> (time \<times> tool_request) list \<Rightarrow> 'x gateway_world \<Rightarrow> 'x gateway_world \<times> tool_response list" where
  "invoke_all E [] w = (w, [])"
| "invoke_all E (q # qs) w = (case invoke_tool E (fst q) (snd q) w of
     (w1, resp) \<Rightarrow> (case invoke_all E qs w1 of (w2, resps) \<Rightarrow> (w2, resp # resps)))"

text \<open>A request of one chain whose tool is of high risk.\<close>

definition chain_request :: "string \<Rightarrow> tool_request \<Rightarrow> bool" where
  "chain_request key r = (chain_key r = key \<and> is_high_risk_tool (tr_tool_name r)
     \<and> tr_sandbox_id r \<noteq> [] \<and> tr_sandbox_id r \<noteq> ''host'')"

lemma sandboxed [simp]: "chain_request key r \<Longrightarrow> require_sandbox (tr_sandbox_id r) = Inr ()"
  by (simp add: chain_request_def require_sandbox_def)

lemma invoke_refused:
  assumes "chain_request key r" and "ge_limit E \<le> chain_of key (gw_chains w)"
  shows "snd (invoke_tool E t r w) = failed_response r (chain_exceeded (ge_limit E))
    \<and> gw_ext (fst (invoke_tool E t r w)) = gw_ext w
    \<and> chain_of key (gw_chains (fst (invoke_tool E t r w))) = chain_of key (gw_chains w)"
  using assms sandboxed[OF assms(1)]
  by (simp add: invoke_tool_def guarded_call_def check_tool_chain_def Let_def chain_request_def chain_of_def)

lemma guarded_chain:
  assumes "require_sandbox (tr_sandbox_id r) = Inr ()" and "check_tool_chain (ge_limit E) r (gw_chains w) = (cs, None)"
  shows "gw_chains (fst (guarded_call E r w)) = cs"
  using assms by (simp add: guarded_call_def split: prod.split sum.split)

lemma invoke_counted:
  assumes "chain_request key r" and "chain_of key (gw_chains w) < ge_limit E"
  shows "chain_of key (gw_chains (fst (invoke_tool E t r w))) = chain_of key (gw_chains w) + 1"
proof -
  have "check_tool_chain (ge_limit E) r (gw_chains w) = (dput key (chain_of key (gw_chains w) + 1) (gw_chains w), None)"
    using assms by (simp add: check_tool_chain_def chain_request_def Let_def)
  from guarded_chain[OF sandboxed[OF assms(1)] this] show ?thesis
    by (simp add: invoke_tool_def chain_of_def split_beta)
qed

lemma invoke_all_refused:
  "list_all (chain_request key \<circ> snd) qs \<Longrightarrow> ge_limit E \<le> chain_of key (gw_chains w) \<Longrightarrow>
     snd (invoke_all E qs w) = map (\<lambda>q. failed_response (snd q) (chain_exceeded (ge_limit E))) qs
     \<and> gw_ext (fst (invoke_all E qs w)) = gw_ext w"
proof (induction qs arbitrary: w)
  case (Cons q qs)
  let ?w1 = "fst (invoke_tool E (fst q) (snd q) w)"
  have r: "chain_request key (snd q)" using Cons.prems(1) by simp
  note ref = invoke_refused[OF r Cons.prems(2), of "fst q"]
  have "snd (invoke_all E qs ?w1) = map (\<lambda>q. failed_response (snd q) (chain_exceeded (ge_limit E))) qs
      \<and> gw_ext (fst (invoke_all E qs ?w1)) = gw_ext ?w1"
    by (rule Cons.IH) (use Cons.prems ref in simp_all)
  then show ?case using ref by (simp add: split_beta)
qed simp

text \<open>C16: Of any number of high-risk calls of one chain, at most as many reach a tool as the chain has
  left: the external state is that after the first ones, and every later call is answered with the
  chain-depth error.\<close>

theorem tool_chain_bound:
  assumes "list_all (chain_request key \<circ> snd) qs"
    and "n = nat (ge_limit E - chain_of key (gw_chains w))"
  shows "gw_ext (fst (invoke_all E qs w)) = gw_ext (fst (invoke_all E (take n qs) w))
    \<and> drop n (snd (invoke_all E qs w))
        = map (\<lambda>q. failed_response (snd q) (chain_exceeded (ge_limit E))) (drop n qs)"
  using assms
proof (induction qs arbitrary: n w)
  case (Cons q qs)
  show ?case
  proof (cases "chain_of key (gw_chains w) < ge_limit E")
    case True
    let ?w1 = "fst (invoke_tool E (fst q) (snd q) w)"
    have r: "chain_request key (snd q)" using Cons.prems(1) by simp
    have "n \<noteq> 0" using True Cons.prems(2) by simp
    then obtain m where n: "n = Suc m" using not0_implies_Suc by blast
    have m: "m = nat (ge_limit E - chain_of key (gw_chains ?w1))"
      using invoke_counted[OF r True, of "fst q"] Cons.prems(2) n by simp
    from Cons.IH[OF _ m] Cons.prems(1) show ?thesis by (simp add: n split_beta)
  next
    case False
    then have "n = 0" using Cons.prems(2) by simp
    moreover have "ge_limit E \<le> chain_of key (gw_chains w)" using False by simp
    note invoke_all_refused[OF Cons.prems(1) this]
    ultimately show ?thesis by (simp only: take_0 drop_0 invoke_all.simps(1) fst_conv)
  qed
qed simp

text \<open>Every invocation leaves exactly one audit record, which names the arguments but not their
  values. A successful response had a sandbox and carries data that passed the screening of untrusted
  tool output, wrapped; a failed one carries no data.\<close>

theorem gateway_response_screened:
  assumes "invoke_tool E now r w = (w', resp)"
  shows "(\<exists>a. gw_audit w' = gw_audit w @ [a] \<and> au_tool a = tr_tool_name r \<and> au_success a = ts_success resp
        \<and> au_error a = ts_error resp \<and> set (au_args_keys a) = set (map fst (tr_args r)))
     \<and> (ts_success resp \<longrightarrow> tr_sandbox_id r \<noteq> [] \<and> tr_sandbox_id r \<noteq> ''host''
         \<and> (\<exists>t. sanitize (ge_detector E) Src_tool (ge_dumps E (PDict (ts_data resp))) = Inr t
             \<and> ts_sanitized_payload resp = wrap_retrieved_tool_data t))
     \<and> (\<not> ts_success resp \<longrightarrow> ts_data resp = [] \<and> ts_sanitized_payload resp = [])"
proof -
  obtain w1 where g: "guarded_call E r w = (w1, resp)"
    and w': "w' = w1\<lparr>gw_audit := gw_audit w1 @ [build_audit_record now r resp],
        gw_metrics := gw_metrics w1 @ [Tool_invocation (tr_tool_name r) (ts_success resp)]\<rparr>"
    using assms by (auto simp: invoke_tool_def split: prod.splits)
  have a: "gw_audit w1 = gw_audit w"
    using g by (auto simp: guarded_call_def split: sum.splits prod.splits option.splits)
  have ok: "ts_success resp \<Longrightarrow> tr_sandbox_id r \<noteq> [] \<and> tr_sandbox_id r \<noteq> ''host''
         \<and> (\<exists>t. sanitize (ge_detector E) Src_tool (ge_dumps E (PDict (ts_data resp))) = Inr t
             \<and> ts_sanitized_payload resp = wrap_retrieved_tool_data t)"
    using g by (auto simp: guarded_call_def failed_response_def require_sandbox_def sanitize_tool_output_or_raise_def
        sanitize_tool_output_def result_simps split: sum.splits prod.splits option.splits if_splits)
  have bad: "\<not> ts_success resp \<Longrightarrow> ts_data resp = [] \<and> ts_sanitized_payload resp = []"
    using g by (auto simp: guarded_call_def failed_response_def split: sum.splits prod.splits option.splits)
  show ?thesis using ok bad a by (simp add: w' build_audit_record_def)
qed

text \<open>The gateway's refusals do not bind: whatever the remote gateway answers a call with that is
  an error, the call is made again in the worker's own process, as persona local and outside the chain
  of the job, and its result is what the model sees.\<close>

theorem refused_call_runs_locally:
  assumes "p = (\<lambda>r x. (x, Inl e))" and "mt_job_id t \<noteq> mt_sandbox_id t"
    and "mt_sandbox_id t \<noteq> []" and "mt_sandbox_id t \<noteq> ''host''"
  shows "mcp_run E (Some p) now t args w = mcp_run E None now t args w
    \<and> (\<exists>a. gw_audit (fst (mcp_run E (Some p) now t args w)) = gw_audit w @ [a] \<and> au_persona a = ''local''
         \<and> au_job_id a = [] \<and> au_tool a = mt_name t)
    \<and> chain_of (mt_job_id t) (gw_chains (fst (mcp_run E (Some p) now t args w)))
        = chain_of (mt_job_id t) (gw_chains w)"
proof -
  let ?r = "\<lparr>tr_tool_name = mt_name t, tr_args = args, tr_persona = ''local'', tr_sandbox_id = mt_sandbox_id t,
    tr_job_id = [], tr_correlation_id = []\<rparr>"
  have sb: "require_sandbox (mt_sandbox_id t) = Inr ()" using assms(3,4) by (simp add: require_sandbox_def)
  obtain w1 resp where i: "invoke_tool E now ?r w = (w1, resp)" by fastforce
  have run: "mcp_run E None now t args w = (w1, Inr (shown E (response_dump resp)))"
    by (simp add: mcp_run_def mcp_invoke_def sb local_invoke_def i)
  have run': "mcp_run E (Some p) now t args w = (w1, Inr (shown E (response_dump resp)))"
    by (simp add: mcp_run_def mcp_invoke_def sb local_invoke_def i assms(1))
  have "gw_audit w1 = gw_audit w @ [build_audit_record now ?r resp]"
    using i by (auto simp: invoke_tool_def guarded_call_def split: sum.splits prod.splits option.splits)
  moreover have "chain_of (mt_job_id t) (gw_chains w1) = chain_of (mt_job_id t) (gw_chains w)"
    using i assms(2) by (auto simp: invoke_tool_def guarded_call_def check_tool_chain_def chain_key_def Let_def chain_of_def
        split: sum.splits prod.splits option.splits if_splits)
  ultimately show ?thesis by (simp add: run run' build_audit_record_def)
qed


subsection \<open>Retrieval through the gateway\<close>

text \<open>A chunk a persona of a clearance and the default role may read, whatever its tenant.\<close>

definition analyst_readable :: "data_classification \<Rightarrow> rag_chunk \<Rightarrow> bool" where
  "analyst_readable clr c = (acl_classification (chunk_acl_of c) \<le> clr
     \<and> (acl_roles (chunk_acl_of c) = [] \<or> ''analyst'' \<in> set (acl_roles (chunk_acl_of c))))"

lemma rag_scan_default_tenant:
  assumes "ctx = \<lparr>sc_persona = persona, sc_tenant = ''default'', sc_roles = [''analyst'']\<rparr>"
    and "ctx_clearance agents ctx = Inr clr"
  shows "list_all (analyst_readable clr) cs \<Longrightarrow> int (length allowed) < limit \<Longrightarrow>
     rag_scan agents ctx [''analyst''] limit allowed d cs = Inr (allowed @ take (nat limit - length allowed) cs, d)"
proof (induction cs arbitrary: allowed)
  case (Cons c cs)
  let ?cl = "acl_classification (chunk_acl_of c)"
  have le: "class_index ?cl \<le> class_index clr" and role: "acl_roles (chunk_acl_of c) = [] \<or> ''analyst'' \<in> set (acl_roles (chunk_acl_of c))"
    using Cons.prems(1) by (simp_all add: analyst_readable_def class_order)
  have ok: "acl_allows agents ctx [''analyst''] (chunk_acl_of c) = Inr True"
    using le role assms by (auto simp: acl_allows_def can_access_def list_ex_iff)
  have inc: "include_in_context agents ctx ?cl = Inr True"
    using le assms(2) class_index_3[of clr] by (auto simp: include_in_context_def can_access_def)
  have step: "rag_scan agents ctx [''analyst''] limit allowed d (c # cs)
     = (if int (length (allowed @ [c])) \<ge> limit then Inr (allowed @ [c], d)
        else rag_scan agents ctx [''analyst''] limit (allowed @ [c]) d cs)"
    by (simp add: ok inc Let_def)
  show ?case
  proof (cases "int (length (allowed @ [c])) \<ge> limit")
    case True
    then have "nat limit - length allowed = 1" using Cons.prems(2) by auto
    then show ?thesis using True by (simp only: step if_True take_Suc_Cons One_nat_def take_0)
  next
    case False
    then have "nat limit - length allowed = Suc (nat limit - length (allowed @ [c]))" using Cons.prems(2) by auto
    then show ?thesis using False Cons.IH[of "allowed @ [c]"] Cons.prems(1) by (simp only: step if_False) simp
  qed
qed simp

text \<open>The caller's identity does not confine a retrieval: a RAG call without a tenant argument gives
  every request, of whatever persona and job, the same chunks, and they come from all tenants: all
  candidates within the clearance of soc and open to analysts, up to the limit.\<close>

theorem rag_tool_reads_all_tenants:
  assumes "tr_tool_name r = ''rag_query''" and "tr_args r = [(''query'', PStr q)]" and "strip q \<noteq> []"
    and "ge_search E x q (ge_rag_max E * 3) = Inr cs" and "0 < ge_rag_max E" and "cs \<noteq> []"
    and "persona_clearance_for (ge_agents E) ''soc'' None = Inr clr" and "list_all (analyst_readable clr) cs"
  shows "execute_tool E r x = (x, Inr (rag_payload \<lparr>rr_query = q, rr_chunks = take (nat (ge_rag_max E)) cs,
     rr_denied_count = 0, rr_fail_closed = False, rr_error = []\<rparr>))"
proof -
  let ?ctx = "\<lparr>sc_persona = ''soc'', sc_tenant = ''default'', sc_roles = [''analyst'']\<rparr>"
  have "ctx_clearance (ge_agents E) ?ctx = Inr clr" using assms(7) by (simp add: ctx_clearance_def)
  from rag_scan_default_tenant[OF refl this assms(8), of "[]" "ge_rag_max E" 0]
  have "rag_scan (ge_agents E) ?ctx [''analyst''] (ge_rag_max E) [] 0 cs = Inr (take (nat (ge_rag_max E)) cs, 0)"
    using assms(5) by simp
  moreover have "take (nat (ge_rag_max E)) cs \<noteq> []" using assms(5,6) by simp
  ultimately have q: "rag_query (ge_agents E) (ge_search E x) (ge_rag_max E) q ''soc'' ''default'' None None
      = Inr \<lparr>rr_query = q, rr_chunks = take (nat (ge_rag_max E)) cs, rr_denied_count = 0, rr_fail_closed = False, rr_error = []\<rparr>"
    using assms(3,4) by (simp add: rag_query_def num_or_def Let_def)
  have "rag_query_tool E [(''query'', PStr q)] x = Inr (rag_payload \<lparr>rr_query = q,
      rr_chunks = take (nat (ge_rag_max E)) cs, rr_denied_count = 0, rr_fail_closed = False, rr_error = []\<rparr>)"
    using assms(3) q by (simp add: rag_query_tool_def kwargs_def roles_arg_def get_or_def)
  then show ?thesis
    by (simp add: execute_tool_def invoke_adapter_def assms(1,2) VEIL_MCP_TOOL_NAMES_def)
qed

subsection \<open>Examples\<close>

text \<open>The external state counts the commands that were run.\<close>

definition demo_gateway :: "nat gateway_env" where
  "demo_gateway = \<lparr>ge_limit = 2, ge_siem_adapter = ''mock'', ge_siem_base_url = [],
     ge_siem_get = (\<lambda>u p x. Inl (PyExc ''ConnectError'')), ge_veil_enabled = False, ge_veil_allowed = [],
     ge_veil_post = (\<lambda>p x. Http_error ''down''), ge_agents = (\<lambda>p. Inr None),
     ge_search = (\<lambda>x q n. Inr [demo_chunk ''acme'' INTERNAL, demo_chunk ''globex'' CONFIDENTIAL]), ge_rag_max = 5,
     ge_registry = (\<lambda>n. if n = ''execute_command'' then Some (\<lambda>args x. (Suc x, Inr (PStr ''done''))) else None),
     ge_loads = (\<lambda>s. None), ge_dumps = (\<lambda>v. ''json''), ge_str = (\<lambda>v. ''str''), ge_detector = demo_detector\<rparr>"

definition demo_call :: "string \<Rightarrow> tool_request" where
  "demo_call tool = \<lparr>tr_tool_name = tool, tr_args = [(''query'', PStr ''logs'')], tr_persona = ''consultant'',
     tr_sandbox_id = ''sb1'', tr_job_id = ''j1'', tr_correlation_id = []\<rparr>"

definition demo_gateway_world :: "nat gateway_world" where
  "demo_gateway_world = \<lparr>gw_chains = [], gw_audit = [], gw_metrics = [], gw_ext = 0\<rparr>"

theorem tool_chain_bound_witness:
  "gw_ext (fst (invoke_all demo_gateway (replicate 5 (0, demo_call ''execute_command'')) demo_gateway_world)) = 2
   \<and> map ts_success (drop 2 (snd (invoke_all demo_gateway (replicate 5 (0, demo_call ''execute_command'')) demo_gateway_world)))
       = [False, False, False]"
proof -
  let ?qs = "replicate 5 (0, demo_call ''execute_command'')"
  have "is_high_risk_tool ''execute_command''" by code_simp
  then have a: "list_all (chain_request ''j1'' \<circ> snd) ?qs"
    by (simp add: chain_request_def demo_call_def chain_key_def list_all_iff)
  have n: "2 = nat (ge_limit demo_gateway - chain_of ''j1'' (gw_chains demo_gateway_world))"
    by (simp add: demo_gateway_def demo_gateway_world_def chain_of_def)
  have "gw_ext (fst (invoke_all demo_gateway (take 2 ?qs) demo_gateway_world)) = 2" by code_simp
  then show ?thesis using tool_chain_bound[OF a n] by (simp add: failed_response_def numeral_eq_Suc)
qed

theorem gateway_response_screened_witness:
  "\<exists>t. sanitize demo_detector Src_tool ''json'' = Inr t
     \<and> ts_sanitized_payload (snd (invoke_tool demo_gateway 0 (demo_call ''execute_command'') demo_gateway_world))
         = wrap_retrieved_tool_data t"
proof -
  let ?x = "invoke_tool demo_gateway 0 (demo_call ''execute_command'') demo_gateway_world"
  have s: "ts_success (snd ?x)" by code_simp
  have "ge_dumps demo_gateway (PDict (ts_data (snd ?x))) = ''json''" "ge_detector demo_gateway = demo_detector"
    by (simp_all add: demo_gateway_def)
  then show ?thesis using gateway_response_screened[OF surjective_pairing[of ?x]] s by auto
qed

definition demo_tool :: mcp_tool where
  "demo_tool = \<lparr>mt_name = ''execute_command'', mt_sandbox_id = ''sb1'', mt_persona = ''soc'', mt_job_id = ''j1'',
     mt_correlation_id = []\<rparr>"

theorem refused_call_runs_locally_witness:
  "gw_ext (fst (mcp_run demo_gateway (Some (\<lambda>r x. (x, Inl (PyExc ''403 Forbidden'')))) 0 demo_tool [] demo_gateway_world)) = 1"
proof -
  have "mcp_run demo_gateway (Some (\<lambda>r x. (x, Inl (PyExc ''403 Forbidden'')))) 0 demo_tool [] demo_gateway_world
      = mcp_run demo_gateway None 0 demo_tool [] demo_gateway_world"
    by (rule refused_call_runs_locally[THEN conjunct1, OF refl]) (simp_all add: demo_tool_def)
  moreover have "gw_ext (fst (mcp_run demo_gateway None 0 demo_tool [] demo_gateway_world)) = 1" by code_simp
  ultimately show ?thesis by simp
qed

theorem rag_tool_reads_all_tenants_witness:
  "\<exists>d. execute_tool demo_gateway (demo_call ''rag_query'') 0 = (0, Inr d)
     \<and> dget d ''sources'' = Some (PList (map source_of_chunk [demo_chunk ''acme'' INTERNAL, demo_chunk ''globex'' CONFIDENTIAL]))"
proof -
  let ?cs = "[demo_chunk ''acme'' INTERNAL, demo_chunk ''globex'' CONFIDENTIAL]"
  have s: "strip ''logs'' \<noteq> []" by code_simp
  have clr: "persona_clearance_for (\<lambda>p. Inr None) ''soc'' None = Inr CONFIDENTIAL" by code_simp
  have rd: "list_all (analyst_readable CONFIDENTIAL) ?cs" by code_simp
  have "execute_tool demo_gateway (demo_call ''rag_query'') 0 = (0, Inr (rag_payload \<lparr>rr_query = ''logs'',
      rr_chunks = take (nat (ge_rag_max demo_gateway)) ?cs, rr_denied_count = 0, rr_fail_closed = False, rr_error = []\<rparr>))"
    by (rule rag_tool_reads_all_tenants[OF _ _ s _ _ _ _ rd]) (simp_all add: demo_call_def demo_gateway_def clr)
  then show ?thesis by (simp add: rag_payload_def demo_gateway_def)
qed

end
