(* ===== verification/Tool_Gate.thy ===== *)
theory Tool_Gate
  imports Job_Limits Job_Hitl Schemas
begin

text \<open>What stands between a model's tool call and the tool: the middleware of cys_core/middleware
  (scope, argument coercion, security, schema-guided reasoning, one tool per turn) in the order in which
  AgentRuntime._build_middleware stacks it, with cys_core/application/runs/tool_coercion.py and
  cys_core/application/reasoning/sgr_policy.py. The tool is a parameter that acts on an external state;
  the resume value of an interrupt, json.loads, digests, the formatting of
  money and fresh approval ids are parameters. The
  rate limiter is the in-memory one.\<close>

subsection \<open>State\<close>

record tool_call =
  tc_name :: string
  tc_args :: payload
  tc_id :: string

datatype tool_result = Error_message string string | Tool_result pyval

datatype tool_exc = Budget_exc string | Tool_exc exc

record sgr_session =
  ss_reasoning_done :: bool
  ss_action_tools :: int
  ss_metadata :: "payload option"

definition SgrSessionState :: sgr_session where
  "SgrSessionState = \<lparr>ss_reasoning_done = False, ss_action_tools = 0, ss_metadata = None\<rparr>"

definition mark_reasoning :: "payload \<Rightarrow> sgr_session \<Rightarrow> sgr_session" where
  "mark_reasoning step s = s\<lparr>ss_reasoning_done := True, ss_metadata := Some step\<rparr>"

definition reset_turn :: "sgr_session \<Rightarrow> sgr_session" where
  "reset_turn s = s\<lparr>ss_reasoning_done := False, ss_action_tools := 0\<rparr>"

definition REASONING_STEP_TOOL :: string where
  "REASONING_STEP_TOOL = ''reasoning_step''"

record 'x gate_world =
  gt_limiter :: rate_limiter
  gt_budgets :: tracker
  gt_monitor :: monitor
  gt_jobs :: job_store
  gt_sgr :: sgr_session
  gt_turn_calls :: int
  gt_ext :: 'x

type_synonym 'x handler = "tool_call \<Rightarrow> 'x gate_world \<Rightarrow> 'x gate_world \<times> (tool_exc + tool_result)"

record resolved_sgr =
  rsg_enabled :: bool
  rsg_mode :: sgr_mode
  rsg_require_before_action :: bool

text \<open>Precedence: the profile's policy, the agent's mode, the environment's default.\<close>

definition resolve_sgr_policy ::
  "profile_policy option \<Rightarrow> sgr_mode option \<Rightarrow> bool \<Rightarrow> sgr_mode \<Rightarrow> resolved_sgr" where
  "resolve_sgr_policy profile agent_mode use_sgr default_mode = (
     let sgr = (case profile of Some p \<Rightarrow> pol_sgr p | None \<Rightarrow> SgrPolicy);
         require = sgr_require_before_action sgr;
         on = (\<lambda>m. \<lparr>rsg_enabled = True, rsg_mode = m, rsg_require_before_action = require\<rparr>);
         am = (case agent_mode of Some m \<Rightarrow> m | None \<Rightarrow> Sgr_off) in
     if \<not> use_sgr then \<lparr>rsg_enabled = False, rsg_mode = Sgr_off, rsg_require_before_action = True\<rparr>
     else if sgr_enabled sgr \<and> sgr_mode_of sgr \<noteq> Sgr_off then on (sgr_mode_of sgr)
     else if am \<noteq> Sgr_off then on am
     else if default_mode \<noteq> Sgr_off then on default_mode
     else \<lparr>rsg_enabled = False, rsg_mode = Sgr_off, rsg_require_before_action = require\<rparr>)"

record gate_env =
  gv_agent_id :: string
  gv_session_id :: string
  gv_profile_id :: string
  gv_stage :: string
  gv_scope :: scope_policy
  gv_profiles :: profiles_read
  gv_threshold :: risk_level
  gv_sgr :: resolved_sgr
  gv_one_tool :: bool
  gv_hash :: "payload \<Rightarrow> string"
  gv_loads :: "string \<Rightarrow> pyval option"
  gv_money :: "rat \<Rightarrow> string"
  gv_interrupt :: "payload \<Rightarrow> exc + pyval"

text \<open>What a call takes from its moment: the clock and a fresh approval id.\<close>

record tick =
  tk_now :: time
  tk_approval_id :: string

subsection \<open>Scope\<close>

definition wrap_scope :: "gate_env \<Rightarrow> 'x handler \<Rightarrow> 'x handler" where
  "wrap_scope V h c w = (case check_tool_call (gv_scope V) (tc_name c) (tc_args c) of
     Some reason \<Rightarrow> (w, Inr (Error_message reason (tc_id c)))
   | None \<Rightarrow> h c w)"

subsection \<open>Coercion of arguments\<close>

text \<open>str.isdigit holds of the superscript digits of Latin-1 too, which int() refuses; and int()
  refuses more than 4300 digits.\<close>

definition is_decimal :: "char \<Rightarrow> bool" where
  "is_decimal c = (let n = (of_char c :: nat) in 48 \<le> n \<and> n \<le> 57)"

definition is_superscript :: "char \<Rightarrow> bool" where
  "is_superscript c = (let n = (of_char c :: nat) in n = 178 \<or> n = 179 \<or> n = 185)"

definition isdigit :: "string \<Rightarrow> bool" where
  "isdigit s = (s \<noteq> [] \<and> list_all (\<lambda>c. is_decimal c \<or> is_superscript c) s)"

definition int_of_digits :: "string \<Rightarrow> exc + int" where
  "int_of_digits s = (if list_all is_decimal s \<and> length s \<le> 4300
     then Inr (foldl (\<lambda>n c. 10 * n + (int (of_char c) - 48)) 0 s) else Inl (PyExc ''ValueError''))"

definition coerce_string :: "(string \<Rightarrow> pyval option) \<Rightarrow> string \<Rightarrow> exc + pyval" where
  "coerce_string loads s = (let st = strip s; l = lower st in
     if l = ''true'' \<or> l = ''false'' then Inr (PBool (l = ''true''))
     else if isdigit st then rbind (int_of_digits st) (\<lambda>n. Inr (PInt n))
     else if startswith st ''['' \<or> startswith st [CHR 0x7B]
     then Inr (case loads st of Some v \<Rightarrow> v | None \<Rightarrow> PStr s)
     else Inr (PStr s))"

fun coerce_value :: "(string \<Rightarrow> pyval option) \<Rightarrow> pyval \<Rightarrow> exc + pyval"
  and coerce_list :: "(string \<Rightarrow> pyval option) \<Rightarrow> pyval list \<Rightarrow> exc + pyval list"
  and coerce_items :: "(string \<Rightarrow> pyval option) \<Rightarrow> (string \<times> pyval) list \<Rightarrow> exc + (string \<times> pyval) list" where
  "coerce_value loads (PStr s) = coerce_string loads s"
| "coerce_value loads (PDict d) = rbind (coerce_items loads d) (\<lambda>e. Inr (PDict e))"
| "coerce_value loads (PList vs) = rbind (coerce_list loads vs) (\<lambda>ws. Inr (PList ws))"
| "coerce_value loads v = Inr v"
| "coerce_list loads [] = Inr []"
| "coerce_list loads (v # vs) = rbind (coerce_value loads v) (\<lambda>w. rbind (coerce_list loads vs) (\<lambda>ws. Inr (w # ws)))"
| "coerce_items loads [] = Inr []"
| "coerce_items loads ((k, v) # d) = rbind (coerce_value loads v) (\<lambda>w. rbind (coerce_items loads d) (\<lambda>e. Inr ((k, w) # e)))"

definition coerce_tool_args :: "(string \<Rightarrow> pyval option) \<Rightarrow> payload \<Rightarrow> exc + payload" where
  "coerce_tool_args loads args = coerce_items loads args"

definition wrap_coercion :: "gate_env \<Rightarrow> 'x handler \<Rightarrow> 'x handler" where
  "wrap_coercion V h c w = (case coerce_tool_args (gv_loads V) (tc_args c) of
     Inl e \<Rightarrow> (w, Inl (Tool_exc e))
   | Inr args \<Rightarrow> h (c\<lparr>tc_args := args\<rparr>) w)"

subsection \<open>Security\<close>

fun budget_text :: "(rat \<Rightarrow> string) \<Rightarrow> budget_exceeded \<Rightarrow> string" where
  "budget_text money (Tool_calls_exceeded n) = ''Job tool-call budget exceeded ('' @ int_str n @ '' max)''"
| "budget_text money (Tokens_exceeded n) = ''Job token budget exceeded ('' @ int_str n @ '' max)''"
| "budget_text money (Cost_exceeded r) = ''Job cost budget exceeded ('' @ money r @ '' max)''"

definition rate_key :: "gate_env \<Rightarrow> tool_call \<Rightarrow> string" where
  "rate_key V c = gv_session_id V @ '':'' @ tc_name c"

text \<open>None when the call may go on.\<close>

definition await_hitl_if_needed ::
  "gate_env \<Rightarrow> tick \<Rightarrow> tool_call \<Rightarrow> job_store \<Rightarrow> job_store \<times> (exc + tool_result option)" where
  "await_hitl_if_needed V t c s = (case classify_tool_risk (gv_profiles V) (tc_name c) (Some (gv_profile_id V)) of
     Inl e \<Rightarrow> (s, Inl (PyExc e))
   | Inr risk \<Rightarrow>
     if risk \<le> gv_threshold V then (s, Inr None)
     else if gv_stage V = ''dev'' then (s, Inr (Some (Error_message
       (''Tool '' @ squote @ tc_name c @ squote @ '' (risk='' @ risk_value risk @ '') requires human approval.'') (tc_id c))))
     else (let preview = build_hitl_preview (gv_hash V) (tk_approval_id t) (tc_name c) (tc_args c) (risk_value risk)
             (gv_session_id V) (gv_agent_id V);
           s1 = register_hitl_pause preview s in
       case rbind (gv_interrupt V preview) resume_decision_approved of
         Inl e \<Rightarrow> (s1, Inl e)
       | Inr True \<Rightarrow> (s1, Inr None)
       | Inr False \<Rightarrow> (s1, Inr (Some (Error_message
           (''Tool '' @ squote @ tc_name c @ squote @ '' rejected by human reviewer.'') (tc_id c))))))"

definition log_failure :: "gate_env \<Rightarrow> string \<Rightarrow> payload \<Rightarrow> 'x gate_world \<Rightarrow> 'x gate_world" where
  "log_failure V kind details w = w\<lparr>gt_monitor :=
     log_security_event (gv_session_id V) kind ''WARNING'' details ''system'' (gt_monitor w)\<rparr>"

text \<open>The handler's answer is paid for and logged after it was given.\<close>

definition settle_call :: "gate_env \<Rightarrow> tick \<Rightarrow> tool_call \<Rightarrow> 'x gate_world \<Rightarrow> tool_exc + tool_result
    \<Rightarrow> 'x gate_world \<times> (tool_exc + tool_result)" where
  "settle_call V t c w res = (case res of
     Inr r \<Rightarrow> (case record_tool_call (gv_session_id V) (gt_budgets w) of
         (b, Some e) \<Rightarrow> (w\<lparr>gt_budgets := b\<rparr>, Inr (Error_message (budget_text (gv_money V) e) (tc_id c)))
       | (b, None) \<Rightarrow> (w\<lparr>gt_budgets := b, gt_monitor := log_tool_call (tk_now t) (gv_session_id V) (tc_name c)
             (tc_args c) [(''status'', PStr ''ok'')] ''system'' (gt_monitor w)\<rparr>, Inr r))
   | Inl (Budget_exc s) \<Rightarrow> (w, Inr (Error_message s (tc_id c)))
   | Inl (Tool_exc e) \<Rightarrow> (log_failure V ''tool_failure''
       [(''tool'', PStr (tc_name c)), (''error'', PStr (exc_message e))] w, Inl (Tool_exc e)))"

definition wrap_security :: "gate_env \<Rightarrow> tick \<Rightarrow> 'x handler \<Rightarrow> 'x handler" where
  "wrap_security V t h c w = (case check_tool_budget (gv_session_id V) (gt_budgets w) of
     Some e \<Rightarrow> (w, Inr (Error_message (budget_text (gv_money V) e) (tc_id c)))
   | None \<Rightarrow> (case rate_allow (tk_now t) (rate_key V c) (gt_limiter w) of
       (l, False) \<Rightarrow> (log_failure V ''rate_limit_exceeded'' [(''tool'', PStr (tc_name c))] (w\<lparr>gt_limiter := l\<rparr>),
          Inr (Error_message (''Rate limit exceeded for key: '' @ rate_key V c) (tc_id c)))
     | (l, True) \<Rightarrow> (case await_hitl_if_needed V t c (gt_jobs w) of
         (s, Inl e) \<Rightarrow> (w\<lparr>gt_limiter := l, gt_jobs := s\<rparr>, Inl (Tool_exc e))
       | (s, Inr (Some block)) \<Rightarrow> (w\<lparr>gt_limiter := l, gt_jobs := s\<rparr>, Inr block)
       | (s, Inr None) \<Rightarrow> (case h c (w\<lparr>gt_limiter := l, gt_jobs := s\<rparr>) of
           (w1, res) \<Rightarrow> settle_call V t c w1 res))))"

subsection \<open>Schema-guided reasoning\<close>

text \<open>Validation of a reasoning step: strings are strict, booleans accept what pydantic takes for one.\<close>

definition str_list_ok :: "nat \<Rightarrow> nat \<Rightarrow> pyval \<Rightarrow> bool" where
  "str_list_ok lo hi v = (case v of PList vs \<Rightarrow> lo \<le> length vs \<and> length vs \<le> hi
       \<and> list_all (\<lambda>x. case x of PStr _ \<Rightarrow> True | _ \<Rightarrow> False) vs
     | _ \<Rightarrow> False)"

definition str_ok :: "nat \<Rightarrow> pyval \<Rightarrow> bool" where
  "str_ok hi v = (case v of PStr s \<Rightarrow> length s \<le> hi | _ \<Rightarrow> False)"

definition validate_reasoning_step :: "payload \<Rightarrow> payload option" where
  "validate_reasoning_step args = (
     let steps = get_or args ''reasoning_steps'' PNone; situation = get_or args ''current_situation'' PNone;
         status = get_or args ''plan_status'' PNone; remaining = get_or args ''remaining_steps'' (PList []) in
     if \<not> (str_list_ok 2 3 steps \<and> str_ok 300 situation \<and> str_ok 150 status \<and> str_list_ok 0 3 remaining) then None
     else (case (lax_bool (get_or args ''enough_data'' (PBool False)), lax_bool (get_or args ''task_completed'' PNone)) of
         (Some enough, Some completed) \<Rightarrow> Some [(''reasoning_steps'', steps), (''current_situation'', situation),
            (''plan_status'', status), (''enough_data'', PBool enough), (''remaining_steps'', remaining),
            (''task_completed'', PBool completed)]
       | _ \<Rightarrow> None))"

definition record_reasoning_from_tool_args :: "payload \<Rightarrow> sgr_session \<Rightarrow> sgr_session" where
  "record_reasoning_from_tool_args args s = (case validate_reasoning_step args of
     None \<Rightarrow> s | Some step \<Rightarrow> mark_reasoning step s)"

definition wrap_sgr :: "gate_env \<Rightarrow> 'x handler \<Rightarrow> 'x handler" where
  "wrap_sgr V h c w = (
     if \<not> rsg_enabled (gv_sgr V) then h c w
     else if tc_name c = REASONING_STEP_TOOL then (case h c w of
         (w1, Inl e) \<Rightarrow> (w1, Inl e)
       | (w1, Inr r) \<Rightarrow> (w1\<lparr>gt_sgr := record_reasoning_from_tool_args (tc_args c) (gt_sgr w1)\<rparr>, Inr r))
     else if rsg_require_before_action (gv_sgr V) \<and> \<not> ss_reasoning_done (gt_sgr w)
     then (w, Inr (Error_message (''Call '' @ REASONING_STEP_TOOL @ '' before using '' @ tc_name c @ ''.'') (tc_id c)))
     else h c w)"

definition wrap_sgr_one_tool :: "'x handler \<Rightarrow> 'x handler" where
  "wrap_sgr_one_tool h c w = (
     if tc_name c = REASONING_STEP_TOOL then h c w
     else if ss_action_tools (gt_sgr w) \<ge> 1
     then (w, Inr (Error_message ''Only one action tool per turn is allowed after reasoning_step.'' (tc_id c)))
     else h c (w\<lparr>gt_sgr := (gt_sgr w)\<lparr>ss_action_tools := ss_action_tools (gt_sgr w) + 1\<rparr>\<rparr>))"

definition wrap_one_tool :: "'x handler \<Rightarrow> 'x handler" where
  "wrap_one_tool h c w = (let w1 = w\<lparr>gt_turn_calls := gt_turn_calls w + 1\<rparr> in
     if gt_turn_calls w1 > 1
     then (w1, Inr (Error_message
       ''Only one tool call per turn is allowed. Complete this step before invoking another tool.'' (tc_id c)))
     else h c w1)"

text \<open>Every model call starts a turn.\<close>

definition begin_turn :: "'x gate_world \<Rightarrow> 'x gate_world" where
  "begin_turn w = w\<lparr>gt_sgr := reset_turn (gt_sgr w), gt_turn_calls := 0\<rparr>"

subsection \<open>The stack\<close>

type_synonym 'x tool = "tool_call \<Rightarrow> 'x \<Rightarrow> 'x \<times> (tool_exc + tool_result)"

definition tool_handler :: "'x tool \<Rightarrow> 'x handler" where
  "tool_handler run c w = (case run c (gt_ext w) of (x, res) \<Rightarrow> (w\<lparr>gt_ext := x\<rparr>, res))"

definition turn_discipline :: "gate_env \<Rightarrow> 'x handler \<Rightarrow> 'x handler" where
  "turn_discipline V h = (if rsg_enabled (gv_sgr V) then wrap_sgr V (wrap_sgr_one_tool h)
     else if gv_one_tool V then wrap_one_tool h else h)"

definition gate :: "gate_env \<Rightarrow> tick \<Rightarrow> 'x tool \<Rightarrow> 'x handler" where
  "gate V t run = wrap_scope V (wrap_coercion V (wrap_security V t (turn_discipline V (tool_handler run))))"


subsection \<open>What each layer lets through\<close>

text \<open>Each layer either answers itself, without touching the external state, or hands the call on.\<close>

lemma log_failure_keeps [simp]:
  "gt_ext (log_failure V k d w) = gt_ext w" "gt_budgets (log_failure V k d w) = gt_budgets w"
  "gt_jobs (log_failure V k d w) = gt_jobs w" "gt_sgr (log_failure V k d w) = gt_sgr w"
  "gt_turn_calls (log_failure V k d w) = gt_turn_calls w"
  by (simp_all add: log_failure_def)

lemma settle_call_keeps [simp]:
  "gt_ext (fst (settle_call V t c w res)) = gt_ext w" "gt_jobs (fst (settle_call V t c w res)) = gt_jobs w"
  "gt_sgr (fst (settle_call V t c w res)) = gt_sgr w" "gt_turn_calls (fst (settle_call V t c w res)) = gt_turn_calls w"
  by (auto simp: settle_call_def split: sum.split tool_exc.split prod.split option.split)

text \<open>A tool above the threshold waits for a human, whose decision is yes.\<close>

definition human_approved :: "gate_env \<Rightarrow> tick \<Rightarrow> tool_call \<Rightarrow> risk_level \<Rightarrow> bool" where
  "human_approved V t c risk = (gv_stage V \<noteq> ''dev''
     \<and> rbind (gv_interrupt V (build_hitl_preview (gv_hash V) (tk_approval_id t) (tc_name c) (tc_args c)
           (risk_value risk) (gv_session_id V) (gv_agent_id V))) resume_decision_approved = Inr True)"

lemma await_None:
  assumes "await_hitl_if_needed V t c s = (s1, Inr None)"
  shows "\<exists>risk. classify_tool_risk (gv_profiles V) (tc_name c) (Some (gv_profile_id V)) = Inr risk
     \<and> (risk \<le> gv_threshold V \<or> human_approved V t c risk)"
  using assms by (auto simp: await_hitl_if_needed_def human_approved_def Let_def split: sum.splits if_splits bool.splits)

text \<open>The answer of a tool, as opposed to a message of a guard or an exception.\<close>

definition answered :: "tool_exc + tool_result \<Rightarrow> bool" where
  "answered r = (case r of Inr (Tool_result v) \<Rightarrow> True | _ \<Rightarrow> False)"

lemma await_block: "await_hitl_if_needed V t c s = (s1, Inr (Some b)) \<Longrightarrow> \<not> answered (Inr b)"
  by (auto simp: await_hitl_if_needed_def answered_def Let_def split: sum.splits if_splits bool.splits)

lemma wrap_security_cases:
  obtains (stop) s l m where "fst (wrap_security V t h c w) = w\<lparr>gt_limiter := l, gt_jobs := s, gt_monitor := m\<rparr>"
      "\<not> answered (snd (wrap_security V t h c w))"
    | (go) l s where "check_tool_budget (gv_session_id V) (gt_budgets w) = None"
      "rate_allow (tk_now t) (rate_key V c) (gt_limiter w) = (l, True)"
      "await_hitl_if_needed V t c (gt_jobs w) = (s, Inr None)"
      "wrap_security V t h c w = settle_call V t c (fst (h c (w\<lparr>gt_limiter := l, gt_jobs := s\<rparr>)))
         (snd (h c (w\<lparr>gt_limiter := l, gt_jobs := s\<rparr>)))"
proof (cases "check_tool_budget (gv_session_id V) (gt_budgets w)")
  case (Some e)
  then show thesis by (intro stop[where l = "gt_limiter w" and s = "gt_jobs w" and m = "gt_monitor w"]) (simp_all add: wrap_security_def answered_def)
next
  case None
  obtain l ok where r: "rate_allow (tk_now t) (rate_key V c) (gt_limiter w) = (l, ok)" by fastforce
  show thesis
  proof (cases ok)
    case False
    then show thesis
      by (intro stop[where l = l and s = "gt_jobs w" and m = "gt_monitor (fst (wrap_security V t h c w))"])
        (simp_all add: wrap_security_def None r log_failure_def answered_def)
  next
    case True
    obtain s res where a: "await_hitl_if_needed V t c (gt_jobs w) = (s, res)" by fastforce
    show thesis
    proof (cases "res = Inr None")
      case True
      with \<open>ok\<close> show thesis
        by (intro go[OF None _ a[unfolded True]]) (simp_all add: wrap_security_def None r a split_beta)
    next
      case False
      have "\<not> answered (Inr b)" if "res = Inr (Some b)" for b using await_block a that by blast
      with False \<open>ok\<close> show thesis
        by (intro stop[where l = l and s = s and m = "gt_monitor w"])
          (auto simp: wrap_security_def None r a answered_def split: sum.split option.split)
    qed
  qed
qed

lemma wrap_security_ext:
  assumes "gt_ext (fst (wrap_security V t h c w)) \<noteq> gt_ext w"
  shows "check_tool_budget (gv_session_id V) (gt_budgets w) = None
    \<and> (\<exists>l s. rate_allow (tk_now t) (rate_key V c) (gt_limiter w) = (l, True)
         \<and> await_hitl_if_needed V t c (gt_jobs w) = (s, Inr None)
         \<and> gt_ext (fst (wrap_security V t h c w)) = gt_ext (fst (h c (w\<lparr>gt_limiter := l, gt_jobs := s\<rparr>))))"
  by (rule wrap_security_cases[of V t h c w]) (use assms in auto)

text \<open>What the discipline of the turn asks of a call.\<close>

definition turn_admits :: "gate_env \<Rightarrow> tool_call \<Rightarrow> 'x gate_world \<Rightarrow> bool" where
  "turn_admits V c w = (
     (rsg_enabled (gv_sgr V) \<and> tc_name c \<noteq> REASONING_STEP_TOOL \<longrightarrow> ss_action_tools (gt_sgr w) < 1
        \<and> (rsg_require_before_action (gv_sgr V) \<longrightarrow> ss_reasoning_done (gt_sgr w)))
     \<and> (\<not> rsg_enabled (gv_sgr V) \<and> gv_one_tool V \<longrightarrow> gt_turn_calls w < 1))"

lemma turn_discipline_ext:
  assumes "gt_ext (fst (turn_discipline V (tool_handler run) c w)) \<noteq> gt_ext w"
  shows "turn_admits V c w \<and> gt_ext (fst (turn_discipline V (tool_handler run) c w)) = fst (run c (gt_ext w))"
  using assms by (auto simp: turn_discipline_def turn_admits_def wrap_sgr_def wrap_sgr_one_tool_def wrap_one_tool_def
      tool_handler_def Let_def split: if_splits prod.splits sum.splits)

lemma gate_cases:
  obtains (stop) "fst (gate V t run c w) = w" "\<not> answered (snd (gate V t run c w))"
    | (go) args where "check_tool_call (gv_scope V) (tc_name c) (tc_args c) = None"
      "coerce_tool_args (gv_loads V) (tc_args c) = Inr args"
      "gate V t run c w = wrap_security V t (turn_discipline V (tool_handler run)) (c\<lparr>tc_args := args\<rparr>) w"
proof (cases "check_tool_call (gv_scope V) (tc_name c) (tc_args c)")
  case None
  show thesis
  proof (cases "coerce_tool_args (gv_loads V) (tc_args c)")
    case (Inl e)
    then show thesis by (intro stop) (simp_all add: gate_def wrap_scope_def wrap_coercion_def None answered_def)
  next
    case (Inr args)
    then show thesis by (intro go[OF None Inr]) (simp add: gate_def wrap_scope_def wrap_coercion_def None)
  qed
qed (rule stop; simp add: gate_def wrap_scope_def answered_def)

text \<open>C5: A tool acts only on a call that passed every guard: the tool is in scope and no path argument
  is blocked, the arguments it gets are the coerced ones, the job's budget and the rate limit have room,
  its risk is at most the auto-approve threshold or a human approved it outside the dev stage, and the
  turn allows it.\<close>

theorem tool_acts_only_admitted:
  assumes "gt_ext (fst (gate V t run c w)) \<noteq> gt_ext w"
  shows "check_tool_call (gv_scope V) (tc_name c) (tc_args c) = None
    \<and> check_tool_budget (gv_session_id V) (gt_budgets w) = None
    \<and> snd (rate_allow (tk_now t) (rate_key V c) (gt_limiter w))
    \<and> (\<exists>args risk. coerce_tool_args (gv_loads V) (tc_args c) = Inr args
         \<and> gt_ext (fst (gate V t run c w)) = fst (run (c\<lparr>tc_args := args\<rparr>) (gt_ext w))
         \<and> classify_tool_risk (gv_profiles V) (tc_name c) (Some (gv_profile_id V)) = Inr risk
         \<and> (risk \<le> gv_threshold V \<or> human_approved V t (c\<lparr>tc_args := args\<rparr>) risk))
    \<and> turn_admits V c w"
proof (cases rule: gate_cases[of V t run c w])
  case stop
  then show ?thesis using assms by simp
next
  case (go args)
  note a = go(1) and co = go(2) and g = go(3)
  let ?h = "turn_discipline V (tool_handler run)" and ?c = "c\<lparr>tc_args := args\<rparr>"
  have "gt_ext (fst (wrap_security V t ?h ?c w)) \<noteq> gt_ext w" using assms by (simp add: g)
  from wrap_security_ext[OF this] obtain l s where sec: "check_tool_budget (gv_session_id V) (gt_budgets w) = None"
      "rate_allow (tk_now t) (rate_key V ?c) (gt_limiter w) = (l, True)"
      "await_hitl_if_needed V t ?c (gt_jobs w) = (s, Inr None)"
    and e: "gt_ext (fst (wrap_security V t ?h ?c w)) = gt_ext (fst (?h ?c (w\<lparr>gt_limiter := l, gt_jobs := s\<rparr>)))" by blast
  from await_None[OF sec(3)] obtain risk where
    r: "classify_tool_risk (gv_profiles V) (tc_name c) (Some (gv_profile_id V)) = Inr risk"
       "risk \<le> gv_threshold V \<or> human_approved V t ?c risk" by auto
  have "gt_ext (fst (?h ?c (w\<lparr>gt_limiter := l, gt_jobs := s\<rparr>))) \<noteq> gt_ext (w\<lparr>gt_limiter := l, gt_jobs := s\<rparr>)"
    using assms by (simp add: g e)
  from turn_discipline_ext[OF this] have "turn_admits V c w" "gt_ext (fst (gate V t run c w)) = fst (run ?c (gt_ext w))"
    by (simp_all add: g e turn_admits_def)
  then show ?thesis using a sec co r by (auto simp: rate_key_def)
qed

subsection \<open>Budgets\<close>

datatype gate_event = New_turn | Call tick tool_call

primrec run_gate :: "gate_env \<Rightarrow> 'x tool \<Rightarrow> gate_event list \<Rightarrow> 'x gate_world
    \<Rightarrow> 'x gate_world \<times> (tool_exc + tool_result) list" where
  "run_gate V run [] w = (w, [])"
| "run_gate V run (e # es) w = (case e of
     New_turn \<Rightarrow> run_gate V run es (begin_turn w)
   | Call t c \<Rightarrow> (case gate V t run c w of (w1, r) \<Rightarrow> (case run_gate V run es w1 of (w2, rs) \<Rightarrow> (w2, r # rs))))"

lemma turn_discipline_budgets [simp]:
  "gt_budgets (fst (turn_discipline V (tool_handler run) c w)) = gt_budgets w"
  "gt_jobs (fst (turn_discipline V (tool_handler run) c w)) = gt_jobs w"
  by (simp_all add: turn_discipline_def wrap_sgr_def wrap_sgr_one_tool_def wrap_one_tool_def
      tool_handler_def Let_def split_beta case_prod_beta split: prod.split sum.split)

lemma settle_call_budget:
  assumes "budget_get sid (gt_budgets w) = Some st" and "sid = gv_session_id V"
  shows "budget_get sid (gt_budgets (fst (settle_call V t c w res))) = Some st \<and> \<not> answered (snd (settle_call V t c w res))
    \<or> bs_tool_calls st < bs_max_tool_calls st
      \<and> budget_get sid (gt_budgets (fst (settle_call V t c w res))) = Some (st\<lparr>bs_tool_calls := bs_tool_calls st + 1\<rparr>)"
  using assms by (auto simp: settle_call_def record_tool_call_def check_tool_budget_def budget_get_def answered_def
      split: sum.split tool_exc.split)

lemma gate_budget:
  assumes "budget_get (gv_session_id V) (gt_budgets w) = Some st"
  shows "budget_get (gv_session_id V) (gt_budgets (fst (gate V t run c w))) = Some st \<and> \<not> answered (snd (gate V t run c w))
    \<or> bs_tool_calls st < bs_max_tool_calls st
      \<and> budget_get (gv_session_id V) (gt_budgets (fst (gate V t run c w))) = Some (st\<lparr>bs_tool_calls := bs_tool_calls st + 1\<rparr>)"
proof -
  let ?h = "turn_discipline V (tool_handler run)"
  have sec: "budget_get (gv_session_id V) (gt_budgets (fst (wrap_security V t ?h d w))) = Some st
        \<and> \<not> answered (snd (wrap_security V t ?h d w))
    \<or> bs_tool_calls st < bs_max_tool_calls st
      \<and> budget_get (gv_session_id V) (gt_budgets (fst (wrap_security V t ?h d w))) = Some (st\<lparr>bs_tool_calls := bs_tool_calls st + 1\<rparr>)"
    for d
  proof (cases rule: wrap_security_cases[of V t ?h d w])
    case (stop s l m)
    then show ?thesis using assms by simp
  next
    case (go l s)
    show ?thesis unfolding go(4) by (rule settle_call_budget) (simp_all add: assms)
  qed
  show ?thesis
  proof (cases rule: gate_cases[of V t run c w])
    case stop
    then show ?thesis using assms by simp
  next
    case (go args)
    show ?thesis unfolding go(3) by (rule sec)
  qed
qed

text \<open>In any sequence of calls and turns of a session, at most as many calls are answered by a tool
  as its budget has tool calls left.\<close>

theorem tool_answers_bounded:
  assumes "budget_get (gv_session_id V) (gt_budgets w) = Some st"
  shows "int (length (filter answered (snd (run_gate V run es w)))) \<le> max 0 (bs_max_tool_calls st - bs_tool_calls st)"
  using assms
proof (induction es arbitrary: w st)
  case (Cons e es)
  show ?case
  proof (cases e)
    case New_turn
    have "budget_get (gv_session_id V) (gt_budgets (begin_turn w)) = Some st"
      using Cons.prems by (simp add: begin_turn_def)
    from Cons.IH[OF this] show ?thesis by (simp add: New_turn)
  next
    case (Call t c)
    let ?w1 = "fst (gate V t run c w)" and ?r = "snd (gate V t run c w)"
    have rs: "snd (run_gate V run (e # es) w) = ?r # snd (run_gate V run es ?w1)" by (simp add: Call split_beta)
    from gate_budget[OF Cons.prems, of t run c] show ?thesis
    proof
      assume a: "budget_get (gv_session_id V) (gt_budgets ?w1) = Some st \<and> \<not> answered ?r"
      with Cons.IH[of ?w1 st] show ?thesis by (simp only: rs filter.simps if_False)
    next
      assume a: "bs_tool_calls st < bs_max_tool_calls st
        \<and> budget_get (gv_session_id V) (gt_budgets ?w1) = Some (st\<lparr>bs_tool_calls := bs_tool_calls st + 1\<rparr>)"
      with Cons.IH[of ?w1] show ?thesis unfolding rs by fastforce
    qed
  qed
qed simp

text \<open>A tool that fails is free of charge: where no turn discipline applies, calls of a tool that
  raises leave the budget of the job as it was, however many are made.\<close>

theorem failing_tools_uncharged:
  assumes "\<And>c x. \<exists>e. snd (run c x) = Inl e" and "\<not> rsg_enabled (gv_sgr V)" and "\<not> gv_one_tool V"
  shows "gt_budgets (fst (run_gate V run es w)) = gt_budgets w"
proof (induction es arbitrary: w)
  case (Cons e es)
  have g: "gt_budgets (fst (gate V t run c w)) = gt_budgets w" for t c
  proof -
    have h: "turn_discipline V (tool_handler run) = tool_handler run" using assms(2,3) by (simp add: turn_discipline_def)
    have "gt_budgets (fst (wrap_security V t (tool_handler run) d w)) = gt_budgets w" for d
    proof (cases rule: wrap_security_cases[of V t "tool_handler run" d w])
      case (stop s l m)
      then show ?thesis by simp
    next
      case (go l s)
      obtain x f where "run d (gt_ext w) = (x, Inl f)" using assms(1)[of d "gt_ext w"] by (metis surjective_pairing)
      then show ?thesis unfolding go(4) by (auto simp: tool_handler_def settle_call_def log_failure_def split: tool_exc.split)
    qed
    then show ?thesis by (cases rule: gate_cases[of V t run c w]) (simp_all add: h)
  qed
  show ?case
  proof (cases e)
    case New_turn
    then show ?thesis using Cons.IH[of "begin_turn w"] by (simp add: begin_turn_def)
  next
    case (Call t c)
    then show ?thesis using Cons.IH[of "fst (gate V t run c w)"] g by (simp add: split_beta)
  qed
qed simp


subsection \<open>One action per turn\<close>

lemma gate_turn:
  obtains (stop) "gt_ext (fst (gate V t run c w)) = gt_ext w" "gt_sgr (fst (gate V t run c w)) = gt_sgr w"
    | (go) d v where "tc_name d = tc_name c" "gt_ext v = gt_ext w" "gt_sgr v = gt_sgr w"
      "gt_ext (fst (gate V t run c w)) = gt_ext (fst (turn_discipline V (tool_handler run) d v))"
      "gt_sgr (fst (gate V t run c w)) = gt_sgr (fst (turn_discipline V (tool_handler run) d v))"
proof (cases rule: gate_cases[of V t run c w])
  case stop
  then show thesis by (intro that(1)) simp_all
next
  case (go args)
  let ?c = "c\<lparr>tc_args := args\<rparr>" and ?h = "turn_discipline V (tool_handler run)"
  show thesis
  proof (cases rule: wrap_security_cases[of V t ?h ?c w])
    case (stop s l m)
    then show thesis by (intro that(1)) (simp_all add: go(3))
  next
    case sec: (go l s)
    show thesis by (rule that(2)[of ?c "w\<lparr>gt_limiter := l, gt_jobs := s\<rparr>"]) (simp_all add: go(3) sec(4))
  qed
qed

text \<open>The log of a turn so far, against the session.\<close>

definition turn_log_ok :: "gate_env \<Rightarrow> string list \<Rightarrow> sgr_session \<Rightarrow> bool" where
  "turn_log_ok V ns s = (
     length (filter (\<lambda>n. n \<noteq> REASONING_STEP_TOOL) ns) \<le> 1
     \<and> int (length (filter (\<lambda>n. n \<noteq> REASONING_STEP_TOOL) ns)) \<le> ss_action_tools s
     \<and> (rsg_require_before_action (gv_sgr V) \<longrightarrow> (ns = [] \<longrightarrow> \<not> ss_reasoning_done s)
          \<and> (ns \<noteq> [] \<longrightarrow> hd ns = REASONING_STEP_TOOL)))"

lemma record_reasoning_actions [simp]: "ss_action_tools (record_reasoning_from_tool_args a s) = ss_action_tools s"
  by (simp add: record_reasoning_from_tool_args_def mark_reasoning_def split: option.split)

lemma turn_discipline_log:
  assumes "rsg_enabled (gv_sgr V)" and "\<And>c x. fst (run c x) = x @ [tc_name c]"
    and "gt_ext w = pre @ ns" and "turn_log_ok V ns (gt_sgr w)"
  shows "\<exists>ns'. gt_ext (fst (turn_discipline V (tool_handler run) c w)) = pre @ ns'
     \<and> turn_log_ok V ns' (gt_sgr (fst (turn_discipline V (tool_handler run) c w)))"
proof -
  obtain r where r: "run c (gt_ext w) = (gt_ext w @ [tc_name c], r)" using assms(2)[of c "gt_ext w"] by (metis prod.collapse)
  show ?thesis
  proof (cases "tc_name c = REASONING_STEP_TOOL")
    case True
    then show ?thesis using assms r
      by (intro exI[of _ "ns @ [REASONING_STEP_TOOL]"])
        (auto simp: turn_discipline_def wrap_sgr_def wrap_sgr_one_tool_def tool_handler_def turn_log_ok_def hd_append
          split: sum.split)
  next
    case False
    show ?thesis
    proof (cases "(rsg_require_before_action (gv_sgr V) \<and> \<not> ss_reasoning_done (gt_sgr w)) \<or> ss_action_tools (gt_sgr w) \<ge> 1")
      case True
      then show ?thesis using False assms
        by (intro exI[of _ ns]) (auto simp: turn_discipline_def wrap_sgr_def wrap_sgr_one_tool_def)
    next
      case ok: False
      have "int (length (filter (\<lambda>n. n \<noteq> REASONING_STEP_TOOL) ns)) < 1"
        using ok assms(4) unfolding turn_log_ok_def by linarith
      then have z: "filter (\<lambda>n. n \<noteq> REASONING_STEP_TOOL) ns = []" by simp
      show ?thesis using ok False assms r z
        by (intro exI[of _ "ns @ [tc_name c]"])
          (auto simp: turn_discipline_def wrap_sgr_def wrap_sgr_one_tool_def tool_handler_def turn_log_ok_def hd_append)
    qed
  qed
qed

lemma gate_log:
  assumes "rsg_enabled (gv_sgr V)" and "\<And>c x. fst (run c x) = x @ [tc_name c]"
    and "gt_ext w = pre @ ns" and "turn_log_ok V ns (gt_sgr w)"
  shows "\<exists>ns'. gt_ext (fst (gate V t run c w)) = pre @ ns' \<and> turn_log_ok V ns' (gt_sgr (fst (gate V t run c w)))"
proof (cases rule: gate_turn[of V t run c w])
  case stop
  then show ?thesis using assms(3,4) by auto
next
  case (go d v)
  show ?thesis unfolding go(4,5) by (rule turn_discipline_log[OF assms(1,2), where ns = ns]) (simp_all add: go(2,3) assms(3,4))
qed

lemma run_gate_log:
  assumes "rsg_enabled (gv_sgr V)" and "\<And>c x. fst (run c x) = x @ [tc_name c]"
  shows "gt_ext w = pre @ ns \<Longrightarrow> turn_log_ok V ns (gt_sgr w) \<Longrightarrow> New_turn \<notin> set es \<Longrightarrow>
    \<exists>ns'. gt_ext (fst (run_gate V run es w)) = pre @ ns' \<and> turn_log_ok V ns' (gt_sgr (fst (run_gate V run es w)))"
proof (induction es arbitrary: w ns)
  case (Cons e es)
  obtain t c where e: "e = Call t c" using Cons.prems(3) by (cases e) auto
  from gate_log[OF assms Cons.prems(1,2)] obtain ns1 where
    l: "gt_ext (fst (gate V t run c w)) = pre @ ns1" "turn_log_ok V ns1 (gt_sgr (fst (gate V t run c w)))" by blast
  show ?case using Cons.IH[OF l] Cons.prems(3) by (simp add: e split_beta)
qed auto

text \<open>Under schema-guided reasoning at most one action tool runs in a turn, whatever the tools
  answer and however often the model tries, and when reasoning is required first, the first tool that
  runs in the turn is the reasoning step.\<close>

theorem turn_runs_one_action:
  assumes "rsg_enabled (gv_sgr V)" and "\<And>c x. fst (run c x) = x @ [tc_name c]" and "New_turn \<notin> set es"
  shows "\<exists>ns. gt_ext (fst (run_gate V run es (begin_turn w))) = gt_ext w @ ns
    \<and> length (filter (\<lambda>n. n \<noteq> REASONING_STEP_TOOL) ns) \<le> 1
    \<and> (rsg_require_before_action (gv_sgr V) \<and> ns \<noteq> [] \<longrightarrow> hd ns = REASONING_STEP_TOOL)"
proof -
  have "turn_log_ok V [] (gt_sgr (begin_turn w))" by (simp add: turn_log_ok_def begin_turn_def reset_turn_def)
  moreover have "gt_ext (begin_turn w) = gt_ext w @ []" by (simp add: begin_turn_def)
  ultimately obtain ns where "gt_ext (fst (run_gate V run es (begin_turn w))) = gt_ext w @ ns"
      "turn_log_ok V ns (gt_sgr (fst (run_gate V run es (begin_turn w))))"
    using run_gate_log[OF assms(1,2) _ _ assms(3), of "begin_turn w" "gt_ext w" "[]"] by blast
  then show ?thesis by (auto simp: turn_log_ok_def)
qed

subsection \<open>Approvals and arguments\<close>

text \<open>A tool that needs a human's approval leaves its job waiting for one: the guard pauses the job
  again, under a new approval id, in the very call in which the approval is consumed and the tool
  runs.\<close>

theorem approved_call_pauses_again:
  assumes "answered (snd (gate V t run c w))"
    and "classify_tool_risk (gv_profiles V) (tc_name c) (Some (gv_profile_id V)) = Inr risk" and "gv_threshold V < risk"
  shows "\<exists>r p. dget (gt_jobs (fst (gate V t run c w))) (preview_job (gv_session_id V)) = Some r
    \<and> jr_status r = AWAITING_APPROVAL \<and> jr_pending_hitl r = Some p
    \<and> ha_approval_id p = tk_approval_id t \<and> ha_tool_name p = tc_name c"
proof (cases rule: gate_cases[of V t run c w])
  case stop
  then show ?thesis using assms(1) by simp
next
  case (go args)
  let ?c = "c\<lparr>tc_args := args\<rparr>" and ?h = "turn_discipline V (tool_handler run)"
  show ?thesis
  proof (cases rule: wrap_security_cases[of V t ?h ?c w])
    case (stop s l m)
    then show ?thesis using assms(1) by (simp add: go(3))
  next
    case sec: (go l s)
    have "s = register_hitl_pause (build_hitl_preview (gv_hash V) (tk_approval_id t) (tc_name c) args (risk_value risk)
             (gv_session_id V) (gv_agent_id V)) (gt_jobs w)"
      using sec(3) assms(2,3) by (auto simp: await_hitl_if_needed_def Let_def split: if_splits sum.splits bool.splits)
    moreover have "gt_jobs (fst (gate V t run c w)) = s" by (simp add: go(3) sec(4))
    ultimately show ?thesis
      using paused_record[of "gv_hash V" "tk_approval_id t" "tc_name c" args "risk_value risk" "gv_session_id V" "gv_agent_id V" "gt_jobs w"]
      by auto
  qed
qed

lemma coerce_raises_ValueError:
  "coerce_value loads v = Inl e \<Longrightarrow> e = PyExc ''ValueError''"
  "coerce_list loads vs = Inl e \<Longrightarrow> e = PyExc ''ValueError''"
  "coerce_items loads d = Inl e \<Longrightarrow> e = PyExc ''ValueError''"
  by (induction loads v and loads vs and loads d rule: coerce_value_coerce_list_coerce_items.induct)
    (auto simp: coerce_string_def int_of_digits_def result_simps Let_def split: if_splits)

lemma coerce_items_isl: "(k, v) \<in> set d \<Longrightarrow> isl (coerce_value loads v) \<Longrightarrow> isl (coerce_items loads d)"
  by (induction d) auto

lemma digit_lower: "is_decimal c \<or> is_superscript c \<Longrightarrow> char_lower c = c"
  by (auto simp: is_decimal_def is_superscript_def char_lower_def Let_def)

text \<open>A string argument of digits with a superscript among them passes isdigit but not int(): the
  call ends in a ValueError that no layer catches, before budget and rate limit are looked at.\<close>

theorem superscript_argument_raises:
  assumes "check_tool_call (gv_scope V) (tc_name c) (tc_args c) = None"
    and "(k, PStr s) \<in> set (tc_args c)" and "isdigit (strip s)" and "\<not> list_all is_decimal (strip s)"
  shows "gate V t run c w = (w, Inl (Tool_exc (PyExc ''ValueError'')))"
proof -
  have "lower (strip s) = strip s"
    using assms(3) digit_lower by (simp add: isdigit_def lower_def list_all_iff map_idI)
  moreover have "\<not> isdigit ''true''" "\<not> isdigit ''false''" by code_simp+
  ultimately have "isl (coerce_value (gv_loads V) (PStr s))"
    using assms(3,4) by (auto simp: coerce_string_def int_of_digits_def Let_def)
  with coerce_items_isl[OF assms(2)] have "isl (coerce_tool_args (gv_loads V) (tc_args c))"
    by (simp add: coerce_tool_args_def)
  then obtain e where e: "coerce_tool_args (gv_loads V) (tc_args c) = Inl e" by (auto simp: isl_def)
  with coerce_raises_ValueError(3) have "e = PyExc ''ValueError''" by (simp add: coerce_tool_args_def)
  then show ?thesis using e by (simp add: gate_def wrap_scope_def wrap_coercion_def assms(1))
qed


subsection \<open>Examples\<close>

text \<open>The tools of the examples write their names to a log; the second kind fails after that.\<close>

definition demo_gate :: "string list \<Rightarrow> resolved_sgr \<Rightarrow> gate_env" where
  "demo_gate tools sgr = \<lparr>gv_agent_id = ''soc'', gv_session_id = ''worker:soc:j1'', gv_profile_id = [], gv_stage = ''prod'',
     gv_scope = scope_from_tools tools None, gv_profiles = Inr [], gv_threshold = LOW, gv_sgr = sgr, gv_one_tool = False,
     gv_hash = (\<lambda>a. ''h''), gv_loads = (\<lambda>s. None), gv_money = (\<lambda>r. ''$''),
     gv_interrupt = (\<lambda>p. Inr (PDict [(''decision'', PStr ''approve'')]))\<rparr>"

definition sgr_off :: resolved_sgr where
  "sgr_off = resolve_sgr_policy None None False Sgr_off"

definition sgr_on :: resolved_sgr where
  "sgr_on = \<lparr>rsg_enabled = True, rsg_mode = Sgr_hybrid, rsg_require_before_action = True\<rparr>"

definition demo_gate_world :: "string list gate_world" where
  "demo_gate_world = \<lparr>gt_limiter = InMemoryRateLimiter 10 60,
     gt_budgets = budget_configure ''worker:soc:j1'' 100 1 2 [] \<lparr>tk_states = [], tk_profile_ids = [], tk_profile_costs = [], tk_cost_per_1k = 0\<rparr>,
     gt_monitor = \<lparr>mo_agent_id = ''soc'', mo_thresholds = AnomalyPolicy, mo_metrics = [], mo_events = [], mo_extra_keys = []\<rparr>,
     gt_jobs = [], gt_sgr = SgrSessionState, gt_turn_calls = 0, gt_ext = []\<rparr>"

definition roomy_world :: "string list gate_world" where
  "roomy_world = demo_gate_world\<lparr>gt_budgets := budget_configure ''worker:soc:j1'' 100 1 9 [] (gt_budgets demo_gate_world)\<rparr>"

definition logging_tool :: "string list tool" where
  "logging_tool c x = (x @ [tc_name c], Inr (Tool_result PNone))"

definition failing_tool :: "string list tool" where
  "failing_tool c x = (x @ [tc_name c], Inl (Tool_exc (PyExc ''TimeoutError'')))"

definition demo_tool_call :: "string \<Rightarrow> payload \<Rightarrow> tool_call" where
  "demo_tool_call name args = \<lparr>tc_name = name, tc_args = args, tc_id = ''c1''\<rparr>"

definition demo_tick_at :: "nat \<Rightarrow> tick" where
  "demo_tick_at n = \<lparr>tk_now = of_nat n, tk_approval_id = ''appr-'' @ nat_str n\<rparr>"


theorem tool_acts_only_admitted_witness:
  "check_tool_call (scope_from_tools [''execute_command''] None) ''execute_command'' [] = None
   \<and> (\<exists>risk. classify_tool_risk (Inr []) ''execute_command'' (Some []) = Inr risk
        \<and> (risk \<le> LOW \<or> human_approved (demo_gate [''execute_command''] sgr_off) (demo_tick_at 0)
             (demo_tool_call ''execute_command'' []\<lparr>tc_args := []\<rparr>) risk))"
proof -
  let ?V = "demo_gate [''execute_command''] sgr_off" and ?c = "demo_tool_call ''execute_command'' []"
  have "gt_ext (fst (gate ?V (demo_tick_at 0) logging_tool ?c demo_gate_world)) \<noteq> gt_ext demo_gate_world" by code_simp
  note x = tool_acts_only_admitted[OF this]
  have "coerce_tool_args (gv_loads ?V) (tc_args ?c) = Inr []" by (simp add: coerce_tool_args_def demo_tool_call_def)
  with x show ?thesis by (auto simp: demo_gate_def demo_tool_call_def)
qed

theorem tool_answers_bounded_witness:
  "length (filter answered (snd (run_gate (demo_gate [''read_document''] sgr_off) logging_tool
      (map (\<lambda>n. Call (demo_tick_at n) (demo_tool_call ''read_document'' [])) [0..<4]) demo_gate_world))) = 2
   \<and> (2::int) \<le> max 0 (2 - 0)"
proof -
  let ?x = "run_gate (demo_gate [''read_document''] sgr_off) logging_tool
      (map (\<lambda>n. Call (demo_tick_at n) (demo_tool_call ''read_document'' [])) [0..<4]) demo_gate_world"
  have b: "budget_get (gv_session_id (demo_gate [''read_document''] sgr_off)) (gt_budgets demo_gate_world)
      = Some \<lparr>bs_max_tokens = 100, bs_max_cost_usd = 1, bs_max_tool_calls = 2, bs_tokens_used = 0, bs_cost_usd = 0, bs_tool_calls = 0\<rparr>"
    by (simp add: demo_gate_def demo_gate_world_def budget_configure_def budget_get_def)
  have n: "length (filter answered (snd ?x)) = 2" by code_simp
  from tool_answers_bounded[OF b, of logging_tool "map (\<lambda>n. Call (demo_tick_at n) (demo_tool_call ''read_document'' [])) [0..<4]"] n
  show ?thesis by simp
qed

theorem failing_tools_uncharged_witness:
  "gt_budgets (fst (run_gate (demo_gate [''read_document''] sgr_off) failing_tool
      (map (\<lambda>n. Call (demo_tick_at n) (demo_tool_call ''read_document'' [])) [0..<4]) demo_gate_world)) = gt_budgets demo_gate_world
   \<and> length (gt_ext (fst (run_gate (demo_gate [''read_document''] sgr_off) failing_tool
      (map (\<lambda>n. Call (demo_tick_at n) (demo_tool_call ''read_document'' [])) [0..<4]) demo_gate_world))) = 4"
proof
  show "gt_budgets (fst (run_gate (demo_gate [''read_document''] sgr_off) failing_tool
      (map (\<lambda>n. Call (demo_tick_at n) (demo_tool_call ''read_document'' [])) [0..<4]) demo_gate_world)) = gt_budgets demo_gate_world"
    by (rule failing_tools_uncharged)
      (simp_all add: failing_tool_def demo_gate_def sgr_off_def resolve_sgr_policy_def Let_def)
qed code_simp

theorem turn_runs_one_action_witness:
  "\<exists>ns. gt_ext (fst (run_gate (demo_gate [''read_document'', ''web_search'', ''reasoning_step''] sgr_on) logging_tool
        [Call (demo_tick_at 0) (demo_tool_call ''read_document'' []),
         Call (demo_tick_at 1) (demo_tool_call ''reasoning_step'' [(''reasoning_steps'', PList [PStr ''a'', PStr ''b'']),
            (''current_situation'', PStr ''s''), (''plan_status'', PStr ''p''), (''task_completed'', PBool False)]),
         Call (demo_tick_at 2) (demo_tool_call ''read_document'' []),
         Call (demo_tick_at 3) (demo_tool_call ''web_search'' [])] (begin_turn roomy_world))) = [] @ ns
     \<and> ns = [''reasoning_step'', ''read_document''] \<and> hd ns = REASONING_STEP_TOOL"
proof -
  let ?V = "demo_gate [''read_document'', ''web_search'', ''reasoning_step''] sgr_on"
  let ?es = "[Call (demo_tick_at 0) (demo_tool_call ''read_document'' []),
         Call (demo_tick_at 1) (demo_tool_call ''reasoning_step'' [(''reasoning_steps'', PList [PStr ''a'', PStr ''b'']),
            (''current_situation'', PStr ''s''), (''plan_status'', PStr ''p''), (''task_completed'', PBool False)]),
         Call (demo_tick_at 2) (demo_tool_call ''read_document'' []),
         Call (demo_tick_at 3) (demo_tool_call ''web_search'' [])]"
  have g: "gv_sgr ?V = sgr_on" "gt_ext roomy_world = []" by (simp_all add: demo_gate_def roomy_world_def demo_gate_world_def)
  have on: "rsg_enabled sgr_on" "rsg_require_before_action sgr_on" by (simp_all add: sgr_on_def)
  have "gt_ext (fst (run_gate ?V logging_tool ?es (begin_turn roomy_world))) = [''reasoning_step'', ''read_document'']" by code_simp
  moreover have "\<exists>ns. gt_ext (fst (run_gate ?V logging_tool ?es (begin_turn roomy_world))) = gt_ext roomy_world @ ns
    \<and> length (filter (\<lambda>n. n \<noteq> REASONING_STEP_TOOL) ns) \<le> 1
    \<and> (rsg_require_before_action (gv_sgr ?V) \<and> ns \<noteq> [] \<longrightarrow> hd ns = REASONING_STEP_TOOL)"
    by (rule turn_runs_one_action) (simp_all add: g on logging_tool_def)
  ultimately show ?thesis by (auto simp: g on)
qed

theorem approved_call_pauses_again_witness:
  "\<exists>r p. dget (gt_jobs (fst (gate (demo_gate [''execute_command''] sgr_off) (demo_tick_at 7) logging_tool
        (demo_tool_call ''execute_command'' []) demo_gate_world))) (preview_job ''worker:soc:j1'') = Some r
     \<and> jr_status r = AWAITING_APPROVAL \<and> jr_pending_hitl r = Some p \<and> ha_approval_id p = tk_approval_id (demo_tick_at 7)"
proof -
  let ?V = "demo_gate [''execute_command''] sgr_off" and ?c = "demo_tool_call ''execute_command'' []"
  have a: "answered (snd (gate ?V (demo_tick_at 7) logging_tool ?c demo_gate_world))" by code_simp
  have "case classify_tool_risk (Inr []) ''execute_command'' (Some []) of Inr r \<Rightarrow> LOW < r | Inl e \<Rightarrow> False" by code_simp
  then obtain risk where r: "classify_tool_risk (gv_profiles ?V) (tc_name ?c) (Some (gv_profile_id ?V)) = Inr risk"
      "gv_threshold ?V < risk"
    by (auto simp: demo_gate_def demo_tool_call_def split: sum.splits)
  from approved_call_pauses_again[OF a r] show ?thesis by (auto simp: demo_gate_def)
qed

theorem superscript_argument_raises_witness:
  "gate (demo_gate [''read_document''] sgr_off) (demo_tick_at 0) logging_tool
     (demo_tool_call ''read_document'' [(''limit'', PStr [CHR 0xB2])]) demo_gate_world
   = (demo_gate_world, Inl (Tool_exc (PyExc ''ValueError'')))"
  by (rule superscript_argument_raises[where k = "''limit''" and s = "[CHR 0xB2]"], code_simp, simp add: demo_tool_call_def, code_simp, code_simp)

end
