(* ===== verification/Runs.thy ===== *)
theory Runs
  imports Catalog Job_Limits Schemas
begin

text \<open>What an interactive run is made of: its plan and todos (cys_core/domain/runs/plan_models.py,
  state_models.py, cys_core/application/runs/plan_helpers.py and plan_strict.py), the hints of
  attachments, the budgets of a session (run_budget.py), the reading of a conductor's result
  (extract_structured_output.py, reasoning/conductor_sgr.py), the trace critic
  (use_cases/evaluate_trace_critic.py) and the spawn broker (spawn_broker.py). Models that judge or
  parse floats are arguments; the em dash of a snapshot, which is no character below 256, is one too.\<close>

subsection \<open>Plans and states\<close>

datatype todo_status = TODO_PENDING | TODO_IN_PROGRESS | TODO_DONE | TODO_FAILED | TODO_CANCELLED

fun todo_status_value :: "todo_status \<Rightarrow> string" where
  "todo_status_value TODO_PENDING = ''pending''"
| "todo_status_value TODO_IN_PROGRESS = ''in_progress''"
| "todo_status_value TODO_DONE = ''done''"
| "todo_status_value TODO_FAILED = ''failed''"
| "todo_status_value TODO_CANCELLED = ''cancelled''"

definition todo_statuses :: "todo_status list" where
  "todo_statuses = [TODO_PENDING, TODO_IN_PROGRESS, TODO_DONE, TODO_FAILED, TODO_CANCELLED]"

definition parse_todo_status :: "string \<Rightarrow> todo_status option" where
  "parse_todo_status s = find (\<lambda>t. todo_status_value t = s) todo_statuses"

record work_todo =
  wt_id :: string
  wt_content :: string
  wt_status :: todo_status
  wt_assigned_persona :: string
  wt_depends_on :: "string list"

record clarifying_question =
  cq_id :: string
  cq_question :: string
  cq_required :: bool

record work_plan =
  wp_questions :: "clarifying_question list"
  wp_todos :: "work_todo list"
  wp_proposed_workers :: "string list"
  wp_rationale :: string
  wp_awaiting_user_input :: bool
  wp_reasoning_steps :: "string list"
  wp_plan_status :: string
  wp_enough_data :: bool
  wp_remaining_steps :: "string list"

definition WorkPlan :: work_plan where
  "WorkPlan = \<lparr>wp_questions = [], wp_todos = [], wp_proposed_workers = [], wp_rationale = [],
     wp_awaiting_user_input = False, wp_reasoning_steps = [], wp_plan_status = [], wp_enough_data = False,
     wp_remaining_steps = []\<rparr>"

definition validate_status :: "pyval \<Rightarrow> exc + todo_status" where
  "validate_status v = (case v of
     PStr s \<Rightarrow> (case parse_todo_status s of Some t \<Rightarrow> Inr t | None \<Rightarrow> invalid) | _ \<Rightarrow> invalid)"

definition validate_todo :: "pyval \<Rightarrow> exc + work_todo" where
  "validate_todo v = rbind (a_dict v) (\<lambda>d.
     rbind (field a_str None ''id'' d) (\<lambda>i. rbind (field a_str None ''content'' d) (\<lambda>c.
     rbind (field validate_status (Some TODO_PENDING) ''status'' d) (\<lambda>s.
     rbind (field a_str (Some []) ''assigned_persona'' d) (\<lambda>p.
     rbind (field (a_list a_str) (Some []) ''depends_on'' d) (\<lambda>deps.
       Inr \<lparr>wt_id = i, wt_content = c, wt_status = s, wt_assigned_persona = p, wt_depends_on = deps\<rparr>))))))"

definition validate_question :: "pyval \<Rightarrow> exc + clarifying_question" where
  "validate_question v = rbind (a_dict v) (\<lambda>d.
     rbind (field a_str None ''id'' d) (\<lambda>i. rbind (field a_str None ''question'' d) (\<lambda>q.
     rbind (field a_bool (Some True) ''required'' d) (\<lambda>r.
       Inr \<lparr>cq_id = i, cq_question = q, cq_required = r\<rparr>))))"

definition validate_plan :: "pyval \<Rightarrow> exc + work_plan" where
  "validate_plan v = rbind (a_dict v) (\<lambda>d.
     rbind (field (a_list validate_question) (Some []) ''questions'' d) (\<lambda>qs.
     rbind (field (a_list validate_todo) (Some []) ''todos'' d) (\<lambda>ts.
     rbind (field (a_list a_str) (Some []) ''proposed_workers'' d) (\<lambda>ws.
     rbind (field a_str (Some []) ''rationale'' d) (\<lambda>r.
     rbind (field a_bool (Some False) ''awaiting_user_input'' d) (\<lambda>aw.
     rbind (field (a_list a_str) (Some []) ''reasoning_steps'' d) (\<lambda>rs.
     rbind (field a_str (Some []) ''plan_status'' d) (\<lambda>ps.
     rbind (field a_bool (Some False) ''enough_data'' d) (\<lambda>en.
     rbind (field (a_list a_str) (Some []) ''remaining_steps'' d) (\<lambda>rem.
       Inr \<lparr>wp_questions = qs, wp_todos = ts, wp_proposed_workers = ws, wp_rationale = r,
         wp_awaiting_user_input = aw, wp_reasoning_steps = rs, wp_plan_status = ps, wp_enough_data = en,
         wp_remaining_steps = rem\<rparr>))))))))))"

definition todo_dump :: "work_todo \<Rightarrow> pyval" where
  "todo_dump t = PDict [(''id'', PStr (wt_id t)), (''content'', PStr (wt_content t)),
     (''status'', PStr (todo_status_value (wt_status t))), (''assigned_persona'', PStr (wt_assigned_persona t)),
     (''depends_on'', PList (map PStr (wt_depends_on t)))]"

definition question_dump :: "clarifying_question \<Rightarrow> pyval" where
  "question_dump q = PDict [(''id'', PStr (cq_id q)), (''question'', PStr (cq_question q)),
     (''required'', PBool (cq_required q))]"

definition plan_dump :: "work_plan \<Rightarrow> pyval" where
  "plan_dump p = PDict [(''questions'', PList (map question_dump (wp_questions p))),
     (''todos'', PList (map todo_dump (wp_todos p))), (''proposed_workers'', PList (map PStr (wp_proposed_workers p))),
     (''rationale'', PStr (wp_rationale p)), (''awaiting_user_input'', PBool (wp_awaiting_user_input p)),
     (''reasoning_steps'', PList (map PStr (wp_reasoning_steps p))), (''plan_status'', PStr (wp_plan_status p)),
     (''enough_data'', PBool (wp_enough_data p)), (''remaining_steps'', PList (map PStr (wp_remaining_steps p)))]"

datatype run_status = RUN_OPEN | RUN_IN_PROGRESS | RUN_AWAITING_USER | RUN_AWAITING_PLAN_APPROVAL | RUN_CLOSED

fun run_status_value :: "run_status \<Rightarrow> string" where
  "run_status_value RUN_OPEN = ''open''"
| "run_status_value RUN_IN_PROGRESS = ''in_progress''"
| "run_status_value RUN_AWAITING_USER = ''awaiting_user''"
| "run_status_value RUN_AWAITING_PLAN_APPROVAL = ''awaiting_plan_approval''"
| "run_status_value RUN_CLOSED = ''closed''"

record run_state =
  st_context :: run_context
  st_goal :: string
  st_status :: run_status
  st_mode :: "interaction_mode option"
  st_plan :: "work_plan option"
  st_pending_questions :: "clarifying_question list"
  st_todos :: "work_todo list"
  st_last_result :: payload
  st_step_count :: int
  st_context_summary :: string
  st_reasoning_notes :: "string list"
  st_attachments :: "payload list"
  st_last_verdict :: payload
  st_rerun_count :: int

definition RunState :: "run_context \<Rightarrow> run_status \<Rightarrow> run_state" where
  "RunState ctx status = \<lparr>st_context = ctx, st_goal = [], st_status = status, st_mode = None, st_plan = None,
     st_pending_questions = [], st_todos = [], st_last_result = [], st_step_count = 0, st_context_summary = [],
     st_reasoning_notes = [], st_attachments = [], st_last_verdict = [], st_rerun_count = 0\<rparr>"

definition checkpoint_key :: "run_context \<Rightarrow> string \<Rightarrow> string" where
  "checkpoint_key ctx persona = (
     if ctx_kind ctx = SESSION \<or> ctx_kind ctx = INVESTIGATION then ''run:'' @ kind_value (ctx_kind ctx) @ '':'' @ ctx_id ctx
     else if persona \<noteq> [] \<and> ctx_kind ctx = JOB then ''worker:'' @ persona @ '':'' @ ctx_id ctx
     else ''run:'' @ kind_value (ctx_kind ctx) @ '':'' @ ctx_id ctx)"

subsection \<open>Todos\<close>

fun status_upper :: "todo_status \<Rightarrow> string" where
  "status_upper TODO_PENDING = ''PENDING''"
| "status_upper TODO_IN_PROGRESS = ''IN_PROGRESS''"
| "status_upper TODO_DONE = ''DONE''"
| "status_upper TODO_FAILED = ''FAILED''"
| "status_upper TODO_CANCELLED = ''CANCELLED''"

definition snapshot_line :: "string \<Rightarrow> int \<times> work_todo \<Rightarrow> string" where
  "snapshot_line dash it = (case it of (i, t) \<Rightarrow> int_str i @ ''. '' @ status_upper (wt_status t) @ '' '' @ dash @ '' ''
     @ wt_content t @ (if wt_assigned_persona t \<noteq> [] then '' '' @ dash @ '' assigned: '' @ wt_assigned_persona t else []))"

definition format_todo_snapshot :: "string \<Rightarrow> work_todo list \<Rightarrow> string" where
  "format_todo_snapshot dash todos = (
     if todos = [] then ''Plan progress (todo.md): no steps yet. Emit plan_delta with numbered todos.''
     else py_join [CHR 0x0A] (''Plan progress (todo.md):'' # map (snapshot_line dash) (enumerate_from 1 todos)
       @ [''Update every turn: set plan_delta.todos with id, content, status ''
          @ ''(pending|in_progress|done|failed|cancelled), and optional note.'']))"

definition normalize_status :: "string \<Rightarrow> todo_status" where
  "normalize_status raw = (case parse_todo_status (strip (lower raw)) of Some t \<Rightarrow> t | None \<Rightarrow> TODO_PENDING)"

definition first_truthy :: "payload \<Rightarrow> string list \<Rightarrow> pyval \<Rightarrow> pyval" where
  "first_truthy d keys dflt = foldr (\<lambda>k v. py_or (get_or d k PNone) v) keys dflt"

definition apply_todo_update :: "(pyval \<Rightarrow> string) \<Rightarrow> int \<times> pyval \<Rightarrow> work_todo dict \<Rightarrow> work_todo dict" where
  "apply_todo_update str it by_id = (case it of
     (index, PDict item) \<Rightarrow>
       (let todo_id = py_text str (first_truthy item [''id'', ''step''] (PInt (index + 1)));
            content = py_text str (first_truthy item [''content'', ''title'', ''description''] (PStr []));
            status = normalize_status (py_text str (first_truthy item [''status''] (PStr ''pending'')));
            assigned = py_text str (first_truthy item [''assigned_persona'', ''persona''] (PStr [])) in
        case dget by_id todo_id of
          Some t \<Rightarrow> dput todo_id (t\<lparr>wt_content := (if content \<noteq> [] then content else wt_content t), wt_status := status,
             wt_assigned_persona := (if assigned \<noteq> [] then assigned else wt_assigned_persona t)\<rparr>) by_id
        | None \<Rightarrow> if content \<noteq> [] then dput todo_id \<lparr>wt_id = todo_id, wt_content = content, wt_status = status,
             wt_assigned_persona = assigned, wt_depends_on = []\<rparr> by_id else by_id)
   | _ \<Rightarrow> by_id)"

definition apply_plan_delta :: "(pyval \<Rightarrow> string) \<Rightarrow> work_todo list \<Rightarrow> payload \<Rightarrow> work_todo list" where
  "apply_plan_delta str todos plan_delta = (
     case first_truthy plan_delta [''todos'', ''steps''] (PList []) of
       PList (u # us) \<Rightarrow> map snd (fold (apply_todo_update str) (enumerate_from 0 (u # us))
          (fold (\<lambda>t. dput (wt_id t) t) todos []))
     | _ \<Rightarrow> todos)"

definition merge_plan_delta_with_policy ::
  "(pyval \<Rightarrow> string) \<Rightarrow> bool \<Rightarrow> work_todo list \<Rightarrow> payload \<Rightarrow> work_todo list" where
  "merge_plan_delta_with_policy str strict todos plan_delta =
     (if strict then todos else apply_plan_delta str todos plan_delta)"

definition has_failed_todos :: "work_todo list \<Rightarrow> bool" where
  "has_failed_todos todos = list_ex (\<lambda>t. wt_status t = TODO_FAILED) todos"

definition merge_todos_from_result ::
  "(pyval \<Rightarrow> string) \<Rightarrow> bool \<Rightarrow> payload \<Rightarrow> work_todo list \<Rightarrow> exc + work_todo list" where
  "merge_todos_from_result str strict result todos = rbind
     (let items = get_or result ''todos'' PNone in
        if truthy items then rbind (py_iter items) (traverse validate_todo) else Inr todos)
     (\<lambda>merged. Inr (case get_or result ''plan_delta'' PNone of
        PDict delta \<Rightarrow> merge_plan_delta_with_policy str strict merged delta | _ \<Rightarrow> merged))"

subsection \<open>Attachments\<close>

text \<open>Path(path).suffix: the last part of the name of the path, from its last dot.\<close>

definition path_name :: "string \<Rightarrow> string" where
  "path_name path = (case rev (filter (\<lambda>p. p \<noteq> [] \<and> p \<noteq> ''.'') (py_split CHR ''/'' path)) of [] \<Rightarrow> [] | n # _ \<Rightarrow> n)"

definition path_suffix :: "string \<Rightarrow> string" where
  "path_suffix path = (let n = path_name path; ext = rev (takeWhile (\<lambda>c. c \<noteq> CHR ''.'') (rev n)) in
     if CHR ''.'' \<in> set n \<and> ext \<noteq> [] \<and> length ext + 1 < length n then ''.'' @ ext else [])"

definition file_type :: "string \<Rightarrow> string" where
  "file_type path = (let ext = dropWhile (\<lambda>c. c = CHR ''.'') (lower (path_suffix path)) in
     if ext \<in> {''jpg'', ''jpeg'', ''png'', ''gif'', ''webp''} then ''image''
     else if ext \<in> {''xlsx'', ''xls'', ''csv''} then ''spreadsheet''
     else if ext \<in> {''json'', ''jsonld''} then ''json''
     else if ext = ''pdf'' then ''pdf''
     else if ext \<in> {''docx'', ''doc''} then ''document''
     else if ext \<in> {''pptx'', ''ppt''} then ''presentation''
     else if ext \<in> {''html'', ''htm''} then ''html''
     else if ext \<in> {''wav'', ''mp3'', ''m4a''} then ''audio''
     else if ext = ''zip'' then ''archive''
     else if ext \<in> {''txt'', ''md'', ''log''} then ''text''
     else if ext \<noteq> [] then ext else ''unknown'')"

text \<open>The hint of an archive has an em dash.\<close>

definition attachment_hint :: "string \<Rightarrow> string \<Rightarrow> string" where
  "attachment_hint dash path = (let kind = file_type path in path @
     (if kind = ''image'' then '': use vision_analyze for charts/screenshots; read_document for OCR text fallback.''
      else if kind = ''spreadsheet'' then '': use read_document first; for calculations use python_sandbox (HITL).''
      else if kind = ''json'' then '': use read_document; parse structured fields with python_sandbox if needed.''
      else if kind \<in> {''pdf'', ''document'', ''presentation'', ''html''} then '': use read_document to extract text before synthesis.''
      else if kind = ''audio'' then '': use transcribe_audio tool, then analyze transcript.''
      else if kind = ''archive'' then '': archive file '' @ dash @ '' extract contents before analysis (python_sandbox).''
      else '': use read_document for local file content.''))"

definition process_attachment_hints :: "string \<Rightarrow> string list \<Rightarrow> string list" where
  "process_attachment_hints dash paths = map (attachment_hint dash) paths"

subsection \<open>Budgets of a session\<close>

text \<open>What a run records when its session ends: persona, tokens and cost.\<close>

type_synonym usage = "string \<times> int \<times> rat"

text \<open>JobBudgetTracker.configure as run_session_budget and nested_delegate_budget call it, without a
  profile: the session is charged at the rate of the default one.\<close>

definition session_configure :: "(string \<Rightarrow> string + agent_entry option) \<Rightarrow> string \<Rightarrow> string \<Rightarrow> tracker \<Rightarrow> tracker" where
  "session_configure agents sid persona t = (let b = persona_budget_for agents persona None in
     budget_configure sid (bud_max_tokens b) (bud_max_cost_usd b) (bud_max_tool_calls b) ''cybersec-soc'' t)"

definition session_usage :: "string \<Rightarrow> string \<Rightarrow> tracker \<Rightarrow> usage list" where
  "session_usage sid persona t = (case budget_get sid t of
     None \<Rightarrow> [] | Some st \<Rightarrow> [(persona, bs_tokens_used st, bs_cost_usd st)])"

text \<open>int(n * fraction) on floats is an argument.\<close>

definition nested_configure :: "(int \<Rightarrow> rat \<Rightarrow> int) \<Rightarrow> rat \<Rightarrow> string \<Rightarrow> string \<Rightarrow> tracker \<Rightarrow> tracker" where
  "nested_configure scale fraction parent child t = (case budget_get parent t of
     None \<Rightarrow> t
   | Some p \<Rightarrow> (let tools = max 1 (bs_max_tool_calls p - bs_tool_calls p);
                   tokens = max 1000 (bs_max_tokens p - bs_tokens_used p) in
       budget_configure child (max 1000 (scale tokens fraction)) (max (5/100) (bs_max_cost_usd p * fraction))
         (max 1 (scale tools fraction)) ''cybersec-soc'' t))"

text \<open>The child is cleared only when its parent had a budget on entry.\<close>

definition nested_release :: "bool \<Rightarrow> string \<Rightarrow> tracker \<Rightarrow> tracker" where
  "nested_release had_parent child t = (if had_parent then budget_clear child t else t)"

subsection \<open>The conductor's result\<close>

definition a_payload_list :: "pyval \<Rightarrow> exc + payload list" where
  "a_payload_list = a_list a_dict"

text \<open>ConductorStepResult.model_validate, of which the code uses only whether it raises.\<close>

definition validate_step_result :: "(string \<Rightarrow> rat option) \<Rightarrow> payload \<Rightarrow> exc + unit" where
  "validate_step_result parse d =
     rbind (field a_str (Some []) ''reply'' d) (\<lambda>_. rbind (field a_dict (Some []) ''plan_delta'' d) (\<lambda>_.
     rbind (field a_payload_list (Some []) ''spawn_requests'' d) (\<lambda>_.
     rbind (field a_str (Some []) ''mode_recommendation'' d) (\<lambda>_.
     rbind (field (a_float_in parse 0 1) (Some 0) ''confidence'' d) (\<lambda>_.
     rbind (field (a_list a_str) (Some []) ''reasoning_steps'' d) (\<lambda>_.
     rbind (field a_str (Some []) ''plan_status'' d) (\<lambda>_. rbind (field a_bool (Some False) ''enough_data'' d) (\<lambda>_.
     rbind (field (a_list a_str) (Some []) ''remaining_steps'' d) (\<lambda>_.
     rbind (field a_bool (Some False) ''task_completed'' d) (\<lambda>_. Inr ()))))))))))"

definition any_in :: "string list \<Rightarrow> string \<Rightarrow> bool" where
  "any_in words text = list_ex (contains text) words"

definition detect_output_schema :: "(string \<Rightarrow> string + agent_entry option) \<Rightarrow> string \<Rightarrow> string \<Rightarrow> string" where
  "detect_output_schema agents goal persona = (
     let by_goal = (let g = lower goal in
       if any_in [''severity'', ''priority'', ''p0'', ''p1''] g then ''finding''
       else if contains g ''timeline'' then ''timeline''
       else if contains g ''ioc'' \<or> contains g ''indicator'' then ''ioc_list''
       else if any_in [''gaia'', ''answer'', ''question''] g then ''gaia_answer''
       else ''summary'') in
     if persona \<noteq> [] then (case agents persona of
         Inr (Some e) \<Rightarrow> (case ag_output_schema e of Some (c # cs) \<Rightarrow> c # cs | _ \<Rightarrow> by_goal)
       | _ \<Rightarrow> by_goal)
     else by_goal)"

definition merge_structured_into_result :: "(pyval \<Rightarrow> string) \<Rightarrow> payload \<Rightarrow> payload \<Rightarrow> payload" where
  "merge_structured_into_result dumps result structured = (
     case get_or result ''structured_deliverable'' PNone of
       PDict _ \<Rightarrow> result
     | _ \<Rightarrow> (let merged = dput ''structured_deliverable'' (PDict structured) result;
               payload = get_or structured ''payload'' PNone in
         if dget merged ''reply'' \<noteq> None \<and> truthy payload \<and> \<not> truthy (get_or merged ''reply'' PNone)
         then dput ''reply'' (PStr (dumps payload)) merged else merged))"

text \<open>int(float(confidence) * 100) on floats is the argument percent.\<close>

definition structured_of ::
  "(rat \<Rightarrow> int) \<Rightarrow> string \<Rightarrow> payload \<Rightarrow> string \<Rightarrow> rat \<Rightarrow> payload" where
  "structured_of percent goal result summary confidence =
     [(''schema_type'', PStr (detect_output_schema (\<lambda>_. Inr None) goal [])),
      (''confidence'', PInt (percent confidence)), (''weaknesses'', PList []),
      (''payload'', PDict [(''summary'', PStr summary), (''plan_delta'', get_or result ''plan_delta'' (PDict []))])]"

definition enrich_conductor_result ::
  "(pyval \<Rightarrow> string) \<Rightarrow> (string \<Rightarrow> rat option) \<Rightarrow> (rat \<Rightarrow> int) \<Rightarrow> string \<Rightarrow> payload \<Rightarrow> payload" where
  "enrich_conductor_result dumps parse percent goal result = (
     if isl (validate_step_result parse result) then result
     else case (get_or result ''reply'' (PStr []), lax_float parse (get_or result ''confidence'' (PFloat 0))) of
       (PStr summary, Some confidence) \<Rightarrow>
         if strip summary = [] then result
         else merge_structured_into_result dumps result (structured_of percent goal result summary confidence)
     | _ \<Rightarrow> result)"

definition is_dict :: "pyval \<Rightarrow> bool" where
  "is_dict v = (case v of PDict _ \<Rightarrow> True | _ \<Rightarrow> False)"

definition filter_spawn_requests_by_sgr :: "payload \<Rightarrow> pyval list" where
  "filter_spawn_requests_by_sgr result = (
     case py_or (get_or result ''spawn_requests'' PNone) (PList []) of
       PList requests \<Rightarrow>
         if truthy (get_or result ''task_completed'' PNone) then []
         else if py_or (get_or result ''remaining_steps'' PNone) (PList []) = PList []
              \<and> truthy (get_or result ''enough_data'' PNone) then []
         else filter is_dict requests
     | _ \<Rightarrow> [])"

text \<open>list.append of a note that is not there yet.\<close>

definition add_note :: "string \<Rightarrow> run_state \<Rightarrow> run_state" where
  "add_note note st = (if note \<in> set (st_reasoning_notes st) then st
     else st\<lparr>st_reasoning_notes := st_reasoning_notes st @ [note]\<rparr>)"

definition persist_sgr_fields_to_state :: "(pyval \<Rightarrow> string) \<Rightarrow> payload \<Rightarrow> run_state \<Rightarrow> run_state" where
  "persist_sgr_fields_to_state str result st = (
     let s1 = (case get_or result ''reasoning_steps'' PNone of
           PList (x # xs) \<Rightarrow> add_note (''sgr: '' @ py_join '' | '' (map (py_text str) (take 3 (x # xs)))) st
         | _ \<Rightarrow> st);
         s2 = (if truthy (get_or result ''plan_status'' PNone)
           then s1\<lparr>st_last_result := dput ''sgr_plan_status'' (get_or result ''plan_status'' PNone) (st_last_result s1)\<rparr> else s1) in
     case dget result ''enough_data'' of
       Some v \<Rightarrow> s2\<lparr>st_last_result := dput ''sgr_enough_data'' v (st_last_result s2)\<rparr> | None \<Rightarrow> s2)"

subsection \<open>The trace critic\<close>

record trace_verdict =
  tv_score :: rat
  tv_verdict :: string
  tv_reasoning :: string
  tv_should_rerun :: bool
  tv_issues :: "string list"

definition verdict_dump :: "trace_verdict \<Rightarrow> payload" where
  "verdict_dump v = [(''score'', PFloat (tv_score v)), (''verdict'', PStr (tv_verdict v)),
     (''reasoning'', PStr (tv_reasoning v)), (''should_rerun'', PBool (tv_should_rerun v)),
     (''issues'', PList (map PStr (tv_issues v)))]"

record judge_request =
  jr_input_text :: string
  jr_output_text :: string
  jr_step_count :: int

record judge_result =
  jd_score :: rat
  jd_verdict :: string
  jd_reasoning :: string

text \<open>Scores are compared as exact rationals: with at most three issues the float score is never
  equal to a threshold of two decimals.\<close>

definition heuristic_issues :: "string \<Rightarrow> string list" where
  "heuristic_issues trace_text = (let l = lower trace_text in
     (if contains l ''error'' \<and> contains l ''stub'' then [''trace contains tool errors or stub responses''] else [])
     @ (if contains l ''spawn'' \<and> \<not> contains l ''result'' then [''spawn requested without visible spawn_result''] else [])
     @ (if length trace_text < 40 then [''trace too short to verify reasoning''] else []))"

definition base_score :: "string list \<Rightarrow> rat" where
  "base_score issues = max (2/10) (9/10 - 15/100 * of_nat (length issues))"

text \<open>The text of a model's answer from its first opening to its last closing brace, and the read of
  it: the model, json.loads and float are arguments. The tokens it records go to a session nobody
  configures, so no budget changes.\<close>

definition brace_slice :: "string \<Rightarrow> string" where
  "brace_slice text = (let from = dropWhile (\<lambda>c. c \<noteq> CHR ''{'') text; tail = length (takeWhile (\<lambda>c. c \<noteq> CHR ''}'') (rev text)) in
     if CHR ''}'' \<in> set text then take (length from - tail) from else [])"

record judge_model =
  jm_invoke :: "string \<Rightarrow> exc + string"
  jm_loads :: "string \<Rightarrow> pyval option"
  jm_float :: "pyval \<Rightarrow> rat option"
  jm_str :: "pyval \<Rightarrow> string"

definition judge_prompt :: "string \<Rightarrow> string \<Rightarrow> string" where
  "judge_prompt goal trace_text = ''Rate trace quality for goal: '' @ goal @ newline @ ''Trace:'' @ newline @ take 6000 trace_text
     @ newline @ ''Reply JSON: {'' @ quote @ ''score'' @ quote @ '':0.0-1.0,'' @ quote @ ''verdict'' @ quote @ '':'' @ quote
     @ ''pass|fail'' @ quote @ '','' @ quote @ ''reasoning'' @ quote @ '':'' @ quote @ ''...'' @ quote @ ''}''"

definition verdict_in_range :: "trace_verdict \<Rightarrow> trace_verdict option" where
  "verdict_in_range v = (if 0 \<le> tv_score v \<and> tv_score v \<le> 1 then Some v else None)"

definition reasoning_judge :: "judge_model option \<Rightarrow> rat \<Rightarrow> string \<Rightarrow> string \<Rightarrow> trace_verdict option" where
  "reasoning_judge model threshold goal trace_text = (case model of
     None \<Rightarrow> None
   | Some m \<Rightarrow> (case jm_invoke m (judge_prompt goal trace_text) of
       Inl _ \<Rightarrow> None
     | Inr text \<Rightarrow> (case (if CHR ''{'' \<in> set text then jm_loads m (brace_slice text) else Some (PDict [])) of
         Some (PDict data) \<Rightarrow> (case jm_float m (get_or data ''score'' (PFloat (1/2))) of
           None \<Rightarrow> None
         | Some score \<Rightarrow> verdict_in_range \<lparr>tv_score = score,
             tv_verdict = py_text (jm_str m) (get_or data ''verdict'' (PStr (if score \<ge> threshold then ''pass'' else ''fail''))),
             tv_reasoning = py_text (jm_str m) (get_or data ''reasoning'' (PStr [])),
             tv_should_rerun = score < threshold, tv_issues = []\<rparr>)
       | _ \<Rightarrow> None)))"

definition critic_by_judge :: "rat \<Rightarrow> string list \<Rightarrow> judge_result \<Rightarrow> trace_verdict" where
  "critic_by_judge threshold issues r = (
     let base = base_score issues;
         score = (if jd_score r > 0 then min base (jd_score r) else base);
         issues' = (if jd_verdict r = ''fail'' \<or> score < threshold
           then issues @ [if jd_reasoning r \<noteq> [] then jd_reasoning r else ''judge flagged trace''] else issues) in
     \<lparr>tv_score = score,
      tv_verdict = (if jd_verdict r \<noteq> [] then jd_verdict r else if score \<ge> threshold then ''pass'' else ''fail''),
      tv_reasoning = jd_reasoning r, tv_should_rerun = score < threshold, tv_issues = issues'\<rparr>)"

definition critic_by_heuristic :: "rat \<Rightarrow> string list \<Rightarrow> trace_verdict" where
  "critic_by_heuristic threshold issues = (let rerun = base_score issues < threshold in
     \<lparr>tv_score = base_score issues, tv_verdict = (if rerun then ''fail'' else ''pass''),
      tv_reasoning = ''heuristic trace evaluation'', tv_should_rerun = rerun, tv_issues = issues\<rparr>)"

text \<open>EvaluateTraceCritic.execute on the text of a trace.\<close>

definition evaluate_trace ::
  "(judge_request \<Rightarrow> exc + judge_result) option \<Rightarrow> judge_model option \<Rightarrow> rat \<Rightarrow> string \<Rightarrow> string \<Rightarrow> int \<Rightarrow> exc + trace_verdict" where
  "evaluate_trace judge model threshold goal trace_text step_count = (let issues = heuristic_issues trace_text in
     case judge of
       Some j \<Rightarrow> rbind (j \<lparr>jr_input_text = goal, jr_output_text = take 8000 trace_text, jr_step_count = step_count\<rparr>)
         (\<lambda>r. Inr (critic_by_judge threshold issues r))
     | None \<Rightarrow> (case reasoning_judge model threshold goal trace_text of
         Some v \<Rightarrow> Inr (v\<lparr>tv_issues := tv_issues v @ issues\<rparr>)
       | None \<Rightarrow> Inr (critic_by_heuristic threshold issues)))"

subsection \<open>The spawn broker\<close>

definition MAX_SPAWN_DEPTH :: int where
  "MAX_SPAWN_DEPTH = 5"

definition MAX_PERSONA_OVERLAY_LEN :: int where
  "MAX_PERSONA_OVERLAY_LEN = 2000"

record spawn_payload =
  sp_parent :: run_context
  sp_persona :: string
  sp_sub_goal :: string
  sp_idempotency_key :: string
  sp_overlay :: string

definition SpawnWorkerPayload :: "run_context \<Rightarrow> string \<Rightarrow> string \<Rightarrow> string \<Rightarrow> string \<Rightarrow> spawn_payload" where
  "SpawnWorkerPayload parent persona goal key overlay = \<lparr>sp_parent = parent, sp_persona = persona, sp_sub_goal = goal,
     sp_idempotency_key = key, sp_overlay = py_take MAX_PERSONA_OVERLAY_LEN overlay\<rparr>"

definition sanitize_persona_overlay :: "string \<Rightarrow> string" where
  "sanitize_persona_overlay text = py_take MAX_PERSONA_OVERLAY_LEN
     (filter (\<lambda>c. of_char c = (10::nat) \<or> of_char c \<ge> (32::nat)) text)"

record spawn_env =
  se_agents :: "string \<Rightarrow> agent_entry option"
  se_depth_override :: "int option"
  se_port :: "profiles_read option"
  se_resolver :: resolver
  se_profiles :: profiles_read

definition spawn_depth_limit :: "spawn_env \<Rightarrow> string \<Rightarrow> string + int" where
  "spawn_depth_limit E profile_id = (case se_depth_override E of
     Some d \<Rightarrow> Inr d
   | None \<Rightarrow> (case se_port E of
       Some port \<Rightarrow> get_max_spawn_depth port profile_id
     | None \<Rightarrow> Inr (resolver_max_spawn_depth (se_resolver E) profile_id)))"

definition spawn_trust_floor :: "spawn_env \<Rightarrow> string \<Rightarrow> string + rat" where
  "spawn_trust_floor E profile_id = (case se_port E of
     Some port \<Rightarrow> get_trust_floor port profile_id | None \<Rightarrow> get_trust_floor (se_profiles E) profile_id)"

definition spawn_targets :: "agent_entry option \<Rightarrow> string list" where
  "spawn_targets conductor = (case conductor of
     None \<Rightarrow> [] | Some e \<Rightarrow> filter (\<lambda>cap. cap \<noteq> ''spawn_worker'' \<and> cap \<noteq> ''conductor'') (ag_capabilities e))"

text \<open>SubagentSpawnBroker.validate: None allows the spawn.\<close>

definition spawn_validate ::
  "spawn_env \<Rightarrow> interaction_mode option \<Rightarrow> string \<Rightarrow> string \<Rightarrow> spawn_payload \<Rightarrow> string + string option" where
  "spawn_validate E mode profile_id parent_persona p = (
     if \<not> allow_spawn mode then Inr (Some ''spawn_not_allowed_in_mode'')
     else rbind (spawn_depth_limit E profile_id) (\<lambda>max_depth.
       if ctx_spawn_depth (sp_parent p) \<ge> max_depth \<or> ctx_spawn_depth (sp_parent p) \<ge> MAX_SPAWN_DEPTH
       then Inr (Some ''max_spawn_depth_exceeded'')
       else (case se_agents E (sp_persona p) of
         None \<Rightarrow> Inr (Some ''unknown_persona'')
       | Some agent \<Rightarrow>
         if \<not> ag_enabled agent then Inr (Some ''unknown_persona'')
         else if parent_persona = ''conductor'' \<and> spawn_targets (se_agents E ''conductor'') \<noteq> []
              \<and> sp_persona p \<notin> set (spawn_targets (se_agents E ''conductor''))
           then Inr (Some ''persona_not_in_conductor_capabilities'')
         else rbind (spawn_trust_floor E (ag_profile_id agent)) (\<lambda>floor.
           Inr (if pq_empirical_trust (ag_quality agent) < floor then Some ''persona_quality_below_floor'' else None)))))"

text \<open>to_worker_job under a fresh id; the fields it leaves out have their defaults.\<close>

definition to_worker_job :: "string \<Rightarrow> string \<Rightarrow> spawn_payload \<Rightarrow> worker_job" where
  "to_worker_job fresh event_id p = (let child = spawn_child (sp_parent p) fresh in
     \<lparr>job_id = ctx_id child, job_event_id = (if event_id \<noteq> [] then event_id else ctx_id child),
      job_persona = sp_persona p, job_playbook_id = [],
      job_payload = [(''sub_goal'', PStr (sp_sub_goal p)), (''persona_overlay'', PStr (sp_overlay p)),
        (''spawn_depth'', PInt (ctx_spawn_depth child)),
        (''parent_correlation_key'', PStr (ctx_correlation_key (sp_parent p)))],
      job_correlation_id = ctx_id (sp_parent p), job_tenant_id = ctx_tenant_id (sp_parent p), job_status = PENDING,
      job_sandbox_id = [], job_feedback = [], job_depends_on = [], job_max_tokens = 0, job_max_cost_usd = 0,
      job_max_tool_calls = 0\<rparr>)"

subsection \<open>Lemmas\<close>

lemma traverse_map_Inr:
  assumes "\<And>x. x \<in> set xs \<Longrightarrow> f (g x) = Inr x"
  shows "traverse f (map g xs) = Inr xs"
  using assms by (induction xs) auto

lemma a_list_str [simp]: "a_list a_str (PList (map PStr xs)) = Inr xs"
  by (simp add: a_list_def traverse_map_Inr a_str_def)

lemma a_bool_PBool [simp]: "a_bool (PBool b) = Inr b"
  by (simp add: a_bool_def lax_bool_def)

lemma a_str_PStr [simp]: "a_str (PStr s) = Inr s"
  by (simp add: a_str_def)

lemma parse_todo_status_value [simp]: "parse_todo_status (todo_status_value s) = Some s"
  by (cases s) (simp_all add: parse_todo_status_def todo_statuses_def)

lemma validate_todo_dump [simp]: "validate_todo (todo_dump t) = Inr t"
  by (simp add: validate_todo_def todo_dump_def a_dict_def field_def validate_status_def)

lemma validate_question_dump [simp]: "validate_question (question_dump q) = Inr q"
  by (simp add: validate_question_def question_dump_def a_dict_def field_def)

text \<open>What a plan step writes into its result is read back as the same plan: every plan, with all its
  questions, todos and statuses, survives the dump and its validation.\<close>

theorem plan_roundtrip: "validate_plan (plan_dump p) = Inr p"
  by (simp add: validate_plan_def plan_dump_def a_dict_def field_def a_list_def traverse_map_Inr
      a_list_str[unfolded a_list_def, simplified])

text \<open>Todos under their ids, as apply_plan_delta keeps them.\<close>

definition as_dict :: "work_todo list \<Rightarrow> work_todo dict" where
  "as_dict ts = map (\<lambda>t. (wt_id t, t)) ts"

lemma as_dict_simps [simp]: "as_dict [] = []" "as_dict (t # ts) = (wt_id t, t) # as_dict ts"
  "as_dict (ts @ us) = as_dict ts @ as_dict us" "map snd (as_dict ts) = ts" "map fst (as_dict ts) = map wt_id ts"
  by (simp_all add: as_dict_def comp_def)

lemma update_as_dict:
  "distinct (map wt_id ts) \<Longrightarrow> AList.update (wt_id v) v (as_dict ts) =
     as_dict (if wt_id v \<in> wt_id ` set ts then map (\<lambda>t. if wt_id t = wt_id v then v else t) ts else ts @ [v])"
  by (induction ts) (auto simp: image_iff intro!: arg_cong[where f = as_dict] map_idI[symmetric], metis)

lemma fold_as_dict:
  "distinct (map wt_id (us @ ts)) \<Longrightarrow> fold (\<lambda>t. AList.update (wt_id t) t) ts (as_dict us) = as_dict (us @ ts)"
proof (induction ts arbitrary: us)
  case (Cons t ts)
  then have "AList.update (wt_id t) t (as_dict us) = as_dict (us @ [t])" by (subst update_as_dict) auto
  then show ?case using Cons.IH[of "us @ [t]"] Cons.prems by simp
qed simp

lemma dget_as_dict: "dget (as_dict ts) k = find (\<lambda>t. wt_id t = k) ts"
  by (induction ts) auto

text \<open>A plan that extends another: the same todos first, with their ids and dependencies, then todos
  with a content and without dependencies.\<close>

definition plan_extends :: "work_todo list \<Rightarrow> work_todo list \<Rightarrow> bool" where
  "plan_extends ts ts' = (distinct (map wt_id ts') \<and> length ts \<le> length ts'
     \<and> map wt_id (take (length ts) ts') = map wt_id ts
     \<and> map wt_depends_on (take (length ts) ts') = map wt_depends_on ts
     \<and> (\<forall>t \<in> set (drop (length ts) ts'). wt_content t \<noteq> [] \<and> wt_depends_on t = []))"

lemma plan_extends_update:
  assumes ext: "plan_extends ts us" and v: "u \<in> set us" "wt_id v = wt_id u" "wt_depends_on v = wt_depends_on u"
    "wt_content u \<noteq> [] \<Longrightarrow> wt_content v \<noteq> []"
  shows "plan_extends ts (map (\<lambda>t. if wt_id t = wt_id v then v else t) us)"
proof -
  let ?f = "\<lambda>t. if wt_id t = wt_id v then v else t"
  have us: "distinct (map wt_id us)" "length ts \<le> length us" "map wt_id (take (length ts) us) = map wt_id ts"
    "map wt_depends_on (take (length ts) us) = map wt_depends_on ts"
    "\<forall>t \<in> set (drop (length ts) us). wt_content t \<noteq> [] \<and> wt_depends_on t = []"
    using ext by (auto simp: plan_extends_def)
  have inj: "t = u" if "t \<in> set us" "wt_id t = wt_id v" for t
    using that v(1,2) us(1) by (auto simp: distinct_map dest: inj_onD)
  have ids: "map wt_id (map ?f xs) = map wt_id xs" for xs by (induction xs) auto
  have deps: "map wt_depends_on (map ?f xs) = map wt_depends_on xs" if "set xs \<subseteq> set us" for xs
    using that inj v(3) by (induction xs) auto
  have "wt_content (?f t) \<noteq> [] \<and> wt_depends_on (?f t) = []" if "t \<in> set (drop (length ts) us)" for t
    using us(5) that inj[of t] v(3,4) in_set_dropD[OF that] by auto
  then have new: "\<forall>t \<in> set (map ?f (drop (length ts) us)). wt_content t \<noteq> [] \<and> wt_depends_on t = []"
    unfolding set_map by blast
  show ?thesis unfolding plan_extends_def
    by (intro conjI) (use us new in \<open>simp_all only: take_map drop_map length_map ids deps[OF set_take_subset]\<close>)
qed

lemma apply_todo_update_extends:
  assumes "plan_extends ts us"
  shows "\<exists>us'. apply_todo_update str it (as_dict us) = as_dict us' \<and> plan_extends ts us'"
proof -
  have d: "distinct (map wt_id us)" using assms by (simp add: plan_extends_def)
  show ?thesis
  proof (cases "\<exists>i item. it = (i, PDict item)")
    case True
    then obtain i item where it: "it = (i, PDict item)" by blast
    define k where "k = py_text str (first_truthy item [''id'', ''step''] (PInt (i + 1)))"
    define c where "c = py_text str (first_truthy item [''content'', ''title'', ''description''] (PStr []))"
    define s where "s = normalize_status (py_text str (first_truthy item [''status''] (PStr ''pending'')))"
    define a where "a = py_text str (first_truthy item [''assigned_persona'', ''persona''] (PStr []))"
    note ds = k_def[symmetric] c_def[symmetric] s_def[symmetric] a_def[symmetric]
    show ?thesis
    proof (cases "find (\<lambda>t. wt_id t = k) us")
      case None
      then have fresh: "k \<notin> wt_id ` set us" by (auto simp: find_None_iff)
      let ?v = "\<lparr>wt_id = k, wt_content = c, wt_status = s, wt_assigned_persona = a, wt_depends_on = []\<rparr>"
      have "plan_extends ts (us @ [?v])" if "c \<noteq> []"
        using assms that fresh by (auto simp: plan_extends_def)
      with assms show ?thesis using None fresh update_as_dict[OF d, of ?v]
        by (auto simp: apply_todo_update_def it Let_def ds dget_as_dict)
    next
      case (Some u)
      then have u: "u \<in> set us" "wt_id u = k" by (auto simp: find_Some_iff)
      let ?v = "u\<lparr>wt_content := (if c \<noteq> [] then c else wt_content u), wt_status := s,
        wt_assigned_persona := (if a \<noteq> [] then a else wt_assigned_persona u)\<rparr>"
      have "plan_extends ts (map (\<lambda>t. if wt_id t = wt_id ?v then ?v else t) us)"
        by (rule plan_extends_update[OF assms u(1)]) auto
      moreover have "apply_todo_update str it (as_dict us) = as_dict (map (\<lambda>t. if wt_id t = wt_id ?v then ?v else t) us)"
        using update_as_dict[OF d, of ?v] u Some
        by (auto simp: apply_todo_update_def it Let_def ds dget_as_dict)
      ultimately show ?thesis by blast
    qed
  next
    case False
    then show ?thesis using assms by (cases it) (auto simp: apply_todo_update_def split: pyval.splits)
  qed
qed

lemma fold_todo_updates_extend:
  "plan_extends ts us \<Longrightarrow> \<exists>us'. fold (apply_todo_update str) its (as_dict us) = as_dict us' \<and> plan_extends ts us'"
proof (induction its arbitrary: us)
  case (Cons it its)
  then obtain us1 where "apply_todo_update str it (as_dict us) = as_dict us1" "plan_extends ts us1"
    using apply_todo_update_extends by blast
  then show ?case using Cons.IH[of us1] by simp
qed auto

lemma plan_extends_refl: "distinct (map wt_id ts) \<Longrightarrow> plan_extends ts ts"
  by (simp add: plan_extends_def)

text \<open>Whatever an agent writes into its plan delta, no todo of the plan is lost, reordered or freed of
  its dependencies: the ids stay distinct, and what is added has a content. With a strict plan nothing changes.\<close>

theorem plan_delta_extends:
  assumes "distinct (map wt_id todos)"
  shows "plan_extends todos (merge_plan_delta_with_policy str False todos delta)
    \<and> merge_plan_delta_with_policy str True todos delta = todos"
proof (cases "\<exists>u us. first_truthy delta [''todos'', ''steps''] (PList []) = PList (u # us)")
  case True
  then obtain u us where f: "first_truthy delta [''todos'', ''steps''] (PList []) = PList (u # us)" by blast
  obtain us' where us': "fold (apply_todo_update str) (enumerate_from 0 (u # us)) (as_dict todos) = as_dict us'"
    "plan_extends todos us'"
    using fold_todo_updates_extend[OF plan_extends_refl[OF assms]] by blast
  have "fold (\<lambda>t. dput (wt_id t) t) todos [] = as_dict todos"
    using fold_as_dict[of "[]" todos] assms by simp
  with f us' show ?thesis by (simp add: merge_plan_delta_with_policy_def apply_plan_delta_def del: enumerate_from.simps)
next
  case False
  then show ?thesis using plan_extends_refl[OF assms]
    by (auto simp: merge_plan_delta_with_policy_def apply_plan_delta_def split: pyval.splits list.splits)
qed

definition demo_todo :: "string \<Rightarrow> work_todo" where
  "demo_todo i = \<lparr>wt_id = i, wt_content = ''look'', wt_status = TODO_PENDING, wt_assigned_persona = [],
     wt_depends_on = [''0'']\<rparr>"

theorem plan_delta_extends_witness:
  "plan_extends [demo_todo ''1'', demo_todo ''2''] (merge_plan_delta_with_policy (\<lambda>_. []) False
     [demo_todo ''1'', demo_todo ''2''] [(''todos'', PList [PDict [(''id'', PStr ''2''), (''status'', PStr ''done'')]])])"
  using plan_delta_extends[of "[demo_todo ''1'', demo_todo ''2'']" "\<lambda>_. []"
    "[(''todos'', PList [PDict [(''id'', PStr ''2''), (''status'', PStr ''done'')]])]"] by (simp add: demo_todo_def)

text \<open>With the configuration the program ships (no judge, no reasoning model, threshold 0.55) the trace
  critic never raises; it fails a trace, and asks for another turn, exactly when the trace has an error, a
  stub and a spawn, no result, and fewer than 40 characters. No trace of 40 characters is ever criticised.\<close>

theorem heuristic_critic_verdict:
  "\<exists>v. evaluate_trace None None (55/100) goal text n = Inr v \<and> tv_should_rerun v = (tv_verdict v = ''fail'')
     \<and> (tv_verdict v = ''fail'' \<longleftrightarrow> contains (lower text) ''error'' \<and> contains (lower text) ''stub''
        \<and> contains (lower text) ''spawn'' \<and> \<not> contains (lower text) ''result'' \<and> length text < 40)"
  by (auto simp: evaluate_trace_def reasoning_judge_def critic_by_heuristic_def base_score_def heuristic_issues_def Let_def)

theorem heuristic_critic_verdict_witness:
  "\<exists>v. evaluate_trace None None (55/100) [] ''{error: stub, spawn_requests: []}'' 3 = Inr v \<and> tv_verdict v = ''fail''"
proof -
  have "contains (lower ''{error: stub, spawn_requests: []}'') ''error''" "contains (lower ''{error: stub, spawn_requests: []}'') ''stub''"
    "contains (lower ''{error: stub, spawn_requests: []}'') ''spawn''" "\<not> contains (lower ''{error: stub, spawn_requests: []}'') ''result''"
    by code_simp+
  then show ?thesis using heuristic_critic_verdict[of "[]" "''{error: stub, spawn_requests: []}''" 3] by auto
qed

subsection \<open>Results and spawns\<close>

text \<open>An enriched result is the result itself or a merge into one that has a reply.\<close>

lemma enrich_merge:
  "enrich_conductor_result dumps parse percent goal result = result
   \<or> (\<exists>s r. enrich_conductor_result dumps parse percent goal result = merge_structured_into_result dumps result s
        \<and> get_or result ''reply'' (PStr []) = PStr r \<and> strip r \<noteq> [])"
proof (cases "isl (validate_step_result parse result)")
  case False
  show ?thesis
  proof (cases "\<exists>s c. get_or result ''reply'' (PStr []) = PStr s \<and> lax_float parse (get_or result ''confidence'' (PFloat 0)) = Some c")
    case True
    then obtain s c where "get_or result ''reply'' (PStr []) = PStr s" "lax_float parse (get_or result ''confidence'' (PFloat 0)) = Some c"
      by blast
    with False show ?thesis
      by (cases "strip s = []") (auto simp del: isl_rbind simp: enrich_conductor_result_def)
  next
    case no: False
    have "enrich_conductor_result dumps parse percent goal result = result"
      using no False unfolding enrich_conductor_result_def
      by (cases "get_or result ''reply'' (PStr [])"; cases "lax_float parse (get_or result ''confidence'' (PFloat 0))") simp_all
    then show ?thesis ..
  qed
qed (simp add: enrich_conductor_result_def)

lemma merge_with_reply:
  assumes "get_or result ''reply'' (PStr []) = PStr r" "strip r \<noteq> []"
  shows "merge_structured_into_result dumps result s = result
      \<or> merge_structured_into_result dumps result s = AList.update ''structured_deliverable'' (PDict s) result"
proof -
  have "truthy (get_or result ''reply'' PNone)" using assms by (cases "dget result ''reply''") auto
  then show ?thesis by (auto simp: merge_structured_into_result_def Let_def split: pyval.splits)
qed

text \<open>Enriching a conductor's result changes no key but structured_deliverable, and enriching it again
  changes nothing.\<close>

theorem enrich_keeps_result:
  "(k \<noteq> ''structured_deliverable'' \<longrightarrow>
      dget (enrich_conductor_result dumps parse percent goal result) k = dget result k)
   \<and> enrich_conductor_result dumps parse percent goal (enrich_conductor_result dumps parse percent goal result)
      = enrich_conductor_result dumps parse percent goal result"
proof -
  let ?e = "enrich_conductor_result dumps parse percent goal"
  consider "?e result = result" | s where "?e result = AList.update ''structured_deliverable'' (PDict s) result"
    using enrich_merge[of dumps parse percent goal result] merge_with_reply[of result _ dumps] by metis
  then show ?thesis
  proof cases
    case (2 s)
    let ?r = "AList.update ''structured_deliverable'' (PDict s) result"
    have "merge_structured_into_result dumps ?r x = ?r" for x by (simp add: merge_structured_into_result_def)
    then have "?e ?r = ?r" using enrich_merge[of dumps parse percent goal ?r] by auto
    with 2 show ?thesis by simp
  qed simp
qed

theorem enrich_keeps_result_witness:
  "dget (enrich_conductor_result (\<lambda>_. []) (\<lambda>_. None) floor ''triage'' [(''reply'', PStr ''ok''), (''confidence'', PFloat 1)]) ''reply''
     = Some (PStr ''ok'')"
  using enrich_keeps_result[of "''reply''" "\<lambda>_. []" "\<lambda>_. None" floor "''triage''"
    "[(''reply'', PStr ''ok''), (''confidence'', PFloat 1)]"] by simp

text \<open>A chain of spawns: every context is that of a job the broker made from the context before it.\<close>

fun spawn_chain ::
  "spawn_env \<Rightarrow> run_context \<Rightarrow> (interaction_mode option \<times> string \<times> string \<times> string \<times> string) list \<Rightarrow> run_context option" where
  "spawn_chain E c [] = Some c"
| "spawn_chain E c ((mode, profile_id, parent, persona, fresh) # steps) = (
     let p = SpawnWorkerPayload c persona [] [] [] in
     if spawn_validate E mode profile_id parent p = Inr None
     then (case from_job (to_worker_job fresh [] p) of Inr c' \<Rightarrow> spawn_chain E c' steps | Inl _ \<Rightarrow> None)
     else None)"

lemma from_spawned_job:
  "\<exists>c. from_job (to_worker_job fresh ev p) = Inr c \<and> ctx_spawn_depth c = ctx_spawn_depth (sp_parent p) + 1
     \<and> ctx_tenant_id c = ctx_tenant_id (sp_parent p)"
  by (simp add: from_job_def to_worker_job_def spawn_child_def py_int_def Let_def fill_correlation_key_def RunContext_def)

lemma spawn_validate_depth:
  "spawn_validate E mode profile_id parent p = Inr None \<Longrightarrow> ctx_spawn_depth (sp_parent p) < MAX_SPAWN_DEPTH"
  by (auto simp: spawn_validate_def result_simps split: if_splits option.splits)

text \<open>However spawns are chained, whatever the depth limits of the profiles: a context at depth d has at
  most 5 - d generations of validated spawns below it, each one level deeper and of the same tenant.\<close>

theorem spawn_chain_bounded:
  assumes "spawn_chain E c steps = Some c'"
  shows "ctx_spawn_depth c' = ctx_spawn_depth c + int (length steps)
    \<and> int (length steps) \<le> max 0 (MAX_SPAWN_DEPTH - ctx_spawn_depth c) \<and> ctx_tenant_id c' = ctx_tenant_id c"
  using assms
proof (induction steps arbitrary: c)
  case (Cons st steps)
  obtain mode profile_id parent persona fresh where st: "st = (mode, profile_id, parent, persona, fresh)"
    by (metis surj_pair)
  let ?p = "SpawnWorkerPayload c persona [] [] []"
  have p: "sp_parent ?p = c" by (simp add: SpawnWorkerPayload_def)
  obtain c1 where c1: "from_job (to_worker_job fresh [] ?p) = Inr c1" "ctx_spawn_depth c1 = ctx_spawn_depth c + 1"
    "ctx_tenant_id c1 = ctx_tenant_id c"
    using from_spawned_job[of fresh "[]" ?p] p by auto
  have "spawn_validate E mode profile_id parent ?p = Inr None" "spawn_chain E c1 steps = Some c'"
    using Cons.prems c1(1) by (auto simp: st Let_def split: if_splits)
  with Cons.IH[of c1] spawn_validate_depth p c1 show ?case by fastforce
qed simp

definition demo_spawn_env :: spawn_env where
  "demo_spawn_env = \<lparr>se_agents = (\<lambda>n. Some (AgentCatalogEntry n 0)), se_depth_override = Some 9, se_port = None,
     se_resolver = \<lparr>rs_loader = None, rs_env = \<lparr>env_trace_critic_threshold = None, env_trace_critic_every_n_steps = None,
       env_trace_critic_rerun_max = None, env_delegate_budget_fraction = None, env_max_spawn_depth = None\<rparr>\<rparr>,
     se_profiles = Inr []\<rparr>"

theorem spawn_chain_bounded_witness:
  "\<exists>c'. spawn_chain demo_spawn_env (RunContext ''s'' SESSION)
      [(Some AGENT, [], [], ''triage'', ''j1''), (None, [], ''conductor'', ''triage'', ''j2'')] = Some c' \<and> ctx_spawn_depth c' = 2"
proof -
  let ?s = "[(Some AGENT, [], [], ''triage'', ''j1''), (None, [], ''conductor'', ''triage'', ''j2'')]"
  have "spawn_chain demo_spawn_env (RunContext ''s'' SESSION) ?s \<noteq> None"
    by (simp add: demo_spawn_env_def SpawnWorkerPayload_def spawn_validate_def allow_spawn_def spawn_depth_limit_def
        AgentCatalogEntry_def MAX_SPAWN_DEPTH_def MAX_PERSONA_OVERLAY_LEN_def RunContext_def spawn_targets_def
        spawn_trust_floor_def get_trust_floor_def get_policy_def default_profile_policy_payload_def ProfilePolicyPayload_def
        PersonaQuality_def from_job_def to_worker_job_def spawn_child_def py_int_def fill_correlation_key_def Let_def)
  then obtain c' where "spawn_chain demo_spawn_env (RunContext ''s'' SESSION) ?s = Some c'" by blast
  with spawn_chain_bounded[OF this] show ?thesis by (simp add: RunContext_def)
qed

end
