(* ===== verification/Run_Step.thy ===== *)
theory Run_Step
  imports Runs
begin

text \<open>Steps of an interactive run: the stores of run states, todos and lessons
  (cys_core/infrastructure/runs and reflexion), RunStep (use_cases/run_step.py), ManageRun
  (manage_run.py) and DelegateResearch (delegate_research.py). The agent runtime is an argument that
  may change everything a run keeps; models, json.dumps and float arithmetic are arguments too. A
  state read from the store is a copy, as the Postgres store gives it. The in-memory store gives the
  stored object itself, which a step changes before it may raise: with that store what a failing step
  did to its state stays, and this is not modelled.\<close>

subsection \<open>What a run keeps\<close>

type_synonym state_key = "string \<times> string \<times> string"
type_synonym state_table = "(state_key \<times> run_state) list"
type_synonym todo_table = "((string \<times> string) \<times> work_todo list) list"

record lesson =
  le_investigation_id :: string
  le_tenant_id :: string
  le_text :: string
  le_source :: string

record run_world =
  rw_states :: state_table
  rw_todos :: todo_table
  rw_tracker :: tracker
  rw_lessons :: "lesson list"
  rw_catalog :: mem_catalog
  rw_usage :: "usage list"
  rw_monitor :: monitor

text \<open>run_states of the Postgres store: one row for each key, the row written last first.\<close>

definition state_key :: "run_context \<Rightarrow> state_key" where
  "state_key ctx = (ctx_tenant_id ctx, ctx_id ctx, kind_value (ctx_kind ctx))"

definition put_state :: "state_key \<Rightarrow> run_state \<Rightarrow> state_table \<Rightarrow> state_table" where
  "put_state k st t = (k, st) # AList.delete k t"

definition state_upsert :: "run_state \<Rightarrow> state_table \<Rightarrow> state_table" where
  "state_upsert st t = put_state (state_key (st_context st)) st t"

definition state_list_recent :: "string \<Rightarrow> int \<Rightarrow> state_table \<Rightarrow> run_state list" where
  "state_list_recent tenant limit t = py_take limit (filter (\<lambda>st. ctx_tenant_id (st_context st) = tenant) (map snd t))"

text \<open>The in-memory store keeps the place of a key that is written again.\<close>

definition mem_state_upsert :: "run_state \<Rightarrow> state_table \<Rightarrow> state_table" where
  "mem_state_upsert st t = AList.update (state_key (st_context st)) st t"

definition list_todos :: "string \<Rightarrow> string \<Rightarrow> todo_table \<Rightarrow> work_todo list" where
  "list_todos tenant cid t = get_or t (tenant, cid) []"

definition replace_todos :: "string \<Rightarrow> string \<Rightarrow> work_todo list \<Rightarrow> todo_table \<Rightarrow> todo_table" where
  "replace_todos tenant cid todos t = AList.update (tenant, cid) todos t"

interpretation run_rows: keyed_store map_of put_state "\<lambda>_. True"
  by unfold_locales (auto simp: put_state_def)

interpretation todo_rows: keyed_store map_of AList.update "\<lambda>_. True"
  by unfold_locales auto

definition sanitize_lesson :: "detector \<Rightarrow> string \<Rightarrow> string" where
  "sanitize_lesson d text = (case sanitize d (Src_other ''reflexion'') text of
     Inr s \<Rightarrow> s | Inl _ \<Rightarrow> ''[reflexion lesson removed by sanitizer]'')"

definition append_lesson :: "detector \<Rightarrow> lesson \<Rightarrow> lesson list \<Rightarrow> lesson list" where
  "append_lesson d l ls = ls @ [l\<lparr>le_text := sanitize_lesson d (le_text l)\<rparr>]"

definition list_for_investigation :: "string \<Rightarrow> string \<Rightarrow> int \<Rightarrow> lesson list \<Rightarrow> string list" where
  "list_for_investigation tenant cid limit ls = py_take limit
     (map le_text (filter (\<lambda>l. le_tenant_id l = tenant \<and> le_investigation_id l = cid) (rev ls)))"

subsection \<open>What a step uses\<close>

record run_call =
  rc_persona :: string
  rc_input :: string
  rc_session_id :: string
  rc_tenant_id :: string
  rc_investigation_id :: string
  rc_profile_id :: string

record run_env =
  re_arun :: "run_call \<Rightarrow> run_world \<Rightarrow> run_world \<times> (exc + pyval)"
  re_now :: time
  re_resolver :: resolver
  re_dumps :: "pyval \<Rightarrow> string"
  re_str :: "pyval \<Rightarrow> string"
  re_parse_float :: "string \<Rightarrow> rat option"
  re_percent :: "rat \<Rightarrow> int"
  re_scale :: "int \<Rightarrow> rat \<Rightarrow> int"
  re_dash :: string
  re_judge :: "(judge_request \<Rightarrow> exc + judge_result) option"
  re_judge_model :: "judge_model option"
  re_hints_model :: "(string \<Rightarrow> exc + string) option"
  re_summary_model :: "(string \<Rightarrow> exc + string) option"
  re_detector :: detector
  re_strict_plan :: bool
  re_task_hints_enabled :: bool
  re_critic_enabled :: bool
  re_critic_hitl :: bool
  re_dynamic_plans :: bool
  re_plans :: "plan_entry payload_catalog"
  re_file_hints :: "pyval list"
  re_skills :: "(string \<times> string \<times> string) list"

definition load_plan_hints :: "run_env \<Rightarrow> pyval list" where
  "load_plan_hints E = (let entries = load_active DEFAULT_PROFILE_ID (re_plans E) in
     if re_dynamic_plans E \<and> entries \<noteq> []
     then map (\<lambda>e. PDict [(''plan_id'', PStr (pl_id e)), (''rules'', PList (map PDict (pl_rules e)))]) entries
     else re_file_hints E)"

definition list_skill_metadata :: "run_env \<Rightarrow> string \<Rightarrow> pyval list" where
  "list_skill_metadata E profile_id = List.map_filter (\<lambda>(i, n, d).
     if profile_id = ''gaia-bench'' \<and> startswith i ''dfir'' then None
     else Some (PDict [(''id'', PStr i), (''name'', PStr n), (''description'', PStr d)])) (re_skills E)"

subsection \<open>Hints and summaries\<close>

text \<open>The texts have an em dash.\<close>

definition heuristic_hints :: "string \<Rightarrow> string \<Rightarrow> string list" where
  "heuristic_hints dash task = (let l = lower task in
     (if any_in [''ip'', ''domain'', ''hash''] l \<and> \<not> contains l ''time''
      then [''IOC present but time window may be unspecified '' @ dash @ '' confirm lookback period.''] else [])
     @ (if contains l ''powershell'' \<or> contains l ''encoded''
      then [''Encoded PowerShell alerts are often noisy '' @ dash @ '' verify parent process and user context.''] else [])
     @ (if contains l ''critical'' \<or> contains l ''urgent''
      then [''High-severity language detected '' @ dash @ '' validate scope before destructive actions.''] else []))"

definition SOC_HINTS_PROMPT :: "string \<Rightarrow> string" where
  "SOC_HINTS_PROMPT task = py_join newline
     [''You are a SOC investigation advisor. Review the task below and list subtle pitfalls:'',
      ''- ambiguous IOCs or missing context (host role, time window, data source)'',
      ''- false-positive traps (benign admin tools, expected automation)'',
      ''- evidence gaps that should be clarified before tool use'',
      ''- scope or authorization risks'', [], ''Task:'', task, [],
      ''Respond with 3-6 concise bullet points. If nothing notable, reply with '' @ quote
        @ ''No major pitfalls detected.'' @ quote, []]"

text \<open>The bullet the code also strips is no character below 256.\<close>

definition hint_line :: "string \<Rightarrow> string" where
  "hint_line line = strip (dropWhile (\<lambda>c. c \<in> {CHR ''-'', CHR ''*'', CHR '' ''}) (strip line))"

definition task_hints :: "run_env \<Rightarrow> string \<Rightarrow> exc + string list" where
  "task_hints E task = (if strip task = [] then Inr []
     else case re_hints_model E of
       None \<Rightarrow> Inr (heuristic_hints (re_dash E) task)
     | Some invoke \<Rightarrow> rbind (invoke (SOC_HINTS_PROMPT (strip task))) (\<lambda>answer. let text = strip answer in
         Inr (if text = [] \<or> contains (lower text) ''no major pitfalls'' then []
           else filter (\<lambda>l. l \<noteq> []) (map hint_line (filter (\<lambda>l. strip l \<noteq> []) (splitlines text))))))"

definition summarize :: "run_env \<Rightarrow> string \<Rightarrow> string \<Rightarrow> string \<Rightarrow> exc + string" where
  "summarize E goal text prior = (case re_summary_model E of
     None \<Rightarrow> Inr (if length text \<le> 4000 then [] else take 4000 text @ newline @ ''...[truncated]'')
   | Some invoke \<Rightarrow> if strip text = [] then Inr prior
       else rbind (invoke (''Summarize the investigation trace below for continuation. ''
         @ ''Preserve all IOCs, timestamps, hostnames, tool outputs, and open questions. ''
         @ ''Be concise but do not drop security-relevant facts.'' @ newline @ newline
         @ ''Goal: '' @ goal @ newline
         @ (if prior \<noteq> [] then ''Prior summary:'' @ newline @ prior @ newline @ newline else [])
         @ ''Trace:'' @ newline @ take 12000 text)) (\<lambda>answer. Inr (strip answer)))"


subsection \<open>The prompt of a step\<close>

text \<open>Attachments are dicts; str of a path that is no string is py_text.\<close>

definition attachment_paths :: "run_env \<Rightarrow> run_state \<Rightarrow> string list" where
  "attachment_paths E st = map (\<lambda>d. py_text (re_str E) (get_or d ''path'' PNone))
     (filter (\<lambda>d. truthy (get_or d ''path'' PNone)) (st_attachments st))"

definition inject_reflexion_hints :: "run_world \<Rightarrow> run_context \<Rightarrow> run_state \<Rightarrow> run_state" where
  "inject_reflexion_hints w ctx st = fold (\<lambda>l. add_note (''reflexion: '' @ l))
     (list_for_investigation (ctx_tenant_id ctx) (ctx_id ctx) 5 (rw_lessons w)) st"

definition step_mode :: "run_context \<Rightarrow> interaction_mode" where
  "step_mode ctx = (case ctx_mode ctx of Some m \<Rightarrow> m | None \<Rightarrow> AGENT)"

definition build_step_prompt :: "run_env \<Rightarrow> run_state \<Rightarrow> string \<Rightarrow> run_context \<Rightarrow> work_todo list \<Rightarrow> string" where
  "build_step_prompt E st user_input ctx todos = re_dumps E (PDict (
     [(''goal'', PStr (str_or (st_goal st) user_input)), (''mode'', PStr (mode_value (step_mode ctx))),
      (''input'', PStr user_input), (''run_context'', context_dump ctx),
      (''routing_hints'', PList (load_plan_hints E)),
      (''skill_catalog'', PList (list_skill_metadata E (ctx_profile_id ctx))),
      (''todo_snapshot'', PStr (format_todo_snapshot (re_dash E) todos)),
      (''todos'', PList (map todo_dump todos)), (''strict_plan'', PBool (re_strict_plan E))]
     @ (if st_reasoning_notes st \<noteq> [] then [(''task_hints'', PList (map PStr (st_reasoning_notes st)))] else [])
     @ (if st_context_summary st \<noteq> [] then [(''context_summary'', PStr (st_context_summary st))] else [])
     @ (if attachment_paths E st \<noteq> [] then [(''attachments'', PList (map PDict (st_attachments st))),
          (''attachment_hints'', PList (map PStr (process_attachment_hints (re_dash E) (attachment_paths E st))))] else [])
     @ (if st_last_verdict st \<noteq> [] then [(''last_trace_verdict'', PDict (st_last_verdict st))] else [])
     @ (if st_rerun_count st \<noteq> 0 then [(''trace_rerun_count'', PInt (st_rerun_count st))] else [])))"

definition parse_work_plan :: "payload \<Rightarrow> exc + work_plan option" where
  "parse_work_plan result = (case List.map_filter (\<lambda>k. case dget result k of Some (PDict d) \<Rightarrow> Some d | _ \<Rightarrow> None)
         [''plan'', ''work_plan'', ''WorkPlan''] of
       [] \<Rightarrow> Inr None | d # _ \<Rightarrow> rbind (validate_plan (PDict d)) (\<lambda>p. Inr (Some p)))"

definition status_from_result :: "payload \<Rightarrow> interaction_mode \<Rightarrow> run_status" where
  "status_from_result result mode = (
     if get_or result ''status'' PNone = PStr ''awaiting_user'' then RUN_AWAITING_USER
     else if truthy (get_or result ''trace_critic_escalation'' PNone) then RUN_AWAITING_USER
     else if mode = PLAN then RUN_AWAITING_PLAN_APPROVAL
     else RUN_IN_PROGRESS)"

text \<open>The summary of a run over its last result, and when it is written.\<close>

definition resummarize :: "run_env \<Rightarrow> string \<Rightarrow> run_state \<Rightarrow> exc + run_state" where
  "resummarize E user_input st = rbind (summarize E (str_or (st_goal st) user_input)
       (re_dumps E (PDict (st_last_result st))) (st_context_summary st))
     (\<lambda>s. Inr (st\<lparr>st_context_summary := s\<rparr>))"

definition maybe_failed_summary :: "run_env \<Rightarrow> string \<Rightarrow> run_state \<Rightarrow> exc + run_state" where
  "maybe_failed_summary E user_input st = (
     if get_or (st_last_verdict st) ''verdict'' PNone = PStr ''fail'' \<or> has_failed_todos (st_todos st)
     then resummarize E user_input st else Inr st)"

definition maybe_long_summary :: "run_env \<Rightarrow> string \<Rightarrow> run_state \<Rightarrow> exc + run_state" where
  "maybe_long_summary E user_input st = (
     if st_step_count st \<ge> 3 \<and> st_last_result st \<noteq> []
        \<and> length (re_dumps E (PDict (st_last_result st))) > 2500
     then resummarize E user_input st else Inr st)"

subsection \<open>Turns of the conductor\<close>

text \<open>The agent run inside run_session_budget: the budget is configured, what it used is recorded and
  it is cleared, whether the run raises or not.\<close>

definition with_session_budget ::
  "string \<Rightarrow> string \<Rightarrow> (run_world \<Rightarrow> run_world \<times> 'a) \<Rightarrow> run_world \<Rightarrow> run_world \<times> 'a" where
  "with_session_budget sid persona body w = (
     case body (w\<lparr>rw_tracker := session_configure (\<lambda>p. Inr (get_agent (rw_catalog w) p)) sid persona (rw_tracker w)\<rparr>) of
       (w', r) \<Rightarrow> (w'\<lparr>rw_usage := rw_usage w' @ session_usage sid persona (rw_tracker w'),
                      rw_tracker := budget_clear sid (rw_tracker w')\<rparr>, r))"

definition call_agent ::
  "run_env \<Rightarrow> run_context \<Rightarrow> string \<Rightarrow> string \<Rightarrow> string \<Rightarrow> run_world \<Rightarrow> run_world \<times> (exc + pyval)" where
  "call_agent E ctx persona prompt sid = with_session_budget sid persona (re_arun E
     \<lparr>rc_persona = persona, rc_input = prompt, rc_session_id = sid, rc_tenant_id = ctx_tenant_id ctx,
      rc_investigation_id = ctx_id ctx, rc_profile_id = ctx_profile_id ctx\<rparr>)"

definition as_result :: "pyval \<Rightarrow> payload" where
  "as_result v = (case v of PDict d \<Rightarrow> d | _ \<Rightarrow> [(''raw'', v)])"

text \<open>What a turn does with the answer: todos, deliverable, spawn requests, reasoning notes.\<close>

definition absorb_result ::
  "run_env \<Rightarrow> string \<Rightarrow> pyval \<Rightarrow> work_todo list \<Rightarrow> run_state \<Rightarrow> exc + payload \<times> work_todo list \<times> run_state" where
  "absorb_result E prompt answer todos st =
     rbind (merge_todos_from_result (re_str E) (re_strict_plan E) (as_result answer) todos) (\<lambda>todos'.
       let r1 = enrich_conductor_result (re_dumps E) (re_parse_float E) (re_percent E) (str_or (st_goal st) prompt) (as_result answer);
           r2 = dput ''spawn_requests'' (PList (filter_spawn_requests_by_sgr r1)) r1;
           st1 = persist_sgr_fields_to_state (re_str E) r2 (st\<lparr>st_todos := todos'\<rparr>)
       in Inr (r2, todos', st1\<lparr>st_step_count := st_step_count st1 + 1\<rparr>))"

text \<open>Whether the trace critic looks at the turn, and how often it may ask for another one.\<close>

definition trace_policy :: "run_env \<Rightarrow> string \<Rightarrow> trace_critic_policy" where
  "trace_policy E profile_id = pol_trace_critic (resolver_policy (re_resolver E) profile_id)"

definition critic_due :: "run_env \<Rightarrow> string \<Rightarrow> string \<Rightarrow> payload \<Rightarrow> run_state \<Rightarrow> bool" where
  "critic_due E persona profile_id result st = (
     dget result ''enough_data'' \<noteq> Some (PBool True) \<and> re_critic_enabled E
     \<and> persona \<in> {''conductor'', ''gaia_solver''}
     \<and> st_step_count st mod max 1 (int_or (tc_every_n_steps (trace_policy E profile_id))
         (resolver_trace_critic_every_n (re_resolver E) profile_id)) = 0)"

definition rerun_limit :: "run_env \<Rightarrow> string \<Rightarrow> int" where
  "rerun_limit E profile_id = int_or (tc_rerun_max (trace_policy E profile_id))
     (resolver_trace_critic_rerun_max (re_resolver E) profile_id)"

definition verdict_text :: "trace_verdict \<Rightarrow> string \<Rightarrow> string" where
  "verdict_text v dflt = str_or (tv_reasoning v) (str_or (py_join ''; '' (tv_issues v)) dflt)"

text \<open>What a verdict leaves behind: the learned quality of the persona and, when it fails, a lesson.\<close>

definition record_verdict :: "run_env \<Rightarrow> run_context \<Rightarrow> string \<Rightarrow> trace_verdict \<Rightarrow> run_world \<Rightarrow> run_world" where
  "record_verdict E ctx persona v w = (
     let w1 = w\<lparr>rw_catalog := record_trace_critic (re_now E) persona (tv_verdict v \<noteq> ''fail'') (ctx_profile_id ctx) (rw_catalog w)\<rparr> in
     if tv_verdict v = ''fail'' then w1\<lparr>rw_lessons := append_lesson (re_detector E)
         \<lparr>le_investigation_id = ctx_id ctx, le_tenant_id = ctx_tenant_id ctx,
          le_text = verdict_text v ''trace critic failed'', le_source = ''trace_critic''\<rparr> (rw_lessons w1)\<rparr>
     else w1)"

datatype turn =
    Finished payload "work_todo list" run_state
  | Again string "work_todo list" run_state

definition settle_verdict ::
  "run_env \<Rightarrow> run_context \<Rightarrow> string \<Rightarrow> payload \<Rightarrow> work_todo list \<Rightarrow> run_state \<Rightarrow> trace_verdict \<Rightarrow> run_world \<Rightarrow> run_world \<times> turn" where
  "settle_verdict E ctx persona result todos st v w = (
     if \<not> tv_should_rerun v then (w, Finished result todos st)
     else let result1 = dput ''trace_critic'' (PDict (verdict_dump v)) result in
       if st_rerun_count st < rerun_limit E (ctx_profile_id ctx)
       then let improvement = verdict_text v ''Improve action trace.'';
                st1 = st\<lparr>st_rerun_count := st_rerun_count st + 1,
                         st_reasoning_notes := st_reasoning_notes st @ [''trace_critic: '' @ improvement]\<rparr> in
         (w, Again (build_step_prompt E st1 (''Rerun requested by trace critic. Address: '' @ improvement) ctx todos) todos st1)
       else if tc_hitl_on_exhausted (trace_policy E (ctx_profile_id ctx)) \<or> re_critic_hitl E
       then (w\<lparr>rw_catalog := record_hitl_pause (re_now E) persona (ctx_profile_id ctx) (rw_catalog w)\<rparr>,
             Finished (dput ''status'' (PStr ''awaiting_user'') (dput ''trace_critic_escalation'' (PBool True) result1)) todos st)
       else (w, Finished result1 todos st))"

definition criticize ::
  "run_env \<Rightarrow> run_context \<Rightarrow> string \<Rightarrow> string \<Rightarrow> payload \<Rightarrow> work_todo list \<Rightarrow> run_state \<Rightarrow> run_world \<Rightarrow> run_world \<times> (exc + turn)" where
  "criticize E ctx persona prompt result todos st w = (
     if \<not> critic_due E persona (ctx_profile_id ctx) result st then (w, Inr (Finished result todos st))
     else case evaluate_trace (re_judge E) (re_judge_model E)
         (resolver_trace_critic_threshold (re_resolver E) (ctx_profile_id ctx))
         (str_or (st_goal st) prompt) (re_dumps E (PDict result)) (st_step_count st) of
       Inl e \<Rightarrow> (w, Inl e)
     | Inr v \<Rightarrow> (case settle_verdict E ctx persona result todos (st\<lparr>st_last_verdict := verdict_dump v\<rparr>) v
           (record_verdict E ctx persona v w) of (w', t) \<Rightarrow> (w', Inr t)))"

text \<open>One call of the agent with all that follows it.\<close>

definition conductor_turn ::
  "run_env \<Rightarrow> run_context \<Rightarrow> string \<Rightarrow> string \<Rightarrow> string \<Rightarrow> work_todo list \<Rightarrow> run_state \<Rightarrow> run_world \<Rightarrow> run_world \<times> (exc + turn)" where
  "conductor_turn E ctx persona sid prompt todos st w = (case call_agent E ctx persona prompt sid w of
     (w1, Inl e) \<Rightarrow> (w1, Inl e)
   | (w1, Inr answer) \<Rightarrow> (case absorb_result E prompt answer todos st of
       Inl e \<Rightarrow> (w1, Inl e)
     | Inr (result, todos1, st1) \<Rightarrow> criticize E ctx persona prompt result todos1 st1
         (w1\<lparr>rw_todos := replace_todos (ctx_tenant_id ctx) (ctx_id ctx) todos1 (rw_todos w1)\<rparr>)))"

subsection \<open>Lemmas on a turn\<close>

lemma persist_sgr_counts [simp]:
  "st_step_count (persist_sgr_fields_to_state str r st) = st_step_count st"
  "st_rerun_count (persist_sgr_fields_to_state str r st) = st_rerun_count st"
  "st_context (persist_sgr_fields_to_state str r st) = st_context st"
  "st_status (persist_sgr_fields_to_state str r st) = st_status st"
  "st_goal (persist_sgr_fields_to_state str r st) = st_goal st"
  by (auto simp: persist_sgr_fields_to_state_def add_note_def Let_def split: option.splits pyval.splits list.splits)

lemma absorb_result_state:
  assumes "absorb_result E prompt answer todos st = Inr (r, todos1, st1)"
  shows "st_step_count st1 = st_step_count st + 1" "st_rerun_count st1 = st_rerun_count st"
    "st_context st1 = st_context st"
  using assms by (auto simp: absorb_result_def Let_def result_simps)

fun turn_state :: "turn \<Rightarrow> run_state" where
  "turn_state (Finished r todos st) = st"
| "turn_state (Again p todos st) = st"

text \<open>A verdict changes the last verdict, the notes and the rerun count of a state only.\<close>

lemma criticize_turn:
  assumes "criticize E ctx persona prompt result todos st w = (w', Inr t)"
  shows "st_step_count (turn_state t) = st_step_count st \<and> st_context (turn_state t) = st_context st
    \<and> (case t of Finished r ts s \<Rightarrow> st_rerun_count s = st_rerun_count st
       | Again p ts s \<Rightarrow> st_rerun_count s = st_rerun_count st + 1 \<and> st_rerun_count st < rerun_limit E (ctx_profile_id ctx))"
  using assms
  by (auto simp: criticize_def settle_verdict_def Let_def split: prod.splits sum.splits if_splits)

lemma conductor_turn_cases:
  assumes "conductor_turn E ctx persona sid prompt todos st w = (w', Inr t)"
  obtains w1 answer result todos1 st1 where "call_agent E ctx persona prompt sid w = (w1, Inr answer)"
    "absorb_result E prompt answer todos st = Inr (result, todos1, st1)"
    "criticize E ctx persona prompt result todos1 st1
       (w1\<lparr>rw_todos := replace_todos (ctx_tenant_id ctx) (ctx_id ctx) todos1 (rw_todos w1)\<rparr>) = (w', Inr t)"
  using assms by (auto simp: conductor_turn_def split: prod.splits sum.splits)

lemma conductor_turn_state:
  assumes "conductor_turn E ctx persona sid prompt todos st w = (w', Inr t)"
  shows "st_step_count (turn_state t) = st_step_count st + 1 \<and> st_context (turn_state t) = st_context st
    \<and> (case t of Finished r ts s \<Rightarrow> st_rerun_count s = st_rerun_count st
       | Again p ts s \<Rightarrow> st_rerun_count s = st_rerun_count st + 1 \<and> st_rerun_count st < rerun_limit E (ctx_profile_id ctx))"
  using assms
proof (cases rule: conductor_turn_cases)
  case (1 w1 answer result todos1 st1)
  show ?thesis using criticize_turn[OF 1(3)] absorb_result_state[OF 1(2)] by (simp split: turn.splits)
qed

subsection \<open>The conductor\<close>

text \<open>_run_conductor: turns until the critic asks for no other. Every rerun raises the count the
  critic compares with its limit, so there are at most as many as the limit leaves.\<close>

function (sequential) run_conductor ::
  "run_env \<Rightarrow> run_context \<Rightarrow> string \<Rightarrow> string \<Rightarrow> string \<Rightarrow> work_todo list \<Rightarrow> run_state \<Rightarrow> run_world
     \<Rightarrow> run_world \<times> (exc + payload \<times> work_todo list \<times> run_state)" where
  "run_conductor E ctx persona sid prompt todos st w = (
     case conductor_turn E ctx persona sid prompt todos st w of
       (w1, Inl e) \<Rightarrow> (w1, Inl e)
     | (w1, Inr (Finished result todos1 st1)) \<Rightarrow> (w1, Inr (result, todos1, st1))
     | (w1, Inr (Again prompt1 todos1 st1)) \<Rightarrow> run_conductor E ctx persona sid prompt1 todos1 st1 w1)"
  by pat_completeness auto
termination
proof (relation "measure (\<lambda>(E, ctx, persona, sid, prompt, todos, st, w).
    nat (rerun_limit E (ctx_profile_id ctx) - st_rerun_count st))", goal_cases)
  case (2 E ctx persona sid prompt todos st w w1 r t prompt1 todos1 st1)
  then have "conductor_turn E ctx persona sid prompt todos st w = (w1, Inr (Again prompt1 todos1 st1))" by simp
  from conductor_turn_state[OF this] show ?case by simp
qed simp

declare run_conductor.simps [simp del]

lemma run_conductor_cases:
  assumes "run_conductor E ctx persona sid prompt todos st w = (w', out)"
  obtains (raised) e where "conductor_turn E ctx persona sid prompt todos st w = (w', Inl e)" "out = Inl e"
  | (finished) r ts s where "conductor_turn E ctx persona sid prompt todos st w = (w', Inr (Finished r ts s))"
      "out = Inr (r, ts, s)"
  | (again) w1 p ts s where "conductor_turn E ctx persona sid prompt todos st w = (w1, Inr (Again p ts s))"
      "run_conductor E ctx persona sid p ts s w1 = (w', out)"
  using assms by (subst (asm) run_conductor.simps) (auto split: prod.splits sum.splits turn.splits)

text \<open>Induction over the turns of a conductor.\<close>

lemma run_conductor_turns [consumes 1, case_names raised finished again]:
  assumes run: "run_conductor E ctx persona sid prompt todos st w = (w', out)"
    and raised: "\<And>prompt todos st w e. conductor_turn E ctx persona sid prompt todos st w = (w', Inl e) \<Longrightarrow> P st w (Inl e)"
    and finished: "\<And>prompt todos st w r ts s. conductor_turn E ctx persona sid prompt todos st w = (w', Inr (Finished r ts s))
      \<Longrightarrow> P st w (Inr (r, ts, s))"
    and again: "\<And>prompt todos st w w1 p ts s. conductor_turn E ctx persona sid prompt todos st w = (w1, Inr (Again p ts s))
      \<Longrightarrow> P s w1 out \<Longrightarrow> P st w out"
  shows "P st w out"
  using assms
proof (induction E ctx persona sid prompt todos st w rule: run_conductor.induct)
  case (1 E ctx persona sid prompt todos st w)
  from "1.prems"(1) show ?case
  proof (cases rule: run_conductor_cases)
    case (raised e) then show ?thesis using "1.prems"(2) by simp
  next
    case (finished r ts s) then show ?thesis using "1.prems"(3) by simp
  next
    case (again w1 p ts s)
    have "P s w1 out" by (rule "1.IH"[OF again(1)[symmetric] refl refl again(2)]) (fact "1.prems")+
    then show ?thesis using "1.prems"(4)[OF again(1)] by simp
  qed
qed

subsection \<open>RunStep.execute\<close>

definition new_state :: "run_context \<Rightarrow> string \<Rightarrow> run_state" where
  "new_state ctx goal = (RunState ctx RUN_IN_PROGRESS)\<lparr>st_goal := goal, st_mode := ctx_mode ctx\<rparr>"

definition load_state :: "run_context \<Rightarrow> string \<Rightarrow> run_world \<Rightarrow> run_state" where
  "load_state ctx goal w = (case map_of (rw_states w) (state_key ctx) of Some st \<Rightarrow> st | None \<Rightarrow> new_state ctx goal)"

definition interactive :: "string \<Rightarrow> bool" where
  "interactive persona = (persona \<in> {''conductor'', ''gaia_solver''})"

text \<open>The state, todos and prompt a step starts from.\<close>

definition prepare_step ::
  "run_env \<Rightarrow> run_context \<Rightarrow> string \<Rightarrow> string \<Rightarrow> run_world \<Rightarrow> exc + run_state \<times> work_todo list \<times> string" where
  "prepare_step E ctx user_input persona w = (
     let st0 = load_state ctx user_input w;
         stored = list_todos (ctx_tenant_id ctx) (ctx_id ctx) (rw_todos w);
         todos = (if stored \<noteq> [] then stored else st_todos st0);
         st1 = inject_reflexion_hints w ctx st0 in
     rbind (if interactive persona \<and> step_mode ctx = AGENT \<and> re_task_hints_enabled E
               \<and> st_reasoning_notes st1 = [] \<and> st_step_count st1 = 0
            then rbind (task_hints E (str_or (st_goal st1) user_input)) (\<lambda>h. Inr (st1\<lparr>st_reasoning_notes := h\<rparr>))
            else Inr st1) (\<lambda>st2.
     rbind (maybe_long_summary E user_input st2) (\<lambda>st3.
       Inr (st3, todos, build_step_prompt E st3 user_input ctx todos))))"

definition plan_step ::
  "run_env \<Rightarrow> run_context \<Rightarrow> string \<Rightarrow> string \<Rightarrow> run_state \<Rightarrow> run_world \<Rightarrow> run_world \<times> (exc + run_state)" where
  "plan_step E ctx persona prompt st w = (case call_agent E ctx persona prompt (checkpoint_key ctx persona) w of
     (w1, Inl e) \<Rightarrow> (w1, Inl e)
   | (w1, Inr answer) \<Rightarrow> (let raw = (case answer of PDict d \<Rightarrow> d | _ \<Rightarrow> []) in
       case parse_work_plan raw of
         Inl e \<Rightarrow> (w1, Inl e)
       | Inr parsed \<Rightarrow>
         (let plan = (case parsed of Some p \<Rightarrow> p
              | None \<Rightarrow> WorkPlan\<lparr>wp_rationale := py_text (re_str E) (get_or raw ''rationale'' (PStr ''plan generated''))\<rparr>);
              st1 = st\<lparr>st_plan := Some plan, st_last_result := [(''plan'', plan_dump plan)],
                       st_status := RUN_AWAITING_PLAN_APPROVAL\<rparr> in
          if wp_todos plan \<noteq> []
          then (w1\<lparr>rw_todos := replace_todos (ctx_tenant_id ctx) (ctx_id ctx) (wp_todos plan) (rw_todos w1)\<rparr>,
                Inr (st1\<lparr>st_todos := wp_todos plan\<rparr>))
          else (w1, Inr st1))))"

definition conductor_step ::
  "run_env \<Rightarrow> run_context \<Rightarrow> string \<Rightarrow> string \<Rightarrow> string \<Rightarrow> work_todo list \<Rightarrow> run_state \<Rightarrow> run_world \<Rightarrow> run_world \<times> (exc + run_state)" where
  "conductor_step E ctx user_input persona prompt todos st w = (
     case run_conductor E ctx persona (checkpoint_key ctx persona) prompt todos st w of
       (w1, Inl e) \<Rightarrow> (w1, Inl e)
     | (w1, Inr (result, todos1, st1)) \<Rightarrow> (w1, maybe_failed_summary E user_input
         (st1\<lparr>st_last_result := result, st_status := status_from_result result (step_mode ctx)\<rparr>)))"

definition ephemeral_key :: "run_context \<Rightarrow> string \<Rightarrow> string" where
  "ephemeral_key ctx persona = ''worker:'' @ persona @ '':'' @ ctx_id ctx"

definition worker_step ::
  "run_env \<Rightarrow> run_context \<Rightarrow> string \<Rightarrow> string \<Rightarrow> run_state \<Rightarrow> run_world \<Rightarrow> run_world \<times> (exc + run_state)" where
  "worker_step E ctx persona prompt st w = (case call_agent E ctx persona prompt (ephemeral_key ctx persona) w of
     (w1, Inl e) \<Rightarrow> (w1, Inl e)
   | (w1, Inr answer) \<Rightarrow> (w1, Inr (st\<lparr>st_last_result := as_result answer, st_status := RUN_IN_PROGRESS\<rparr>)))"

definition step_body ::
  "run_env \<Rightarrow> run_context \<Rightarrow> string \<Rightarrow> string \<Rightarrow> run_world \<Rightarrow> run_world \<times> (exc + run_state)" where
  "step_body E ctx user_input persona w = (case prepare_step E ctx user_input persona w of
     Inl e \<Rightarrow> (w, Inl e)
   | Inr (st, todos, prompt) \<Rightarrow>
       if step_mode ctx = PLAN then plan_step E ctx persona prompt st w
       else if is_stateful ctx \<or> interactive persona then conductor_step E ctx user_input persona prompt todos st w
       else worker_step E ctx persona prompt st w)"

definition step_answer :: "run_context \<Rightarrow> run_state \<Rightarrow> payload" where
  "step_answer ctx st = [(''run_context'', context_dump ctx), (''result'', PDict (st_last_result st)),
     (''status'', PStr (run_status_value (st_status st)))]"

definition run_step :: "run_env \<Rightarrow> run_context \<Rightarrow> string \<Rightarrow> string \<Rightarrow> run_world \<Rightarrow> run_world \<times> (exc + payload)" where
  "run_step E ctx user_input persona w = (case step_body E ctx user_input persona w of
     (w1, Inl e) \<Rightarrow> (w1, Inl e)
   | (w1, Inr st) \<Rightarrow> (w1\<lparr>rw_states := state_upsert st (rw_states w1)\<rparr>, Inr (step_answer ctx st)))"

subsection \<open>ManageRun\<close>

definition get_context :: "string \<Rightarrow> string \<Rightarrow> run_world \<Rightarrow> exc + run_context" where
  "get_context run_id tenant w = (case List.map_filter
       (\<lambda>kind. map_of (rw_states w) (tenant, run_id, kind_value kind)) [SESSION, JOB, INVESTIGATION] of
     st # _ \<Rightarrow> Inr (st_context st) | [] \<Rightarrow> Inl (PyExc ''KeyError''))"

definition save_context :: "run_context \<Rightarrow> string \<Rightarrow> run_world \<Rightarrow> run_world" where
  "save_context ctx goal w = w\<lparr>rw_states := state_upsert
     (case map_of (rw_states w) (state_key ctx) of
        None \<Rightarrow> new_state ctx goal | Some st \<Rightarrow> st\<lparr>st_context := ctx\<rparr>) (rw_states w)\<rparr>"

definition create_and_step :: "run_env \<Rightarrow> run_context \<Rightarrow> string \<Rightarrow> string \<Rightarrow> run_world \<Rightarrow> run_world \<times> (exc + payload)" where
  "create_and_step E ctx user_input persona w = run_step E ctx user_input persona (save_context ctx user_input w)"

definition manage_step ::
  "run_env \<Rightarrow> string \<Rightarrow> string \<Rightarrow> string \<Rightarrow> interaction_mode option \<Rightarrow> string \<Rightarrow> run_world \<Rightarrow> run_world \<times> (exc + payload)" where
  "manage_step E run_id message tenant mode persona w = (case get_context run_id tenant w of
     Inl e \<Rightarrow> (w, Inl e)
   | Inr ctx \<Rightarrow> (case mode of
       None \<Rightarrow> run_step E ctx message persona w
     | Some m \<Rightarrow> (let ctx1 = ctx\<lparr>ctx_mode := Some m\<rparr> in run_step E ctx1 message persona (save_context ctx1 [] w))))"

datatype plan_decision = DECIDE_APPROVE | DECIDE_REJECT | DECIDE_EDIT

record plan_approval =
  pa_decision :: plan_decision
  pa_edited_plan :: "work_plan option"
  pa_actor :: string

text \<open>The state an approval leaves: the edited plan, and the todos of the plan it then has.\<close>

definition install_plan :: "plan_approval \<Rightarrow> run_context \<Rightarrow> run_world \<Rightarrow> run_world" where
  "install_plan approval ctx w = (case map_of (rw_states w) (state_key ctx) of
     None \<Rightarrow> w
   | Some st0 \<Rightarrow>
     (let st1 = (case pa_edited_plan approval of Some p \<Rightarrow> st0\<lparr>st_plan := Some p\<rparr> | None \<Rightarrow> st0) in
      case st_plan st1 of
        Some p \<Rightarrow> if wp_todos p \<noteq> []
          then w\<lparr>rw_todos := replace_todos (ctx_tenant_id ctx) (ctx_id ctx) (wp_todos p) (rw_todos w),
                 rw_states := state_upsert (st1\<lparr>st_todos := wp_todos p\<rparr>) (rw_states w)\<rparr>
          else w\<lparr>rw_states := state_upsert st1 (rw_states w)\<rparr>
      | None \<Rightarrow> w\<lparr>rw_states := state_upsert st1 (rw_states w)\<rparr>))"

definition approve_plan :: "run_env \<Rightarrow> string \<Rightarrow> plan_approval \<Rightarrow> string \<Rightarrow> run_world \<Rightarrow> run_world \<times> (exc + payload)" where
  "approve_plan E run_id approval tenant w = (case get_context run_id tenant w of
     Inl e \<Rightarrow> (w, Inl e)
   | Inr ctx \<Rightarrow>
     if pa_decision approval = DECIDE_REJECT
     then (w\<lparr>rw_states := state_upsert (RunState ctx RUN_CLOSED) (rw_states w)\<rparr>,
           Inr [(''run_context'', context_dump ctx), (''result'', PDict [(''status'', PStr ''rejected'')])])
     else (let ctx1 = ctx\<lparr>ctx_mode := Some AGENT\<rparr> in
       run_step E ctx1 ''execute approved plan'' ''conductor'' (install_plan approval ctx1 (save_context ctx1 [] w))))"

subsection \<open>DelegateResearch\<close>

definition delegate_persona :: "agent_entry option \<Rightarrow> string" where
  "delegate_persona conductor = (case spawn_targets conductor of cap # _ \<Rightarrow> cap | [] \<Rightarrow> ''research'')"

definition delegate_research ::
  "run_env \<Rightarrow> string \<Rightarrow> string \<Rightarrow> string \<Rightarrow> run_world \<Rightarrow> run_world \<times> (exc + payload)" where
  "delegate_research E subtask context_id tenant w = (
     let conductor = get_agent (rw_catalog w) ''conductor'';
         profile_id = resolve_profile_id (re_str E) None None (map_option ag_profile_id conductor);
         who = str_or context_id tenant;
         started = w\<lparr>rw_monitor := log_orchestration_tool (re_now E) who ''delegate_research''
           [(''subtask'', PStr (take 200 subtask)), (''context_id'', PStr context_id)] ''ok'' ''system'' (rw_monitor w)\<rparr>;
         inv_id = str_or context_id (''delegate-'' @ tenant);
         parent = ''delegate:research:'' @ inv_id;
         child = parent @ '':child'';
         had_parent = (budget_get parent (rw_tracker w) \<noteq> None);
         fraction = resolver_delegate_budget_fraction (re_resolver E) profile_id in
     case re_arun E \<lparr>rc_persona = delegate_persona conductor, rc_input = subtask, rc_session_id = child,
         rc_tenant_id = tenant, rc_investigation_id = inv_id, rc_profile_id = profile_id\<rparr>
         (started\<lparr>rw_tracker := nested_configure (re_scale E) fraction parent child (rw_tracker started)\<rparr>) of
       (w1, r) \<Rightarrow> (let w2 = w1\<lparr>rw_tracker := nested_release had_parent child (rw_tracker w1)\<rparr> in
         case r of
           Inl e \<Rightarrow> (w2, Inl e)
         | Inr answer \<Rightarrow> (let result = as_result answer in
             (w2\<lparr>rw_monitor := log_orchestration_tool (re_now E) who ''delegate_research''
               [(''subtask'', PStr (take 200 subtask))] (if dget result ''error'' = None then ''ok'' else ''error'')
               ''system'' (rw_monitor w2)\<rparr>, Inr result))))"

subsection \<open>Reruns\<close>

text \<open>C7: A conductor step ends for every agent and every verdict: it counts one step and one more for each
  rerun, and the reruns are at most what the limit of the profile leaves of the run.\<close>

theorem conductor_reruns_bounded:
  assumes "run_conductor E ctx persona sid prompt todos st w = (w', Inr (r, ts, st'))"
  shows "st_step_count st' = st_step_count st + 1 + (st_rerun_count st' - st_rerun_count st)
    \<and> st_rerun_count st \<le> st_rerun_count st'
    \<and> st_rerun_count st' - st_rerun_count st \<le> max 0 (rerun_limit E (ctx_profile_id ctx) - st_rerun_count st)"
proof -
  have "out = Inr (r, ts, st') \<longrightarrow> st_step_count st' = st_step_count st + 1 + (st_rerun_count st' - st_rerun_count st)
    \<and> st_rerun_count st \<le> st_rerun_count st'
    \<and> st_rerun_count st' - st_rerun_count st \<le> max 0 (rerun_limit E (ctx_profile_id ctx) - st_rerun_count st)"
    if "run_conductor E ctx persona sid prompt todos st w = (w', out)" for out
    using that
  proof (induction rule: run_conductor_turns)
    case (finished prompt todos st w r ts s)
    from conductor_turn_state[OF finished] show ?case by auto
  next
    case (again prompt todos st w w1 p ts s)
    from conductor_turn_state[OF again(1)] again(2) show ?case by auto
  qed simp
  with assms show ?thesis by blast
qed

subsection \<open>Budgets and frames\<close>

lemma with_session_budget_clears:
  "with_session_budget sid persona body w = (w', r) \<Longrightarrow> budget_get sid (rw_tracker w') = None"
  by (auto simp: with_session_budget_def budget_get_def budget_clear_def split: prod.splits)

lemma record_verdict_frame [simp]:
  "rw_tracker (record_verdict E ctx persona v w) = rw_tracker w" "rw_states (record_verdict E ctx persona v w) = rw_states w"
  "rw_todos (record_verdict E ctx persona v w) = rw_todos w"
  by (simp_all add: record_verdict_def Let_def)

lemma criticize_frame:
  assumes "criticize E ctx persona prompt result todos st w = (w', out)"
  shows "rw_tracker w' = rw_tracker w \<and> rw_states w' = rw_states w \<and> rw_todos w' = rw_todos w"
  using assms by (auto simp: criticize_def settle_verdict_def Let_def split: prod.splits sum.splits if_splits)

lemma conductor_turn_clears:
  "conductor_turn E ctx persona sid prompt todos st w = (w', out) \<Longrightarrow> budget_get sid (rw_tracker w') = None"
  by (auto simp: conductor_turn_def call_agent_def dest!: with_session_budget_clears criticize_frame
      split: prod.splits sum.splits)

lemma run_conductor_clears:
  "run_conductor E ctx persona sid prompt todos st w = (w', out) \<Longrightarrow> budget_get sid (rw_tracker w') = None"
  by (induction rule: run_conductor_turns) (auto dest: conductor_turn_clears)

text \<open>The session a step charges.\<close>

definition step_session :: "run_context \<Rightarrow> string \<Rightarrow> string" where
  "step_session ctx persona = (if step_mode ctx = PLAN \<or> is_stateful ctx \<or> interactive persona
     then checkpoint_key ctx persona else ephemeral_key ctx persona)"

text \<open>A step leaves no budget of its session behind, whether it succeeds, the agent raises or its answer
  is invalid: the next step starts from a fresh budget.\<close>

theorem step_clears_budget:
  assumes "run_step E ctx user_input persona w = (w', out)"
    and "budget_get (step_session ctx persona) (rw_tracker w) = None"
  shows "budget_get (step_session ctx persona) (rw_tracker w') = None"
proof -
  have "budget_get (step_session ctx persona) (rw_tracker w1) = None"
    if "step_body E ctx user_input persona w = (w1, r)" for w1 r
    using that assms(2)
    by (auto simp: step_body_def step_session_def plan_step_def conductor_step_def worker_step_def call_agent_def Let_def
        dest!: with_session_budget_clears run_conductor_clears split: sum.splits prod.splits if_splits)
  with assms(1) show ?thesis by (auto simp: run_step_def split: prod.splits sum.splits)
qed

text \<open>What a step may change of the stores before its state is written: todos only. The agent may change
  the todos of any run (update_todos takes the tenant and the context the model writes), so what is
  said of the todos under a key holds as far as the agent calls made for this run leave that key.\<close>

definition agent_spares :: "run_env \<Rightarrow> run_context \<Rightarrow> (run_world \<Rightarrow> 'a) \<Rightarrow> bool" where
  "agent_spares E ctx part = (\<forall>c w. rc_tenant_id c = ctx_tenant_id ctx \<longrightarrow> rc_investigation_id c = ctx_id ctx
     \<longrightarrow> part (fst (re_arun E c w)) = part w)"

text \<open>A part of the world that the budget, the verdicts and the writing of this run's own todos leave
  as it was.\<close>

definition beside_run :: "run_context \<Rightarrow> (run_world \<Rightarrow> 'a) \<Rightarrow> bool" where
  "beside_run ctx part = ((\<forall>t w. part (w\<lparr>rw_tracker := t\<rparr>) = part w) \<and> (\<forall>u w. part (w\<lparr>rw_usage := u\<rparr>) = part w)
     \<and> (\<forall>c w. part (w\<lparr>rw_catalog := c\<rparr>) = part w) \<and> (\<forall>l w. part (w\<lparr>rw_lessons := l\<rparr>) = part w)
     \<and> (\<forall>todos w. part (w\<lparr>rw_todos := replace_todos (ctx_tenant_id ctx) (ctx_id ctx) todos (rw_todos w)\<rparr>) = part w))"

definition todos_of :: "string \<times> string \<Rightarrow> run_world \<Rightarrow> work_todo list option" where
  "todos_of k w = map_of (rw_todos w) k"

lemma beside_states [simp]: "beside_run ctx rw_states"
  by (simp add: beside_run_def)

lemma beside_todos [simp]: "k \<noteq> (ctx_tenant_id ctx, ctx_id ctx) \<Longrightarrow> beside_run ctx (todos_of k)"
  by (auto simp: beside_run_def todos_of_def replace_todos_def)

lemma beside_runD:
  assumes "beside_run ctx part"
  shows "part (w\<lparr>rw_tracker := t\<rparr>) = part w" "part (w\<lparr>rw_usage := u\<rparr>) = part w" "part (w\<lparr>rw_catalog := c\<rparr>) = part w"
    "part (w\<lparr>rw_lessons := l\<rparr>) = part w" "part (w\<lparr>rw_usage := u, rw_tracker := t\<rparr>) = part w"
    "part (w\<lparr>rw_todos := replace_todos (ctx_tenant_id ctx) (ctx_id ctx) todos (rw_todos w)\<rparr>) = part w"
  using assms unfolding beside_run_def by metis+

lemma call_agent_spares:
  assumes "agent_spares E ctx part" "beside_run ctx part" and "call_agent E ctx persona prompt sid w = (w', r)"
  shows "part w' = part w"
proof -
  let ?c = "\<lparr>rc_persona = persona, rc_input = prompt, rc_session_id = sid, rc_tenant_id = ctx_tenant_id ctx,
    rc_investigation_id = ctx_id ctx, rc_profile_id = ctx_profile_id ctx\<rparr>"
  let ?w = "w\<lparr>rw_tracker := session_configure (\<lambda>p. Inr (get_agent (rw_catalog w) p)) sid persona (rw_tracker w)\<rparr>"
  have "part (fst (re_arun E ?c ?w)) = part ?w"
    using assms(1) unfolding agent_spares_def by simp
  then show ?thesis
    using assms(3) beside_runD[OF assms(2)] by (auto simp: call_agent_def with_session_budget_def split: prod.splits)
qed

lemma criticize_spares:
  assumes "beside_run ctx part" and "criticize E ctx persona prompt result todos st w = (w', out)"
  shows "part w' = part w"
  using assms(2) beside_runD[OF assms(1)]
  by (auto simp: criticize_def settle_verdict_def record_verdict_def Let_def split: prod.splits sum.splits if_splits)

lemma conductor_turn_spares:
  assumes "agent_spares E ctx part" "beside_run ctx part" and "conductor_turn E ctx persona sid prompt todos st w = (w', out)"
  shows "part w' = part w"
  using assms(3) beside_runD(6)[OF assms(2)]
  by (auto simp: conductor_turn_def dest!: call_agent_spares[OF assms(1,2)] criticize_spares[OF assms(2)]
      split: prod.splits sum.splits)

lemma run_conductor_spares:
  assumes "agent_spares E ctx part" "beside_run ctx part" and "run_conductor E ctx persona sid prompt todos st w = (w', out)"
  shows "part w' = part w"
  using assms(3)
  by (induction rule: run_conductor_turns) (auto dest: conductor_turn_spares[OF assms(1,2)])

lemma step_body_spares:
  assumes "agent_spares E ctx part" "beside_run ctx part" and "step_body E ctx user_input persona w = (w', out)"
  shows "part w' = part w"
proof -
  note spares = call_agent_spares[OF assms(1,2)] run_conductor_spares[OF assms(1,2)]
  have plan: "part w' = part w" if "plan_step E ctx persona prompt st w = (w', out)" for prompt st w' out
    using that beside_runD(6)[OF assms(2)]
    by (auto simp: plan_step_def Let_def dest!: spares(1) split: sum.splits prod.splits if_splits)
  have conductor: "part w' = part w" if "conductor_step E ctx user_input persona prompt todos st w = (w', out)" for prompt todos st w' out
    using that by (auto simp: conductor_step_def dest!: spares(2) split: sum.splits prod.splits)
  have worker: "part w' = part w" if "worker_step E ctx persona prompt st w = (w', out)" for prompt st w' out
    using that by (auto simp: worker_step_def dest!: spares(1) split: sum.splits prod.splits)
  show ?thesis using assms(3) plan conductor worker
    by (auto simp: step_body_def split: sum.splits prod.splits if_splits)
qed

lemma run_rows_get [simp]: "map_of (put_state k st t) k' = (if k' = k then Some st else map_of t k')"
  using run_rows.get_put by simp

text \<open>Every row is under the key of its own context.\<close>

definition rows_keyed :: "run_world \<Rightarrow> bool" where
  "rows_keyed w = (\<forall>k st. map_of (rw_states w) k = Some st \<longrightarrow> state_key (st_context st) = k)"

lemma rows_keyed_upsert:
  "rows_keyed w \<Longrightarrow> rows_keyed (w\<lparr>rw_states := state_upsert st (rw_states w)\<rparr>)"
  by (simp add: rows_keyed_def state_upsert_def)

lemma load_state_key:
  assumes "rows_keyed w"
  shows "state_key (st_context (load_state ctx goal w)) = state_key ctx"
proof (cases "map_of (rw_states w) (state_key ctx)")
  case None then show ?thesis by (simp add: load_state_def new_state_def RunState_def)
next
  case (Some st)
  with assms have "state_key (st_context st) = state_key ctx" unfolding rows_keyed_def by blast
  with Some show ?thesis by (simp add: load_state_def)
qed

lemma fold_add_note_state [simp]:
  "st_context (fold (\<lambda>l. add_note (f l)) ls st) = st_context st" "st_step_count (fold (\<lambda>l. add_note (f l)) ls st) = st_step_count st"
  "st_rerun_count (fold (\<lambda>l. add_note (f l)) ls st) = st_rerun_count st" "st_plan (fold (\<lambda>l. add_note (f l)) ls st) = st_plan st"
  by (induction ls arbitrary: st) (auto simp: add_note_def)

lemma prepare_step_state:
  assumes "prepare_step E ctx user_input persona w = Inr (st, todos, prompt)"
  shows "st_context st = st_context (load_state ctx user_input w)" and "st_plan st = st_plan (load_state ctx user_input w)"
    and "todos = (let stored = list_todos (ctx_tenant_id ctx) (ctx_id ctx) (rw_todos w) in
          if stored \<noteq> [] then stored else st_todos (load_state ctx user_input w))"
    and "prompt = build_step_prompt E st user_input ctx todos"
  using assms
  by (auto simp: prepare_step_def Let_def result_simps inject_reflexion_hints_def maybe_long_summary_def resummarize_def
      split: if_splits)

lemma run_conductor_context:
  assumes "run_conductor E ctx persona sid prompt todos st w = (w', Inr (r, ts, st'))"
  shows "st_context st' = st_context st"
proof -
  have "out = Inr (r, ts, st') \<longrightarrow> st_context st' = st_context st"
    if "run_conductor E ctx persona sid prompt todos st w = (w', out)" for out
    using that by (induction rule: run_conductor_turns) (auto dest: conductor_turn_state)
  with assms show ?thesis by blast
qed

lemma maybe_failed_summary_state:
  "maybe_failed_summary E user_input st = Inr st' \<Longrightarrow> st_context st' = st_context st \<and> st_status st' = st_status st
     \<and> st_last_result st' = st_last_result st \<and> st_step_count st' = st_step_count st \<and> st_rerun_count st' = st_rerun_count st"
  by (auto simp: maybe_failed_summary_def resummarize_def result_simps split: if_splits)

lemma status_from_result_open: "status_from_result r m \<in> {RUN_AWAITING_USER, RUN_AWAITING_PLAN_APPROVAL, RUN_IN_PROGRESS}"
  by (simp add: status_from_result_def)

text \<open>The three ways a step ends with a state.\<close>

lemma step_body_cases:
  assumes "step_body E ctx user_input persona w = (w', Inr st')"
  obtains (plan) st todos prompt where "prepare_step E ctx user_input persona w = Inr (st, todos, prompt)"
      "step_mode ctx = PLAN" "plan_step E ctx persona prompt st w = (w', Inr st')"
  | (conductor) st todos prompt where "prepare_step E ctx user_input persona w = Inr (st, todos, prompt)"
      "step_mode ctx \<noteq> PLAN" "is_stateful ctx \<or> interactive persona"
      "conductor_step E ctx user_input persona prompt todos st w = (w', Inr st')"
  | (worker) st todos prompt where "prepare_step E ctx user_input persona w = Inr (st, todos, prompt)"
      "step_mode ctx \<noteq> PLAN" "\<not> is_stateful ctx" "\<not> interactive persona" "worker_step E ctx persona prompt st w = (w', Inr st')"
  using assms by (auto simp: step_body_def split: sum.splits prod.splits if_splits)

lemma plan_step_state:
  assumes "plan_step E ctx persona prompt st w = (w', Inr st')"
  shows "st_context st' = st_context st" "st_status st' = RUN_AWAITING_PLAN_APPROVAL"
    "\<exists>p. st_plan st' = Some p \<and> st_last_result st' = [(''plan'', plan_dump p)]
       \<and> (wp_todos p \<noteq> [] \<longrightarrow> st_todos st' = wp_todos p \<and> list_todos (ctx_tenant_id ctx) (ctx_id ctx) (rw_todos w') = wp_todos p)"
  using assms
  by (auto simp: plan_step_def Let_def list_todos_def replace_todos_def get_or_def split: prod.splits sum.splits if_splits)

lemma conductor_step_state:
  assumes "conductor_step E ctx user_input persona prompt todos st w = (w', Inr st')"
  shows "st_context st' = st_context st" "st_status st' \<in> {RUN_AWAITING_USER, RUN_AWAITING_PLAN_APPROVAL, RUN_IN_PROGRESS}"
proof -
  obtain r ts s where run: "run_conductor E ctx persona (checkpoint_key ctx persona) prompt todos st w = (w', Inr (r, ts, s))"
    and m: "maybe_failed_summary E user_input (s\<lparr>st_last_result := r, st_status := status_from_result r (step_mode ctx)\<rparr>) = Inr st'"
    using assms by (auto simp: conductor_step_def split: prod.splits sum.splits)
  show "st_context st' = st_context st" "st_status st' \<in> {RUN_AWAITING_USER, RUN_AWAITING_PLAN_APPROVAL, RUN_IN_PROGRESS}"
    using run_conductor_context[OF run] maybe_failed_summary_state[OF m] status_from_result_open[of r "step_mode ctx"] by auto
qed

lemma step_body_state:
  assumes "step_body E ctx user_input persona w = (w', Inr st')" and "rows_keyed w"
  shows "state_key (st_context st') = state_key ctx
    \<and> st_status st' \<in> {RUN_AWAITING_USER, RUN_AWAITING_PLAN_APPROVAL, RUN_IN_PROGRESS}"
  using assms(1)
proof (cases rule: step_body_cases)
  case (plan st todos prompt)
  show ?thesis
    using load_state_key[OF assms(2), of ctx user_input] prepare_step_state(1)[OF plan(1)] plan_step_state(1,2)[OF plan(3)] by simp
next
  case (conductor st todos prompt)
  show ?thesis
    using load_state_key[OF assms(2), of ctx user_input] prepare_step_state(1)[OF conductor(1)] conductor_step_state[OF conductor(4)] by simp
next
  case (worker st todos prompt)
  show ?thesis using load_state_key[OF assms(2), of ctx user_input] prepare_step_state(1)[OF worker(1)] worker(5)
    by (auto simp: worker_step_def split: prod.splits sum.splits)
qed

subsection \<open>What steps keep\<close>

text \<open>C9: With the Postgres store, which gives copies of the states it keeps, and an agent whose calls for
  this run write no stored state (no tool of it does), a step leaves the stored state of every other
  run untouched, one that fails leaves the state of its own run too, and every row stays under the
  key of its context. The todos of another run are untouched unless the agent itself writes them:
  update_todos takes any tenant and context.\<close>

theorem step_isolates_runs:
  assumes "run_step E ctx user_input persona w = (w', out)" and "rows_keyed w"
    and "\<forall>c w. rc_tenant_id c = ctx_tenant_id ctx \<longrightarrow> rc_investigation_id c = ctx_id ctx
      \<longrightarrow> rw_states (fst (re_arun E c w)) = rw_states w"
  shows "(k \<noteq> state_key ctx \<or> isl out \<longrightarrow> map_of (rw_states w') k = map_of (rw_states w) k)
    \<and> (k' \<noteq> (ctx_tenant_id ctx, ctx_id ctx)
        \<and> (\<forall>c w. rc_tenant_id c = ctx_tenant_id ctx \<longrightarrow> rc_investigation_id c = ctx_id ctx
             \<longrightarrow> map_of (rw_todos (fst (re_arun E c w))) k' = map_of (rw_todos w) k')
        \<longrightarrow> map_of (rw_todos w') k' = map_of (rw_todos w) k')
    \<and> rows_keyed w'"
proof -
  obtain w1 r where body: "step_body E ctx user_input persona w = (w1, r)" by (cases "step_body E ctx user_input persona w")
  have states: "rw_states w1 = rw_states w"
    by (rule step_body_spares[OF _ beside_states body]) (use assms(3) in \<open>simp add: agent_spares_def\<close>)
  have todos: "k' \<noteq> (ctx_tenant_id ctx, ctx_id ctx)
        \<and> (\<forall>c w. rc_tenant_id c = ctx_tenant_id ctx \<longrightarrow> rc_investigation_id c = ctx_id ctx
             \<longrightarrow> map_of (rw_todos (fst (re_arun E c w))) k' = map_of (rw_todos w) k')
        \<longrightarrow> map_of (rw_todos w1) k' = map_of (rw_todos w) k'"
    using step_body_spares[OF _ beside_todos body, of k'] by (simp add: agent_spares_def todos_of_def)
  have keyed: "rows_keyed w1" using assms(2) states unfolding rows_keyed_def by simp
  show ?thesis
  proof (cases r)
    case (Inl e)
    then have "w' = w1" using assms(1) body by (simp add: run_step_def)
    with states todos keyed show ?thesis by simp
  next
    case (Inr st)
    have key: "state_key (st_context st) = state_key ctx" using step_body_state[OF body[unfolded Inr] assms(2)] by simp
    have w': "w' = w1\<lparr>rw_states := state_upsert st (rw_states w1)\<rparr>" "\<not> isl out"
      using assms(1) body Inr by (auto simp: run_step_def)
    show ?thesis using key states todos rows_keyed_upsert[OF keyed, of st] unfolding w' by (simp add: state_upsert_def w'(2))
  qed
qed

text \<open>The state a step that returns leaves.\<close>

lemma run_step_stores:
  assumes "run_step E ctx user_input persona w = (w', Inr out)" and "rows_keyed w"
  obtains w1 st where "step_body E ctx user_input persona w = (w1, Inr st)"
    "w' = w1\<lparr>rw_states := state_upsert st (rw_states w1)\<rparr>" "map_of (rw_states w') (state_key ctx) = Some st"
    "st_status st \<in> {RUN_AWAITING_USER, RUN_AWAITING_PLAN_APPROVAL, RUN_IN_PROGRESS}"
proof -
  from assms(1) obtain w1 st where b: "step_body E ctx user_input persona w = (w1, Inr st)"
    "w' = w1\<lparr>rw_states := state_upsert st (rw_states w1)\<rparr>"
    by (auto simp: run_step_def split: prod.splits sum.splits)
  show thesis using that[OF b] step_body_state[OF b(1) assms(2)] b(2) by (simp add: state_upsert_def)
qed

subsection \<open>Plans and their approval\<close>

lemma get_context_state:
  assumes "get_context run_id tenant w = Inr ctx" and "rows_keyed w"
  shows "\<exists>st. map_of (rw_states w) (state_key ctx) = Some st \<and> st_context st = ctx" "ctx_id ctx = run_id" "ctx_tenant_id ctx = tenant"
proof -
  obtain st kind where st: "map_of (rw_states w) (tenant, run_id, kind_value kind) = Some st" "st_context st = ctx"
    using assms(1) by (auto simp: get_context_def List.map_filter_simps simp del: kind_value.simps split: option.splits list.splits)
  then have k: "state_key ctx = (tenant, run_id, kind_value kind)" using assms(2) unfolding rows_keyed_def by blast
  with st show "\<exists>st. map_of (rw_states w) (state_key ctx) = Some st \<and> st_context st = ctx" by auto
  from k show "ctx_id ctx = run_id" "ctx_tenant_id ctx = tenant" by (simp_all add: state_key_def)
qed

lemma get_context_contexts:
  "get_context run_id tenant w = (case List.map_filter
       (\<lambda>kind. map_option st_context (map_of (rw_states w) (tenant, run_id, kind_value kind))) [SESSION, JOB, INVESTIGATION] of
     c # _ \<Rightarrow> Inr c | [] \<Rightarrow> Inl (PyExc ''KeyError''))"
  by (simp add: get_context_def List.map_filter_simps split: option.splits)

lemma RunState_context [simp]: "st_context (RunState c s) = c"
  by (simp add: RunState_def)

lemma get_context_same_rows:
  assumes "get_context run_id tenant w = Inr ctx"
    and "\<And>k. map_of (rw_states w') k = None \<longleftrightarrow> map_of (rw_states w) k = None"
    and "\<And>k st st'. map_of (rw_states w) k = Some st \<Longrightarrow> map_of (rw_states w') k = Some st' \<Longrightarrow> st_context st' = st_context st"
  shows "get_context run_id tenant w' = Inr ctx"
proof -
  have same: "map_option st_context (map_of (rw_states w') k) = map_option st_context (map_of (rw_states w) k)" for k
  proof (cases "map_of (rw_states w) k")
    case None then show ?thesis using assms(2)[of k] by simp
  next
    case (Some st)
    then obtain st' where st': "map_of (rw_states w') k = Some st'" using assms(2)[of k] by auto
    then show ?thesis using Some assms(3)[OF Some st'] by simp
  qed
  show ?thesis using assms(1) by (simp only: get_context_contexts same)
qed


text \<open>Approving with an edited plan that has todos hands exactly those todos, and the plan, to the agent,
  in agent mode; an edit that empties the plan is not carried out: the todos stored before are the ones the
  agent gets.\<close>

theorem edited_plan_todos:
  assumes run: "get_context run_id tenant w = Inr ctx" "rows_keyed w"
    and edit: "pa_decision approval \<noteq> DECIDE_REJECT" "pa_edited_plan approval = Some p"
    and ctx1: "ctx1 = ctx\<lparr>ctx_mode := Some AGENT\<rparr>"
    and w1: "w1 = install_plan approval ctx1 (save_context ctx1 [] w)"
  shows "approve_plan E run_id approval tenant w = run_step E ctx1 ''execute approved plan'' ''conductor'' w1
    \<and> (\<forall>message persona st todos prompt. prepare_step E ctx1 message persona w1 = Inr (st, todos, prompt) \<longrightarrow>
      st_plan st = Some p \<and> (wp_todos p \<noteq> [] \<longrightarrow> todos = wp_todos p)
      \<and> (wp_todos p = [] \<and> list_todos tenant run_id (rw_todos w) \<noteq> [] \<longrightarrow> todos = list_todos tenant run_id (rw_todos w)))"
proof (intro conjI allI impI)
  show "approve_plan E run_id approval tenant w = run_step E ctx1 ''execute approved plan'' ''conductor'' w1"
    using run(1) edit(1) by (simp add: approve_plan_def ctx1 w1 Let_def)
next
  fix message persona st todos prompt
  assume prep: "prepare_step E ctx1 message persona w1 = Inr (st, todos, prompt)"
  have key: "state_key ctx1 = state_key ctx" "ctx_tenant_id ctx1 = tenant" "ctx_id ctx1 = run_id"
    using get_context_state[OF run] by (simp_all add: ctx1 state_key_def)
  obtain st0 where st0: "map_of (rw_states w) (state_key ctx) = Some st0" using get_context_state(1)[OF run] by blast
  have "load_state ctx1 message w1 = (if wp_todos p \<noteq> [] then (st0\<lparr>st_context := ctx1, st_plan := Some p, st_todos := wp_todos p\<rparr>)
      else st0\<lparr>st_context := ctx1, st_plan := Some p\<rparr>)"
    "list_todos tenant run_id (rw_todos w1) = (if wp_todos p \<noteq> [] then wp_todos p else list_todos tenant run_id (rw_todos w))"
    using st0 edit(2) key
    by (simp_all add: w1 install_plan_def save_context_def load_state_def state_upsert_def list_todos_def replace_todos_def Let_def)
  note loaded = this
  show "st_plan st = Some p"
    using prepare_step_state(2)[OF prep] loaded(1) by (simp split: if_splits)
  show "todos = wp_todos p" if "wp_todos p \<noteq> []"
    using prepare_step_state(3)[OF prep] key loaded(2) that by (simp add: Let_def)
  show "todos = list_todos tenant run_id (rw_todos w)" if "wp_todos p = [] \<and> list_todos tenant run_id (rw_todos w) \<noteq> []"
    using prepare_step_state(3)[OF prep] key loaded(2) that by (simp add: Let_def)
qed

subsection \<open>What a conductor step stores\<close>

lemma enrich_other_keys:
  "k \<noteq> ''structured_deliverable'' \<Longrightarrow> dget (enrich_conductor_result dumps parse percent goal result) k = dget result k"
  using enrich_merge[of dumps parse percent goal result] merge_with_reply[of result _ dumps] by (metis map_of_update)

definition sgr_keys :: "string set" where
  "sgr_keys = {''sgr_plan_status'', ''sgr_enough_data''}"

lemma absorb_result_keys:
  "absorb_result E prompt answer todos st = Inr (r, todos1, st1) \<Longrightarrow> k \<in> sgr_keys \<Longrightarrow> dget r k = dget (as_result answer) k"
  by (auto simp: absorb_result_def Let_def result_simps sgr_keys_def enrich_other_keys)

lemma criticize_keys:
  "criticize E ctx persona prompt result todos st w = (w', Inr (Finished r ts s)) \<Longrightarrow> k \<in> sgr_keys \<Longrightarrow> dget r k = dget result k"
  by (auto simp: criticize_def settle_verdict_def Let_def sgr_keys_def split: prod.splits sum.splits if_splits)

lemma run_conductor_keys:
  assumes "run_conductor E ctx persona sid prompt todos st w = (w', Inr (r, ts, st'))"
    and none: "\<And>c w v. snd (re_arun E c w) = Inr v \<Longrightarrow> dget (as_result v) k = None" and k: "k \<in> sgr_keys"
  shows "dget r k = None"
proof -
  have "out = Inr (r, ts, st') \<longrightarrow> dget r k = None" if "run_conductor E ctx persona sid prompt todos st w = (w', out)" for out
    using that
  proof (induction rule: run_conductor_turns)
    case (finished prompt todos st w r' ts' s)
    then show ?case
    proof (cases rule: conductor_turn_cases)
      case (1 w1 answer result todos1 st1)
      from 1(1) have "dget (as_result answer) k = None"
        using none by (auto simp: call_agent_def with_session_budget_def split: prod.splits) (metis snd_conv)
      with 1 show ?thesis using absorb_result_keys[OF 1(2) k] criticize_keys[OF 1(3) k] by auto
    qed
  qed simp_all
  with assms(1) show ?thesis by blast
qed

text \<open>The plan status and enough-data flag that a step notes in the state's last result are gone when the step
  ends: whatever the agent answered, the stored last result has neither key.\<close>

theorem sgr_fields_lost:
  assumes "run_step E ctx user_input persona w = (w', Inr out)" and "rows_keyed w"
    and "step_mode ctx \<noteq> PLAN" and "is_stateful ctx \<or> interactive persona"
    and "\<And>c w v. snd (re_arun E c w) = Inr v \<Longrightarrow> dget (as_result v) k = None" and "k \<in> sgr_keys"
  shows "\<exists>st. map_of (rw_states w') (state_key ctx) = Some st \<and> dget (st_last_result st) k = None"
  using assms(1,2)
proof (cases rule: run_step_stores)
  case (1 w1 st)
  from 1(1) have "dget (st_last_result st) k = None"
  proof (cases rule: step_body_cases)
    case (conductor s ts prompt)
    then obtain r ts' s' where run: "run_conductor E ctx persona (checkpoint_key ctx persona) prompt ts s w = (w1, Inr (r, ts', s'))"
      and m: "maybe_failed_summary E user_input (s'\<lparr>st_last_result := r, st_status := status_from_result r (step_mode ctx)\<rparr>) = Inr st"
      by (auto simp: conductor_step_def split: prod.splits sum.splits)
    from maybe_failed_summary_state[OF m] run_conductor_keys[OF run assms(5,6)] show ?thesis by simp
  qed (use assms(3,4) in simp_all)
  with 1(3) show ?thesis by blast
qed

subsection \<open>Delegation\<close>

text \<open>A delegated subtask runs without any budget: sessions of runs and jobs are named run: or worker:, so
  the parent session delegate_research looks up has no budget, and the agent is called with a tracker in which
  the child session has none.\<close>

theorem delegated_run_unbudgeted:
  assumes "\<forall>sid. budget_get sid (rw_tracker w) \<noteq> None \<longrightarrow> (\<exists>ctx persona. sid = checkpoint_key ctx persona \<or> sid = ephemeral_key ctx persona)"
  shows "\<exists>call m w'. snd (delegate_research E subtask context_id tenant w)
        = (case snd (re_arun E call (w\<lparr>rw_monitor := m\<rparr>)) of Inl e \<Rightarrow> Inl e | Inr answer \<Rightarrow> Inr (as_result answer))
     \<and> budget_get (rc_session_id call) (rw_tracker w) = None"
proof -
  let ?c = "get_agent (rw_catalog w) ''conductor''"
  let ?profile = "resolve_profile_id (re_str E) None None (map_option ag_profile_id ?c)"
  let ?inv = "str_or context_id (''delegate-'' @ tenant)"
  let ?parent = "''delegate:research:'' @ ?inv"
  let ?call = "\<lparr>rc_persona = delegate_persona ?c, rc_input = subtask, rc_session_id = ?parent @ '':child'',
    rc_tenant_id = tenant, rc_investigation_id = ?inv, rc_profile_id = ?profile\<rparr>"
  let ?m = "log_orchestration_tool (re_now E) (str_or context_id tenant) ''delegate_research''
    [(''subtask'', PStr (take 200 subtask)), (''context_id'', PStr context_id)] ''ok'' ''system'' (rw_monitor w)"
  have none: "budget_get (''delegate:'' @ x) (rw_tracker w) = None" for x
    using assms by (rule_tac ccontr) (fastforce simp: checkpoint_key_def ephemeral_key_def split: if_splits)
  from none[of "''research:'' @ ?inv"] have t: "nested_configure (re_scale E) f ?parent (?parent @ '':child'') (rw_tracker w) = rw_tracker w" for f
    by (simp add: nested_configure_def)
  have "snd (delegate_research E subtask context_id tenant w)
      = (case snd (re_arun E ?call (w\<lparr>rw_monitor := ?m\<rparr>)) of Inl e \<Rightarrow> Inl e | Inr answer \<Rightarrow> Inr (as_result answer))"
    using t by (simp add: delegate_research_def Let_def split: prod.splits sum.splits)
  moreover have "budget_get (rc_session_id ?call) (rw_tracker w) = None"
    using none[of "''research:'' @ ?inv @ '':child''"] by simp
  ultimately show ?thesis by blast
qed

subsection \<open>Concrete runs\<close>

definition demo_run_env :: "payload \<Rightarrow> run_env" where
  "demo_run_env answer = \<lparr>re_arun = (\<lambda>c w. (w, Inr (PDict answer))), re_now = 0,
     re_resolver = \<lparr>rs_loader = None, rs_env = \<lparr>env_trace_critic_threshold = None, env_trace_critic_every_n_steps = None,
       env_trace_critic_rerun_max = None, env_delegate_budget_fraction = None, env_max_spawn_depth = None\<rparr>\<rparr>,
     re_dumps = (\<lambda>_. []), re_str = (\<lambda>_. []), re_parse_float = (\<lambda>_. None), re_percent = floor, re_scale = (\<lambda>n f. n),
     re_dash = ''-'', re_judge = Some (\<lambda>_. Inr \<lparr>jd_score = 1/10, jd_verdict = ''fail'', jd_reasoning = ''thin''\<rparr>),
     re_judge_model = None, re_hints_model = None, re_summary_model = None, re_detector = demo_detector,
     re_strict_plan = False, re_task_hints_enabled = False, re_critic_enabled = True, re_critic_hitl = True,
     re_dynamic_plans = False, re_plans = [], re_file_hints = [], re_skills = []\<rparr>"

definition empty_run_world :: run_world where
  "empty_run_world = \<lparr>rw_states = [], rw_todos = [],
     rw_tracker = \<lparr>tk_states = [], tk_profile_ids = [], tk_profile_costs = [], tk_cost_per_1k = 0\<rparr>, rw_lessons = [],
     rw_catalog = InMemoryAgentCatalog, rw_usage = [],
     rw_monitor = \<lparr>mo_agent_id = ''conductor'', mo_thresholds = AnomalyPolicy, mo_metrics = [], mo_events = [], mo_extra_keys = []\<rparr>\<rparr>"

definition demo_session :: run_context where
  "demo_session = RunContext ''s1'' SESSION"

lemma demo_env_simps [simp]:
  "re_arun (demo_run_env a) = (\<lambda>c w. (w, Inr (PDict a)))" "re_dumps (demo_run_env a) = (\<lambda>_. [])"
  "re_judge (demo_run_env a) = Some (\<lambda>_. Inr \<lparr>jd_score = 1/10, jd_verdict = ''fail'', jd_reasoning = ''thin''\<rparr>)"
  "re_task_hints_enabled (demo_run_env a) = False" "re_strict_plan (demo_run_env a) = False"
  "rerun_limit (demo_run_env a) pid = 2"
  by (simp_all add: demo_run_env_def rerun_limit_def trace_policy_def resolver_policy_def default_profile_policy_payload_def
      ProfilePolicyPayload_def TraceCriticPolicy_def int_or_def)

lemma run_conductor_returns:
  assumes "\<And>prompt todos st w. \<not> isl (snd (conductor_turn E ctx persona sid prompt todos st w))"
  shows "\<exists>w' r ts st'. run_conductor E ctx persona sid prompt todos st w = (w', Inr (r, ts, st'))"
proof -
  obtain w' out where run: "run_conductor E ctx persona sid prompt todos st w = (w', out)" by (metis surj_pair)
  then have "\<not> isl out"
  proof (induction rule: run_conductor_turns)
    case (raised prompt todos st w e)
    with assms[of prompt todos st w] show ?case by simp
  qed simp_all
  with run show ?thesis by (cases out) auto
qed

lemma demo_turn_returns:
  assumes "\<And>todos. \<not> isl (merge_todos_from_result (re_str (demo_run_env a)) False a todos)"
  shows "\<not> isl (snd (conductor_turn (demo_run_env a) ctx persona sid prompt todos st w))"
proof -
  have abs: "\<not> isl (absorb_result (demo_run_env a) prompt (PDict a) todos st)"
    using assms[of todos] by (simp add: absorb_result_def as_result_def Let_def)
  have "\<not> isl (snd (criticize (demo_run_env a) ctx persona prompt r ts s w))" for r ts s w
    by (simp add: criticize_def evaluate_trace_def Let_def split: prod.splits)
  with abs show ?thesis
    by (auto simp: conductor_turn_def call_agent_def with_session_budget_def split: prod.splits sum.splits)
qed

theorem conductor_reruns_bounded_witness:
  "\<exists>w' r ts st'. run_conductor (demo_run_env [(''error'', PStr ''stub'')]) demo_session ''conductor'' ''run:session:s1'' ''go'' []
      ((new_state demo_session ''go'')\<lparr>st_step_count := 2\<rparr>) empty_run_world = (w', Inr (r, ts, st'))
     \<and> st_step_count st' = 3 + st_rerun_count st' \<and> st_rerun_count st' \<le> 2"
proof -
  let ?st = "(new_state demo_session ''go'')\<lparr>st_step_count := 2\<rparr>"
  let ?run = "run_conductor (demo_run_env [(''error'', PStr ''stub'')]) demo_session ''conductor'' ''run:session:s1'' ''go'' [] ?st empty_run_world"
  obtain w' r ts st' where run: "?run = (w', Inr (r, ts, st'))"
    using run_conductor_returns[OF demo_turn_returns] by (fastforce simp: merge_todos_from_result_def)
  from conductor_reruns_bounded[OF run] have "st_step_count st' = 3 + st_rerun_count st' \<and> st_rerun_count st' \<le> 2"
    by (simp add: new_state_def RunState_def)
  with run show ?thesis by blast
qed

theorem step_clears_budget_witness:
  "budget_get ''run:session:s1'' (rw_tracker (fst (run_step (demo_run_env []) demo_session ''go'' ''conductor'' empty_run_world))) = None"
proof -
  obtain w' out where run: "run_step (demo_run_env []) demo_session ''go'' ''conductor'' empty_run_world = (w', out)" by (metis surj_pair)
  have s: "step_session demo_session ''conductor'' = ''run:session:s1''"
    by (simp add: step_session_def demo_session_def step_mode_def RunContext_def is_stateful_def checkpoint_key_def)
  show ?thesis using step_clears_budget[OF run, unfolded s] run by (simp add: empty_run_world_def budget_get_def)
qed

lemma empty_rows_keyed: "rows_keyed empty_run_world"
  by (simp add: rows_keyed_def empty_run_world_def)

text \<open>An agent that replaces the todos of a run that is not its own and then raises: the states stay, and
  so do the todos of the run it did not name.\<close>

definition meddling_env :: run_env where
  "meddling_env = (demo_run_env [])\<lparr>re_arun := (\<lambda>c w. (w\<lparr>rw_todos := replace_todos ''default'' ''s2'' [] (rw_todos w)\<rparr>,
     Inl (PyExc ''TimeoutError'')))\<rparr>"

definition three_runs :: run_world where
  "three_runs = empty_run_world\<lparr>rw_states := [(state_key demo_session, new_state demo_session ''first'')],
     rw_todos := [((''default'', ''s2''), [demo_todo ''2'']), ((''default'', ''s3''), [demo_todo ''3''])]\<rparr>"

theorem step_isolates_runs_witness:
  "\<exists>w' out. run_step meddling_env demo_session ''go'' ''conductor'' three_runs = (w', out) \<and> isl out
     \<and> map_of (rw_states w') (state_key demo_session) = Some (new_state demo_session ''first'')
     \<and> map_of (rw_todos w') (''default'', ''s2'') = Some [] \<and> map_of (rw_todos w') (''default'', ''s3'') = Some [demo_todo ''3'']"
proof -
  have ctx: "ctx_tenant_id demo_session = ''default''" "ctx_id demo_session = ''s1''" by (simp_all add: demo_session_def RunContext_def)
  have mode: "step_mode demo_session \<noteq> PLAN" "interactive ''conductor''" by (simp_all add: step_mode_def demo_session_def RunContext_def interactive_def)
  obtain st ts p where prep: "prepare_step meddling_env demo_session ''go'' ''conductor'' three_runs = Inr (st, ts, p)"
    by (simp add: meddling_env_def prepare_step_def maybe_long_summary_def Let_def three_runs_def load_state_def new_state_def RunState_def)
  have turn: "\<exists>w1. conductor_turn meddling_env ctx persona sid prompt todos s w = (w1, Inl (PyExc ''TimeoutError''))
      \<and> rw_todos w1 = replace_todos ''default'' ''s2'' [] (rw_todos w)" for ctx persona sid prompt todos s w
    by (simp add: conductor_turn_def call_agent_def with_session_budget_def meddling_env_def)
  have cond: "\<exists>w1. run_conductor meddling_env ctx persona sid prompt todos s w = (w1, Inl (PyExc ''TimeoutError''))
      \<and> rw_todos w1 = replace_todos ''default'' ''s2'' [] (rw_todos w)" for ctx persona sid prompt todos s w
    using turn[of ctx persona sid prompt todos s w] by (subst (1) run_conductor.simps) auto
  obtain w' where run: "run_step meddling_env demo_session ''go'' ''conductor'' three_runs = (w', Inl (PyExc ''TimeoutError''))"
      "rw_todos w' = replace_todos ''default'' ''s2'' [] (rw_todos three_runs)"
    using cond[of demo_session "''conductor''" "checkpoint_key demo_session ''conductor''" p ts st three_runs] prep mode
    by (auto simp: run_step_def step_body_def conductor_step_def)
  have keyed: "rows_keyed three_runs" by (simp add: rows_keyed_def three_runs_def new_state_def RunState_def)
  have states: "\<forall>c w. rc_tenant_id c = ctx_tenant_id demo_session \<longrightarrow> rc_investigation_id c = ctx_id demo_session
      \<longrightarrow> rw_states (fst (re_arun meddling_env c w)) = rw_states w" by (simp add: meddling_env_def)
  have todos: "\<forall>c w. rc_tenant_id c = ctx_tenant_id demo_session \<longrightarrow> rc_investigation_id c = ctx_id demo_session
      \<longrightarrow> map_of (rw_todos (fst (re_arun meddling_env c w))) (''default'', ''s3'') = map_of (rw_todos w) (''default'', ''s3'')"
    by (simp add: meddling_env_def replace_todos_def)
  show ?thesis
    using step_isolates_runs[OF run(1) keyed states, of "state_key demo_session" "(''default'', ''s3'')"] run todos ctx
    by (simp add: three_runs_def replace_todos_def)
qed

theorem sgr_fields_lost_witness:
  "\<exists>w' out st. run_step (demo_run_env [(''plan_status'', PStr ''late'')]) demo_session ''go'' ''conductor'' empty_run_world = (w', Inr out)
     \<and> map_of (rw_states w') (state_key demo_session) = Some st \<and> dget (st_last_result st) ''sgr_plan_status'' = None"
proof -
  let ?E = "demo_run_env [(''plan_status'', PStr ''late'')]"
  have prep: "\<exists>st ts p. prepare_step ?E demo_session ''go'' ''conductor'' empty_run_world = Inr (st, ts, p)"
    by (simp add: prepare_step_def maybe_long_summary_def Let_def)
  have conductor: "\<exists>w' r ts st'. run_conductor ?E demo_session ''conductor'' sid p ts0 st w = (w', Inr (r, ts, st'))" for sid p ts0 st w
    by (rule run_conductor_returns, rule demo_turn_returns) (simp add: merge_todos_from_result_def)
  have summary: "\<exists>s. maybe_failed_summary ?E ''go'' st = Inr s" for st
    by (simp add: maybe_failed_summary_def resummarize_def summarize_def demo_run_env_def)
  have mode: "step_mode demo_session \<noteq> PLAN" "interactive ''conductor''" by (simp_all add: step_mode_def demo_session_def RunContext_def interactive_def)
  obtain st ts p where pr: "prepare_step ?E demo_session ''go'' ''conductor'' empty_run_world = Inr (st, ts, p)" using prep by blast
  obtain w1 r ts1 st1 where rc: "run_conductor ?E demo_session ''conductor'' (checkpoint_key demo_session ''conductor'') p ts st empty_run_world = (w1, Inr (r, ts1, st1))"
    using conductor by blast
  have "\<exists>w' out. run_step ?E demo_session ''go'' ''conductor'' empty_run_world = (w', Inr out)"
    using pr rc mode summary[of "st1\<lparr>st_last_result := r, st_status := status_from_result r (step_mode demo_session)\<rparr>"]
    by (auto simp: run_step_def step_body_def conductor_step_def split: sum.splits)
  then obtain w' out where run: "run_step ?E demo_session ''go'' ''conductor'' empty_run_world = (w', Inr out)" by blast
  from sgr_fields_lost[OF run empty_rows_keyed mode(1), of "''sgr_plan_status''"] mode(2) run show ?thesis
    by (auto simp: sgr_keys_def as_result_def)
qed

theorem delegated_run_unbudgeted_witness:
  "\<exists>call. budget_get (rc_session_id call) (rw_tracker empty_run_world) = None
     \<and> snd (delegate_research (demo_run_env [(''raw'', PStr ''x'')]) ''dig'' [] ''default'' empty_run_world) = Inr [(''raw'', PStr ''x'')]"
  using delegated_run_unbudgeted[of empty_run_world "demo_run_env [(''raw'', PStr ''x'')]" "''dig''" "[]" "''default''"]
  by (auto simp: empty_run_world_def budget_get_def as_result_def)

definition demo_plan :: work_plan where
  "demo_plan = WorkPlan\<lparr>wp_todos := [demo_todo ''1'']\<rparr>"

definition plan_session :: run_context where
  "plan_session = demo_session\<lparr>ctx_mode := Some PLAN\<rparr>"

lemma demo_plan_step:
  "\<exists>w out st. run_step (demo_run_env [(''plan'', plan_dump demo_plan)]) plan_session ''go'' ''conductor'' empty_run_world = (w, Inr out)
     \<and> rows_keyed w \<and> map_of (rw_states w) (state_key plan_session) = Some st \<and> st_plan st = Some demo_plan
     \<and> get_context ''s1'' ''default'' w = Inr plan_session"
proof -
  let ?E = "demo_run_env [(''plan'', plan_dump demo_plan)]"
  have ctx: "step_mode plan_session = PLAN" "ctx_tenant_id plan_session = ''default''" "ctx_id plan_session = ''s1''" "ctx_kind plan_session = SESSION"
    by (simp_all add: plan_session_def demo_session_def RunContext_def step_mode_def)
  obtain st ts p where pr: "prepare_step ?E plan_session ''go'' ''conductor'' empty_run_world = Inr (st, ts, p)"
    by (simp add: prepare_step_def maybe_long_summary_def Let_def)
  have "st_context (load_state plan_session ''go'' empty_run_world) = plan_session"
    by (simp add: load_state_def empty_run_world_def new_state_def)
  then have c: "st_context st = plan_session" using prepare_step_state(1)[OF pr] by simp
  obtain d where d: "plan_dump demo_plan = PDict d" by (simp add: plan_dump_def)
  have "parse_work_plan [(''plan'', PDict d)] = Inr (Some demo_plan)"
    using plan_roundtrip[of demo_plan] d by (simp add: parse_work_plan_def List.map_filter_simps)
  then have "\<exists>w1 st1. plan_step ?E plan_session ''conductor'' p st empty_run_world = (w1, Inr st1) \<and> st_plan st1 = Some demo_plan
      \<and> st_context st1 = plan_session \<and> rw_states w1 = []"
    using c d by (simp add: plan_step_def call_agent_def with_session_budget_def Let_def empty_run_world_def)
  then obtain w1 st1 where s: "plan_step ?E plan_session ''conductor'' p st empty_run_world = (w1, Inr st1)"
    "st_plan st1 = Some demo_plan" "st_context st1 = plan_session" "rw_states w1 = []" by blast
  have "run_step ?E plan_session ''go'' ''conductor'' empty_run_world
      = (w1\<lparr>rw_states := state_upsert st1 (rw_states w1)\<rparr>, Inr (step_answer plan_session st1))"
    using pr s ctx by (simp add: run_step_def step_body_def)
  moreover have "get_context ''s1'' ''default'' (w1\<lparr>rw_states := state_upsert st1 (rw_states w1)\<rparr>) = Inr plan_session"
    using s ctx by (simp add: get_context_def state_upsert_def state_key_def List.map_filter_simps)
  ultimately show ?thesis using s by (simp add: rows_keyed_def state_upsert_def)
qed


theorem edited_plan_todos_witness:
  "\<exists>w out. run_step (demo_run_env [(''plan'', plan_dump demo_plan)]) plan_session ''go'' ''conductor'' empty_run_world = (w, Inr out)
     \<and> approve_plan (demo_run_env []) ''s1'' \<lparr>pa_decision = DECIDE_EDIT, pa_edited_plan = Some WorkPlan, pa_actor = ''op''\<rparr> ''default'' w
       = run_step (demo_run_env []) (plan_session\<lparr>ctx_mode := Some AGENT\<rparr>) ''execute approved plan'' ''conductor''
           (install_plan \<lparr>pa_decision = DECIDE_EDIT, pa_edited_plan = Some WorkPlan, pa_actor = ''op''\<rparr> (plan_session\<lparr>ctx_mode := Some AGENT\<rparr>)
             (save_context (plan_session\<lparr>ctx_mode := Some AGENT\<rparr>) [] w))"
proof -
  obtain w out where run: "run_step (demo_run_env [(''plan'', plan_dump demo_plan)]) plan_session ''go'' ''conductor'' empty_run_world = (w, Inr out)"
    "rows_keyed w" "get_context ''s1'' ''default'' w = Inr plan_session" using demo_plan_step by blast
  from edited_plan_todos[OF run(3,2), of "\<lparr>pa_decision = DECIDE_EDIT, pa_edited_plan = Some WorkPlan, pa_actor = ''op''\<rparr>" WorkPlan]
  show ?thesis using run(1) by auto
qed

end
