(* ===== verification/Pg_Jobs.thy ===== *)
theory Pg_Jobs
  imports Job_Hitl "HOL-Library.Multiset"
begin

text \<open>The Postgres job store (cys_core/infrastructure/job_store/postgres.py) and what it has in common
  with the in-memory one of Job_Hitl. A row of worker_jobs is a job record under its primary key; rows
  keep the order in which they were created, an update on conflict leaves its row in place.\<close>

subsection \<open>The table\<close>

type_synonym job_table = "job_record dict"

text \<open>A row as _row_to_record reads it: an empty tenant is the default one.\<close>

definition row_to_record :: "job_record \<Rightarrow> job_record" where
  "row_to_record r = r\<lparr>jr_tenant_id := str_or (jr_tenant_id r) ''default''\<rparr>"

definition pg_get :: "job_table \<Rightarrow> string \<Rightarrow> job_record option" where
  "pg_get t jid = map_option row_to_record (dget t jid)"

text \<open>_upsert: what is not given is taken from the row there is, except the pending action, which is
  written as given.\<close>

definition pg_upsert ::
  "string \<Rightarrow> string \<Rightarrow> string \<Rightarrow> job_status \<Rightarrow> payload option \<Rightarrow> hitl_action option \<Rightarrow> string \<Rightarrow> string \<Rightarrow> string
     \<Rightarrow> job_table \<Rightarrow> job_table" where
  "pg_upsert jid sid persona status preview pending corr tenant event t = (let ex = pg_get t jid in
     dput jid \<lparr>jr_job_id = jid, jr_session_id = sid, jr_persona = persona, jr_status = status,
       jr_hitl_preview = (case preview of Some p \<Rightarrow> p | None \<Rightarrow> (case ex of Some r \<Rightarrow> jr_hitl_preview r | None \<Rightarrow> [])),
       jr_pending_hitl = pending,
       jr_correlation_id = str_or corr (case ex of Some r \<Rightarrow> jr_correlation_id r | None \<Rightarrow> []),
       jr_tenant_id = str_or tenant (case ex of Some r \<Rightarrow> jr_tenant_id r | None \<Rightarrow> ''default''),
       jr_event_id = str_or event (case ex of Some r \<Rightarrow> jr_event_id r | None \<Rightarrow> [])\<rparr> t)"

definition pg_upsert_pending ::
  "string \<Rightarrow> string \<Rightarrow> string \<Rightarrow> string \<Rightarrow> string \<Rightarrow> job_table \<Rightarrow> job_table" where
  "pg_upsert_pending jid persona corr tenant event t =
     pg_upsert jid [] persona PENDING None None corr tenant event t"

definition pg_upsert_running ::
  "string \<Rightarrow> string \<Rightarrow> string \<Rightarrow> string \<Rightarrow> string \<Rightarrow> string \<Rightarrow> job_table \<Rightarrow> job_table" where
  "pg_upsert_running jid sid persona corr tenant event t =
     pg_upsert jid sid persona RUNNING None None corr tenant event t"

definition pg_pause_for_hitl :: "hitl_action \<Rightarrow> payload \<Rightarrow> job_table \<Rightarrow> job_table" where
  "pg_pause_for_hitl p preview t = (let ex = pg_get t (ha_job_id p) in
     pg_upsert (ha_job_id p) (ha_session_id p) (ha_persona p) AWAITING_APPROVAL (Some preview) (Some p)
       (case ex of Some r \<Rightarrow> jr_correlation_id r | None \<Rightarrow> [])
       (case ex of Some r \<Rightarrow> jr_tenant_id r | None \<Rightarrow> ''default'')
       (case ex of Some r \<Rightarrow> jr_event_id r | None \<Rightarrow> []) t)"

text \<open>mark_running, mark_completed and mark_failed all write the row again without its pending action.\<close>

definition pg_mark :: "job_status \<Rightarrow> string \<Rightarrow> job_table \<Rightarrow> job_table" where
  "pg_mark status jid t = (case pg_get t jid of
     None \<Rightarrow> t
   | Some r \<Rightarrow> pg_upsert jid (jr_session_id r) (jr_persona r) status (Some (jr_hitl_preview r)) None
       (jr_correlation_id r) (jr_tenant_id r) (jr_event_id r) t)"

definition pg_mark_running :: "string \<Rightarrow> job_table \<Rightarrow> job_table" where
  "pg_mark_running jid t = pg_mark RUNNING jid t"

definition pg_mark_completed :: "string \<Rightarrow> job_table \<Rightarrow> job_table" where
  "pg_mark_completed jid t = pg_mark COMPLETED jid t"

definition pg_mark_failed :: "string \<Rightarrow> job_table \<Rightarrow> job_table" where
  "pg_mark_failed jid t = pg_mark FAILED jid t"

definition pg_list_pending_approvals :: "job_table \<Rightarrow> hitl_action list" where
  "pg_list_pending_approvals t = List.map_filter
     (\<lambda>(k, r). if jr_status r = AWAITING_APPROVAL then jr_pending_hitl r else None) t"

text \<open>Summaries in the order of creation.\<close>

definition pg_list_by_investigation :: "string \<Rightarrow> string \<Rightarrow> job_table \<Rightarrow> job_record list" where
  "pg_list_by_investigation tenant iid t =
     map (\<lambda>r. (row_to_record r)\<lparr>jr_hitl_preview := [], jr_pending_hitl := None\<rparr>)
       (filter (\<lambda>r. jr_tenant_id r = tenant \<and> jr_correlation_id r = iid) (map snd t))"

subsection \<open>Both stores\<close>

text \<open>The operations of the port JobStorePort that change a store, on the table.\<close>

fun pg_apply :: "store_op \<Rightarrow> job_table \<Rightarrow> job_table" where
  "pg_apply (Op_pending jid persona corr tenant event) t = pg_upsert_pending jid persona corr tenant event t"
| "pg_apply (Op_running jid sid persona corr tenant event) t = pg_upsert_running jid sid persona corr tenant event t"
| "pg_apply (Op_pause p preview) t = pg_pause_for_hitl p preview t"
| "pg_apply (Op_mark_running jid) t = pg_mark_running jid t"
| "pg_apply (Op_mark_completed jid) t = pg_mark_completed jid t"
| "pg_apply (Op_mark_failed jid) t = pg_mark_failed jid t"

text \<open>Enqueueing names tenant, correlation and event, as enqueue_from_routing does.\<close>

fun op_named :: "store_op \<Rightarrow> bool" where
  "op_named (Op_pending jid persona corr tenant event) = (corr \<noteq> [] \<and> tenant \<noteq> [] \<and> event \<noteq> [])"
| "op_named op = True"

text \<open>The part of a record both stores agree on: all but the preview, and the pending action only
  while approval is awaited.\<close>

definition job_view :: "job_record \<Rightarrow> job_record" where
  "job_view r = r\<lparr>jr_hitl_preview := [],
     jr_pending_hitl := (if jr_status r = AWAITING_APPROVAL then jr_pending_hitl r else None)\<rparr>"

definition store_view :: "job_record dict \<Rightarrow> job_record dict" where
  "store_view s = map (\<lambda>(k, r). (k, job_view r)) s"

definition tenants_named :: "job_record dict \<Rightarrow> bool" where
  "tenants_named s = (\<forall>(k, r) \<in> set s. jr_tenant_id r \<noteq> [])"

subsection \<open>The port\<close>

fun job_of :: "store_op \<Rightarrow> string" where
  "job_of (Op_pending jid persona corr tenant event) = jid"
| "job_of (Op_running jid sid persona corr tenant event) = jid"
| "job_of (Op_pause p preview) = ha_job_id p"
| "job_of (Op_mark_running jid) = jid"
| "job_of (Op_mark_completed jid) = jid"
| "job_of (Op_mark_failed jid) = jid"

text \<open>What the human-approval code relies on: an operation changes the record of its job only, and a
  pause keeps the action and its preview.\<close>

locale job_port =
  fixes get :: "'s \<Rightarrow> string \<Rightarrow> job_record option"
    and act :: "store_op \<Rightarrow> 's \<Rightarrow> 's"
  assumes act_other: "job_of op \<noteq> jid \<Longrightarrow> get (act op s) jid = get s jid"
    and act_pause: "\<exists>r. get (act (Op_pause p preview) s) (ha_job_id p) = Some r \<and> jr_status r = AWAITING_APPROVAL
      \<and> jr_pending_hitl r = Some p \<and> jr_hitl_preview r = preview"
begin

lemma acts_other: "\<forall>op \<in> set ops. job_of op \<noteq> jid \<Longrightarrow> get (fold act ops s) jid = get s jid"
  by (induction ops arbitrary: s) (auto simp: act_other)

lemma pause_kept:
  assumes "\<forall>op \<in> set ops. job_of op \<noteq> ha_job_id p"
  shows "\<exists>r. get (fold act ops (act (Op_pause p preview) s)) (ha_job_id p) = Some r \<and> jr_status r = AWAITING_APPROVAL
    \<and> jr_pending_hitl r = Some p \<and> jr_hitl_preview r = preview"
  using act_pause[of p preview s] acts_other[OF assms] by simp

end

lemmas mem_op_defs = upsert_pending_def upsert_running_def pause_for_hitl_def mark_running_def mark_completed_def mark_failed_def

lemmas pg_op_defs = pg_upsert_pending_def pg_upsert_running_def pg_pause_for_hitl_def pg_mark_running_def
  pg_mark_completed_def pg_mark_failed_def pg_mark_def pg_upsert_def pg_get_def

interpretation mem_jobs: job_port dget store_apply
proof
  fix op jid and s :: job_store
  show "job_of op \<noteq> jid \<Longrightarrow> dget (store_apply op s) jid = dget s jid"
    by (cases op) (auto simp: mem_op_defs Let_def split: option.splits)
qed (simp add: mem_op_defs JobRecord_def Let_def)

interpretation pg_jobs: job_port pg_get pg_apply
proof
  fix op jid and s :: job_table
  show "job_of op \<noteq> jid \<Longrightarrow> pg_get (pg_apply op s) jid = pg_get s jid"
    by (cases op) (auto simp: pg_op_defs Let_def split: option.splits)
qed (simp add: pg_op_defs row_to_record_def Let_def)

subsection \<open>The Postgres store refines the in-memory one\<close>

lemma store_view_update: "store_view (AList.update k r s) = AList.update k (job_view r) (store_view s)"
  by (induction s) (auto simp: store_view_def)

lemma get_store_view: "dget (store_view s) k = map_option job_view (dget s k)"
  by (induction s) (auto simp: store_view_def)

lemma tenants_named_get: "tenants_named t \<Longrightarrow> pg_get t jid = dget t jid"
  by (cases "dget t jid") (auto simp: pg_get_def row_to_record_def str_or_def tenants_named_def dest!: map_of_SomeD)

lemma tenants_named_update:
  "tenants_named s \<Longrightarrow> jr_tenant_id r \<noteq> [] \<Longrightarrow> tenants_named (AList.update k r s)"
  using set_update_subset[of k r s] by (fastforce simp: tenants_named_def)

lemma tenants_named_tenant: "tenants_named s \<Longrightarrow> dget s k = Some r \<Longrightarrow> jr_tenant_id r \<noteq> []"
  by (auto simp: tenants_named_def dest!: map_of_SomeD)

lemma pg_apply_named: "op_named op \<Longrightarrow> tenants_named t \<Longrightarrow> tenants_named (pg_apply op t)"
  by (cases op) (auto simp: pg_op_defs row_to_record_def str_or_def Let_def intro!: tenants_named_update
      dest: tenants_named_tenant split: option.splits)

text \<open>Records with the same view have the same fields outside preview and pending action.\<close>

lemma job_view_iff:
  "job_view a = job_view b \<longleftrightarrow> jr_job_id a = jr_job_id b \<and> jr_session_id a = jr_session_id b \<and> jr_persona a = jr_persona b
     \<and> jr_status a = jr_status b \<and> jr_correlation_id a = jr_correlation_id b \<and> jr_tenant_id a = jr_tenant_id b
     \<and> jr_event_id a = jr_event_id b \<and> (jr_status a = AWAITING_APPROVAL \<longrightarrow> jr_pending_hitl a = jr_pending_hitl b)"
  by (cases a; cases b) (auto simp: job_view_def)

lemma same_view_get:
  assumes "store_view t = store_view s"
  obtains "dget t k = None" "dget s k = None"
  | a b where "dget t k = Some a" "dget s k = Some b" "job_view a = job_view b"
  using get_store_view[of t k] get_store_view[of s k] assms by (cases "dget t k"; cases "dget s k") auto

lemma apply_same_view:
  assumes view: "store_view t = store_view s" and "tenants_named t" "op_named op"
    and wf: "store_wf s"
  shows "store_view (pg_apply op t) = store_view (store_apply op s)"
proof -
  note get = tenants_named_get[OF assms(2)]
  have ids': "jr_job_id r = k" if "dget s k = Some r" for k r using store_wf_get[OF wf, of k r] that by (simp add: record_wf_def)
  have upd: "store_view (AList.update k x t) = store_view (AList.update k y s)" if "job_view x = job_view y" for k x y
    using that view by (simp add: store_view_update)
  show ?thesis
  proof (cases rule: same_view_get[OF view, of "job_of op"])
    case 1
    then show ?thesis using assms(3) view
      by (cases op) (auto simp: mem_op_defs pg_op_defs JobRecord_def Let_def str_or_def job_view_iff intro!: upd)
  next
    case (2 a b)
    from ids'[OF 2(2)] have "jr_job_id b = job_of op" by simp
    moreover have "pg_get t (job_of op) = Some a" using get 2(1) by simp
    moreover have "jr_tenant_id a \<noteq> []" using tenants_named_tenant[OF assms(2) 2(1)] .
    ultimately show ?thesis using assms(3) 2
      by (cases op) (auto simp: mem_op_defs pg_upsert_pending_def pg_upsert_running_def pg_pause_for_hitl_def
        pg_mark_running_def pg_mark_completed_def pg_mark_failed_def pg_mark_def pg_upsert_def JobRecord_def Let_def
        str_or_def job_view_iff intro!: upd)
  qed
qed

lemma runs_same_view:
  assumes "list_all op_named ops" "store_view t = store_view s" "tenants_named t" "store_wf s"
  shows "store_view (fold pg_apply ops t) = store_view (fold store_apply ops s) \<and> tenants_named (fold pg_apply ops t)"
  using assms
proof (induction ops arbitrary: t s)
  case (Cons op ops)
  show ?case
    using Cons.IH[of "pg_apply op t" "store_apply op s"] Cons.prems apply_same_view[of t s op] pg_apply_named[of op t] store_wf_apply[of s op] by simp
qed simp

lemma map_filter_view: "List.map_filter f s = List.map_filter f (store_view s)"
  if "\<And>k r. f (k, job_view r) = f (k, r)" for f
  by (induction s) (auto simp: store_view_def List.map_filter_simps that split: option.splits)

lemma pending_of_view: "list_pending_approvals s = list_pending_approvals (store_view s)"
  unfolding list_pending_approvals_def by (rule map_filter_view) (simp add: job_view_def)

lemma by_investigation_of_view: "list_by_investigation tenant iid s = list_by_investigation tenant iid (store_view s)"
  unfolding list_by_investigation_def by (rule arg_cong[where f = "sort_key jr_job_id"], induction s)
    (auto simp: store_view_def job_view_def)

lemma pg_by_investigation:
  assumes "tenants_named t"
  shows "sort_key jr_job_id (pg_list_by_investigation tenant iid t) = list_by_investigation tenant iid t"
proof -
  have "row_to_record r = r" if "r \<in> snd ` set t" for r
    using that assms by (fastforce simp: row_to_record_def str_or_def tenants_named_def)
  then show ?thesis
    unfolding pg_list_by_investigation_def list_by_investigation_def
    by (intro arg_cong[where f = "sort_key jr_job_id"] map_cong[OF refl]) auto
qed

text \<open>C18: For every sequence of operations in which enqueueing names its tenant, correlation and event, the
  Postgres store shows the same jobs as the in-memory one, in everything but previews and the pending action of
  jobs that await no approval: the same approvals are pending, and an investigation has the same jobs, which
  Postgres lists by creation and the in-memory store by id.\<close>

theorem pg_store_refines_memory:
  assumes "list_all op_named ops"
  shows "store_view (fold pg_apply ops []) = store_view (fold store_apply ops [])
    \<and> mset (pg_list_pending_approvals (fold pg_apply ops [])) = mset (list_pending_approvals (fold store_apply ops []))
    \<and> sort_key jr_job_id (pg_list_by_investigation tenant iid (fold pg_apply ops []))
      = list_by_investigation tenant iid (fold store_apply ops [])"
proof -
  have v: "store_view (fold pg_apply ops []) = store_view (fold store_apply ops [])" "tenants_named (fold pg_apply ops [])"
    using runs_same_view[OF assms, of "[]" "[]"] by (simp_all add: tenants_named_def store_wf_def)
  have "pg_list_pending_approvals t = list_pending_approvals t" for t
    by (simp add: pg_list_pending_approvals_def list_pending_approvals_def)
  then show ?thesis
    using v pending_of_view[of "fold pg_apply ops []"] pending_of_view[of "fold store_apply ops []"]
      by_investigation_of_view[of tenant iid "fold pg_apply ops []"] by_investigation_of_view[of tenant iid "fold store_apply ops []"]
      pg_by_investigation[OF v(2)] by simp
qed

theorem pg_store_refines_memory_witness:
  "set_mset (mset (pg_list_pending_approvals
     (fold pg_apply [Op_pending ''j1'' ''soc'' ''i1'' ''default'' ''e1'', Op_pause demo_action []] []))) = {demo_action}"
proof -
  let ?ops = "[Op_pending ''j1'' ''soc'' ''i1'' ''default'' ''e1'', Op_pause demo_action []]"
  have "list_pending_approvals (fold store_apply ?ops []) = [demo_action]" by code_simp
  with pg_store_refines_memory[of ?ops] show ?thesis by simp
qed

text \<open>In the Postgres store a paused job keeps the action an approval is for, with its preview, whatever is done
  to other jobs.\<close>

theorem pg_pause_kept:
  assumes "\<forall>op \<in> set ops. job_of op \<noteq> ha_job_id p"
  shows "\<exists>r. pg_get (fold pg_apply ops (pg_pause_for_hitl p preview t)) (ha_job_id p) = Some r
    \<and> jr_status r = AWAITING_APPROVAL \<and> jr_pending_hitl r = Some p \<and> jr_hitl_preview r = preview"
  using pg_jobs.pause_kept[OF assms] by simp

theorem pg_pause_kept_witness:
  "\<exists>r. pg_get (fold pg_apply [Op_mark_completed ''j2''] (pg_pause_for_hitl demo_action [] [])) ''j1'' = Some r
    \<and> jr_pending_hitl r = Some demo_action"
  using pg_pause_kept[of "[Op_mark_completed ''j2'']" demo_action "[]" "[]"] by (auto simp: demo_action_def)

end
