(* ===== verification/Transport.thy ===== *)
theory Transport
  imports Models
begin

text \<open>The transports between agents: InMemoryBusTransport and RedisBusTransport of
  cys_core/infrastructure/bus_transport.py and KafkaBusTransport of kafka_bus.py. A handler changes the
  world it runs in and may raise; awaiting what it returns is part of running it. Redis and Kafka are the
  messages written to them and the outcome of the client's calls. Messages travel as JSON, which a dict of
  JSON values survives.\<close>

subsection \<open>In memory\<close>

type_synonym 'w bus_handler = "payload \<Rightarrow> 'w \<Rightarrow> 'w \<times> exc option"

record 'w mem_transport =
  mt_handlers :: "'w bus_handler list dict"
  mt_messages :: "payload list"

definition InMemoryBusTransport :: "'w mem_transport" where
  "InMemoryBusTransport = \<lparr>mt_handlers = [], mt_messages = []\<rparr>"

definition mem_send :: "payload \<Rightarrow> 'w mem_transport \<Rightarrow> 'w mem_transport" where
  "mem_send message T = T\<lparr>mt_messages := mt_messages T @ [message]\<rparr>"

text \<open>defaultdict(list)\<close>

definition add_handler :: "string \<Rightarrow> 'w bus_handler \<Rightarrow> 'w bus_handler list dict \<Rightarrow> 'w bus_handler list dict" where
  "add_handler channel h hs = dput channel (get_or hs channel [] @ [h]) hs"

definition mem_subscribe :: "string \<Rightarrow> 'w bus_handler \<Rightarrow> 'w mem_transport \<Rightarrow> 'w mem_transport" where
  "mem_subscribe channel h T = T\<lparr>mt_handlers := add_handler channel h (mt_handlers T)\<rparr>"

text \<open>The first handler that raises ends the loop.\<close>

fun run_handlers :: "'w bus_handler list \<Rightarrow> payload \<Rightarrow> 'w \<Rightarrow> 'w \<times> exc option" where
  "run_handlers [] m w = (w, None)"
| "run_handlers (h # hs) m w = (case h m w of
     (w1, Some e) \<Rightarrow> (w1, Some e)
   | (w1, None) \<Rightarrow> run_handlers hs m w1)"

definition mem_publish :: "string \<Rightarrow> payload \<Rightarrow> 'w mem_transport \<Rightarrow> 'w \<Rightarrow> 'w \<times> exc option" where
  "mem_publish channel m T w = run_handlers (get_or (mt_handlers T) channel []) m w"

subsection \<open>Redis\<close>

text \<open>rt_up says that the client connected when the transport was built; rt_wire is what was published on
  the server; rt_wanted are the channels of the subscriber thread, once it is started.\<close>

record 'w redis_transport =
  rt_fallback :: "'w mem_transport"
  rt_handlers :: "'w bus_handler list dict"
  rt_up :: bool
  rt_wire :: "(string \<times> payload) list"
  rt_wanted :: "string list option"

definition RedisBusTransport :: "bool \<Rightarrow> 'w redis_transport" where
  "RedisBusTransport up = \<lparr>rt_fallback = InMemoryBusTransport, rt_handlers = [], rt_up = up, rt_wire = [],
     rt_wanted = None\<rparr>"

definition CHANNEL_PREFIX :: string where
  "CHANNEL_PREFIX = ''cys:bus:''"

definition redis_channel :: "string \<Rightarrow> string" where
  "redis_channel name = CHANNEL_PREFIX @ name"

text \<open>The client's publish: it raises what the connection raises.\<close>

definition wire_publish ::
  "exc option \<Rightarrow> string \<Rightarrow> payload \<Rightarrow> 'w redis_transport \<Rightarrow> 'w redis_transport \<times> exc option" where
  "wire_publish link channel m T = (case link of
     Some e \<Rightarrow> (T, Some e)
   | None \<Rightarrow> (T\<lparr>rt_wire := rt_wire T @ [(redis_channel channel, m)]\<rparr>, None))"

definition redis_send ::
  "(pyval \<Rightarrow> string) \<Rightarrow> exc option \<Rightarrow> payload \<Rightarrow> 'w redis_transport \<Rightarrow> 'w redis_transport \<times> exc option" where
  "redis_send str link message T = (
     if \<not> rt_up T then (T\<lparr>rt_fallback := mem_send message (rt_fallback T)\<rparr>, None)
     else wire_publish link (str (get_or message ''recipient'' (PStr ''broadcast''))) message T)"

definition redis_subscribe :: "string \<Rightarrow> 'w bus_handler \<Rightarrow> 'w redis_transport \<Rightarrow> 'w redis_transport" where
  "redis_subscribe channel h T = T\<lparr>rt_handlers := add_handler channel h (rt_handlers T),
     rt_fallback := (if rt_up T then mem_subscribe channel h (rt_fallback T) else rt_fallback T)\<rparr>"

definition redis_publish ::
  "exc option \<Rightarrow> string \<Rightarrow> payload \<Rightarrow> 'w redis_transport \<Rightarrow> 'w \<Rightarrow> 'w redis_transport \<times> 'w \<times> exc option" where
  "redis_publish link channel m T w = (
     case (if rt_up T then wire_publish link channel m T else (T, None)) of
       (T1, Some e) \<Rightarrow> (T1, w, Some e)
     | (T1, None) \<Rightarrow> (T1, mem_publish channel m (rt_fallback T1) w))"

definition dispatch_message :: "string \<Rightarrow> payload \<Rightarrow> 'w redis_transport \<Rightarrow> 'w \<Rightarrow> 'w \<times> exc option" where
  "dispatch_message channel m T w = run_handlers (get_or (rt_handlers T) channel []) m w"

definition start_subscriber_loop :: "string list option \<Rightarrow> 'w redis_transport \<Rightarrow> 'w redis_transport" where
  "start_subscriber_loop channels T = (
     if \<not> rt_up T \<or> rt_wanted T \<noteq> None then T
     else (let wanted = (case channels of Some (c # cs) \<Rightarrow> c # cs | _ \<Rightarrow> map fst (rt_handlers T))
           in if wanted = [] then T else T\<lparr>rt_wanted := Some wanted\<rparr>))"

text \<open>The thread: messages that arrive on a subscribed channel are dispatched; what a handler raises ends it.\<close>

fun listen :: "(string \<times> payload) list \<Rightarrow> 'w redis_transport \<Rightarrow> 'w \<Rightarrow> 'w \<times> exc option" where
  "listen [] T w = (w, None)"
| "listen ((raw, m) # ms) T w = (
     if rt_wanted T = None \<or> raw \<notin> redis_channel ` set (the (rt_wanted T)) then listen ms T w
     else (case dispatch_message (drop (length CHANNEL_PREFIX) raw) m T w of
        (w1, Some e) \<Rightarrow> (w1, Some e)
      | (w1, None) \<Rightarrow> listen ms T w1))"

subsection \<open>Kafka\<close>

record 'w kafka_transport =
  kt_fallback :: "'w mem_transport"
  kt_handlers :: "'w bus_handler list dict"
  kt_producer :: bool
  kt_connected :: bool
  kt_log :: "payload list"

definition KafkaBusTransport :: "'w kafka_transport" where
  "KafkaBusTransport = \<lparr>kt_fallback = InMemoryBusTransport, kt_handlers = [], kt_producer = False,
     kt_connected = False, kt_log = []\<rparr>"

definition BUS_FINDINGS_TOPIC :: string where
  "BUS_FINDINGS_TOPIC = ''bus.findings''"

text \<open>starts says whether a producer can be started now.\<close>

definition ensure_producer :: "bool \<Rightarrow> 'w kafka_transport \<Rightarrow> 'w kafka_transport \<times> bool" where
  "ensure_producer starts T = (
     if kt_producer T then (T, kt_connected T)
     else if starts then (T\<lparr>kt_producer := True, kt_connected := True\<rparr>, True)
     else (T\<lparr>kt_connected := False\<rparr>, False))"

definition kafka_subscribe :: "string \<Rightarrow> 'w bus_handler \<Rightarrow> 'w kafka_transport \<Rightarrow> 'w kafka_transport" where
  "kafka_subscribe channel h T = T\<lparr>kt_handlers := add_handler channel h (kt_handlers T),
     kt_fallback := mem_subscribe channel h (kt_fallback T)\<rparr>"

definition kafka_publish ::
  "bool \<Rightarrow> exc option \<Rightarrow> string \<Rightarrow> payload \<Rightarrow> 'w kafka_transport \<Rightarrow> 'w \<Rightarrow> 'w kafka_transport \<times> 'w \<times> exc option" where
  "kafka_publish starts link channel m T w = (let enriched = dput ''channel'' (PStr channel) m in
     case ensure_producer starts T of
       (T1, False) \<Rightarrow> (T1, mem_publish channel enriched (kt_fallback T1) w)
     | (T1, True) \<Rightarrow> (case link of
         Some e \<Rightarrow> (T1, w, Some e)
       | None \<Rightarrow> (T1\<lparr>kt_log := kt_log T1 @ [enriched]\<rparr>, mem_publish channel enriched (kt_fallback T1) w)))"

text \<open>send publishes on the topic's own name; asyncio.run refuses to run inside a running loop.\<close>

definition kafka_send_async ::
  "bool \<Rightarrow> exc option \<Rightarrow> payload \<Rightarrow> 'w kafka_transport \<Rightarrow> 'w \<Rightarrow> 'w kafka_transport \<times> 'w \<times> exc option" where
  "kafka_send_async starts link m T w = kafka_publish starts link BUS_FINDINGS_TOPIC m T w"

definition kafka_send ::
  "bool \<Rightarrow> bool \<Rightarrow> exc option \<Rightarrow> payload \<Rightarrow> 'w kafka_transport \<Rightarrow> 'w \<Rightarrow> 'w kafka_transport \<times> 'w \<times> exc option" where
  "kafka_send in_loop starts link m T w = (
     if in_loop then (T, w, Some (PyExc ''RuntimeError'')) else kafka_send_async starts link m T w)"

subsection \<open>What a transport promises\<close>

text \<open>The handlers a list of subscriptions puts on a channel.\<close>

definition handlers_on :: "string \<Rightarrow> (string \<times> 'w bus_handler) list \<Rightarrow> 'w bus_handler list" where
  "handlers_on c subs = map snd (filter (\<lambda>p. fst p = c) subs)"

text \<open>A handler subscribed to a channel runs after those subscribed before it, on what the transport makes of
  the message, and on no other channel.\<close>

locale bus_port =
  fixes subscribe :: "string \<Rightarrow> 'w bus_handler \<Rightarrow> 't \<Rightarrow> 't"
    and publish :: "string \<Rightarrow> payload \<Rightarrow> 't \<Rightarrow> 'w \<Rightarrow> 'w \<times> exc option"
    and envelope :: "string \<Rightarrow> payload \<Rightarrow> payload"
    and ok :: "'t \<Rightarrow> bool"
    and init :: 't
  assumes ok_init: "ok init"
    and ok_subscribe: "ok T \<Longrightarrow> ok (subscribe c h T)"
    and publish_init: "publish c m init w = (w, None)"
    and publish_subscribe: "ok T \<Longrightarrow> publish d m (subscribe c h T) w = (case publish d m T w of
       (w1, Some e) \<Rightarrow> (w1, Some e)
     | (w1, None) \<Rightarrow> if d = c then h (envelope d m) w1 else (w1, None))"
begin

definition subscribed :: "(string \<times> 'w bus_handler) list \<Rightarrow> 't" where
  "subscribed subs = fold (\<lambda>(c, h). subscribe c h) subs init"

lemma subscribed_ok: "ok (subscribed subs)"
proof -
  have "ok T \<Longrightarrow> ok (fold (\<lambda>(c, h). subscribe c h) subs T)" for T
    by (induction subs arbitrary: T) (auto simp: ok_subscribe)
  then show ?thesis by (simp add: subscribed_def ok_init)
qed

lemma run_handlers_append: "run_handlers (hs @ ks) m w = (case run_handlers hs m w of
    (w1, Some e) \<Rightarrow> (w1, Some e) | (w1, None) \<Rightarrow> run_handlers ks m w1)"
  by (induction hs arbitrary: w) (auto split: prod.splits option.splits)

lemma publish_subscribed:
  "publish d m (subscribed subs) w = run_handlers (handlers_on d subs) (envelope d m) w"
proof (induction subs arbitrary: w rule: rev_induct)
  case Nil
  then show ?case by (simp add: subscribed_def publish_init handlers_on_def)
next
  case (snoc p subs)
  obtain c h where p: "p = (c, h)" by (cases p)
  have s: "subscribed (subs @ [p]) = subscribe c h (subscribed subs)" by (simp add: subscribed_def p)
  show ?case
    unfolding s publish_subscribe[OF subscribed_ok] snoc.IH
    by (auto simp: p handlers_on_def run_handlers_append split: prod.splits option.splits)
qed

end

lemma get_add_handler: "get_or (add_handler c h hs) d [] = get_or hs d [] @ (if d = c then [h] else [])"
  by (simp add: add_handler_def get_or_def)

lemma run_handlers_snoc: "run_handlers (hs @ (if b then [h] else [])) m w = (case run_handlers hs m w of
    (w1, Some e) \<Rightarrow> (w1, Some e) | (w1, None) \<Rightarrow> if b then h m w1 else (w1, None))"
  by (induction hs arbitrary: w) (auto split: prod.splits option.splits)

interpretation mem_bus: bus_port mem_subscribe mem_publish "\<lambda>c m. m" "\<lambda>T. True" InMemoryBusTransport
  by unfold_locales
    (simp_all add: mem_subscribe_def mem_publish_def InMemoryBusTransport_def get_add_handler run_handlers_snoc get_or_def[of "[]"])

interpretation redis_bus: bus_port redis_subscribe "\<lambda>c m T w. snd (redis_publish None c m T w)" "\<lambda>c m. m" rt_up
  "RedisBusTransport True"
  by unfold_locales
    (simp_all add: redis_subscribe_def redis_publish_def RedisBusTransport_def wire_publish_def mem_bus.publish_subscribe
      mem_bus.publish_init)

interpretation kafka_bus: bus_port kafka_subscribe "\<lambda>c m T w. snd (kafka_publish starts None c m T w)"
  "\<lambda>c m. dput ''channel'' (PStr c) m" "\<lambda>T. True" KafkaBusTransport for starts
  by unfold_locales
    (auto simp: kafka_subscribe_def kafka_publish_def KafkaBusTransport_def ensure_producer_def mem_bus.publish_subscribe
      mem_bus.publish_init Let_def split: prod.splits bool.splits)

subsection \<open>What the transports do\<close>

text \<open>C34: After the same subscriptions, the in-memory transport, the Redis one with a working connection and
  the Kafka one with or without a producer run the same handlers in the order they were subscribed, up to the first
  that raises; the Kafka handlers get the message with its channel.\<close>

theorem transports_run_handlers:
  "mem_publish c m (fold (\<lambda>(c, h). mem_subscribe c h) subs InMemoryBusTransport) w = run_handlers (handlers_on c subs) m w
    \<and> snd (redis_publish None c m (fold (\<lambda>(c, h). redis_subscribe c h) subs (RedisBusTransport True)) w) = run_handlers (handlers_on c subs) m w
    \<and> snd (kafka_publish starts None c m (fold (\<lambda>(c, h). kafka_subscribe c h) subs KafkaBusTransport) w)
      = run_handlers (handlers_on c subs) (dput ''channel'' (PStr c) m) w"
  using mem_bus.publish_subscribed[of c m subs w] redis_bus.publish_subscribed[of c m subs w]
    kafka_bus.publish_subscribed[of starts c m subs w]
  by (simp add: mem_bus.subscribed_def redis_bus.subscribed_def kafka_bus.subscribed_def)

lemma subscriptions_keep:
  assumes "P T" and "\<And>T c h. P T \<Longrightarrow> P (redis_subscribe c h T)"
  shows "P (fold (\<lambda>(c, h). redis_subscribe c h) subs T)"
proof -
  have "P T \<Longrightarrow> P (fold (\<lambda>(c, h). redis_subscribe c h) subs T)" for T
    by (induction subs arbitrary: T) (simp_all add: assms(2) split_beta)
  with assms(1) show ?thesis by simp
qed

text \<open>A Redis transport built while Redis was unreachable hands no published message to any handler: its
  subscriptions reach the fallback only when Redis is up.\<close>

theorem redis_down_publish_lost:
  "redis_publish link c m (fold (\<lambda>(c, h). redis_subscribe c h) subs (RedisBusTransport False)) w
    = (fold (\<lambda>(c, h). redis_subscribe c h) subs (RedisBusTransport False), w, None)"
proof -
  let ?S = "fold (\<lambda>(c, h). redis_subscribe c h) subs (RedisBusTransport False)"
  have "\<not> rt_up ?S \<and> mt_handlers (rt_fallback ?S) = []"
    by (rule subscriptions_keep[where P = "\<lambda>T. \<not> rt_up T \<and> mt_handlers (rt_fallback T) = []"])
      (simp_all add: redis_subscribe_def RedisBusTransport_def InMemoryBusTransport_def)
  then show ?thesis by (simp add: redis_publish_def mem_publish_def get_or_def)
qed

text \<open>A process with subscriptions and the subscriber thread.\<close>

definition redis_node :: "string list \<Rightarrow> (string \<times> 'w bus_handler) list \<Rightarrow> 'w redis_transport" where
  "redis_node cs subs = start_subscriber_loop (Some cs) (fold (\<lambda>(c, h). redis_subscribe c h) subs (RedisBusTransport True))"

text \<open>In a process that also runs the subscriber thread a published message is handled twice: by publish
  itself, and again by the thread when Redis delivers it, with the same handlers on the same message.\<close>

theorem redis_handles_twice:
  assumes "c \<in> set cs" and "redis_publish None c m (redis_node cs subs) w = (T1, w1, None)"
  shows "run_handlers (handlers_on c subs) m w = (w1, None)
    \<and> rt_wire T1 = rt_wire (redis_node cs subs) @ [(redis_channel c, m)]
    \<and> listen [(redis_channel c, m)] T1 w1 = run_handlers (handlers_on c subs) m w1"
proof -
  let ?S = "fold (\<lambda>(c, h). redis_subscribe c h) subs (RedisBusTransport True)"
  let ?hs = "handlers_on c subs"
  have S: "rt_up ?S \<and> rt_wanted ?S = None \<and> rt_handlers ?S = mt_handlers (rt_fallback ?S)"
    by (rule subscriptions_keep[where P = "\<lambda>T. rt_up T \<and> rt_wanted T = None \<and> rt_handlers T = mt_handlers (rt_fallback T)"])
      (simp_all add: redis_subscribe_def mem_subscribe_def RedisBusTransport_def InMemoryBusTransport_def)
  then have up: "rt_handlers ?S = mt_handlers (rt_fallback ?S)" "rt_up ?S" by simp_all
  have T0: "redis_node cs subs = ?S\<lparr>rt_wanted := Some cs\<rparr>"
    using assms(1) S by (cases cs) (simp_all add: redis_node_def start_subscriber_loop_def)
  have local: "mem_publish c m' (rt_fallback ?S) v = run_handlers ?hs m' v" for m' v
    using redis_bus.publish_subscribed[of c m' subs v] up(2)
    by (simp add: redis_bus.subscribed_def redis_publish_def wire_publish_def)
  have T1: "T1 = (redis_node cs subs)\<lparr>rt_wire := rt_wire (redis_node cs subs) @ [(redis_channel c, m)]\<rparr>" "mem_publish c m (rt_fallback ?S) w = (w1, None)"
    using assms(2) up(2) by (simp_all add: T0 redis_publish_def wire_publish_def)
  have "listen [(redis_channel c, m)] T1 w1 = run_handlers ?hs m w1"
    using assms(1) local[of m w1] up(1) unfolding T1(1) T0
    by (simp add: dispatch_message_def mem_publish_def redis_channel_def split: prod.splits option.splits)
  then show ?thesis using local[of m w] T1 by simp
qed

definition count_handler :: "nat bus_handler" where
  "count_handler m n = (Suc n, None)"

theorem redis_handles_twice_witness:
  "listen [(redis_channel ''critic'', [])]
     (fst (redis_publish None ''critic'' [] (redis_node [''critic''] [(''critic'', count_handler)]) 0)) 1 = (2, None)"
proof -
  let ?T = "redis_node [''critic''] [(''critic'', count_handler)]"
  have "redis_publish None ''critic'' [] ?T 0 = (fst (redis_publish None ''critic'' [] ?T 0), 1, None)"
    by (simp add: redis_publish_def redis_node_def start_subscriber_loop_def redis_subscribe_def RedisBusTransport_def
      wire_publish_def mem_publish_def mem_subscribe_def InMemoryBusTransport_def add_handler_def get_or_def count_handler_def)
  from redis_handles_twice[OF _ this] show ?thesis by (simp add: handlers_on_def count_handler_def numeral_2_eq_2)
qed

end
