(* ===== verification/Daemons.thy ===== *)
theory Daemons
  imports Dispatch Transport
begin

text \<open>The polling daemons: run_poll_daemon of cys_core/infrastructure/daemon_runner.py and what runs in it,
  BusFindingsConsumer of interfaces/control_plane/bus_consumer.py, WorkerDaemon of interfaces/worker/daemon.py
  and RouterConsumer of interfaces/ingress/router_consumer.py. The loop may run forever: its model returns
  None then. A signal is a condition on the world, tested where the loop tests it.\<close>

subsection \<open>run_poll_daemon\<close>

text \<open>idle_sleep is the identity where none is given.\<close>

record 'w poller =
  po_process :: "rat \<Rightarrow> 'w \<Rightarrow> 'w \<times> (exc + bool)"
  po_stop :: "'w \<Rightarrow> bool"
  po_idle_sleep :: "rat \<Rightarrow> 'w \<Rightarrow> 'w"
  po_idle_timeout :: rat
  po_interval :: rat

partial_function (option) poll_loop :: "'w poller \<Rightarrow> int \<Rightarrow> rat \<Rightarrow> 'w \<Rightarrow> ('w \<times> (exc + int)) option" where
  "poll_loop P processed idle w = (
     if po_stop P w then Some (w, Inr processed)
     else (case po_process P (po_interval P) w of
        (w1, Inl e) \<Rightarrow> Some (w1, Inl e)
      | (w1, Inr handled) \<Rightarrow>
          if handled then poll_loop P (processed + 1) 0 w1
          else if po_idle_timeout P > 0 \<and> idle + po_interval P \<ge> po_idle_timeout P then Some (w1, Inr processed)
          else poll_loop P processed (idle + po_interval P) (po_idle_sleep P (po_interval P) w1)))"

definition run_poll_daemon :: "'w poller \<Rightarrow> 'w \<Rightarrow> ('w \<times> (exc + int)) option" where
  "run_poll_daemon P w = poll_loop P 0 0 w"

subsection \<open>Returning and not returning\<close>

text \<open>Work that runs out ends the loop when an idle timeout is set.\<close>

lemma poll_loop_returns:
  fixes m :: "'w \<Rightarrow> nat"
  assumes "po_idle_timeout P > 0" and "po_interval P > 0"
    and work: "\<And>w w1. po_process P (po_interval P) w = (w1, Inr True) \<Longrightarrow> m w1 < m w"
    and idle: "\<And>w w1. po_process P (po_interval P) w = (w1, Inr False) \<Longrightarrow> m (po_idle_sleep P (po_interval P) w1) \<le> m w"
  shows "\<exists>r. poll_loop P n t w = Some r"
proof -
  let ?left = "\<lambda>t. nat \<lceil>(po_idle_timeout P - t) / po_interval P\<rceil>"
  have step: "?left (t + po_interval P) < ?left t" if "t + po_interval P < po_idle_timeout P" for t
  proof -
    have "(po_idle_timeout P - (t + po_interval P)) / po_interval P = (po_idle_timeout P - t) / po_interval P - 1"
      using assms(2) by (simp add: field_simps)
    then have "\<lceil>(po_idle_timeout P - (t + po_interval P)) / po_interval P\<rceil> = \<lceil>(po_idle_timeout P - t) / po_interval P\<rceil> - 1"
      by simp
    moreover have "0 < (po_idle_timeout P - t) / po_interval P" using that assms(2) by simp
    ultimately show ?thesis by simp
  qed
  show ?thesis
  proof (induction "(w, t)" arbitrary: n w t rule: wf_induct_rule[OF wf_measures[of "[\<lambda>(w, t). m w, \<lambda>(w, t). ?left t]"]])
    case (1 w t)
    show ?case
    proof (cases "po_process P (po_interval P) w")
      case (Pair w1 r)
      consider (stop) "po_stop P w" | (err) e where "r = Inl e" | (work) "r = Inr True" | (last) "r = Inr False"
          "t + po_interval P \<ge> po_idle_timeout P"
        | (idle) "r = Inr False" "t + po_interval P < po_idle_timeout P" by (cases r; cases "po_idle_timeout P \<le> t + po_interval P") (auto simp: not_le)
      then show ?thesis
      proof cases
        case work
        then have "\<exists>r. poll_loop P (n + 1) 0 w1 = Some r"
          using 1[of w1 0 "n + 1"] assms(3)[of w w1] Pair by simp
        then show ?thesis using work Pair by (subst poll_loop.simps) simp
      next
        case idle
        let ?w2 = "po_idle_sleep P (po_interval P) w1"
        have "((?w2, t + po_interval P), (w, t)) \<in> measures [\<lambda>(w, t). m w, \<lambda>(w, t). ?left t]"
          using assms(4)[of w w1] Pair idle step[OF idle(2)] by (auto simp: less_le)
        then have "\<exists>r. poll_loop P n (t + po_interval P) ?w2 = Some r" using 1 by simp
        then show ?thesis using idle Pair by (subst poll_loop.simps) (simp add: not_le)
      qed (use Pair assms(1) in \<open>subst poll_loop.simps, simp\<close>)+
    qed
  qed
qed

text \<open>Without an idle timeout only a signal or an exception ends it.\<close>

lemma poll_loop_forever:
  assumes "\<not> po_idle_timeout P > 0" and "J w"
    and keep: "\<And>w. J w \<Longrightarrow> \<not> po_stop P w \<and> (\<exists>w1 b. po_process P (po_interval P) w = (w1, Inr b)
          \<and> J (if b then w1 else po_idle_sleep P (po_interval P) w1))"
  shows "poll_loop P n t w = None"
proof -
  let ?bad = "\<lambda>x r. fst (fst (fst x)) = P \<longrightarrow> \<not> J (snd x)"
  have "?bad (((P, n), t), w) r" if "poll_loop P n t w = Some r" for r
  proof (rule poll_loop.raw_induct[of ?bad, OF _ that])
    fix f Q n t w r
    assume IH: "\<And>Q n t w r. f Q n t w = Some r \<Longrightarrow> ?bad (((Q, n), t), w) r"
      and body: "(if po_stop Q w then Some (w, Inr n)
         else (case po_process Q (po_interval Q) w of (w1, Inl e) \<Rightarrow> Some (w1, Inl e)
          | (w1, Inr handled) \<Rightarrow> if handled then f Q (n + 1) 0 w1
              else if po_idle_timeout Q > 0 \<and> t + po_interval Q \<ge> po_idle_timeout Q then Some (w1, Inr n)
              else f Q n (t + po_interval Q) (po_idle_sleep Q (po_interval Q) w1))) = Some r"
    have "\<not> J w" if Q: "Q = P"
    proof
      assume "J w"
      from keep[OF this] obtain w1 b where s: "\<not> po_stop P w" "po_process P (po_interval P) w = (w1, Inr b)"
        "J (if b then w1 else po_idle_sleep P (po_interval P) w1)" by blast
      show False
      proof (cases b)
        case True
        with body s Q have "f P (n + 1) 0 w1 = Some r" by simp
        from IH[OF this] s(3) True show ?thesis by simp
      next
        case False
        with body s Q assms(1) have "f P n (t + po_interval P) (po_idle_sleep P (po_interval P) w1) = Some r" by simp
        from IH[OF this] s(3) False show ?thesis by simp
      qed
    qed
    then show "?bad (((Q, n), t), w) r" by simp
  qed
  with assms(2) show ?thesis by (cases "poll_loop P n t w") auto
qed

text \<open>What every poll keeps holds when the loop returns.\<close>

lemma poll_loop_keeps:
  assumes "J w" and "\<And>w. J w \<Longrightarrow> J (fst (po_process P (po_interval P) w)) \<and> J (po_idle_sleep P (po_interval P) w)"
    and "poll_loop P n t w = Some (w', r)"
  shows "J w' \<and> (\<forall>e. r = Inl e \<longrightarrow> (\<exists>v. J v \<and> snd (po_process P (po_interval P) v) = Inl e))"
proof -
  let ?raised = "\<lambda>e. \<exists>v. J v \<and> snd (po_process P (po_interval P) v) = Inl e"
  let ?good = "\<lambda>x y. fst (fst (fst x)) = P \<longrightarrow> J (snd x) \<longrightarrow> J (fst y) \<and> (\<forall>e. snd y = Inl e \<longrightarrow> ?raised e)"
  have "?good (((P, n), t), w) (w', r)"
  proof (rule poll_loop.raw_induct[of ?good, OF _ assms(3)])
    fix f Q n t w y
    assume IH: "\<And>Q n t w y. f Q n t w = Some y \<Longrightarrow> ?good (((Q, n), t), w) y"
      and body: "(if po_stop Q w then Some (w, Inr n)
         else (case po_process Q (po_interval Q) w of (w1, Inl e) \<Rightarrow> Some (w1, Inl e)
          | (w1, Inr handled) \<Rightarrow> if handled then f Q (n + 1) 0 w1
              else if po_idle_timeout Q > 0 \<and> t + po_interval Q \<ge> po_idle_timeout Q then Some (w1, Inr n)
              else f Q n (t + po_interval Q) (po_idle_sleep Q (po_interval Q) w1))) = Some y"
    have "J (fst y) \<and> (\<forall>e. snd y = Inl e \<longrightarrow> ?raised e)" if "Q = P" "J w"
    proof (cases "po_process P (po_interval P) w")
      case (Pair w1 s)
      with assms(2)[OF that(2)] have J1: "J w1" by simp
      from assms(2)[OF J1] have J2: "J (po_idle_sleep P (po_interval P) w1)" by simp
      show ?thesis
      proof (cases s)
        case (Inl e)
        with Pair that(2) have "?raised e" by (intro exI[of _ w]) simp
        with body[unfolded that(1)] Pair J1 that(2) Inl show ?thesis by (auto split: if_splits)
      next
        case (Inr b)
        with body[unfolded that(1)] Pair J1 J2 that(2) show ?thesis
          by (auto split: if_splits dest!: IH)
      qed
    qed
    then show "?good (((Q, n), t), w) y" by simp
  qed
  with assms(1) show ?thesis by simp
qed

subsection \<open>The bus consumer\<close>

text \<open>consume takes its timeout and the group id.\<close>

record 'w bus_consumer =
  bc_channel :: string
  bc_handler :: "'w bus_handler"
  bc_group_id :: string
  bc_consume :: "rat \<Rightarrow> string \<Rightarrow> 'w \<Rightarrow> 'w \<times> payload option"
  bc_signal :: "'w \<Rightarrow> bool"

definition BusFindingsConsumer ::
  "string \<Rightarrow> 'w bus_handler \<Rightarrow> string option \<Rightarrow> (rat \<Rightarrow> string \<Rightarrow> 'w \<Rightarrow> 'w \<times> payload option) \<Rightarrow> ('w \<Rightarrow> bool) \<Rightarrow> 'w bus_consumer" where
  "BusFindingsConsumer channel handler grp consume signal = \<lparr>bc_channel = channel, bc_handler = handler,
     bc_group_id = (case grp of Some (c # cs) \<Rightarrow> c # cs | _ \<Rightarrow> ''control-'' @ channel), bc_consume = consume,
     bc_signal = signal\<rparr>"

definition matches_channel :: "string \<Rightarrow> payload \<Rightarrow> bool" where
  "matches_channel channel envelope =
     (dget envelope ''channel'' = Some (PStr channel) \<or> dget envelope ''recipient'' = Some (PStr channel))"

definition consumer_process_one :: "'w bus_consumer \<Rightarrow> rat \<Rightarrow> 'w \<Rightarrow> 'w \<times> (exc + bool)" where
  "consumer_process_one C timeout w = (case bc_consume C timeout (bc_group_id C) w of
     (w1, None) \<Rightarrow> (w1, Inr False)
   | (w1, Some envelope) \<Rightarrow>
       if \<not> matches_channel (bc_channel C) envelope then (w1, Inr False)
       else (case bc_handler C envelope w1 of (w2, Some e) \<Rightarrow> (w2, Inl e) | (w2, None) \<Rightarrow> (w2, Inr True)))"

definition consumer_run :: "'w bus_consumer \<Rightarrow> rat \<Rightarrow> 'w \<Rightarrow> ('w \<times> (exc + int)) option" where
  "consumer_run C idle_timeout w = run_poll_daemon \<lparr>po_process = consumer_process_one C, po_stop = bc_signal C,
     po_idle_sleep = (\<lambda>t w. w), po_idle_timeout = idle_timeout, po_interval = 1\<rparr> w"

subsection \<open>The worker daemon\<close>

text \<open>The orchestrator has a clock reading per poll; signal says before which polls the process has been
  told to stop.\<close>

record worker_daemon =
  wd_worker :: worker_env
  wd_tick :: "nat \<Rightarrow> run_tick"
  wd_signal :: "nat \<Rightarrow> bool"
  wd_max_jobs :: "int option"
  wd_idle_timeout :: rat

record daemon_state =
  ds_processed :: int
  ds_stop :: bool
  ds_polls :: nat
  ds_world :: worker_world

definition worker_process_one :: "worker_daemon \<Rightarrow> rat \<Rightarrow> daemon_state \<Rightarrow> daemon_state \<times> (exc + bool)" where
  "worker_process_one D timeout d = (let d1 = d\<lparr>ds_polls := Suc (ds_polls d)\<rparr> in
     if (case wd_max_jobs D of Some n \<Rightarrow> ds_processed d \<ge> n | None \<Rightarrow> False) then (d1\<lparr>ds_stop := True\<rparr>, Inr False)
     else (case process_next (wd_worker D) (wd_tick D (ds_polls d)) (ds_world d) of
        (w1, None) \<Rightarrow> (d1\<lparr>ds_world := w1\<rparr>, Inr False)
      | (w1, Some r) \<Rightarrow> (d1\<lparr>ds_world := w1, ds_processed := ds_processed d + 1\<rparr>, Inr True)))"

definition worker_poller :: "worker_daemon \<Rightarrow> daemon_state poller" where
  "worker_poller D = \<lparr>po_process = worker_process_one D, po_stop = (\<lambda>d. wd_signal D (ds_polls d)),
     po_idle_sleep = (\<lambda>t d. d), po_idle_timeout = wd_idle_timeout D, po_interval = 1\<rparr>"

definition worker_daemon_run :: "worker_daemon \<Rightarrow> worker_world \<Rightarrow> (daemon_state \<times> (exc + int)) option" where
  "worker_daemon_run D w = (case run_poll_daemon (worker_poller D)
       \<lparr>ds_processed = 0, ds_stop = False, ds_polls = 0, ds_world = w\<rparr> of
     None \<Rightarrow> None
   | Some (d, Inl e) \<Rightarrow> Some (d, Inl e)
   | Some (d, Inr n) \<Rightarrow> Some (d, Inr (ds_processed d)))"

subsection \<open>The router consumer\<close>

record router_consumer =
  rc_dispatch :: dispatch_env
  rc_consume_raw :: "rat \<Rightarrow> worker_world \<Rightarrow> worker_world \<times> security_event option"
  rc_signal :: "worker_world \<Rightarrow> bool"

definition router_process_one :: "router_consumer \<Rightarrow> rat \<Rightarrow> worker_world \<Rightarrow> worker_world \<times> (exc + bool)" where
  "router_process_one R timeout w = (case rc_consume_raw R timeout w of
     (w1, None) \<Rightarrow> (w1, Inr False)
   | (w1, Some ev) \<Rightarrow> (fst (dispatch_async (rc_dispatch R) ev (ev_payload ev) w1), Inr True))"

definition router_run :: "router_consumer \<Rightarrow> rat \<Rightarrow> worker_world \<Rightarrow> (worker_world \<times> (exc + int)) option" where
  "router_run R idle_timeout w = run_poll_daemon \<lparr>po_process = router_process_one R, po_stop = rc_signal R,
     po_idle_sleep = (\<lambda>t w. w), po_idle_timeout = idle_timeout, po_interval = 1\<rparr> w"

subsection \<open>What the daemons do\<close>

lemma process_one_processed:
  "worker_process_one D t d = (d1, r) \<Longrightarrow> r = Inr True \<and> ds_processed d1 = ds_processed d + 1
      \<and> (\<forall>n. wd_max_jobs D = Some n \<longrightarrow> ds_processed d < n)
    \<or> r = Inr False \<and> ds_processed d1 = ds_processed d"
  by (auto simp: worker_process_one_def Let_def not_le split: prod.splits option.splits if_splits)

text \<open>A worker daemon with no idle timeout never returns unless it is told to by a signal, whatever its
  max_jobs: reaching them sets a flag the polling loop does not read.\<close>

theorem worker_daemon_ignores_max_jobs:
  assumes "wd_idle_timeout D \<le> 0" and "\<forall>k. \<not> wd_signal D k"
  shows "worker_daemon_run D w = None"
proof -
  have "poll_loop (worker_poller D) 0 0 \<lparr>ds_processed = 0, ds_stop = False, ds_polls = 0, ds_world = w\<rparr> = None"
  proof (rule poll_loop_forever[where J = "\<lambda>d. True"])
    fix d
    show "\<not> po_stop (worker_poller D) d \<and> (\<exists>w1 b. po_process (worker_poller D) (po_interval (worker_poller D)) d = (w1, Inr b) \<and> True)"
      using assms(2) process_one_processed[of D 1 d] by (cases "worker_process_one D 1 d") (auto simp: worker_poller_def)
  qed (use assms(1) in \<open>simp_all add: worker_poller_def\<close>)
  then show ?thesis by (simp add: worker_daemon_run_def run_poll_daemon_def)
qed

definition demo_daemon :: "rat \<Rightarrow> worker_daemon" where
  "demo_daemon t = \<lparr>wd_worker = demo_worker_env id [], wd_tick = (\<lambda>k. demo_tick), wd_signal = (\<lambda>k. False),
     wd_max_jobs = Some 1, wd_idle_timeout = t\<rparr>"

theorem worker_daemon_ignores_max_jobs_witness:
  "worker_daemon_run (demo_daemon 0) (demo_ww\<lparr>ww_queue := [demo_job ''j1'' ''soc'']\<rparr>) = None"
  by (rule worker_daemon_ignores_max_jobs) (simp_all add: demo_daemon_def)

text \<open>C35: With an idle timeout a worker daemon limited to n jobs returns, having processed at most n, whatever
  its queue holds.\<close>

theorem worker_daemon_limited:
  assumes "wd_idle_timeout D > 0" and "wd_max_jobs D = Some n" and "n \<ge> 0"
  shows "\<exists>d k. worker_daemon_run D w = Some (d, Inr k) \<and> k \<le> n"
proof -
  let ?P = "worker_poller D" and ?d = "\<lparr>ds_processed = 0, ds_stop = False, ds_polls = 0, ds_world = w\<rparr>"
  have one: "po_process ?P (po_interval ?P) = worker_process_one D 1" "po_idle_sleep ?P = (\<lambda>t d. d)"
    by (simp_all add: worker_poller_def)
  have "\<exists>r. poll_loop ?P 0 0 ?d = Some r"
  proof (rule poll_loop_returns[where m = "\<lambda>d. nat (n - ds_processed d)"])
    fix d d1 :: daemon_state
    show "po_process ?P (po_interval ?P) d = (d1, Inr True) \<Longrightarrow> nat (n - ds_processed d1) < nat (n - ds_processed d)"
      using process_one_processed[of D 1 d d1 "Inr True"] assms(2) by (simp add: one)
    show "po_process ?P (po_interval ?P) d = (d1, Inr False) \<Longrightarrow>
        nat (n - ds_processed (po_idle_sleep ?P (po_interval ?P) d1)) \<le> nat (n - ds_processed d)"
      using process_one_processed[of D 1 d d1 "Inr False"] by (simp add: one)
  qed (use assms(1) in \<open>simp_all add: worker_poller_def\<close>)
  then obtain d r where run: "poll_loop ?P 0 0 ?d = Some (d, r)" by auto
  have "ds_processed d \<le> n \<and> (\<forall>e. r = Inl e \<longrightarrow> (\<exists>v. ds_processed v \<le> n \<and> snd (po_process ?P (po_interval ?P) v) = Inl e))"
  proof (rule poll_loop_keeps[OF _ _ run, where J = "\<lambda>d. ds_processed d \<le> n"])
    fix d :: daemon_state assume "ds_processed d \<le> n"
    then show "ds_processed (fst (po_process ?P (po_interval ?P) d)) \<le> n \<and> ds_processed (po_idle_sleep ?P (po_interval ?P) d) \<le> n"
      using process_one_processed[of D 1 d] assms(2) by (cases "worker_process_one D 1 d") (auto simp: one)
  qed (use assms(3) in simp)
  moreover have "snd (worker_process_one D 1 v) \<noteq> Inl e" for v e
    using process_one_processed[of D 1 v] by (cases "worker_process_one D 1 v") auto
  ultimately show ?thesis using run
    by (cases r) (auto simp: worker_daemon_run_def run_poll_daemon_def one)
qed

theorem worker_daemon_limited_witness:
  "\<exists>d k. worker_daemon_run (demo_daemon 2) (demo_ww\<lparr>ww_queue := [demo_job ''j1'' ''soc'', demo_job ''j2'' ''soc'']\<rparr>)
     = Some (d, Inr k) \<and> k \<le> 1"
  by (rule worker_daemon_limited) (simp_all add: demo_daemon_def)

text \<open>A topic whose messages are consumed in order, next to the handlers' world.\<close>

fun topic_consume :: "rat \<Rightarrow> string \<Rightarrow> payload list \<times> 'w \<Rightarrow> (payload list \<times> 'w) \<times> payload option" where
  "topic_consume t g ([], w) = (([], w), None)"
| "topic_consume t g (m # ms, w) = ((ms, w), Some m)"

definition on_world :: "'w bus_handler \<Rightarrow> (payload list \<times> 'w) bus_handler" where
  "on_world h m qw = (case h m (snd qw) of (w1, r) \<Rightarrow> ((fst qw, w1), r))"

definition topic_consumer :: "string \<Rightarrow> 'w bus_handler \<Rightarrow> (payload list \<times> 'w) bus_consumer" where
  "topic_consumer channel h = BusFindingsConsumer channel (on_world h) None topic_consume (\<lambda>w. False)"

lemma topic_poll:
  "consumer_process_one (topic_consumer c h) t ([], w) = (([], w), Inr False)"
  "\<not> matches_channel c m \<Longrightarrow> consumer_process_one (topic_consumer c h) t (m # ms, w) = ((ms, w), Inr False)"
  "matches_channel c m \<Longrightarrow> consumer_process_one (topic_consumer c h) t (m # ms, w) = (case h m w of
      (w1, Some e) \<Rightarrow> ((ms, w1), Inl e) | (w1, None) \<Rightarrow> ((ms, w1), Inr True))"
  by (auto simp: consumer_process_one_def topic_consumer_def BusFindingsConsumer_def on_world_def split: prod.split option.split)

definition topic_poller :: "string \<Rightarrow> 'w bus_handler \<Rightarrow> rat \<Rightarrow> (payload list \<times> 'w) poller" where
  "topic_poller c h T = \<lparr>po_process = consumer_process_one (topic_consumer c h), po_stop = (\<lambda>w. False),
     po_idle_sleep = (\<lambda>t w. w), po_idle_timeout = T, po_interval = 1\<rparr>"

lemma topic_run: "consumer_run (topic_consumer c h) T qw = poll_loop (topic_poller c h T) 0 0 qw"
  by (simp add: consumer_run_def run_poll_daemon_def topic_poller_def topic_consumer_def BusFindingsConsumer_def)

lemma topic_step:
  "poll_loop (topic_poller c h T) n t ([], w) =
     (if T > 0 \<and> t + 1 \<ge> T then Some (([], w), Inr n) else poll_loop (topic_poller c h T) n (t + 1) ([], w))"
  "\<not> matches_channel c m \<Longrightarrow> poll_loop (topic_poller c h T) n t (m # ms, w) =
     (if T > 0 \<and> t + 1 \<ge> T then Some ((ms, w), Inr n) else poll_loop (topic_poller c h T) n (t + 1) (ms, w))"
  "matches_channel c m \<Longrightarrow> poll_loop (topic_poller c h T) n t (m # ms, w) = (case h m w of
     (w1, Some e) \<Rightarrow> Some ((ms, w1), Inl e) | (w1, None) \<Rightarrow> poll_loop (topic_poller c h T) (n + 1) 0 (ms, w1))"
  by (subst poll_loop.simps, simp add: topic_poller_def topic_poll split: prod.split option.split)+

lemma foreign_idle:
  assumes "\<forall>m \<in> set fs. \<not> matches_channel c m" and "t + of_nat (length fs) = T" and "fs \<noteq> []" and "t \<ge> 0"
  shows "poll_loop (topic_poller c h T) k t (fs @ own, w) = Some ((own, w), Inr k)"
  using assms
proof (induction fs arbitrary: t)
  case (Cons m fs)
  show ?case
  proof (cases "fs = []")
    case True
    with Cons.prems show ?thesis by (simp add: topic_step(2))
  next
    case False
    then have "length fs > 0" by simp
    then have lt: "t + 1 < T" using Cons.prems(2) by (simp del: length_greater_0_conv)
    with Cons.IH[of "t + 1"] Cons.prems False show ?thesis by (simp add: topic_step(2) not_le algebra_simps)
  qed
qed simp

text \<open>A bus consumer counts a message for another channel as an idle second: that many foreign messages in a
  row end it, with its own messages unread behind them.\<close>

theorem foreign_findings_idle_out:
  assumes "\<forall>m \<in> set fs. \<not> matches_channel c m" and "fs \<noteq> []"
  shows "consumer_run (topic_consumer c h) (of_nat (length fs)) (fs @ own, w) = Some ((own, w), Inr 0)"
  unfolding topic_run using assms by (intro foreign_idle) simp_all

definition demo_envelope :: "string \<Rightarrow> payload" where
  "demo_envelope channel = [(''channel'', PStr channel)]"

theorem foreign_findings_idle_out_witness:
  "consumer_run (topic_consumer ''critic'' count_handler) 2
     ([demo_envelope ''soc'', demo_envelope ''coordinator'', demo_envelope ''critic''], 0)
   = Some (([demo_envelope ''critic''], 0), Inr 0)"
  using foreign_findings_idle_out[of "[demo_envelope ''soc'', demo_envelope ''coordinator'']" "''critic''"
      count_handler "[demo_envelope ''critic'']" 0] by (simp add: matches_channel_def demo_envelope_def)

text \<open>A handler given messages one after the other, until it raises.\<close>

fun serve :: "'w bus_handler \<Rightarrow> payload list \<Rightarrow> 'w \<Rightarrow> 'w \<times> exc option" where
  "serve h [] w = (w, None)"
| "serve h (m # ms) w = (case h m w of (w1, Some e) \<Rightarrow> (w1, Some e) | (w1, None) \<Rightarrow> serve h ms w1)"

lemma empty_topic: "T > 0 \<Longrightarrow> poll_loop (topic_poller c h T) n t ([], w) = Some (([], w), Inr n)"
proof (induction "nat \<lceil>T - t\<rceil>" arbitrary: t rule: less_induct)
  case less
  show ?case
  proof (cases "t + 1 \<ge> T")
    case False
    then have "nat \<lceil>T - (t + 1)\<rceil> < nat \<lceil>T - t\<rceil>" by (simp add: algebra_simps) linarith
    from less.hyps[OF this less.prems] False show ?thesis by (subst topic_step(1)) simp
  next
    case True
    with less.prems show ?thesis by (subst topic_step(1)) simp
  qed
qed

lemma topic_served:
  assumes "T > 0"
  shows "\<exists>seen rest w' r. ms = seen @ rest \<and> poll_loop (topic_poller c h T) n t (ms, w) = Some ((rest, w'), r)
    \<and> serve h (filter (matches_channel c) seen) w = (w', case r of Inl e \<Rightarrow> Some e | Inr k \<Rightarrow> None)
    \<and> (\<forall>k. r = Inr k \<longrightarrow> k = n + int (length (filter (matches_channel c) seen)))"
    (is "\<exists>seen rest w' r. ?served ms n t w seen rest w' r")
proof (induction ms arbitrary: n t w)
  case Nil
  have "?served [] n t w [] [] w (Inr n)" using empty_topic[OF assms, of c h n t w] by simp
  then show ?case by blast
next
  case (Cons m ms)
  consider (own) w1 where "matches_channel c m" "h m w = (w1, None)" | (raise) w1 e where "matches_channel c m" "h m w = (w1, Some e)"
    | (last) "\<not> matches_channel c m" "t + 1 \<ge> T" | (foreign) "\<not> matches_channel c m" "\<not> t + 1 \<ge> T"
    by (cases "h m w"; cases "snd (h m w)") auto
  then show ?case
  proof cases
    case own
    from Cons.IH[of "n + 1" 0 w1] obtain seen rest w' r where "?served ms (n + 1) 0 w1 seen rest w' r" by blast
    with own have "?served (m # ms) n t w (m # seen) rest w' r" by (clarsimp simp: topic_step(3))
    then show ?thesis by blast
  next
    case raise
    then have "?served (m # ms) n t w [m] ms w1 (Inl e)" by (simp add: topic_step(3))
    then show ?thesis by blast
  next
    case last
    with assms have "?served (m # ms) n t w [m] ms w (Inr n)" by (simp add: topic_step(2))
    then show ?thesis by blast
  next
    case foreign
    from Cons.IH[of n "t + 1" w] obtain seen rest w' r where "?served ms n (t + 1) w seen rest w' r" by blast
    with foreign have "?served (m # ms) n t w (m # seen) rest w' r" by (clarsimp simp: topic_step(2))
    then show ?thesis by blast
  qed
qed

text \<open>A bus consumer with an idle timeout returns on every topic. What its handler was given are the messages for
  its channel in the part it consumed, in order, up to one that raises, and it returns their number.\<close>

theorem consumer_handles_in_order:
  assumes "T > 0"
  shows "\<exists>seen rest w' r. ms = seen @ rest \<and> consumer_run (topic_consumer c h) T (ms, w) = Some ((rest, w'), r)
    \<and> serve h (filter (matches_channel c) seen) w = (w', case r of Inl e \<Rightarrow> Some e | Inr k \<Rightarrow> None)
    \<and> (\<forall>k. r = Inr k \<longrightarrow> k = int (length (filter (matches_channel c) seen)))"
  unfolding topic_run using topic_served[OF assms, of ms c h 0 0 w] by simp

theorem consumer_handles_in_order_witness:
  "\<exists>rest w' r. consumer_run (topic_consumer ''critic'' count_handler) 30 ([demo_envelope ''critic''], 0) = Some ((rest, w'), r)"
  using consumer_handles_in_order[of 30 "[demo_envelope ''critic'']" "''critic''" count_handler 0] by auto

end
