(* ===== verification/Control_Plane.thy ===== *)
theory Control_Plane
  imports Daemons Schemas
begin

text \<open>The control plane: the status feed (interfaces/control_plane/status_store.py and
  postgres_status_store.py) with the stream the API makes of it, the coordinator's narratives
  (narrate_investigation.py, coordinator_service.py) and the critic (process_finding_critic.py,
  critic_service.py, critic_daemon.py). The callbacks of subscribers, JSON and the texts of the narrative are
  parameters.\<close>

subsection \<open>The status feed in memory\<close>

text \<open>A callback goes by its name; sm_notified are the calls made.\<close>

record memory_status =
  sm_events :: "payload list"
  sm_findings :: "payload list"
  sm_critic_feedback :: "payload list"
  sm_narratives :: "string list"
  sm_awaiting_approval :: "payload list"
  sm_escalations :: "payload list"
  sm_subscribers :: "string list"
  sm_notified :: "(string \<times> string \<times> payload) list"

definition MemoryStatusStore :: memory_status where
  "MemoryStatusStore = \<lparr>sm_events = [], sm_findings = [], sm_critic_feedback = [], sm_narratives = [],
     sm_awaiting_approval = [], sm_escalations = [], sm_subscribers = [], sm_notified = []\<rparr>"

definition status_subscribe :: "string \<Rightarrow> memory_status \<Rightarrow> memory_status" where
  "status_subscribe cb s = s\<lparr>sm_subscribers := sm_subscribers s @ [cb]\<rparr>"

definition status_unsubscribe :: "string \<Rightarrow> memory_status \<Rightarrow> memory_status" where
  "status_unsubscribe cb s = s\<lparr>sm_subscribers := remove1 cb (sm_subscribers s)\<rparr>"

text \<open>cb tells what a callback raises; the callbacks after it are not called.\<close>

type_synonym callbacks = "string \<Rightarrow> string \<Rightarrow> payload \<Rightarrow> exc option"

fun call_all :: "callbacks \<Rightarrow> string \<Rightarrow> payload \<Rightarrow> string list \<Rightarrow> (string \<times> string \<times> payload) list \<times> exc option" where
  "call_all cb kind ev [] = ([], None)"
| "call_all cb kind ev (c # cs) = (case cb c kind ev of
     Some e \<Rightarrow> ([(c, kind, ev)], Some e)
   | None \<Rightarrow> (case call_all cb kind ev cs of (calls, r) \<Rightarrow> ((c, kind, ev) # calls, r)))"

definition status_event :: "string \<Rightarrow> payload \<Rightarrow> string \<Rightarrow> payload" where
  "status_event kind p ts = [(''kind'', PStr kind), (''payload'', PDict p), (''ts'', PStr ts)]"

definition status_notify :: "callbacks \<Rightarrow> string \<Rightarrow> string \<Rightarrow> payload \<Rightarrow> memory_status \<Rightarrow> memory_status \<times> exc option" where
  "status_notify cb ts kind p s = (case call_all cb kind (status_event kind p ts) (sm_subscribers s) of
     (calls, r) \<Rightarrow> (s\<lparr>sm_notified := sm_notified s @ calls\<rparr>, r))"

text \<open>The record_ methods.\<close>

datatype status_op =
    Record_event payload
  | Record_finding payload
  | Record_critic payload
  | Record_narrative string
  | Record_awaiting_approval payload
  | Record_escalation payload
  | Record_investigation_update payload

fun op_kind :: "status_op \<Rightarrow> string" where
  "op_kind (Record_event p) = ''event''"
| "op_kind (Record_finding p) = ''finding''"
| "op_kind (Record_critic p) = ''critic''"
| "op_kind (Record_narrative t) = ''narrative''"
| "op_kind (Record_awaiting_approval p) = ''awaiting_approval''"
| "op_kind (Record_escalation p) = ''escalation''"
| "op_kind (Record_investigation_update p) = ''investigation''"

fun op_payload :: "status_op \<Rightarrow> payload" where
  "op_payload (Record_event p) = p"
| "op_payload (Record_finding p) = p"
| "op_payload (Record_critic p) = p"
| "op_payload (Record_narrative t) = [(''text'', PStr t)]"
| "op_payload (Record_awaiting_approval p) = p"
| "op_payload (Record_escalation p) = p"
| "op_payload (Record_investigation_update p) = p"

fun status_append :: "status_op \<Rightarrow> memory_status \<Rightarrow> memory_status" where
  "status_append (Record_event p) s = s\<lparr>sm_events := sm_events s @ [p]\<rparr>"
| "status_append (Record_finding p) s = s\<lparr>sm_findings := sm_findings s @ [p]\<rparr>"
| "status_append (Record_critic p) s = s\<lparr>sm_critic_feedback := sm_critic_feedback s @ [p]\<rparr>"
| "status_append (Record_narrative t) s = s\<lparr>sm_narratives := sm_narratives s @ [t]\<rparr>"
| "status_append (Record_awaiting_approval p) s = s\<lparr>sm_awaiting_approval := sm_awaiting_approval s @ [p]\<rparr>"
| "status_append (Record_escalation p) s = s\<lparr>sm_escalations := sm_escalations s @ [p]\<rparr>"
| "status_append (Record_investigation_update p) s = s"

definition mem_record :: "callbacks \<Rightarrow> string \<Rightarrow> status_op \<Rightarrow> memory_status \<Rightarrow> memory_status \<times> exc option" where
  "mem_record cb ts op s = status_notify cb ts (op_kind op) (op_payload op) (status_append op s)"

record status_snapshot =
  sn_events_count :: int
  sn_findings_count :: int
  sn_latest_narrative :: string
  sn_events :: "payload list"
  sn_findings :: "payload list"
  sn_critic_feedback :: "payload list"
  sn_narratives :: "string list"
  sn_awaiting_approval :: "payload list"
  sn_escalations :: "payload list"

definition mem_snapshot :: "memory_status \<Rightarrow> status_snapshot" where
  "mem_snapshot s = \<lparr>sn_events_count = int (length (sm_events s)), sn_findings_count = int (length (sm_findings s)),
     sn_latest_narrative = (if sm_narratives s \<noteq> [] then last (sm_narratives s) else []),
     sn_events = py_last 20 (sm_events s), sn_findings = py_last 20 (sm_findings s),
     sn_critic_feedback = py_last 20 (sm_critic_feedback s), sn_narratives = py_last 10 (sm_narratives s),
     sn_awaiting_approval = py_last 20 (sm_awaiting_approval s), sn_escalations = py_last 20 (sm_escalations s)\<rparr>"

subsection \<open>The status feed in Postgres\<close>

text \<open>Rows of control_status_records in the order of their ids, the order they were created in.\<close>

type_synonym status_row = "int \<times> string \<times> payload"

definition status_insert :: "string \<Rightarrow> payload \<Rightarrow> status_row list \<Rightarrow> status_row list" where
  "status_insert kind p t = t @ [(int (length t) + 1, kind, p)]"

definition pg_record :: "status_op \<Rightarrow> status_row list \<Rightarrow> status_row list" where
  "pg_record op t = status_insert (op_kind op) (op_payload op) t"

definition fetch_recent :: "string \<Rightarrow> int \<Rightarrow> status_row list \<Rightarrow> payload list" where
  "fetch_recent kind limit t = take (nat limit) (rev (map (snd \<circ> snd) (filter (\<lambda>r. fst (snd r) = kind) t)))"

text \<open>Narratives are written with their text.\<close>

definition narrative_text :: "payload \<Rightarrow> string" where
  "narrative_text p = (case get_or p ''text'' (PStr []) of PStr t \<Rightarrow> t | _ \<Rightarrow> [])"

definition pg_snapshot :: "status_row list \<Rightarrow> status_snapshot" where
  "pg_snapshot t = (
     let events = fetch_recent ''event'' 20 t;
         findings = fetch_recent ''finding'' 20 t;
         narratives = map narrative_text (fetch_recent ''narrative'' 10 t) in
     \<lparr>sn_events_count = int (length events), sn_findings_count = int (length findings),
      sn_latest_narrative = (case narratives of n # ns \<Rightarrow> n | [] \<Rightarrow> []),
      sn_events = events, sn_findings = findings, sn_critic_feedback = fetch_recent ''critic'' 20 t,
      sn_narratives = narratives, sn_awaiting_approval = fetch_recent ''awaiting_approval'' 20 t,
      sn_escalations = fetch_recent ''escalation'' 20 t\<rparr>)"

definition fetch_since :: "int \<Rightarrow> int \<Rightarrow> status_row list \<Rightarrow> status_row list" where
  "fetch_since last_id limit t = take (nat limit) (filter (\<lambda>r. fst r > last_id) t)"

text \<open>The stream of the API: each poll yields the rows after the last id it has seen. Between two polls
  other requests record.\<close>

fun stream_polls :: "int \<Rightarrow> status_op list list \<Rightarrow> status_row list \<Rightarrow> status_row list \<times> status_row list" where
  "stream_polls last_id [] t = ([], t)"
| "stream_polls last_id (ops # batches) t = (
     let t1 = fold pg_record ops t; rows = fetch_since last_id 50 t1;
         next_id = (if rows = [] then last_id else fst (last rows)) in
     (case stream_polls next_id batches t1 of (later, t2) \<Rightarrow> (rows @ later, t2)))"

subsection \<open>Which store\<close>

datatype status_backend = Status_memory | Status_postgres

text \<open>postgres tells what building the Postgres store raises.\<close>

definition create_status_store :: "string \<Rightarrow> bool \<Rightarrow> exc option \<Rightarrow> exc + status_backend" where
  "create_status_store connector use_memory_fallback postgres = (let c = lower connector in
     if c = ''memory'' \<or> use_memory_fallback then Inr Status_memory
     else if c \<in> {''postgres'', ''auto''} then (case postgres of
         None \<Rightarrow> Inr Status_postgres
       | Some e \<Rightarrow> if c = ''postgres'' then Inl e else Inr Status_memory)
     else Inr Status_memory)"

subsection \<open>The two feeds\<close>

text \<open>A Postgres snapshot lists the newest record first and counts what it lists.\<close>

definition newest_first :: "status_snapshot \<Rightarrow> status_snapshot" where
  "newest_first s = s\<lparr>sn_events_count := min 20 (sn_events_count s), sn_findings_count := min 20 (sn_findings_count s),
     sn_events := rev (sn_events s), sn_findings := rev (sn_findings s), sn_critic_feedback := rev (sn_critic_feedback s),
     sn_narratives := rev (sn_narratives s), sn_awaiting_approval := rev (sn_awaiting_approval s),
     sn_escalations := rev (sn_escalations s)\<rparr>"

text \<open>The rows of a table hold what an in-memory store holds.\<close>

definition rows_of :: "string \<Rightarrow> status_row list \<Rightarrow> payload list" where
  "rows_of kind t = map (snd \<circ> snd) (filter (\<lambda>r. fst (snd r) = kind) t)"

definition same_feed :: "memory_status \<Rightarrow> status_row list \<Rightarrow> bool" where
  "same_feed s t = (rows_of ''event'' t = sm_events s \<and> rows_of ''finding'' t = sm_findings s
     \<and> rows_of ''critic'' t = sm_critic_feedback s \<and> map narrative_text (rows_of ''narrative'' t) = sm_narratives s
     \<and> rows_of ''awaiting_approval'' t = sm_awaiting_approval s \<and> rows_of ''escalation'' t = sm_escalations s)"

lemma status_notify_fields [simp]:
  "sm_events (fst (status_notify cb ts k p s)) = sm_events s"
  "sm_findings (fst (status_notify cb ts k p s)) = sm_findings s"
  "sm_critic_feedback (fst (status_notify cb ts k p s)) = sm_critic_feedback s"
  "sm_narratives (fst (status_notify cb ts k p s)) = sm_narratives s"
  "sm_awaiting_approval (fst (status_notify cb ts k p s)) = sm_awaiting_approval s"
  "sm_escalations (fst (status_notify cb ts k p s)) = sm_escalations s"
  by (simp_all add: status_notify_def split: prod.split)

lemma rows_of_insert: "rows_of kind (status_insert k p t) = rows_of kind t @ (if k = kind then [p] else [])"
  by (simp add: rows_of_def status_insert_def)

lemma same_feed_step: "same_feed s t \<Longrightarrow> same_feed (fst (mem_record cb ts op s)) (pg_record op t)"
  by (cases op) (simp_all add: same_feed_def mem_record_def pg_record_def rows_of_insert narrative_text_def get_or_def)

lemma same_feed_run:
  "same_feed s t \<Longrightarrow> same_feed (fold (\<lambda>op s. fst (mem_record cb ts op s)) ops s) (fold pg_record ops t)"
  by (induction ops arbitrary: s t) (simp_all add: same_feed_step)

lemma take_rev_last: "take (nat n) (rev xs) = rev (py_last n xs)" if "n > 0"
  using that by (simp add: py_last_def take_rev)

lemma fetch_recent_rows: "n > 0 \<Longrightarrow> fetch_recent kind n t = rev (py_last n (rows_of kind t))"
  by (simp add: fetch_recent_def rows_of_def take_rev_last)

lemma length_py_last: "n > 0 \<Longrightarrow> int (length (py_last n xs)) = min n (int (length xs))"
  by (auto simp: py_last_def)

lemma last_of_py_last: "n > 0 \<Longrightarrow> (case rev (py_last n xs) of x # ys \<Rightarrow> x | [] \<Rightarrow> d) = (if xs \<noteq> [] then last xs else d)"
proof -
  assume n: "n > 0"
  have "(case rev ys of y # zs \<Rightarrow> y | [] \<Rightarrow> d) = (if ys \<noteq> [] then last ys else d)" for ys
    by (cases ys rule: rev_cases) simp_all
  moreover have "py_last n xs = [] \<longleftrightarrow> xs = []" using n by (cases xs) (auto simp: py_last_def)
  moreover have "xs \<noteq> [] \<Longrightarrow> last (py_last n xs) = last xs" using n by (simp add: py_last_def last_drop)
  ultimately show ?thesis by simp
qed

lemma py_last_map: "py_last n (map f xs) = map f (py_last n xs)"
  by (simp add: py_last_def drop_map)

text \<open>After the same records the Postgres feed shows the snapshot of the in-memory one with every list
  newest first and the two counts stopping at 20, whatever the subscribers of the in-memory one raise.\<close>

theorem status_stores_agree:
  "pg_snapshot (fold pg_record ops []) = newest_first (mem_snapshot (fold (\<lambda>op s. fst (mem_record cb ts op s)) ops MemoryStatusStore))"
proof -
  let ?t = "fold pg_record ops []" and ?s = "fold (\<lambda>op s. fst (mem_record cb ts op s)) ops MemoryStatusStore"
  have "same_feed ?s ?t" by (rule same_feed_run) (simp add: same_feed_def MemoryStatusStore_def rows_of_def)
  then have f: "rows_of ''event'' ?t = sm_events ?s" "rows_of ''finding'' ?t = sm_findings ?s"
      "rows_of ''critic'' ?t = sm_critic_feedback ?s" "rows_of ''awaiting_approval'' ?t = sm_awaiting_approval ?s"
      "rows_of ''escalation'' ?t = sm_escalations ?s"
    and n: "map narrative_text (fetch_recent ''narrative'' 10 ?t) = rev (py_last 10 (sm_narratives ?s))"
    by (simp_all add: same_feed_def fetch_recent_rows rev_map[symmetric] py_last_map[symmetric])
  show ?thesis
    by (simp only: pg_snapshot_def Let_def n) (simp add: newest_first_def mem_snapshot_def fetch_recent_rows f length_py_last last_of_py_last)
qed

text \<open>Ids are positions.\<close>

definition ids_ok :: "status_row list \<Rightarrow> bool" where
  "ids_ok t = (map fst t = map (\<lambda>i. int i + 1) [0..<length t])"

lemma ids_ok_record: "ids_ok t \<Longrightarrow> ids_ok (pg_record op t)"
  by (simp add: ids_ok_def pg_record_def status_insert_def)

lemma records_append: "\<exists>u. fold pg_record ops t = t @ u \<and> length u = length ops"
proof (induction ops arbitrary: t)
  case (Cons op ops)
  from Cons.IH[of "pg_record op t"] show ?case by (auto simp: pg_record_def status_insert_def)
qed simp

lemma ids_ok_records: "ids_ok t \<Longrightarrow> ids_ok (fold pg_record ops t)"
  by (induction ops arbitrary: t) (simp_all add: ids_ok_record)

lemma after_id: "ids_ok t \<Longrightarrow> filter (\<lambda>r. fst r > int k) t = drop k t"
  by (induction t rule: rev_induct) (auto simp: ids_ok_def)

lemma nth_id: "ids_ok t \<Longrightarrow> i < length t \<Longrightarrow> fst (t ! i) = int i + 1"
  by (metis (no_types, lifting) add.left_neutral diff_zero ids_ok_def length_map nth_map nth_map_upt)

lemma fetch_since_drop: "ids_ok t \<Longrightarrow> fetch_since (int k) 50 t = take 50 (drop k t)"
  by (simp add: fetch_since_def after_id)

lemma next_id_drop:
  assumes "ids_ok t" and "k \<le> length t"
  shows "(if take 50 (drop k t) = [] then int k else fst (last (take 50 (drop k t)))) = int (k + length (take 50 (drop k t)))"
proof (cases "k = length t")
  case False
  let ?r = "take 50 (drop k t)"
  have ne: "?r \<noteq> []" using False assms(2) by simp
  then have "last ?r = t ! (k + (length ?r - 1))" using assms(2) by (simp add: last_conv_nth)
  moreover have "k + (length ?r - 1) < length t" using ne assms(2) False by auto
  ultimately have "fst (last ?r) = int (k + (length ?r - 1)) + 1" using nth_id[OF assms(1)] by simp
  moreover have "length ?r > 0" using ne by simp
  ultimately show ?thesis using ne by simp
qed simp

lemma waiting: "min (l1 - (k + min 50 (l1 - k))) (50 * b) \<le> n \<Longrightarrow> l \<le> l1
    \<Longrightarrow> min (l - k) (50 * (b + Suc 0)) \<le> min 50 (l1 - k) + (n :: nat)"
  by (auto simp: min_def split: if_splits)

lemma stream_rows:
  assumes "ids_ok t" and "k \<le> length t" and "stream_polls (int k) batches t = (rows, t2)"
  shows "\<exists>u. t2 = t @ u \<and> rows = take (length rows) (drop k t2) \<and> length rows \<ge> min (length t - k) (50 * length batches)"
  using assms
proof (induction batches arbitrary: k t rows)
  case (Cons ops batches)
  let ?t1 = "fold pg_record ops t"
  let ?r = "take 50 (drop k ?t1)"
  note ok = ids_ok_records[OF Cons.prems(1), of ops]
  obtain u where u: "?t1 = t @ u" using records_append by blast
  have k: "k \<le> length ?t1" using Cons.prems(2) u by simp
  obtain later where s: "stream_polls (int (k + length ?r)) batches ?t1 = (later, t2)" "rows = ?r @ later"
    using Cons.prems(3) unfolding stream_polls.simps Let_def fetch_since_drop[OF ok] next_id_drop[OF ok k]
    by (auto split: prod.splits)
  have k2: "k + length ?r \<le> length ?t1" using k by auto
  from Cons.IH[OF ok k2 s(1)] obtain v where v: "t2 = ?t1 @ v" "later = take (length later) (drop (k + length ?r) t2)"
    "length later \<ge> min (length ?t1 - (k + length ?r)) (50 * length batches)" by blast
  have d: "drop k t2 = drop k ?t1 @ v" using v(1) k by simp
  have r: "?r = take (length ?r) (drop k t2)" unfolding d by (simp add: min_def)
  have "length ?r + length later = length rows" by (simp add: s(2))
  moreover have "rows = take (length ?r + length later) (drop k t2)"
    unfolding take_add drop_drop add.commute[of "length ?r" k] s(2) r[symmetric] v(2)[symmetric] by (rule refl)
  moreover have "length rows \<ge> min (length t - k) (50 * length (ops # batches))"
  proof -
    have "length ?r = min 50 (length ?t1 - k)" "length t \<le> length ?t1" "length rows = length ?r + length later"
      using u s(2) by (simp_all add: min.commute)
    with v(3) show ?thesis using waiting[of "length ?t1"] by (simp only: list.size(4))
  qed
  moreover have "t2 = t @ (u @ v)" using v(1) u by simp
  ultimately show ?case by (intro exI[of _ "u @ v"] conjI) (simp_all only:)
qed simp

definition demo_batches :: "status_op list list" where
  "demo_batches = [ [Record_narrative ''b''] ]"

text \<open>The stream the API makes of the Postgres feed, however many records arrive between its polls, is the
  beginning of the feed: every record once, in the order it was made, and each poll hands out 50 of those waiting.\<close>

theorem status_stream_complete:
  assumes "stream_polls 0 batches (fold pg_record ops []) = (rows, t)"
  shows "t = fold pg_record (ops @ concat batches) [] \<and> rows = take (length rows) t
    \<and> length rows \<ge> min (length ops) (50 * length batches)"
proof -
  have "snd (stream_polls i batches t) = fold pg_record (concat batches) t" for i t
    by (induction batches arbitrary: i t) (simp_all add: Let_def split_beta)
  from this[of 0 "fold pg_record ops []"] assms have "t = fold pg_record (ops @ concat batches) []" by simp
  moreover have "length (fold pg_record ops []) = length ops" using records_append[of ops "[]"] by auto
  moreover have "ids_ok (fold pg_record ops [])" using ids_ok_records[of "[]" ops] by (simp add: ids_ok_def)
  ultimately show ?thesis using stream_rows[of "fold pg_record ops []" 0 batches rows t] assms by auto
qed

theorem status_stream_complete_witness:
  "let r = stream_polls 0 demo_batches (fold pg_record [Record_narrative ''a''] [])
   in fst r = take (length (fst r)) (fold pg_record [Record_narrative ''a'', Record_narrative ''b''] [])"
proof -
  let ?r = "stream_polls 0 demo_batches (fold pg_record [Record_narrative ''a''] [])"
  have "?r = (fst ?r, snd ?r)" by simp
  from status_stream_complete[OF this] have "fst ?r = take (length (fst ?r)) (fold pg_record ([Record_narrative ''a''] @ concat demo_batches) [])"
    by metis
  then show ?thesis unfolding Let_def by (simp only: demo_batches_def concat.simps append.simps)
qed

subsection \<open>The coordinator\<close>

text \<open>What the control plane's handlers work on; cw_runtime is what only the agent runtime changes.\<close>

record 'w control_world =
  cw_status :: memory_status
  cw_inv :: inv_store
  cw_memory :: memory_store
  cw_runtime :: 'w

text \<open>ne_arun takes the persona, the prompt, the session, the tenant and the investigation; ne_text is the Russian
  sentence of the fallback, ne_nobody the word it has for no role.\<close>

record 'w narrator =
  ne_memory :: mem_env
  ne_key :: "string option"
  ne_dumps :: "payload \<Rightarrow> string"
  ne_dump_state :: "inv_state \<Rightarrow> payload"
  ne_arun :: "(string \<Rightarrow> string \<Rightarrow> string \<Rightarrow> string \<Rightarrow> string \<Rightarrow> 'w \<Rightarrow> 'w \<times> (exc + payload)) option"
  ne_persona :: string
  ne_text :: "string \<Rightarrow> string \<Rightarrow> string \<Rightarrow> nat \<Rightarrow> string"
  ne_nobody :: string
  ne_str :: "pyval \<Rightarrow> string"

definition fallback_narrative :: "'w narrator \<Rightarrow> string \<Rightarrow> string \<Rightarrow> inv_state option \<Rightarrow> string" where
  "fallback_narrative N sender event_id st = ne_text N sender event_id
     (str_or (case st of Some s \<Rightarrow> py_join '', '' (is_completed_personas s) | None \<Rightarrow> []) (ne_nobody N))
     (case st of Some s \<Rightarrow> length (is_findings_summary s) | None \<Rightarrow> 0)"

definition narrative_prompt ::
  "'w narrator \<Rightarrow> string \<Rightarrow> string \<Rightarrow> inv_state option \<Rightarrow> string \<Rightarrow> string" where
  "narrative_prompt N sender event_id st memory_lines = ne_dumps N
     [(''sender'', PStr sender), (''event_id'', PStr event_id),
      (''investigation_state'', PDict (case st of Some s \<Rightarrow> ne_dump_state N s | None \<Rightarrow> [])),
      (''recent_memory'', PStr memory_lines),
      (''instructions'', PStr ''Write a short Russian status narrative for the security operator.'')]"

definition narrative_answer :: "payload \<Rightarrow> string option" where
  "narrative_answer d = (case py_or (py_or (get_or d ''raw_response'' PNone) (get_or d ''response'' PNone)) (get_or d ''narrative'' PNone) of
     PStr t \<Rightarrow> if strip t \<noteq> [] then Some (strip t) else None
   | _ \<Rightarrow> None)"

definition narrate ::
  "'w narrator \<Rightarrow> time \<Rightarrow> string \<Rightarrow> string \<Rightarrow> string \<Rightarrow> string \<Rightarrow> 'w control_world \<Rightarrow> 'w control_world \<times> string" where
  "narrate N now sender event_id tenant iid w = (
     let st = inv_get (cw_inv w) (tenant, iid);
         entries = query_investigation (ne_memory N) (ne_key N) now tenant iid 5 None (cw_memory w);
         memory_lines = format_for_prompt 2000 entries in
     case ne_arun N of
       None \<Rightarrow> (w, fallback_narrative N sender event_id st)
     | Some arun \<Rightarrow> (case arun (ne_persona N) (narrative_prompt N sender event_id st memory_lines)
           (''coordinator:'' @ iid) tenant iid (cw_runtime w) of
         (r, Inl e) \<Rightarrow> (w\<lparr>cw_runtime := r\<rparr>, fallback_narrative N sender event_id st)
       | (r, Inr d) \<Rightarrow> (w\<lparr>cw_runtime := r\<rparr>, case narrative_answer d of
           Some t \<Rightarrow> t | None \<Rightarrow> fallback_narrative N sender event_id st)))"

definition as_text :: "'w narrator \<Rightarrow> pyval \<Rightarrow> string" where
  "as_text N v = (case v of PStr s \<Rightarrow> s | _ \<Rightarrow> ne_str N v)"

definition coordinator_handle :: "'w narrator \<Rightarrow> callbacks \<Rightarrow> string \<Rightarrow> time \<Rightarrow> 'w control_world bus_handler" where
  "coordinator_handle N cb ts now envelope w = (
     case get_or envelope ''payload'' (PDict []) of
       PDict p \<Rightarrow>
         (let sender = get_or envelope ''sender'' (PStr ''unknown'');
              event_id = as_text N (get_or p ''event_id'' (PStr ''n/a''));
              tenant = as_text N (get_or p ''tenant_id'' (PStr ''default''));
              iid = as_text N (get_or p ''correlation_id'' (get_or p ''event_id'' (PStr event_id)));
              (w1, text) = narrate N now (as_text N sender) event_id tenant iid w;
              (s, r) = mem_record cb ts (Record_narrative text) (cw_status w1)
          in (w1\<lparr>cw_status := s\<rparr>, r))
     | _ \<Rightarrow> (w, Some (PyExc ''AttributeError'')))"

subsection \<open>The critic\<close>

definition process_finding_critic ::
  "(string \<Rightarrow> rat option) \<Rightarrow> rat option \<Rightarrow> time \<Rightarrow> string \<Rightarrow> payload \<Rightarrow> string \<Rightarrow> mem_catalog \<Rightarrow> mem_catalog \<times> (exc + payload)" where
  "process_finding_critic read trust_threshold now persona finding profile_id c = (
     let threshold = (case trust_threshold of Some t \<Rightarrow> t
           | None \<Rightarrow> pol_trust_floor (policy_in (list_profiles c) profile_id)) in
     case py_float read (get_or finding ''trust_score'' (PFloat (3/4))) of
       Inl e \<Rightarrow> (c, Inl e)
     | Inr trust_score \<Rightarrow>
         (let passed = (dget finding ''error'' = None \<and> trust_score \<ge> threshold)
          in (record_critic_verdict now persona passed trust_score DEFAULT_PROFILE_ID c,
              Inr [(''passed'', PBool passed), (''trust_score'', PFloat trust_score), (''threshold'', PFloat threshold)])))"

text \<open>The parameters of ProcessFindingCritic, the keywords the service calls it with, and Python's check of a
  call: unknown keywords, and positional arguments where there are none, are a TypeError.\<close>

definition critic_params :: "string list" where
  "critic_params = [''trust_threshold'']"

definition critic_keywords :: "string list" where
  "critic_keywords = [''guardrails'', ''store'', ''trust_score_threshold'', ''publish_awaiting_approval'',
     ''publish_escalation_event'', ''memory_writer'', ''investigation_store'', ''record_memory_write'',
     ''enqueue_revision'', ''judge_backend'']"

definition check_call :: "string list \<Rightarrow> nat \<Rightarrow> string list \<Rightarrow> nat \<Rightarrow> exc option" where
  "check_call params positional_params keywords positional = (
     if set keywords \<subseteq> set params \<and> positional \<le> positional_params then None else Some (PyExc ''TypeError''))"

text \<open>handle_message: the processor is built, then executed with the envelope.\<close>

definition critic_handle :: "'w bus_handler" where
  "critic_handle envelope w = (case check_call critic_params 0 critic_keywords 0 of
     Some e \<Rightarrow> (w, Some e)
   | None \<Rightarrow> (w, check_call [''persona'', ''finding'', ''profile_id''] 0 [] 1))"

text \<open>The critic's daemon on Redis: the registered handler and the subscriber thread for its channel.\<close>

definition critic_daemon_node :: "'w redis_transport" where
  "critic_daemon_node = redis_node [''critic''] [(''critic'', critic_handle)]"

text \<open>The API process outside daemon mode registers both services.\<close>

definition control_subscriptions :: "'w control_world bus_handler \<Rightarrow> (string \<times> 'w control_world bus_handler) list" where
  "control_subscriptions coordinator = [(''critic'', critic_handle), (''coordinator'', coordinator)]"

subsection \<open>What the control plane does\<close>

text \<open>For every message with a payload the coordinator records exactly one narrative, and it is what its agent
  answered when that is some text, and otherwise the fallback: no failure of the agent loses a narrative.\<close>

theorem coordinator_narrates:
  assumes "get_or envelope ''payload'' (PDict []) = PDict p"
  shows "\<exists>text st. sm_narratives (cw_status (fst (coordinator_handle N cb ts now envelope w)))
        = sm_narratives (cw_status w) @ [text]
    \<and> ((\<exists>t. text = strip t \<and> strip t \<noteq> []) \<or> text = fallback_narrative N
        (as_text N (get_or envelope ''sender'' (PStr ''unknown''))) (as_text N (get_or p ''event_id'' (PStr ''n/a''))) st)
    \<and> cw_inv (fst (coordinator_handle N cb ts now envelope w)) = cw_inv w
    \<and> cw_memory (fst (coordinator_handle N cb ts now envelope w)) = cw_memory w"
proof -
  have n: "\<exists>t st. (\<exists>u. snd (narrate N now se ev te ii w) = u \<and> ((\<exists>t. u = strip t \<and> strip t \<noteq> []) \<or> u = fallback_narrative N se ev st))
      \<and> cw_status (fst (narrate N now se ev te ii w)) = cw_status w
      \<and> cw_inv (fst (narrate N now se ev te ii w)) = cw_inv w \<and> cw_memory (fst (narrate N now se ev te ii w)) = cw_memory w"
    for se ev te ii
    by (auto simp: narrate_def Let_def narrative_answer_def split: option.splits prod.splits sum.splits pyval.splits if_splits)
  show ?thesis
    unfolding coordinator_handle_def assms pyval.case Let_def
    using n[of "as_text N (get_or envelope ''sender'' (PStr ''unknown''))" "as_text N (get_or p ''event_id'' (PStr ''n/a''))"]
    by (simp add: split_beta mem_record_def)
qed

lemma critic_raises: "critic_handle m w = (w, Some (PyExc ''TypeError''))"
  by (simp add: critic_handle_def check_call_def critic_params_def critic_keywords_def)

text \<open>The critic's daemon on Redis handles no finding: the first message on its channel raises in its handler and
  ends the subscriber thread, whatever messages follow.\<close>

theorem critic_listener_dies:
  "listen ((redis_channel ''critic'', m) # ms) critic_daemon_node w = (w, Some (PyExc ''TypeError''))"
  by (simp add: critic_daemon_node_def redis_node_def start_subscriber_loop_def redis_subscribe_def RedisBusTransport_def
    add_handler_def get_or_def dispatch_message_def redis_channel_def critic_raises)

text \<open>A step that never returns.\<close>

definition never :: "'a step \<Rightarrow> bool" where
  "never m = (\<forall>w a. snd (m w) \<noteq> Inr a)"

lemma neverE: "never m \<Longrightarrow> (\<And>w1 e. m w = (w1, Inl e) \<Longrightarrow> thesis) \<Longrightarrow> thesis"
  by (cases "m w"; cases "snd (m w)") (auto simp: never_def dest: spec[of _ w])

lemma never_bind:
  assumes "never m \<or> (\<forall>a. never (f a))"
  shows "never (wbind m f)"
proof -
  have "snd (wbind m f w) \<noteq> Inr a" for w a
    using assms by (auto simp: wbind_def never_def split: prod.split sum.split) (metis snd_conv)
  then show ?thesis by (simp add: never_def)
qed

lemma keeps_never: "never m \<Longrightarrow> keeps P m \<Longrightarrow> keeps P (wbind m f)"
proof (rule keepsI)
  fix w assume "never m" "keeps P m" "P w"
  from \<open>never m\<close> obtain w1 e where "m w = (w1, Inl e)" by (rule neverE)
  with keepsD[OF \<open>keeps P m\<close> \<open>P w\<close>] show "P (fst (wbind m f w))" by (simp add: wbind_def)
qed

lemma never_deliver:
  assumes "\<And>m. we_publish E r m \<noteq> None"
  shows "never (deliver E now p payload r)"
proof -
  have "never (wlift (case we_publish E r m of None \<Rightarrow> Inr () | Some e \<Rightarrow> Inl e))" for m
    using assms[of m] by (auto simp: never_def wlift_def)
  then have "never (wbind (wlift (case we_publish E r m of None \<Rightarrow> Inr () | Some e \<Rightarrow> Inl e)) f)" for m and f :: "unit \<Rightarrow> unit step"
    by (simp add: never_bind)
  then show ?thesis unfolding deliver_def by (simp add: never_bind)
qed

lemma never_deliver_all: "(\<And>m. we_publish E r m \<noteq> None) \<Longrightarrow> r \<in> set rs \<Longrightarrow> never (deliver_all E now p payload rs)"
proof (induction rs)
  case (Cons a rs)
  then show ?case using never_deliver[of E r] by (cases "a = r") (auto intro!: never_bind)
qed simp

text \<open>A process in which both services are registered and Redis is up.\<close>

definition control_transport :: "'w control_world bus_handler \<Rightarrow> 'w control_world redis_transport" where
  "control_transport coordinator = fold (\<lambda>(c, h). redis_subscribe c h) (control_subscriptions coordinator) (RedisBusTransport True)"

lemma control_publish_critic: "snd (redis_publish None ''critic'' m (control_transport coordinator) v) = (v, Some (PyExc ''TypeError''))"
  using redis_bus.publish_subscribed[of "''critic''" m "control_subscriptions coordinator" v]
  by (simp add: control_transport_def redis_bus.subscribed_def control_subscriptions_def handlers_on_def critic_raises)

text \<open>In a process with the control plane's services registered on a Redis transport no job succeeds: every
  run publishes its finding to the critic, whose handler raises before the finding is remembered.\<close>

theorem registered_critic_fails_runs:
  assumes "\<forall>r m. we_publish E r m = map_option Exc (snd (snd (redis_publish None r m (control_transport coordinator) v)))"
  shows "\<not> res_success (snd (execute E tick job sid w))
    \<and> ((\<forall>c w. ww_memory (fst (we_arun E c w)) = ww_memory w) \<longrightarrow> ww_memory (fst (execute E tick job sid w)) = ww_memory w)"
proof -
  have crit: "we_publish E ''critic'' m \<noteq> None" for m using assms by (simp add: control_publish_critic)
  define rest where "rest job' = (\<lambda>(defn, result). wbind (deliver_all E (rt_now tick) (job_persona job)
      (finding_payload job' (memory_investigation_id (we_str E) job) result) (bus_recipients defn)) (\<lambda>_. finish E tick job' result))"
    for job'
  have never_all: "never (deliver_all E (rt_now tick) (job_persona job) q (bus_recipients defn))" for q defn
    by (rule never_deliver_all[OF crit]) (simp add: bus_recipients_def)
  obtain w0 job' where st: "start_run tick job sid w = (w0, Inr job')" "ww_memory w0 = ww_memory w"
    by (simp add: start_run_eq Let_def)
  have body: "execute_body E tick job sid w = wbind (produce E (rt_now tick) job' sid) (rest job') w0"
    by (simp add: execute_body_eq st rest_def)
  have "never (wbind (produce E (rt_now tick) job' sid) (rest job'))"
    by (intro never_bind disjI2) (auto simp: rest_def intro!: never_bind never_all)
  then have "snd (execute_body E tick job sid w) \<noteq> Inr r" for r by (simp add: body never_def)
  then obtain w1 e where w1: "execute_body E tick job sid w = (w1, Inl e)"
    by (cases "execute_body E tick job sid w"; cases "snd (execute_body E tick job sid w)") auto
  have "ww_memory w1 = ww_memory w" if a: "\<forall>c w. ww_memory (fst (we_arun E c w)) = ww_memory w"
  proof -
    have "keeps (\<lambda>v. ww_memory v = ww_memory w) (wbind (produce E (rt_now tick) job' sid) (rest job'))"
    proof (rule keeps_bind[OF keeps_produce])
      show "keeps (\<lambda>v. ww_memory v = ww_memory w) (we_arun E c)" for c using a by (simp add: keeps_def)
      show "keeps (\<lambda>v. ww_memory v = ww_memory w) (rest job' x)" for x
        by (cases x) (auto simp: rest_def intro!: keeps_never[OF never_all] keeps_deliver_all)
    qed
    from keepsD[OF this, of w0] st(2) w1 show ?thesis by (simp add: body)
  qed
  moreover have "ww_memory (handle_failure E now job e w1) = ww_memory w1" for now
    by (auto simp: handle_failure_def settle_failed_def mark_persona_terminal_def quality_failure_def Let_def split: job_exc.split exc.split)
  ultimately show ?thesis
    by (simp add: execute_def w1 failed_result_def sandbox_destroy_def)
qed

text \<open>A critic's findings one after the other.\<close>

definition criticize_all ::
  "(string \<Rightarrow> rat option) \<Rightarrow> rat \<Rightarrow> time \<Rightarrow> string \<Rightarrow> payload list \<Rightarrow> mem_catalog \<Rightarrow> mem_catalog" where
  "criticize_all read threshold now persona findings c =
     fold (\<lambda>f c. fst (process_finding_critic read (Some threshold) now persona f DEFAULT_PROFILE_ID c)) findings c"

lemma critic_fails:
  assumes "agents_ok c" and "get_agent c persona = Some e" and "pq_critic_pass_rate (ag_quality e) \<le> 0"
    and "dget f ''error'' \<noteq> None"
  shows "\<exists>e'. get_agent (fst (process_finding_critic read (Some t) now persona f pid c)) persona = Some e'
    \<and> pq_critic_pass_rate (ag_quality e') \<le> 0"
proof (cases "py_float read (get_or f ''trust_score'' (PFloat (3/4)))")
  case (Inr score)
  then show ?thesis
    using assms(3,4) mem_apply_get[OF assms(1), of "\<lparr>qe_persona = persona, qe_profile_id = DEFAULT_PROFILE_ID, qe_kind = CRITIC_FAIL,
        qe_trust_signal = max (1/10) (score * (1/2)), qe_cost_usd = 0\<rparr>" e now] assms(2)
    by (auto simp: process_finding_critic_def record_critic_verdict_def record_event_def update_quality_def ema_def Let_def)
qed (use assms(2,3) in \<open>simp add: process_finding_critic_def\<close>)

lemma agents_ok_critic:
  assumes "agents_ok c"
  shows "agents_ok (fst (process_finding_critic read t now persona f pid c))"
proof -
  have "agents_ok (mem_apply_quality now ev c)" for ev
    using assms by (auto simp: mem_apply_quality_def agents_ok_def get_agent_def upsert_agent_def Let_def split: option.splits if_splits)
  then show ?thesis using assms
    by (auto simp: process_finding_critic_def record_critic_verdict_def record_event_def Let_def split: sum.split)
qed

lemma critic_all_fail:
  assumes "agents_ok c" and "get_agent c persona = Some e" and "pq_critic_pass_rate (ag_quality e) \<le> 0"
    and "\<forall>f \<in> set fs. dget f ''error'' \<noteq> None"
  shows "agents_ok (criticize_all read t now persona fs c) \<and> (\<exists>e'. get_agent (criticize_all read t now persona fs c) persona = Some e'
    \<and> pq_critic_pass_rate (ag_quality e') \<le> 0)"
  using assms
proof (induction fs arbitrary: c e)
  case (Cons f fs)
  let ?c = "fst (process_finding_critic read (Some t) now persona f DEFAULT_PROFILE_ID c)"
  from critic_fails[OF Cons.prems(1-3), of f read t now DEFAULT_PROFILE_ID] Cons.prems(4)
  obtain e' where "get_agent ?c persona = Some e'" "pq_critic_pass_rate (ag_quality e') \<le> 0" by auto
  from Cons.IH[OF agents_ok_critic[OF Cons.prems(1)] this] Cons.prems(4) show ?case by (simp add: criticize_all_def)
qed (auto simp: criticize_all_def)

text \<open>A persona without a passed finding whose findings all fail, however many, has a critic pass rate of 1
  after its first finding that passes: the moving average takes a rate of 0 for no rate.\<close>

theorem first_pass_erases_failures:
  assumes "agents_ok c" and "get_agent c persona = Some e" and "pq_critic_pass_rate (ag_quality e) = 0"
    and "\<forall>f \<in> set failing. dget f ''error'' \<noteq> None"
    and "dget f ''error'' = None" and "dget f ''trust_score'' = Some (PFloat score)" and "score \<ge> threshold"
  shows "map_option (pq_critic_pass_rate \<circ> ag_quality)
    (get_agent (criticize_all read threshold now persona (failing @ [f]) c) persona) = Some 1"
proof -
  let ?c = "criticize_all read threshold now persona failing c"
  have ok: "agents_ok ?c" and ex: "\<exists>e'. get_agent ?c persona = Some e' \<and> pq_critic_pass_rate (ag_quality e') \<le> 0"
    using critic_all_fail[OF assms(1,2) _ assms(4), of read threshold now] assms(3) by simp_all
  from ex obtain e' where e': "get_agent ?c persona = Some e'" "pq_critic_pass_rate (ag_quality e') \<le> 0" by blast
  have p: "py_float read (get_or f ''trust_score'' (PFloat (3/4))) = Inr score"
    using assms(6) by (simp add: get_or_def py_float_def)
  have c: "criticize_all read threshold now persona (failing @ [f]) c
      = fst (process_finding_critic read (Some threshold) now persona f DEFAULT_PROFILE_ID ?c)"
    by (simp add: criticize_all_def)
  show ?thesis
    using mem_apply_get[OF ok, of "\<lparr>qe_persona = persona, qe_profile_id = DEFAULT_PROFILE_ID, qe_kind = CRITIC_PASS,
        qe_trust_signal = score, qe_cost_usd = 0\<rparr>" e' now] e' assms(5,7) p
    unfolding c process_finding_critic_def
    by (simp add: record_critic_verdict_def record_event_def update_quality_def ema_def Let_def)
qed

theorem first_pass_erases_failures_witness:
  "map_option (pq_critic_pass_rate \<circ> ag_quality) (get_agent (criticize_all (\<lambda>s. None) (1/2) 7 ''soc''
     ([ [(''error'', PStr ''e'')], [(''error'', PStr ''e'')] ] @ [ [(''trust_score'', PFloat 1)] ])
     \<lparr>mc_agents = [(''soc'', AgentCatalogEntry ''soc'' 0)], mc_profiles = [], mc_versions = []\<rparr>) ''soc'') = Some 1"
  by (rule first_pass_erases_failures[where e = "AgentCatalogEntry ''soc'' 0" and score = 1])
    (simp_all add: agents_ok_def get_agent_def AgentCatalogEntry_def PersonaQuality_def)

definition demo_narrator :: "unit narrator" where
  "demo_narrator = \<lparr>ne_memory = demo_mem_env, ne_key = None, ne_dumps = (\<lambda>p. ''json''), ne_dump_state = (\<lambda>s. []),
     ne_arun = Some (\<lambda>n q s t i w. (w, Inr [(''response'', PStr '' done '')])), ne_persona = ''coordinator'',
     ne_text = (\<lambda>s e r n. ''fallback''), ne_nobody = ''nobody'', ne_str = (\<lambda>v. ''str'')\<rparr>"

definition demo_control :: "unit control_world" where
  "demo_control = \<lparr>cw_status = MemoryStatusStore, cw_inv = [], cw_memory = [], cw_runtime = ()\<rparr>"

theorem coordinator_narrates_witness:
  "length (sm_narratives (cw_status (fst (coordinator_handle demo_narrator (\<lambda>c k e. None) ''t'' 7
     [(''payload'', PDict [(''event_id'', PStr ''e1'')])] demo_control)))) = 1"
  using coordinator_narrates[of "[(''payload'', PDict [(''event_id'', PStr ''e1'')])]" "[(''event_id'', PStr ''e1'')]"
      demo_narrator "\<lambda>c k e. None" "''t''" 7 demo_control]
  by (auto simp: get_or_def demo_control_def MemoryStatusStore_def)

definition demo_api_worker :: worker_env where
  "demo_api_worker = (demo_worker_env id [])\<lparr>we_publish := (\<lambda>r m. map_option Exc
     (snd (snd (redis_publish None r m (control_transport (coordinator_handle demo_narrator (\<lambda>c k e. None) ''t'' 7)) demo_control))))\<rparr>"

theorem registered_critic_fails_runs_witness:
  "\<not> res_success (snd (execute demo_api_worker demo_tick (demo_job ''j1'' ''soc'') ''worker:soc:j1'' demo_ww))"
  using registered_critic_fails_runs[of demo_api_worker "coordinator_handle demo_narrator (\<lambda>c k e. None) ''t'' 7" demo_control
      demo_tick "demo_job ''j1'' ''soc''" "''worker:soc:j1''" demo_ww] by (simp add: demo_api_worker_def)

end
