(* ===== verification/Auth.thy ===== *)
theory Auth
  imports Schemas
begin

text \<open>Who may call the API: the claims of a token (cys_core/domain/security/auth_models.py), its verification
  (infrastructure/auth/keycloak.py, factory.py), the role check of the routes (interfaces/api/auth.py, deps.py), and
  the tokens the program fetches for its own calls (infrastructure/auth/broker.py). Decoding and checking a JWT is
  the jwt library: a parameter that gives the payload of a token it accepts.\<close>

subsection \<open>Claims\<close>

record auth_claims =
  ac_sub :: string
  ac_email :: string
  ac_roles :: "string list"

definition has_any_role :: "string list \<Rightarrow> auth_claims \<Rightarrow> bool" where
  "has_any_role required c = (required = [] \<or> list_ex (\<lambda>r. r \<in> set (ac_roles c)) required)"

definition add_role :: "pyval \<Rightarrow> string list \<Rightarrow> string list" where
  "add_role v roles = (case v of PStr s \<Rightarrow> if s = [] \<or> s \<in> set roles then roles else roles @ [s] | _ \<Rightarrow> roles)"

definition add_roles :: "pyval \<Rightarrow> string list \<Rightarrow> string list" where
  "add_roles v roles = (case v of PList vs \<Rightarrow> fold add_role vs roles | _ \<Rightarrow> roles)"

definition entry_roles :: "pyval \<Rightarrow> string list \<Rightarrow> string list" where
  "entry_roles v roles = (case v of PDict d \<Rightarrow> add_roles (get_or d ''roles'' PNone) roles | _ \<Rightarrow> roles)"

definition extract_roles :: "payload \<Rightarrow> string \<Rightarrow> string list" where
  "extract_roles claims client_id = (
     let realm = entry_roles (get_or claims ''realm_access'' PNone) [] in
     case get_or claims ''resource_access'' PNone of
       PDict d \<Rightarrow> entry_roles (get_or d client_id PNone) realm
     | _ \<Rightarrow> realm)"

text \<open>An AuthError is its text.\<close>

definition claims_from_payload :: "string \<Rightarrow> payload \<Rightarrow> string + auth_claims" where
  "claims_from_payload client_id p = (case get_or p ''sub'' PNone of
     PStr (c # cs) \<Rightarrow> Inr \<lparr>ac_sub = c # cs,
        ac_email = (case get_or p ''email'' PNone of PStr e \<Rightarrow> e | _ \<Rightarrow> []), ac_roles = extract_roles p client_id\<rparr>
   | _ \<Rightarrow> Inl ''missing subject'')"

subsection \<open>Verification\<close>

record auth_settings =
  as_enabled :: bool
  as_rbac :: bool
  as_issuer :: string
  as_audience :: string
  as_client_id :: string
  as_ingress :: string
  as_reader :: string
  as_operator :: string

definition validate_auth_config :: "auth_settings \<Rightarrow> exc option" where
  "validate_auth_config S = (if as_enabled S \<and> strip (as_issuer S) = [] then Some (PyExc ''ValueError'') else None)"

definition rstrip_slash :: "string \<Rightarrow> string" where
  "rstrip_slash s = rev (dropWhile (\<lambda>c. c = CHR ''/'') (rev s))"

datatype verifier = DisabledTokenVerifier | KeycloakJwtVerifier string string string

definition new_keycloak :: "string \<Rightarrow> string \<Rightarrow> string \<Rightarrow> exc + verifier" where
  "new_keycloak issuer audience client_id = (
     if rstrip_slash issuer = [] then Inl (PyExc ''ValueError'')
     else Inr (KeycloakJwtVerifier (rstrip_slash issuer) (strip audience) client_id))"

definition build_token_verifier :: "auth_settings \<Rightarrow> exc + verifier" where
  "build_token_verifier S = (if \<not> as_enabled S then Inr DisabledTokenVerifier
     else new_keycloak (as_issuer S) (str_or (as_audience S) (as_client_id S)) (as_client_id S))"

text \<open>strip().split(None, 1).\<close>

definition extract_bearer_token :: "string option \<Rightarrow> string" where
  "extract_bearer_token header = (case header of
     None \<Rightarrow> []
   | Some h \<Rightarrow> (let s = strip h; scheme = takeWhile (\<lambda>c. \<not> is_space c) s;
         rest = dropWhile is_space (dropWhile (\<lambda>c. \<not> is_space c) s) in
       if rest = [] \<or> lower scheme \<noteq> ''bearer'' then [] else strip rest))"

definition audience_matches :: "payload \<Rightarrow> string \<Rightarrow> bool" where
  "audience_matches p audience = (let aud = get_or p ''aud'' PNone in
     aud = PStr audience \<or> (case aud of PList vs \<Rightarrow> PStr audience \<in> set vs | _ \<Rightarrow> False)
     \<or> get_or p ''azp'' PNone = PStr audience)"

text \<open>decode takes the issuer and the token.\<close>

fun verify_bearer :: "(string \<Rightarrow> string \<Rightarrow> payload option) \<Rightarrow> verifier \<Rightarrow> string option \<Rightarrow> string + auth_claims" where
  "verify_bearer decode DisabledTokenVerifier header = Inl ''auth disabled''"
| "verify_bearer decode (KeycloakJwtVerifier issuer audience client_id) header = (
     let token = extract_bearer_token header in
     if token = [] then Inl ''missing bearer token''
     else (case decode issuer token of
         None \<Rightarrow> Inl ''invalid token''
       | Some p \<Rightarrow> if audience \<noteq> [] \<and> \<not> audience_matches p audience then Inl ''invalid audience''
           else claims_from_payload client_id p))"

subsection \<open>The role check of a route\<close>

text \<open>A route ends with an answer, an HTTPException or an exception, which the server answers with 500.\<close>

datatype route_error = HTTP nat string | Raised_exc exc

datatype role_setting = Ingress | Reader | Operator

fun role_name :: "auth_settings \<Rightarrow> role_setting \<Rightarrow> string" where
  "role_name S Ingress = as_ingress S"
| "role_name S Reader = as_reader S"
| "role_name S Operator = as_operator S"

record auth_env =
  ae_settings :: auth_settings
  ae_decode :: "string \<Rightarrow> string \<Rightarrow> payload option"

definition require_role :: "auth_env \<Rightarrow> role_setting \<Rightarrow> string option \<Rightarrow> route_error + auth_claims option" where
  "require_role A role header = (
     if \<not> as_enabled (ae_settings A) then Inr None
     else (case build_token_verifier (ae_settings A) of
         Inl x \<Rightarrow> Inl (Raised_exc x)
       | Inr v \<Rightarrow> (case verify_bearer (ae_decode A) v header of
           Inl msg \<Rightarrow> Inl (HTTP 401 msg)
         | Inr c \<Rightarrow> if as_rbac (ae_settings A) \<and> \<not> has_any_role [role_name (ae_settings A) role] c
             then Inl (HTTP 403 ''Forbidden'') else Inr (Some c))))"

definition api_actor :: "auth_claims option \<Rightarrow> string" where
  "api_actor auth = (case auth of Some c \<Rightarrow> ac_sub c | None \<Rightarrow> ''api'')"

subsection \<open>The broker\<close>

record broker_settings =
  bs_use :: bool
  bs_url :: string
  bs_service_token :: string
  bs_service_id :: string
  bs_audience :: string

type_synonym token_cache = "((string \<times> string list) \<times> (string \<times> time)) list"

text \<open>The service's answer to a post, the clock before and after it, and the str and int of Python.\<close>

record broker_env =
  be_post :: "string \<Rightarrow> (string \<times> string) list \<Rightarrow> payload \<Rightarrow> exc + payload"
  be_str :: "pyval \<Rightarrow> string"
  be_int :: "pyval \<Rightarrow> int option"

definition broker_enabled :: "broker_settings \<Rightarrow> bool" where
  "broker_enabled S = (bs_use S \<and> strip (bs_url S) \<noteq> [] \<and> strip (bs_service_token S) \<noteq> [])"

definition opt_list :: "'a list option \<Rightarrow> 'a list" where
  "opt_list x = (case x of Some l \<Rightarrow> l | None \<Rightarrow> [])"

definition fetch_token :: "broker_settings \<Rightarrow> broker_env \<Rightarrow> string \<Rightarrow> string list \<Rightarrow> exc + string \<times> int" where
  "fetch_token S B aud scopes =
     rbind (be_post B (rstrip_slash (bs_url S) @ ''/v1/token'')
         [(''Authorization'', ''Bearer '' @ bs_service_token S), (''Content-Type'', ''application/json''),
          (''X-Service-Id'', bs_service_id S)]
         [(''audience'', PStr aud), (''scopes'', PList (map PStr scopes))]) (\<lambda>data.
     let token = strip (py_text (be_str B) (get_or data ''access_token'' (PStr []))) in
     if token = [] then Inl (PyExc ''RuntimeError'')
     else (case be_int B (get_or data ''expires_in'' (PInt 60)) of
         None \<Rightarrow> Inl (PyExc ''ValueError'')
       | Some e \<Rightarrow> Inr (token, e)))"

definition renew_token ::
  "broker_settings \<Rightarrow> broker_env \<Rightarrow> time \<Rightarrow> string \<times> string list \<Rightarrow> token_cache \<Rightarrow> token_cache \<times> (exc + string)" where
  "renew_token S B later key cache = (case fetch_token S B (fst key) (snd key) of
     Inl x \<Rightarrow> (cache, Inl x)
   | Inr (t, e) \<Rightarrow> (AList.update key (t, later + of_int (max (e - 30) 1)) cache, Inr t))"

definition get_access_token ::
  "broker_settings \<Rightarrow> broker_env \<Rightarrow> time \<Rightarrow> time \<Rightarrow> string option \<Rightarrow> string list option \<Rightarrow> token_cache
    \<Rightarrow> token_cache \<times> (exc + string)" where
  "get_access_token S B now later audience scopes cache = (
     if \<not> broker_enabled S then (cache, Inl (PyExc ''RuntimeError''))
     else (let key = (strip (str_or (opt_list audience) (bs_audience S)), opt_list scopes) in
       case map_of cache key of
         Some (token, expires) \<Rightarrow> if now < expires then (cache, Inr token) else renew_token S B later key cache
       | None \<Rightarrow> renew_token S B later key cache))"

definition authorization_header ::
  "broker_settings \<Rightarrow> broker_env \<Rightarrow> time \<Rightarrow> time \<Rightarrow> string option \<Rightarrow> token_cache \<Rightarrow> token_cache \<times> (exc + string dict)" where
  "authorization_header S B now later audience cache = (case get_access_token S B now later audience None cache of
     (c, Inl x) \<Rightarrow> (c, Inl x)
   | (c, Inr t) \<Rightarrow> (c, Inr [(''Authorization'', ''Bearer '' @ t)]))"

subsection \<open>Roles and tokens\<close>

text \<open>A role that an entry of the claims lists.\<close>

definition lists_role :: "pyval \<Rightarrow> string \<Rightarrow> bool" where
  "lists_role v r = (case v of PDict d \<Rightarrow> (case get_or d ''roles'' PNone of PList vs \<Rightarrow> PStr r \<in> set vs | _ \<Rightarrow> False) | _ \<Rightarrow> False)"

definition grants_role :: "payload \<Rightarrow> string \<Rightarrow> string \<Rightarrow> bool" where
  "grants_role p client r = (r \<noteq> [] \<and> (lists_role (get_or p ''realm_access'' PNone) r
     \<or> (case get_or p ''resource_access'' PNone of PDict d \<Rightarrow> lists_role (get_or d client PNone) r | _ \<Rightarrow> False)))"

lemma fold_add_role: "distinct rs \<Longrightarrow> distinct (fold add_role vs rs)
    \<and> set (fold add_role vs rs) = set rs \<union> {r. r \<noteq> [] \<and> PStr r \<in> set vs}"
proof (induction vs arbitrary: rs)
  case (Cons v vs)
  have "distinct (add_role v rs) \<and> set (add_role v rs) = set rs \<union> {r. r \<noteq> [] \<and> PStr r = v}"
    using Cons.prems by (auto simp: add_role_def split: pyval.split)
  with Cons.IH[of "add_role v rs"] show ?case by auto
qed simp

lemma entry_roles_set:
  assumes "distinct rs"
  shows "distinct (entry_roles v rs) \<and> set (entry_roles v rs) = set rs \<union> {r. r \<noteq> [] \<and> lists_role v r}"
proof (cases "\<exists>d vs. v = PDict d \<and> get_or d ''roles'' PNone = PList vs")
  case True
  then show ?thesis using fold_add_role[OF assms] by (auto simp: entry_roles_def add_roles_def lists_role_def)
next
  case False
  then have "entry_roles v rs = rs" "\<not> lists_role v r" for r
    by (auto simp: entry_roles_def add_roles_def lists_role_def split: pyval.split)
  with assms show ?thesis by simp
qed

lemma extract_roles_set: "distinct (extract_roles p c) \<and> set (extract_roles p c) = {r. grants_role p c r}"
proof -
  define realm where "realm = entry_roles (get_or p ''realm_access'' PNone) []"
  have realm: "distinct realm" "set realm = {r. r \<noteq> [] \<and> lists_role (get_or p ''realm_access'' PNone) r}"
    using entry_roles_set[of "[]" "get_or p ''realm_access'' PNone"] by (simp_all add: realm_def)
  show ?thesis
  proof (cases "\<exists>d. get_or p ''resource_access'' PNone = PDict d")
    case True
    then obtain d where "get_or p ''resource_access'' PNone = PDict d" by blast
    then show ?thesis using entry_roles_set[OF realm(1), of "get_or d c PNone"] realm(2)
      by (auto simp: extract_roles_def grants_role_def realm_def[symmetric])
  next
    case False
    then have "extract_roles p c = realm"
      by (cases "get_or p ''resource_access'' PNone") (simp_all add: extract_roles_def realm_def)
    moreover have "grants_role p c r = (r \<noteq> [] \<and> lists_role (get_or p ''realm_access'' PNone) r)" for r
      using False by (auto simp: grants_role_def split: pyval.split)
    ultimately show ?thesis using realm by simp
  qed
qed

text \<open>C26: With authentication and roles on, a route opens exactly for a bearer token that the jwt library accepts for
  the configured issuer, meant for the configured audience or without one, with a subject, and listing the
  route's role for the realm or for this client.\<close>

theorem route_opens_iff:
  assumes "as_enabled S" and "as_rbac S" and "rstrip_slash (as_issuer S) \<noteq> []" and "S = ae_settings A"
  shows "(\<exists>c. require_role A role header = Inr (Some c)) \<longleftrightarrow>
    (let token = extract_bearer_token header; audience = strip (str_or (as_audience S) (as_client_id S)) in
     token \<noteq> [] \<and> (\<exists>p. ae_decode A (rstrip_slash (as_issuer S)) token = Some p
       \<and> (audience = [] \<or> audience_matches p audience)
       \<and> (\<exists>s. dget p ''sub'' = Some (PStr s) \<and> s \<noteq> []) \<and> grants_role p (as_client_id S) (role_name S role)))"
proof -
  have cl: "(\<exists>c. claims_from_payload k p = Inr c \<and> r \<in> set (ac_roles c))
      \<longleftrightarrow> (\<exists>s. dget p ''sub'' = Some (PStr s) \<and> s \<noteq> []) \<and> grants_role p k r" for k p r
    using extract_roles_set[of p k]
    by (cases "dget p ''sub''") (auto simp: claims_from_payload_def get_or_def split: pyval.splits list.splits)
  have "(\<exists>c. require_role A role header = Inr (Some c)) \<longleftrightarrow> (\<exists>c. verify_bearer (ae_decode A)
      (KeycloakJwtVerifier (rstrip_slash (as_issuer S)) (strip (str_or (as_audience S) (as_client_id S))) (as_client_id S)) header = Inr c
      \<and> role_name S role \<in> set (ac_roles c))"
    using assms by (auto simp: require_role_def build_token_verifier_def new_keycloak_def has_any_role_def split: sum.splits)
  then show ?thesis using cl by (auto simp: Let_def split: option.splits if_splits)
qed

record token_request =
  tq_now :: time
  tq_later :: time
  tq_audience :: "string option"
  tq_scopes :: "string list option"
  tq_env :: broker_env

definition request_token :: "broker_settings \<Rightarrow> token_request \<Rightarrow> token_cache \<Rightarrow> token_cache \<times> (exc + string)" where
  "request_token S q c = get_access_token S (tq_env q) (tq_now q) (tq_later q) (tq_audience q) (tq_scopes q) c"

definition request_key :: "broker_settings \<Rightarrow> token_request \<Rightarrow> string \<times> string list" where
  "request_key S q = (strip (str_or (opt_list (tq_audience q)) (bs_audience S)), opt_list (tq_scopes q))"

text \<open>What the broker would answer to a request, and that a token of it is good for an instant.\<close>

definition issued :: "broker_settings \<Rightarrow> token_request \<Rightarrow> exc + string \<times> int" where
  "issued S q = fetch_token S (tq_env q) (fst (request_key S q)) (snd (request_key S q))"

definition kept_until :: "token_request \<Rightarrow> int \<Rightarrow> time" where
  "kept_until q e = tq_later q + of_int (max (e - 30) 1)"

definition backed :: "broker_settings \<Rightarrow> token_request set \<Rightarrow> token_cache \<Rightarrow> bool" where
  "backed S Q c = (\<forall>k t x. map_of c k = Some (t, x) \<longrightarrow>
     (\<exists>q \<in> Q. \<exists>e. issued S q = Inr (t, e) \<and> request_key S q = k \<and> x = kept_until q e))"

lemma backed_mono: "backed S Q c \<Longrightarrow> backed S (insert q Q) c"
  by (fastforce simp: backed_def)

lemma backed_put: "backed S Q c \<Longrightarrow> issued S q = Inr (t, e) \<Longrightarrow> request_key S q = k
    \<Longrightarrow> backed S (insert q Q) (AList.update k (t, kept_until q e) c)"
  by (fastforce simp: backed_def update_conv')

lemma renew_issued: "renew_token S (tq_env q) (tq_later q) (request_key S q) c = (case issued S q of
     Inl x \<Rightarrow> (c, Inl x) | Inr (t, e) \<Rightarrow> (AList.update (request_key S q) (t, kept_until q e) c, Inr t))"
  unfolding renew_token_def issued_def kept_until_def by (rule refl)

lemma request_token_eq: "request_token S q c = (
     if \<not> broker_enabled S then (c, Inl (PyExc ''RuntimeError''))
     else (case map_of c (request_key S q) of
         Some (token, expires) \<Rightarrow> if tq_now q < expires then (c, Inr token)
           else renew_token S (tq_env q) (tq_later q) (request_key S q) c
       | None \<Rightarrow> renew_token S (tq_env q) (tq_later q) (request_key S q) c))"
  unfolding request_token_def get_access_token_def request_key_def Let_def by (rule refl)

lemma request_cases:
  "request_token S q c = (c', Inr t) \<Longrightarrow>
    (c' = c \<and> (\<exists>x. map_of c (request_key S q) = Some (t, x) \<and> tq_now q < x))
    \<or> (\<exists>e. issued S q = Inr (t, e) \<and> c' = AList.update (request_key S q) (t, kept_until q e) c)"
  unfolding request_token_eq renew_issued by (auto split: if_splits option.splits sum.splits)

lemma request_raises: "request_token S q c = (c', Inl x) \<Longrightarrow> c' = c"
  unfolding request_token_eq renew_issued by (auto split: if_splits option.splits sum.splits)

lemma backed_request: "backed S Q c \<Longrightarrow> backed S (insert q Q) (fst (request_token S q c))"
proof (cases "request_token S q c")
  case (Pair c' r)
  assume b: "backed S Q c"
  show ?thesis
  proof (cases r)
    case (Inl x)
    with request_raises[of S q c c' x] Pair b show ?thesis by (simp add: backed_mono)
  next
    case (Inr t)
    with request_cases[of S q c c' t] Pair b show ?thesis by (auto simp: backed_mono intro: backed_put)
  qed
qed

lemma backed_run: "backed S Q c \<Longrightarrow> backed S (Q \<union> set qs) (fold (\<lambda>q c. fst (request_token S q c)) qs c)"
proof (induction qs arbitrary: Q c)
  case (Cons q qs)
  from Cons.IH[OF backed_request[OF Cons.prems, of q]] show ?case by simp
qed simp

text \<open>C27: Whatever requests were made before, a token that is served comes from the broker's answer to this request, or
  from its answer to an earlier one for the same audience and scopes whose lifetime has not passed: with at least
  thirty seconds to go for a lifetime above thirty, and alive in any case for one of a second or more.\<close>

theorem tokens_served_alive:
  assumes "c = fold (\<lambda>q c. fst (request_token S q c)) qs []" and "request_token S q c = (c', Inr t)"
  shows "(\<exists>e. issued S q = Inr (t, e)) \<or> (\<exists>q' \<in> set qs. \<exists>e. issued S q' = Inr (t, e)
    \<and> request_key S q' = request_key S q \<and> (e \<ge> 1 \<longrightarrow> tq_now q < tq_later q' + of_int e)
    \<and> (e > 30 \<longrightarrow> tq_now q + 30 < tq_later q' + of_int e))"
proof -
  have b: "backed S (set qs) c" using backed_run[of S "{}" "[]" qs] by (simp add: assms(1) backed_def)
  have ends: "n < kept_until q' e \<Longrightarrow> (e \<ge> 1 \<longrightarrow> n < tq_later q' + of_int e)
      \<and> (e > 30 \<longrightarrow> n + 30 < tq_later q' + of_int e)" for n q' e
  proof -
    assume n: "n < kept_until q' e"
    have "(of_int (max (e - 30) 1) :: rat) \<le> of_int e" if "e \<ge> 1" using that by (simp only: of_int_le_iff)
    moreover have "(of_int (max (e - 30) 1) :: rat) = of_int e - 30" if "e > 30" using that by simp
    ultimately show ?thesis using n by (fastforce simp: kept_until_def)
  qed
  from request_cases[OF assms(2)] b ends show ?thesis unfolding backed_def by blast
qed

definition demo_auth :: auth_settings where
  "demo_auth = \<lparr>as_enabled = True, as_rbac = True, as_issuer = ''kc/'', as_audience = [], as_client_id = ''api'',
     as_ingress = ''in'', as_reader = ''rd'', as_operator = ''op''\<rparr>"

text \<open>One token, whose subject may read for the client.\<close>

definition demo_auth_env :: auth_env where
  "demo_auth_env = \<lparr>ae_settings = demo_auth, ae_decode = (\<lambda>i t. if i = ''kc'' \<and> t = ''tok'' then Some [(''sub'', PStr ''u''),
     (''azp'', PStr ''api''), (''resource_access'', PDict [(''api'', PDict [(''roles'', PList [PStr ''rd''])])])] else None)\<rparr>"

theorem route_opens_iff_witness:
  "(\<exists>c. require_role demo_auth_env Reader (Some '' bearer  tok '') = Inr (Some c))
   \<and> \<not> (\<exists>c. require_role demo_auth_env Operator (Some ''Bearer tok'') = Inr (Some c))"
proof -
  note iff = route_opens_iff[of demo_auth demo_auth_env]
  have s: "as_enabled demo_auth" "as_rbac demo_auth" "rstrip_slash (as_issuer demo_auth) = ''kc''" "demo_auth = ae_settings demo_auth_env"
      "strip (str_or (as_audience demo_auth) (as_client_id demo_auth)) = ''api''" "as_client_id demo_auth = ''api''"
      "extract_bearer_token (Some '' bearer  tok '') = ''tok''" "extract_bearer_token (Some ''Bearer tok'') = ''tok''"
    by (simp_all add: demo_auth_env_def) code_simp+
  from iff[of Reader "Some '' bearer  tok ''"] iff[of Operator "Some ''Bearer tok''"] s show ?thesis
    by (simp add: demo_auth_env_def audience_matches_def grants_role_def lists_role_def demo_auth_def get_or_def)
qed

definition demo_broker :: broker_settings where
  "demo_broker = \<lparr>bs_use = True, bs_url = ''b'', bs_service_token = ''s'', bs_service_id = ''e'', bs_audience = ''veil''\<rparr>"

definition demo_request :: "time \<Rightarrow> token_request" where
  "demo_request now = \<lparr>tq_now = now, tq_later = now, tq_audience = None, tq_scopes = None,
     tq_env = \<lparr>be_post = (\<lambda>u h p. Inr [(''access_token'', PStr ''T''), (''expires_in'', PInt 60)]), be_str = (\<lambda>v. []),
       be_int = (\<lambda>v. case v of PInt i \<Rightarrow> Some i | _ \<Rightarrow> None)\<rparr>\<rparr>"

theorem tokens_served_alive_witness:
  "(\<exists>e. issued demo_broker (demo_request 10) = Inr (''T'', e))
   \<or> (\<exists>e. issued demo_broker (demo_request 0) = Inr (''T'', e) \<and> (e \<ge> 1 \<longrightarrow> 10 < (of_int e :: rat)))"
proof -
  let ?c = "fold (\<lambda>q c. fst (request_token demo_broker q c)) [demo_request 0] []"
  have "snd (request_token demo_broker (demo_request 10) ?c) = Inr ''T''" by code_simp
  then obtain c' where "request_token demo_broker (demo_request 10) ?c = (c', Inr ''T'')" by (metis prod.collapse)
  from tokens_served_alive[OF refl this] show ?thesis by (auto simp: demo_request_def)
qed

end
