(* ===== verification/Catalog_Gate.thy ===== *)
theory Catalog_Gate
  imports Catalog Schemas Sanitizer
begin

text \<open>Writing to the catalogs: CatalogWriteGate (cys_core/infrastructure/catalog/catalog_write_gate.py) with
  CrossRefValidator (domain/catalog/validation.py) and the audit log (audit.py, audit_adapter.py),
  CatalogMutationService, the upsert use cases, policy_merge.py and the writing routes of
  interfaces/api/catalog.py, on the in-memory catalogs. Digests, the input detector, pydantic's reading of
  numbers and its dump and validation of a policy are parameters. The reload of the registry a write ends in is only
  counted here; Api composes the writes with the reload, which can raise.\<close>

subsection \<open>Tools and MCP servers\<close>

definition tool_ops :: "tool_entry payload_ops" where
  "tool_ops = \<lparr>po_id = tl_id, po_profile_id = tl_profile_id, po_enabled = tl_enabled,
     po_disable = tl_enabled_update (\<lambda>_. False)\<rparr>"

definition mcp_ops :: "mcp_server_entry payload_ops" where
  "mcp_ops = \<lparr>po_id = mcp_id, po_profile_id = mcp_profile_id, po_enabled = mcp_enabled,
     po_disable = mcp_enabled_update (\<lambda>_. False)\<rparr>"

definition upsert_tool :: "tool_entry \<Rightarrow> tool_entry payload_catalog \<Rightarrow> tool_entry payload_catalog" where
  "upsert_tool e c = upsert_item tool_ops None (e\<lparr>tl_source := API\<rparr>) c"

definition list_tools :: "string option \<Rightarrow> bool \<Rightarrow> tool_entry payload_catalog \<Rightarrow> tool_entry list" where
  "list_tools profile_id enabled_only c = list_items tool_ops tl_name profile_id enabled_only c"

definition upsert_server :: "mcp_server_entry \<Rightarrow> mcp_server_entry payload_catalog \<Rightarrow> mcp_server_entry payload_catalog" where
  "upsert_server e c = upsert_item mcp_ops None e c"

subsection \<open>The audit log\<close>

record audit_entry =
  au_ts :: string
  au_action :: string
  au_agent :: string
  au_resource_type :: string
  au_resource_id :: string
  au_actor :: string
  au_details :: payload

definition record_catalog_change ::
  "string \<Rightarrow> string \<Rightarrow> string \<Rightarrow> string \<Rightarrow> payload option \<Rightarrow> string \<Rightarrow> string option \<Rightarrow> audit_entry list \<Rightarrow> audit_entry list" where
  "record_catalog_change ts action agent actor details resource_type resource_id l = l @ [\<lparr>au_ts = ts, au_action = action,
     au_agent = agent, au_resource_type = resource_type,
     au_resource_id = (case resource_id of Some (c # cs) \<Rightarrow> c # cs | _ \<Rightarrow> agent), au_actor = actor,
     au_details = (case details of Some d \<Rightarrow> d | None \<Rightarrow> [])\<rparr>]"

text \<open>The slice [-limit:], newest first.\<close>

definition list_catalog_audit :: "int \<Rightarrow> audit_entry list \<Rightarrow> audit_entry list" where
  "list_catalog_audit limit l = rev (py_last limit l)"

subsection \<open>The gate\<close>

text \<open>cg_reloads counts the reloads of the registry.\<close>

record catalog_world =
  cg_agents :: mem_catalog
  cg_skills :: "skill_entry payload_catalog"
  cg_plans :: "plan_entry payload_catalog"
  cg_mcp :: "mcp_server_entry payload_catalog"
  cg_tools :: "tool_entry payload_catalog"
  cg_audit :: "audit_entry list"
  cg_reloads :: nat

record catalog_env =
  ce_detector :: detector
  ce_sha256 :: "string \<Rightarrow> string"
  ce_tool_names :: "string list"
  ce_schema_names :: "string list"
  ce_dynamic_catalog :: bool
  ce_now :: time
  ce_ts :: string
  ce_str :: "pyval \<Rightarrow> string"
  ce_int :: "pyval \<Rightarrow> int option"
  ce_float :: "pyval \<Rightarrow> rat option"
  ce_dump_policy :: "profile_policy \<Rightarrow> payload"
  ce_validate_policy :: "pyval \<Rightarrow> exc + profile_policy"

definition audited :: "catalog_env \<Rightarrow> string \<Rightarrow> string \<Rightarrow> string \<Rightarrow> payload \<Rightarrow> string \<Rightarrow> catalog_world \<Rightarrow> catalog_world" where
  "audited E action agent actor details resource_type w = w\<lparr>
     cg_audit := record_catalog_change (ce_ts E) action agent actor (Some details) resource_type (Some agent) (cg_audit w),
     cg_reloads := Suc (cg_reloads w)\<rparr>"

definition validation_error :: "string \<Rightarrow> exc + 'a" where
  "validation_error msg = Inl (PyExc (''CatalogValidationError: '' @ msg))"

text \<open>validate_agent with both sets known; the texts name the offenders.\<close>

definition validate_agent :: "profile_pack list \<Rightarrow> string list \<Rightarrow> string list \<Rightarrow> agent_entry \<Rightarrow> exc + unit" where
  "validate_agent profiles known_tools known_skills e = (
     let unknown_tools = filter (\<lambda>t. t \<notin> set known_tools) (ag_tools e);
         allowed = filter_tools_for_profile (Inr profiles) (ag_tools e) (ag_profile_id e) None;
         unknown_skills = filter (\<lambda>s. s \<notin> set known_skills) (ag_skills e) in
     if unknown_tools \<noteq> [] then validation_error (''Unknown tools: '' @ py_join '', '' unknown_tools)
     else if length allowed \<noteq> length (ag_tools e) then validation_error (''Tools blocked by profile policy: '' @
       py_join '', '' (sort (remdups (filter (\<lambda>t. t \<notin> set allowed) (ag_tools e)))))
     else if unknown_skills \<noteq> [] then validation_error (''Unknown skills: '' @ py_join '', '' unknown_skills)
     else Inr ())"

fun staging_value :: "staging_status \<Rightarrow> string" where
  "staging_value DRAFT = ''draft''"
| "staging_value VETTED = ''vetted''"
| "staging_value BUILTIN = ''builtin''"

definition validate_skill :: "skill_entry \<Rightarrow> exc + unit" where
  "validate_skill e = (
     if strip (sk_id e) = [] then validation_error ''Skill id is required''
     else if sk_staging_status e = DRAFT \<and> strip (sk_body e) = [] then validation_error ''Draft skill requires non-empty body''
     else Inr ())"

definition sanitized :: "catalog_env \<Rightarrow> string \<Rightarrow> string \<Rightarrow> exc + string" where
  "sanitized E source content = (case sanitize (ce_detector E) (Src_other source) content of
     Inl e \<Rightarrow> Inl (SecurityViolation e) | Inr s \<Rightarrow> Inr s)"

definition clean_agent :: "catalog_env \<Rightarrow> agent_entry \<Rightarrow> exc + agent_entry" where
  "clean_agent E e = (if ag_system_prompt e = [] then Inr e
     else rbind (sanitized E ''catalog'' (ag_system_prompt e)) (\<lambda>p.
       Inr (e\<lparr>ag_system_prompt := p, ag_system_prompt_digest := take 16 (ce_sha256 E p)\<rparr>)))"

definition gate_upsert_agent :: "catalog_env \<Rightarrow> string \<Rightarrow> agent_entry \<Rightarrow> catalog_world \<Rightarrow> catalog_world \<times> (exc + agent_entry)" where
  "gate_upsert_agent E actor e0 w = (
     case rbind (clean_agent E e0) (\<lambda>e. rbind (validate_agent (list_profiles (cg_agents w)) (ce_tool_names E)
         (map sk_id (list_items skill_ops sk_id None False (cg_skills w))) e) (\<lambda>_. Inr e)) of
       Inl x \<Rightarrow> (w, Inl x)
     | Inr e \<Rightarrow> (let c = upsert_agent e (cg_agents w);
           saved = (case get_agent c (ag_name e) of Some s \<Rightarrow> s | None \<Rightarrow> e) in
         (audited E ''upsert'' (ag_name e) actor [(''version'', PInt (ag_version saved))] ''agent'' (w\<lparr>cg_agents := c\<rparr>), Inr saved)))"

definition clean_skill :: "catalog_env \<Rightarrow> skill_entry \<Rightarrow> exc + skill_entry" where
  "clean_skill E e = (if sk_body e = [] then Inr e
     else rbind (sanitized E ''skill'' (sk_body e)) (\<lambda>b. Inr (e\<lparr>sk_body := b, sk_content_hash := ce_sha256 E b\<rparr>)))"

definition gate_upsert_skill :: "catalog_env \<Rightarrow> string \<Rightarrow> skill_entry \<Rightarrow> catalog_world \<Rightarrow> catalog_world \<times> (exc + skill_entry)" where
  "gate_upsert_skill E actor e0 w = (
     case rbind (clean_skill E e0) (\<lambda>e. rbind (validate_skill e) (\<lambda>_. Inr e)) of
       Inl x \<Rightarrow> (w, Inl x)
     | Inr e \<Rightarrow> (let c = upsert_skill e (cg_skills w);
           saved = (case get_item c (sk_id e) (sk_profile_id e) of Some s \<Rightarrow> s | None \<Rightarrow> e) in
         (audited E ''upsert'' (sk_id e) actor [(''version'', PInt (sk_version saved)),
            (''staging'', PStr (staging_value (sk_staging_status saved)))] ''skill'' (w\<lparr>cg_skills := c\<rparr>), Inr saved)))"

text \<open>get_skill gives the stored object, whose status is set before the upsert.\<close>

definition gate_approve_skill ::
  "catalog_env \<Rightarrow> string \<Rightarrow> string \<Rightarrow> string \<Rightarrow> catalog_world \<Rightarrow> catalog_world \<times> (exc + skill_entry)" where
  "gate_approve_skill E actor profile_id skill_id w = (case get_item (cg_skills w) skill_id profile_id of
     None \<Rightarrow> (w, Inl (PyExc ''KeyError''))
   | Some e \<Rightarrow> (let v = e\<lparr>sk_staging_status := VETTED\<rparr> in
       gate_upsert_skill E actor v (w\<lparr>cg_skills := AList.update (skill_id, profile_id) v (cg_skills w)\<rparr>)))"

definition gate_upsert_plan :: "catalog_env \<Rightarrow> string \<Rightarrow> plan_entry \<Rightarrow> catalog_world \<Rightarrow> catalog_world \<times> plan_entry" where
  "gate_upsert_plan E actor e w = (let c = upsert_plan e (cg_plans w);
       saved = (case get_item c (pl_id e) (pl_profile_id e) of Some s \<Rightarrow> s | None \<Rightarrow> e) in
     (audited E ''upsert'' (pl_id e) actor [(''version'', PInt (pl_version saved))] ''plan'' (w\<lparr>cg_plans := c\<rparr>), saved))"

definition gate_upsert_mcp_server :: "catalog_env \<Rightarrow> string \<Rightarrow> mcp_server_entry \<Rightarrow> catalog_world \<Rightarrow> catalog_world \<times> mcp_server_entry" where
  "gate_upsert_mcp_server E actor e w =
     (audited E ''upsert'' (mcp_id e) actor [(''url'', PStr (mcp_url e))] ''mcp_server''
        (w\<lparr>cg_mcp := upsert_server e (cg_mcp w)\<rparr>), e)"

text \<open>A delete that finds nothing is not audited, but reloads.\<close>

definition deleted :: "catalog_env \<Rightarrow> string \<Rightarrow> string \<Rightarrow> string \<Rightarrow> bool \<Rightarrow> catalog_world \<Rightarrow> catalog_world" where
  "deleted E name actor resource_type ok w = (if ok then audited E ''delete'' name actor [] resource_type w
     else w\<lparr>cg_reloads := Suc (cg_reloads w)\<rparr>)"

definition gate_delete_agent :: "catalog_env \<Rightarrow> string \<Rightarrow> string \<Rightarrow> string \<Rightarrow> catalog_world \<Rightarrow> catalog_world \<times> bool" where
  "gate_delete_agent E actor profile_id name w = (case delete_agent name profile_id (cg_agents w) of
     (c, ok) \<Rightarrow> (deleted E name actor ''agent'' ok (w\<lparr>cg_agents := c\<rparr>), ok))"

definition gate_delete_skill :: "catalog_env \<Rightarrow> string \<Rightarrow> string \<Rightarrow> string \<Rightarrow> catalog_world \<Rightarrow> catalog_world \<times> bool" where
  "gate_delete_skill E actor profile_id skill_id w = (case delete_skill skill_id profile_id (cg_skills w) of
     (c, ok) \<Rightarrow> (deleted E skill_id actor ''skill'' ok (w\<lparr>cg_skills := c\<rparr>), ok))"

subsection \<open>The mutation service\<close>

text \<open>What it adds to the gate, with an audit log.\<close>

definition mutation_upsert_tool :: "catalog_env \<Rightarrow> string \<Rightarrow> tool_entry \<Rightarrow> catalog_world \<Rightarrow> catalog_world \<times> tool_entry" where
  "mutation_upsert_tool E actor e w =
     (audited E ''upsert'' (tl_id e) actor [(''name'', PStr (tl_name e))] ''tool''
        (w\<lparr>cg_tools := upsert_tool e (cg_tools w)\<rparr>), e\<lparr>tl_source := API\<rparr>)"

definition mutation_upsert_profile :: "catalog_env \<Rightarrow> string \<Rightarrow> profile_pack \<Rightarrow> catalog_world \<Rightarrow> catalog_world \<times> profile_pack" where
  "mutation_upsert_profile E actor p w =
     (audited E ''upsert'' (pk_id p) actor [] ''profile'' (w\<lparr>cg_agents := upsert_profile p (cg_agents w)\<rparr>), p)"

subsection \<open>The use cases\<close>

definition a_opt :: "(pyval \<Rightarrow> exc + 'a) \<Rightarrow> pyval \<Rightarrow> exc + 'a option" where
  "a_opt validate v = (if v = PNone then Inr None else rbind (validate v) (\<lambda>x. Inr (Some x)))"

definition a_number :: "(pyval \<Rightarrow> 'a option) \<Rightarrow> pyval \<Rightarrow> exc + 'a" where
  "a_number read v = (case read v of Some x \<Rightarrow> Inr x | None \<Rightarrow> invalid)"

text \<open>The schema named in the body must be registered unless the catalog is dynamic; a value that is no key
  of a dict raises itself.\<close>

definition check_schema_name :: "catalog_env \<Rightarrow> pyval \<Rightarrow> exc + unit" where
  "check_schema_name E v = (
     if \<not> truthy v then Inr ()
     else (case v of
       PStr s \<Rightarrow> if s \<in> set (ce_schema_names E) \<or> ce_dynamic_catalog E then Inr () else Inl (PyExc ''KeyError'')
     | PList vs \<Rightarrow> Inl (PyExc ''TypeError'')
     | PDict d \<Rightarrow> Inl (PyExc ''TypeError'')
     | _ \<Rightarrow> if ce_dynamic_catalog E then Inr () else Inl (PyExc ''KeyError'')))"

text \<open>A default that is the existing entry's value where there is one.\<close>

definition old_field :: "agent_entry option \<Rightarrow> (agent_entry \<Rightarrow> 'a) \<Rightarrow> 'a \<Rightarrow> 'a option" where
  "old_field ex f d = Some (case ex of Some e \<Rightarrow> f e | None \<Rightarrow> d)"

text \<open>The entry a body makes, next to the one there is: what the body does not name is the default, or the
  existing value for some fields. hitl_tools and tags are not among them.\<close>

definition agent_of_body :: "catalog_env \<Rightarrow> string \<Rightarrow> payload \<Rightarrow> agent_entry option \<Rightarrow> exc + agent_entry" where
  "agent_of_body E name body ex = (
     let strs = a_list a_str in
     rbind (field a_str (Some []) ''description'' body) (\<lambda>description.
     rbind (field a_str (Some ''worker'') ''role'' body) (\<lambda>role.
     rbind (field (a_opt a_str) (Some None) ''output_schema'' body) (\<lambda>schema.
     rbind (field strs (Some []) ''tools'' body) (\<lambda>tools.
     rbind (field strs (Some []) ''skills'' body) (\<lambda>skills.
     rbind (field strs (old_field ex ag_capabilities []) ''capabilities'' body) (\<lambda>capabilities.
     rbind (field a_str (Some ''internal'') ''trust_level'' body) (\<lambda>trust.
     rbind (field strs (Some []) ''bus_recipients'' body) (\<lambda>recipients.
     rbind (field a_bool (Some True) ''enabled'' body) (\<lambda>enabled.
     rbind (field a_str (Some DEFAULT_PROFILE_ID) ''profile_id'' body) (\<lambda>profile.
     rbind (field a_str (old_field ex ag_system_prompt []) ''system_prompt'' body) (\<lambda>prompt.
     rbind (field a_str (old_field ex ag_version_tag []) ''version_tag'' body) (\<lambda>tag.
     rbind (field (a_opt (a_number (ce_int E))) (old_field ex ag_budget_max_tokens None) ''budget_max_tokens'' body) (\<lambda>tokens.
     rbind (field (a_opt (a_number (ce_float E))) (old_field ex ag_budget_max_cost_usd None) ''budget_max_cost_usd'' body) (\<lambda>cost.
     rbind (field (a_opt (a_number (ce_int E))) (old_field ex ag_budget_max_tool_calls None) ''budget_max_tool_calls'' body) (\<lambda>calls.
     rbind (field a_str (old_field ex ag_data_clearance ''internal'') ''data_clearance'' body) (\<lambda>clearance.
     Inr ((AgentCatalogEntry name (ce_now E))\<lparr>ag_description := description, ag_role := role, ag_output_schema := schema,
       ag_tools := tools, ag_skills := skills, ag_capabilities := capabilities, ag_trust_level := trust,
       ag_bus_recipients := recipients, ag_enabled := enabled, ag_profile_id := profile, ag_system_prompt := prompt,
       ag_system_prompt_digest := (case ex of Some e \<Rightarrow> ag_system_prompt_digest e | None \<Rightarrow> []),
       ag_version_tag := tag, ag_quality := (case ex of Some e \<Rightarrow> ag_quality e | None \<Rightarrow> PersonaQuality),
       ag_source := API, ag_budget_max_tokens := tokens, ag_budget_max_cost_usd := cost,
       ag_budget_max_tool_calls := calls, ag_data_clearance := clearance\<rparr>))))))))))))))))))"

definition upsert_catalog_agent ::
  "catalog_env \<Rightarrow> string \<Rightarrow> string \<Rightarrow> payload \<Rightarrow> catalog_world \<Rightarrow> catalog_world \<times> (exc + agent_entry)" where
  "upsert_catalog_agent E actor name body w = (
     case rbind (check_schema_name E (get_or body ''output_schema'' PNone))
            (\<lambda>_. agent_of_body E name body (get_agent (cg_agents w) name)) of
       Inl x \<Rightarrow> (w, Inl x)
     | Inr e \<Rightarrow> gate_upsert_agent E actor e w)"

definition body_profile :: "catalog_env \<Rightarrow> payload \<Rightarrow> string" where
  "body_profile E body = resolve_profile_id (ce_str E) None (Some body) None"

definition name_or_id :: "string \<Rightarrow> payload \<Rightarrow> pyval" where
  "name_or_id item_id body = py_or (get_or body ''name'' PNone) (PStr item_id)"

definition parse_staging :: "pyval \<Rightarrow> exc + staging_status" where
  "parse_staging v = (
     if v = PStr ''draft'' then Inr DRAFT else if v = PStr ''vetted'' then Inr VETTED
     else if v = PStr ''builtin'' then Inr BUILTIN else Inl (PyExc ''ValueError''))"

definition skill_of_body :: "catalog_env \<Rightarrow> string \<Rightarrow> payload \<Rightarrow> exc + skill_entry" where
  "skill_of_body E skill_id body =
     rbind (parse_staging (get_or body ''staging_status'' (PStr ''draft''))) (\<lambda>staging.
          rbind (a_str (name_or_id skill_id body)) (\<lambda>name.
          rbind (field a_str (Some []) ''description'' body) (\<lambda>description.
          rbind (field a_str (Some []) ''body'' body) (\<lambda>text.
          rbind (field a_str (Some ''community'') ''trust_tier'' body) (\<lambda>tier.
          Inr \<lparr>sk_id = skill_id, sk_profile_id = body_profile E body, sk_name = name, sk_description = description,
            sk_body = text, sk_content_hash = [], sk_trust_tier = tier, sk_staging_status = staging, sk_enabled = True,
            sk_version = 1, sk_quality = \<lparr>usage_count = 0, load_errors = 0\<rparr>, sk_source = FILESYSTEM,
            sk_updated_at = ce_now E\<rparr>)))))"

definition upsert_skill_body ::
  "catalog_env \<Rightarrow> string \<Rightarrow> string \<Rightarrow> payload \<Rightarrow> catalog_world \<Rightarrow> catalog_world \<times> (exc + skill_entry)" where
  "upsert_skill_body E actor skill_id body w = (
     case skill_of_body E skill_id body of
       Inl x \<Rightarrow> (w, Inl x)
     | Inr e \<Rightarrow> gate_upsert_skill E actor e w)"

definition plan_of_body :: "catalog_env \<Rightarrow> string \<Rightarrow> payload \<Rightarrow> exc + plan_entry" where
  "plan_of_body E plan_id body =
     rbind (a_str (name_or_id plan_id body)) (\<lambda>name.
          rbind (field a_str (Some []) ''description'' body) (\<lambda>description.
          rbind (field (a_list a_dict) (Some []) ''rules'' body) (\<lambda>rules.
          rbind (field a_bool (Some True) ''enabled'' body) (\<lambda>enabled.
          Inr \<lparr>pl_id = plan_id, pl_profile_id = body_profile E body, pl_name = name, pl_description = description,
            pl_rules = rules, pl_enabled = enabled, pl_active = False, pl_version = 1,
            pl_quality = \<lparr>plq_match_count = 0, plq_false_positive_rate = 0, plq_avg_jobs_per_event = 0\<rparr>,
            pl_source = FILESYSTEM, pl_updated_at = ce_now E\<rparr>))))"

definition upsert_plan_body ::
  "catalog_env \<Rightarrow> string \<Rightarrow> string \<Rightarrow> payload \<Rightarrow> catalog_world \<Rightarrow> catalog_world \<times> (exc + plan_entry)" where
  "upsert_plan_body E actor plan_id body w = (
     case plan_of_body E plan_id body of
       Inl x \<Rightarrow> (w, Inl x)
     | Inr e \<Rightarrow> (case gate_upsert_plan E actor e w of (w1, saved) \<Rightarrow> (w1, Inr saved)))"

definition mcp_of_body :: "catalog_env \<Rightarrow> string \<Rightarrow> payload \<Rightarrow> exc + mcp_server_entry" where
  "mcp_of_body E server_id body =
     rbind (case dget body ''url'' of Some v \<Rightarrow> a_str v | None \<Rightarrow> Inl (PyExc ''KeyError'')) (\<lambda>url.
          rbind (field a_str (Some ''internal'') ''trust_tier'' body) (\<lambda>tier.
          rbind (field (a_list a_str) (Some []) ''allowed_tools'' body) (\<lambda>tools.
          rbind (field a_bool (Some True) ''enabled'' body) (\<lambda>enabled.
          Inr \<lparr>mcp_id = server_id, mcp_url = url, mcp_trust_tier = tier, mcp_allowed_tools = tools,
            mcp_enabled = enabled, mcp_health_status = ''unknown'', mcp_profile_id = body_profile E body,
            mcp_updated_at = ce_now E\<rparr>))))"

definition upsert_mcp_body ::
  "catalog_env \<Rightarrow> string \<Rightarrow> string \<Rightarrow> payload \<Rightarrow> catalog_world \<Rightarrow> catalog_world \<times> (exc + mcp_server_entry)" where
  "upsert_mcp_body E actor server_id body w = (
     case mcp_of_body E server_id body of
       Inl x \<Rightarrow> (w, Inl x)
     | Inr e \<Rightarrow> (case gate_upsert_mcp_server E actor e w of (w1, saved) \<Rightarrow> (w1, Inr saved)))"

definition tool_of_body :: "catalog_env \<Rightarrow> string \<Rightarrow> payload \<Rightarrow> exc + tool_entry" where
  "tool_of_body E tool_id body =
     rbind (a_str (name_or_id tool_id body)) (\<lambda>name.
          rbind (field a_str (Some []) ''description'' body) (\<lambda>description.
          rbind (field a_str (Some ''medium'') ''risk_tier'' body) (\<lambda>tier.
          rbind (field a_str (Some ''builtin'') ''handler'' body) (\<lambda>handler.
          rbind (field a_bool (Some True) ''enabled'' body) (\<lambda>enabled.
          Inr \<lparr>tl_id = tool_id, tl_profile_id = body_profile E body, tl_name = name, tl_description = description,
            tl_risk_tier = tier, tl_handler = handler, tl_enabled = enabled, tl_source = FILESYSTEM,
            tl_updated_at = ce_now E\<rparr>)))))"

definition upsert_tool_body ::
  "catalog_env \<Rightarrow> string \<Rightarrow> string \<Rightarrow> payload \<Rightarrow> catalog_world \<Rightarrow> catalog_world \<times> (exc + tool_entry)" where
  "upsert_tool_body E actor tool_id body w = (
     case tool_of_body E tool_id body of
       Inl x \<Rightarrow> (w, Inl x)
     | Inr e \<Rightarrow> (case mutation_upsert_tool E actor e w of (w1, saved) \<Rightarrow> (w1, Inr saved)))"

subsection \<open>Merging policies\<close>

definition dict_update :: "payload \<Rightarrow> payload \<Rightarrow> payload" where
  "dict_update d new = fold (\<lambda>(k, v). dput k v) new d"

text \<open>dict(value or {}) of a value that is a dict.\<close>

definition or_dict :: "pyval \<Rightarrow> payload" where
  "or_dict v = (case v of PDict d \<Rightarrow> d | _ \<Rightarrow> [])"

text \<open>sorted(set(xs) | set(ys)) of strings; what else is in the lists raises, here or when the policy is
  validated.\<close>

definition sorted_union :: "pyval list \<Rightarrow> pyval list \<Rightarrow> exc + pyval list" where
  "sorted_union xs ys = rbind (traverse (\<lambda>v. case v of PStr s \<Rightarrow> Inr s | _ \<Rightarrow> Inl (PyExc ''TypeError'')) (xs @ ys))
     (\<lambda>ss. Inr (map PStr (sort (remdups ss))))"

definition merge_mode_key :: "string \<times> pyval \<Rightarrow> payload \<Rightarrow> exc + payload" where
  "merge_mode_key kv merged = (case kv of
     (sub_key, PList vs) \<Rightarrow> rbind (py_iter (py_or (get_or merged sub_key PNone) (PList []))) (\<lambda>old.
        rbind (sorted_union old vs) (\<lambda>u. Inr (dput sub_key (PList u) merged)))
   | (sub_key, v) \<Rightarrow> Inr (dput sub_key v merged))"

primrec merge_mode :: "payload \<Rightarrow> payload \<Rightarrow> exc + payload" where
  "merge_mode [] merged = Inr merged"
| "merge_mode (kv # kvs) merged = rbind (merge_mode_key kv merged) (merge_mode kvs)"

definition merge_policy_key :: "string \<times> pyval \<Rightarrow> payload \<Rightarrow> exc + payload" where
  "merge_policy_key kv data = (case kv of
     (key, PNone) \<Rightarrow> Inr data
   | (key, PDict d) \<Rightarrow>
       if key \<in> {''tool_allowlist'', ''tool_risk'', ''trace_critic'', ''anomaly'', ''quality_signals''}
       then Inr (dput key (PDict (dict_update (or_dict (get_or data key PNone)) d)) data)
       else if key = ''mode_policy''
       then rbind (merge_mode d (or_dict (get_or data key PNone))) (\<lambda>merged. Inr (dput key (PDict merged) data))
       else Inr (dput key (PDict d) data)
   | (key, v) \<Rightarrow> Inr (dput key v data))"

primrec merge_policy_data :: "payload \<Rightarrow> payload \<Rightarrow> exc + payload" where
  "merge_policy_data [] data = Inr data"
| "merge_policy_data (kv # kvs) data = rbind (merge_policy_key kv data) (merge_policy_data kvs)"

definition merge_profile_policy :: "catalog_env \<Rightarrow> profile_policy \<Rightarrow> payload \<Rightarrow> exc + profile_policy" where
  "merge_profile_policy E existing patch =
     rbind (merge_policy_data patch (ce_dump_policy E existing)) (\<lambda>data. ce_validate_policy E (PDict data))"

definition merge_profile_pack :: "catalog_env \<Rightarrow> profile_pack option \<Rightarrow> string \<Rightarrow> payload \<Rightarrow> exc + profile_pack" where
  "merge_profile_pack E existing profile_id body = (let strs = a_list a_str in case existing of
     None \<Rightarrow>
       rbind (field a_str (Some profile_id) ''name'' body) (\<lambda>name.
       rbind (field a_str (Some []) ''description'' body) (\<lambda>description.
       rbind (field strs (Some []) ''default_personas'' body) (\<lambda>personas.
       rbind (field strs (Some []) ''default_skills'' body) (\<lambda>skills.
       rbind (ce_validate_policy E (py_or (get_or body ''policy'' PNone) (PDict []))) (\<lambda>policy.
       Inr \<lparr>pk_id = profile_id, pk_name = name, pk_description = description, pk_default_personas = personas,
         pk_default_skills = skills, pk_default_plan = ''incident-triage'', pk_global_rules = [],
         pk_hints_template = [], pk_policy = policy\<rparr>)))))
   | Some old \<Rightarrow>
       rbind (case get_or body ''policy'' PNone of
           PDict patch \<Rightarrow> merge_profile_policy E (pk_policy old) patch | _ \<Rightarrow> Inr (pk_policy old)) (\<lambda>policy.
       rbind (field a_str (Some (pk_name old)) ''name'' body) (\<lambda>name.
       rbind (field a_str (Some (pk_description old)) ''description'' body) (\<lambda>description.
       rbind (field strs (Some (pk_default_personas old)) ''default_personas'' body) (\<lambda>personas.
       rbind (field strs (Some (pk_default_skills old)) ''default_skills'' body) (\<lambda>skills.
       rbind (field a_str (Some (pk_default_plan old)) ''default_plan'' body) (\<lambda>plan.
       rbind (field a_str (Some (pk_global_rules old)) ''global_rules'' body) (\<lambda>rules.
       rbind (field a_str (Some (pk_hints_template old)) ''hints_template'' body) (\<lambda>hints.
       Inr \<lparr>pk_id = profile_id, pk_name = name, pk_description = description, pk_default_personas = personas,
         pk_default_skills = skills, pk_default_plan = plan, pk_global_rules = rules,
         pk_hints_template = hints, pk_policy = policy\<rparr>)))))))))"

definition find_profile :: "string \<Rightarrow> catalog_world \<Rightarrow> profile_pack option" where
  "find_profile profile_id w = find (\<lambda>p. pk_id p = profile_id) (list_profiles (cg_agents w))"

definition upsert_profile_pack ::
  "catalog_env \<Rightarrow> string \<Rightarrow> string \<Rightarrow> payload \<Rightarrow> catalog_world \<Rightarrow> catalog_world \<times> (exc + profile_pack)" where
  "upsert_profile_pack E actor profile_id body w = (
     case merge_profile_pack E (find_profile profile_id w) profile_id body of
       Inl x \<Rightarrow> (w, Inl x)
     | Inr p \<Rightarrow> (case mutation_upsert_profile E actor p w of (w1, saved) \<Rightarrow> (w1, Inr saved)))"

definition new_profile :: "string \<Rightarrow> profile_pack" where
  "new_profile profile_id = \<lparr>pk_id = profile_id, pk_name = profile_id, pk_description = [], pk_default_personas = [],
     pk_default_skills = [], pk_default_plan = ''incident-triage'', pk_global_rules = [], pk_hints_template = [],
     pk_policy = ProfilePolicyPayload\<rparr>"

definition upsert_profile_policy ::
  "catalog_env \<Rightarrow> string \<Rightarrow> string \<Rightarrow> payload \<Rightarrow> catalog_world \<Rightarrow> catalog_world \<times> (exc + profile_policy)" where
  "upsert_profile_policy E actor profile_id patch w = (
     let existing = (case find_profile profile_id w of Some p \<Rightarrow> p | None \<Rightarrow> new_profile profile_id) in
     case merge_profile_policy E (pk_policy existing) patch of
       Inl x \<Rightarrow> (w, Inl x)
     | Inr merged \<Rightarrow> (fst (mutation_upsert_profile E actor (existing\<lparr>pk_policy := merged\<rparr>) w), Inr merged))"

definition apply_seed_defaults ::
  "catalog_env \<Rightarrow> string \<Rightarrow> string \<Rightarrow> catalog_world \<Rightarrow> catalog_world \<times> (exc + profile_policy)" where
  "apply_seed_defaults E actor profile_id w =
     upsert_profile_policy E actor profile_id (ce_dump_policy E default_profile_policy_payload) w"

subsection \<open>The routes\<close>

text \<open>The body of a request after its model: what is not given is the model's default.\<close>

definition filled :: "payload \<Rightarrow> payload \<Rightarrow> payload" where
  "filled defaults body = map (\<lambda>(k, v). (k, get_or body k v)) defaults"

definition agent_put :: payload where
  "agent_put = [(''description'', PStr []), (''role'', PStr ''worker''), (''output_schema'', PNone), (''tools'', PList []),
     (''skills'', PList []), (''capabilities'', PList []), (''trust_level'', PStr ''internal''), (''bus_recipients'', PList []),
     (''enabled'', PBool True), (''profile_id'', PStr DEFAULT_PROFILE_ID), (''system_prompt'', PStr []),
     (''version_tag'', PStr []), (''budget_max_tokens'', PNone), (''budget_max_cost_usd'', PNone),
     (''budget_max_tool_calls'', PNone), (''data_clearance'', PStr ''internal'')]"

definition skill_put :: payload where
  "skill_put = [(''name'', PStr []), (''description'', PStr []), (''body'', PStr []), (''profile_id'', PStr DEFAULT_PROFILE_ID),
     (''trust_tier'', PStr ''community''), (''staging_status'', PStr ''draft'')]"

definition plan_put :: payload where
  "plan_put = [(''name'', PStr []), (''description'', PStr []), (''rules'', PList []),
     (''profile_id'', PStr DEFAULT_PROFILE_ID), (''enabled'', PBool True)]"

definition put_agent :: "catalog_env \<Rightarrow> string \<Rightarrow> string \<Rightarrow> payload \<Rightarrow> catalog_world \<Rightarrow> catalog_world \<times> (exc + agent_entry)" where
  "put_agent E actor name body w = upsert_catalog_agent E actor name (filled agent_put body) w"

definition put_skill :: "catalog_env \<Rightarrow> string \<Rightarrow> string \<Rightarrow> payload \<Rightarrow> catalog_world \<Rightarrow> catalog_world \<times> (exc + skill_entry)" where
  "put_skill E actor skill_id body w = upsert_skill_body E actor skill_id (filled skill_put body) w"

definition put_plan :: "catalog_env \<Rightarrow> string \<Rightarrow> string \<Rightarrow> payload \<Rightarrow> catalog_world \<Rightarrow> catalog_world \<times> (exc + plan_entry)" where
  "put_plan E actor plan_id body w = upsert_plan_body E actor plan_id (filled plan_put body) w"

subsection \<open>All writes\<close>

datatype catalog_write =
    Put_agent string payload
  | Put_skill string payload
  | Put_plan string payload
  | Put_mcp_server string payload
  | Put_tool string payload
  | Put_profile string payload
  | Put_policy string payload
  | Approve_skill string string
  | Delete_agent string string
  | Delete_skill string string

definition raised :: "catalog_world \<times> (exc + 'a) \<Rightarrow> catalog_world \<times> exc option" where
  "raised r = (fst r, case snd r of Inl e \<Rightarrow> Some e | Inr x \<Rightarrow> None)"

fun write_catalog :: "catalog_env \<Rightarrow> string \<Rightarrow> catalog_write \<Rightarrow> catalog_world \<Rightarrow> catalog_world \<times> exc option" where
  "write_catalog E actor (Put_agent n body) w = raised (put_agent E actor n body w)"
| "write_catalog E actor (Put_skill n body) w = raised (put_skill E actor n body w)"
| "write_catalog E actor (Put_plan n body) w = raised (put_plan E actor n body w)"
| "write_catalog E actor (Put_mcp_server n body) w = raised (upsert_mcp_body E actor n body w)"
| "write_catalog E actor (Put_tool n body) w = raised (upsert_tool_body E actor n body w)"
| "write_catalog E actor (Put_profile n body) w = raised (upsert_profile_pack E actor n body w)"
| "write_catalog E actor (Put_policy n patch) w = raised (upsert_profile_policy E actor n patch w)"
| "write_catalog E actor (Approve_skill profile n) w = raised (gate_approve_skill E actor profile n w)"
| "write_catalog E actor (Delete_agent profile n) w = (fst (gate_delete_agent E actor profile n w), None)"
| "write_catalog E actor (Delete_skill profile n) w = (fst (gate_delete_skill E actor profile n w), None)"

fun write_target :: "catalog_write \<Rightarrow> string" where
  "write_target (Put_agent n body) = n"
| "write_target (Put_skill n body) = n"
| "write_target (Put_plan n body) = n"
| "write_target (Put_mcp_server n body) = n"
| "write_target (Put_tool n body) = n"
| "write_target (Put_profile n body) = n"
| "write_target (Put_policy n patch) = n"
| "write_target (Approve_skill profile n) = n"
| "write_target (Delete_agent profile n) = n"
| "write_target (Delete_skill profile n) = n"

fun is_delete :: "catalog_write \<Rightarrow> bool" where
  "is_delete (Delete_agent profile n) = True"
| "is_delete (Delete_skill profile n) = True"
| "is_delete op = False"

lemma raised_simps [simp]: "raised (w, Inl e) = (w, Some e)" "raised (w, Inr x) = (w, None)"
  "\<not> isl r \<Longrightarrow> raised (w, r) = (w, None)"
  by (auto simp: raised_def split: sum.split)

text \<open>One record by the actor about the target, and a reload.\<close>

definition audited_once :: "string \<Rightarrow> string \<Rightarrow> catalog_world \<Rightarrow> catalog_world \<Rightarrow> bool" where
  "audited_once actor target w w' = (cg_reloads w' = Suc (cg_reloads w)
     \<and> (\<exists>a. cg_audit w' = cg_audit w @ [a] \<and> au_actor a = actor \<and> au_agent a = target))"

lemma audited_audited_once: "audited_once actor n w (audited E action n actor details rtype (w\<lparr>cg_agents := a\<rparr>))"
  "audited_once actor n w (audited E action n actor details rtype (w\<lparr>cg_skills := sk\<rparr>))"
  "audited_once actor n w (audited E action n actor details rtype (w\<lparr>cg_plans := pl\<rparr>))"
  "audited_once actor n w (audited E action n actor details rtype (w\<lparr>cg_mcp := m\<rparr>))"
  "audited_once actor n w (audited E action n actor details rtype (w\<lparr>cg_tools := t\<rparr>))"
  by (simp_all add: audited_once_def audited_def record_catalog_change_def)

text \<open>What may be stored: prompts and skill texts are empty or among the allowed ones of their name, an agent's
  tools are registered.\<close>

definition agent_admitted :: "catalog_env \<Rightarrow> (string \<Rightarrow> string \<Rightarrow> bool) \<Rightarrow> agent_entry \<Rightarrow> bool" where
  "agent_admitted E prompt_ok e = ((ag_system_prompt e = [] \<or> prompt_ok (ag_name e) (ag_system_prompt e)) \<and> set (ag_tools e) \<subseteq> set (ce_tool_names E))"

definition skill_admitted :: "(string \<Rightarrow> string \<Rightarrow> bool) \<Rightarrow> skill_entry \<Rightarrow> bool" where
  "skill_admitted body_ok e = (sk_body e = [] \<or> body_ok (sk_id e) (sk_body e))"

lemma audited_fields [simp]:
  "cg_agents (audited E action n actor details rtype w) = cg_agents w"
  "cg_skills (audited E action n actor details rtype w) = cg_skills w"
  "cg_plans (audited E action n actor details rtype w) = cg_plans w"
  by (simp_all add: audited_def)

lemma clean_agent_name: "clean_agent E e = Inr e' \<Longrightarrow> ag_name e' = ag_name e"
  by (auto simp: clean_agent_def result_simps split: if_splits)

lemma sanitized_screening: "sanitized E src s = Inr t \<Longrightarrow> screening (ce_detector E) (Src_other src) s t"
  by (auto simp: sanitized_def intro: sanitize_screening split: sum.splits)

text \<open>The prompt and the text that stand for those given.\<close>

definition prompt_screened :: "catalog_env \<Rightarrow> string \<Rightarrow> string \<Rightarrow> bool" where
  "prompt_screened E given kept = (given = [] \<and> kept = [] \<or> given \<noteq> [] \<and> screening (ce_detector E) (Src_other ''catalog'') given kept)"

definition body_screened :: "catalog_env \<Rightarrow> string \<Rightarrow> string \<Rightarrow> bool" where
  "body_screened E given kept = (given = [] \<and> kept = [] \<or> given \<noteq> [] \<and> screening (ce_detector E) (Src_other ''skill'') given kept)"

lemma clean_agent_facts: "clean_agent E e = Inr e' \<Longrightarrow> ag_name e' = ag_name e \<and> ag_tools e' = ag_tools e
    \<and> prompt_screened E (ag_system_prompt e) (ag_system_prompt e')"
  by (auto simp: clean_agent_def result_simps prompt_screened_def dest: sanitized_screening split: if_splits)

lemma gate_agent_cases:
  "gate_upsert_agent E actor e w = (w', r) \<Longrightarrow> (\<exists>x. r = Inl x \<and> w' = w)
    \<or> (\<exists>e' x. r = Inr x \<and> ag_name e' = ag_name e \<and> set (ag_tools e') \<subseteq> set (ce_tool_names E)
        \<and> prompt_screened E (ag_system_prompt e) (ag_system_prompt e') \<and> cg_agents w' = upsert_agent e' (cg_agents w)
        \<and> cg_skills w' = cg_skills w \<and> audited_once actor (ag_name e) w w')"
proof -
  assume g: "gate_upsert_agent E actor e w = (w', r)"
  let ?v = "\<lambda>e'. validate_agent (list_profiles (cg_agents w)) (ce_tool_names E) (map sk_id (list_items skill_ops sk_id None False (cg_skills w))) e'"
  consider x where "clean_agent E e = Inl x" | e' x where "clean_agent E e = Inr e'" "?v e' = Inl x"
    | e' where "clean_agent E e = Inr e'" "?v e' = Inr ()" by (metis old.sum.exhaust old.unit.exhaust)
  then show ?thesis
  proof cases
    case (3 e')
    then have "set (ag_tools e') \<subseteq> set (ce_tool_names E)"
      by (auto simp: validate_agent_def validation_error_def Let_def filter_empty_conv split: if_splits)
    moreover from g 3 have "\<exists>x. r = Inr x" "cg_agents w' = upsert_agent e' (cg_agents w)" "cg_skills w' = cg_skills w"
        "audited_once actor (ag_name e) w w'"
      by (auto simp: gate_upsert_agent_def Let_def audited_audited_once clean_agent_name[OF 3(1), symmetric])
    ultimately show ?thesis using clean_agent_facts[OF 3(1)] by blast
  next
    case (1 x)
    with g have "r = Inl x \<and> w' = w" by (auto simp: gate_upsert_agent_def)
    then show ?thesis by blast
  next
    case (2 e' x)
    with g have "r = Inl x \<and> w' = w" by (auto simp: gate_upsert_agent_def)
    then show ?thesis by blast
  qed
qed

lemma clean_skill_facts: "clean_skill E e = Inr e' \<Longrightarrow> sk_id e' = sk_id e \<and> sk_staging_status e' = sk_staging_status e
    \<and> body_screened E (sk_body e) (sk_body e')"
  by (auto simp: clean_skill_def result_simps body_screened_def dest: sanitized_screening split: if_splits)

lemma gate_skill_cases:
  "gate_upsert_skill E actor e w = (w', r) \<Longrightarrow> (\<exists>x. r = Inl x \<and> w' = w)
    \<or> (\<exists>e' x. r = Inr x \<and> sk_id e' = sk_id e \<and> body_screened E (sk_body e) (sk_body e')
        \<and> cg_skills w' = upsert_skill e' (cg_skills w) \<and> cg_agents w' = cg_agents w \<and> audited_once actor (sk_id e) w w')"
proof -
  assume g: "gate_upsert_skill E actor e w = (w', r)"
  consider x where "clean_skill E e = Inl x" | e' x where "clean_skill E e = Inr e'" "validate_skill e' = Inl x"
    | e' where "clean_skill E e = Inr e'" "validate_skill e' = Inr ()" by (metis old.sum.exhaust old.unit.exhaust)
  then show ?thesis
  proof cases
    case (3 e')
    from clean_skill_facts[OF 3(1)] have f: "sk_id e' = sk_id e" "body_screened E (sk_body e) (sk_body e')" by simp_all
    from g 3 have "\<exists>x. r = Inr x" "cg_skills w' = upsert_skill e' (cg_skills w)" "cg_agents w' = cg_agents w"
        "audited_once actor (sk_id e) w w'"
      by (auto simp: gate_upsert_skill_def Let_def f(1)[symmetric] audited_audited_once)
    with f show ?thesis by blast
  next
    case (1 x)
    with g have "r = Inl x \<and> w' = w" by (auto simp: gate_upsert_skill_def)
    then show ?thesis by blast
  next
    case (2 e' x)
    with g have "r = Inl x \<and> w' = w" by (auto simp: gate_upsert_skill_def)
    then show ?thesis by blast
  qed
qed

definition agents_admitted :: "catalog_env \<Rightarrow> (string \<Rightarrow> string \<Rightarrow> bool) \<Rightarrow> mem_catalog \<Rightarrow> bool" where
  "agents_admitted E prompt_ok c = (\<forall>x \<in> set (mc_agents c). agent_admitted E prompt_ok (snd x))"

text \<open>Skills also stand under their own id and profile.\<close>

definition skills_admitted :: "(string \<Rightarrow> string \<Rightarrow> bool) \<Rightarrow> skill_entry payload_catalog \<Rightarrow> bool" where
  "skills_admitted body_ok c = (\<forall>x \<in> set c. skill_admitted body_ok (snd x) \<and> fst x = (sk_id (snd x), sk_profile_id (snd x)))"

definition catalog_admitted ::
  "catalog_env \<Rightarrow> (string \<Rightarrow> string \<Rightarrow> bool) \<Rightarrow> (string \<Rightarrow> string \<Rightarrow> bool) \<Rightarrow> catalog_world \<Rightarrow> bool" where
  "catalog_admitted E prompt_ok body_ok w = (agents_admitted E prompt_ok (cg_agents w) \<and> skills_admitted body_ok (cg_skills w))"

text \<open>A catalog whose prompts and skill texts all carry the marker, as a screened text does.\<close>

definition catalog_clean :: "catalog_env \<Rightarrow> catalog_world \<Rightarrow> bool" where
  "catalog_clean E w = catalog_admitted E (\<lambda>n. is_wrapped) (\<lambda>n. is_wrapped) w"

text \<open>The texts a write gives, and that what screening makes of them is allowed.\<close>

fun texts_ok :: "catalog_env \<Rightarrow> (string \<Rightarrow> string \<Rightarrow> bool) \<Rightarrow> (string \<Rightarrow> string \<Rightarrow> bool) \<Rightarrow> catalog_write \<Rightarrow> bool" where
  "texts_ok E prompt_ok body_ok (Put_agent n body) = (\<forall>given kept. get_or body ''system_prompt'' (PStr []) = PStr given
     \<longrightarrow> given \<noteq> [] \<longrightarrow> screening (ce_detector E) (Src_other ''catalog'') given kept \<longrightarrow> prompt_ok n kept)"
| "texts_ok E prompt_ok body_ok (Put_skill n body) = (\<forall>given kept. get_or body ''body'' (PStr []) = PStr given
     \<longrightarrow> given \<noteq> [] \<longrightarrow> screening (ce_detector E) (Src_other ''skill'') given kept \<longrightarrow> body_ok n kept)"
| "texts_ok E prompt_ok body_ok op = True"

text \<open>How a write ends: it raises and, but for an approval, changes nothing; or it is recorded once; or it
  deletes nothing and only reloads.\<close>

definition write_settled :: "string \<Rightarrow> catalog_write \<Rightarrow> catalog_world \<Rightarrow> catalog_world \<times> exc option \<Rightarrow> bool" where
  "write_settled actor op w r = (case r of
     (w', Some x) \<Rightarrow> cg_audit w' = cg_audit w \<and> cg_reloads w' = cg_reloads w \<and> ((\<forall>p n. op \<noteq> Approve_skill p n) \<longrightarrow> w' = w)
   | (w', None) \<Rightarrow> audited_once actor (write_target op) w w'
       \<or> is_delete op \<and> w' = w\<lparr>cg_reloads := Suc (cg_reloads w)\<rparr>)"

lemma agents_update:
  assumes "\<forall>x \<in> set d. P (snd x)" and "P e"
  shows "\<forall>x \<in> set (AList.update k e d). P (snd x)"
  using assms set_update_subset[of k e d] by fastforce

lemma agent_of_body_name: "agent_of_body E n body ex = Inr e \<Longrightarrow> ag_name e = n"
  by (auto simp: agent_of_body_def AgentCatalogEntry_def Let_def rbind_Inr_iff)

lemma filled_get: "dget defaults k = Some v \<Longrightarrow> dget (filled defaults body) k = Some (get_or body k v)"
  by (induction defaults) (auto simp: filled_def split: if_splits)

lemma a_str_Inr: "a_str v = Inr s \<longleftrightarrow> v = PStr s"
  by (cases v) (auto simp: a_str_def invalid_def)

lemma agent_of_body_prompt:
  assumes "agent_of_body E n (filled agent_put body) ex = Inr e"
  shows "get_or body ''system_prompt'' (PStr []) = PStr (ag_system_prompt e)"
proof -
  have "dget (filled agent_put body) ''system_prompt'' = Some (get_or body ''system_prompt'' (PStr []))"
    by (simp add: filled_get agent_put_def)
  with assms show ?thesis
    by (auto simp: agent_of_body_def AgentCatalogEntry_def Let_def rbind_Inr_iff field_def[of a_str _ "''system_prompt''"] a_str_Inr)
qed

lemma skill_of_body_text:
  assumes "skill_of_body E n (filled skill_put body) = Inr e"
  shows "get_or body ''body'' (PStr []) = PStr (sk_body e)"
proof -
  have "dget (filled skill_put body) ''body'' = Some (get_or body ''body'' (PStr []))"
    by (simp add: filled_get skill_put_def)
  with assms show ?thesis
    by (auto simp: skill_of_body_def rbind_Inr_iff field_def[of a_str _ "''body''"] a_str_Inr)
qed

lemma put_agent_settled: "put_agent E actor n body w = (w', r) \<Longrightarrow> (\<exists>x. r = Inl x \<and> w' = w)
    \<or> (\<exists>e' x. r = Inr x \<and> (texts_ok E PA PS (Put_agent n body) \<longrightarrow> agent_admitted E PA e') \<and> cg_agents w' = upsert_agent e' (cg_agents w)
        \<and> cg_skills w' = cg_skills w \<and> audited_once actor n w w')"
proof (cases "rbind (check_schema_name E (get_or (filled agent_put body) ''output_schema'' PNone))
    (\<lambda>_. agent_of_body E n (filled agent_put body) (get_agent (cg_agents w) n))")
  case (Inl x)
  assume "put_agent E actor n body w = (w', r)"
  with Inl have "r = Inl x \<and> w' = w" by (simp add: put_agent_def upsert_catalog_agent_def)
  then show ?thesis by blast
next
  case (Inr e)
  assume "put_agent E actor n body w = (w', r)"
  with Inr have g: "gate_upsert_agent E actor e w = (w', r)" by (simp add: put_agent_def upsert_catalog_agent_def)
  from Inr have "agent_of_body E n (filled agent_put body) (get_agent (cg_agents w) n) = Inr e" by (auto simp: rbind_Inr_iff)
  note e = agent_of_body_name[OF this] agent_of_body_prompt[OF this]
  have ok: "texts_ok E PA PS (Put_agent n body) \<longrightarrow> agent_admitted E PA e'"
    if "ag_name e' = ag_name e" "prompt_screened E (ag_system_prompt e) (ag_system_prompt e')" "set (ag_tools e') \<subseteq> set (ce_tool_names E)" for e'
    using that e by (auto simp: agent_admitted_def prompt_screened_def)
  from gate_agent_cases[OF g] show ?thesis using ok e(1) by blast
qed

lemma agent_ok_merge [simp]: "agent_admitted E P (merge_entry ex e) = agent_admitted E P e"
  by (simp add: agent_admitted_def merge_entry_def split: option.split)

lemma ok_upsert_agent:
  assumes "agents_admitted E P c" and "agent_admitted E P e"
  shows "agents_admitted E P (upsert_agent e c)"
proof -
  have "\<forall>x \<in> set (dput (ag_name e) (merge_entry (dget (mc_agents c) (ag_name e)) e) (mc_agents c)). agent_admitted E P (snd x)"
    using assms by (intro agents_update) (simp_all add: agents_admitted_def)
  then show ?thesis by (simp add: upsert_agent_def Let_def agents_admitted_def)
qed

lemma skills_ok_update: "skills_admitted P c \<Longrightarrow> skill_admitted P e \<Longrightarrow> skills_admitted P (AList.update (sk_id e, sk_profile_id e) e c)"
  using set_update_subset[of "(sk_id e, sk_profile_id e)" e c] by (fastforce simp: skills_admitted_def)

lemma ok_upsert_skill:
  assumes "skills_admitted P c" and "skill_admitted P e"
  shows "skills_admitted P (upsert_skill e c)"
proof -
  let ?m = "\<lambda>ex. e\<lparr>sk_version := sk_version ex + 1, sk_quality := sk_quality ex\<rparr>"
  have "skills_admitted P (AList.update (sk_id (?m ex), sk_profile_id (?m ex)) (?m ex) c)" for ex
    using assms by (intro skills_ok_update) (simp_all add: skill_admitted_def)
  then show ?thesis using skills_ok_update[OF assms]
    by (auto simp: upsert_skill_def upsert_item_def item_key_def skill_ops_def Let_def split: option.split)
qed

lemma of_body_ids:
  "skill_of_body E n body = Inr sk \<Longrightarrow> sk_id sk = n"
  "plan_of_body E n body = Inr pl \<Longrightarrow> pl_id pl = n"
  "mcp_of_body E n body = Inr m \<Longrightarrow> mcp_id m = n"
  "tool_of_body E n body = Inr t \<Longrightarrow> tl_id t = n"
  by (auto simp: skill_of_body_def plan_of_body_def mcp_of_body_def tool_of_body_def rbind_Inr_iff)

lemma skill_body_settled: "put_skill E actor n body w = (w', r) \<Longrightarrow> (\<exists>x. r = Inl x \<and> w' = w)
    \<or> (\<exists>e' x. r = Inr x \<and> (texts_ok E PA PS (Put_skill n body) \<longrightarrow> skill_admitted PS e') \<and> cg_skills w' = upsert_skill e' (cg_skills w)
        \<and> cg_agents w' = cg_agents w \<and> audited_once actor n w w')"
proof (cases "skill_of_body E n (filled skill_put body)")
  case (Inl x)
  assume "put_skill E actor n body w = (w', r)"
  with Inl have "r = Inl x \<and> w' = w" by (auto simp: put_skill_def upsert_skill_body_def)
  then show ?thesis by blast
next
  case (Inr e)
  assume "put_skill E actor n body w = (w', r)"
  with Inr have "gate_upsert_skill E actor e w = (w', r)" by (simp add: put_skill_def upsert_skill_body_def)
  note g = gate_skill_cases[OF this]
  have ok: "texts_ok E PA PS (Put_skill n body) \<longrightarrow> skill_admitted PS e'" if "sk_id e' = sk_id e" "body_screened E (sk_body e) (sk_body e')" for e'
    using that of_body_ids(1)[OF Inr] skill_of_body_text[OF Inr] by (auto simp: skill_admitted_def body_screened_def)
  from g show ?thesis using ok of_body_ids(1)[OF Inr] by blast
qed

lemma approve_cases:
  assumes "gate_approve_skill E actor p n w = (w', r)"
  shows "(\<exists>x. r = Inl x \<and> (w' = w \<or> (\<exists>e. get_item (cg_skills w) n p = Some e
        \<and> w' = w\<lparr>cg_skills := AList.update (n, p) (e\<lparr>sk_staging_status := VETTED\<rparr>) (cg_skills w)\<rparr>)))
    \<or> (\<exists>e v e' x. r = Inr x \<and> sk_id e' = sk_id e \<and> body_screened E (sk_body e) (sk_body e')
        \<and> get_item (cg_skills w) n p = Some e \<and> v = e\<lparr>sk_staging_status := VETTED\<rparr>
        \<and> cg_skills w' = upsert_skill e' (AList.update (n, p) v (cg_skills w)) \<and> cg_agents w' = cg_agents w
        \<and> audited_once actor (sk_id e) w w')"
proof (cases "get_item (cg_skills w) n p")
  case (Some e)
  let ?v = "e\<lparr>sk_staging_status := VETTED\<rparr>" and ?w = "w\<lparr>cg_skills := AList.update (n, p) (e\<lparr>sk_staging_status := VETTED\<rparr>) (cg_skills w)\<rparr>"
  have g: "gate_upsert_skill E actor ?v ?w = (w', r)" using assms Some by (simp add: gate_approve_skill_def Let_def)
  from gate_skill_cases[OF g] Some show ?thesis by (auto simp: audited_once_def)
qed (use assms in \<open>auto simp: gate_approve_skill_def\<close>)

lemma write_settled_simps:
  "write_settled actor op w (w, Some x)"
  "audited_once actor (write_target op) w w' \<Longrightarrow> write_settled actor op w (w', None)"
  by (simp_all add: write_settled_def)

text \<open>Skills stand under their own id and profile.\<close>

definition skills_keyed :: "catalog_world \<Rightarrow> bool" where
  "skills_keyed w = (\<forall>x \<in> set (cg_skills w). fst x = (sk_id (snd x), sk_profile_id (snd x)))"

definition write_ok ::
  "catalog_env \<Rightarrow> (string \<Rightarrow> string \<Rightarrow> bool) \<Rightarrow> (string \<Rightarrow> string \<Rightarrow> bool) \<Rightarrow> string \<Rightarrow> catalog_write \<Rightarrow> catalog_world \<Rightarrow> bool" where
  "write_ok E PA PS actor op w = (write_settled actor op w (write_catalog E actor op w)
     \<and> (catalog_admitted E PA PS w \<and> texts_ok E PA PS op \<longrightarrow> catalog_admitted E PA PS (fst (write_catalog E actor op w))))"

lemma write_ok_agent: "write_ok E PA PS actor (Put_agent n body) w"
proof (cases "put_agent E actor n body w")
  case (Pair w' r)
  from put_agent_settled[OF Pair, of PA PS] Pair show ?thesis
    by (auto simp: write_ok_def write_settled_simps catalog_admitted_def ok_upsert_agent simp del: texts_ok.simps)
qed

lemma write_ok_skill: "write_ok E PA PS actor (Put_skill n body) w"
proof (cases "put_skill E actor n body w")
  case (Pair w' r)
  from skill_body_settled[OF Pair, of PA PS] Pair show ?thesis
    by (auto simp: write_ok_def write_settled_simps catalog_admitted_def ok_upsert_skill simp del: texts_ok.simps)
qed

lemma get_item_keyed: "skills_keyed w \<Longrightarrow> get_item (cg_skills w) n p = Some e \<Longrightarrow> sk_id e = n \<and> sk_profile_id e = p"
  by (force simp: skills_keyed_def get_item_def dest!: map_of_SomeD)

lemma get_item_ok: "skills_admitted P c \<Longrightarrow> get_item c n p = Some e \<Longrightarrow> skill_admitted P e \<and> sk_id e = n \<and> sk_profile_id e = p"
  by (force simp: skills_admitted_def get_item_def dest!: map_of_SomeD)

lemma body_screened_keeps: "body_screened E s t \<Longrightarrow> s = [] \<or> is_wrapped s \<Longrightarrow> t = s"
  by (auto simp: body_screened_def dest: screening_keeps)

text \<open>An approval screens the stored text again, which a marked text passes unchanged.\<close>

lemma write_ok_approve:
  assumes k: "skills_keyed w" and marked: "\<And>n s. PS n s \<Longrightarrow> is_wrapped s"
  shows "write_ok E PA PS actor (Approve_skill p n) w"
proof (cases "gate_approve_skill E actor p n w")
  case (Pair w' r)
  have v: "catalog_admitted E PA PS w \<Longrightarrow> skills_admitted PS (AList.update (n, p) (e\<lparr>sk_staging_status := VETTED\<rparr>) (cg_skills w))" "sk_id e = n"
    "catalog_admitted E PA PS w \<Longrightarrow> sk_body e = [] \<or> is_wrapped (sk_body e)" "catalog_admitted E PA PS w \<Longrightarrow> skill_admitted PS e"
    if "get_item (cg_skills w) n p = Some e" for e
    using get_item_keyed[OF k that] get_item_ok[OF _ that] skills_ok_update[of PS "cg_skills w" "e\<lparr>sk_staging_status := VETTED\<rparr>"] marked
    by (auto simp: catalog_admitted_def skill_admitted_def)
  from approve_cases[OF Pair] show ?thesis
  proof (elim disjE exE conjE)
    fix e v' e' x
    assume a: "r = Inr x" "sk_id e' = sk_id e" "body_screened E (sk_body e) (sk_body e')" "get_item (cg_skills w) n p = Some e"
      "v' = e\<lparr>sk_staging_status := VETTED\<rparr>" "cg_skills w' = upsert_skill e' (AList.update (n, p) v' (cg_skills w))"
      "cg_agents w' = cg_agents w" "audited_once actor (sk_id e) w w'"
    have "skill_admitted PS e'" if "catalog_admitted E PA PS w"
      using v(3,4)[OF a(4) that] body_screened_keeps[OF a(3)] a(2) by (simp add: skill_admitted_def)
    with v[OF a(4)] a Pair show ?thesis
      by (simp add: write_ok_def write_settled_simps catalog_admitted_def ok_upsert_skill)
  qed (use Pair v in \<open>auto simp: write_ok_def write_settled_def catalog_admitted_def\<close>)
qed

lemma write_ok_other:
  "write_ok E PA PS actor (Put_plan n body) w" "write_ok E PA PS actor (Put_mcp_server n body) w"
  "write_ok E PA PS actor (Put_tool n body) w" "write_ok E PA PS actor (Put_profile n body) w" "write_ok E PA PS actor (Put_policy n body) w"
proof -
  have agents [simp]: "mc_agents (upsert_profile p c) = mc_agents c" for p c by (simp add: upsert_profile_def)
  show "write_ok E PA PS actor (Put_plan n body) w"
    by (cases "plan_of_body E n (filled plan_put body)")
      (auto simp: write_ok_def write_settled_simps put_plan_def upsert_plan_body_def gate_upsert_plan_def Let_def
        of_body_ids audited_audited_once catalog_admitted_def)
  show "write_ok E PA PS actor (Put_mcp_server n body) w"
    by (cases "mcp_of_body E n body")
      (auto simp: write_ok_def write_settled_simps upsert_mcp_body_def gate_upsert_mcp_server_def of_body_ids audited_audited_once
        catalog_admitted_def)
  show "write_ok E PA PS actor (Put_tool n body) w"
    by (cases "tool_of_body E n body")
      (auto simp: write_ok_def write_settled_simps upsert_tool_body_def mutation_upsert_tool_def of_body_ids audited_audited_once
        catalog_admitted_def)
  have id: "pk_id p = n" if "merge_profile_pack E ex n body = Inr p" for ex p
    using that by (auto simp: merge_profile_pack_def Let_def rbind_Inr_iff split: option.splits)
  show "write_ok E PA PS actor (Put_profile n body) w"
    by (cases "merge_profile_pack E (find_profile n w) n body")
      (auto simp: write_ok_def write_settled_simps upsert_profile_pack_def mutation_upsert_profile_def id audited_audited_once
        catalog_admitted_def agents_admitted_def)
  have "pk_id (case find_profile n w of Some p \<Rightarrow> p | None \<Rightarrow> new_profile n) = n"
    by (auto simp: find_profile_def new_profile_def find_Some_iff split: option.split)
  then show "write_ok E PA PS actor (Put_policy n body) w"
    by (cases "merge_profile_policy E (pk_policy (case find_profile n w of Some p \<Rightarrow> p | None \<Rightarrow> new_profile n)) body")
      (auto simp: write_ok_def write_settled_simps upsert_profile_policy_def mutation_upsert_profile_def audited_audited_once
        catalog_admitted_def agents_admitted_def Let_def)
qed

lemma delete_agent_ok: "agents_admitted E P c \<Longrightarrow> agents_admitted E P (fst (delete_agent n p c))"
proof (cases "dget (mc_agents c) n")
  case (Some e)
  assume c: "agents_admitted E P c"
  have "agent_admitted E P (snd (n, e))" using c map_of_SomeD[OF Some] unfolding agents_admitted_def by blast
  then have "\<forall>x \<in> set (dput n (e\<lparr>ag_enabled := False\<rparr>) (mc_agents c)). agent_admitted E P (snd x)"
    using c by (intro agents_update) (simp_all add: agents_admitted_def agent_admitted_def)
  with c Some show ?thesis by (simp add: delete_agent_def agents_admitted_def)
qed (simp add: delete_agent_def)

lemma delete_skill_ok: "skills_admitted P c \<Longrightarrow> skills_admitted P (fst (delete_skill n p c))"
  using get_item_ok[of P c n p] skills_ok_update[of P c "e\<lparr>sk_enabled := False\<rparr>" for e]
  by (force simp: delete_skill_def soft_delete_def skill_ops_def get_item_def skill_admitted_def split: option.split)

lemma write_ok_delete: "write_ok E PA PS actor (Delete_agent p n) w" "write_ok E PA PS actor (Delete_skill p n) w"
proof -
  have same: "w\<lparr>cg_agents := cg_agents w, cg_reloads := r\<rparr> = w\<lparr>cg_reloads := r\<rparr>"
      "w\<lparr>cg_skills := cg_skills w, cg_reloads := r\<rparr> = w\<lparr>cg_reloads := r\<rparr>" for r by simp_all
  show "write_ok E PA PS actor (Delete_agent p n) w"
    using delete_agent_ok[of E PA "cg_agents w" n p] by (cases "delete_agent n p (cg_agents w)")
      (auto simp: write_ok_def write_settled_def gate_delete_agent_def deleted_def audited_audited_once catalog_admitted_def
        delete_agent_def split: option.splits if_splits)
  show "write_ok E PA PS actor (Delete_skill p n) w"
    using delete_skill_ok[of PS "cg_skills w" n p] by (cases "delete_skill n p (cg_skills w)")
      (auto simp: write_ok_def write_settled_def gate_delete_skill_def deleted_def audited_audited_once catalog_admitted_def
        delete_skill_def soft_delete_def split: option.splits if_splits)
qed

lemma ok_keyed: "catalog_admitted E PA PS w \<Longrightarrow> skills_keyed w"
  by (auto simp: catalog_admitted_def skills_admitted_def skills_keyed_def)

lemma write_ok_all: "skills_keyed w \<Longrightarrow> (\<And>n s. PS n s \<Longrightarrow> is_wrapped s) \<Longrightarrow> write_ok E PA PS actor op w"
  by (cases op) (simp_all add: write_ok_agent write_ok_skill write_ok_approve write_ok_other write_ok_delete)

lemma writes_keep_ok:
  assumes "catalog_admitted E PA PS w" and "\<And>n s. PS n s \<Longrightarrow> is_wrapped s" and "\<forall>x \<in> set ops. texts_ok E PA PS (snd x)"
  shows "catalog_admitted E PA PS (fold (\<lambda>(actor, op) w. fst (write_catalog E actor op w)) ops w)"
  using assms(1,3)
proof (induction ops arbitrary: w)
  case (Cons x ops)
  obtain actor op where x: "x = (actor, op)" by (cases x)
  from write_ok_all[where E = E and PA = PA and PS = PS and actor = actor and op = op, OF ok_keyed[OF Cons.prems(1)] assms(2)] Cons.prems Cons.IH[of "fst (write_catalog E actor op w)"]
  show ?case by (simp add: x write_ok_def)
qed simp

text \<open>C23: A catalog write that raises is not recorded and, an approval apart, changes nothing at all; every other write
  reloads the registry once and is recorded once, with its actor and target, unless it is a delete that found
  nothing, which changes nothing else.\<close>

theorem catalog_writes_settle:
  assumes "skills_keyed w" and "write_catalog E actor op w = (w', r)"
  shows "case r of
     Some x \<Rightarrow> cg_audit w' = cg_audit w \<and> cg_reloads w' = cg_reloads w \<and> (w' = w \<or> (\<exists>p n. op = Approve_skill p n))
   | None \<Rightarrow> audited_once actor (write_target op) w w' \<or> is_delete op \<and> w' = w\<lparr>cg_reloads := Suc (cg_reloads w)\<rparr>"
  using write_ok_all[OF assms(1), of "\<lambda>n. is_wrapped" E "\<lambda>n. is_wrapped" actor op] assms(2) by (auto simp: write_ok_def write_settled_def split: option.split)


text \<open>Approving a skill whose text the screening refuses raises, but the stored skill is vetted from then on: the
  status is set on the stored object before it is screened.\<close>

theorem rejected_approval_vets:
  assumes "get_item (cg_skills w) n p = Some e" and "sk_body e \<noteq> []"
    and "sanitized E ''skill'' (sk_body e) = Inl x"
  shows "\<exists>w'. gate_approve_skill E actor p n w = (w', Inl x) \<and> cg_audit w' = cg_audit w
     \<and> get_item (cg_skills w') n p = Some (e\<lparr>sk_staging_status := VETTED\<rparr>)"
  using assms by (simp_all add: gate_approve_skill_def Let_def gate_upsert_skill_def clean_skill_def get_item_def)

text \<open>A plan that is put again is no longer active, and where it was the only active one of its profile the planner
  works from every enabled plan of the profile.\<close>

theorem edited_plan_inactive:
  assumes "put_plan E actor n body w = (w', Inr saved)" and "p = pl_profile_id saved"
    and "distinct (map fst (cg_plans w))"
    and "\<forall>x \<in> set (cg_plans w). snd (fst x) = p \<and> pl_enabled (snd x) \<and> pl_active (snd x) \<longrightarrow> fst x = (n, p)"
  shows "\<not> pl_active saved \<and> load_active p (cg_plans w') = list_plans (Some p) True (cg_plans w')"
proof -
  obtain e where pb: "plan_of_body E n (filled plan_put body) = Inr e"
    using assms(1) by (cases "plan_of_body E n (filled plan_put body)") (auto simp: put_plan_def upsert_plan_body_def)
  have "\<not> pl_active e" using pb by (auto simp: plan_of_body_def rbind_Inr_iff)
  with of_body_ids(2)[OF pb] have e: "pl_id e = n" "\<not> pl_active e" by simp_all
  have g: "gate_upsert_plan E actor e w = (w', saved)"
    using assms(1) by (simp add: put_plan_def upsert_plan_body_def pb split: prod.splits)
  define k where "k = (n, pl_profile_id e)"
  define e' where "e' = (case map_of (cg_plans w) k of Some ex \<Rightarrow> e\<lparr>pl_version := pl_version ex + 1\<rparr> | None \<Rightarrow> e)"
  have c: "cg_plans w' = AList.update k e' (cg_plans w)" "saved = e'"
    using g[symmetric] e(1) by (auto simp: gate_upsert_plan_def Let_def upsert_plan_def upsert_item_def plan_ops_def item_key_def k_def
      e'_def get_item_def update_conv' split: option.split)
  have e': "\<not> pl_active e'" "pl_profile_id e' = pl_profile_id e" using e(2) by (simp_all add: e'_def split: option.split)
  have "\<not> (snd l = p \<and> pl_enabled x \<and> pl_active x)" if "(l, x) \<in> set (cg_plans w')" for l x
  proof -
    have "distinct (map fst (cg_plans w'))" using assms(3) by (simp add: c distinct_update)
    then have "map_of (cg_plans w') l = Some x" using that by simp
    then have "l = k \<and> x = e' \<or> l \<noteq> k \<and> (l, x) \<in> set (cg_plans w)"
      by (auto simp: c update_conv' split: if_splits dest: map_of_SomeD)
    with assms(2,4) e' c show ?thesis by (force simp: k_def)
  qed
  then have "filter (\<lambda>(k, e). snd k = p \<and> pl_enabled e \<and> pl_active e) (cg_plans w') = []"
    by (auto simp: filter_empty_conv)
  with e' c show ?thesis by (simp add: load_active_def)
qed

definition agent_reset :: "agent_entry \<Rightarrow> agent_entry \<Rightarrow> bool" where
  "agent_reset old e = (ag_capabilities e = [] \<and> ag_budget_max_tokens e = None \<and> ag_budget_max_cost_usd e = None
    \<and> ag_budget_max_tool_calls e = None \<and> ag_data_clearance e = ''internal'' \<and> ag_system_prompt e = []
    \<and> ag_system_prompt_digest e = ag_system_prompt_digest old \<and> ag_hitl_tools e = [] \<and> ag_tags e = [])"

lemma reset_of_body:
  assumes "agent_of_body E n d (Some old) = Inr e"
    and "dget d ''capabilities'' = Some (PList [])" "dget d ''budget_max_tokens'' = Some PNone"
    "dget d ''budget_max_cost_usd'' = Some PNone" "dget d ''budget_max_tool_calls'' = Some PNone"
    "dget d ''data_clearance'' = Some (PStr ''internal'')" "dget d ''system_prompt'' = Some (PStr [])"
  shows "agent_reset old e \<and> ag_name e = n"
proof -
  have f: "field (a_list a_str) x ''capabilities'' d = Inr []" "field (a_opt r1) y1 ''budget_max_tokens'' d = Inr None"
    "field (a_opt r2) y2 ''budget_max_cost_usd'' d = Inr None" "field (a_opt r1) y3 ''budget_max_tool_calls'' d = Inr None"
    "field a_str z ''data_clearance'' d = Inr ''internal''" "field a_str z ''system_prompt'' d = Inr []" for x r1 r2 y1 y2 y3 z
    using assms(2-) by (simp_all add: field_def a_list_def a_str_def a_opt_def)
  show ?thesis using assms(1) unfolding agent_of_body_def Let_def f rbind_Inr_iff
    by (elim exE conjE) (auto simp: agent_reset_def AgentCatalogEntry_def)
qed

text \<open>Editing an agent through the API clears what the body does not name, though the entry it replaces is at hand:
  capabilities, budgets, clearance and prompt go back to the defaults of the request model, the approval list and
  the tags are always lost, and a cleared prompt keeps the digest of the old one.\<close>

theorem agent_put_resets:
  assumes "put_agent E actor n body w = (w', Inr saved)" and "get_agent (cg_agents w) n = Some old"
    and "\<forall>k \<in> {''capabilities'', ''budget_max_tokens'', ''budget_max_cost_usd'', ''budget_max_tool_calls'',
       ''data_clearance'', ''system_prompt''}. dget body k = None"
  shows "ag_capabilities saved = [] \<and> ag_budget_max_tokens saved = None \<and> ag_budget_max_cost_usd saved = None
    \<and> ag_budget_max_tool_calls saved = None \<and> ag_data_clearance saved = ''internal'' \<and> ag_system_prompt saved = []
    \<and> ag_system_prompt_digest saved = ag_system_prompt_digest old \<and> ag_hitl_tools saved = [] \<and> ag_tags saved = []
    \<and> ag_quality saved = ag_quality old \<and> ag_version saved = ag_version old + 1"
proof -
  have f: "dget (filled agent_put body) ''capabilities'' = Some (PList [])"
      "dget (filled agent_put body) ''budget_max_tokens'' = Some PNone"
      "dget (filled agent_put body) ''budget_max_cost_usd'' = Some PNone"
      "dget (filled agent_put body) ''budget_max_tool_calls'' = Some PNone"
      "dget (filled agent_put body) ''data_clearance'' = Some (PStr ''internal'')"
      "dget (filled agent_put body) ''system_prompt'' = Some (PStr [])"
    using assms(3) by (simp_all add: filled_get agent_put_def get_or_def)
  obtain e where e: "agent_of_body E n (filled agent_put body) (Some old) = Inr e" "gate_upsert_agent E actor e w = (w', Inr saved)"
    using assms(1,2) by (cases "agent_of_body E n (filled agent_put body) (Some old)";
      cases "check_schema_name E (get_or (filled agent_put body) ''output_schema'' PNone)")
      (auto simp: put_agent_def upsert_catalog_agent_def)
  from reset_of_body[OF e(1) f] have r: "agent_reset old e" "ag_name e = n" by simp_all
  then have "clean_agent E e = Inr e" by (simp add: clean_agent_def agent_reset_def)
  with e(2) have "saved = merge_entry (Some old) e"
    using assms(2) r(2) by (auto simp: gate_upsert_agent_def Let_def upsert_agent_def get_agent_def rbind_Inr_iff split: sum.splits)
  with r(1) show ?thesis by (simp add: merge_entry_def agent_reset_def)
qed

text \<open>The names under a key of a mode policy.\<close>

definition mode_tools :: "payload \<Rightarrow> string \<Rightarrow> pyval set" where
  "mode_tools m k = (case dget m k of Some (PList vs) \<Rightarrow> set vs | _ \<Rightarrow> {})"

definition given_tools :: "payload \<Rightarrow> string \<Rightarrow> pyval set" where
  "given_tools kvs k = (\<Union>(k', v) \<in> set kvs. if k' = k then (case v of PList vs \<Rightarrow> set vs | _ \<Rightarrow> {}) else {})"

definition all_lists :: "payload \<Rightarrow> bool" where
  "all_lists m = list_all (\<lambda>x. case snd x of PList vs \<Rightarrow> True | _ \<Rightarrow> False) m"

lemma traverse_PStr: "traverse (\<lambda>v. case v of PStr s \<Rightarrow> Inr s | _ \<Rightarrow> Inl x) vs = Inr ss \<Longrightarrow> map PStr ss = vs"
  by (induction vs arbitrary: ss) (auto simp: rbind_Inr_iff split: pyval.splits)

lemma sorted_union_set: "sorted_union xs ys = Inr u \<Longrightarrow> set u = set xs \<union> set ys"
proof -
  assume "sorted_union xs ys = Inr u"
  then obtain ss where "map PStr ss = xs @ ys" "u = map PStr (sort (remdups ss))"
    by (auto simp: sorted_union_def rbind_Inr_iff dest!: traverse_PStr)
  then show ?thesis by (metis image_set set_append set_remdups set_sort)
qed

lemma all_lists_get: "all_lists m \<Longrightarrow> dget m k = Some v \<Longrightarrow> \<exists>vs. v = PList vs"
  using map_of_SomeD[of m k v] by (cases v) (force simp: all_lists_def list_all_iff)+

lemma all_lists_put: "all_lists m \<Longrightarrow> all_lists (dput k (PList vs) m)"
  using set_update_subset[of k "PList vs" m] by (fastforce simp: all_lists_def list_all_iff)

lemma merge_mode_one:
  assumes "merge_mode_key (k0, PList vs) m = Inr m1" and "all_lists m"
  shows "all_lists m1 \<and> mode_tools m1 k = mode_tools m k \<union> (if k0 = k then set vs else {})"
proof -
  obtain old u where u: "py_iter (py_or (get_or m k0 PNone) (PList [])) = Inr old" "sorted_union old vs = Inr u"
    and m1: "m1 = dput k0 (PList u) m"
    using assms(1) by (auto simp: merge_mode_key_def rbind_Inr_iff)
  have "set old = mode_tools m k0"
    using u(1) all_lists_get[OF assms(2), of k0]
    by (cases "dget m k0") (auto simp: get_or_def py_or_def py_iter_def mode_tools_def split: if_splits)
  with sorted_union_set[OF u(2)] have "set u = mode_tools m k0 \<union> set vs" by simp
  then show ?thesis using assms(2) by (simp add: m1 all_lists_put mode_tools_def)
qed

text \<open>A patch of the mode policy only adds: every list of it becomes the union of the old one and what the patch
  gives, so no write through the API takes a tool off a mode.\<close>

theorem mode_policy_only_grows:
  "merge_mode kvs m = Inr m' \<Longrightarrow> all_lists kvs \<Longrightarrow> all_lists m \<Longrightarrow> mode_tools m' k = mode_tools m k \<union> given_tools kvs k"
proof (induction kvs arbitrary: m)
  case (Cons kv kvs)
  obtain k0 vs where kv: "kv = (k0, PList vs)" using Cons.prems(2) by (cases kv; cases "snd kv") (auto simp: all_lists_def)
  from Cons.prems kv obtain m1 where m1: "merge_mode_key kv m = Inr m1" "merge_mode kvs m1 = Inr m'"
    by (auto simp: rbind_Inr_iff)
  have one: "all_lists m1" "mode_tools m1 k = mode_tools m k \<union> (if k0 = k then set vs else {})"
    using merge_mode_one[OF m1(1)[unfolded kv] Cons.prems(3)] by auto
  from Cons.IH[OF m1(2) _ one(1)] one(2) Cons.prems(2) show ?case by (auto simp: kv given_tools_def all_lists_def)
qed (simp add: given_tools_def)

text \<open>A patch of a policy leaves every key it does not name, or names with None, as it was.\<close>

theorem policy_patch_keeps:
  "merge_policy_data patch data = Inr data' \<Longrightarrow> \<forall>kv \<in> set patch. fst kv = k \<longrightarrow> snd kv = PNone \<Longrightarrow> dget data' k = dget data k"
proof (induction patch arbitrary: data)
  case (Cons kv patch)
  from Cons.prems obtain d1 where d1: "merge_policy_key kv data = Inr d1" "merge_policy_data patch d1 = Inr data'"
    by (auto simp: rbind_Inr_iff)
  have "dget d1 k = dget data k"
    using d1(1) Cons.prems(2) by (auto simp: merge_policy_key_def rbind_Inr_iff split: prod.splits pyval.splits if_splits)
  with Cons.IH[OF d1(2)] Cons.prems(2) show ?case by simp
qed simp

subsection \<open>Witnesses\<close>

definition demo_catalog_env :: catalog_env where
  "demo_catalog_env = \<lparr>ce_detector = demo_detector, ce_sha256 = (\<lambda>s. ''0123456789abcdef0''), ce_tool_names = [''rag_search''],
     ce_schema_names = [''Finding''], ce_dynamic_catalog = False, ce_now = 5, ce_ts = ''t'', ce_str = (\<lambda>v. case v of PStr s \<Rightarrow> s | _ \<Rightarrow> ''other''),
     ce_int = (\<lambda>v. case v of PInt i \<Rightarrow> Some i | _ \<Rightarrow> None), ce_float = (\<lambda>v. case v of PFloat q \<Rightarrow> Some q | _ \<Rightarrow> None),
     ce_dump_policy = (\<lambda>p. []), ce_validate_policy = (\<lambda>v. Inr ProfilePolicyPayload)\<rparr>"

definition demo_catalog_world :: catalog_world where
  "demo_catalog_world = \<lparr>cg_agents = \<lparr>mc_agents = [], mc_profiles = [], mc_versions = []\<rparr>, cg_skills = [], cg_plans = [],
     cg_mcp = [], cg_tools = [], cg_audit = [], cg_reloads = 0\<rparr>"

lemma demo_clean: "catalog_clean demo_catalog_env demo_catalog_world"
  by (simp add: catalog_clean_def catalog_admitted_def agents_admitted_def skills_admitted_def demo_catalog_world_def)

definition demo_plan :: "bool \<Rightarrow> plan_entry" where
  "demo_plan active = \<lparr>pl_id = ''p'', pl_profile_id = DEFAULT_PROFILE_ID, pl_name = ''p'', pl_description = [], pl_rules = [],
     pl_enabled = True, pl_active = active, pl_version = 1,
     pl_quality = \<lparr>plq_match_count = 0, plq_false_positive_rate = 0, plq_avg_jobs_per_event = 0\<rparr>,
     pl_source = FILESYSTEM, pl_updated_at = 0\<rparr>"

definition demo_skill :: "string \<Rightarrow> skill_entry" where
  "demo_skill text = \<lparr>sk_id = ''s'', sk_profile_id = ''p'', sk_name = ''s'', sk_description = [], sk_body = text,
     sk_content_hash = [], sk_trust_tier = ''community'', sk_staging_status = DRAFT, sk_enabled = True, sk_version = 1,
     sk_quality = \<lparr>usage_count = 0, load_errors = 0\<rparr>, sk_source = FILESYSTEM, sk_updated_at = 0\<rparr>"

theorem catalog_writes_settle_witness:
  "cg_audit (fst (write_catalog demo_catalog_env ''a'' (Delete_agent ''p'' ''n'') demo_catalog_world)) = []"
  using catalog_writes_settle[OF ok_keyed[OF demo_clean[unfolded catalog_clean_def]], of demo_catalog_env "''a''" "Delete_agent ''p'' ''n''"]
  by (auto simp: demo_catalog_world_def gate_delete_agent_def delete_agent_def deleted_def)

text \<open>A skill and an agent put, the skill approved and an injection refused: what stands there is the screening of
  what was given.\<close>

definition demo_writes :: "(string \<times> catalog_write) list" where
  "demo_writes = [(''a'', Put_skill ''s'' [(''body'', PStr ''run it'')]), (''b'', Approve_skill DEFAULT_PROFILE_ID ''s''),
     (''c'', Put_skill ''s'' [(''body'', PStr ''<system>'')]), (''d'', Put_agent ''soc'' [(''system_prompt'', PStr ''watch'')])]"

lemma one_entry: "length xs = 1 \<Longrightarrow> \<exists>k e. xs = [(k, e)]"
  by (cases xs) auto


theorem rejected_approval_vets_witness:
  "\<exists>x w'. gate_approve_skill demo_catalog_env ''a'' ''p'' ''s''
       (demo_catalog_world\<lparr>cg_skills := [((''s'', ''p''), demo_skill ''<system>'')]\<rparr>) = (w', Inl x)
     \<and> get_item (cg_skills w') ''s'' ''p'' = Some ((demo_skill ''<system>'')\<lparr>sk_staging_status := VETTED\<rparr>)"
proof -
  let ?w = "demo_catalog_world\<lparr>cg_skills := [((''s'', ''p''), demo_skill ''<system>'')]\<rparr>"
  have "isl (sanitized demo_catalog_env ''skill'' ''<system>'')" by code_simp
  then obtain x where "sanitized demo_catalog_env ''skill'' (sk_body (demo_skill ''<system>'')) = Inl x"
    by (auto simp: isl_def demo_skill_def)
  with rejected_approval_vets[of ?w "''s''" "''p''" "demo_skill ''<system>''" demo_catalog_env x "''a''"]
  show ?thesis by (force simp: get_item_def demo_skill_def[of "''<system>''"])
qed

lemma not_isl_snd: "\<not> isl (snd r) \<Longrightarrow> r = (fst r, Inr (projr (snd r)))"
  by (cases r) auto

theorem edited_plan_inactive_witness:
  "let w = demo_catalog_world\<lparr>cg_plans := [((''p'', DEFAULT_PROFILE_ID), demo_plan True)]\<rparr>;
       w' = fst (put_plan demo_catalog_env ''a'' ''p'' [(''description'', PStr ''new text'')] w) in
   load_active DEFAULT_PROFILE_ID (cg_plans w') = list_plans (Some DEFAULT_PROFILE_ID) True (cg_plans w')"
proof -
  let ?w = "demo_catalog_world\<lparr>cg_plans := [((''p'', DEFAULT_PROFILE_ID), demo_plan True)]\<rparr>"
    and ?b = "[(''description'', PStr ''new text'')]"
  have "\<not> isl (snd (put_plan demo_catalog_env ''a'' ''p'' ?b ?w))
      \<and> pl_profile_id (projr (snd (put_plan demo_catalog_env ''a'' ''p'' ?b ?w))) = DEFAULT_PROFILE_ID" by code_simp
  then have p: "DEFAULT_PROFILE_ID = pl_profile_id (projr (snd (put_plan demo_catalog_env ''a'' ''p'' ?b ?w)))"
    and r: "\<not> isl (snd (put_plan demo_catalog_env ''a'' ''p'' ?b ?w))" by simp_all
  have "distinct (map fst (cg_plans ?w))" "\<forall>x \<in> set (cg_plans ?w). snd (fst x) = DEFAULT_PROFILE_ID \<and> pl_enabled (snd x)
      \<and> pl_active (snd x) \<longrightarrow> fst x = (''p'', DEFAULT_PROFILE_ID)" by simp_all
  from edited_plan_inactive[OF not_isl_snd[OF r] p this] show ?thesis by (simp add: Let_def)
qed

theorem agent_put_resets_witness:
  "let w = demo_catalog_world\<lparr>cg_agents := \<lparr>mc_agents = [(''soc'', (AgentCatalogEntry ''soc'' 0)
        \<lparr>ag_budget_max_tokens := Some 9, ag_hitl_tools := [(''isolate_host'', True)]\<rparr>)], mc_profiles = [], mc_versions = []\<rparr>\<rparr> in
   \<exists>w' saved. put_agent demo_catalog_env ''a'' ''soc'' [(''description'', PStr ''new text'')] w = (w', Inr saved)
     \<and> ag_budget_max_tokens saved = None \<and> ag_hitl_tools saved = []"
proof -
  let ?w = "demo_catalog_world\<lparr>cg_agents := \<lparr>mc_agents = [(''soc'', (AgentCatalogEntry ''soc'' 0)
        \<lparr>ag_budget_max_tokens := Some 9, ag_hitl_tools := [(''isolate_host'', True)]\<rparr>)], mc_profiles = [], mc_versions = []\<rparr>\<rparr>"
    and ?b = "[(''description'', PStr ''new text'')]"
  have "\<not> isl (snd (put_agent demo_catalog_env ''a'' ''soc'' ?b ?w))" by code_simp
  from not_isl_snd[OF this] obtain w' saved where s: "put_agent demo_catalog_env ''a'' ''soc'' ?b ?w = (w', Inr saved)" by blast
  from agent_put_resets[OF s] s show ?thesis by (simp add: Let_def get_agent_def)
qed

theorem mode_policy_only_grows_witness:
  "PStr ''nmap'' \<in> mode_tools (projr (merge_mode [(''plan_only'', PList [])] [(''plan_only'', PList [PStr ''nmap''])])) ''plan_only''"
proof -
  have "merge_mode [(''plan_only'', PList [])] [(''plan_only'', PList [PStr ''nmap''])] = Inr [(''plan_only'', PList [PStr ''nmap''])]"
    by code_simp
  from mode_policy_only_grows[OF this, of "''plan_only''"] this show ?thesis by (simp add: all_lists_def mode_tools_def)
qed

theorem policy_patch_keeps_witness:
  "dget (projr (merge_policy_data [(''tool_risk'', PDict [(''nmap'', PStr ''high'')])] [(''max_spawn_depth'', PInt 2)])) ''max_spawn_depth''
     = Some (PInt 2)"
proof -
  have m: "merge_policy_data [(''tool_risk'', PDict [(''nmap'', PStr ''high'')])] [(''max_spawn_depth'', PInt 2)]
      = Inr [(''max_spawn_depth'', PInt 2), (''tool_risk'', PDict [(''nmap'', PStr ''high'')])]" by code_simp
  from policy_patch_keeps[OF m, of "''max_spawn_depth''"] show ?thesis unfolding m by simp
qed

end
