(* ===== verification/Registry.thy ===== *)
theory Registry
  imports Worker Tool_Gate Rag
begin

text \<open>The registry of agent definitions: cys_core/domain/agents/models.py and policies.py, the mapping to and from the
  catalog (infrastructure/catalog/catalog_mapper.py), load_hybrid_registry and reload_agent_registry
  (hybrid_registry.py) and AgentRegistry (registry/agents.py). Reading the shipped definitions from their files is a
  parameter.\<close>

subsection \<open>Definitions\<close>

text \<open>The rest of an AgentDefinition; the role is one of five.\<close>

record full_definition = agent_definition +
  ad_description :: string
  ad_role :: string
  ad_system_prompt :: string
  ad_system_prompt_digest :: string
  ad_hitl_tools :: "(string \<times> bool) list"
  ad_sample_input :: "string option"
  ad_interrupt_on :: "(string \<times> bool) list"
  ad_skill_path :: "string option"
  ad_capabilities :: "string list"
  ad_reasoning_mode :: sgr_mode

definition agent_roles :: "string list" where
  "agent_roles = [''worker'', ''control'', ''specialist'', ''critic'', ''coordinator'']"

definition entry_to_definition :: "agent_entry \<Rightarrow> exc + full_definition" where
  "entry_to_definition e = (if ag_role e \<notin> set agent_roles then invalid
     else Inr \<lparr>ad_name = ag_name e, ad_trust_level = ag_trust_level e, ad_schema_name = ag_output_schema e,
       ad_tools = ag_tools e, ad_skills = ag_skills e, ad_bus_recipients = ag_bus_recipients e,
       ad_description = ag_description e, ad_role = ag_role e, ad_system_prompt = ag_system_prompt e,
       ad_system_prompt_digest = ag_system_prompt_digest e, ad_hitl_tools = ag_hitl_tools e,
       ad_sample_input = None, ad_interrupt_on = [], ad_skill_path = None, ad_capabilities = ag_capabilities e,
       ad_reasoning_mode = Sgr_off\<rparr>)"

text \<open>agents is the catalog read of persona_budget and persona_clearance_for.\<close>

definition definition_to_entry :: "agent_read \<Rightarrow> time \<Rightarrow> string \<Rightarrow> full_definition \<Rightarrow> string + agent_entry" where
  "definition_to_entry agents now profile_id d = (let b = persona_budget_for agents (ad_name d) None in
     rbind (persona_clearance_for agents (ad_name d) None) (\<lambda>cl.
     Inr ((AgentCatalogEntry (ad_name d) now)\<lparr>ag_description := ad_description d, ag_role := ad_role d,
       ag_output_schema := ad_schema_name d, ag_tools := ad_tools d, ag_skills := ad_skills d,
       ag_hitl_tools := ad_hitl_tools d, ag_trust_level := ad_trust_level d, ag_bus_recipients := ad_bus_recipients d,
       ag_system_prompt := ad_system_prompt d, ag_system_prompt_digest := ad_system_prompt_digest d,
       ag_profile_id := profile_id, ag_source := FILESYSTEM, ag_enabled := True, ag_capabilities := ad_capabilities d,
       ag_budget_max_tokens := Some (bud_max_tokens b), ag_budget_max_cost_usd := Some (bud_max_cost_usd b),
       ag_budget_max_tool_calls := Some (bud_max_tool_calls b), ag_data_clearance := class_value cl\<rparr>)))"

definition build_interrupt_on :: "(string \<times> bool) list \<Rightarrow> (string \<times> payload) list" where
  "build_interrupt_on hitl_tools = map (\<lambda>(t, b). (t, [(''allowed_decisions'', PList (map PStr [''approve'', ''edit'', ''reject'']))]))
     (filter snd hitl_tools)"

subsection \<open>The registry\<close>

type_synonym registry = "full_definition dict"

fun merge_entries :: "agent_entry list \<Rightarrow> registry \<Rightarrow> exc + registry" where
  "merge_entries [] reg = Inr reg"
| "merge_entries (e # es) reg = rbind (entry_to_definition e) (\<lambda>d. merge_entries es (dput (ag_name e) d reg))"

definition load_hybrid_registry :: "bool \<Rightarrow> registry \<Rightarrow> mem_catalog \<Rightarrow> exc + registry" where
  "load_hybrid_registry use_dynamic shipped c = (
     if use_dynamic then merge_entries (list_agents None True c) shipped else Inr shipped)"

definition registry_get :: "registry \<Rightarrow> string \<Rightarrow> exc + full_definition" where
  "registry_get reg name = (case dget reg name of Some d \<Rightarrow> Inr d | None \<Rightarrow> Inl (PyExc ''KeyError''))"

definition by_workers :: "registry \<Rightarrow> full_definition list" where
  "by_workers reg = filter (\<lambda>d. ad_role d \<in> {''worker'', ''specialist''}) (map snd reg)"

definition by_control :: "registry \<Rightarrow> full_definition list" where
  "by_control reg = filter (\<lambda>d. ad_role d \<in> {''control'', ''critic'', ''coordinator''}) (map snd reg)"

definition by_role :: "string \<Rightarrow> registry \<Rightarrow> full_definition list" where
  "by_role role reg = (
     if role = ''specialist'' then by_workers reg
     else if role \<in> {''critic'', ''coordinator''} then filter (\<lambda>d. ad_name d = role) (map snd reg)
     else filter (\<lambda>d. ad_role d = role) (map snd reg))"

text \<open>What the process keeps: the registry of get_agent_registry, cached until a reload clears it, and the counter
  of reloads. A load that raises leaves the cache empty.\<close>

record registry_state =
  rg_cached :: "registry option"
  rg_version :: int

definition reload_agent_registry ::
  "bool \<Rightarrow> registry \<Rightarrow> mem_catalog \<Rightarrow> registry_state \<Rightarrow> registry_state \<times> (exc + registry)" where
  "reload_agent_registry dynamic shipped c s = (case load_hybrid_registry dynamic shipped c of
     Inl x \<Rightarrow> (s\<lparr>rg_cached := None\<rparr>, Inl x)
   | Inr reg \<Rightarrow> (\<lparr>rg_cached = None, rg_version = 1 + (if dynamic
         then max (cv_version (get_version DEFAULT_PROFILE_ID c)) 1 else rg_version s)\<rparr>, Inr reg))"

definition get_agent_registry ::
  "bool \<Rightarrow> registry \<Rightarrow> mem_catalog \<Rightarrow> registry_state \<Rightarrow> registry_state \<times> (exc + registry)" where
  "get_agent_registry dynamic shipped c s = (case rg_cached s of
     Some reg \<Rightarrow> (s, Inr reg)
   | None \<Rightarrow> (case load_hybrid_registry dynamic shipped c of
       Inl x \<Rightarrow> (s, Inl x)
     | Inr reg \<Rightarrow> (s\<lparr>rg_cached := Some reg,
         rg_version := (if dynamic then max (cv_version (get_version DEFAULT_PROFILE_ID c)) 1 else rg_version s)\<rparr>, Inr reg)))"

subsection \<open>What the registry holds\<close>

lemma merge_entries_get:
  assumes "merge_entries es reg = Inr r" and "distinct (map ag_name es)"
  shows "dget r n = (case find (\<lambda>e. ag_name e = n) es of
     Some e \<Rightarrow> Some (projr (entry_to_definition e)) | None \<Rightarrow> dget reg n)"
  using assms
proof (induction es arbitrary: reg)
  case (Cons e es)
  then obtain d where d: "entry_to_definition e = Inr d" "merge_entries es (dput (ag_name e) d reg) = Inr r"
    by (auto simp: rbind_Inr_iff)
  have "find (\<lambda>e'. ag_name e' = n) es = None" if "ag_name e = n"
    using Cons.prems(2) that by (auto simp: find_None_iff image_iff)
  with Cons.IH[OF d(2)] Cons.prems(2) d(1) show ?case by (auto split: option.split)
qed simp

lemma merge_entries_raises: "(\<exists>x. merge_entries es reg = Inl x) \<longleftrightarrow> (\<exists>e \<in> set es. ag_role e \<notin> set agent_roles)"
  by (induction es arbitrary: reg) (auto simp: entry_to_definition_def invalid_def)

text \<open>Entries stand under their own names, once each.\<close>

definition agents_keyed :: "mem_catalog \<Rightarrow> bool" where
  "agents_keyed c = (agents_ok c \<and> distinct (map fst (mc_agents c)))"

lemma keyed_entries:
  assumes "agents_keyed c"
  shows "e \<in> set (map snd (mc_agents c)) \<longleftrightarrow> get_agent c (ag_name e) = Some e" "distinct (map ag_name (map snd (mc_agents c)))"
proof -
  have k: "ag_name (snd x) = fst x" if "x \<in> set (mc_agents c)" for x
    using assms that by (cases x) (auto simp: agents_keyed_def agents_ok_def)
  then have names: "map ag_name (map snd (mc_agents c)) = map fst (mc_agents c)" by simp
  show "distinct (map ag_name (map snd (mc_agents c)))" unfolding names using assms by (simp add: agents_keyed_def)
  show "e \<in> set (map snd (mc_agents c)) \<longleftrightarrow> get_agent c (ag_name e) = Some e"
  proof
    assume "e \<in> set (map snd (mc_agents c))"
    then obtain n where n: "(n, e) \<in> set (mc_agents c)" by auto
    with k[OF n] assms show "get_agent c (ag_name e) = Some e" by (simp add: get_agent_def agents_keyed_def)
  next
    assume "get_agent c (ag_name e) = Some e"
    from map_of_SomeD[OF this[unfolded get_agent_def]] show "e \<in> set (map snd (mc_agents c))" by force
  qed
qed

lemma distinct_sort_filter: "distinct (map f xs) \<Longrightarrow> distinct (map f (sort_key g (filter P xs)))"
  using distinct_map_filter[of f xs P] by (simp add: distinct_map)

text \<open>C17: With a dynamic catalog the registry holds under each name the definition of the enabled catalog entry of that
  name, and else the shipped definition: in particular, a shipped agent that is deleted through the catalog runs on
  as it was shipped.\<close>

theorem registry_meets_spec:
  assumes "load_hybrid_registry True shipped c = Inr reg" and "agents_keyed c"
  shows "registry_get reg n = (case get_agent c n of
      Some e \<Rightarrow> if ag_enabled e then entry_to_definition e else registry_get shipped n
    | None \<Rightarrow> registry_get shipped n)"
proof -
  let ?es = "list_agents None True c"
  have es: "set ?es = {e. get_agent c (ag_name e) = Some e \<and> ag_enabled e}" "distinct (map ag_name ?es)"
    using keyed_entries(1)[OF assms(2)] distinct_sort_filter[OF keyed_entries(2)[OF assms(2)]]
    by (auto simp: list_agents_def)
  have m: "merge_entries ?es shipped = Inr reg" using assms(1) by (simp add: load_hybrid_registry_def)
  have ok: "\<forall>e \<in> set ?es. ag_role e \<in> set agent_roles"
    using merge_entries_raises[of ?es shipped] m by auto
  have named: "ag_name e = n" if "get_agent c n = Some e" for e
    using assms(2) that by (auto simp: agents_keyed_def agents_ok_def get_agent_def)
  show ?thesis
  proof (cases "\<exists>e. get_agent c n = Some e \<and> ag_enabled e")
    case True
    then obtain e where e: "get_agent c n = Some e" "ag_enabled e" "e \<in> set ?es" using named es(1) by auto
    have "find (\<lambda>e. ag_name e = n) ?es = Some e"
    proof (cases "find (\<lambda>e. ag_name e = n) ?es")
      case None
      with e(3) named[OF e(1)] show ?thesis by (auto simp: find_None_iff)
    next
      case (Some e')
      then have "e' \<in> set ?es" "ag_name e' = n" by (auto simp: find_Some_iff)
      with Some es(1) e(1) show ?thesis by simp
    qed
    moreover obtain d where "entry_to_definition e = Inr d" using ok e(3) by (auto simp: entry_to_definition_def)
    ultimately show ?thesis using merge_entries_get[OF m es(2), of n] e by (simp add: registry_get_def)
  next
    case False
    then have "find (\<lambda>e. ag_name e = n) ?es = None" using es(1) by (auto simp: find_None_iff)
    with merge_entries_get[OF m es(2), of n] False show ?thesis by (auto simp: registry_get_def split: option.split)
  qed
qed

lemma bad_role_raises:
  assumes "agents_keyed c" and "get_agent c name = Some e" and "ag_enabled e" and "ag_role e \<notin> set agent_roles"
  shows "merge_entries (list_agents None True c) shipped = invalid"
proof -
  have "ag_name e = name" using assms(1,2) by (auto simp: agents_keyed_def agents_ok_def get_agent_def)
  then have "e \<in> set (list_agents None True c)"
    using assms(2,3) keyed_entries(1)[OF assms(1), of e] by (auto simp: list_agents_def)
  then obtain x where x: "merge_entries (list_agents None True c) shipped = Inl x"
    using merge_entries_raises[of "list_agents None True c" shipped] assms(4) by blast
  have "merge_entries es r = Inl x \<Longrightarrow> Inl x = (invalid :: exc + registry)" for es r x
    by (induction es arbitrary: r) (auto simp: entry_to_definition_def invalid_def split: if_splits)
  with x show ?thesis by metis
qed

text \<open>One enabled entry with a role that is none of the five, which the catalog stores like any other, makes every
  load of the registry raise: no agent is found any more, of any name, until the entry is changed.\<close>

theorem bad_role_breaks_registry:
  assumes "agents_keyed c" and "get_agent c name = Some e" and "ag_enabled e" and "ag_role e \<notin> set agent_roles"
    and "rg_cached s = None"
  shows "get_agent_registry True shipped c s = (s, invalid)
    \<and> (\<exists>s'. reload_agent_registry True shipped c s = (s', invalid) \<and> rg_cached s' = None)"
  using bad_role_raises[OF assms(1-4)] assms(5)
  by (simp add: get_agent_registry_def reload_agent_registry_def load_hybrid_registry_def invalid_def)

text \<open>Writing a definition to the catalog and reading it back gives the definition but for what the mapper drops: its
  sample, its interrupt settings, its skill path and its reasoning mode, which comes back off.\<close>

theorem definition_roundtrip:
  assumes "definition_to_entry agents now profile_id d = Inr e" and "ad_role d \<in> set agent_roles"
  shows "entry_to_definition e = Inr (d\<lparr>ad_sample_input := None, ad_interrupt_on := [], ad_skill_path := None,
    ad_reasoning_mode := Sgr_off\<rparr>)"
  using assms by (auto simp: definition_to_entry_def entry_to_definition_def AgentCatalogEntry_def Let_def rbind_Inr_iff)

subsection \<open>Witnesses\<close>

definition demo_definition :: "string \<Rightarrow> full_definition" where
  "demo_definition name = \<lparr>ad_name = name, ad_trust_level = ''internal'', ad_schema_name = None, ad_tools = [], ad_skills = [],
     ad_bus_recipients = [], ad_description = [], ad_role = ''worker'', ad_system_prompt = ''shipped'',
     ad_system_prompt_digest = [], ad_hitl_tools = [], ad_sample_input = None, ad_interrupt_on = [], ad_skill_path = None,
     ad_capabilities = [], ad_reasoning_mode = Sgr_hybrid\<rparr>"

definition demo_agents :: "agent_entry list \<Rightarrow> mem_catalog" where
  "demo_agents es = \<lparr>mc_agents = map (\<lambda>e. (ag_name e, e)) es, mc_profiles = [], mc_versions = []\<rparr>"

lemma demo_keyed: "distinct (map ag_name es) \<Longrightarrow> agents_keyed (demo_agents es)"
  by (auto simp: agents_keyed_def agents_ok_def demo_agents_def comp_def dest!: map_of_SomeD)

text \<open>soc was deleted: its shipped definition is what runs.\<close>

theorem registry_meets_spec_witness:
  "registry_get (projr (load_hybrid_registry True [(''soc'', demo_definition ''soc'')]
     (demo_agents [(AgentCatalogEntry ''soc'' 0)\<lparr>ag_enabled := False\<rparr>]))) ''soc'' = Inr (demo_definition ''soc'')"
proof -
  let ?c = "demo_agents [(AgentCatalogEntry ''soc'' 0)\<lparr>ag_enabled := False\<rparr>]" and ?f = "[(''soc'', demo_definition ''soc'')]"
  have l: "load_hybrid_registry True ?f ?c = Inr ?f"
    by (simp add: load_hybrid_registry_def list_agents_def demo_agents_def AgentCatalogEntry_def)
  have k: "agents_keyed ?c" by (rule demo_keyed) simp
  have g: "get_agent ?c ''soc'' = Some ((AgentCatalogEntry ''soc'' 0)\<lparr>ag_enabled := False\<rparr>)"
    by (simp add: get_agent_def demo_agents_def AgentCatalogEntry_def)
  from registry_meets_spec[OF l k, of "''soc''"] show ?thesis unfolding l g by (simp add: registry_get_def)
qed

theorem bad_role_breaks_registry_witness:
  "snd (get_agent_registry True [(''soc'', demo_definition ''soc'')]
     (demo_agents [(AgentCatalogEntry ''new'' 0)\<lparr>ag_role := ''analyst''\<rparr>]) \<lparr>rg_cached = None, rg_version = 1\<rparr>) = invalid"
proof -
  let ?e = "(AgentCatalogEntry ''new'' 0)\<lparr>ag_role := ''analyst''\<rparr>"
  have "agents_keyed (demo_agents [?e])" by (rule demo_keyed) simp
  from bad_role_breaks_registry[OF this, of "''new''" ?e "\<lparr>rg_cached = None, rg_version = 1\<rparr>"] show ?thesis
    by (simp add: get_agent_def demo_agents_def AgentCatalogEntry_def agent_roles_def)
qed

theorem definition_roundtrip_witness:
  "map_option (\<lambda>e. entry_to_definition e)
     (case definition_to_entry (\<lambda>n. Inr None) 0 ''p'' (demo_definition ''soc'') of Inr e \<Rightarrow> Some e | Inl x \<Rightarrow> None)
   = Some (Inr ((demo_definition ''soc'')\<lparr>ad_reasoning_mode := Sgr_off\<rparr>))"
proof -
  have "\<not> isl (definition_to_entry (\<lambda>n. Inr None) 0 ''p'' (demo_definition ''soc''))" by code_simp
  then obtain e where e: "definition_to_entry (\<lambda>n. Inr None) 0 ''p'' (demo_definition ''soc'') = Inr e" by (auto simp: isl_def split: sum.splits) (metis sum.exhaust)
  from definition_roundtrip[OF e] e show ?thesis by (simp add: demo_definition_def agent_roles_def)
qed

end
