(* ===== verification/Api.thy ===== *)
theory Api
  imports Auth Catalog_Gate Run_Step Registry
begin

text \<open>The HTTP API behind its role checks: the catalog routes (interfaces/api/catalog.py, with SeedCatalog and
  load_hybrid_registry), the routes of runs (interfaces/api/runs.py, run_schemas.py) with the attachment store
  (infrastructure/runs/attachment_store.py), and the reading routes of investigations and jobs (interfaces/api/app.py).
  A body is what its pydantic model accepted; JSON dumps of entries are the entries. The answers of an MCP server,
  what the seed files hold, fresh ids and path resolution are parameters.\<close>

subsection \<open>Catalog answers\<close>

record agent_out =
  ao_name :: string
  ao_description :: string
  ao_role :: string
  ao_output_schema :: "string option"
  ao_tools :: "string list"
  ao_skills :: "string list"
  ao_profile_id :: string
  ao_version :: int
  ao_version_tag :: string
  ao_enabled :: bool
  ao_empirical_trust :: rat

definition entry_out :: "agent_entry \<Rightarrow> agent_out" where
  "entry_out e = \<lparr>ao_name = ag_name e, ao_description = ag_description e, ao_role = ag_role e,
     ao_output_schema = ag_output_schema e, ao_tools = ag_tools e, ao_skills = ag_skills e,
     ao_profile_id = ag_profile_id e, ao_version = ag_version e, ao_version_tag = ag_version_tag e,
     ao_enabled = ag_enabled e, ao_empirical_trust = pq_empirical_trust (ag_quality e)\<rparr>"

datatype catalog_answer =
    A_agents "agent_out list" | A_agent agent_out
  | A_skills "skill_entry list" | A_skill skill_entry
  | A_plans "plan_entry list" | A_plan plan_entry
  | A_servers "mcp_server_entry list" | A_server mcp_server_entry | A_health string string
  | A_profiles "profile_pack list" | A_profile profile_pack | A_policy string "profile_pack option" profile_policy
  | A_saved_policy string profile_policy
  | A_tools "tool_entry list" | A_tool tool_entry
  | A_evaluation string string persona_quality | A_evaluations "(string \<times> rat \<times> int \<times> string) list"
  | A_audit "audit_entry list" | A_deleted string | A_reloaded int
  | A_seeded profile_pack nat nat nat nat nat

text \<open>What the files of a profile hold.\<close>

record seed_bundle =
  sb_profile :: profile_pack
  sb_agents :: "agent_entry list"
  sb_skills :: "skill_entry list"
  sb_plans :: "plan_entry list"
  sb_servers :: "mcp_server_entry list"
  sb_tools :: "tool_entry list"

text \<open>ap_http_get gives a status code, or None when the request raises.\<close>

record api_env =
  ap_auth :: auth_env
  ap_catalog :: catalog_env
  ap_http_get :: "string \<Rightarrow> nat option"
  ap_seed :: seed_bundle
  ap_shipped :: registry

type_synonym catalog_reply = "catalog_world \<times> (route_error + catalog_answer)"

definition answered :: "('a \<Rightarrow> catalog_answer) \<Rightarrow> catalog_world \<times> (exc + 'a) \<Rightarrow> catalog_reply" where
  "answered f r = (fst r, case snd r of Inl x \<Rightarrow> Inl (Raised_exc x) | Inr v \<Rightarrow> Inr (f v))"

definition found :: "string \<Rightarrow> ('a \<Rightarrow> catalog_answer) \<Rightarrow> 'a option \<Rightarrow> route_error + catalog_answer" where
  "found msg f v = (case v of None \<Rightarrow> Inl (HTTP 404 msg) | Some e \<Rightarrow> Inr (f e))"

definition reloaded :: "catalog_world \<Rightarrow> catalog_world" where
  "reloaded w = w\<lparr>cg_reloads := Suc (cg_reloads w)\<rparr>"

text \<open>The version counter: every reload adds one, to the catalog's version where the catalog is dynamic.\<close>

definition catalog_version_metric :: "catalog_env \<Rightarrow> catalog_world \<Rightarrow> int" where
  "catalog_version_metric E w = (if ce_dynamic_catalog E
     then max (cv_version (get_version DEFAULT_PROFILE_ID (cg_agents w))) 1 + 1 else int (cg_reloads w))"

subsection \<open>Catalog routes\<close>

definition api_list_agents :: "string option \<Rightarrow> bool option \<Rightarrow> catalog_world \<Rightarrow> agent_out list" where
  "api_list_agents profile_id enabled w = map entry_out (filter
     (\<lambda>e. case enabled of None \<Rightarrow> True | Some b \<Rightarrow> ag_enabled e = b) (list_agents profile_id False (cg_agents w)))"

definition tool_put :: payload where
  "tool_put = [(''name'', PStr []), (''description'', PStr []), (''risk_tier'', PStr ''medium''), (''handler'', PStr ''builtin''),
     (''enabled'', PBool True), (''profile_id'', PStr DEFAULT_PROFILE_ID)]"

definition mcp_put :: payload where
  "mcp_put = [(''trust_tier'', PStr ''internal''), (''allowed_tools'', PList []), (''enabled'', PBool True),
     (''profile_id'', PStr DEFAULT_PROFILE_ID)]"

definition profile_put :: payload where
  "profile_put = [(''description'', PStr []), (''default_personas'', PList []), (''default_skills'', PList []),
     (''policy'', PDict [])]"

text \<open>A model with one field it requires.\<close>

definition with_required :: "string \<Rightarrow> payload \<Rightarrow> payload \<Rightarrow> route_error + payload" where
  "with_required key defaults body = (case dget body key of
     None \<Rightarrow> Inl (HTTP 422 key) | Some v \<Rightarrow> Inr ((key, v) # filled defaults body))"

definition api_approve_skill :: "catalog_env \<Rightarrow> string \<Rightarrow> string \<Rightarrow> string \<Rightarrow> catalog_world \<Rightarrow> catalog_reply" where
  "api_approve_skill E actor profile_id skill_id w = (case gate_approve_skill E actor profile_id skill_id w of
     (w1, Inl x) \<Rightarrow> (w1, Inl (if x = PyExc ''KeyError'' then HTTP 404 (squote @ ''Unknown skill: '' @ skill_id @ squote)
        else Raised_exc x))
   | (w1, Inr e) \<Rightarrow> (w1, Inr (A_skill e)))"

text \<open>Not through the gate: neither audited nor under its lock.\<close>

definition api_activate_plan :: "string \<Rightarrow> string \<Rightarrow> catalog_world \<Rightarrow> catalog_reply" where
  "api_activate_plan plan_id profile_id w = (case activate_plan plan_id profile_id (cg_plans w) of
     (c, None) \<Rightarrow> (w\<lparr>cg_plans := c\<rparr>, Inl (HTTP 404 ''Plan not found''))
   | (c, Some e) \<Rightarrow> (reloaded (w\<lparr>cg_plans := c\<rparr>), Inr (A_plan e)))"

definition mcp_health_check :: "(string \<Rightarrow> nat option) \<Rightarrow> string \<Rightarrow> string \<Rightarrow> catalog_world \<Rightarrow> catalog_reply" where
  "mcp_health_check http_get server_id profile_id w = (case get_item (cg_mcp w) server_id profile_id of
     None \<Rightarrow> (w, Inl (HTTP 404 ''MCP server not found''))
   | Some e \<Rightarrow> (let status = (case http_get (mcp_url e) of
           Some code \<Rightarrow> if code < 500 then ''healthy'' else ''degraded'' | None \<Rightarrow> ''unreachable'') in
       (w\<lparr>cg_mcp := upsert_server (e\<lparr>mcp_health_status := status\<rparr>) (cg_mcp w)\<rparr>, Inr (A_health server_id status))))"

definition api_get_profile_policy :: "string \<Rightarrow> catalog_world \<Rightarrow> route_error + catalog_answer" where
  "api_get_profile_policy profile_id w = (case get_policy (Inr (list_profiles (cg_agents w))) profile_id of
     Inl msg \<Rightarrow> Inl (Raised_exc (PyExc msg)) | Inr p \<Rightarrow> Inr (A_policy profile_id (find_profile profile_id w) p))"

definition list_evaluations :: "string option \<Rightarrow> catalog_world \<Rightarrow> (string \<times> rat \<times> int \<times> string) list" where
  "list_evaluations profile_id w = map (\<lambda>e. (ag_name e, pq_empirical_trust (ag_quality e), pq_sample_size (ag_quality e),
       ag_trust_level e))
     (sort_key (\<lambda>e. - pq_empirical_trust (ag_quality e)) (list_agents profile_id False (cg_agents w)))"

definition fan_out_secondary_catalogs :: "seed_bundle \<Rightarrow> catalog_world \<Rightarrow> catalog_world" where
  "fan_out_secondary_catalogs b w = w\<lparr>cg_skills := fold upsert_skill (sb_skills b) (cg_skills w),
     cg_plans := fold upsert_plan (sb_plans b) (cg_plans w), cg_mcp := fold upsert_server (sb_servers b) (cg_mcp w)\<rparr>"

definition seed_catalog :: "seed_bundle \<Rightarrow> catalog_world \<Rightarrow> catalog_reply" where
  "seed_catalog b w = (
     let w1 = fan_out_secondary_catalogs b (w\<lparr>cg_agents := seed_agents (sb_agents b) (sb_profile b) (cg_agents w)\<rparr>) in
     (reloaded (w1\<lparr>cg_tools := seed_items tool_ops (sb_tools b) (cg_tools w1)\<rparr>),
      Inr (A_seeded (sb_profile b) (length (sb_agents b)) (length (sb_skills b)) (length (sb_plans b))
        (length (sb_servers b)) (length (sb_tools b)))))"

datatype catalog_request =
    List_agents "string option" "bool option" | Get_agent string
  | Write_agent string payload | Remove_agent string string
  | List_skills "string option" | Get_skill string string
  | Write_skill string payload | Approve string string | Remove_skill string string
  | List_plans "string option" | Get_plan string string | Write_plan string payload | Activate string string
  | List_servers "string option" | Write_server string payload | Check_health string string
  | Write_profile string payload | Get_policy string | Write_policy string payload | List_profiles
  | List_tools "string option" | Get_tool string string | Write_tool string payload
  | Get_evaluation string | List_evaluations "string option" | Get_audit int | Reload | Seed

fun route_role :: "catalog_request \<Rightarrow> role_setting" where
  "route_role (Write_agent n b) = Operator"
| "route_role (Remove_agent p n) = Operator"
| "route_role (Write_skill n b) = Operator"
| "route_role (Approve p n) = Operator"
| "route_role (Remove_skill p n) = Operator"
| "route_role (Write_plan n b) = Operator"
| "route_role (Activate p n) = Operator"
| "route_role (Write_server n b) = Operator"
| "route_role (Write_profile n b) = Operator"
| "route_role (Write_policy n b) = Operator"
| "route_role (Write_tool n b) = Operator"
| "route_role Reload = Operator"
| "route_role Seed = Operator"
| "route_role q = Reader"

definition reading :: "(catalog_world \<Rightarrow> route_error + catalog_answer) \<Rightarrow> catalog_world \<Rightarrow> catalog_reply" where
  "reading f w = (w, f w)"

definition removed :: "string \<Rightarrow> string \<Rightarrow> catalog_world \<times> bool \<Rightarrow> catalog_reply" where
  "removed msg name r = (fst r, if snd r then Inr (A_deleted name) else Inl (HTTP 404 msg))"

definition filled_or :: "route_error + payload \<Rightarrow> (payload \<Rightarrow> catalog_reply) \<Rightarrow> catalog_world \<Rightarrow> catalog_reply" where
  "filled_or b f w = (case b of Inl e \<Rightarrow> (w, Inl e) | Inr body \<Rightarrow> f body)"

definition api_get_agent :: "string \<Rightarrow> catalog_world \<Rightarrow> catalog_reply" where
  "api_get_agent n w = reading (\<lambda>w. found ''Agent not found'' (A_agent \<circ> entry_out) (get_agent (cg_agents w) n)) w"

definition api_put_agent :: "catalog_env \<Rightarrow> string \<Rightarrow> string \<Rightarrow> payload \<Rightarrow> catalog_world \<Rightarrow> catalog_reply" where
  "api_put_agent E actor n body w = answered (A_agent \<circ> entry_out) (put_agent E actor n body w)"

definition api_delete_agent :: "catalog_env \<Rightarrow> string \<Rightarrow> string \<Rightarrow> string \<Rightarrow> catalog_world \<Rightarrow> catalog_reply" where
  "api_delete_agent E actor p n w = removed ''Agent not found'' n (gate_delete_agent E actor p n w)"

definition api_list_skills :: "string option \<Rightarrow> catalog_world \<Rightarrow> catalog_reply" where
  "api_list_skills p w = reading (\<lambda>w. Inr (A_skills (list_items skill_ops sk_id p False (cg_skills w)))) w"

definition api_get_skill :: "string \<Rightarrow> string \<Rightarrow> catalog_world \<Rightarrow> catalog_reply" where
  "api_get_skill p n w = reading (\<lambda>w. found ''Skill not found'' A_skill (get_item (cg_skills w) n p)) w"

definition api_put_skill :: "catalog_env \<Rightarrow> string \<Rightarrow> string \<Rightarrow> payload \<Rightarrow> catalog_world \<Rightarrow> catalog_reply" where
  "api_put_skill E actor n body w = answered A_skill (put_skill E actor n body w)"

definition api_delete_skill :: "catalog_env \<Rightarrow> string \<Rightarrow> string \<Rightarrow> string \<Rightarrow> catalog_world \<Rightarrow> catalog_reply" where
  "api_delete_skill E actor p n w = removed ''Skill not found'' n (gate_delete_skill E actor p n w)"

definition api_list_plans :: "string option \<Rightarrow> catalog_world \<Rightarrow> catalog_reply" where
  "api_list_plans p w = reading (\<lambda>w. Inr (A_plans (list_plans p False (cg_plans w)))) w"

definition api_get_plan :: "string \<Rightarrow> string \<Rightarrow> catalog_world \<Rightarrow> catalog_reply" where
  "api_get_plan p n w = reading (\<lambda>w. found ''Plan not found'' A_plan (get_item (cg_plans w) n p)) w"

definition api_put_plan :: "catalog_env \<Rightarrow> string \<Rightarrow> string \<Rightarrow> payload \<Rightarrow> catalog_world \<Rightarrow> catalog_reply" where
  "api_put_plan E actor n body w = answered A_plan (put_plan E actor n body w)"

definition api_list_servers :: "string option \<Rightarrow> catalog_world \<Rightarrow> catalog_reply" where
  "api_list_servers p w = reading (\<lambda>w. Inr (A_servers (list_items mcp_ops mcp_id p False (cg_mcp w)))) w"

definition api_put_server :: "catalog_env \<Rightarrow> string \<Rightarrow> string \<Rightarrow> payload \<Rightarrow> catalog_world \<Rightarrow> catalog_reply" where
  "api_put_server E actor n body w = filled_or (with_required ''url'' mcp_put body)
     (\<lambda>b. answered A_server (upsert_mcp_body E actor n b w)) w"

definition api_put_profile :: "catalog_env \<Rightarrow> string \<Rightarrow> string \<Rightarrow> payload \<Rightarrow> catalog_world \<Rightarrow> catalog_reply" where
  "api_put_profile E actor n body w = filled_or (with_required ''name'' profile_put body)
     (\<lambda>b. answered A_profile (upsert_profile_pack E actor n b w)) w"

definition api_put_policy :: "catalog_env \<Rightarrow> string \<Rightarrow> string \<Rightarrow> payload \<Rightarrow> catalog_world \<Rightarrow> catalog_reply" where
  "api_put_policy E actor n patch w = answered (A_saved_policy n) (upsert_profile_policy E actor n patch w)"

definition api_list_profiles :: "catalog_world \<Rightarrow> catalog_reply" where
  "api_list_profiles w = reading (\<lambda>w. Inr (A_profiles (list_profiles (cg_agents w)))) w"

definition api_list_tools :: "string option \<Rightarrow> catalog_world \<Rightarrow> catalog_reply" where
  "api_list_tools p w = reading (\<lambda>w. Inr (A_tools (list_tools p False (cg_tools w)))) w"

definition api_get_tool :: "string \<Rightarrow> string \<Rightarrow> catalog_world \<Rightarrow> catalog_reply" where
  "api_get_tool p n w = reading (\<lambda>w. found ''Tool not found'' A_tool (get_item (cg_tools w) n p)) w"

definition api_put_tool :: "catalog_env \<Rightarrow> string \<Rightarrow> string \<Rightarrow> payload \<Rightarrow> catalog_world \<Rightarrow> catalog_reply" where
  "api_put_tool E actor n body w = answered A_tool (upsert_tool_body E actor n (filled tool_put body) w)"

definition api_get_evaluation :: "string \<Rightarrow> catalog_world \<Rightarrow> catalog_reply" where
  "api_get_evaluation n w = reading (\<lambda>w. found ''Persona not found''
     (\<lambda>e. A_evaluation n (ag_trust_level e) (ag_quality e)) (get_agent (cg_agents w) n)) w"

definition api_audit :: "int \<Rightarrow> catalog_world \<Rightarrow> catalog_reply" where
  "api_audit limit w = reading (\<lambda>w. Inr (A_audit (list_catalog_audit limit (cg_audit w)))) w"

definition api_reload :: "catalog_env \<Rightarrow> catalog_world \<Rightarrow> catalog_reply" where
  "api_reload E w = (reloaded w, Inr (A_reloaded (catalog_version_metric E (reloaded w))))"

lemmas api_route_defs = api_get_agent_def api_put_agent_def api_delete_agent_def api_list_skills_def api_get_skill_def
  api_put_skill_def api_delete_skill_def api_list_plans_def api_get_plan_def api_put_plan_def api_list_servers_def
  api_put_server_def api_put_profile_def api_put_policy_def api_list_profiles_def api_list_tools_def api_get_tool_def
  api_put_tool_def api_get_evaluation_def api_audit_def api_reload_def

fun catalog_handler :: "api_env \<Rightarrow> string \<Rightarrow> catalog_request \<Rightarrow> catalog_world \<Rightarrow> catalog_reply" where
  "catalog_handler A actor (List_agents p b) w = reading (\<lambda>w. Inr (A_agents (api_list_agents p b w))) w"
| "catalog_handler A actor (Get_agent n) w = api_get_agent n w"
| "catalog_handler A actor (Write_agent n body) w = api_put_agent (ap_catalog A) actor n body w"
| "catalog_handler A actor (Remove_agent p n) w = api_delete_agent (ap_catalog A) actor p n w"
| "catalog_handler A actor (List_skills p) w = api_list_skills p w"
| "catalog_handler A actor (Get_skill p n) w = api_get_skill p n w"
| "catalog_handler A actor (Write_skill n body) w = api_put_skill (ap_catalog A) actor n body w"
| "catalog_handler A actor (Approve p n) w = api_approve_skill (ap_catalog A) actor p n w"
| "catalog_handler A actor (Remove_skill p n) w = api_delete_skill (ap_catalog A) actor p n w"
| "catalog_handler A actor (List_plans p) w = api_list_plans p w"
| "catalog_handler A actor (Get_plan p n) w = api_get_plan p n w"
| "catalog_handler A actor (Write_plan n body) w = api_put_plan (ap_catalog A) actor n body w"
| "catalog_handler A actor (Activate p n) w = api_activate_plan n p w"
| "catalog_handler A actor (List_servers p) w = api_list_servers p w"
| "catalog_handler A actor (Write_server n body) w = api_put_server (ap_catalog A) actor n body w"
| "catalog_handler A actor (Check_health p n) w = mcp_health_check (ap_http_get A) n p w"
| "catalog_handler A actor (Write_profile n body) w = api_put_profile (ap_catalog A) actor n body w"
| "catalog_handler A actor (Get_policy n) w = reading (api_get_profile_policy n) w"
| "catalog_handler A actor (Write_policy n patch) w = api_put_policy (ap_catalog A) actor n patch w"
| "catalog_handler A actor List_profiles w = api_list_profiles w"
| "catalog_handler A actor (List_tools p) w = api_list_tools p w"
| "catalog_handler A actor (Get_tool p n) w = api_get_tool p n w"
| "catalog_handler A actor (Write_tool n body) w = api_put_tool (ap_catalog A) actor n body w"
| "catalog_handler A actor (Get_evaluation n) w = api_get_evaluation n w"
| "catalog_handler A actor (List_evaluations p) w = reading (\<lambda>w. Inr (A_evaluations (list_evaluations p w))) w"
| "catalog_handler A actor (Get_audit limit) w = api_audit limit w"
| "catalog_handler A actor Reload w = api_reload (ap_catalog A) w"
| "catalog_handler A actor Seed w = seed_catalog (ap_seed A) w"

text \<open>A reload is the last thing a write does; where it raises, so does the route.\<close>

definition reload_outcome :: "api_env \<Rightarrow> catalog_world \<Rightarrow> catalog_reply \<Rightarrow> catalog_reply" where
  "reload_outcome A w r = (
     if cg_reloads (fst r) = cg_reloads w then r
     else (case load_hybrid_registry (ce_dynamic_catalog (ap_catalog A)) (ap_shipped A) (cg_agents (fst r)) of
         Inl x \<Rightarrow> (fst r, Inl (Raised_exc x)) | Inr reg \<Rightarrow> r))"

definition serve_catalog :: "api_env \<Rightarrow> string option \<Rightarrow> catalog_request \<Rightarrow> catalog_world \<Rightarrow> catalog_reply" where
  "serve_catalog A header q w = (case require_role (ap_auth A) (route_role q) header of
     Inl e \<Rightarrow> (w, Inl e)
   | Inr c \<Rightarrow> reload_outcome A w (catalog_handler A (api_actor c) q w))"

subsection \<open>Runs\<close>

record run_create =
  rn_goal :: string
  rn_mode :: interaction_mode
  rn_profile_id :: string
  rn_persona :: string
  rn_message :: string
  rn_tenant_id :: string
  rn_file_paths :: "string list"

definition run_answer :: "run_world \<times> (exc + payload) \<Rightarrow> run_world \<times> (route_error + payload)" where
  "run_answer r = (fst r, case snd r of
     Inl x \<Rightarrow> Inl (if x = PyExc ''KeyError'' then HTTP 404 ''Run not found'' else Raised_exc x)
   | Inr out \<Rightarrow> Inr [(''run_context'', get_or out ''run_context'' PNone), (''result'', get_or out ''result'' PNone)])"

definition base_name :: "string \<Rightarrow> string" where
  "base_name path = last (py_split CHR ''/'' path)"

definition add_attachments :: "payload list \<Rightarrow> string \<Rightarrow> string \<Rightarrow> string \<Rightarrow> run_world \<Rightarrow> run_world" where
  "add_attachments new tenant run_id kind w = (case map_of (rw_states w) (tenant, run_id, kind) of
     None \<Rightarrow> w
   | Some st \<Rightarrow> w\<lparr>rw_states := state_upsert (st\<lparr>st_attachments := st_attachments st @ new\<rparr>) (rw_states w)\<rparr>)"

definition attach_paths_to_run :: "string \<Rightarrow> string \<Rightarrow> string \<Rightarrow> string list \<Rightarrow> run_world \<Rightarrow> run_world" where
  "attach_paths_to_run tenant run_id kind paths w =
     add_attachments (map (\<lambda>p. [(''path'', PStr p), (''name'', PStr (base_name p))]) paths) tenant run_id kind w"

text \<open>The id is fresh. A KeyError out of the step is not caught here.\<close>

definition api_create_run ::
  "run_env \<Rightarrow> string \<Rightarrow> run_create \<Rightarrow> run_world \<Rightarrow> run_world \<times> (exc + payload)" where
  "api_create_run E fresh body w = (
     let ctx = one_shot_job fresh (rn_tenant_id body) (Some (rn_mode body)) (rn_profile_id body);
         user_input = str_or (rn_message body) (rn_goal body);
         w1 = save_context ctx user_input w;
         w2 = (if rn_file_paths body = [] then w1
               else attach_paths_to_run (ctx_tenant_id ctx) (ctx_id ctx) (kind_value (ctx_kind ctx)) (rn_file_paths body) w1) in
     create_and_step E ctx user_input (rn_persona body) w2)"

definition api_create_session ::
  "run_env \<Rightarrow> string \<Rightarrow> run_create \<Rightarrow> run_world \<Rightarrow> run_world \<times> (exc + payload)" where
  "api_create_session E fresh body w = create_and_step E
     (from_session_id fresh (rn_tenant_id body) (Some (rn_mode body)) (rn_profile_id body))
     (str_or (rn_message body) (rn_goal body)) ''conductor'' w"

definition api_run_step ::
  "run_env \<Rightarrow> string \<Rightarrow> string \<Rightarrow> interaction_mode option \<Rightarrow> string \<Rightarrow> run_world \<Rightarrow> run_world \<times> (route_error + payload)" where
  "api_run_step E run_id message mode tenant w = run_answer (manage_step E run_id message tenant mode ''conductor'' w)"

definition api_approve_plan ::
  "run_env \<Rightarrow> string \<Rightarrow> plan_approval \<Rightarrow> string \<Rightarrow> run_world \<Rightarrow> run_world \<times> (route_error + payload)" where
  "api_approve_plan E run_id approval tenant w = run_answer (approve_plan E run_id approval tenant w)"

definition api_get_run :: "string \<Rightarrow> string \<Rightarrow> run_world \<Rightarrow> route_error + run_context \<times> run_state option" where
  "api_get_run run_id tenant w = (case get_context run_id tenant w of
     Inl x \<Rightarrow> Inl (HTTP 404 ''Run not found'')
   | Inr ctx \<Rightarrow> Inr (ctx, map_of (rw_states w) (tenant, run_id, kind_value (ctx_kind ctx))))"

subsection \<open>Attachments\<close>

text \<open>The file system: which characters count as word characters, resolve() of a path, and what writing a file raises.\<close>

record file_env =
  fe_root :: string
  fe_word :: "char \<Rightarrow> bool"
  fe_resolve :: "string \<Rightarrow> string"
  fe_write_error :: "string \<Rightarrow> exc option"

fun replace_runs :: "(char \<Rightarrow> bool) \<Rightarrow> bool \<Rightarrow> string \<Rightarrow> string" where
  "replace_runs ok inside [] = []"
| "replace_runs ok inside (c # cs) = (if ok c then c # replace_runs ok False cs
     else if inside then replace_runs ok True cs else CHR ''_'' # replace_runs ok True cs)"

definition safe_filename :: "file_env \<Rightarrow> string \<Rightarrow> string" where
  "safe_filename F name = str_or (replace_runs (\<lambda>c. fe_word F c \<or> c = CHR ''.'' \<or> c = CHR ''-'') False (path_name name)) ''attachment.bin''"

text \<open>The operator / of Path: an absolute right side replaces the left.\<close>

definition path_join :: "string \<Rightarrow> string \<Rightarrow> string" where
  "path_join a b = (case b of [] \<Rightarrow> a | c # cs \<Rightarrow> if c = CHR ''/'' then b else a @ ''/'' @ b)"

definition attachment_dest :: "file_env \<Rightarrow> string \<Rightarrow> string \<Rightarrow> string \<Rightarrow> string" where
  "attachment_dest F tenant run_id filename = path_join (path_join (path_join (fe_root F) tenant) run_id) (safe_filename F filename)"

definition save_attachment ::
  "file_env \<Rightarrow> string \<Rightarrow> string \<Rightarrow> string \<Rightarrow> string \<Rightarrow> string dict \<Rightarrow> string dict \<times> (exc + string)" where
  "save_attachment F tenant run_id filename data files = (let dest = attachment_dest F tenant run_id filename in
     case fe_write_error F dest of
       Some x \<Rightarrow> (files, Inl x)
     | None \<Rightarrow> (dput (fe_resolve F dest) data files, Inr (fe_resolve F dest)))"

definition upload_attachment ::
  "file_env \<Rightarrow> string \<Rightarrow> string \<Rightarrow> string \<Rightarrow> string \<Rightarrow> run_world \<times> string dict \<Rightarrow> (run_world \<times> string dict) \<times> (route_error + string)" where
  "upload_attachment F run_id tenant filename data wfs = (case get_context run_id tenant (fst wfs) of
     Inl x \<Rightarrow> (wfs, Inl (HTTP 404 ''Run not found''))
   | Inr ctx \<Rightarrow> (let name = str_or filename ''attachment.bin'' in
       case save_attachment F tenant run_id name data (snd wfs) of
         (files, Inl x) \<Rightarrow> ((fst wfs, files), Inl (Raised_exc x))
       | (files, Inr saved) \<Rightarrow> ((add_attachments [[(''path'', PStr saved), (''name'', PStr name)]] tenant run_id
             (kind_value (ctx_kind ctx)) (fst wfs), files), Inr saved)))"

subsection \<open>Investigations and jobs\<close>

definition with_role :: "auth_env \<Rightarrow> role_setting \<Rightarrow> string option \<Rightarrow> (route_error + 'a) \<Rightarrow> route_error + 'a" where
  "with_role A role header r = (case require_role A role header of Inl e \<Rightarrow> Inl e | Inr c \<Rightarrow> r)"

definition api_list_investigations :: "auth_env \<Rightarrow> string option \<Rightarrow> string \<Rightarrow> int \<Rightarrow> inv_store \<Rightarrow> route_error + inv_state list" where
  "api_list_investigations A header tenant limit s = with_role A Reader header (Inr (inv_list_recent tenant limit s))"

definition api_get_investigation :: "auth_env \<Rightarrow> string option \<Rightarrow> string \<Rightarrow> string \<Rightarrow> inv_store \<Rightarrow> route_error + inv_state" where
  "api_get_investigation A header tenant iid s = with_role A Reader header
     (case inv_get s (tenant, iid) of None \<Rightarrow> Inl (HTTP 404 ''Investigation not found'') | Some st \<Rightarrow> Inr st)"

definition api_investigation_jobs :: "auth_env \<Rightarrow> string option \<Rightarrow> string \<Rightarrow> string \<Rightarrow> job_store \<Rightarrow> route_error + job_record list" where
  "api_investigation_jobs A header tenant iid s = with_role A Reader header (Inr (list_by_investigation tenant iid s))"

definition api_get_job :: "auth_env \<Rightarrow> string option \<Rightarrow> string \<Rightarrow> job_store \<Rightarrow> route_error + job_record" where
  "api_get_job A header jid s = with_role A Reader header
     (case dget s jid of None \<Rightarrow> Inl (HTTP 404 ''Job not found'') | Some r \<Rightarrow> Inr r)"

definition api_pending_approvals :: "auth_env \<Rightarrow> string option \<Rightarrow> job_store \<Rightarrow> route_error + nat \<times> hitl_action list" where
  "api_pending_approvals A header s = with_role A Operator header
     (Inr (length (list_pending_approvals s), list_pending_approvals s))"

definition api_resume_job ::
  "auth_env \<Rightarrow> hitl_env \<Rightarrow> string option \<Rightarrow> string \<Rightarrow> string \<Rightarrow> resume_request \<Rightarrow> hitl_world \<Rightarrow> hitl_world \<times> (route_error + payload)" where
  "api_resume_job A H header fresh_id jid req w = (case require_role A Operator header of
     Inl e \<Rightarrow> (w, Inl e)
   | Inr c \<Rightarrow> (case resume_execute H fresh_id jid req w of
       (w1, Inl (ResumeHitlJobError msg)) \<Rightarrow> (w1, Inl (HTTP 400 msg))
     | (w1, Inl (Raised x)) \<Rightarrow> (w1, Inl (Raised_exc x))
     | (w1, Inr out) \<Rightarrow> (w1, Inr out)))"

subsection \<open>The roles guard the catalogs\<close>

lemma reading_same [simp]: "fst (reading f w) = w"
  by (simp add: reading_def)

lemma reload_outcome_fst [simp]: "fst (reload_outcome A w r) = fst r"
  by (auto simp: reload_outcome_def split: sum.split)

lemma reader_handler:
  assumes "route_role q = Reader"
  shows "fst (catalog_handler A actor q w) = w \<or> (\<exists>p n. q = Check_health p n)
    \<and> fst (catalog_handler A actor q w) = w\<lparr>cg_mcp := cg_mcp (fst (catalog_handler A actor q w))\<rparr>"
  using assms by (cases q) (auto simp: api_route_defs mcp_health_check_def Let_def split: option.split)

text \<open>C24: With authentication and roles on, a caller without the operator's role changes no catalog, no audit record
  and reloads nothing, with one exception: checking the health of an MCP server, which needs the reader's role
  only, writes its entry.\<close>

theorem catalog_route_guarded:
  assumes "serve_catalog A header q w = (w', r)"
    and "\<nexists>c. require_role (ap_auth A) Operator header = Inr c"
  shows "w' = w \<or> ((\<exists>p n. q = Check_health p n) \<and> w' = w\<lparr>cg_mcp := cg_mcp w'\<rparr>
    \<and> (\<exists>c. require_role (ap_auth A) Reader header = Inr c))"
proof (cases "require_role (ap_auth A) (route_role q) header")
  case (Inl e)
  with assms(1) show ?thesis by (simp add: serve_catalog_def)
next
  case (Inr c)
  have "route_role q = Reader"
  proof (cases q rule: route_role.cases)
  qed (use assms(2) Inr in auto)
  with assms(1) Inr reader_handler[of q A "api_actor c" w] show ?thesis by (auto simp: serve_catalog_def dest: arg_cong[of _ _ fst])
qed

text \<open>The catalogs of a world.\<close>

definition catalogs :: "catalog_world \<Rightarrow> mem_catalog \<times> skill_entry payload_catalog \<times> plan_entry payload_catalog
    \<times> mcp_server_entry payload_catalog \<times> tool_entry payload_catalog" where
  "catalogs w = (cg_agents w, cg_skills w, cg_plans w, cg_mcp w, cg_tools w)"

text \<open>A write that is recorded once, by this actor, or leaves the catalogs as they are.\<close>

definition recorded :: "string \<Rightarrow> catalog_world \<Rightarrow> catalog_world \<Rightarrow> bool" where
  "recorded actor w w' = (catalogs w' = catalogs w \<or> (\<exists>a. cg_audit w' = cg_audit w @ [a] \<and> au_actor a = actor))"

lemma settled_recorded:
  assumes "write_ok E PA PS actor op w" and "\<nexists>p n. op = Approve_skill p n" and "fst r = fst (write_catalog E actor op w)"
  shows "recorded actor w (fst r)"
  using assms by (cases "write_catalog E actor op w")
    (auto simp: write_ok_def write_settled_def recorded_def catalogs_def audited_once_def split: option.splits)

lemma handler_recorded:
  assumes "skills_keyed w"
    and "\<nexists>p n. q \<in> {Activate p n, Check_health p n, Approve p n} \<or> q = Seed"
  shows "recorded actor w (fst (catalog_handler A actor q w))"
proof -
  have ok: "write_ok (ap_catalog A) (\<lambda>n. is_wrapped) (\<lambda>n. is_wrapped) actor op w" for op by (rule write_ok_all[OF assms(1)])
  have raised_fst: "fst (raised r) = fst r" for r :: "catalog_world \<times> (exc + 'z)" by (simp add: raised_def)
  have same: "recorded actor w w" "recorded actor w (reloaded w)"
    by (simp_all add: recorded_def catalogs_def reloaded_def)
  have tool: "recorded actor w (fst (upsert_tool_body (ap_catalog A) actor n b w))" for n b
    by (rule settled_recorded[OF ok[of "Put_tool n b"]]) (simp_all add: raised_fst)
  have mcp: "recorded actor w (fst (upsert_mcp_body (ap_catalog A) actor n b w))" for n b
    by (rule settled_recorded[OF ok[of "Put_mcp_server n b"]]) (simp_all add: raised_fst)
  have prof: "recorded actor w (fst (upsert_profile_pack (ap_catalog A) actor n b w))" for n b
    by (rule settled_recorded[OF ok[of "Put_profile n b"]]) (simp_all add: raised_fst)
  have pol: "recorded actor w (fst (upsert_profile_policy (ap_catalog A) actor n b w))" for n b
    by (rule settled_recorded[OF ok[of "Put_policy n b"]]) (simp_all add: raised_fst)
  have ag: "recorded actor w (fst (put_agent (ap_catalog A) actor n b w))" for n b
    by (rule settled_recorded[OF ok[of "Put_agent n b"]]) (simp_all add: raised_fst)
  have sk: "recorded actor w (fst (put_skill (ap_catalog A) actor n b w))" for n b
    by (rule settled_recorded[OF ok[of "Put_skill n b"]]) (simp_all add: raised_fst)
  have pl: "recorded actor w (fst (put_plan (ap_catalog A) actor n b w))" for n b
    by (rule settled_recorded[OF ok[of "Put_plan n b"]]) (simp_all add: raised_fst)
  have da: "recorded actor w (fst (gate_delete_agent (ap_catalog A) actor p n w))" for p n
    by (rule settled_recorded[OF ok[of "Delete_agent p n"]]) simp_all
  have ds: "recorded actor w (fst (gate_delete_skill (ap_catalog A) actor p n w))" for p n
    by (rule settled_recorded[OF ok[of "Delete_skill p n"]]) simp_all
  show ?thesis using assms(2)
    by (cases q) (simp_all add: api_route_defs answered_def removed_def filled_or_def same tool mcp prof pol ag sk pl da ds split: sum.split)
qed

text \<open>C25: Every request that changes a catalog adds one audit record, which names the subject of the caller's token. Four
  kinds of request are left aside: activating a plan, checking a server's health and seeding, which are not recorded, and
  approving a skill, which is recorded when it succeeds (catalog_writes_settle) but changes the skill also when it fails.\<close>

theorem catalog_changes_recorded:
  assumes "serve_catalog A header q w = (w', r)" and "skills_keyed w" and "catalogs w' \<noteq> catalogs w"
    and "\<nexists>p n. q \<in> {Activate p n, Check_health p n, Approve p n} \<or> q = Seed"
  shows "\<exists>c a. require_role (ap_auth A) (route_role q) header = Inr c \<and> cg_audit w' = cg_audit w @ [a]
    \<and> au_actor a = api_actor c"
proof (cases "require_role (ap_auth A) (route_role q) header")
  case (Inl e)
  with assms(1,3) show ?thesis by (simp add: serve_catalog_def)
next
  case (Inr c)
  with assms(1) have "w' = fst (catalog_handler A (api_actor c) q w)"
    by (auto simp: serve_catalog_def dest: arg_cong[of _ _ fst])
  with handler_recorded[OF assms(2,4), of "api_actor c" A] assms(3) Inr show ?thesis by (auto simp: recorded_def)
qed

text \<open>With a dynamic catalog, a write that leaves an enabled agent with a role that is none of the five answers with an
  exception though it is stored and recorded; and so does every later write, whatever it is about, as long as the
  entry stays.\<close>

theorem bad_role_fails_writes:
  assumes "ce_dynamic_catalog (ap_catalog A)" and "agents_keyed (cg_agents w')"
    and "get_agent (cg_agents w') n = Some e" and "ag_enabled e" and "ag_role e \<notin> set agent_roles"
    and "serve_catalog A header q w = (w', r)" and "cg_reloads w' \<noteq> cg_reloads w"
  shows "r = Inl (Raised_exc (PyExc ''ValidationError''))"
proof -
  have "load_hybrid_registry True (ap_shipped A) (cg_agents w') = invalid"
    using bad_role_raises[OF assms(2-5)] by (simp add: load_hybrid_registry_def)
  then have l: "load_hybrid_registry (ce_dynamic_catalog (ap_catalog A)) (ap_shipped A) (cg_agents w')
      = Inl (PyExc ''ValidationError'')" using assms(1) by (simp add: invalid_def)
  show ?thesis
  proof (cases "require_role (ap_auth A) (route_role q) header")
    case (Inr c)
    define h where "h = catalog_handler A (api_actor c) q w"
    have s: "reload_outcome A w h = (w', r)" using assms(6) Inr by (simp add: serve_catalog_def h_def)
    then have "fst h = w'" by (metis fst_conv reload_outcome_fst)
    with s l assms(7) show ?thesis by (simp add: reload_outcome_def)
  qed (use assms(6,7) in \<open>simp add: serve_catalog_def\<close>)
qed

subsection \<open>Runs and attachments\<close>

lemma state_upsert_get: "map_of (state_upsert st t) k = (if k = state_key (st_context st) then Some st else map_of t k)"
  by (simp add: state_upsert_def put_state_def delete_conv')

text \<open>The files named when a run is created are attached to it before its first step, which starts from the
  state of the new run with its goal.\<close>

theorem create_run_attaches:
  assumes "ctx = one_shot_job fresh (rn_tenant_id body) (Some (rn_mode body)) (rn_profile_id body)"
    and "map_of (rw_states w) (state_key ctx) = None"
  shows "\<exists>w2 st. api_create_run E fresh body w = run_step E ctx (str_or (rn_message body) (rn_goal body)) (rn_persona body) w2
    \<and> map_of (rw_states w2) (state_key ctx) = Some st \<and> st_goal st = str_or (rn_message body) (rn_goal body)
    \<and> st_attachments st = map (\<lambda>p. [(''path'', PStr p), (''name'', PStr (base_name p))]) (rn_file_paths body)
    \<and> st_step_count st = 0 \<and> st_status st = RUN_IN_PROGRESS"
proof -
  let ?input = "str_or (rn_message body) (rn_goal body)"
  define w1 where "w1 = save_context ctx ?input w"
  have k: "(ctx_tenant_id ctx, ctx_id ctx, kind_value (ctx_kind ctx)) = state_key ctx" by (simp add: state_key_def)
  have s1: "map_of (rw_states w1) (state_key ctx) = Some (new_state ctx ?input)"
    using assms(2) by (simp add: w1_def save_context_def state_upsert_get new_state_def RunState_def)
  define w2 where "w2 = (if rn_file_paths body = [] then w1
      else attach_paths_to_run (ctx_tenant_id ctx) (ctx_id ctx) (kind_value (ctx_kind ctx)) (rn_file_paths body) w1)"
  define st where "st = (new_state ctx ?input)\<lparr>st_attachments :=
      map (\<lambda>p. [(''path'', PStr p), (''name'', PStr (base_name p))]) (rn_file_paths body)\<rparr>"
  have s2: "map_of (rw_states w2) (state_key ctx) = Some st"
    using s1 by (auto simp: w2_def attach_paths_to_run_def add_attachments_def k st_def new_state_def RunState_def state_upsert_get)
  have "api_create_run E fresh body w = run_step E ctx ?input (rn_persona body) (save_context ctx ?input w2)"
    unfolding api_create_run_def Let_def assms(1)[symmetric] w1_def[symmetric] w2_def[symmetric] by (simp add: create_and_step_def)
  moreover have "map_of (rw_states (save_context ctx ?input w2)) (state_key ctx) = Some st"
    using s2 by (simp add: save_context_def state_upsert_get) (simp add: st_def new_state_def RunState_def)
  ultimately show ?thesis by (intro exI[of _ "save_context ctx ?input w2"] exI[of _ st]) (simp add: st_def new_state_def RunState_def)
qed

lemma replace_runs_flat: "\<not> ok c \<Longrightarrow> c \<noteq> CHR ''_'' \<Longrightarrow> c \<notin> set (replace_runs ok b s)"
  by (induction ok b s rule: replace_runs.induct) auto

text \<open>An uploaded file gets a name without a separator, in the directory of its run below the root; but the tenant
  is a path of the caller's choice, and one that starts with a slash leaves the root out altogether.\<close>

theorem attachment_dest_spec:
  assumes "\<not> fe_word F CHR ''/''" and "tenant \<noteq> []" and "run_id \<noteq> []" and "hd run_id \<noteq> CHR ''/''"
  shows "attachment_dest F tenant run_id f =
      (if hd tenant = CHR ''/'' then [] else fe_root F @ ''/'') @ tenant @ ''/'' @ run_id @ ''/'' @ safe_filename F f
    \<and> CHR ''/'' \<notin> set (safe_filename F f) \<and> safe_filename F f \<noteq> []"
proof -
  have n: "CHR ''/'' \<notin> set (safe_filename F f)" "safe_filename F f \<noteq> []"
    using replace_runs_flat[of "\<lambda>c. fe_word F c \<or> c = CHR ''.'' \<or> c = CHR ''-''" "CHR ''/''" False "path_name f"] assms(1)
    by (auto simp: safe_filename_def str_or_def)
  then have "hd (safe_filename F f) \<noteq> CHR ''/''" by (metis list.set_sel(1))
  with n assms(2-4) show ?thesis by (cases tenant; cases run_id; cases "safe_filename F f") (auto simp: attachment_dest_def path_join_def)
qed

text \<open>Every approval recorded by resuming a job names the actor of the request's body, whoever's token it comes
  with.\<close>

theorem resume_actor_is_claimed:
  assumes "api_resume_job A H header fresh_id jid req w = (w', r)" and "ap \<in> set (hw_approvals w')"
  shows "ap \<in> set (hw_approvals w) \<or> ap_actor ap = rr_actor req"
proof (cases "require_role A Operator header")
  case (Inr c)
  obtain w1 x where e: "resume_execute H fresh_id jid req w = (w1, x)" by fastforce
  have "hw_approvals w1 = hw_approvals w \<or> (\<exists>a. hw_approvals w1 = hw_approvals w @ [a] \<and> ap_actor a = rr_actor req)"
    using e by (auto simp: resume_execute_def record_hitl_approval_def Let_def split: option.splits if_splits pyval.splits prod.splits sum.splits)
  moreover have "w' = w1" using assms(1) Inr e by (auto simp: api_resume_job_def split: sum.splits resume_error.splits)
  ultimately show ?thesis using assms(2) by auto
qed (use assms in \<open>simp add: api_resume_job_def\<close>)

text \<open>A reader of any tenant reads the investigations of every tenant: the tenant is the request's, and no token
  carries one.\<close>

theorem investigations_any_tenant:
  assumes "require_role A Reader header = Inr c" and "inv_get s (tenant, iid) = Some st"
  shows "api_get_investigation A header tenant iid s = Inr st"
  using assms by (simp add: api_get_investigation_def with_role_def)

subsection \<open>Witnesses\<close>

definition demo_api :: api_env where
  "demo_api = \<lparr>ap_auth = demo_auth_env, ap_catalog = demo_catalog_env, ap_http_get = (\<lambda>u. Some 200),
     ap_seed = \<lparr>sb_profile = new_profile ''p'', sb_agents = [], sb_skills = [], sb_plans = [], sb_servers = [], sb_tools = []\<rparr>,
     ap_shipped = []\<rparr>"

text \<open>The operator's token of the witnesses below.\<close>

definition demo_operator_env :: auth_env where
  "demo_operator_env = demo_auth_env\<lparr>ae_settings := demo_auth\<lparr>as_operator := ''rd''\<rparr>\<rparr>"

theorem catalog_route_guarded_witness:
  "fst (serve_catalog demo_api (Some ''Bearer tok'') (Write_agent ''soc'' []) demo_catalog_world) = demo_catalog_world"
proof -
  have n: "\<nexists>c. require_role (ap_auth demo_api) Operator (Some ''Bearer tok'') = Inr c"
  proof -
    have "isl (require_role (ap_auth demo_api) Operator (Some ''Bearer tok''))" by code_simp
    then show ?thesis by (auto simp: isl_def)
  qed
  obtain w' r where s: "serve_catalog demo_api (Some ''Bearer tok'') (Write_agent ''soc'' []) demo_catalog_world = (w', r)" by fastforce
  from catalog_route_guarded[OF s n] s show ?thesis by simp
qed

theorem catalog_changes_recorded_witness:
  "length (cg_audit (fst (serve_catalog (demo_api\<lparr>ap_auth := demo_operator_env\<rparr>) (Some ''Bearer tok'')
     (Write_agent ''soc'' []) demo_catalog_world))) = 1"
proof -
  let ?A = "demo_api\<lparr>ap_auth := demo_operator_env\<rparr>" and ?q = "Write_agent ''soc'' []"
  obtain w' r where s: "serve_catalog ?A (Some ''Bearer tok'') ?q demo_catalog_world = (w', r)" by fastforce
  have "mc_agents (cg_agents (fst (serve_catalog ?A (Some ''Bearer tok'') ?q demo_catalog_world))) \<noteq> []" by code_simp
  with s have "catalogs w' \<noteq> catalogs demo_catalog_world" by (auto simp: catalogs_def demo_catalog_world_def)
  from catalog_changes_recorded[OF s _ this] s show ?thesis
    by (auto simp: skills_keyed_def demo_catalog_world_def)
qed

theorem attachment_dest_spec_witness:
  "attachment_dest \<lparr>fe_root = ''/data'', fe_word = (\<lambda>c. c = CHR ''a''), fe_resolve = (\<lambda>s. s), fe_write_error = (\<lambda>s. None)\<rparr>
     ''/etc'' ''run-1'' ''../a b'' = ''/etc/run-1/a_''
   \<and> CHR ''/'' \<notin> set (safe_filename \<lparr>fe_root = ''/data'', fe_word = (\<lambda>c. c = CHR ''a''), fe_resolve = (\<lambda>s. s),
        fe_write_error = (\<lambda>s. None)\<rparr> ''../a b'')"
proof -
  let ?F = "\<lparr>fe_root = ''/data'', fe_word = (\<lambda>c. c = CHR ''a''), fe_resolve = (\<lambda>s. s), fe_write_error = (\<lambda>s. None :: exc option)\<rparr>"
  have "safe_filename ?F ''../a b'' = ''a_''" by code_simp
  with attachment_dest_spec[of ?F "''/etc''" "''run-1''" "''../a b''"] show ?thesis by simp
qed

theorem investigations_any_tenant_witness:
  "api_get_investigation demo_auth_env (Some ''Bearer tok'') ''other'' ''i1''
     [((''other'', ''i1''), InvestigationState ''i1'' ''other'' Inv_open)] = Inr (InvestigationState ''i1'' ''other'' Inv_open)"
proof -
  have "\<not> isl (require_role demo_auth_env Reader (Some ''Bearer tok''))" by code_simp
  then obtain c where c: "require_role demo_auth_env Reader (Some ''Bearer tok'') = Inr c"
    by (cases "require_role demo_auth_env Reader (Some ''Bearer tok'')") auto
  show ?thesis by (rule investigations_any_tenant[OF c]) (simp add: inv_get_def)
qed

theorem resume_actor_is_claimed_witness:
  "\<exists>ap \<in> set (hw_approvals (fst (api_resume_job demo_operator_env demo_hitl_env (Some ''Bearer tok'') ''x'' ''j1''
     ((demo_request ''reject'')\<lparr>rr_actor := ''someone''\<rparr>) demo_world))). ap_actor ap = ''someone''"
proof -
  let ?r = "api_resume_job demo_operator_env demo_hitl_env (Some ''Bearer tok'') ''x'' ''j1'' ((demo_request ''reject'')\<lparr>rr_actor := ''someone''\<rparr>) demo_world"
  have n: "hw_approvals (fst ?r) \<noteq> []" "hw_approvals demo_world = []" by code_simp+
  then obtain ap where ap: "ap \<in> set (hw_approvals (fst ?r))" by (meson list.set_sel(1))
  from resume_actor_is_claimed[OF prod.collapse[symmetric] ap] n(2) ap show ?thesis by auto
qed

theorem create_run_attaches_witness:
  "\<exists>w2 st. api_create_run (demo_run_env []) ''r1'' \<lparr>rn_goal = ''look'', rn_mode = ASK, rn_profile_id = ''p'', rn_persona = ''c'',
       rn_message = [], rn_tenant_id = ''t'', rn_file_paths = [''/etc/passwd'']\<rparr> empty_run_world
     = run_step (demo_run_env []) (one_shot_job ''r1'' ''t'' (Some ASK) ''p'') ''look'' ''c'' w2
     \<and> map_of (rw_states w2) (state_key (one_shot_job ''r1'' ''t'' (Some ASK) ''p'')) = Some st
     \<and> st_attachments st = [[(''path'', PStr ''/etc/passwd''), (''name'', PStr ''passwd'')]]"
proof -
  have b: "base_name ''/etc/passwd'' = ''passwd''" by code_simp
  show ?thesis
    using create_run_attaches[of "one_shot_job ''r1'' ''t'' (Some ASK) ''p''" "''r1''" "\<lparr>rn_goal = ''look'', rn_mode = ASK,
      rn_profile_id = ''p'', rn_persona = ''c'', rn_message = [], rn_tenant_id = ''t'', rn_file_paths = [''/etc/passwd'']\<rparr>"
      empty_run_world "demo_run_env []"]
    by (auto simp: b str_or_def empty_run_world_def)
qed

theorem bad_role_fails_writes_witness:
  "let A = demo_api\<lparr>ap_auth := demo_operator_env, ap_catalog := demo_catalog_env\<lparr>ce_dynamic_catalog := True\<rparr>\<rparr> in
   snd (serve_catalog A (Some ''Bearer tok'') (Write_agent ''soc'' [(''role'', PStr ''analyst'')]) demo_catalog_world)
     = Inl (Raised_exc (PyExc ''ValidationError''))"
proof -
  let ?A = "demo_api\<lparr>ap_auth := demo_operator_env, ap_catalog := demo_catalog_env\<lparr>ce_dynamic_catalog := True\<rparr>\<rparr>"
  let ?q = "Write_agent ''soc'' [(''role'', PStr ''analyst'')]"
  let ?c = "cg_agents (fst (serve_catalog ?A (Some ''Bearer tok'') ?q demo_catalog_world))"
  let ?e = "merge_entry None ((AgentCatalogEntry ''soc'' 5)\<lparr>ag_role := ''analyst'', ag_source := API\<rparr>)"
  have c: "mc_agents ?c = [(''soc'', ?e)]" by code_simp
  have k: "agents_keyed ?c" by (simp add: agents_keyed_def agents_ok_def c merge_entry_def AgentCatalogEntry_def)
  have g: "get_agent ?c ''soc'' = Some ?e" by (simp add: get_agent_def c)
  have e: "ag_enabled ?e" "ag_role ?e \<notin> set agent_roles" by (simp_all add: merge_entry_def AgentCatalogEntry_def agent_roles_def)
  have n: "cg_reloads (fst (serve_catalog ?A (Some ''Bearer tok'') ?q demo_catalog_world)) \<noteq> cg_reloads demo_catalog_world"
    by code_simp
  have d: "ce_dynamic_catalog (ap_catalog ?A)" by simp
  from bad_role_fails_writes[OF d k g e prod.collapse[symmetric] n] show ?thesis by (simp add: Let_def)
qed

end
