(* ===== verification/Agent_Runtime.thy ===== *)
theory Agent_Runtime
  imports Registry
begin

text \<open>AgentRuntime (cys_core/runtime/agent.py): what an agent is built with, the middleware stack, a run, a resumption,
  and what is made of the answer. langchain's create_agent and the calls of an agent are a parameter, which sees
  everything the agent is built with; so are json and the settings. Tools are their names.\<close>

subsection \<open>What an agent is built with\<close>

datatype agent_middleware =
    Prompt_context string string string
  | Memory_context string string
  | Context_summary string int
  | Scope_guard "string list"
  | Tool_coercion
  | Security_guard string string string
  | Human_in_the_loop "(string \<times> payload) list"
  | Guided_reasoning resolved_sgr
  | Sgr_one_tool
  | One_tool_per_turn

type_synonym schema_reader = "payload \<Rightarrow> string + payload"

record agent_spec =
  sp_name :: string
  sp_tools :: "string list"
  sp_system_prompt :: string
  sp_middleware :: "agent_middleware list"
  sp_schema :: "schema_reader option"
  sp_checkpointed :: bool

datatype agent_input = User_message string | Resume_with payload

record invoke_config =
  ic_thread_id :: string
  ic_recursion_limit :: int

text \<open>What an agent answers: its structured response and the contents of its messages.\<close>

record agent_result =
  ar_structured :: "payload option"
  ar_messages :: "pyval list"

record 'x runtime_world =
  ru_budgets :: tracker
  ru_memory :: memory_store
  ru_ext :: 'x

record 'x runtime_env =
  ru_registry :: registry
  ru_detector :: detector
  ru_guardrails :: guardrails
  ru_reader :: "(mem_env \<times> string option) option"
  ru_now :: time
  ru_profiles :: profiles_read
  ru_resolver :: resolver
  ru_tool_registry :: "string list"
  ru_schemas :: "schema_reader dict"
  ru_loads :: "string \<Rightarrow> pyval option"
  ru_dumps :: "payload \<Rightarrow> string"
  ru_str :: "pyval \<Rightarrow> string"
  ru_money :: "rat \<Rightarrow> string"
  ru_stage :: string
  ru_summary :: bool
  ru_keep :: int
  ru_use_sgr :: bool
  ru_sgr_default :: sgr_mode
  ru_one_tool :: bool
  ru_recursion_limit :: int
  ru_ainvoke :: "agent_spec \<Rightarrow> invoke_config \<Rightarrow> agent_input \<Rightarrow> 'x runtime_world \<Rightarrow> 'x runtime_world \<times> (job_exc + agent_result)"

definition build_middleware ::
  "'x runtime_env \<Rightarrow> full_definition \<Rightarrow> string \<Rightarrow> string \<Rightarrow> string \<Rightarrow> string \<Rightarrow> string \<Rightarrow> agent_middleware list" where
  "build_middleware V d session_id tenant_id investigation_id goal profile_id = (
     let interrupts = build_interrupt_on (ad_hitl_tools d);
         sgr = resolve_sgr_policy (Some (resolver_policy (ru_resolver V) profile_id)) (Some (ad_reasoning_mode d)) (ru_use_sgr V) (ru_sgr_default V) in
     [Prompt_context (ad_name d) (ad_system_prompt_digest d) session_id]
     @ (if ru_reader V \<noteq> None \<and> investigation_id \<noteq> [] then [Memory_context tenant_id investigation_id] else [])
     @ (if ru_summary V then [Context_summary goal (ru_keep V)] else [])
     @ [Scope_guard (ad_tools d), Tool_coercion, Security_guard (ad_name d) session_id profile_id]
     @ (if interrupts \<noteq> [] then [Human_in_the_loop interrupts] else [])
     @ (if rsg_enabled sgr then [Guided_reasoning sgr, Sgr_one_tool]
        else if ru_one_tool V then [One_tool_per_turn] else []))"

definition tool_get :: "'x runtime_env \<Rightarrow> string \<Rightarrow> exc + string" where
  "tool_get V name = (if name \<in> set (ru_tool_registry V) then Inr name else Inl (PyExc ''KeyError''))"

definition resolve_tools :: "'x runtime_env \<Rightarrow> string list \<Rightarrow> string \<Rightarrow> exc + string list" where
  "resolve_tools V names profile_id = traverse (tool_get V) (filter_tools_for_profile (ru_profiles V) names profile_id None)"

definition registry_tools :: "'x runtime_env \<Rightarrow> full_definition \<Rightarrow> string list \<Rightarrow> string \<Rightarrow> exc + string list" where
  "registry_tools V d extra_tools profile_id =
     rbind (resolve_tools V (filter_tools_for_profile (ru_profiles V) (ad_tools d) profile_id None) profile_id) (\<lambda>tools.
       Inr (tools @ extra_tools @ (if ad_skills d \<noteq> [] then [''load_skill''] else [])))"

definition runtime_schema :: "'x runtime_env \<Rightarrow> string option \<Rightarrow> exc + schema_reader option" where
  "runtime_schema V name = (case name of
     None \<Rightarrow> Inr None
   | Some n \<Rightarrow> if n = [] then Inr None
       else (case dget (ru_schemas V) n of Some s \<Rightarrow> Inr (Some s) | None \<Rightarrow> Inl (PyExc ''KeyError'')))"

definition acreate ::
  "'x runtime_env \<Rightarrow> full_definition \<Rightarrow> string \<Rightarrow> string list option \<Rightarrow> string \<Rightarrow> string \<Rightarrow> string \<Rightarrow> string \<Rightarrow> exc + agent_spec" where
  "acreate V d session_id sandbox_tools tenant_id investigation_id profile_id goal =
     rbind (case sandbox_tools of Some ts \<Rightarrow> Inr ts | None \<Rightarrow> registry_tools V d [] profile_id) (\<lambda>tools.
     rbind (runtime_schema V (ad_schema_name d)) (\<lambda>schema.
     Inr \<lparr>sp_name = ad_name d, sp_tools = tools, sp_system_prompt = ad_system_prompt d,
       sp_middleware = build_middleware V d session_id tenant_id investigation_id (str_or goal investigation_id) profile_id,
       sp_schema = schema, sp_checkpointed = True\<rparr>))"

text \<open>create is acreate without sandbox tools.\<close>

definition create_runtime_agent ::
  "'x runtime_env \<Rightarrow> full_definition \<Rightarrow> string \<Rightarrow> string \<Rightarrow> string \<Rightarrow> string \<Rightarrow> string \<Rightarrow> exc + agent_spec" where
  "create_runtime_agent V d session_id tenant_id investigation_id profile_id goal =
     acreate V d session_id None tenant_id investigation_id profile_id goal"

subsection \<open>The answer\<close>

definition value_has_content :: "pyval \<Rightarrow> bool" where
  "value_has_content v = (case v of
     PStr s \<Rightarrow> strip s \<noteq> [] | PList vs \<Rightarrow> vs \<noteq> [] | PInt i \<Rightarrow> i \<noteq> 0 | PBool b \<Rightarrow> b | PFloat q \<Rightarrow> q \<noteq> 0 | _ \<Rightarrow> False)"

definition structured_has_content :: "payload \<Rightarrow> bool" where
  "structured_has_content d = list_ex (\<lambda>kv. value_has_content (snd kv)) d"

definition validate_schema :: "schema_reader \<Rightarrow> payload \<Rightarrow> exc + payload" where
  "validate_schema schema d = (case schema d of
     Inr x \<Rightarrow> Inr x | Inl msg \<Rightarrow> Inl (SecurityViolation (''Schema validation failed: '' @ msg)))"

text \<open>A dict block gives its text, which join takes only if it is a string.\<close>

definition block_text :: "(pyval \<Rightarrow> string) \<Rightarrow> pyval \<Rightarrow> exc + string" where
  "block_text str v = (case v of
     PDict d \<Rightarrow> (case get_or d ''text'' (PStr []) of PStr s \<Rightarrow> Inr s | _ \<Rightarrow> Inl (PyExc ''TypeError''))
   | _ \<Rightarrow> Inr (py_text str v))"

definition extract_message_content :: "(pyval \<Rightarrow> string) \<Rightarrow> pyval \<Rightarrow> exc + string" where
  "extract_message_content str content = (case content of
     PList blocks \<Rightarrow> rbind (traverse (block_text str) blocks) (\<lambda>ts. Inr (concat ts))
   | _ \<Rightarrow> Inr (py_text str content))"

definition error_result :: "string \<Rightarrow> payload" where
  "error_result msg = [(''error'', PStr msg)]"

definition coerce_text :: "'x runtime_env \<Rightarrow> schema_reader option \<Rightarrow> string \<Rightarrow> exc + payload" where
  "coerce_text V schema text = (case parse_json_text (ru_loads V) text of
     None \<Rightarrow> Inr [(''raw_response'', PStr text)]
   | Some d \<Rightarrow> (case schema of
       Some s \<Rightarrow> (case validate_schema s d of
           Inr x \<Rightarrow> Inr x | Inl x \<Rightarrow> if ru_stage V = ''dev'' then Inr d else Inl x)
     | None \<Rightarrow> validate_output (ru_guardrails V) [(''response'', PStr (ru_dumps V d))]))"

definition coerce_messages :: "'x runtime_env \<Rightarrow> schema_reader option \<Rightarrow> pyval list \<Rightarrow> exc + payload" where
  "coerce_messages V schema ms = (if ms = [] then Inr (error_result ''no response'')
     else rbind (extract_message_content (ru_str V) (last ms)) (coerce_text V schema))"

definition coerce_result :: "'x runtime_env \<Rightarrow> schema_reader option \<Rightarrow> agent_result \<Rightarrow> exc + payload" where
  "coerce_result V schema r = (case ar_structured r of
     Some d \<Rightarrow> if structured_has_content d then (case schema of Some s \<Rightarrow> validate_schema s d | None \<Rightarrow> Inr d)
       else coerce_messages V schema (ar_messages r)
   | None \<Rightarrow> coerce_messages V schema (ar_messages r))"

subsection \<open>Running\<close>

type_synonym 'x run_reply = "'x runtime_world \<times> (job_exc + payload)"

definition charge :: "'x runtime_env \<Rightarrow> string \<Rightarrow> string \<Rightarrow> 'x runtime_world \<Rightarrow> 'x runtime_world \<times> string option" where
  "charge V session_id text w = (case record_tokens session_id (estimate_tokens text) (ru_budgets w) of
     (t, e) \<Rightarrow> (w\<lparr>ru_budgets := t\<rparr>, map_option (budget_text (ru_money V)) e))"

definition settle_answer :: "'x runtime_env \<Rightarrow> string \<Rightarrow> schema_reader option \<Rightarrow> agent_result \<Rightarrow> 'x runtime_world \<Rightarrow> 'x run_reply" where
  "settle_answer V session_id schema r w = (case coerce_result V schema r of
     Inl x \<Rightarrow> (w, Inl (Exc x))
   | Inr d \<Rightarrow> (case charge V session_id (ru_dumps V d) w of
       (w1, Some msg) \<Rightarrow> (w1, Inr (error_result msg)) | (w1, None) \<Rightarrow> (w1, Inr d)))"

definition ainvoke ::
  "'x runtime_env \<Rightarrow> agent_spec \<Rightarrow> string \<Rightarrow> string \<Rightarrow> schema_reader option \<Rightarrow> int option \<Rightarrow> 'x runtime_world \<Rightarrow> 'x run_reply" where
  "ainvoke V agent user_input session_id schema recursion_limit w = (case sanitize (ru_detector V) Src_user user_input of
     Inl _ \<Rightarrow> (w, Inr (error_result REFUSAL_MESSAGE))
   | Inr sanitized \<Rightarrow> (case charge V session_id sanitized w of
       (w1, Some msg) \<Rightarrow> (w1, Inl (JobBudgetExceeded msg))
     | (w1, None) \<Rightarrow> (case ru_ainvoke V agent \<lparr>ic_thread_id = session_id, ic_recursion_limit = (case recursion_limit of
             Some n \<Rightarrow> if n = 0 then ru_recursion_limit V else n | None \<Rightarrow> ru_recursion_limit V)\<rparr> (User_message sanitized) w1 of
         (w2, Inl (JobBudgetExceeded msg)) \<Rightarrow> (w2, Inr (error_result msg))
       | (w2, Inl (Exc x)) \<Rightarrow> (w2, Inl (Exc x))
       | (w2, Inr r) \<Rightarrow> settle_answer V session_id schema r w2)))"

text \<open>The arguments of arun; the rest of them go into the trace only.\<close>

record runtime_call =
  rt_name :: string
  rt_input :: string
  rt_session :: "string option"
  rt_sandbox_tools :: "string list option"
  rt_limit :: "int option"
  rt_event :: string
  rt_correlation :: string
  rt_tenant :: string
  rt_investigation :: string
  rt_profile :: string

definition call_session :: "runtime_call \<Rightarrow> string" where
  "call_session c = (case rt_session c of Some (x # xs) \<Rightarrow> x # xs | _ \<Rightarrow> ''agent-'' @ rt_name c)"

definition call_investigation :: "runtime_call \<Rightarrow> string" where
  "call_investigation c = str_or (rt_investigation c) (str_or (rt_correlation c) (rt_event c))"

definition call_spec :: "'x runtime_env \<Rightarrow> runtime_call \<Rightarrow> exc + agent_spec" where
  "call_spec V c = rbind (registry_get (ru_registry V) (rt_name c)) (\<lambda>d.
     acreate V d (call_session c) (rt_sandbox_tools c) (rt_tenant c) (call_investigation c)
       (str_or (rt_profile c) DEFAULT_PROFILE_ID) (rt_input c))"

definition arun :: "'x runtime_env \<Rightarrow> runtime_call \<Rightarrow> 'x runtime_world \<Rightarrow> 'x run_reply" where
  "arun V c w = (case call_spec V c of
     Inl x \<Rightarrow> (w, Inl (Exc x))
   | Inr agent \<Rightarrow> ainvoke V agent (rt_input c) (call_session c) (sp_schema agent) (rt_limit c) w)"

text \<open>A resumption builds the agent anew, without the arguments of the run it resumes.\<close>

definition resume_spec :: "'x runtime_env \<Rightarrow> string \<Rightarrow> string \<Rightarrow> exc + agent_spec" where
  "resume_spec V name session_id = rbind (registry_get (ru_registry V) name) (\<lambda>d.
     acreate V d session_id None ''default'' [] DEFAULT_PROFILE_ID [])"

definition aresume :: "'x runtime_env \<Rightarrow> string \<Rightarrow> string \<Rightarrow> payload \<Rightarrow> 'x runtime_world \<Rightarrow> 'x run_reply" where
  "aresume V name session_id resume w = (case resume_spec V name session_id of
     Inl x \<Rightarrow> (w, Inl (Exc x))
   | Inr agent \<Rightarrow> (case ru_ainvoke V agent \<lparr>ic_thread_id = session_id, ic_recursion_limit = 25\<rparr> (Resume_with resume) w of
       (w1, Inl x) \<Rightarrow> (w1, Inl x)
     | (w1, Inr r) \<Rightarrow> (w1, case coerce_result V (sp_schema agent) r of Inl x \<Rightarrow> Inl (Exc x) | Inr d \<Rightarrow> Inr d)))"

text \<open>The synchronous run: neither an exceeded budget nor the answer's tokens are seen to.\<close>

definition invoke_sync ::
  "'x runtime_env \<Rightarrow> agent_spec \<Rightarrow> string \<Rightarrow> string \<Rightarrow> schema_reader option \<Rightarrow> 'x runtime_world \<Rightarrow> 'x run_reply" where
  "invoke_sync V agent user_input session_id schema w = (case sanitize (ru_detector V) Src_user user_input of
     Inl _ \<Rightarrow> (w, Inr (error_result REFUSAL_MESSAGE))
   | Inr sanitized \<Rightarrow> (case charge V session_id sanitized w of
       (w1, Some msg) \<Rightarrow> (w1, Inl (JobBudgetExceeded msg))
     | (w1, None) \<Rightarrow> (case ru_ainvoke V agent \<lparr>ic_thread_id = session_id, ic_recursion_limit = 25\<rparr> (User_message sanitized) w1 of
         (w2, Inl x) \<Rightarrow> (w2, Inl x)
       | (w2, Inr r) \<Rightarrow> (w2, case coerce_result V schema r of Inl x \<Rightarrow> Inl (Exc x) | Inr d \<Rightarrow> Inr d))))"

definition run_sync :: "'x runtime_env \<Rightarrow> runtime_call \<Rightarrow> 'x runtime_world \<Rightarrow> 'x run_reply" where
  "run_sync V c w = (case rbind (registry_get (ru_registry V) (rt_name c)) (\<lambda>d. create_runtime_agent V d (call_session c)
        (rt_tenant c) (rt_investigation c) DEFAULT_PROFILE_ID []) of
     Inl x \<Rightarrow> (w, Inl (Exc x))
   | Inr agent \<Rightarrow> invoke_sync V agent (rt_input c) (call_session c) (sp_schema agent) w)"

definition to_deep_agent_subagent :: "'x runtime_env \<Rightarrow> full_definition \<Rightarrow> exc + string \<times> string \<times> string \<times> string list" where
  "to_deep_agent_subagent V d = rbind (resolve_tools V (ad_tools d) DEFAULT_PROFILE_ID) (\<lambda>tools.
     Inr (ad_name d, ad_description d, ad_system_prompt d, tools))"

subsection \<open>The guards of an agent\<close>

definition is_hitl :: "agent_middleware \<Rightarrow> bool" where
  "is_hitl m = (case m of Human_in_the_loop i \<Rightarrow> True | _ \<Rightarrow> False)"

definition is_discipline :: "agent_middleware \<Rightarrow> bool" where
  "is_discipline m = (m = One_tool_per_turn \<or> (case m of Guided_reasoning p \<Rightarrow> True | _ \<Rightarrow> False))"

lemma interrupts_iff: "build_interrupt_on h \<noteq> [] \<longleftrightarrow> (\<exists>t. (t, True) \<in> set h)"
  by (force simp: build_interrupt_on_def filter_empty_conv)

text \<open>Whatever it is built for, an agent has the scope guard over its own tools, then the coercion of arguments,
  then the security guard; after them, the approval middleware exactly if one of its tools asks for approval; and
  at most one turn discipline.\<close>

theorem guards_always_on:
  assumes "acreate V d session_id sandbox_tools tenant inv_id profile_id goal = Inr sp"
  shows "\<exists>before after. sp_middleware sp = before @ [Scope_guard (ad_tools d), Tool_coercion,
       Security_guard (ad_name d) session_id profile_id] @ after
    \<and> \<not> list_ex is_hitl before \<and> \<not> list_ex is_discipline before
    \<and> (list_ex is_hitl after \<longleftrightarrow> (\<exists>t. (t, True) \<in> set (ad_hitl_tools d)))
    \<and> length (filter is_discipline after) \<le> 1"
proof -
  have m: "sp_middleware sp = build_middleware V d session_id tenant inv_id (str_or goal inv_id) profile_id"
    using assms by (auto simp: acreate_def rbind_Inr_iff)
  let ?sgr = "resolve_sgr_policy (Some (resolver_policy (ru_resolver V) profile_id)) (Some (ad_reasoning_mode d)) (ru_use_sgr V) (ru_sgr_default V)"
  let ?i = "build_interrupt_on (ad_hitl_tools d)"
  show ?thesis unfolding m
    by (intro exI[of _ "[Prompt_context (ad_name d) (ad_system_prompt_digest d) session_id]
          @ (if ru_reader V \<noteq> None \<and> inv_id \<noteq> [] then [Memory_context tenant inv_id] else [])
          @ (if ru_summary V then [Context_summary (str_or goal inv_id) (ru_keep V)] else [])"]
        exI[of _ "(if ?i \<noteq> [] then [Human_in_the_loop ?i] else [])
          @ (if rsg_enabled ?sgr then [Guided_reasoning ?sgr, Sgr_one_tool] else if ru_one_tool V then [One_tool_per_turn] else [])"])
      (auto simp: build_middleware_def Let_def interrupts_iff[symmetric] is_hitl_def is_discipline_def)
qed

text \<open>A run in a sandbox has the sandbox's tools only; when it is resumed after an approval it has the tools of the
  process instead, under the policy of the default profile and without the memory of its investigation.\<close>

theorem resume_leaves_sandbox:
  assumes "call_spec V c = Inr sp" and "rt_sandbox_tools c = Some ts" and "resume_spec V (rt_name c) session_id = Inr sp'"
  shows "sp_tools sp = ts \<and> (\<exists>d. registry_get (ru_registry V) (rt_name c) = Inr d
    \<and> registry_tools V d [] DEFAULT_PROFILE_ID = Inr (sp_tools sp')
    \<and> Security_guard (ad_name d) session_id DEFAULT_PROFILE_ID \<in> set (sp_middleware sp')
    \<and> (\<forall>t i. Memory_context t i \<notin> set (sp_middleware sp')))"
  using assms
  by (auto simp: call_spec_def resume_spec_def acreate_def rbind_Inr_iff build_middleware_def Let_def)

subsection \<open>Answers\<close>

lemma coerce_text_cases:
  assumes "coerce_text V schema t = Inr x" and "ru_stage V \<noteq> ''dev''"
  shows "x = [(''raw_response'', PStr t)] \<or> (\<exists>s y. schema = Some s \<and> s y = Inr x)
    \<or> (schema = None \<and> (\<exists>y. validate_output (ru_guardrails V) y = Inr x))"
  using assms by (auto simp: coerce_text_def validate_schema_def split: option.splits sum.splits)

lemma coerce_result_answer:
  assumes "coerce_result V schema r = Inr x" and "ru_stage V \<noteq> ''dev''"
  shows "x = error_result ''no response'' \<or> (\<exists>t. x = [(''raw_response'', PStr t)])
    \<or> (\<exists>s y. schema = Some s \<and> s y = Inr x)
    \<or> (schema = None \<and> (ar_structured r = Some x \<or> (\<exists>y. validate_output (ru_guardrails V) y = Inr x)))"
proof -
  have ms: ?thesis if "coerce_messages V schema (ar_messages r) = Inr x"
  proof (cases "ar_messages r = []")
    case True
    with that show ?thesis by (simp add: coerce_messages_def)
  next
    case False
    with that obtain t where "coerce_text V schema t = Inr x" by (auto simp: coerce_messages_def rbind_Inr_iff)
    from coerce_text_cases[OF this assms(2)] show ?thesis by blast
  qed
  show ?thesis
  proof (cases "ar_structured r")
    case (Some d)
    with assms(1) ms show ?thesis
      by (cases "structured_has_content d"; cases schema) (auto simp: coerce_result_def validate_schema_def split: sum.splits)
  qed (use assms(1) ms in \<open>simp add: coerce_result_def\<close>)
qed

lemma coerce_result_cases:
  assumes "coerce_result V (Some s) r = Inr x" and "ru_stage V \<noteq> ''dev''"
  shows "x = error_result ''no response'' \<or> (\<exists>t. x = [(''raw_response'', PStr t)]) \<or> (\<exists>y. s y = Inr x)"
  using coerce_result_answer[OF assms] by simp

text \<open>C33: Outside of development an answer is a fixed error, an unstructured text, what the agent's schema made of it,
  or, for an agent without a schema, its structured response or what passed the output guardrails.\<close>

theorem answers_validated:
  assumes "coerce_result V schema r = Inr x" and "ru_stage V \<noteq> ''dev''"
  shows "x = error_result ''no response'' \<or> (\<exists>t. x = [(''raw_response'', PStr t)])
    \<or> (\<exists>s y. schema = Some s \<and> s y = Inr x)
    \<or> (schema = None \<and> (ar_structured r = Some x \<or> (\<exists>y. validate_output (ru_guardrails V) y = Inr x)))"
  by (rule coerce_result_answer[OF assms])

text \<open>The runtime gives an answer that is not JSON to the caller word for word, whatever the output guardrails say of it and
  whatever the schema is: the result step looks for neither leaks nor personal data (the prompt context looks at leaks).\<close>

theorem plain_answer_unchecked:
  assumes "ar_structured r = None" and "ar_messages r \<noteq> []" and "last (ar_messages r) = PStr t"
    and "parse_json_text (ru_loads V) t = None"
  shows "coerce_result V schema r = Inr [(''raw_response'', PStr t)]"
  using assms by (simp add: coerce_result_def coerce_messages_def extract_message_content_def py_text_def coerce_text_def)

subsection \<open>Budgets\<close>

text \<open>A run of a session whose budget its input exceeds calls no model: it raises, though the same excess found
  after the answer is an error result. The input counts either way.\<close>

theorem spent_run_calls_no_model:
  assumes "call_spec V c = Inr sp" and "sanitize (ru_detector V) Src_user (rt_input c) = Inr s"
    and "dget (tk_states (ru_budgets w)) (call_session c) = Some st"
    and "bs_tokens_used st + estimate_tokens s > bs_max_tokens st"
  shows "\<exists>w' msg. arun V c w = (w', Inl (JobBudgetExceeded msg)) \<and> ru_ext w' = ru_ext w \<and> ru_memory w' = ru_memory w
    \<and> map_option bs_tokens_used (dget (tk_states (ru_budgets w')) (call_session c)) = Some (bs_tokens_used st + estimate_tokens s)"
proof -
  have "estimate_tokens s > 0" by (simp add: estimate_tokens_def)
  with assms show ?thesis
    by (auto simp: arun_def ainvoke_def charge_def record_tokens_def Let_def check_limits_def)
qed

subsection \<open>Witnesses\<close>

definition demo_runtime :: "full_definition \<Rightarrow> unit runtime_env" where
  "demo_runtime d = \<lparr>ru_registry = [(ad_name d, d)], ru_detector = demo_detector,
     ru_guardrails = \<lparr>gr_max_payload_size = 10, gr_pii_subs = [], gr_sensitive_params = [], gr_leakage = [\<lambda>s. True],
       gr_dumps = (\<lambda>v. []), gr_str = (\<lambda>v. [])\<rparr>, ru_reader = None, ru_now = 0, ru_profiles = Inr [],
     ru_resolver = \<lparr>rs_loader = None, rs_env = \<lparr>env_trace_critic_threshold = None, env_trace_critic_every_n_steps = None,
       env_trace_critic_rerun_max = None, env_delegate_budget_fraction = None, env_max_spawn_depth = None\<rparr>\<rparr>,
     ru_tool_registry = [''rag_search''], ru_schemas = [], ru_loads = (\<lambda>s. None), ru_dumps = (\<lambda>d. ''{}''), ru_str = (\<lambda>v. []),
     ru_money = (\<lambda>q. []), ru_stage = ''prod'', ru_summary = False, ru_keep = 3, ru_use_sgr = True, ru_sgr_default = Sgr_off,
     ru_one_tool = True, ru_recursion_limit = 25,
     ru_ainvoke = (\<lambda>a c i w. (w, Inr \<lparr>ar_structured = None, ar_messages = [PStr ''hello'']\<rparr>))\<rparr>"

definition demo_worker_definition :: full_definition where
  "demo_worker_definition = (demo_definition ''soc'')\<lparr>ad_tools := [''rag_search''], ad_hitl_tools := [(''isolate_host'', True)]\<rparr>"

definition demo_call :: runtime_call where
  "demo_call = \<lparr>rt_name = ''soc'', rt_input = ''look'', rt_session = Some ''s1'', rt_sandbox_tools = Some [''boxed''], rt_limit = None,
     rt_event = [], rt_correlation = ''i1'', rt_tenant = ''t'', rt_investigation = [], rt_profile = ''p''\<rparr>"

definition demo_runtime_world :: "int \<Rightarrow> unit runtime_world" where
  "demo_runtime_world budget = \<lparr>ru_budgets = \<lparr>tk_states = [(''s1'', \<lparr>bs_max_tokens = budget, bs_max_cost_usd = 1,
     bs_max_tool_calls = 5, bs_tokens_used = 0, bs_cost_usd = 0, bs_tool_calls = 0\<rparr>)], tk_profile_ids = [], tk_profile_costs = [], tk_cost_per_1k = 0\<rparr>,
     ru_memory = [], ru_ext = ()\<rparr>"

lemma demo_spec: "\<exists>sp. call_spec (demo_runtime demo_worker_definition) demo_call = Inr sp"
proof -
  have "\<not> isl (call_spec (demo_runtime demo_worker_definition) demo_call)" by code_simp
  then show ?thesis by (cases "call_spec (demo_runtime demo_worker_definition) demo_call") auto
qed

theorem guards_always_on_witness:
  "\<exists>sp. acreate (demo_runtime demo_worker_definition) demo_worker_definition ''s1'' (Some [''boxed'']) ''t'' ''i1'' ''p'' [] = Inr sp
     \<and> list_ex is_hitl (sp_middleware sp)"
proof -
  have "\<not> isl (acreate (demo_runtime demo_worker_definition) demo_worker_definition ''s1'' (Some [''boxed'']) ''t'' ''i1'' ''p'' [])"
    by code_simp
  then obtain sp where sp: "acreate (demo_runtime demo_worker_definition) demo_worker_definition ''s1'' (Some [''boxed'']) ''t'' ''i1'' ''p'' [] = Inr sp"
    by (cases "acreate (demo_runtime demo_worker_definition) demo_worker_definition ''s1'' (Some [''boxed'']) ''t'' ''i1'' ''p'' []") auto
  from guards_always_on[OF sp] sp show ?thesis by (auto simp: demo_worker_definition_def)
qed

theorem resume_leaves_sandbox_witness:
  "\<exists>a b. call_spec (demo_runtime demo_worker_definition) demo_call = Inr a \<and> sp_tools a = [''boxed'']
     \<and> resume_spec (demo_runtime demo_worker_definition) ''soc'' ''s1'' = Inr b
     \<and> (\<exists>d. Security_guard d ''s1'' DEFAULT_PROFILE_ID \<in> set (sp_middleware b))"
proof -
  obtain a where a: "call_spec (demo_runtime demo_worker_definition) demo_call = Inr a" using demo_spec by blast
  have "\<not> isl (resume_spec (demo_runtime demo_worker_definition) (rt_name demo_call) ''s1'')" by code_simp
  then obtain b where b: "resume_spec (demo_runtime demo_worker_definition) (rt_name demo_call) ''s1'' = Inr b"
    by (cases "resume_spec (demo_runtime demo_worker_definition) (rt_name demo_call) ''s1''") auto
  from resume_leaves_sandbox[OF a _ b] a b show ?thesis by (auto simp: demo_call_def)
qed

theorem answers_validated_witness:
  "\<exists>x. coerce_result (demo_runtime demo_worker_definition) (Some Inr) \<lparr>ar_structured = Some [(''a'', PInt 1)], ar_messages = []\<rparr> = Inr x
     \<and> (x = error_result ''no response'' \<or> (\<exists>t. x = [(''raw_response'', PStr t)]) \<or> (\<exists>s y. Some Inr = Some s \<and> s y = (Inr x :: string + payload)))"
proof -
  let ?r = "coerce_result (demo_runtime demo_worker_definition) (Some Inr) \<lparr>ar_structured = Some [(''a'', PInt 1)], ar_messages = []\<rparr>"
  have "?r = Inr [(''a'', PInt 1)]" by code_simp
  from answers_validated[OF this] this show ?thesis by (auto simp: demo_runtime_def)
qed

theorem plain_answer_unchecked_witness:
  "coerce_result (demo_runtime demo_worker_definition) (Some (\<lambda>d. Inl ''never''))
     \<lparr>ar_structured = None, ar_messages = [PStr ''my system prompt is'']\<rparr> = Inr [(''raw_response'', PStr ''my system prompt is'')]"
proof -
  have "parse_json_text (ru_loads (demo_runtime demo_worker_definition)) ''my system prompt is'' = None" by code_simp
  then show ?thesis by (intro plain_answer_unchecked) simp_all
qed

theorem spent_run_calls_no_model_witness:
  "\<exists>w' msg. arun (demo_runtime demo_worker_definition) demo_call (demo_runtime_world 0) = (w', Inl (JobBudgetExceeded msg))"
proof -
  obtain sp where sp: "call_spec (demo_runtime demo_worker_definition) demo_call = Inr sp" using demo_spec by blast
  have "\<not> isl (sanitize (ru_detector (demo_runtime demo_worker_definition)) Src_user (rt_input demo_call))" by code_simp
  then obtain s where s: "sanitize (ru_detector (demo_runtime demo_worker_definition)) Src_user (rt_input demo_call) = Inr s"
    by (cases "sanitize (ru_detector (demo_runtime demo_worker_definition)) Src_user (rt_input demo_call)") auto
  have "estimate_tokens s > 0" by (simp add: estimate_tokens_def)
  with spent_run_calls_no_model[OF sp s, of "demo_runtime_world 0"] show ?thesis
    by (fastforce simp: demo_runtime_world_def call_session_def demo_call_def)
qed

end
