(* ===== verification/Model_Context.thy ===== *)
theory Model_Context
  imports Agent_Runtime Catalog_Gate
begin

text \<open>What a model call of an agent passes through before the model: PromptContextMiddleware, MemoryContextMiddleware and
  ContextSummaryMiddleware (cys_core/middleware), the trimming of histories (application/runs/message_trim.py) and the
  summarizers (infrastructure/context/summarizer.py). The model and the middlewares further in are the handler, a
  parameter. langchain makes a response of the one message a middleware returns in place of the model's.\<close>

subsection \<open>Messages\<close>

datatype message_kind = System_message | Human_message | Ai_message | Tool_message | Other_message

record chat_message =
  cm_kind :: message_kind
  cm_content :: pyval

record model_request =
  rq_system :: "string option"
  rq_messages :: "chat_message list"

record model_response =
  mr_result :: "chat_message list"
  mr_structured :: "payload option"

datatype summarizer = Noop_summarizer | Llm_summarizer "string \<Rightarrow> exc + string"

record 'x context_env =
  xe_runtime :: "'x runtime_env"
  xe_sha256 :: "string \<Rightarrow> string"
  xe_max_messages :: int
  xe_summarizer :: summarizer

text \<open>What the middlewares of one agent keep, and the world behind them.\<close>

record 'x context_world =
  xw_runtime :: "'x runtime_world"
  xw_monitor :: monitor
  xw_loaded :: int
  xw_last_summary :: string

type_synonym 'x model_handler = "model_request \<Rightarrow> 'x context_world \<Rightarrow> 'x context_world \<times> (job_exc + model_response)"

definition refusal :: chat_message where
  "refusal = \<lparr>cm_kind = Ai_message, cm_content = PStr REFUSAL_MESSAGE\<rparr>"

definition single_response :: "chat_message \<Rightarrow> model_response" where
  "single_response m = \<lparr>mr_result = [m], mr_structured = None\<rparr>"

subsection \<open>The prompt context\<close>

definition message_text :: "'x context_env \<Rightarrow> chat_message \<Rightarrow> exc + string" where
  "message_text X m = extract_message_content (ru_str (xe_runtime X)) (cm_content m)"

definition has_substring :: "string \<Rightarrow> string \<Rightarrow> bool" where
  "has_substring text part = list_ex (\<lambda>k. startswith (drop k text) part) [0..<Suc (length text)]"

definition message_source :: "message_kind \<Rightarrow> string \<Rightarrow> untrusted_source" where
  "message_source k text = (
     if k = Tool_message then Src_tool
     else if has_substring text (''source='' @ quote @ ''agent_bus'' @ quote) \<or> has_substring text ''source=agent_bus'' then Src_agent_bus
     else if has_substring text (''source='' @ quote @ ''external'' @ quote) \<or> has_substring text ''source=external'' then Src_external
     else Src_user)"

definition injection :: "string \<Rightarrow> verdict \<Rightarrow> payload \<Rightarrow> monitor \<Rightarrow> monitor" where
  "injection session_id v details = record_injection_attempt session_id (if v = V_HARD then ''hard'' else ''soft'') details ''system''"

definition validate_system_context ::
  "'x context_env \<Rightarrow> string \<Rightarrow> string \<Rightarrow> model_request \<Rightarrow> monitor \<Rightarrow> monitor \<times> chat_message option" where
  "validate_system_context X digest session_id q m = (case rq_system q of
     None \<Rightarrow> (m, None)
   | Some s \<Rightarrow> if digest = [] \<or> xe_sha256 X s = digest then (m, None)
       else (injection session_id V_HARD [(''reason'', PStr ''system_prompt_digest_mismatch'')] m, Some refusal))"

definition injection_details :: "string \<Rightarrow> chat_message \<Rightarrow> string \<Rightarrow> payload" where
  "injection_details reason x text = [(''reason'', PStr reason), (''source'', PStr (source_value (message_source (cm_kind x) text)))]"

text \<open>One message, with what the monitor is told of it.\<close>

definition sanitize_message :: "'x context_env \<Rightarrow> string \<Rightarrow> chat_message \<Rightarrow> monitor \<Rightarrow> monitor \<times> (exc + chat_message)" where
  "sanitize_message X session_id x m = (
     if cm_kind x = System_message then (injection session_id V_HARD [(''reason'', PStr ''fake_system_message_in_history'')] m,
       Inl (SecurityViolation ''System message injection in conversation history''))
     else if cm_kind x \<notin> {Human_message, Tool_message} then (m, Inr x)
     else (case message_text X x of
         Inl e \<Rightarrow> (m, Inl e)
       | Inr text \<Rightarrow> (let v = classify (ru_detector (xe_runtime X)) text in
           if v = V_HARD then (injection session_id v (injection_details ''hard_injection_in_message'' x text) m,
             Inl (SecurityViolation ''Hard prompt injection in model context''))
           else (if v = V_SOFT then injection session_id v (injection_details ''soft_injection_in_message'' x text) m else m,
             case sanitize (ru_detector (xe_runtime X)) (message_source (cm_kind x) text) text of
               Inl e \<Rightarrow> Inl (SecurityViolation e)
             | Inr wrapped \<Rightarrow> Inr (x\<lparr>cm_content := PStr wrapped\<rparr>)))))"

fun sanitize_messages ::
  "'x context_env \<Rightarrow> string \<Rightarrow> chat_message list \<Rightarrow> monitor \<Rightarrow> monitor \<times> (exc + chat_message list)" where
  "sanitize_messages X session_id [] m = (m, Inr [])"
| "sanitize_messages X session_id (x # xs) m = (case sanitize_message X session_id x m of
     (m1, Inl e) \<Rightarrow> (m1, Inl e)
   | (m1, Inr y) \<Rightarrow> (case sanitize_messages X session_id xs m1 of
       (m2, Inl e) \<Rightarrow> (m2, Inl e) | (m2, Inr ys) \<Rightarrow> (m2, Inr (y # ys))))"

definition guard_response ::
  "'x context_env \<Rightarrow> string \<Rightarrow> string \<Rightarrow> model_response \<Rightarrow> monitor \<Rightarrow> monitor \<times> (exc + model_response)" where
  "guard_response X agent_id session_id r m = (
     if mr_result r = [] \<or> cm_kind (last (mr_result r)) \<noteq> Ai_message then (m, Inr r)
     else (case message_text X (last (mr_result r)) of
         Inl e \<Rightarrow> (m, Inl e)
       | Inr text \<Rightarrow> if detect_prompt_leakage (ru_guardrails (xe_runtime X)) text
           then (log_security_event session_id ''prompt_leakage_blocked'' ''WARNING'' [(''agent_id'', PStr agent_id)] ''system'' m,
             Inr (single_response refusal))
           else (m, Inr r)))"

definition prompt_context_call ::
  "'x context_env \<Rightarrow> string \<Rightarrow> string \<Rightarrow> string \<Rightarrow> 'x model_handler \<Rightarrow> 'x model_handler" where
  "prompt_context_call X agent_id digest session_id handler q w = (
     case validate_system_context X digest session_id q (xw_monitor w) of
       (m, Some violation) \<Rightarrow> (w\<lparr>xw_monitor := m\<rparr>, Inr (single_response violation))
     | (m, None) \<Rightarrow> (case sanitize_messages X session_id (rq_messages q) m of
         (m1, Inl (SecurityViolation e)) \<Rightarrow> (w\<lparr>xw_monitor := m1\<rparr>, Inr (single_response refusal))
       | (m1, Inl e) \<Rightarrow> (w\<lparr>xw_monitor := m1\<rparr>, Inl (Exc e))
       | (m1, Inr ms) \<Rightarrow> (case handler (q\<lparr>rq_messages := ms\<rparr>) (w\<lparr>xw_monitor := m1\<rparr>) of
           (w1, Inl e) \<Rightarrow> (w1, Inl e)
         | (w1, Inr r) \<Rightarrow> (case guard_response X agent_id session_id r (xw_monitor w1) of
             (m2, Inl e) \<Rightarrow> (w1\<lparr>xw_monitor := m2\<rparr>, Inl (Exc e))
           | (m2, Inr r1) \<Rightarrow> (w1\<lparr>xw_monitor := m2\<rparr>, Inr r1)))))"

subsection \<open>The memory of the investigation\<close>

text \<open>The middleware is only there with a reader.\<close>

definition inject_memory :: "'x context_env \<Rightarrow> string \<Rightarrow> string \<Rightarrow> chat_message list \<Rightarrow> 'x context_world \<Rightarrow> 'x context_world \<times> chat_message list" where
  "inject_memory X tenant_id investigation_id ms w = (case ru_reader (xe_runtime X) of
     None \<Rightarrow> (w, ms)
   | Some (M, key) \<Rightarrow> if investigation_id = [] then (w, ms)
       else (let entries = query_investigation M key (ru_now (xe_runtime X)) tenant_id investigation_id 10 (Some tenant_id)
               (ru_memory (xw_runtime w));
             w1 = w\<lparr>xw_loaded := int (length entries)\<rparr> in
         if entries = [] then (w1, ms)
         else (w1, ms @ [\<lparr>cm_kind = Human_message,
           cm_content = PStr (wrap_investigation_memory (format_for_prompt 4000 entries) ''internal'')\<rparr>])))"

definition memory_context_call :: "'x context_env \<Rightarrow> string \<Rightarrow> string \<Rightarrow> 'x model_handler \<Rightarrow> 'x model_handler" where
  "memory_context_call X tenant_id investigation_id handler q w = (
     case inject_memory X tenant_id investigation_id (rq_messages q) w of (w1, ms) \<Rightarrow> handler (q\<lparr>rq_messages := ms\<rparr>) w1)"

subsection \<open>Long histories\<close>

definition is_tool :: "chat_message \<Rightarrow> bool" where
  "is_tool m = (cm_kind m = Tool_message)"

text \<open>A langchain message has a type, and never the type user: only tool results are dropped.\<close>

definition heal_orphaned_tool_messages :: "chat_message list \<Rightarrow> chat_message list" where
  "heal_orphaned_tool_messages ms = dropWhile is_tool ms"

definition tool_indices :: "chat_message list \<Rightarrow> nat list" where
  "tool_indices ms = filter (\<lambda>i. is_tool (ms ! i)) [0..<length ms]"

definition trim_tool_results :: "int \<Rightarrow> chat_message list \<Rightarrow> chat_message list" where
  "trim_tool_results keep ms = (let idx = tool_indices ms in
     if keep \<le> 0 \<or> int (length idx) \<le> keep then ms
     else (let dropped = take (length idx - nat keep) idx in
       heal_orphaned_tool_messages (map fst (filter (\<lambda>p. snd p \<notin> set dropped) (zip ms [0..<length ms])))))"

text \<open>A langchain message has no role: of the test for system messages only the type can hold.\<close>

definition trim_messages :: "int \<Rightarrow> int \<Rightarrow> chat_message list \<Rightarrow> chat_message list" where
  "trim_messages max_messages keep ms = (let trimmed = trim_tool_results keep ms in
     if int (length trimmed) \<le> max_messages then heal_orphaned_tool_messages trimmed
     else (let system = filter (\<lambda>m. cm_kind m = System_message) trimmed;
               other = filter (\<lambda>m. cm_kind m \<noteq> System_message) trimmed in
       system @ heal_orphaned_tool_messages (py_last (max 1 (max_messages - int (length system))) other)))"

definition summarize :: "summarizer \<Rightarrow> string \<Rightarrow> string \<Rightarrow> string \<Rightarrow> exc + string" where
  "summarize s goal text prior = (case s of
     Noop_summarizer \<Rightarrow> Inr (if length text \<le> 4000 then [] else take 4000 text @ newline @ ''...[truncated]'')
   | Llm_summarizer invoke \<Rightarrow> if strip text = [] then Inr prior
       else rbind (invoke (''Summarize the investigation trace below for continuation. ''
           @ ''Preserve all IOCs, timestamps, hostnames, tool outputs, and open questions. ''
           @ ''Be concise but do not drop security-relevant facts.'' @ newline @ newline @ ''Goal: '' @ goal @ newline
           @ (if prior \<noteq> [] then ''Prior summary:'' @ newline @ prior @ newline @ newline else [])
           @ ''Trace:'' @ newline @ take 12000 text)) (\<lambda>content. Inr (strip content)))"

definition maybe_summarize ::
  "'x context_env \<Rightarrow> string \<Rightarrow> int \<Rightarrow> chat_message list \<Rightarrow> 'x context_world \<Rightarrow> 'x context_world \<times> (exc + chat_message list)" where
  "maybe_summarize X goal keep ms w = (let trimmed = trim_messages (xe_max_messages X) keep ms in
     if int (length trimmed) \<le> xe_max_messages X then (w, Inr trimmed)
     else (case summarize (xe_summarizer X) goal
             (py_join newline (map (\<lambda>m. py_text (ru_str (xe_runtime X)) (cm_content m)) trimmed)) (xw_last_summary w) of
         Inl e \<Rightarrow> (w, Inl e)
       | Inr s \<Rightarrow> (let summary = \<lparr>cm_kind = Ai_message, cm_content = PStr (''[Context summary]'' @ newline @ s)\<rparr>;
             first = (if trimmed \<noteq> [] then hd trimmed else summary);
             end_message = (if length trimmed > 1 then last trimmed else summary) in
           (w\<lparr>xw_last_summary := s\<rparr>, Inr (heal_orphaned_tool_messages [first, summary, end_message])))))"

definition context_summary_call :: "'x context_env \<Rightarrow> string \<Rightarrow> int \<Rightarrow> 'x model_handler \<Rightarrow> 'x model_handler" where
  "context_summary_call X goal keep handler q w = (case maybe_summarize X goal keep (rq_messages q) w of
     (w1, Inl e) \<Rightarrow> (w1, Inl (Exc e))
   | (w1, Inr ms) \<Rightarrow> handler (q\<lparr>rq_messages := ms\<rparr>) w1)"

text \<open>The context middlewares come first in an agent's stack, the first one outermost; the handler has the rest.\<close>

fun context_call :: "'x context_env \<Rightarrow> agent_middleware list \<Rightarrow> (agent_middleware list \<Rightarrow> 'x model_handler) \<Rightarrow> 'x model_handler" where
  "context_call X (Prompt_context agent_id digest session_id # ms) h =
     prompt_context_call X agent_id digest session_id (context_call X ms h)"
| "context_call X (Memory_context tenant_id investigation_id # ms) h =
     memory_context_call X tenant_id investigation_id (context_call X ms h)"
| "context_call X (Context_summary goal keep # ms) h = context_summary_call X goal keep (context_call X ms h)"
| "context_call X ms h = h ms"

text \<open>A call of the model of an agent.\<close>

definition agent_model_call ::
  "'x context_env \<Rightarrow> agent_spec \<Rightarrow> (agent_middleware list \<Rightarrow> 'x model_handler) \<Rightarrow> chat_message list \<Rightarrow> 'x context_world
    \<Rightarrow> 'x context_world \<times> (job_exc + model_response)" where
  "agent_model_call X sp h ms w = context_call X (sp_middleware sp) h
     \<lparr>rq_system = (if sp_system_prompt sp = [] then None else Some (sp_system_prompt sp)), rq_messages = ms\<rparr> w"

subsection \<open>What the model is given\<close>

text \<open>The message that stands for another: no system message; the text of a user's or a tool's message is no hard
  injection, marker or not, and stands there as it is when it has the marker, filtered and wrapped for its source when it
  has not.\<close>

definition screened :: "'x context_env \<Rightarrow> chat_message \<Rightarrow> chat_message \<Rightarrow> bool" where
  "screened X x y = (cm_kind x \<noteq> System_message
     \<and> (if cm_kind x \<in> {Human_message, Tool_message}
        then (\<exists>t. message_text X x = Inr t \<and> classify (ru_detector (xe_runtime X)) t \<noteq> V_HARD
          \<and> y = x\<lparr>cm_content := PStr (if is_wrapped t then t
              else wrap_untrusted (filter_patterns (ru_detector (xe_runtime X)) t) (message_source (cm_kind x) t))\<rparr>)
        else y = x))"

lemma sanitize_untrusted:
  assumes "sanitize_message X sid x m = (m', Inr y)" and "cm_kind x = Human_message \<or> cm_kind x = Tool_message"
  obtains t s where "message_text X x = Inr t" "classify (ru_detector (xe_runtime X)) t \<noteq> V_HARD"
    "sanitize (ru_detector (xe_runtime X)) (message_source (cm_kind x) t) t = Inr s" "y = x\<lparr>cm_content := PStr s\<rparr>"
proof -
  have k: "cm_kind x \<noteq> System_message" "(cm_kind x \<noteq> Human_message \<and> cm_kind x \<noteq> Tool_message) = False" using assms(2) by auto
  obtain t where t: "message_text X x = Inr t"
    using assms(1) k by (cases "message_text X x") (simp_all add: sanitize_message_def)
  have h: "classify (ru_detector (xe_runtime X)) t \<noteq> V_HARD"
    using assms(1) k t by (cases "classify (ru_detector (xe_runtime X)) t = V_HARD") (simp_all add: sanitize_message_def Let_def)
  obtain s where s: "sanitize (ru_detector (xe_runtime X)) (message_source (cm_kind x) t) t = Inr s"
    using assms(1) k t h
    by (cases "sanitize (ru_detector (xe_runtime X)) (message_source (cm_kind x) t) t") (simp_all add: sanitize_message_def Let_def)
  show thesis using that[OF t h s] assms(1) k t h s by (simp add: sanitize_message_def Let_def)
qed

lemma sanitize_message_screened:
  assumes "sanitize_message X sid x m = (m', Inr y)"
  shows "screened X x y"
proof (cases "cm_kind x = Human_message \<or> cm_kind x = Tool_message")
  case True
  from assms True obtain t s where t: "message_text X x = Inr t" "classify (ru_detector (xe_runtime X)) t \<noteq> V_HARD"
    "sanitize (ru_detector (xe_runtime X)) (message_source (cm_kind x) t) t = Inr s" "y = x\<lparr>cm_content := PStr s\<rparr>"
    by (rule sanitize_untrusted)
  then have "s = (if is_wrapped t then t else wrap_untrusted (filter_patterns (ru_detector (xe_runtime X)) t) (message_source (cm_kind x) t))"
    by (simp add: sanitize_def split: if_splits)
  with True t show ?thesis unfolding screened_def by auto
next
  case False
  with assms show ?thesis by (auto simp: sanitize_message_def screened_def split: if_splits)
qed

lemma sanitize_messages_screened: "sanitize_messages X sid xs m = (m', Inr ys) \<Longrightarrow> list_all2 (screened X) xs ys"
  by (induction xs arbitrary: m m' ys) (auto dest: sanitize_message_screened split: prod.splits sum.splits)

lemma screened_no_system: "list_all2 (screened X) xs ys \<Longrightarrow> list_all (\<lambda>m. cm_kind m \<noteq> System_message) ys"
  by (induction rule: list_all2_induct) (auto simp: screened_def split: if_splits)

lemma guard_response_reply:
  "guard_response X agent_id sid r m = (m', reply) \<Longrightarrow> reply = Inr r \<or> reply = Inr (single_response refusal) \<or> isl reply"
  by (auto simp: guard_response_def split: if_splits sum.splits)

text \<open>C28: Behind the prompt context the model is called with a screened copy of the conversation, message by message, or
  not at all: no message is a system message, the text of a user's or a tool's message is no hard injection and is the
  original one, as it is when it carries the untrusted-data marker and otherwise filtered and wrapped, and the model's
  own messages are unchanged. The answer is then the model's, the refusal or an exception; a call that is refused leaves
  the world behind as it was but for the security log.\<close>

theorem model_sees_screened:
  assumes "prompt_context_call X agent_id digest sid h q w = (w', reply)"
  shows "(\<exists>m. w' = w\<lparr>xw_monitor := m\<rparr> \<and> (reply = Inr (single_response refusal) \<or> (\<exists>e. reply = Inl (Exc e))))
    \<or> (\<exists>ms m w1 a m2. list_all2 (screened X) (rq_messages q) ms
      \<and> h (q\<lparr>rq_messages := ms\<rparr>) (w\<lparr>xw_monitor := m\<rparr>) = (w1, a) \<and> w' = w1\<lparr>xw_monitor := m2\<rparr>
      \<and> (reply = a \<or> reply = Inr (single_response refusal) \<or> (\<exists>e. reply = Inl (Exc e))))"
proof (cases "validate_system_context X digest sid q (xw_monitor w)")
  case v: (Pair m violation)
  show ?thesis
  proof (cases violation)
    case (Some x)
    then have "x = refusal" using v by (auto simp: validate_system_context_def split: option.splits if_splits)
    with Some v assms show ?thesis by (auto simp: prompt_context_call_def)
  next
    case None
    show ?thesis
    proof (cases "sanitize_messages X sid (rq_messages q) m")
      case s: (Pair m1 r)
      show ?thesis
      proof (cases r)
        case (Inl e) with None v s assms show ?thesis
          by (cases e) (auto simp: prompt_context_call_def)
      next
        case (Inr ms)
        obtain w1 a where h: "h (q\<lparr>rq_messages := ms\<rparr>) (w\<lparr>xw_monitor := m1\<rparr>) = (w1, a)" by fastforce
        have call: "(w', reply) = (case a of Inl e \<Rightarrow> (w1, Inl e)
            | Inr r \<Rightarrow> (case guard_response X agent_id sid r (xw_monitor w1) of
                (m2, Inl e) \<Rightarrow> (w1\<lparr>xw_monitor := m2\<rparr>, Inl (Exc e)) | (m2, Inr r1) \<Rightarrow> (w1\<lparr>xw_monitor := m2\<rparr>, Inr r1)))"
          using assms None v s Inr h by (simp add: prompt_context_call_def split: sum.split)
        have "\<exists>m2. w' = w1\<lparr>xw_monitor := m2\<rparr>"
          using call by (fastforce split: sum.splits prod.splits intro: exI[of _ "xw_monitor w1"])
        moreover have "reply = a \<or> reply = Inr (single_response refusal) \<or> (\<exists>e. reply = Inl (Exc e))"
          using call by (auto dest: guard_response_reply split: sum.splits prod.splits)
        ultimately show ?thesis using h sanitize_messages_screened[OF s[unfolded Inr]] by blast
      qed
    qed
  qed
qed

text \<open>A reply whose last message is the model's own text does not show what the leakage patterns look for, unless the
  refusal itself does.\<close>

theorem reply_does_not_leak:
  assumes "prompt_context_call X agent_id digest sid h q w = (w', Inr r)" and "r \<noteq> single_response refusal"
    and "mr_result r \<noteq> []" and "cm_kind (last (mr_result r)) = Ai_message"
  shows "\<exists>t. message_text X (last (mr_result r)) = Inr t \<and> \<not> detect_prompt_leakage (ru_guardrails (xe_runtime X)) t"
proof -
  have "\<exists>r0 m m'. guard_response X agent_id sid r0 m = (m', Inr r)"
    using assms(1,2) by (fastforce simp: prompt_context_call_def validate_system_context_def split: prod.splits sum.splits option.splits if_splits exc.splits)
  then show ?thesis using assms(2-4) by (auto simp: guard_response_def split: if_splits sum.splits)
qed

subsection \<open>Trimmed histories\<close>

fun drop_tools :: "nat \<Rightarrow> chat_message list \<Rightarrow> chat_message list" where
  "drop_tools 0 ms = ms"
| "drop_tools (Suc n) [] = []"
| "drop_tools (Suc n) (m # ms) = (if is_tool m then drop_tools n ms else m # drop_tools (Suc n) ms)"

lemma tool_indices_Cons: "tool_indices (m # ms) = (if is_tool m then [0] else []) @ map Suc (tool_indices ms)"
  by (simp add: tool_indices_def upt_conv_Cons map_Suc_upt[symmetric] filter_map comp_def del: upt_Suc)

lemma length_tool_indices: "length (tool_indices ms) = length (filter is_tool ms)"
  by (induction ms) (simp_all add: tool_indices_Cons, simp add: tool_indices_def)

lemma nths_dropped: "nths ms {i. i \<notin> set (take n (tool_indices ms))} = drop_tools n ms"
proof (induction ms arbitrary: n)
  case Nil then show ?case by (cases n) simp_all
next
  case (Cons m ms)
  show ?case
  proof (cases n)
    case 0 then show ?thesis by (simp add: nths_all)
  next
    case (Suc k)
    have "{j. Suc j \<notin> set (take (Suc k) (tool_indices (m # ms)))}
      = {j. j \<notin> set (take (if is_tool m then k else Suc k) (tool_indices ms))}"
      by (auto simp: tool_indices_Cons take_map)
    then show ?thesis using Suc Cons.IH by (auto simp: nths_Cons tool_indices_Cons take_map)
  qed
qed

lemma filter_drop_tools: "filter (\<lambda>m. \<not> is_tool m) (drop_tools n ms) = filter (\<lambda>m. \<not> is_tool m) ms"
  by (induction n ms rule: drop_tools.induct) simp_all

lemma filter_tool_drop_tools: "filter is_tool (drop_tools n ms) = drop n (filter is_tool ms)"
  by (induction n ms rule: drop_tools.induct) simp_all

lemma trim_by_index_eq:
  "trim_tool_results keep ms = (let n = length (filter is_tool ms) in
     if keep \<le> 0 \<or> int n \<le> keep then ms else dropWhile is_tool (drop_tools (n - nat keep) ms))"
proof -
  have "map fst (filter (\<lambda>p. snd p \<notin> set (take (length (tool_indices ms) - nat keep) (tool_indices ms))) (zip ms [0..<length ms]))
      = drop_tools (length (tool_indices ms) - nat keep) ms"
    unfolding nths_dropped[symmetric] by (simp add: nths_def)
  then show ?thesis by (simp add: trim_tool_results_def Let_def heal_orphaned_tool_messages_def length_tool_indices)
qed

text \<open>Dropping messages by the index of the old tool results is dropping the first tool results, and then those the
  history would start with.\<close>

theorem trim_by_index:
  "trim_tool_results keep ms = (let n = length (filter is_tool ms) in
     if keep \<le> 0 \<or> int n \<le> keep then ms else dropWhile is_tool (drop_tools (n - nat keep) ms))"
  by (rule trim_by_index_eq)

text \<open>Trimming keeps the last results, at most as many as asked for, and every other message: a tool call stays in the
  history when its result is dropped.\<close>

theorem trimmed_calls_stay:
  assumes "keep > 0"
  shows "filter (\<lambda>m. \<not> is_tool m) (trim_tool_results keep ms) = filter (\<lambda>m. \<not> is_tool m) ms
    \<and> int (length (filter is_tool (trim_tool_results keep ms))) \<le> keep
    \<and> (\<exists>k. filter is_tool (trim_tool_results keep ms) = drop k (filter is_tool ms))"
proof -
  let ?n = "length (filter is_tool ms)" and ?d = "drop_tools (length (filter is_tool ms) - nat keep) ms"
  have eq: "trim_tool_results keep ms = (if int ?n \<le> keep then ms else dropWhile is_tool ?d)"
    using assms by (simp add: trim_by_index_eq Let_def)
  have f: "filter (\<lambda>m. \<not> is_tool m) (dropWhile is_tool xs) = filter (\<lambda>m. \<not> is_tool m) xs" for xs by (induction xs) auto
  have g: "\<exists>k. filter is_tool (dropWhile is_tool xs) = drop k (filter is_tool xs)" for xs
  proof (induction xs)
    case (Cons x xs)
    then obtain k where "filter is_tool (dropWhile is_tool xs) = drop k (filter is_tool xs)" by blast
    then show ?case by (cases "is_tool x") (auto intro: exI[of _ "Suc k"] exI[of _ 0])
  qed simp
  from g[of ?d] obtain k where k: "filter is_tool (dropWhile is_tool ?d) = drop k (drop (?n - nat keep) (filter is_tool ms))"
    unfolding filter_tool_drop_tools by blast
  show ?thesis
  proof (cases "int ?n \<le> keep")
    case True then show ?thesis by (auto simp: eq intro: exI[of _ 0])
  next
    case False
    then have "filter is_tool (trim_tool_results keep ms) = drop (k + (?n - nat keep)) (filter is_tool ms)"
      by (simp add: eq k)
    moreover from False have "filter (\<lambda>m. \<not> is_tool m) (trim_tool_results keep ms) = filter (\<lambda>m. \<not> is_tool m) ms"
      by (simp add: eq f filter_drop_tools)
    moreover have "int (length (drop (k + (?n - nat keep)) (filter is_tool ms))) \<le> keep" using assms False by simp
    ultimately show ?thesis by auto
  qed
qed

lemma set_trim_tool_results: "set (trim_tool_results keep ms) \<subseteq> set ms"
proof -
  have "set (drop_tools n ms) \<subseteq> set ms" for n by (induction n ms rule: drop_tools.induct) auto
  then show ?thesis by (auto simp: trim_by_index_eq Let_def dest: set_dropWhileD)
qed

lemma no_summary:
  assumes "xe_max_messages X \<ge> 1" and "list_all (\<lambda>m. cm_kind m \<noteq> System_message) ms"
  shows "maybe_summarize X goal keep ms w = (w, Inr (trim_messages (xe_max_messages X) keep ms))"
proof -
  let ?t = "trim_tool_results keep ms"
  have "filter (\<lambda>m. cm_kind m = System_message) ?t = []"
    using assms(2) set_trim_tool_results[of keep ms] by (auto simp: filter_empty_conv list_all_iff)
  then have t: "trim_messages (xe_max_messages X) keep ms = (if int (length ?t) \<le> xe_max_messages X
      then heal_orphaned_tool_messages ?t
      else heal_orphaned_tool_messages (py_last (max 1 (xe_max_messages X)) (filter (\<lambda>m. cm_kind m \<noteq> System_message) ?t)))"
    by (simp add: trim_messages_def Let_def)
  have heal: "length (heal_orphaned_tool_messages xs) \<le> length xs" for xs
    by (simp add: heal_orphaned_tool_messages_def length_dropWhile_le)
  have "length (py_last (max 1 (xe_max_messages X)) xs) \<le> nat (xe_max_messages X)" for xs :: "chat_message list"
    using assms(1) length_py_last_le[of "xe_max_messages X" xs] by (simp add: max_def)
  with heal t have "length (trim_messages (xe_max_messages X) keep ms) \<le> nat (xe_max_messages X)"
  proof (cases "int (length ?t) \<le> xe_max_messages X")
    case True
    then have "length ?t \<le> nat (xe_max_messages X)" by linarith
    with True t heal[of ?t] show ?thesis by (simp del: nat_le_eq_zle)
  next
    case False
    with t heal show ?thesis using \<open>\<And>xs. length (py_last (max 1 (xe_max_messages X)) xs) \<le> nat (xe_max_messages X)\<close>
      by (simp del: nat_le_eq_zle) (meson le_trans)
  qed
  with assms(1) have "int (length (trim_messages (xe_max_messages X) keep ms)) \<le> xe_max_messages X" by linarith
  then show ?thesis by (simp add: maybe_summarize_def Let_def)
qed

lemma prompt_cong:
  assumes "\<And>ms w. list_all (\<lambda>m. cm_kind m \<noteq> System_message) ms \<Longrightarrow> h1 (q\<lparr>rq_messages := ms\<rparr>) w = h2 (q\<lparr>rq_messages := ms\<rparr>) w"
  shows "prompt_context_call (X\<lparr>xe_summarizer := s\<rparr>) a dg sid h1 q w = prompt_context_call X a dg sid h2 q w"
proof -
  have rt: "xe_runtime (X\<lparr>xe_summarizer := s\<rparr>) = xe_runtime X" by simp
  have sh: "xe_sha256 (X\<lparr>xe_summarizer := s\<rparr>) = xe_sha256 X" by simp
  have m: "message_text (X\<lparr>xe_summarizer := s\<rparr>) = message_text X" unfolding fun_eq_iff message_text_def rt by simp
  have sm: "sanitize_message (X\<lparr>xe_summarizer := s\<rparr>) sid x m = sanitize_message X sid x m" for x m
    unfolding sanitize_message_def m rt by (rule refl)
  have ss: "sanitize_messages (X\<lparr>xe_summarizer := s\<rparr>) sid xs m = sanitize_messages X sid xs m" for xs m
    by (induction xs arbitrary: m) (simp_all add: sm)
  have g: "guard_response (X\<lparr>xe_summarizer := s\<rparr>) = guard_response X"
    unfolding fun_eq_iff guard_response_def m rt by simp
  have v: "validate_system_context (X\<lparr>xe_summarizer := s\<rparr>) = validate_system_context X"
    unfolding fun_eq_iff validate_system_context_def sh by simp
  obtain m1 v1 where v1: "validate_system_context X dg sid q (xw_monitor w) = (m1, v1)" by fastforce
  obtain m2 r where r: "sanitize_messages X sid (rq_messages q) m1 = (m2, r)" by fastforce
  show ?thesis
  proof (cases r)
    case (Inl e) with v1 r show ?thesis unfolding prompt_context_call_def v ss by (cases v1; cases e) simp_all
  next
    case (Inr ms)
    have "h1 (q\<lparr>rq_messages := ms\<rparr>) w' = h2 (q\<lparr>rq_messages := ms\<rparr>) w'" for w'
      by (rule assms[OF screened_no_system[OF sanitize_messages_screened[OF r[unfolded Inr]]]])
    with v1 r Inr show ?thesis unfolding prompt_context_call_def v ss g by (cases v1) simp_all
  qed
qed

lemma summary_cong:
  assumes "xe_max_messages X \<ge> 1" and "list_all (\<lambda>m. cm_kind m \<noteq> System_message) (rq_messages q)"
  shows "context_summary_call (X\<lparr>xe_summarizer := s\<rparr>) goal keep h q w = context_summary_call X goal keep h q w"
  using assms no_summary[of X "rq_messages q"] no_summary[of "X\<lparr>xe_summarizer := s\<rparr>" "rq_messages q"]
  by (simp add: context_summary_call_def)

lemma memory_no_system:
  assumes "list_all (\<lambda>m. cm_kind m \<noteq> System_message) ms" and "inject_memory X t i ms w = (w1, ms')"
  shows "list_all (\<lambda>m. cm_kind m \<noteq> System_message) ms'"
  using assms by (auto simp: inject_memory_def Let_def split: option.splits if_splits)

lemma memory_cong:
  assumes "\<And>ms w. list_all (\<lambda>m. cm_kind m \<noteq> System_message) ms \<Longrightarrow> h1 (q\<lparr>rq_messages := ms\<rparr>) w = h2 (q\<lparr>rq_messages := ms\<rparr>) w"
    and "list_all (\<lambda>m. cm_kind m \<noteq> System_message) (rq_messages q)"
  shows "memory_context_call (X\<lparr>xe_summarizer := s\<rparr>) t i h1 q w = memory_context_call X t i h2 q w"
proof -
  have rt: "xe_runtime (X\<lparr>xe_summarizer := s\<rparr>) = xe_runtime X" by simp
  obtain w1 ms where m: "inject_memory X t i (rq_messages q) w = (w1, ms)" by fastforce
  have "inject_memory (X\<lparr>xe_summarizer := s\<rparr>) t i (rq_messages q) w = inject_memory X t i (rq_messages q) w"
    unfolding inject_memory_def rt by (rule refl)
  with m assms(1)[OF memory_no_system[OF assms(2) m]] show ?thesis by (simp add: memory_context_call_def)
qed

text \<open>C32: The summarizer of an agent is never asked: a history is cut down to the bound before it is compared with it,
  so that what does not fit is lost without a summary, whatever summarizes.\<close>

theorem summary_never_made:
  assumes "acreate (xe_runtime X) d sid ts tenant iid profile goal = Inr sp" and "xe_max_messages X \<ge> 1"
  shows "agent_model_call (X\<lparr>xe_summarizer := s\<rparr>) sp h ms w = agent_model_call X sp h ms w"
proof -
  let ?X = "X\<lparr>xe_summarizer := s\<rparr>" and ?V = "xe_runtime X"
  obtain tail where "sp_middleware sp = Prompt_context (ad_name d) (ad_system_prompt_digest d) sid
      # (if ru_reader ?V \<noteq> None \<and> iid \<noteq> [] then [Memory_context tenant iid] else [])
      @ (if ru_summary ?V then [Context_summary (str_or goal iid) (ru_keep ?V)] else []) @ Scope_guard (ad_tools d) # tail"
    using assms(1) by (auto simp: acreate_def rbind_Inr_iff build_middleware_def Let_def)
  moreover define rest where "rest = (if ru_summary ?V then [Context_summary (str_or goal iid) (ru_keep ?V)] else []) @ Scope_guard (ad_tools d) # tail"
  ultimately have m: "sp_middleware sp = Prompt_context (ad_name d) (ad_system_prompt_digest d) sid
      # (if ru_reader ?V \<noteq> None \<and> iid \<noteq> [] then [Memory_context tenant iid] else []) @ rest" by simp
  have inner: "context_call ?X rest h q w = context_call X rest h q w"
    if "list_all (\<lambda>m. cm_kind m \<noteq> System_message) (rq_messages q)" for q w
    using summary_cong[OF assms(2) that] by (simp add: rest_def fun_eq_iff)
  show ?thesis
  proof (cases "ru_reader ?V \<noteq> None \<and> iid \<noteq> []")
    case True
    show ?thesis unfolding agent_model_call_def m if_P[OF True] append.simps context_call.simps
      by (rule prompt_cong, rule memory_cong, rule inner) simp_all
  next
    case False
    show ?thesis unfolding agent_model_call_def m if_not_P[OF False] append.simps context_call.simps
      by (rule prompt_cong, rule inner) simp
  qed
qed

subsection \<open>Edited prompts\<close>

text \<open>C3: An agent that was given a prompt through the API never calls its model: the gate stores a sixteenth of the digest
  the middleware compares with.\<close>

theorem edited_prompt_refused:
  assumes "put_agent E actor n body cw = (cw', Inr saved)" and "ag_system_prompt saved \<noteq> []"
    and "entry_to_definition saved = Inr d" and "acreate (xe_runtime X) d sid ts tenant iid profile goal = Inr sp"
    and "ce_sha256 E = xe_sha256 X" and "\<And>s. length (xe_sha256 X s) = 64"
  shows "\<exists>m. agent_model_call X sp h ms w = (w\<lparr>xw_monitor := m\<rparr>, Inr (single_response refusal))"
proof -
  from assms(1) obtain e where e: "gate_upsert_agent E actor e cw = (cw', Inr saved)"
    by (auto simp: put_agent_def upsert_catalog_agent_def split: sum.splits)
  then obtain e1 where e1: "clean_agent E e = Inr e1" "saved = merge_entry (get_agent (cg_agents cw) (ag_name e1)) e1"
    by (auto simp: gate_upsert_agent_def rbind_Inr_iff Let_def upsert_agent_def get_agent_def split: sum.splits)
  with assms(2) have dg: "ag_system_prompt_digest saved = take 16 (ce_sha256 E (ag_system_prompt saved))"
    by (auto simp: clean_agent_def rbind_Inr_iff merge_entry_def split: if_splits option.splits)
  from assms(3) have d: "ad_system_prompt d = ag_system_prompt saved" "ad_system_prompt_digest d = ag_system_prompt_digest saved"
    by (auto simp: entry_to_definition_def invalid_def split: if_splits)
  have ne: "take 16 (xe_sha256 X p) \<noteq> [] \<and> xe_sha256 X p \<noteq> take 16 (xe_sha256 X p)" for p
  proof -
    have "length (take 16 (xe_sha256 X p)) = 16" using assms(6)[of p] by simp
    with assms(6)[of p] show ?thesis by (cases "xe_sha256 X p = take 16 (xe_sha256 X p)") auto
  qed
  from assms(4) obtain rest where "sp_middleware sp = Prompt_context (ad_name d) (ad_system_prompt_digest d) sid # rest"
      "sp_system_prompt sp = ad_system_prompt d"
    by (auto simp: acreate_def rbind_Inr_iff build_middleware_def Let_def)
  with ne[of "ad_system_prompt d"] assms(2,5) d dg show ?thesis
    by (auto simp: agent_model_call_def prompt_context_call_def validate_system_context_def)
qed

subsection \<open>Witnesses\<close>

definition demo_context :: "unit context_env" where
  "demo_context = \<lparr>xe_runtime = (demo_runtime demo_worker_definition)\<lparr>ru_summary := True,
       ru_guardrails := (ru_guardrails (demo_runtime demo_worker_definition))\<lparr>gr_leakage := []\<rparr>\<rparr>,
     xe_sha256 = (\<lambda>s. replicate 64 CHR ''a''), xe_max_messages = 1, xe_summarizer = Noop_summarizer\<rparr>"

definition demo_context_world :: "unit context_world" where
  "demo_context_world = \<lparr>xw_runtime = demo_runtime_world 9, xw_monitor = \<lparr>mo_agent_id = ''soc'',
       mo_thresholds = AnomalyPolicy, mo_metrics = [], mo_events = [], mo_extra_keys = []\<rparr>, xw_loaded = 0, xw_last_summary = []\<rparr>"

definition human :: "string \<Rightarrow> chat_message" where
  "human t = \<lparr>cm_kind = Human_message, cm_content = PStr t\<rparr>"

definition demo_request :: model_request where
  "demo_request = \<lparr>rq_system = None, rq_messages = [human ''look at the alert'']\<rparr>"

text \<open>A handler that gives back what it is called with, and one that answers.\<close>

definition echo :: "unit model_handler" where
  "echo q w = (w, Inr \<lparr>mr_result = rq_messages q, mr_structured = None\<rparr>)"

definition answers :: "unit model_handler" where
  "answers q w = (w, Inr (single_response \<lparr>cm_kind = Ai_message, cm_content = PStr ''benign''\<rparr>))"

text \<open>A task and a tool result are called through; what the model gets is their screening.\<close>

definition two_messages :: model_request where
  "two_messages = \<lparr>rq_system = None, rq_messages = [human ''look at the alert'', \<lparr>cm_kind = Tool_message, cm_content = PStr ''3 hits''\<rparr>]\<rparr>"

theorem model_sees_screened_witness:
  "\<exists>ms. snd (prompt_context_call demo_context ''soc'' [] ''s1'' echo two_messages demo_context_world)
      = Inr \<lparr>mr_result = ms, mr_structured = None\<rparr>
     \<and> list_all2 (screened demo_context) [human ''look at the alert'', \<lparr>cm_kind = Tool_message, cm_content = PStr ''3 hits''\<rparr>] ms"
proof -
  let ?r = "prompt_context_call demo_context ''soc'' [] ''s1'' echo two_messages demo_context_world"
  have d: "\<not> isl (snd ?r)" "map cm_kind (mr_result (projr (snd ?r))) = [Human_message, Tool_message]" by code_simp+
  have refused: "snd ?r \<noteq> Inr (single_response refusal)"
  proof
    assume "snd ?r = Inr (single_response refusal)"
    with d(2) show False by (simp add: single_response_def refusal_def)
  qed
  have "(\<exists>m. fst ?r = demo_context_world\<lparr>xw_monitor := m\<rparr> \<and> (snd ?r = Inr (single_response refusal) \<or> (\<exists>e. snd ?r = Inl (Exc e))))
    \<or> (\<exists>ms m w1 a m2. list_all2 (screened demo_context) (rq_messages two_messages) ms
      \<and> echo (two_messages\<lparr>rq_messages := ms\<rparr>) (demo_context_world\<lparr>xw_monitor := m\<rparr>) = (w1, a) \<and> fst ?r = w1\<lparr>xw_monitor := m2\<rparr>
      \<and> (snd ?r = a \<or> snd ?r = Inr (single_response refusal) \<or> (\<exists>e. snd ?r = Inl (Exc e))))"
    by (rule model_sees_screened) (rule prod.collapse[symmetric])
  with d(1) refused obtain ms where "list_all2 (screened demo_context) (rq_messages two_messages) ms"
    "snd ?r = Inr \<lparr>mr_result = ms, mr_structured = None\<rparr>"
    by (auto simp: echo_def)
  then show ?thesis by (auto simp: two_messages_def)
qed

theorem reply_does_not_leak_witness:
  "\<exists>w' r t. prompt_context_call demo_context ''soc'' [] ''s1'' answers demo_request demo_context_world = (w', Inr r)
     \<and> message_text demo_context (last (mr_result r)) = Inr t"
proof -
  let ?c = "prompt_context_call demo_context ''soc'' [] ''s1'' answers demo_request demo_context_world"
  let ?a = "\<lparr>cm_kind = Ai_message, cm_content = PStr ''benign''\<rparr>"
  have "?c = (demo_context_world, Inr (single_response ?a))" by code_simp
  moreover have "single_response ?a \<noteq> single_response refusal" by code_simp
  ultimately show ?thesis using reply_does_not_leak[of demo_context "''soc''" "[]" "''s1''" answers demo_request demo_context_world
      demo_context_world "single_response ?a"] by (fastforce simp: single_response_def)
qed

definition demo_history :: "chat_message list" where
  "demo_history = [human ''a'', \<lparr>cm_kind = Ai_message, cm_content = PStr ''call''\<rparr>,
     \<lparr>cm_kind = Tool_message, cm_content = PStr ''old''\<rparr>, \<lparr>cm_kind = Tool_message, cm_content = PStr ''new''\<rparr>]"

theorem trimmed_calls_stay_witness:
  "filter is_tool (trim_tool_results 1 demo_history) = [\<lparr>cm_kind = Tool_message, cm_content = PStr ''new''\<rparr>]
   \<and> length (filter (\<lambda>m. \<not> is_tool m) (trim_tool_results 1 demo_history)) = 2"
proof -
  have "filter is_tool (trim_tool_results 1 demo_history) = [\<lparr>cm_kind = Tool_message, cm_content = PStr ''new''\<rparr>]" by code_simp
  moreover from trimmed_calls_stay[of 1 demo_history]
  have "filter (\<lambda>m. \<not> is_tool m) (trim_tool_results 1 demo_history) = filter (\<lambda>m. \<not> is_tool m) demo_history" by simp
  ultimately show ?thesis by (simp add: demo_history_def is_tool_def human_def)
qed

theorem summary_never_made_witness:
  "\<exists>sp. acreate (xe_runtime demo_context) demo_worker_definition ''s1'' (Some []) ''t'' ''i1'' ''p'' [] = Inr sp
     \<and> agent_model_call (demo_context\<lparr>xe_summarizer := Llm_summarizer (\<lambda>p. Inl (PyExc ''down''))\<rparr>) sp (\<lambda>ms. echo)
         [human ''one'', human ''two''] demo_context_world
       = agent_model_call demo_context sp (\<lambda>ms. echo) [human ''one'', human ''two''] demo_context_world"
proof -
  have "\<not> isl (acreate (xe_runtime demo_context) demo_worker_definition ''s1'' (Some []) ''t'' ''i1'' ''p'' [])" by code_simp
  then obtain sp where "acreate (xe_runtime demo_context) demo_worker_definition ''s1'' (Some []) ''t'' ''i1'' ''p'' [] = Inr sp"
    by (cases "acreate (xe_runtime demo_context) demo_worker_definition ''s1'' (Some []) ''t'' ''i1'' ''p'' []") auto
  moreover have "xe_max_messages demo_context \<ge> 1" by (simp add: demo_context_def)
  ultimately show ?thesis using summary_never_made by blast
qed

theorem edited_prompt_refused_witness:
  "\<exists>cw' saved d sp m. put_agent (demo_catalog_env\<lparr>ce_sha256 := xe_sha256 demo_context\<rparr>) ''a'' ''soc''
       [(''system_prompt'', PStr ''be kind'')] demo_catalog_world = (cw', Inr saved)
     \<and> entry_to_definition saved = Inr d
     \<and> acreate (xe_runtime demo_context) d ''s1'' (Some []) ''t'' ''i1'' ''p'' [] = Inr sp
     \<and> agent_model_call demo_context sp (\<lambda>ms. echo) [human ''hello''] demo_context_world
       = (demo_context_world\<lparr>xw_monitor := m\<rparr>, Inr (single_response refusal))"
proof -
  let ?E = "demo_catalog_env\<lparr>ce_sha256 := xe_sha256 demo_context\<rparr>" and ?b = "[(''system_prompt'', PStr ''be kind'')]"
  let ?p = "put_agent ?E ''a'' ''soc'' ?b demo_catalog_world"
  have "\<not> isl (snd ?p)" by code_simp
  from not_isl_snd[OF this] obtain cw' saved where s: "?p = (cw', Inr saved)" by blast
  have "ag_system_prompt (projr (snd ?p)) \<noteq> []" "\<not> isl (entry_to_definition (projr (snd ?p)))"
    "\<not> isl (rbind (entry_to_definition (projr (snd ?p))) (\<lambda>d. acreate (xe_runtime demo_context) d ''s1'' (Some []) ''t'' ''i1'' ''p'' []))"
    by code_simp+
  then have ne: "ag_system_prompt saved \<noteq> []" and ok: "\<not> isl (entry_to_definition saved)"
    "\<not> isl (rbind (entry_to_definition saved) (\<lambda>d. acreate (xe_runtime demo_context) d ''s1'' (Some []) ''t'' ''i1'' ''p'' []))"
    unfolding s by simp_all
  then obtain d where d: "entry_to_definition saved = Inr d" by (cases "entry_to_definition saved") auto
  with ok obtain sp where sp: "acreate (xe_runtime demo_context) d ''s1'' (Some []) ''t'' ''i1'' ''p'' [] = Inr sp"
    by (cases "acreate (xe_runtime demo_context) d ''s1'' (Some []) ''t'' ''i1'' ''p'' []") auto
  have "\<exists>m. agent_model_call demo_context sp (\<lambda>ms. echo) [human ''hello''] demo_context_world
      = (demo_context_world\<lparr>xw_monitor := m\<rparr>, Inr (single_response refusal))"
    by (rule edited_prompt_refused[OF s ne d sp]) (simp_all add: demo_context_def)
  with s d sp show ?thesis by blast
qed

end
