(* ===== verification/Queues.thy ===== *)
theory Queues
  imports Models
begin

text \<open>The queues of worker jobs: InMemoryJobQueue, RedisJobQueue and the cache of get_job_queue
  (cys_core/infrastructure/queue.py) and KafkaJobQueue (kafka_queue.py). The Redis stream and the Kafka log are what
  was written to them; whether a client connects, and the outcome of its calls, are arguments. Jobs travel as JSON,
  which the dump of a job survives. Processes that read one stream at a time are a step relation.\<close>

subsection \<open>In memory\<close>

type_synonym mem_queue = "payload list"

definition mem_enqueue :: "payload \<Rightarrow> mem_queue \<Rightarrow> mem_queue" where
  "mem_enqueue job q = q @ [job]"

fun mem_dequeue :: "mem_queue \<Rightarrow> mem_queue \<times> payload option" where
  "mem_dequeue [] = ([], None)"
| "mem_dequeue (job # q) = (q, Some job)"

definition job_key :: "payload \<Rightarrow> pyval" where
  "job_key job = get_or job ''job_id'' (PStr [])"

subsection \<open>A Redis stream\<close>

text \<open>Entries with their ids, and the next id; ids are unique, so a delete takes one entry.\<close>

record 'a stream =
  sr_next :: nat
  sr_entries :: "(nat \<times> 'a) list"

definition xadd :: "'a \<Rightarrow> 'a stream \<Rightarrow> 'a stream" where
  "xadd x s = \<lparr>sr_next = Suc (sr_next s), sr_entries = sr_entries s @ [(sr_next s, x)]\<rparr>"

text \<open>xread from 0 with count 1: the oldest entry that was not deleted.\<close>

definition xread :: "'a stream \<Rightarrow> (nat \<times> 'a) option" where
  "xread s = (case sr_entries s of [] \<Rightarrow> None | e # es \<Rightarrow> Some e)"

primrec del_entry :: "nat \<Rightarrow> (nat \<times> 'a) list \<Rightarrow> (nat \<times> 'a) list" where
  "del_entry i [] = []"
| "del_entry i (e # es) = (if fst e = i then es else e # del_entry i es)"

definition xdel :: "nat \<Rightarrow> 'a stream \<Rightarrow> 'a stream" where
  "xdel i s = s\<lparr>sr_entries := del_entry i (sr_entries s)\<rparr>"

text \<open>What one process does when no other reads: the entry is read, deleted and returned.\<close>

definition stream_pop :: "'a stream \<Rightarrow> ('a \<times> 'a stream) option" where
  "stream_pop s = (case xread s of None \<Rightarrow> None | Some (i, x) \<Rightarrow> Some (x, xdel i s))"

interpretation rs: fifo_queue xadd stream_pop "\<lambda>s. map snd (sr_entries s)"
proof unfold_locales
  fix x :: 'a and q q' :: "'a stream"
  show "map snd (sr_entries (xadd x q)) = map snd (sr_entries q) @ [x]" by (simp add: xadd_def)
  show "stream_pop q = None \<longleftrightarrow> map snd (sr_entries q) = []"
    by (cases "sr_entries q") (auto simp: stream_pop_def xread_def)
  show "stream_pop q = Some (x, q') \<Longrightarrow> map snd (sr_entries q) = x # map snd (sr_entries q')"
    by (cases "sr_entries q") (auto simp: stream_pop_def xread_def xdel_def)
qed

text \<open>rq_up says that the client connected when the queue was built.\<close>

record redis_queue =
  rq_fallback :: mem_queue
  rq_up :: bool

definition RedisJobQueue :: "bool \<Rightarrow> redis_queue" where
  "RedisJobQueue up = \<lparr>rq_fallback = [], rq_up = up\<rparr>"

definition redis_enqueue ::
  "exc option \<Rightarrow> payload \<Rightarrow> redis_queue \<Rightarrow> payload stream \<Rightarrow> redis_queue \<times> payload stream \<times> (exc + pyval)" where
  "redis_enqueue link job q s = (
     if \<not> rq_up q then (q\<lparr>rq_fallback := mem_enqueue job (rq_fallback q)\<rparr>, s, Inr (job_key job))
     else (case link of Some e \<Rightarrow> (q, s, Inl e) | None \<Rightarrow> (q, xadd job s, Inr (job_key job))))"

text \<open>reading and deleting are the outcomes of the two calls.\<close>

definition redis_dequeue ::
  "exc option \<Rightarrow> exc option \<Rightarrow> redis_queue \<Rightarrow> payload stream \<Rightarrow> redis_queue \<times> payload stream \<times> (exc + payload option)" where
  "redis_dequeue reading deleting q s = (
     if \<not> rq_up q then (case mem_dequeue (rq_fallback q) of (f, j) \<Rightarrow> (q\<lparr>rq_fallback := f\<rparr>, s, Inr j))
     else (case reading of
         Some e \<Rightarrow> (q, s, Inl e)
       | None \<Rightarrow> (case xread s of
           None \<Rightarrow> (q, s, Inr None)
         | Some (i, job) \<Rightarrow> (case deleting of Some e \<Rightarrow> (q, s, Inl e) | None \<Rightarrow> (q, xdel i s, Inr (Some job))))))"

subsection \<open>Kafka\<close>

definition worker_job_topic :: "string \<Rightarrow> string" where
  "worker_job_topic persona = ''worker.jobs.'' @ persona"

definition DLQ_TOPIC :: string where
  "DLQ_TOPIC = ''worker.jobs.dlq''"

record kafka_queue =
  kq_persona :: "string option"
  kq_fallback :: mem_queue
  kq_producer :: bool
  kq_consumer :: bool
  kq_connected :: bool

definition KafkaJobQueue :: "string option \<Rightarrow> kafka_queue" where
  "KafkaJobQueue persona = \<lparr>kq_persona = persona, kq_fallback = [], kq_producer = False, kq_consumer = False, kq_connected = False\<rparr>"

text \<open>What the broker does to one call: whether a producer and a consumer start, what sending raises, and what comes
  of waiting for a record.\<close>

datatype polled = Record payload | Poll_timeout | Poll_error

record broker =
  bk_producer :: bool
  bk_consumer :: bool
  bk_send :: "exc option"
  bk_poll :: polled

type_synonym kafka_log = "(string \<times> payload) list"

definition start_producer :: "broker \<Rightarrow> kafka_queue \<Rightarrow> kafka_queue \<times> bool" where
  "start_producer b q = (
     if kq_producer q then (q, kq_connected q)
     else if bk_producer b then (q\<lparr>kq_producer := True, kq_connected := True\<rparr>, True)
     else (q\<lparr>kq_connected := False\<rparr>, False))"

definition start_consumer :: "broker \<Rightarrow> kafka_queue \<Rightarrow> kafka_queue \<times> bool" where
  "start_consumer b q = (
     if kq_persona q = None then (q, False)
     else if kq_consumer q then (q, kq_connected q)
     else (case start_producer b q of
         (q1, False) \<Rightarrow> (q1, False)
       | (q1, True) \<Rightarrow> if bk_consumer b then (q1\<lparr>kq_consumer := True\<rparr>, True) else (q1\<lparr>kq_connected := False\<rparr>, False)))"

definition topic_for_job :: "(pyval \<Rightarrow> string) \<Rightarrow> payload \<Rightarrow> string" where
  "topic_for_job str job = worker_job_topic (str (get_or job ''persona'' (PStr ''default'')))"

definition kafka_aenqueue ::
  "(pyval \<Rightarrow> string) \<Rightarrow> broker \<Rightarrow> payload \<Rightarrow> kafka_queue \<Rightarrow> kafka_log \<Rightarrow> kafka_queue \<times> kafka_log \<times> (exc + pyval)" where
  "kafka_aenqueue str b job q l = (case start_producer b q of
     (q1, False) \<Rightarrow> (q1\<lparr>kq_fallback := mem_enqueue job (kq_fallback q1)\<rparr>, l, Inr (job_key job))
   | (q1, True) \<Rightarrow> (case bk_send b of
       Some e \<Rightarrow> (q1, l, Inl e)
     | None \<Rightarrow> (q1, l @ [(topic_for_job str job, job)], Inr (job_key job))))"

definition kafka_fallback :: "kafka_queue \<Rightarrow> kafka_queue \<times> payload option" where
  "kafka_fallback q = (case mem_dequeue (kq_fallback q) of (f, j) \<Rightarrow> (q\<lparr>kq_fallback := f\<rparr>, j))"

definition kafka_adequeue :: "broker \<Rightarrow> kafka_queue \<Rightarrow> kafka_queue \<times> payload option" where
  "kafka_adequeue b q = (
     if kq_persona q = None then kafka_fallback q
     else (case start_consumer b q of
         (q1, False) \<Rightarrow> kafka_fallback q1
       | (q1, True) \<Rightarrow> (case bk_poll b of
           Record job \<Rightarrow> (q1, Some job) | Poll_timeout \<Rightarrow> (q1, None) | Poll_error \<Rightarrow> kafka_fallback q1)))"

text \<open>asyncio.run refuses to run inside a running loop.\<close>

definition kafka_enqueue ::
  "bool \<Rightarrow> (pyval \<Rightarrow> string) \<Rightarrow> broker \<Rightarrow> payload \<Rightarrow> kafka_queue \<Rightarrow> kafka_log \<Rightarrow> kafka_queue \<times> kafka_log \<times> (exc + pyval)" where
  "kafka_enqueue in_loop str b job q l = (if in_loop then (q, l, Inl (PyExc ''RuntimeError'')) else kafka_aenqueue str b job q l)"

definition kafka_dequeue :: "bool \<Rightarrow> broker \<Rightarrow> kafka_queue \<Rightarrow> kafka_queue \<times> (exc + payload option)" where
  "kafka_dequeue in_loop b q = (
     if in_loop then (q, Inl (PyExc ''RuntimeError'')) else (case kafka_adequeue b q of (q1, j) \<Rightarrow> (q1, Inr j)))"

definition send_to_dlq ::
  "broker \<Rightarrow> payload \<Rightarrow> string \<Rightarrow> kafka_queue \<Rightarrow> kafka_log \<Rightarrow> kafka_queue \<times> kafka_log \<times> (exc + unit)" where
  "send_to_dlq b job error q l = (case start_producer b q of
     (q1, False) \<Rightarrow> (q1, l, Inr ())
   | (q1, True) \<Rightarrow> (case bk_send b of
       Some e \<Rightarrow> (q1, l, Inl e)
     | None \<Rightarrow> (q1, l @ [(DLQ_TOPIC, [(''job'', PDict job), (''error'', PStr error)])], Inr ())))"

subsection \<open>The queues of a process\<close>

datatype queue_impl = Redis_queue redis_queue | Kafka_queue kafka_queue

text \<open>One queue per persona asked for, kept in the process; the stream and the log are shared by all.\<close>

record queue_world =
  qw_queues :: "(string option \<times> queue_impl) list"
  qw_stream :: "payload stream"
  qw_log :: kafka_log

definition get_job_queue :: "bool \<Rightarrow> bool \<Rightarrow> string option \<Rightarrow> queue_world \<Rightarrow> queue_world \<times> queue_impl" where
  "get_job_queue use_kafka redis_up persona w = (case map_of (qw_queues w) persona of
     Some q \<Rightarrow> (w, q)
   | None \<Rightarrow> (let q = (if use_kafka then Kafka_queue (KafkaJobQueue persona) else Redis_queue (RedisJobQueue redis_up)) in
       (w\<lparr>qw_queues := (persona, q) # qw_queues w\<rparr>, q)))"

definition set_queue :: "string option \<Rightarrow> queue_impl \<Rightarrow> queue_world \<Rightarrow> queue_world" where
  "set_queue persona q w = w\<lparr>qw_queues := AList.update persona q (qw_queues w)\<rparr>"

text \<open>A job put on, or taken from, the queue of a persona, with Redis or Kafka answering as given.\<close>

definition put_job ::
  "bool \<Rightarrow> bool \<Rightarrow> (pyval \<Rightarrow> string) \<Rightarrow> broker \<Rightarrow> exc option \<Rightarrow> string option \<Rightarrow> payload \<Rightarrow> queue_world \<Rightarrow> queue_world \<times> (exc + pyval)" where
  "put_job use_kafka redis_up str b link persona job w = (case get_job_queue use_kafka redis_up persona w of
     (w1, Redis_queue q) \<Rightarrow> (case redis_enqueue link job q (qw_stream w1) of
         (q1, s, r) \<Rightarrow> (set_queue persona (Redis_queue q1) (w1\<lparr>qw_stream := s\<rparr>), r))
   | (w1, Kafka_queue q) \<Rightarrow> (case kafka_aenqueue str b job q (qw_log w1) of
         (q1, l, r) \<Rightarrow> (set_queue persona (Kafka_queue q1) (w1\<lparr>qw_log := l\<rparr>), r)))"

definition take_job ::
  "bool \<Rightarrow> bool \<Rightarrow> broker \<Rightarrow> exc option \<Rightarrow> exc option \<Rightarrow> string option \<Rightarrow> queue_world \<Rightarrow> queue_world \<times> (exc + payload option)" where
  "take_job use_kafka redis_up b reading deleting persona w = (case get_job_queue use_kafka redis_up persona w of
     (w1, Redis_queue q) \<Rightarrow> (case redis_dequeue reading deleting q (qw_stream w1) of
         (q1, s, r) \<Rightarrow> (set_queue persona (Redis_queue q1) (w1\<lparr>qw_stream := s\<rparr>), r))
   | (w1, Kafka_queue q) \<Rightarrow> (case kafka_adequeue b q of
         (q1, j) \<Rightarrow> (set_queue persona (Kafka_queue q1) w1, Inr j)))"

subsection \<open>Processes that read one stream\<close>

text \<open>xread and xdel are two calls, between which other processes go on. A state has the stream, what each process
  has read and not deleted yet, everything added, and what was handed out to whom.\<close>

record 'a stream_state =
  st_stream :: "'a stream"
  st_reading :: "nat \<Rightarrow> (nat \<times> 'a) option"
  st_added :: "(nat \<times> 'a) list"
  st_taken :: "(nat \<times> nat \<times> 'a) list"

definition stream_init :: "'a stream_state" where
  "stream_init = \<lparr>st_stream = \<lparr>sr_next = 0, sr_entries = []\<rparr>, st_reading = (\<lambda>w. None), st_added = [], st_taken = []\<rparr>"

inductive stream_step :: "nat set \<Rightarrow> 'a stream_state \<Rightarrow> 'a stream_state \<Rightarrow> bool" for W where
  Add: "stream_step W s (s\<lparr>st_stream := xadd x (st_stream s), st_added := st_added s @ [(sr_next (st_stream s), x)]\<rparr>)"
| Read: "w \<in> W \<Longrightarrow> st_reading s w = None \<Longrightarrow> xread (st_stream s) = Some e \<Longrightarrow>
    stream_step W s (s\<lparr>st_reading := (st_reading s)(w := Some e)\<rparr>)"
| Del: "w \<in> W \<Longrightarrow> st_reading s w = Some e \<Longrightarrow>
    stream_step W s (s\<lparr>st_stream := xdel (fst e) (st_stream s), st_reading := (st_reading s)(w := None),
      st_taken := st_taken s @ [(w, e)]\<rparr>)"

inductive stream_reach :: "nat set \<Rightarrow> 'a stream_state \<Rightarrow> bool" for W where
  Init: "stream_reach W stream_init"
| Step: "stream_reach W s \<Longrightarrow> stream_step W s s' \<Longrightarrow> stream_reach W s'"

inductive_cases stream_stepE: "stream_step W s s'"

lemma set_del_entry: "set es \<subseteq> insert e (set (del_entry (fst e) es))" if "distinct (map fst es)" "e \<in> set es \<or> fst e \<notin> fst ` set es"
  using that by (induction es) (auto simp: image_iff)

lemma del_entry_subset: "set (del_entry i es) \<subseteq> set es"
  by (induction es) auto

lemma distinct_del_entry: "distinct (map fst es) \<Longrightarrow> distinct (map fst (del_entry i es))"
  by (induction es) (use del_entry_subset in fastforce)+

text \<open>In every reachable state ids are unique and below the next one, and everything added is in the stream or was
  handed out.\<close>

definition stream_inv :: "'a stream_state \<Rightarrow> bool" where
  "stream_inv s = (distinct (map fst (st_added s)) \<and> (\<forall>e \<in> set (st_added s). fst e < sr_next (st_stream s))
     \<and> distinct (map fst (sr_entries (st_stream s))) \<and> set (sr_entries (st_stream s)) \<subseteq> set (st_added s)
     \<and> (\<forall>w e. st_reading s w = Some e \<longrightarrow> e \<in> set (st_added s))
     \<and> set (st_added s) = set (sr_entries (st_stream s)) \<union> snd ` set (st_taken s))"

lemma stream_invD:
  assumes "stream_inv s"
  shows "distinct (map fst (st_added s))" "\<forall>e \<in> set (st_added s). fst e < sr_next (st_stream s)"
    "distinct (map fst (sr_entries (st_stream s)))" "set (sr_entries (st_stream s)) \<subseteq> set (st_added s)"
    "\<forall>w e. st_reading s w = Some e \<longrightarrow> e \<in> set (st_added s)"
  by (rule assms[unfolded stream_inv_def, THEN conjunct1]
    assms[unfolded stream_inv_def, THEN conjunct2, THEN conjunct1]
    assms[unfolded stream_inv_def, THEN conjunct2, THEN conjunct2, THEN conjunct1]
    assms[unfolded stream_inv_def, THEN conjunct2, THEN conjunct2, THEN conjunct2, THEN conjunct1]
    assms[unfolded stream_inv_def, THEN conjunct2, THEN conjunct2, THEN conjunct2, THEN conjunct2, THEN conjunct1])+

lemma stream_inv_step:
  assumes "stream_inv s" and "stream_step W s s'"
  shows "stream_inv s'"
  using assms(2)
proof cases
  case (Add x)
  let ?n = "sr_next (st_stream s)"
  have lt: "\<forall>e \<in> set (st_added s). fst e < ?n" and sub: "set (sr_entries (st_stream s)) \<subseteq> set (st_added s)"
    using assms(1) by (simp_all add: stream_inv_def)
  have fresh: "?n \<notin> fst ` set (st_added s)" using lt by force
  then have "?n \<notin> fst ` set (sr_entries (st_stream s))" using sub by blast
  moreover have "\<forall>e \<in> set (st_added s @ [(?n, x)]). fst e < Suc ?n" using lt by (simp add: less_Suc_eq)
  moreover have "set (st_added s @ [(?n, x)]) = set (sr_entries (st_stream s) @ [(?n, x)]) \<union> snd ` set (st_taken s)"
    using assms(1) by (simp add: stream_inv_def)
  ultimately show ?thesis using fresh assms(1) sub
    by (simp add: Add stream_inv_def xadd_def del: set_append) auto
next
  case (Read w e)
  with assms(1) show ?thesis by (auto simp: stream_inv_def xread_def split: list.splits)
next
  case (Del w e)
  let ?es = "sr_entries (st_stream s)"
  have e: "e \<in> set (st_added s)" using Del(3) assms(1) unfolding stream_inv_def by blast
  have "e \<in> set ?es \<or> fst e \<notin> fst ` set ?es"
  proof (rule disjCI)
    assume "\<not> fst e \<notin> fst ` set ?es"
    then obtain e' where "e' \<in> set ?es" "fst e' = fst e" by auto
    moreover from this assms(1) have "e' \<in> set (st_added s)" "distinct (map fst (st_added s))"
      unfolding stream_inv_def by blast+
    ultimately show "e \<in> set ?es" using e by (metis eq_key_imp_eq_value prod.collapse)
  qed
  with assms(1) have "set ?es \<subseteq> insert e (set (del_entry (fst e) ?es))" by (intro set_del_entry) (auto simp: stream_inv_def)
  then have "set (st_added s) = set (del_entry (fst e) ?es) \<union> insert e (snd ` set (st_taken s))"
    using assms(1) e del_entry_subset[of "fst e" ?es] by (auto simp: stream_inv_def)
  then have all: "set (st_added s) = set (del_entry (fst e) ?es) \<union> snd ` set (st_taken s @ [(w, e)])" by simp
  have p: "distinct (map fst (st_added s))" "\<forall>e \<in> set (st_added s). fst e < sr_next (st_stream s)"
      "distinct (map fst ?es)" "set ?es \<subseteq> set (st_added s)" "\<forall>w e. st_reading s w = Some e \<longrightarrow> e \<in> set (st_added s)"
    by (rule stream_invD[OF assms(1)])+
  have sub: "set (del_entry (fst e) ?es) \<subseteq> set (st_added s)" using p(4) del_entry_subset by blast
  show ?thesis unfolding stream_inv_def
  proof (intro conjI)
    show "distinct (map fst (st_added s'))" using p(1) by (simp add: Del(1))
    show "\<forall>e \<in> set (st_added s'). fst e < sr_next (st_stream s')" using p(2) by (simp add: Del(1) xdel_def)
    show "distinct (map fst (sr_entries (st_stream s')))" using distinct_del_entry[OF p(3)] by (simp add: Del(1) xdel_def)
    show "set (sr_entries (st_stream s')) \<subseteq> set (st_added s')" using sub by (simp add: Del(1) xdel_def)
    show "\<forall>w' e'. st_reading s' w' = Some e' \<longrightarrow> e' \<in> set (st_added s')" using p(5) by (simp add: Del(1))
    show "set (st_added s') = set (sr_entries (st_stream s')) \<union> snd ` set (st_taken s')"
      using all by (simp add: Del(1) xdel_def)
  qed
qed

lemma stream_reach_inv: "stream_reach W s \<Longrightarrow> stream_inv s"
  by (induction rule: stream_reach.induct) (auto intro: stream_inv_step, simp add: stream_inv_def stream_init_def)

subsection \<open>What the stream promises\<close>

text \<open>However many processes read the stream, a job that was added is in the stream or was handed out, and nothing
  is handed out that was not added.\<close>

theorem stream_loses_nothing:
  assumes "stream_reach W s"
  shows "set (st_added s) = set (sr_entries (st_stream s)) \<union> snd ` set (st_taken s) \<and> distinct (map fst (st_added s))"
  using stream_reach_inv[OF assms] unfolding stream_inv_def by blast

lemma one_reader_inv:
  assumes "stream_reach {r} s"
  shows "map snd (st_taken s) @ sr_entries (st_stream s) = st_added s
    \<and> (\<forall>e. st_reading s r = Some e \<longrightarrow> xread (st_stream s) = Some e)"
  using assms
proof (induction rule: stream_reach.induct)
  case Init then show ?case by (simp add: stream_init_def)
next
  case (Step s s')
  from Step(2) show ?case
  proof cases
    case (Add x) with Step(3) show ?thesis by (auto simp: xadd_def xread_def split: list.splits)
  next
    case (Read w e) with Step(3) show ?thesis by simp
  next
    case (Del w e)
    then have "xread (st_stream s) = Some e" using Step(3) by (metis singletonD)
    then obtain es where "sr_entries (st_stream s) = e # es" by (cases "sr_entries (st_stream s)") (auto simp: xread_def)
    with Del Step(3) show ?thesis by (simp add: xdel_def)
  qed
qed

text \<open>C12: A single process that reads a stream is handed every job exactly once, in the order they were added.\<close>

theorem one_reader_exactly_once:
  assumes "stream_reach {r} s"
  shows "map snd (st_taken s) @ sr_entries (st_stream s) = st_added s"
  using one_reader_inv[OF assms] by blast

text \<open>C13: Two processes that read one stream can both be handed the same job: nothing claims an entry between its read
  and its delete.\<close>

theorem two_readers_share_a_job:
  fixes x :: 'a
  assumes "w1 \<in> W" and "w2 \<in> W" and "w1 \<noteq> w2"
  shows "\<exists>s. stream_reach W s \<and> st_added s = [(0, x)] \<and> st_taken s = [(w1, 0, x), (w2, 0, x)]"
proof -
  let ?s0 = "stream_init :: 'a stream_state"
  define s1 where "s1 = ?s0\<lparr>st_stream := xadd x (st_stream ?s0), st_added := st_added ?s0 @ [(sr_next (st_stream ?s0), x)]\<rparr>"
  define s2 where "s2 = s1\<lparr>st_reading := (st_reading s1)(w1 := Some (0, x))\<rparr>"
  define s3 where "s3 = s2\<lparr>st_reading := (st_reading s2)(w2 := Some (0, x))\<rparr>"
  define s4 where "s4 = s3\<lparr>st_stream := xdel (fst (0 :: nat, x)) (st_stream s3), st_reading := (st_reading s3)(w1 := None),
      st_taken := st_taken s3 @ [(w1, 0, x)]\<rparr>"
  define s5 where "s5 = s4\<lparr>st_stream := xdel (fst (0 :: nat, x)) (st_stream s4), st_reading := (st_reading s4)(w2 := None),
      st_taken := st_taken s4 @ [(w2, 0, x)]\<rparr>"
  have "stream_reach W s1" unfolding s1_def by (rule Step[OF Init Add])
  moreover have "stream_step W s1 s2" unfolding s2_def
    using assms(1) by (rule Read) (simp_all add: s1_def stream_init_def xadd_def xread_def)
  moreover have "stream_step W s2 s3" unfolding s3_def
    using assms(2) by (rule Read) (use assms(3) in \<open>simp_all add: s2_def s1_def stream_init_def xadd_def xread_def\<close>)
  moreover have "stream_step W s3 s4" unfolding s4_def
    using assms(1) by (rule Del) (use assms(3) in \<open>simp add: s3_def s2_def\<close>)
  moreover have "stream_step W s4 s5" unfolding s5_def
    using assms(2) by (rule Del) (use assms(3) in \<open>simp add: s4_def s3_def\<close>)
  ultimately have "stream_reach W s5" by (metis Step)
  moreover have "st_added s5 = [(0, x)]" "st_taken s5 = [(w1, 0, x), (w2, 0, x)]"
    by (simp_all add: s5_def s4_def s3_def s2_def s1_def stream_init_def)
  ultimately show ?thesis by blast
qed

text \<open>Up to n dequeues of one process.\<close>

fun redis_drain :: "nat \<Rightarrow> redis_queue \<Rightarrow> payload stream \<Rightarrow> payload list \<times> payload stream" where
  "redis_drain 0 q s = ([], s)"
| "redis_drain (Suc n) q s = (case redis_dequeue None None q s of
     (q1, s1, Inr (Some job)) \<Rightarrow> (case redis_drain n q1 s1 of (js, s2) \<Rightarrow> (job # js, s2))
   | (q1, s1, r) \<Rightarrow> ([], s1))"

lemma redis_pops: "rq_up q \<Longrightarrow> redis_dequeue None None q s = (case stream_pop s of
    None \<Rightarrow> (q, s, Inr None) | Some (x, s') \<Rightarrow> (q, s', Inr (Some x)))"
  by (simp add: redis_dequeue_def stream_pop_def split: option.split prod.split)

lemma redis_drain_eq: "rq_up q \<Longrightarrow> redis_drain n q s = rs.drain n s"
  by (induction n arbitrary: s) (auto simp: redis_pops split: option.splits prod.splits)

text \<open>Connected to Redis, one process takes the jobs first in, first out, whoever enqueued them: n dequeues give the
  first n jobs, and what is left is the rest.\<close>

theorem redis_first_in_first_out:
  assumes "rq_up q"
  shows "fst (redis_drain n q s) = take n (map snd (sr_entries s))
    \<and> map snd (sr_entries (snd (redis_drain n q s))) = drop n (map snd (sr_entries s))"
proof -
  have d: "map snd (sr_entries s) = fst (rs.drain n s) @ map snd (sr_entries (snd (rs.drain n s)))
      \<and> fst (rs.drain n s) = take n (map snd (sr_entries s))" by (rule rs.drain_content)
  then have "map snd (sr_entries (snd (rs.drain n s))) = drop n (map snd (sr_entries s))"
    by (metis append_take_drop_id same_append_eq)
  with d redis_drain_eq[OF assms] show ?thesis by simp
qed

subsection \<open>What Kafka does not\<close>

datatype queue_op = Put broker payload | Take broker | Dead broker payload string

primrec run_op :: "(pyval \<Rightarrow> string) \<Rightarrow> queue_op \<Rightarrow> kafka_queue \<times> kafka_log \<Rightarrow> kafka_queue \<times> kafka_log" where
  "run_op str (Put b job) ql = (case kafka_aenqueue str b job (fst ql) (snd ql) of (q, l, r) \<Rightarrow> (q, l))"
| "run_op str (Take b) ql = (fst (kafka_adequeue b (fst ql)), snd ql)"
| "run_op str (Dead b job e) ql = (case send_to_dlq b job e (fst ql) (snd ql) of (q, l, r) \<Rightarrow> (q, l))"

definition detached :: "kafka_queue \<Rightarrow> bool" where
  "detached q = (kq_producer q \<and> \<not> kq_connected q)"

lemma detached_op: "detached q \<Longrightarrow> detached (fst (run_op str op (q, l))) \<and> snd (run_op str op (q, l)) = l"
  by (cases op) (auto simp: detached_def kafka_aenqueue_def start_producer_def kafka_adequeue_def start_consumer_def
    kafka_fallback_def send_to_dlq_def split: prod.splits)

lemma detached_ops: "detached q \<Longrightarrow> detached (fst (fold (run_op str) ops (q, l))) \<and> snd (fold (run_op str) ops (q, l)) = l"
proof (induction ops arbitrary: q)
  case (Cons op ops)
  obtain q1 l1 where r: "run_op str op (q, l) = (q1, l1)" by fastforce
  with detached_op[OF Cons.prems, of str op l] have "detached q1" "l1 = l" by simp_all
  with Cons.IH r show ?case by simp
qed simp

text \<open>A worker whose consumer once fails to start, though its producer did, writes nothing to Kafka any more: whatever
  the broker answers later, every job it enqueues and every dead letter stays in the process or is dropped.\<close>

theorem failed_consumer_detaches:
  assumes "bk_producer b" and "\<not> bk_consumer b"
  shows "snd (fold (run_op str) ops (fst (kafka_adequeue b (KafkaJobQueue (Some persona))), l)) = l"
proof -
  have "detached (fst (kafka_adequeue b (KafkaJobQueue (Some persona))))"
    using assms by (simp add: detached_def kafka_adequeue_def KafkaJobQueue_def start_consumer_def start_producer_def
      kafka_fallback_def split: prod.split)
  then show ?thesis by (rule detached_ops[THEN conjunct2])
qed

text \<open>With Kafka, the queue of no persona sends what it is given to the topic of the job's persona and never takes a
  job back, though the route that processes one job and the ingress use that queue.\<close>

theorem kafka_without_persona_never_takes:
  assumes "bk_producer b" and "bk_send b = None" and "map_of (qw_queues w) None = None"
    and "put_job True up str b link None job w = (w1, r)"
  shows "qw_log w1 = qw_log w @ [(topic_for_job str job, job)] \<and> snd (take_job True up b' rd dl None w1) = Inr None"
  using assms by (auto simp: put_job_def take_job_def get_job_queue_def Let_def KafkaJobQueue_def kafka_aenqueue_def
    start_producer_def set_queue_def update_conv' kafka_adequeue_def kafka_fallback_def)

text \<open>Without Redis the queues of two personas share nothing: a job the ingress enqueues, on the queue of no persona, is
  not what a worker of a persona in the same process takes.\<close>

theorem redis_down_queues_apart:
  assumes "qw_queues w = []" and "p \<noteq> p'" and "put_job False False str b link p job w = (w1, r)"
  shows "snd (take_job False False b' rd dl p' w1) = Inr None \<and> snd (take_job False False b' rd dl p w1) = Inr (Some job)"
  using assms by (auto simp: put_job_def take_job_def get_job_queue_def Let_def RedisJobQueue_def redis_enqueue_def
    redis_dequeue_def mem_enqueue_def set_queue_def update_conv')

subsection \<open>Witnesses\<close>

definition added_once :: "bool stream_state" where
  "added_once = (let s = stream_init in
     s\<lparr>st_stream := xadd True (st_stream s), st_added := st_added s @ [(sr_next (st_stream s), True)]\<rparr>)"

lemma added_once_reach: "stream_reach W added_once"
  unfolding added_once_def Let_def by (rule Step[OF Init Add])

theorem stream_loses_nothing_witness:
  "(0, True) \<in> set (sr_entries (st_stream added_once)) \<union> snd ` set (st_taken added_once)"
  using stream_loses_nothing[OF added_once_reach[of "{}"]] by (auto simp: added_once_def stream_init_def xadd_def)

text \<open>Two jobs are added, the reader reads the first, a third is added, and it deletes the first and reads on.\<close>

definition took_one :: "string stream_state" where
  "took_one = (let s = stream_init;
     s = s\<lparr>st_stream := xadd ''a'' (st_stream s), st_added := st_added s @ [(sr_next (st_stream s), ''a'')]\<rparr>;
     s = s\<lparr>st_stream := xadd ''b'' (st_stream s), st_added := st_added s @ [(sr_next (st_stream s), ''b'')]\<rparr>;
     s = s\<lparr>st_reading := (st_reading s)(7 := Some (0, ''a''))\<rparr>;
     s = s\<lparr>st_stream := xadd ''c'' (st_stream s), st_added := st_added s @ [(sr_next (st_stream s), ''c'')]\<rparr>;
     s = s\<lparr>st_stream := xdel (fst (0 :: nat, ''a'')) (st_stream s), st_reading := (st_reading s)(7 := None),
       st_taken := st_taken s @ [(7, 0, ''a'')]\<rparr>
   in s\<lparr>st_reading := (st_reading s)(7 := Some (1, ''b''))\<rparr>)"

lemma took_one_reach: "stream_reach {7} took_one"
  unfolding took_one_def Let_def
  by (rule Step[OF Step[OF Step[OF Step[OF Step[OF Step[OF Init Add] Add] Read] Add] Del] Read])
    (simp_all add: stream_init_def xadd_def xread_def xdel_def)

theorem one_reader_exactly_once_witness:
  "map snd (st_taken took_one) @ sr_entries (st_stream took_one) = [(0, ''a''), (1, ''b''), (2, ''c'')]
    \<and> map snd (st_taken took_one) = [(0, ''a'')]"
  using one_reader_exactly_once[OF took_one_reach] by (simp add: took_one_def stream_init_def xadd_def xdel_def)

theorem two_readers_share_a_job_witness:
  "\<exists>s. stream_reach {1, 2} s \<and> st_added s = [(0, True)] \<and> st_taken s = [(1, 0, True), (2, 0, True)]"
  using two_readers_share_a_job[of 1 "{1, 2}" 2 True] by simp

theorem redis_first_in_first_out_witness:
  "fst (redis_drain 1 (RedisJobQueue True) \<lparr>sr_next = 2, sr_entries = [(0, [(''job_id'', PStr ''a'')]), (1, [])]\<rparr>) = [[(''job_id'', PStr ''a'')]]"
  using redis_first_in_first_out[of "RedisJobQueue True" 1] by (simp add: RedisJobQueue_def)

definition demo_broker :: "bool \<Rightarrow> broker" where
  "demo_broker consumers = \<lparr>bk_producer = True, bk_consumer = consumers, bk_send = None, bk_poll = Poll_timeout\<rparr>"

definition demo_job :: payload where
  "demo_job = [(''job_id'', PStr ''j1''), (''persona'', PStr ''soc'')]"

theorem failed_consumer_detaches_witness:
  "snd (run_op (\<lambda>v. ''soc'') (Put (demo_broker True) demo_job) (fst (kafka_adequeue (demo_broker False) (KafkaJobQueue (Some ''soc''))), [])) = []"
  using failed_consumer_detaches[of "demo_broker False" "\<lambda>v. ''soc''" "[Put (demo_broker True) demo_job]" "''soc''" "[]"]
  by (simp add: demo_broker_def)

definition demo_queues :: queue_world where
  "demo_queues = \<lparr>qw_queues = [], qw_stream = \<lparr>sr_next = 0, sr_entries = []\<rparr>, qw_log = []\<rparr>"

theorem kafka_without_persona_never_takes_witness:
  "snd (take_job True True (demo_broker True) None None None
     (fst (put_job True True (\<lambda>v. ''soc'') (demo_broker True) None None demo_job demo_queues))) = Inr None"
  using kafka_without_persona_never_takes[of "demo_broker True" demo_queues True "\<lambda>v. ''soc''" None demo_job, OF _ _ _ prod.collapse[symmetric]]
  by (simp add: demo_broker_def demo_queues_def)

theorem redis_down_queues_apart_witness:
  "snd (take_job False False (demo_broker True) None None (Some ''soc'')
     (fst (put_job False False (\<lambda>v. ''soc'') (demo_broker True) None None demo_job demo_queues))) = Inr None"
  using redis_down_queues_apart[of demo_queues None "Some ''soc''" "\<lambda>v. ''soc''" "demo_broker True" None demo_job, OF _ _ prod.collapse[symmetric]]
  by (simp add: demo_queues_def)

end
