(* ===== verification/Findings.thy ===== *)
theory Findings
  imports Agent_Runtime
begin

text \<open>The findings agents answer with (cys_core/domain/findings/models.py), as the schemas their answers are validated by:
  a model is the list of its fields in the order of its dump, every field has a default. What pydantic reads of a value
  is that of Schemas; the reading of numeric strings and the text of an error are arguments.\<close>

subsection \<open>Fields\<close>

datatype field_kind = K_str | K_unit | K_strs | K_phase | K_strs_by_key | K_dict | K_dicts | K_bool

type_synonym model_fields = "(string \<times> field_kind) list"

definition attack_phases :: "string list" where
  "attack_phases = [''recon'', ''weaponization'', ''delivery'', ''exploitation'', ''installation'', ''c2'', ''actions'']"

definition a_strs :: "pyval \<Rightarrow> exc + pyval" where
  "a_strs v = rbind (a_list a_str v) (\<lambda>ss. Inr (PList (map PStr ss)))"

definition read_kind :: "(string \<Rightarrow> rat option) \<Rightarrow> field_kind \<Rightarrow> pyval \<Rightarrow> exc + pyval" where
  "read_kind num k v = (case k of
     K_str \<Rightarrow> rbind (a_str v) (\<lambda>s. Inr (PStr s))
   | K_unit \<Rightarrow> rbind (a_float_in num 0 1 v) (\<lambda>r. Inr (PFloat r))
   | K_strs \<Rightarrow> a_strs v
   | K_phase \<Rightarrow> if v = PNone \<or> v \<in> PStr ` set attack_phases then Inr v else invalid
   | K_strs_by_key \<Rightarrow> rbind (a_dict v) (\<lambda>d. rbind (traverse (\<lambda>kv. rbind (a_strs (snd kv)) (\<lambda>x. Inr (fst kv, x))) d) (\<lambda>kvs. Inr (PDict kvs)))
   | K_dict \<Rightarrow> rbind (a_dict v) (\<lambda>d. Inr (PDict d))
   | K_dicts \<Rightarrow> rbind (a_list a_dict v) (\<lambda>ds. Inr (PList (map PDict ds)))
   | K_bool \<Rightarrow> rbind (a_bool v) (\<lambda>b. Inr (PBool b)))"

definition default_kind :: "field_kind \<Rightarrow> pyval" where
  "default_kind k = (case k of K_str \<Rightarrow> PStr [] | K_unit \<Rightarrow> PFloat 0 | K_phase \<Rightarrow> PNone | K_bool \<Rightarrow> PBool False
   | K_strs_by_key \<Rightarrow> PDict [] | K_dict \<Rightarrow> PDict [] | _ \<Rightarrow> PList [])"

definition read_field :: "(string \<Rightarrow> rat option) \<Rightarrow> payload \<Rightarrow> string \<times> field_kind \<Rightarrow> exc + string \<times> pyval" where
  "read_field num d f = rbind (field (read_kind num (snd f)) (Some (default_kind (snd f))) (fst f) d) (\<lambda>v. Inr (fst f, v))"

text \<open>Keys that are no field are ignored.\<close>

definition validate_model :: "(string \<Rightarrow> rat option) \<Rightarrow> model_fields \<Rightarrow> payload \<Rightarrow> exc + payload" where
  "validate_model num fs d = traverse (read_field num d) fs"

definition finding_reader :: "(payload \<Rightarrow> string) \<Rightarrow> (string \<Rightarrow> rat option) \<Rightarrow> model_fields \<Rightarrow> schema_reader" where
  "finding_reader explain num fs d = (case validate_model num fs d of Inl e \<Rightarrow> Inl (explain d) | Inr x \<Rightarrow> Inr x)"

subsection \<open>The models\<close>

definition kill_chain_fields :: model_fields where
  "kill_chain_fields = [(''attack_phase'', K_phase), (''mitre_tactics'', K_strs), (''mitre_techniques'', K_strs)]"

definition RedTeamFinding :: model_fields where
  "RedTeamFinding = kill_chain_fields @ [(''finding'', K_str), (''severity'', K_str), (''confidence'', K_unit), (''attack_path'', K_strs), 
     (''evidence'', K_strs), (''affected_systems'', K_strs), (''reproduction_steps'', K_strs), 
     (''recommended_remediation'', K_strs), (''ttl'', K_str)]"

definition NetworkFinding :: model_fields where
  "NetworkFinding = kill_chain_fields @ [(''finding_type'', K_str), (''severity'', K_str), (''confidence'', K_unit), (''summary'', K_str), 
     (''evidence'', K_strs), (''affected_assets'', K_strs), (''recommended_actions'', K_strs), 
     (''ttl'', K_str)]"

definition SocFinding :: model_fields where
  "SocFinding = kill_chain_fields @ [(''incident_id'', K_str), (''priority'', K_str), (''confidence'', K_unit), (''summary'', K_str), 
     (''timeline'', K_strs), (''related_findings'', K_strs), (''recommended_actions'', K_strs), 
     (''ttl'', K_str)]"

definition ComplianceFinding :: model_fields where
  "ComplianceFinding = kill_chain_fields @ [(''framework'', K_str), (''control_id'', K_str), (''compliance_status'', K_str), (''evidence'', K_strs), 
     (''gaps'', K_strs), (''risk_level'', K_str), (''recommended_actions'', K_strs), (''ttl'', K_str)]"

definition ConsultantFinding :: model_fields where
  "ConsultantFinding = kill_chain_fields @ [(''topic'', K_str), (''summary'', K_str), (''risk_level'', K_str), (''recommendations'', K_strs), 
     (''references'', K_strs), (''confidence'', K_unit)]"

definition IntelFinding :: model_fields where
  "IntelFinding = kill_chain_fields @ [(''actor_profile'', K_str), (''ttps'', K_strs), (''iocs'', K_strs), (''recon_indicators'', K_strs), 
     (''confidence'', K_unit), (''summary'', K_str), (''ttl'', K_str)]"

definition HunterFinding :: model_fields where
  "HunterFinding = kill_chain_fields @ [(''hypothesis'', K_str), (''technique_ids'', K_strs), (''hunt_status'', K_str), (''evidence'', K_strs), 
     (''detection_gaps'', K_strs), (''confidence'', K_unit), (''ttl'', K_str)]"

definition IdentityFinding :: model_fields where
  "IdentityFinding = kill_chain_fields @ [(''identity_asset'', K_str), (''attack_path'', K_strs), (''credential_indicators'', K_strs), 
     (''lateral_movement_stage'', K_str), (''confidence'', K_unit), (''summary'', K_str), (''ttl'', K_str)]"

definition DfirFinding :: model_fields where
  "DfirFinding = kill_chain_fields @ [(''artifacts'', K_strs), (''timeline'', K_strs), (''containment_status'', K_str), 
     (''eradication_steps'', K_strs), (''forensic_confidence'', K_unit), (''summary'', K_str), 
     (''ttl'', K_str)]"

definition CloudFinding :: model_fields where
  "CloudFinding = kill_chain_fields @ [(''cloud_provider'', K_str), (''resource_id'', K_str), (''misconfig_type'', K_str), 
     (''blast_radius'', K_str), (''remediation'', K_strs), (''confidence'', K_unit), (''summary'', K_str), 
     (''ttl'', K_str)]"

definition PurpleFinding :: model_fields where
  "PurpleFinding = kill_chain_fields @ [(''kill_chain_phases_completed'', K_strs), (''attack_coverage_map'', K_strs_by_key), 
     (''detection_gaps'', K_strs), (''recommended_atomic_tests'', K_strs), (''d3fend_controls'', K_strs), 
     (''confidence'', K_unit), (''summary'', K_str), (''ttl'', K_str)]"

definition ConductorStepResult :: model_fields where
  "ConductorStepResult = [(''reply'', K_str), (''plan_delta'', K_dict), (''spawn_requests'', K_dicts), 
     (''mode_recommendation'', K_str), (''confidence'', K_unit), (''reasoning_steps'', K_strs), 
     (''plan_status'', K_str), (''enough_data'', K_bool), (''remaining_steps'', K_strs), 
     (''task_completed'', K_bool)]"

definition CriticResult :: model_fields where
  "CriticResult = [(''trust_score'', K_unit), (''finding_quality'', K_str), (''issues_detected'', K_strs), 
     (''validated_claims'', K_strs), (''rejected_claims'', K_strs), (''reasoning_notes'', K_strs), 
     (''recommended_disposition'', K_str)]"

definition finding_schemas :: "model_fields dict" where
  "finding_schemas = [(''RedTeamFinding'', RedTeamFinding),
     (''NetworkFinding'', NetworkFinding),
     (''SocFinding'', SocFinding),
     (''ComplianceFinding'', ComplianceFinding),
     (''ConsultantFinding'', ConsultantFinding),
     (''IntelFinding'', IntelFinding),
     (''HunterFinding'', HunterFinding),
     (''IdentityFinding'', IdentityFinding),
     (''DfirFinding'', DfirFinding),
     (''CloudFinding'', CloudFinding),
     (''PurpleFinding'', PurpleFinding),
     (''ConductorStepResult'', ConductorStepResult),
     (''CriticResult'', CriticResult)]"

lemmas finding_models = kill_chain_fields_def RedTeamFinding_def NetworkFinding_def SocFinding_def ComplianceFinding_def ConsultantFinding_def IntelFinding_def HunterFinding_def IdentityFinding_def DfirFinding_def CloudFinding_def PurpleFinding_def ConductorStepResult_def CriticResult_def

text \<open>Their part of the schema registry.\<close>

definition registered_schemas :: "(payload \<Rightarrow> string) \<Rightarrow> (string \<Rightarrow> rat option) \<Rightarrow> schema_reader dict" where
  "registered_schemas explain num = map (\<lambda>nf. (fst nf, finding_reader explain num (snd nf))) finding_schemas"

subsection \<open>What a validated finding is\<close>

definition kind_ok :: "field_kind \<Rightarrow> pyval \<Rightarrow> bool" where
  "kind_ok k v = (case k of
     K_str \<Rightarrow> (case v of PStr s \<Rightarrow> True | _ \<Rightarrow> False)
   | K_unit \<Rightarrow> (case v of PFloat r \<Rightarrow> 0 \<le> r \<and> r \<le> 1 | _ \<Rightarrow> False)
   | K_strs \<Rightarrow> (case v of PList vs \<Rightarrow> list_all (\<lambda>x. case x of PStr s \<Rightarrow> True | _ \<Rightarrow> False) vs | _ \<Rightarrow> False)
   | K_phase \<Rightarrow> v = PNone \<or> v \<in> PStr ` set attack_phases
   | K_strs_by_key \<Rightarrow> (case v of PDict d \<Rightarrow> list_all (\<lambda>kv. case snd kv of
         PList vs \<Rightarrow> list_all (\<lambda>x. case x of PStr s \<Rightarrow> True | _ \<Rightarrow> False) vs | _ \<Rightarrow> False) d | _ \<Rightarrow> False)
   | K_dict \<Rightarrow> (case v of PDict d \<Rightarrow> True | _ \<Rightarrow> False)
   | K_dicts \<Rightarrow> (case v of PList vs \<Rightarrow> list_all (\<lambda>x. case x of PDict d \<Rightarrow> True | _ \<Rightarrow> False) vs | _ \<Rightarrow> False)
   | K_bool \<Rightarrow> (case v of PBool b \<Rightarrow> True | _ \<Rightarrow> False))"

definition finding_ok :: "model_fields \<Rightarrow> payload \<Rightarrow> bool" where
  "finding_ok fs x = list_all2 (\<lambda>f kv. fst kv = fst f \<and> kind_ok (snd f) (snd kv)) fs x"

lemma a_list_str_Inr: "a_list a_str v = Inr ss \<Longrightarrow> v = PList (map PStr ss)"
proof -
  have "traverse a_str vs = Inr ss \<Longrightarrow> vs = map PStr ss" for vs
    by (induction vs arbitrary: ss) (auto simp: rbind_Inr_iff a_str_def invalid_def split: pyval.splits)
  then show "a_list a_str v = Inr ss \<Longrightarrow> ?thesis" by (auto simp: a_list_def invalid_def split: pyval.splits)
qed

lemma a_strs_Inr: "a_strs v = Inr x \<Longrightarrow> x = v \<and> kind_ok K_strs v"
  by (auto simp: a_strs_def rbind_Inr_iff kind_ok_def list_all_iff dest!: a_list_str_Inr)

lemma kind_ok_default: "kind_ok k (default_kind k)"
  by (cases k) (simp_all add: kind_ok_def default_kind_def)

lemma a_strs_ok: "kind_ok K_strs v \<Longrightarrow> a_strs v = Inr v"
proof -
  have "list_all (\<lambda>x. case x of PStr s \<Rightarrow> True | _ \<Rightarrow> False) vs \<Longrightarrow> \<exists>ss. traverse a_str vs = Inr ss \<and> map PStr ss = vs" for vs
    by (induction vs) (auto simp: a_str_def split: pyval.splits)
  then show "kind_ok K_strs v \<Longrightarrow> ?thesis" by (fastforce simp: kind_ok_def a_strs_def a_list_def split: pyval.splits)
qed

lemma traverse_keyed_strs:
  assumes "traverse (\<lambda>kv. rbind (a_strs (snd kv)) (\<lambda>x. Inr (fst kv, x))) d = Inr kvs"
  shows "kvs = d \<and> list_all (\<lambda>kv. kind_ok K_strs (snd kv)) d"
  using assms by (induction d arbitrary: kvs) (auto simp: rbind_Inr_iff dest: a_strs_Inr)

lemma traverse_keyed_strs_ok:
  "list_all (\<lambda>kv. kind_ok K_strs (snd kv)) d \<Longrightarrow> traverse (\<lambda>kv. rbind (a_strs (snd kv)) (\<lambda>x. Inr (fst kv, x))) d = Inr d"
  by (induction d) (auto simp: a_strs_ok)

lemma kind_ok_keyed: "kind_ok K_strs_by_key (PDict d) \<longleftrightarrow> list_all (\<lambda>kv. kind_ok K_strs (snd kv)) d"
  by (simp add: kind_ok_def)

lemma traverse_dicts: "traverse a_dict vs = Inr ds \<Longrightarrow> vs = map PDict ds"
  by (induction vs arbitrary: ds) (auto simp: rbind_Inr_iff a_dict_def invalid_def split: pyval.splits)

lemma traverse_dicts_ok:
  "list_all (\<lambda>x. case x of PDict d \<Rightarrow> True | _ \<Rightarrow> False) vs \<Longrightarrow> \<exists>ds. traverse a_dict vs = Inr ds \<and> map PDict ds = vs"
  by (induction vs) (auto simp: a_dict_def split: pyval.splits)

lemma read_kind_ok: "read_kind num k v = Inr x \<Longrightarrow> kind_ok k x"
proof (induction k)
  case K_strs then show ?case by (auto simp: read_kind_def dest: a_strs_Inr)
next
  case K_strs_by_key then show ?case
    by (auto simp: read_kind_def rbind_Inr_iff kind_ok_keyed dest!: traverse_keyed_strs)
next
  case K_dicts then show ?case by (auto simp: read_kind_def rbind_Inr_iff kind_ok_def list_all_iff)
qed (auto simp: read_kind_def rbind_Inr_iff kind_ok_def a_float_in_def invalid_def split: option.splits if_splits)

lemma read_kind_stable: "kind_ok k v \<Longrightarrow> read_kind num k v = Inr v"
proof (induction k)
  case K_strs then show ?case by (simp add: read_kind_def a_strs_ok)
next
  case K_strs_by_key then show ?case
    by (cases v) (auto simp: read_kind_def a_dict_def kind_ok_keyed traverse_keyed_strs_ok, simp_all add: kind_ok_def)
next
  case K_dicts then show ?case
    by (cases v) (auto simp: read_kind_def kind_ok_def a_list_def dest: traverse_dicts_ok)
qed (auto simp: read_kind_def kind_ok_def a_str_def a_bool_def lax_bool_def a_dict_def a_float_in_def lax_float_def
  split: pyval.splits)

lemma read_field_ok: "read_field num d f = Inr kv \<Longrightarrow> fst kv = fst f \<and> kind_ok (snd f) (snd kv)"
  by (auto simp: read_field_def rbind_Inr_iff field_def kind_ok_default intro: read_kind_ok split: option.splits)

lemma validated_finding_ok:
  assumes "validate_model num fs d = Inr x"
  shows "map fst x = map fst fs \<and> finding_ok fs x"
proof -
  have "traverse (read_field num d) fs = Inr x \<Longrightarrow> map fst x = map fst fs \<and> finding_ok fs x" for x
    by (induction fs arbitrary: x) (auto simp: rbind_Inr_iff finding_ok_def dest: read_field_ok)
  with assms show ?thesis by (simp add: validate_model_def)
qed

text \<open>The fields by what they hold, whichever finding they are in; the fields that are none of these are lists of texts.\<close>

definition score_fields :: "string list" where
  "score_fields = [''confidence'', ''forensic_confidence'', ''trust_score'']"

definition text_fields :: "string list" where
  "text_fields = [''finding'', ''severity'', ''ttl'', ''finding_type'', ''summary'', ''incident_id'', ''priority'', ''framework'',
     ''control_id'', ''compliance_status'', ''risk_level'', ''topic'', ''actor_profile'', ''hypothesis'', ''hunt_status'',
     ''identity_asset'', ''lateral_movement_stage'', ''containment_status'', ''cloud_provider'', ''resource_id'', ''misconfig_type'',
     ''blast_radius'', ''reply'', ''mode_recommendation'', ''plan_status'', ''finding_quality'', ''recommended_disposition'']"

definition other_fields :: "string list" where
  "other_fields = [''attack_phase'', ''attack_coverage_map'', ''plan_delta'', ''spawn_requests'', ''enough_data'', ''task_completed'']"

text \<open>The score a consumer finds in the answer of a schema.\<close>

definition score_of :: "string \<Rightarrow> string list" where
  "score_of name = (if name = ''ComplianceFinding'' then [] else if name = ''DfirFinding'' then [''forensic_confidence'']
     else if name = ''CriticResult'' then [''trust_score''] else [''confidence''])"

definition field_fits :: "string \<times> field_kind \<Rightarrow> bool" where
  "field_fits f = (snd f = (if fst f \<in> set score_fields then K_unit else if fst f \<in> set text_fields then K_str
     else if fst f = ''attack_phase'' then K_phase else if fst f \<in> set other_fields then snd f else K_strs))"

definition schema_fits :: "string \<Rightarrow> model_fields \<Rightarrow> bool" where
  "schema_fits name fs = (list_all field_fits fs \<and> distinct (map fst fs)
     \<and> filter (\<lambda>k. k \<in> set score_fields) (map fst fs) = score_of name
     \<and> (name \<notin> {''ConductorStepResult'', ''CriticResult''} \<longrightarrow> (''attack_phase'', K_phase) \<in> set fs))"

lemma each_fits:
  "schema_fits ''RedTeamFinding'' RedTeamFinding" "schema_fits ''NetworkFinding'' NetworkFinding" "schema_fits ''SocFinding'' SocFinding"
  "schema_fits ''ComplianceFinding'' ComplianceFinding" "schema_fits ''ConsultantFinding'' ConsultantFinding"
  "schema_fits ''IntelFinding'' IntelFinding" "schema_fits ''HunterFinding'' HunterFinding" "schema_fits ''IdentityFinding'' IdentityFinding"
  "schema_fits ''DfirFinding'' DfirFinding" "schema_fits ''CloudFinding'' CloudFinding" "schema_fits ''PurpleFinding'' PurpleFinding"
  "schema_fits ''ConductorStepResult'' ConductorStepResult" "schema_fits ''CriticResult'' CriticResult"
  by code_simp+

lemma shipped_schemas: "(name, fs) \<in> set finding_schemas \<Longrightarrow> schema_fits name fs"
  using each_fits unfolding finding_schemas_def list.set insert_iff prod.inject empty_iff by blast

lemma kind_okD: "kind_ok K_unit v \<Longrightarrow> \<exists>c. v = PFloat c \<and> 0 \<le> c \<and> c \<le> 1" "kind_ok K_str v \<Longrightarrow> \<exists>t. v = PStr t"
  "kind_ok K_phase v \<Longrightarrow> v = PNone \<or> v \<in> PStr ` set attack_phases"
  by (auto simp: kind_ok_def split: pyval.splits)

lemma kind_ok_strs: "kind_ok K_strs v \<Longrightarrow> \<exists>ts. v = PList (map PStr ts)"
  by (auto dest!: a_strs_ok simp: a_strs_def rbind_Inr_iff)

lemma finding_ok_lookup:
  assumes "finding_ok fs x" and "distinct (map fst fs)" and "f \<in> set fs"
  shows "\<exists>v. dget x (fst f) = Some v \<and> (fst f, v) \<in> set x \<and> kind_ok (snd f) v"
proof -
  from assms(3) obtain i where "i < length fs" "fs ! i = f" by (auto simp: in_set_conv_nth)
  with assms(1) have kv: "x ! i \<in> set x" "fst (x ! i) = fst f" "kind_ok (snd f) (snd (x ! i))"
    by (auto simp: finding_ok_def list_all2_conv_all_nth)
  have "map fst x = map fst fs"
    using assms(1) by (auto simp: finding_ok_def list_all2_conv_all_nth intro: nth_equalityI)
  with assms(2) have "distinct (map fst x)" by simp
  with kv have "dget x (fst f) = Some (snd (x ! i))" by (metis map_of_eq_Some_iff prod.collapse)
  with kv show ?thesis by (metis prod.collapse)
qed

lemma finding_field:
  assumes "finding_ok fs x" and "(k, v) \<in> set x"
  shows "\<exists>K. (k, K) \<in> set fs \<and> kind_ok K v"
proof -
  from assms(2) obtain i where i: "i < length x" "x ! i = (k, v)" by (auto simp: in_set_conv_nth)
  with assms(1) have "i < length fs" "fst (fs ! i) = k" "kind_ok (snd (fs ! i)) v"
    by (auto simp: finding_ok_def list_all2_conv_all_nth dest!: spec[of _ i])
  then show ?thesis by (metis nth_mem prod.collapse)
qed


lemma findings_stable_fields:
  assumes "finding_ok fs x" and "\<And>f v. f \<in> set fs \<Longrightarrow> (fst f, v) \<in> set x \<Longrightarrow> read_field num y f = Inr (fst f, v)"
  shows "traverse (read_field num y) fs = Inr x"
  using assms unfolding finding_ok_def
proof (induction rule: list_all2_induct)
  case (Cons f fs kv x)
  then have "read_field num y f = Inr kv" by (metis list.set_intros(1) prod.collapse)
  with Cons show ?case by auto
qed simp

text \<open>Validation is stable: a validated finding that is dumped and read again is the same finding.\<close>

theorem findings_stable:
  assumes "validate_model num fs d = Inr x" and "distinct (map fst fs)"
  shows "validate_model num fs x = Inr x"
proof -
  have ok: "finding_ok fs x" and k: "map fst x = map fst fs"
    using validated_finding_ok[OF assms(1)] by simp_all
  have "read_field num x f = Inr (fst f, v)" if "f \<in> set fs" "(fst f, v) \<in> set x" for f v
  proof -
    from finding_ok_lookup[OF ok assms(2) that(1)] obtain v' where v': "dget x (fst f) = Some v'" "kind_ok (snd f) v'" by blast
    moreover have "v' = v" using v'(1) that(2) assms(2) k by (metis map_of_eq_Some_iff option.inject)
    ultimately show ?thesis by (simp add: read_field_def field_def read_kind_stable)
  qed
  from findings_stable_fields[OF ok this] show ?thesis by (simp add: validate_model_def)
qed

subsection \<open>Answers that are no finding\<close>

definition empty_finding :: "model_fields \<Rightarrow> payload" where
  "empty_finding fs = map (\<lambda>f. (fst f, default_kind (snd f))) fs"

lemma foreign_validates:
  assumes "\<forall>f \<in> set fs. dget d (fst f) = None"
  shows "validate_model num fs d = Inr (empty_finding fs)"
  using assms unfolding validate_model_def by (induction fs) (auto simp: empty_finding_def read_field_def field_def)

lemma no_error_field: "(n, fs) \<in> set finding_schemas \<Longrightarrow> ''error'' \<notin> fst ` set fs"
  by (auto simp: finding_schemas_def finding_models)

text \<open>Every finding schema accepts every object: an agent that answers with a JSON error object under a registered
  schema is reported as an empty finding of confidence zero, and its error is gone.\<close>

theorem error_answers_are_findings:
  assumes "(name, fs) \<in> set finding_schemas" and "parse_json_text (ru_loads V) t = Some [(''error'', e)]"
  shows "coerce_text V (Some (finding_reader explain num fs)) t = Inr (empty_finding fs) \<and> dget (empty_finding fs) ''error'' = None"
proof -
  have f: "\<forall>f \<in> set fs. dget [(''error'', e)] (fst f) = None" using no_error_field[OF assms(1)] by (auto simp: image_iff)
  have "dget (empty_finding fs) ''error'' = None"
    using no_error_field[OF assms(1)] by (auto simp: empty_finding_def map_of_eq_None_iff image_image)
  with assms(2) foreign_validates[OF f] show ?thesis by (simp add: coerce_text_def validate_schema_def finding_reader_def)
qed

subsection \<open>Witnesses\<close>

definition demo_finding :: payload where
  "demo_finding = [(''note'', PNone), (''confidence'', PInt 1), (''attack_phase'', PStr ''c2''), (''timeline'', PList [PStr ''t0''])]"

lemma demo_validates: "\<exists>x. validate_model (\<lambda>s. None) SocFinding demo_finding = Inr x"
proof -
  have "\<not> isl (validate_model (\<lambda>s. None) SocFinding demo_finding)" by code_simp
  then show ?thesis by (cases "validate_model (\<lambda>s. None) SocFinding demo_finding") auto
qed

lemma soc_registered: "dget (registered_schemas (\<lambda>d. []) (\<lambda>s. None)) ''SocFinding'' = Some (finding_reader (\<lambda>d. []) (\<lambda>s. None) SocFinding)"
  by (simp add: registered_schemas_def finding_schemas_def)


theorem findings_stable_witness:
  "\<exists>x. validate_model (\<lambda>s. None) SocFinding demo_finding = Inr x \<and> validate_model (\<lambda>s. None) SocFinding x = Inr x"
proof -
  have "distinct (map fst SocFinding)" by code_simp
  with demo_validates findings_stable show ?thesis by blast
qed

theorem error_answers_are_findings_witness:
  "coerce_text ((demo_runtime demo_worker_definition)\<lparr>ru_loads := (\<lambda>s. Some (PDict [(''error'', PStr ''tool failed'')]))\<rparr>)
     (Some (finding_reader (\<lambda>d. []) (\<lambda>s. None) CriticResult)) ''{}'' = Inr (empty_finding CriticResult)"
proof -
  have "(''CriticResult'', CriticResult) \<in> set finding_schemas" by (simp add: finding_schemas_def)
  moreover have "parse_json_text (ru_loads ((demo_runtime demo_worker_definition)\<lparr>ru_loads := (\<lambda>s. Some (PDict [(''error'', PStr ''tool failed'')]))\<rparr>)) ''{}''
    = Some [(''error'', PStr ''tool failed'')]" by (simp add: parse_json_text_def)
  ultimately show ?thesis using error_answers_are_findings by blast
qed

end
