(* ===== verification/Ingress.thy ===== *)
theory Ingress
  imports Control_Plane Api
begin

text \<open>How events come in: the SIEM poller (connectors/siem_poll: fetching, normalising, screening and forwarding alerts)
  and the routes of interfaces/api/app.py that take an event, show the status and process one job. HTTP, json, fresh
  ids and the dumps of models are parameters.\<close>

subsection \<open>Alerts\<close>

record siem_alert =
  sa_id :: string
  sa_rule_name :: string
  sa_severity :: string
  sa_message :: string
  sa_host :: string
  sa_source_type :: string
  sa_raw :: payload

text \<open>fresh is the hex of a new uuid.\<close>

definition from_siem_record :: "(pyval \<Rightarrow> string) \<Rightarrow> string \<Rightarrow> payload \<Rightarrow> siem_alert" where
  "from_siem_record str fresh record = (let text = (\<lambda>ks d. py_text str (first_truthy record ks (PStr d)));
       alert_id = text [''id'', ''_id'', ''event_id''] [] in
     \<lparr>sa_id = (if alert_id = [] then ''siem-'' @ take 12 fresh else alert_id),
      sa_rule_name = text [''rule_name'', ''rule'', ''search_name''] [],
      sa_severity = text [''severity'', ''urgency''] ''medium'',
      sa_message = text [''message'', ''description'', ''_raw''] [],
      sa_host = text [''host'', ''dest'', ''src_host''] [],
      sa_source_type = text [''source_type'', ''sourcetype''] [], sa_raw = record\<rparr>)"

definition SEVERITY_MAP :: "severity dict" where
  "SEVERITY_MAP = [(''info'', Sev_info), (''informational'', Sev_info), (''low'', Sev_low), (''medium'', Sev_medium),
     (''moderate'', Sev_medium), (''high'', Sev_high), (''critical'', Sev_critical), (''severe'', Sev_critical),
     (''1'', Sev_info), (''2'', Sev_low), (''3'', Sev_low), (''4'', Sev_medium), (''5'', Sev_medium), (''6'', Sev_high),
     (''7'', Sev_high), (''8'', Sev_critical), (''9'', Sev_critical), (''10'', Sev_critical)]"

definition map_siem_severity :: "string \<Rightarrow> severity" where
  "map_siem_severity raw = get_or SEVERITY_MAP (lower (strip raw)) Sev_medium"

definition normalize_siem_alert :: "siem_alert \<Rightarrow> string \<Rightarrow> security_event" where
  "normalize_siem_alert a source = \<lparr>ev_id = sa_id a, ev_type = ''siem.alert'', ev_source = source,
     ev_severity = map_siem_severity (sa_severity a),
     ev_payload = [(''rule_name'', PStr (sa_rule_name a)), (''message'', PStr (sa_message a)), (''host'', PStr (sa_host a)),
       (''source_type'', PStr (sa_source_type a)), (''siem_raw'', PDict (sa_raw a))],
     ev_tenant_id = ''default'', ev_correlation_id = sa_id a\<rparr>"

definition dicts_of :: "pyval list \<Rightarrow> payload list" where
  "dicts_of vs = List.map_filter (\<lambda>v. case v of PDict d \<Rightarrow> Some d | _ \<Rightarrow> None) vs"

definition list_value :: "payload \<Rightarrow> string \<Rightarrow> pyval list option" where
  "list_value d k = (case dget d k of Some (PList vs) \<Rightarrow> Some vs | _ \<Rightarrow> None)"

definition extract_alert_records :: "pyval \<Rightarrow> payload list" where
  "extract_alert_records data = (case data of
     PList vs \<Rightarrow> dicts_of vs
   | PDict d \<Rightarrow> (case List.map_filter (list_value d) [''results'', ''alerts'', ''data'', ''items''] of
       vs # rest \<Rightarrow> dicts_of vs | [] \<Rightarrow> [])
   | _ \<Rightarrow> [])"

subsection \<open>The poller\<close>

record siem_client =
  sl_base_url :: string
  sl_ingress_url :: string
  sl_api_key :: string
  sl_ingress_token :: string
  sl_siem_token :: string
  sl_source :: string
  sl_detector :: detector
  sl_open :: bool

definition SiemPollClient :: "string \<Rightarrow> string \<Rightarrow> string \<Rightarrow> string \<Rightarrow> string \<Rightarrow> string \<Rightarrow> detector \<Rightarrow> siem_client" where
  "SiemPollClient base ingress api_key ingress_token siem_token source d = \<lparr>sl_base_url = rstrip_slash base,
     sl_ingress_url = rstrip_slash ingress, sl_api_key = api_key, sl_ingress_token = ingress_token,
     sl_siem_token = siem_token, sl_source = source, sl_detector = d, sl_open = False\<rparr>"

definition siem_headers :: "siem_client \<Rightarrow> string dict" where
  "siem_headers C = [(''Accept'', ''application/json'')]
     @ (if sl_siem_token C \<noteq> [] then [(''Authorization'', ''Bearer '' @ sl_siem_token C)] else [])"

definition ingress_headers :: "siem_client \<Rightarrow> string dict" where
  "ingress_headers C = [(''Content-Type'', ''application/json'')]
     @ (if sl_ingress_token C \<noteq> [] then [(''Authorization'', ''Bearer '' @ sl_ingress_token C)]
        else if sl_api_key C \<noteq> [] then [(''X-API-Key'', sl_api_key C)] else [])"

text \<open>HTTP: a GET with url, headers and parameters and a POST with url, headers and body; an error status raises.\<close>

record 'w http =
  ht_get :: "string \<Rightarrow> string dict \<Rightarrow> string dict \<Rightarrow> 'w \<Rightarrow> 'w \<times> (exc + pyval)"
  ht_post :: "string \<Rightarrow> string dict \<Rightarrow> payload \<Rightarrow> 'w \<Rightarrow> 'w \<times> (exc + pyval)"

definition fetch_alerts ::
  "siem_client \<Rightarrow> 'w http \<Rightarrow> (pyval \<Rightarrow> string) \<Rightarrow> (nat \<Rightarrow> string) \<Rightarrow> string option \<Rightarrow> 'w \<Rightarrow> 'w \<times> (exc + siem_alert list)" where
  "fetch_alerts C H str fresh since w = (
     if \<not> sl_open C then (w, Inl (PyExc ''RuntimeError''))
     else (case ht_get H (sl_base_url C @ ''/alerts'') (siem_headers C)
             (case since of Some (c # cs) \<Rightarrow> [(''since'', c # cs)] | _ \<Rightarrow> []) w of
         (w1, Inl e) \<Rightarrow> (w1, Inl e)
       | (w1, Inr data) \<Rightarrow> (let rs = extract_alert_records data in
           (w1, Inr (map (\<lambda>(i, r). from_siem_record str (fresh i) r) (zip [0..<length rs] rs))))))"

definition sanitize_event :: "siem_client \<Rightarrow> security_event \<Rightarrow> security_event option" where
  "sanitize_event C ev = (case sanitize_payload (sl_detector C) Src_external (ev_payload ev) of
     Inl e \<Rightarrow> None | Inr p \<Rightarrow> Some (ev\<lparr>ev_payload := p\<rparr>))"

definition event_to_ingress_body :: "security_event \<Rightarrow> payload" where
  "event_to_ingress_body ev = [(''event_type'', PStr (ev_type ev)), (''payload'', PDict (ev_payload ev)),
     (''severity'', PStr (severity_value (ev_severity ev))), (''source'', PStr (ev_source ev)), (''event_id'', PStr (ev_id ev)),
     (''correlation_id'', PStr (ev_correlation_id ev))]"

definition post_event :: "siem_client \<Rightarrow> 'w http \<Rightarrow> security_event \<Rightarrow> 'w \<Rightarrow> 'w \<times> (exc + pyval)" where
  "post_event C H ev w = (
     if \<not> sl_open C then (w, Inl (PyExc ''RuntimeError''))
     else ht_post H (sl_ingress_url C @ ''/events'') (ingress_headers C) (event_to_ingress_body ev) w)"

text \<open>What a post raises ends the loop.\<close>

fun forward_alerts :: "siem_client \<Rightarrow> 'w http \<Rightarrow> siem_alert list \<Rightarrow> 'w \<Rightarrow> 'w \<times> (exc + pyval list)" where
  "forward_alerts C H [] w = (w, Inr [])"
| "forward_alerts C H (a # as) w = (case sanitize_event C (normalize_siem_alert a (sl_source C)) of
     None \<Rightarrow> forward_alerts C H as w
   | Some ev \<Rightarrow> (case post_event C H ev w of
       (w1, Inl e) \<Rightarrow> (w1, Inl e)
     | (w1, Inr r) \<Rightarrow> (case forward_alerts C H as w1 of
         (w2, Inl e) \<Rightarrow> (w2, Inl e) | (w2, Inr rs) \<Rightarrow> (w2, Inr (r # rs)))))"

definition poll_once ::
  "siem_client \<Rightarrow> 'w http \<Rightarrow> (pyval \<Rightarrow> string) \<Rightarrow> (nat \<Rightarrow> string) \<Rightarrow> string option \<Rightarrow> 'w \<Rightarrow> 'w \<times> (exc + pyval list)" where
  "poll_once C H str fresh since w = (case fetch_alerts C H str fresh since w of
     (w1, Inl e) \<Rightarrow> (w1, Inl e) | (w1, Inr alerts) \<Rightarrow> forward_alerts C H alerts w1)"

subsection \<open>The routes\<close>

record event_in =
  ei_event_type :: string
  ei_payload :: payload
  ei_severity :: string
  ei_source :: string
  ei_event_id :: "string option"
  ei_correlation_id :: string

definition parse_event_in :: "payload \<Rightarrow> exc + event_in" where
  "parse_event_in body =
     rbind (field a_str None ''event_type'' body) (\<lambda>t.
     rbind (field a_dict (Some []) ''payload'' body) (\<lambda>p.
     rbind (field a_str (Some ''medium'') ''severity'' body) (\<lambda>s.
     rbind (field a_str (Some []) ''source'' body) (\<lambda>src.
     rbind (field (a_opt a_str) (Some None) ''event_id'' body) (\<lambda>i.
     rbind (field a_str (Some []) ''correlation_id'' body) (\<lambda>c.
     Inr \<lparr>ei_event_type = t, ei_payload = p, ei_severity = s, ei_source = src, ei_event_id = i, ei_correlation_id = c\<rparr>))))))"

text \<open>aw_services says that the critic and coordinator services were started in the process; aw_background are the
  planning tasks that were created and have not run.\<close>

record api_world =
  aw_worker :: worker_world
  aw_status :: memory_status
  aw_services :: bool
  aw_background :: "(security_event \<times> payload) list"

record events_env =
  ee_ingress :: ingress_env
  ee_daemon :: bool
  ee_callbacks :: callbacks
  ee_ts :: string
  ee_dump :: "security_event \<Rightarrow> payload"

definition start_services :: "events_env \<Rightarrow> api_world \<Rightarrow> api_world" where
  "start_services V w = (if ee_daemon V then w else w\<lparr>aw_services := True\<rparr>)"

text \<open>The tenant of an event is always the default one.\<close>

definition accept_event :: "events_env \<Rightarrow> string \<Rightarrow> event_in \<Rightarrow> api_world \<Rightarrow> api_world \<times> (route_error + security_event \<times> routing_decision \<times> string list)" where
  "accept_event V fresh b w = (
     case build_event fresh (ei_event_type b) (ei_payload b) (ei_severity b) (ei_source b) (ei_event_id b) (ei_correlation_id b) ''default'' of
       Inl e \<Rightarrow> (w, Inl (Raised_exc e))
     | Inr ev \<Rightarrow> (case aroute_and_enqueue (ee_ingress V) ev (aw_worker w) of
         (ww, decision, ids) \<Rightarrow> (case mem_record (ee_callbacks V) (ee_ts V) (Record_event (ee_dump V ev)) (aw_status w) of
             (s, Some e) \<Rightarrow> (w\<lparr>aw_worker := ww, aw_status := s\<rparr>, Inl (Raised_exc e))
           | (s, None) \<Rightarrow> (w\<lparr>aw_worker := ww, aw_status := s, aw_background := aw_background w
                 @ (if rd_reason decision = ''async_planner_pending'' then [(ev, ei_payload b)] else [])\<rparr>,
               Inr (ev, decision, ids)))))"

definition api_post_event ::
  "auth_env \<Rightarrow> events_env \<Rightarrow> string \<Rightarrow> string option \<Rightarrow> payload \<Rightarrow> api_world
    \<Rightarrow> api_world \<times> (route_error + security_event \<times> routing_decision \<times> string list)" where
  "api_post_event A V fresh header body w = (case require_role A Ingress header of
     Inl e \<Rightarrow> (w, Inl e)
   | Inr claims \<Rightarrow> (case parse_event_in body of
       Inl e \<Rightarrow> (w, Inl (HTTP 422 ''validation error''))
     | Inr b \<Rightarrow> accept_event V fresh b (start_services V w)))"

text \<open>The background task of an accepted manual investigation, with its notification.\<close>

definition run_planner_task ::
  "events_env \<Rightarrow> planner_env \<Rightarrow> (string list \<Rightarrow> worker_world \<Rightarrow> payload) \<Rightarrow> security_event \<times> payload \<Rightarrow> api_world \<Rightarrow> api_world" where
  "run_planner_task V P update task w = (case task of (ev, p) \<Rightarrow>
     (case complete_manual_planning (ie_dispatch (ee_ingress V)) P ev p (aw_worker w) of
       (ww, ids) \<Rightarrow> w\<lparr>aw_worker := ww,
         aw_status := fst (mem_record (ee_callbacks V) (ee_ts V) (Record_investigation_update (update ids ww)) (aw_status w))\<rparr>))"

definition api_status :: "auth_env \<Rightarrow> string option \<Rightarrow> api_world \<Rightarrow> route_error + status_snapshot" where
  "api_status A header w = (case require_role A Reader header of Inl e \<Rightarrow> Inl e | Inr claims \<Rightarrow> Inr (mem_snapshot (aw_status w)))"

definition api_process_one ::
  "auth_env \<Rightarrow> worker_env \<Rightarrow> run_tick \<Rightarrow> string option \<Rightarrow> api_world \<Rightarrow> api_world \<times> (route_error + run_result option)" where
  "api_process_one A E tick header w = (case require_role A Operator header of
     Inl e \<Rightarrow> (w, Inl e)
   | Inr claims \<Rightarrow> (case process_next E tick (aw_worker w) of (ww, r) \<Rightarrow> (w\<lparr>aw_worker := ww\<rparr>, Inr r)))"

subsection \<open>What is forwarded\<close>

text \<open>A body that is an alert of a known severity whose payload went through the screening.\<close>

definition screened_body :: "payload \<Rightarrow> bool" where
  "screened_body b = (\<exists>ev p. b = event_to_ingress_body (ev\<lparr>ev_payload := p\<rparr>) \<and> ev_type ev = ''siem.alert'' \<and> strings_marked p)"

lemma sanitize_event_screened:
  "sanitize_event C (normalize_siem_alert a src) = Some ev \<Longrightarrow> screened_body (event_to_ingress_body ev)"
proof -
  assume "sanitize_event C (normalize_siem_alert a src) = Some ev"
  then obtain p where "sanitize_payload (sl_detector C) Src_external (ev_payload (normalize_siem_alert a src)) = Inr p"
      "ev = (normalize_siem_alert a src)\<lparr>ev_payload := p\<rparr>"
    unfolding sanitize_event_def by (cases "sanitize_payload (sl_detector C) Src_external (ev_payload (normalize_siem_alert a src))") simp_all
  moreover have "ev_type (normalize_siem_alert a src) = ''siem.alert''" by (simp add: normalize_siem_alert_def)
  ultimately show ?thesis unfolding screened_body_def using sanitize_payload_marked by blast
qed

lemma forward_screened:
  assumes "\<And>url hd b w. screened_body b \<Longrightarrow> ht_post H url hd b w = ht_post H' url hd b w"
  shows "forward_alerts C H as w = forward_alerts C H' as w"
proof (induction as arbitrary: w)
  case (Cons a as)
  have "post_event C H ev w = post_event C H' ev w"
    if "sanitize_event C (normalize_siem_alert a (sl_source C)) = Some ev" for ev
    using assms[OF sanitize_event_screened[OF that]] by (simp add: post_event_def)
  with Cons.IH show ?case by (simp split: option.split)
qed simp

text \<open>The poller posts screened alerts only: what the ingress does with any other body cannot make a difference.\<close>

theorem poller_posts_screened:
  assumes "\<And>url hd b w. screened_body b \<Longrightarrow> ht_post H url hd b w = post' url hd b w"
  shows "poll_once C H str fresh since w = poll_once C (H\<lparr>ht_post := post'\<rparr>) str fresh since w"
proof -
  have f: "fetch_alerts C (H\<lparr>ht_post := post'\<rparr>) = fetch_alerts C H"
    by (simp add: fun_eq_iff fetch_alerts_def)
  have p: "forward_alerts C (H\<lparr>ht_post := post'\<rparr>) = forward_alerts C H"
    using forward_screened[of H "H\<lparr>ht_post := post'\<rparr>"] assms by (simp add: fun_eq_iff)
  show ?thesis unfolding poll_once_def f p by (rule refl)
qed

text \<open>When every post succeeds a poll forwards each alert once and in order, but for those whose text the screening
  finds a hard injection in, and answers with the replies.\<close>

theorem poll_forwards_each:
  assumes "sl_open C" and "\<And>url hd b w. ht_post H url hd b w = (w @ [b], Inr (reply b))"
    and "fetch_alerts C H str fresh since w = (w, Inr alerts)"
  shows "let sent = map (\<lambda>a. event_to_ingress_body (the (sanitize_event C (normalize_siem_alert a (sl_source C)))))
           (filter (\<lambda>a. \<not> reaches_hard (sl_detector C) (ev_payload (normalize_siem_alert a (sl_source C)))) alerts) in
     poll_once C H str fresh since w = (w @ sent, Inr (map reply sent))"
proof -
  let ?n = "\<lambda>a. normalize_siem_alert a (sl_source C)"
  have hard: "sanitize_event C (?n a) = None \<longleftrightarrow> reaches_hard (sl_detector C) (ev_payload (?n a))" for a
    using isl_sanitize_payload[of "sl_detector C" Src_external "ev_payload (?n a)"]
    by (auto simp: sanitize_event_def split: sum.splits)
  have "forward_alerts C H as w = (w @ map (\<lambda>a. event_to_ingress_body (the (sanitize_event C (?n a))))
        (filter (\<lambda>a. \<not> reaches_hard (sl_detector C) (ev_payload (?n a))) as),
      Inr (map reply (map (\<lambda>a. event_to_ingress_body (the (sanitize_event C (?n a))))
        (filter (\<lambda>a. \<not> reaches_hard (sl_detector C) (ev_payload (?n a))) as))))" for as w
  proof (induction as arbitrary: w)
    case (Cons a as)
    show ?case
    proof (cases "sanitize_event C (?n a)")
      case None with hard[of a] Cons.IH show ?thesis by simp
    next
      case (Some ev) with hard[of a] Cons.IH assms(1,2) show ?thesis by (simp add: post_event_def)
    qed
  qed simp
  with assms(3) show ?thesis by (simp add: poll_once_def Let_def)
qed

text \<open>A poller that has an API key and no token cannot deliver to a deployment that authenticates: the route reads no
  key, every event is answered with 401 or an exception and changes nothing.\<close>

theorem api_key_is_refused:
  assumes "as_enabled (ae_settings A)" and "sl_ingress_token C = []"
  shows "\<exists>e. api_post_event A V fresh (dget (ingress_headers C) ''Authorization'') body w = (w, Inl e)
    \<and> (\<forall>n msg. e = HTTP n msg \<longrightarrow> n = 401)"
proof -
  have h: "dget (ingress_headers C) ''Authorization'' = None" using assms(2) by (simp add: ingress_headers_def)
  have "isl (verify_bearer (ae_decode A) v None)" for v by (cases v) (simp_all add: extract_bearer_token_def)
  then have "\<exists>e. require_role A Ingress None = Inl e \<and> (\<forall>n msg. e = HTTP n msg \<longrightarrow> n = 401)"
    using assms(1) by (auto simp: require_role_def isl_def split: sum.splits) (metis Inl_Inr_False)+
  then show ?thesis by (auto simp: h api_post_event_def)
qed

subsection \<open>What is accepted\<close>

text \<open>An event the topic takes is only routed here; any other is dispatched, by routing or by the planner.\<close>

lemma aroute_jobs:
  assumes "aroute_and_enqueue I ev w = (w', d, ids)"
  shows "if ie_use_kafka I \<and> ie_publish I ev
    then w' = w \<and> ids = [] \<and> d = route (de_plans (ie_dispatch I)) (de_notify (ie_dispatch I)) ev
    else (case planned (ie_dispatch I) ev of
        None \<Rightarrow> \<exists>js. adds_jobs ev d ids w w' js \<and> unordered js
      | Some P \<Rightarrow> if de_manual_async (ie_dispatch I)
          then w' = begin_planning P ev w \<and> d = manual_decision ev [] ''async_planner_pending'' \<and> ids = []
          else d = manual_decision ev (ip_personas (snd (plan_execute P ev w))) ''llm_planner''
            \<and> (\<exists>js. adds_jobs ev d ids (fst (plan_execute P ev w)) w' js \<and> unordered js))"
proof (cases "ie_use_kafka I \<and> ie_publish I ev")
  case True
  with assms show ?thesis by (simp add: aroute_and_enqueue_def ingest_def)
next
  case False
  with assms have "dispatch_async (ie_dispatch I) ev (ev_payload ev) w = (w', d, ids)"
    by (auto simp: aroute_and_enqueue_def ingest_def split: if_splits)
  from dispatch_async_jobs[OF this] show ?thesis unfolding if_not_P[OF False] .
qed

lemma routed_jobs:
  assumes "aroute_and_enqueue I ev w = (w', d, ids)" and "ev_type ev \<noteq> ''manual.investigation''" and "\<not> ie_use_kafka I"
  shows "\<exists>js. ww_queue w' = ww_queue w @ js \<and> ids = map job_id js \<and> jobs_of ev (rd_personas d) js \<and> unordered js"
  using aroute_jobs[OF assms(1)] assms(2,3) by (simp add: planned_def adds_jobs_def)

lemma mem_record_events: "sm_events (fst (mem_record cb ts op s)) = sm_events (status_append op s)"
  by (simp add: mem_record_def)

lemma accepted:
  assumes "api_post_event A V fresh header body w = (w', Inr (ev, d, ids))"
  shows "\<exists>b. parse_event_in body = Inr b
    \<and> build_event fresh (ei_event_type b) (ei_payload b) (ei_severity b) (ei_source b) (ei_event_id b) (ei_correlation_id b) ''default'' = Inr ev
    \<and> aroute_and_enqueue (ee_ingress V) ev (aw_worker w) = (aw_worker w', d, ids)
    \<and> sm_events (aw_status w') = sm_events (aw_status w) @ [ee_dump V ev]
    \<and> aw_background w' = aw_background w @ (if rd_reason d = ''async_planner_pending'' then [(ev, ev_payload ev)] else [])"
proof -
  obtain b where p: "parse_event_in body = Inr b" and b: "accept_event V fresh b (start_services V w) = (w', Inr (ev, d, ids))"
    using assms by (auto simp: api_post_event_def split: sum.splits)
  have s: "aw_worker (start_services V w) = aw_worker w" "aw_status (start_services V w) = aw_status w"
    "aw_background (start_services V w) = aw_background w"
    by (simp_all add: start_services_def)
  from b obtain ev0 where ev0: "build_event fresh (ei_event_type b) (ei_payload b) (ei_severity b) (ei_source b) (ei_event_id b)
      (ei_correlation_id b) ''default'' = Inr ev0" by (auto simp: accept_event_def split: sum.splits)
  obtain ww d0 ids0 where r: "aroute_and_enqueue (ee_ingress V) ev0 (aw_worker w) = (ww, d0, ids0)" using prod_cases3 by blast
  obtain st e where m: "mem_record (ee_callbacks V) (ee_ts V) (Record_event (ee_dump V ev0)) (aw_status w) = (st, e)" by fastforce
  have x: "ev0 = ev" "d0 = d" "ids0 = ids" "aw_worker w' = ww" "aw_status w' = st"
    "aw_background w' = aw_background w @ (if rd_reason d0 = ''async_planner_pending'' then [(ev0, ei_payload b)] else [])"
    using b by (cases e; auto simp: accept_event_def ev0 s r m)+
  have "sm_events st = sm_events (aw_status w) @ [ee_dump V ev0]"
    using mem_record_events[of "ee_callbacks V" "ee_ts V" "Record_event (ee_dump V ev0)" "aw_status w"] by (simp add: m)
  moreover have "ei_payload b = ev_payload ev0" using ev0 by (auto simp: build_event_def rbind_Inr_iff split: if_splits)
  ultimately show ?thesis using p ev0 r x by auto
qed

lemma build_tenant: "build_event fresh t p sev src i c tenant = Inr ev \<Longrightarrow> ev_tenant_id ev = tenant"
  by (auto simp: build_event_def rbind_Inr_iff split: if_splits)

text \<open>C37: An event that the route accepts is recorded once in the status feed, in the default tenant whoever sends it. With
  Kafka, an event the topic takes is answered with its routing, no job, and nothing is enqueued here: its jobs are the
  consumer's. Every other event is answered with the jobs enqueued for it, one per persona of the decision; those of a
  manual investigation, where there is a planner, are its plan's, enqueued after what the planner's own run does to the
  queue, or, when planning is asynchronous, none yet: the event is left to one background task.\<close>

theorem accepted_event_enqueues:
  assumes "api_post_event A V fresh header body w = (w', Inr (ev, d, ids))"
  shows "sm_events (aw_status w') = sm_events (aw_status w) @ [ee_dump V ev] \<and> ev_tenant_id ev = ''default''
    \<and> (let I = ee_ingress V; D = ie_dispatch I in
       if ie_use_kafka I \<and> ie_publish I ev
       then d = route (de_plans D) (de_notify D) ev \<and> ids = [] \<and> aw_worker w' = aw_worker w
       else (case (if ev_type ev = ''manual.investigation'' then de_planner D else None) of
           None \<Rightarrow> \<exists>js. adds_jobs ev d ids (aw_worker w) (aw_worker w') js
         | Some P \<Rightarrow> if de_manual_async D
             then ids = [] \<and> ww_queue (aw_worker w') = ww_queue (aw_worker w) \<and> aw_background w' = aw_background w @ [(ev, ev_payload ev)]
             else rd_personas d = ip_personas (snd (plan_execute P ev (aw_worker w)))
               \<and> (\<exists>js. adds_jobs ev d ids (fst (plan_execute P ev (aw_worker w))) (aw_worker w') js)))"
proof -
  have tenant: "ev_tenant_id ev = ''default''" using accepted[OF assms] by (elim exE conjE) (rule build_tenant)
  have r: "aroute_and_enqueue (ee_ingress V) ev (aw_worker w) = (aw_worker w', d, ids)" using accepted[OF assms] by (elim exE conjE)
  have feed: "sm_events (aw_status w') = sm_events (aw_status w) @ [ee_dump V ev]" using accepted[OF assms] by (elim exE conjE)
  have task: "aw_background w' = aw_background w @ (if rd_reason d = ''async_planner_pending'' then [(ev, ev_payload ev)] else [])"
    using accepted[OF assms] by (elim exE conjE)
  show ?thesis
    using aroute_jobs[OF r] feed task tenant
    by (auto simp: Let_def planned_def manual_decision_def split: option.splits if_splits)
qed

lemma built_again:
  assumes "build_event fresh t p sev src (Some (c # cs)) corr tenant = Inr ev"
    and "build_event fresh' t p sev src (Some (c # cs)) corr tenant = Inr ev'"
  shows "ev' = ev"
  using assms by (auto simp: build_event_def rbind_Inr_iff split: if_splits)

text \<open>Nothing recognises an event that comes in twice: posting a body again, as a poller does after a failed poll, enqueues
  jobs for every persona of its routing again.\<close>

theorem posted_twice_runs_twice:
  assumes "api_post_event A V fresh header body w = (w1, Inr (ev, d, ids))"
    and "api_post_event A V fresh' header body w1 = (w2, Inr (ev', d', ids'))"
    and "map_option ei_event_id (case parse_event_in body of Inr b \<Rightarrow> Some b | Inl e \<Rightarrow> None) = Some (Some (c # cs))"
    and "ev_type ev \<noteq> ''manual.investigation''" and "\<not> ie_use_kafka (ee_ingress V)"
  shows "ev' = ev \<and> (\<exists>js js'. ww_queue (aw_worker w2) = ww_queue (aw_worker w) @ js @ js'
    \<and> jobs_of ev (rd_personas d) js \<and> jobs_of ev (rd_personas d') js')"
proof -
  obtain b where b: "parse_event_in body = Inr b" "ei_event_id b = Some (c # cs)"
    using assms(3) by (auto split: sum.splits)
  from accepted[OF assms(1)] accepted[OF assms(2)] b have e: "ev' = ev" by (auto dest: built_again)
  obtain js where js: "ww_queue (aw_worker w1) = ww_queue (aw_worker w) @ js" "jobs_of ev (rd_personas d) js"
    using accepted[OF assms(1)] routed_jobs[OF _ assms(4,5)] by blast
  obtain js' where js': "ww_queue (aw_worker w2) = ww_queue (aw_worker w1) @ js'" "jobs_of ev (rd_personas d') js'"
    using accepted[OF assms(2)] routed_jobs[OF _ assms(4,5)] unfolding e by blast
  from js js' e show ?thesis by auto
qed

subsection \<open>Witnesses\<close>

definition demo_poller :: siem_client where
  "demo_poller = (SiemPollClient ''http://siem/'' ''http://api'' ''key'' [] [] ''siem_poll'' demo_detector)\<lparr>sl_open := True\<rparr>"

text \<open>A SIEM with one alert, and an ingress that keeps what it is sent.\<close>

definition demo_http :: "payload list http" where
  "demo_http = \<lparr>ht_get = (\<lambda>url hd ps w. (w, Inr (PDict [(''results'', PList [PDict [(''id'', PStr ''a1''), (''severity'', PStr ''Severe'')]])]))),
     ht_post = (\<lambda>url hd b w. (w @ [b], Inr PNone))\<rparr>"

theorem poller_posts_screened_witness:
  "poll_once demo_poller demo_http (\<lambda>v. []) (\<lambda>n. []) None []
     = poll_once demo_poller (demo_http\<lparr>ht_post := (\<lambda>url hd b w. if dget b ''event_type'' = Some (PStr ''siem.alert'') then (w @ [b], Inr PNone)
         else (w, Inl (PyExc ''HTTPStatusError'')))\<rparr>) (\<lambda>v. []) (\<lambda>n. []) None []"
  by (rule poller_posts_screened) (auto simp: screened_body_def event_to_ingress_body_def demo_http_def)

theorem poll_forwards_each_witness:
  "\<exists>b. poll_once demo_poller demo_http (\<lambda>v. []) (\<lambda>n. []) None [] = ([b], Inr [PNone])"
proof -
  let ?a = "from_siem_record (\<lambda>v. []) [] [(''id'', PStr ''a1''), (''severity'', PStr ''Severe'')]"
  have f: "fetch_alerts demo_poller demo_http (\<lambda>v. []) (\<lambda>n. []) None [] = ([], Inr [?a])"
    by (simp add: fetch_alerts_def demo_poller_def demo_http_def extract_alert_records_def list_value_def dicts_of_def map_filter_def)
  have r: "\<not> reaches_hard (sl_detector demo_poller) (ev_payload (normalize_siem_alert ?a (sl_source demo_poller)))" by code_simp
  have o: "sl_open demo_poller" by (simp add: demo_poller_def)
  show ?thesis using poll_forwards_each[OF o _ f, of "\<lambda>b. PNone"] r by (simp add: demo_http_def Let_def)
qed

definition demo_events :: events_env where
  "demo_events = \<lparr>ee_ingress = \<lparr>ie_dispatch = demo_dispatch, ie_use_kafka = False, ie_publish = (\<lambda>e. True)\<rparr>, ee_daemon = True,
     ee_callbacks = (\<lambda>a b c. None), ee_ts = [], ee_dump = (\<lambda>e. [(''id'', PStr (ev_id e))])\<rparr>"

definition demo_api_world :: api_world where
  "demo_api_world = \<lparr>aw_worker = demo_ww, aw_status = MemoryStatusStore, aw_services = False, aw_background = []\<rparr>"

theorem api_key_is_refused_witness:
  "\<exists>e. api_post_event demo_auth_env demo_events [] (dget (ingress_headers demo_poller) ''Authorization'') [] demo_api_world
     = (demo_api_world, Inl e)"
  using api_key_is_refused[of demo_auth_env demo_poller] by (fastforce simp: demo_auth_env_def demo_auth_def demo_poller_def SiemPollClient_def)

text \<open>The same route with one rule, and one whose topic takes every event.\<close>

definition routed_events :: "bool \<Rightarrow> events_env" where
  "routed_events kafka = demo_events\<lparr>ee_ingress := \<lparr>ie_dispatch = demo_dispatch\<lparr>de_plans := [\<lparr>pc_id = ''p'', pc_name = [], pc_description = [],
       pc_rules = [\<lparr>ru_event_types = [''siem.alert''], ru_min_severity = None, ru_personas = [''soc'', ''hunter''], ru_playbook_id = ''pb'',
         ru_notify_control = False\<rparr>]\<rparr>]\<rparr>, ie_use_kafka = kafka, ie_publish = (\<lambda>e. True)\<rparr>\<rparr>"

definition demo_open_auth :: auth_env where
  "demo_open_auth = demo_auth_env\<lparr>ae_settings := (ae_settings demo_auth_env)\<lparr>as_enabled := False\<rparr>\<rparr>"

definition demo_body :: payload where
  "demo_body = [(''event_type'', PStr ''siem.alert''), (''event_id'', PStr ''a1'')]"

lemma demo_accepted:
  obtains w1 ev d ids w2 ev' d' ids' where
    "api_post_event demo_open_auth demo_events ''x'' None demo_body demo_api_world = (w1, Inr (ev, d, ids))"
    "api_post_event demo_open_auth demo_events ''y'' None demo_body w1 = (w2, Inr (ev', d', ids'))"
    "ev_type ev = ''siem.alert''"
proof -
  let ?r = "api_post_event demo_open_auth demo_events ''x'' None demo_body demo_api_world"
  have a: "\<not> isl (snd ?r)" "ev_type (fst (projr (snd ?r))) = ''siem.alert''"
    "\<not> isl (snd (api_post_event demo_open_auth demo_events ''y'' None demo_body (fst ?r)))" by code_simp+
  then obtain w1 ev d ids where r: "?r = (w1, Inr (ev, d, ids))" by (metis not_isl_snd prod_cases3)
  with a(3) obtain w2 ev' d' ids' where "api_post_event demo_open_auth demo_events ''y'' None demo_body w1 = (w2, Inr (ev', d', ids'))"
    by (metis fst_conv not_isl_snd prod_cases3)
  with r a(2) that show thesis by simp
qed

lemma routed_accepted:
  obtains w ev d ids where "api_post_event demo_open_auth (routed_events kafka) ''x'' None demo_body demo_api_world = (w, Inr (ev, d, ids))"
    "ev_type ev = ''siem.alert''" "rd_personas d = [''soc'', ''hunter'']"
proof -
  have a: "\<not> isl (snd (api_post_event demo_open_auth (routed_events kafka) ''x'' None demo_body demo_api_world))
      \<and> ev_type (fst (projr (snd (api_post_event demo_open_auth (routed_events kafka) ''x'' None demo_body demo_api_world)))) = ''siem.alert''
      \<and> rd_personas (fst (snd (projr (snd (api_post_event demo_open_auth (routed_events kafka) ''x'' None demo_body demo_api_world)))))
        = [''soc'', ''hunter'']"
    by (cases kafka) (simp only:, code_simp)+
  let ?r = "api_post_event demo_open_auth (routed_events kafka) ''x'' None demo_body demo_api_world"
  obtain w ev d ids where "?r = (w, Inr (ev, d, ids))" using a by (metis not_isl_snd prod_cases3)
  with a that show thesis by simp
qed

theorem accepted_event_enqueues_witness:
  "(\<exists>w d ids js. snd (api_post_event demo_open_auth (routed_events False) ''x'' None demo_body demo_api_world) = Inr (d, ids)
      \<and> fst (api_post_event demo_open_auth (routed_events False) ''x'' None demo_body demo_api_world) = w
      \<and> ww_queue (aw_worker w) = js \<and> map job_persona js = [''soc'', ''hunter''] \<and> snd ids = map job_id js
      \<and> length (sm_events (aw_status w)) = 1)
   \<and> (\<exists>ev d. snd (api_post_event demo_open_auth (routed_events True) ''x'' None demo_body demo_api_world) = Inr (ev, d, [])
      \<and> rd_personas d = [''soc'', ''hunter''])"
proof -
  have q: "ww_queue (aw_worker demo_api_world) = []" "sm_events (aw_status demo_api_world) = []"
    by (simp_all add: demo_api_world_def demo_ww_def empty_world_def MemoryStatusStore_def)
  have k: "ie_use_kafka (ee_ingress (routed_events k)) = k" "ie_publish (ee_ingress (routed_events k)) e" for k e
    by (simp_all add: routed_events_def)
  obtain w ev d ids where r: "api_post_event demo_open_auth (routed_events False) ''x'' None demo_body demo_api_world = (w, Inr (ev, d, ids))"
    "ev_type ev = ''siem.alert''" "rd_personas d = [''soc'', ''hunter'']" by (rule routed_accepted[of False])
  obtain w2 ev2 d2 ids2 where t: "api_post_event demo_open_auth (routed_events True) ''x'' None demo_body demo_api_world = (w2, Inr (ev2, d2, ids2))"
    "rd_personas d2 = [''soc'', ''hunter'']" by (rule routed_accepted[of True])
  from accepted_event_enqueues[OF r(1)] r(2,3) q k have "ww_queue (aw_worker w) = ww_queue (aw_worker w) \<and> map job_persona (ww_queue (aw_worker w)) = [''soc'', ''hunter'']
      \<and> ids = map job_id (ww_queue (aw_worker w)) \<and> length (sm_events (aw_status w)) = 1"
    by (auto simp: adds_jobs_def jobs_of_def)
  moreover from accepted_event_enqueues[OF t(1)] k have "ids2 = []" by (simp add: Let_def)
  ultimately show ?thesis using r(1) t by auto
qed

theorem posted_twice_runs_twice_witness:
  "\<exists>w1 ev r1 w2 r2. api_post_event demo_open_auth demo_events ''x'' None demo_body demo_api_world = (w1, Inr (ev, r1))
     \<and> api_post_event demo_open_auth demo_events ''y'' None demo_body w1 = (w2, Inr (ev, r2))"
proof -
  from demo_accepted obtain w1 ev d ids w2 ev' d' ids' where
    r: "api_post_event demo_open_auth demo_events ''x'' None demo_body demo_api_world = (w1, Inr (ev, d, ids))"
      "api_post_event demo_open_auth demo_events ''y'' None demo_body w1 = (w2, Inr (ev', d', ids'))" "ev_type ev = ''siem.alert''"
    by metis
  have i: "map_option ei_event_id (case parse_event_in demo_body of Inr b \<Rightarrow> Some b | Inl e \<Rightarrow> None) = Some (Some (CHR ''a'' # ''1''))"
    by code_simp
  have "ev' = ev" using posted_twice_runs_twice[OF r(1,2) i] r(3) by (simp add: demo_events_def)
  with r show ?thesis by blast
qed

end
