(* ===== verification/Pg_Memory.thy ===== *)
theory Pg_Memory
  imports Memory "HOL-Library.Multiset"
begin

text \<open>The Postgres stores of memory entries and of investigation states (cys_core/infrastructure/memory/stores.py), next
  to the in-memory ones of Memory. A table is its rows in the order of their creation; the order in which the server
  gives rows that an ORDER BY leaves open is a parameter. States go through JSON, which they survive. The calls of
  several processes on one investigation are interleaved explicitly.\<close>

subsection \<open>Memory entries\<close>

type_synonym entry_table = "memory_entry list"

text \<open>The id is the primary key.\<close>

definition pg_append :: "memory_entry \<Rightarrow> entry_table \<Rightarrow> entry_table \<times> (exc + unit)" where
  "pg_append e t = (if me_id e \<in> set (map me_id t) then (t, Inl (PyExc ''UniqueViolation'')) else (t @ [e], Inr ()))"

definition pg_where :: "memory_scope \<Rightarrow> memory_entry \<Rightarrow> bool" where
  "pg_where scope e = (ms_tenant_id (me_scope e) = ms_tenant_id scope \<and> ms_investigation_id (me_scope e) = ms_investigation_id scope
     \<and> (case ms_persona scope of None \<Rightarrow> True | Some p \<Rightarrow> ms_persona (me_scope e) = None \<or> ms_persona (me_scope e) = Some p))"

text \<open>ORDER BY created_at DESC, done by arrange; LIMIT takes no negative number.\<close>

definition pg_query ::
  "(memory_entry list \<Rightarrow> memory_entry list) \<Rightarrow> memory_scope \<Rightarrow> int \<Rightarrow> entry_table \<Rightarrow> exc + memory_entry list" where
  "pg_query arrange scope limit t = (
     if limit < 0 then Inl (PyExc ''InvalidRowCountInLimitClause'')
     else Inr (take (nat limit) (arrange (filter (pg_where scope) t))))"

definition pg_search_by_investigation ::
  "(memory_entry list \<Rightarrow> memory_entry list) \<Rightarrow> string \<Rightarrow> string \<Rightarrow> int \<Rightarrow> entry_table \<Rightarrow> exc + memory_entry list" where
  "pg_search_by_investigation arrange tenant iid limit t = pg_query arrange
     \<lparr>ms_tenant_id = tenant, ms_investigation_id = iid, ms_persona = None\<rparr> limit t"

text \<open>What the documentation says of ORDER BY.\<close>

definition orders :: "(memory_entry list \<Rightarrow> memory_entry list) \<Rightarrow> bool" where
  "orders arrange = (\<forall>xs. mset (arrange xs) = mset xs \<and> sorted (map (\<lambda>e. - me_created_at e) (arrange xs)))"

primrec pg_append_all :: "memory_entry list \<Rightarrow> entry_table \<Rightarrow> entry_table" where
  "pg_append_all [] t = t"
| "pg_append_all (e # es) t = pg_append_all es (fst (pg_append e t))"

lemma pg_where_eq: "pg_where = scope_matches"
  by (rule ext)+ (auto simp: pg_where_def scope_matches_def split: option.split)

lemma pg_append_all_distinct:
  "distinct (map me_id (t @ es)) \<Longrightarrow> pg_append_all es t = t @ es"
proof (induction es arbitrary: t)
  case (Cons e es)
  then have "me_id e \<notin> me_id ` set t" by auto
  with Cons show ?case by (simp add: pg_append_def)
qed simp

lemma arranged_unique:
  assumes "orders arrange" and "distinct (map me_created_at xs)"
  shows "arrange xs = sort_key (\<lambda>e. - me_created_at e) xs"
proof -
  let ?f = "\<lambda>e. - me_created_at e"
  have m: "mset (arrange xs) = mset xs" and s: "sorted (map ?f (arrange xs))" using assms(1) by (simp_all add: orders_def)
  have inj: "inj_on ?f (set xs)" using assms(2) by (auto simp: inj_on_def distinct_map)
  have set: "set (arrange xs) = set xs" using m by (metis set_mset_mset)
  have d: "distinct (map ?f xs)" using assms(2) inj by (simp add: distinct_map)
  have "mset (map ?f (arrange xs)) = mset (map ?f xs)" using m by simp
  then have da: "distinct (map ?f (arrange xs))" using d by (metis mset_eq_imp_distinct_iff)
  have "mset (map ?f (sort_key ?f xs)) = mset (map ?f xs)" by simp
  then have ds: "distinct (map ?f (sort_key ?f xs))" using d by (metis mset_eq_imp_distinct_iff)
  show ?thesis
    by (rule map_sorted_distinct_set_unique[of ?f]) (use inj set s da ds in simp_all)
qed

text \<open>C19: The Postgres store answers as the in-memory one: after the same entries, with ids and creation times of their
  own, every query that is allowed gives the same entries in the same order, however the server breaks ties.\<close>

theorem pg_memory_refines:
  assumes "orders arrange" and "distinct (map me_id es)" and "distinct (map me_created_at es)" and "limit \<ge> 0"
  shows "pg_query arrange scope limit (pg_append_all es []) = Inr (store_query scope limit (fold store_append es []))"
proof -
  have f: "fold store_append es t = t @ es" for t by (induction es arbitrary: t) (simp_all add: store_append_def)
  have "distinct (map me_created_at (filter (scope_matches scope) es))"
    using assms(3) by (auto simp: distinct_map intro: inj_on_subset)
  with assms show ?thesis
    by (simp add: pg_query_def store_query_def pg_append_all_distinct f pg_where_eq arranged_unique py_take_def)
qed

text \<open>Whatever the server does with ties, the entries of a query belong to its tenant and investigation, are newest
  first, and no entry that is left out is newer than one that is given.\<close>

theorem pg_query_isolated:
  assumes "orders arrange" and "pg_query arrange scope limit t = Inr es"
  shows "int (length es) \<le> limit \<and> (\<forall>e \<in> set es. e \<in> set t \<and> scope_matches scope e)
    \<and> sorted (map (\<lambda>e. - me_created_at e) es)
    \<and> (\<forall>e \<in> set es. \<forall>x \<in># mset (filter (scope_matches scope) t) - mset es. me_created_at x \<le> me_created_at e)"
proof -
  let ?m = "filter (scope_matches scope) t" and ?f = "\<lambda>e. - me_created_at e"
  have l: "limit \<ge> 0" and es: "es = take (nat limit) (arrange ?m)"
    using assms(2) by (auto simp: pg_query_def pg_where_eq split: if_splits)
  have m: "mset (arrange ?m) = mset ?m" and s: "sorted (map ?f (arrange ?m))" using assms(1) by (simp_all add: orders_def)
  have sub: "e \<in> set t \<and> scope_matches scope e" if "e \<in> set es" for e
  proof -
    have "e \<in> set (arrange ?m)" using that es by (auto dest: in_set_takeD)
    then show ?thesis using mset_eq_setD[OF m] by simp
  qed
  have split: "arrange ?m = es @ drop (nat limit) (arrange ?m)" by (simp add: es)
  then have rest: "mset ?m - mset es = mset (drop (nat limit) (arrange ?m))"
    by (metis add_diff_cancel_left' m mset_append)
  have newer: "me_created_at x \<le> me_created_at e" if "e \<in> set es" "x \<in> set (drop (nat limit) (arrange ?m))" for e x
  proof -
    have "sorted (map ?f es @ map ?f (drop (nat limit) (arrange ?m)))" using s split by (metis map_append)
    with that show ?thesis by (auto simp: sorted_append)
  qed
  have "sorted (map ?f es)" using s es by (simp add: take_map[symmetric] sorted_wrt_take)
  moreover have "int (length es) \<le> limit" using l es by simp
  moreover have "\<forall>e \<in> set es. e \<in> set t \<and> scope_matches scope e" using sub by blast
  moreover have "\<forall>e \<in> set es. \<forall>x \<in># mset ?m - mset es. me_created_at x \<le> me_created_at e"
    unfolding rest set_mset_mset using newer by blast
  ultimately show ?thesis by blast
qed

subsection \<open>Investigation states\<close>

text \<open>A row: its key, the state, and when it was written.\<close>

type_synonym inv_table = "((string \<times> string) \<times> inv_state \<times> time) list"

definition pg_inv_get :: "inv_table \<Rightarrow> string \<times> string \<Rightarrow> inv_state option" where
  "pg_inv_get t key = map_option fst (map_of t key)"

definition pg_inv_upsert :: "time \<Rightarrow> inv_state \<Rightarrow> inv_table \<Rightarrow> inv_table" where
  "pg_inv_upsert now st t = AList.update (is_tenant_id st, is_investigation_id st) (st, now) t"

datatype inv_update = Add_finding payload | Add_persona string

fun update_state :: "inv_update \<Rightarrow> inv_state \<Rightarrow> inv_state" where
  "update_state (Add_finding f) st = st\<lparr>is_findings_summary := is_findings_summary st @ [f],
     is_status := (if is_status st = Inv_open then Inv_in_progress else is_status st)\<rparr>"
| "update_state (Add_persona p) st = (if p \<in> set (is_completed_personas st) then st
     else st\<lparr>is_completed_personas := is_completed_personas st @ [p]\<rparr>)"

text \<open>append_finding and mark_persona_done read the state, change it and write it back.\<close>

definition pg_read_changed :: "string \<Rightarrow> string \<Rightarrow> inv_update \<Rightarrow> inv_table \<Rightarrow> inv_state" where
  "pg_read_changed tenant iid u t = update_state u (case pg_inv_get t (tenant, iid) of
     Some st \<Rightarrow> st | None \<Rightarrow> InvestigationState iid tenant Inv_in_progress)"

definition pg_append_finding :: "time \<Rightarrow> string \<Rightarrow> string \<Rightarrow> payload \<Rightarrow> inv_table \<Rightarrow> inv_table" where
  "pg_append_finding now tenant iid f t = pg_inv_upsert now (pg_read_changed tenant iid (Add_finding f) t) t"

definition pg_mark_persona_done :: "time \<Rightarrow> string \<Rightarrow> string \<Rightarrow> string \<Rightarrow> inv_table \<Rightarrow> inv_table" where
  "pg_mark_persona_done now tenant iid p t = pg_inv_upsert now (pg_read_changed tenant iid (Add_persona p) t) t"

definition pg_list_recent ::
  "((inv_state \<times> time) list \<Rightarrow> (inv_state \<times> time) list) \<Rightarrow> string \<Rightarrow> int \<Rightarrow> inv_table \<Rightarrow> exc + inv_state list" where
  "pg_list_recent arrange tenant limit t = (
     if limit < 0 then Inl (PyExc ''InvalidRowCountInLimitClause'')
     else Inr (map fst (take (nat limit) (arrange (map snd (filter (\<lambda>r. fst (fst r) = tenant) t))))))"

text \<open>The rows without their times are an in-memory store; a row has the key of its state.\<close>

definition inv_rows :: "inv_table \<Rightarrow> inv_store" where
  "inv_rows t = map (\<lambda>(k, st, u). (k, st)) t"

definition rows_keyed :: "inv_table \<Rightarrow> bool" where
  "rows_keyed t = (\<forall>(k, st, u) \<in> set t. k = (is_tenant_id st, is_investigation_id st))"

lemma inv_rows_get: "inv_get (inv_rows t) key = pg_inv_get t key"
  by (induction t) (auto simp: inv_rows_def inv_get_def pg_inv_get_def)

lemma inv_rows_update: "inv_rows (AList.update k (st, u) t) = AList.update k st (inv_rows t)"
  by (induction t) (auto simp: inv_rows_def)

lemma pg_inv_get_keyed: "rows_keyed t \<Longrightarrow> pg_inv_get t (tenant, iid) = Some st \<Longrightarrow> is_tenant_id st = tenant \<and> is_investigation_id st = iid"
  by (auto simp: rows_keyed_def pg_inv_get_def dest!: map_of_SomeD)

lemma update_state_key: "is_tenant_id (update_state u st) = is_tenant_id st \<and> is_investigation_id (update_state u st) = is_investigation_id st"
  by (cases u) simp_all

lemma read_changed_key:
  assumes "rows_keyed t"
  shows "is_tenant_id (pg_read_changed tenant iid u t) = tenant \<and> is_investigation_id (pg_read_changed tenant iid u t) = iid"
  using assms pg_inv_get_keyed[OF assms, of tenant iid]
  by (auto simp: pg_read_changed_def update_state_key InvestigationState_def split: option.split)

interpretation pg_states: keyed_store pg_inv_get "\<lambda>key st t. AList.update key (st, 0) t" "\<lambda>t. distinct (map fst t)"
  by unfold_locales (auto simp: pg_inv_get_def update_conv' distinct_update)

text \<open>The two operations on either store.\<close>

fun mem_update :: "string \<Rightarrow> string \<Rightarrow> inv_update \<Rightarrow> inv_store \<Rightarrow> inv_store" where
  "mem_update tenant iid (Add_finding f) s = inv_append_finding tenant iid f s"
| "mem_update tenant iid (Add_persona p) s = inv_mark_persona_done tenant iid p s"

fun pg_update :: "time \<Rightarrow> string \<Rightarrow> string \<Rightarrow> inv_update \<Rightarrow> inv_table \<Rightarrow> inv_table" where
  "pg_update now tenant iid (Add_finding f) t = pg_append_finding now tenant iid f t"
| "pg_update now tenant iid (Add_persona p) t = pg_mark_persona_done now tenant iid p t"

lemma pg_update_eq: "pg_update now tenant iid u t = pg_inv_upsert now (pg_read_changed tenant iid u t) t"
  by (cases u) (simp_all add: pg_append_finding_def pg_mark_persona_done_def)

lemma mem_update_eq: "mem_update tenant iid u s = inv_put (tenant, iid) (update_state u (inv_or_new s tenant iid)) s"
  by (cases u) (simp_all add: inv_append_finding_def inv_mark_persona_done_def Let_def)

lemma pg_update_keyed: "rows_keyed t \<Longrightarrow> rows_keyed (pg_update now tenant iid u t)"
  unfolding pg_update_eq pg_inv_upsert_def rows_keyed_def
  by (auto dest!: set_update_subset[THEN subsetD])

lemma pg_states_step:
  assumes "rows_keyed t"
  shows "inv_rows (pg_update now tenant iid u t) = mem_update tenant iid u (inv_rows t)"
  unfolding pg_update_eq mem_update_eq pg_inv_upsert_def inv_put_def inv_rows_update inv_or_new_def inv_rows_get
  using read_changed_key[OF assms, of tenant iid u] by (simp add: pg_read_changed_def)

text \<open>One process at a time, the Postgres store of investigations does what the in-memory one does: after any updates
  the rows are its states.\<close>

theorem pg_states_refine:
  assumes "rows_keyed t"
  shows "inv_rows (fold (\<lambda>(now, tenant, iid, u). pg_update now tenant iid u) us t)
    = fold (\<lambda>(now, tenant, iid, u). mem_update tenant iid u) us (inv_rows t)"
  using assms
proof (induction us arbitrary: t)
  case (Cons a us)
  obtain now tenant iid u where a: "a = (now, tenant, iid, u)" using prod_cases4 by blast
  with Cons.IH[OF pg_update_keyed[OF Cons.prems]] pg_states_step[OF Cons.prems] show ?case by simp
qed simp

subsection \<open>Several processes\<close>

text \<open>Each process reads and writes in connections of its own: what it read and changed may be old when it is written.\<close>

datatype inv_call = Reads nat inv_update | Writes nat

fun run_calls :: "string \<Rightarrow> string \<Rightarrow> inv_call list \<Rightarrow> (nat \<rightharpoonup> inv_state) \<Rightarrow> inv_table \<Rightarrow> inv_table" where
  "run_calls tenant iid [] got t = t"
| "run_calls tenant iid (Reads p u # cs) got t = run_calls tenant iid cs (got(p \<mapsto> pg_read_changed tenant iid u t)) t"
| "run_calls tenant iid (Writes p # cs) got t = (case got p of
     None \<Rightarrow> run_calls tenant iid cs got t
   | Some st \<Rightarrow> run_calls tenant iid cs (got(p := None)) (pg_inv_upsert 0 st t))"

lemma get_upserted:
  "rows_keyed t \<Longrightarrow> pg_inv_get (pg_inv_upsert now (pg_read_changed tenant iid u t) t') (tenant, iid) = Some (pg_read_changed tenant iid u t)"
  using read_changed_key[of t tenant iid u] by (simp add: pg_inv_upsert_def pg_inv_get_def update_conv')

text \<open>C40: Two processes that update one investigation in Postgres at a time lose an update: when both read before either
  writes, the state is as if the first had never reported its finding or its persona; in the in-memory store, whose
  updates hold a lock, neither is lost.\<close>

theorem concurrent_update_lost:
  assumes "rows_keyed t" and "p \<noteq> q"
  shows "inv_get (inv_rows (run_calls tenant iid [Reads p u, Reads q v, Writes p, Writes q] (\<lambda>x. None) t)) (tenant, iid)
      = inv_get (mem_update tenant iid v (inv_rows t)) (tenant, iid)
    \<and> inv_get (inv_rows (run_calls tenant iid [Reads p u, Writes p, Reads q v, Writes q] (\<lambda>x. None) t)) (tenant, iid)
      = inv_get (mem_update tenant iid v (mem_update tenant iid u (inv_rows t))) (tenant, iid)"
proof -
  let ?t1 = "pg_inv_upsert 0 (pg_read_changed tenant iid u t) t"
  have m: "inv_rows (pg_update 0 tenant iid x y) = mem_update tenant iid x (inv_rows y)" if "rows_keyed y" for x y
    using pg_states_step[OF that] .
  have k: "rows_keyed ?t1" using pg_update_keyed[OF assms(1), of 0 tenant iid u] by (simp add: pg_update_eq)
  have "inv_get (inv_rows (run_calls tenant iid [Reads p u, Reads q v, Writes p, Writes q] (\<lambda>x. None) t)) (tenant, iid)
      = Some (pg_read_changed tenant iid v t)"
    using assms by (simp add: inv_rows_get get_upserted)
  moreover have "inv_get (mem_update tenant iid v (inv_rows t)) (tenant, iid) = Some (pg_read_changed tenant iid v t)"
    unfolding m[OF assms(1), symmetric] by (simp add: inv_rows_get pg_update_eq get_upserted assms(1))
  moreover have "run_calls tenant iid [Reads p u, Writes p, Reads q v, Writes q] (\<lambda>x. None) t = pg_update 0 tenant iid v ?t1"
    by (simp add: pg_update_eq)
  moreover have "inv_rows ?t1 = mem_update tenant iid u (inv_rows t)" using m[OF assms(1), of u] by (simp add: pg_update_eq)
  ultimately show ?thesis using m[OF k, of v] by simp
qed

subsection \<open>Witnesses\<close>

definition demo_row :: "string \<Rightarrow> time \<Rightarrow> memory_entry" where
  "demo_row i created = \<lparr>me_id = i, me_scope = \<lparr>ms_tenant_id = ''acme'', ms_investigation_id = ''i1'', ms_persona = None\<rparr>,
     me_content = ''seen'', me_type = Mem_finding, me_source_agent = ''soc'', me_source_job_id = [], me_trust_score = 1,
     me_checksum = [], me_created_at = created\<rparr>"

definition demo_order :: "memory_entry list \<Rightarrow> memory_entry list" where
  "demo_order xs = sort_key (\<lambda>e. - me_created_at e) xs"

lemma demo_orders: "orders demo_order"
  by (simp add: orders_def demo_order_def)

definition demo_where :: memory_scope where
  "demo_where = \<lparr>ms_tenant_id = ''acme'', ms_investigation_id = ''i1'', ms_persona = None\<rparr>"

theorem pg_memory_refines_witness:
  "pg_query demo_order demo_where 1 (pg_append_all [demo_row ''a'' 1, demo_row ''b'' 2] []) = Inr [demo_row ''b'' 2]"
proof -
  have "store_query demo_where 1 (fold store_append [demo_row ''a'' 1, demo_row ''b'' 2] []) = [demo_row ''b'' 2]"
    by (simp add: store_query_def scope_matches_def store_append_def demo_row_def demo_where_def py_take_def)
  with pg_memory_refines[OF demo_orders, of "[demo_row ''a'' 1, demo_row ''b'' 2]" 1 demo_where] show ?thesis
    by (simp add: demo_row_def)
qed

theorem pg_query_isolated_witness:
  "\<exists>es. pg_query demo_order demo_where 1 [demo_row ''a'' 1, demo_row ''b'' 2] = Inr es \<and> length es \<le> 1"
proof -
  obtain es where es: "pg_query demo_order demo_where 1 [demo_row ''a'' 1, demo_row ''b'' 2] = Inr es" by (simp add: pg_query_def)
  from pg_query_isolated[OF demo_orders es] es show ?thesis by auto
qed

theorem pg_states_refine_witness:
  "map_option is_completed_personas (inv_get (inv_rows (pg_update 5 ''acme'' ''i1'' (Add_persona ''soc'') [])) (''acme'', ''i1'')) = Some [''soc'']"
  using pg_states_refine[of "[]" "[(5, ''acme'', ''i1'', Add_persona ''soc'')]"]
  by (simp add: rows_keyed_def inv_rows_def inv_mark_persona_done_def inv_or_new_def inv_get_def inv_put_def InvestigationState_def)

theorem concurrent_update_lost_witness:
  "map_option is_completed_personas (inv_get (inv_rows (run_calls ''acme'' ''i1'' [Reads 1 (Add_persona ''soc''), Reads 2 (Add_persona ''intel''),
     Writes 1, Writes 2] (\<lambda>x. None) [])) (''acme'', ''i1'')) = Some [''intel'']"
  using concurrent_update_lost[of "[]" 1 2 "''acme''" "''i1''" "Add_persona ''soc''" "Add_persona ''intel''"]
  by (simp add: rows_keyed_def inv_rows_def inv_mark_persona_done_def inv_or_new_def inv_get_def inv_put_def InvestigationState_def
    del: run_calls.simps)

end
