(* ===== verification/Pg_Catalog.thy ===== *)
theory Pg_Catalog
  imports Catalog_Gate "HOL-Library.Multiset"
begin

text \<open>The Postgres catalogs of skills, plans, MCP servers and tools (infrastructure/catalog/postgres_json_catalog.py and
  postgres_registry.py) and the audit log in Postgres (audit_postgres.py), next to the in-memory catalogs of Catalog.
  A row has the payload, as the entry its JSON is read back to, and the columns kept beside it. Rows are in the order
  of their creation; text is ordered by its characters, as in the C collation, and rows of equal id, which belong to
  different profiles, keep that order.\<close>

subsection \<open>The table\<close>

record 'a json_row =
  pr_payload :: 'a
  pr_version :: int
  pr_active :: bool
  pr_enabled :: bool

type_synonym 'a json_table = "((string \<times> string) \<times> 'a json_row) list"

definition pg_list_items :: "string option \<Rightarrow> bool \<Rightarrow> 'a json_table \<Rightarrow> 'a list" where
  "pg_list_items profile_id enabled_only t = map (pr_payload \<circ> snd) (sort_key (fst \<circ> fst)
     (filter (\<lambda>(k, r). (case profile_id of Some (x # xs) \<Rightarrow> snd k = x # xs | _ \<Rightarrow> True) \<and> (enabled_only \<longrightarrow> pr_enabled r)) t))"

definition pg_get_item :: "'a json_table \<Rightarrow> string \<Rightarrow> string \<Rightarrow> 'a option" where
  "pg_get_item t item_id profile_id = map_option pr_payload (map_of t (item_id, profile_id))"

text \<open>The defaults of the columns a catalog does not write.\<close>

definition blank_row :: "'a \<Rightarrow> 'a json_row" where
  "blank_row e = \<lparr>pr_payload = e, pr_version = 1, pr_active = False, pr_enabled = True\<rparr>"

text \<open>The insert, with its update on conflict, of the columns that are written: payload, enabled, and version and active where they are kept.\<close>

definition write_row :: "'a payload_ops \<Rightarrow> ('a \<Rightarrow> int) option \<Rightarrow> ('a \<Rightarrow> bool) option \<Rightarrow> 'a \<Rightarrow> 'a json_table \<Rightarrow> 'a json_table" where
  "write_row ops version active e t = (let k = item_key ops e;
     r = (case map_of t k of Some r \<Rightarrow> r | None \<Rightarrow> blank_row e);
     r1 = r\<lparr>pr_payload := e, pr_enabled := po_enabled ops e\<rparr>;
     r2 = (case version of Some f \<Rightarrow> r1\<lparr>pr_version := f e\<rparr> | None \<Rightarrow> r1);
     r3 = (case active of Some f \<Rightarrow> r2\<lparr>pr_active := f e\<rparr> | None \<Rightarrow> r2) in
     AList.update k r3 t)"

definition pg_upsert_item ::
  "'a payload_ops \<Rightarrow> ('a \<Rightarrow> 'a \<Rightarrow> 'a) option \<Rightarrow> ('a \<Rightarrow> int) option \<Rightarrow> ('a \<Rightarrow> bool) option \<Rightarrow> 'a \<Rightarrow> 'a json_table \<Rightarrow> 'a json_table" where
  "pg_upsert_item ops merge version active e t = write_row ops version active
     (case (pg_get_item t (po_id ops e) (po_profile_id ops e), merge) of (Some ex, Some m) \<Rightarrow> m e ex | _ \<Rightarrow> e) t"

subsection \<open>The four catalogs\<close>

definition merge_skill_version :: "skill_entry \<Rightarrow> skill_entry \<Rightarrow> skill_entry" where
  "merge_skill_version e ex = e\<lparr>sk_version := sk_version ex + 1, sk_quality := sk_quality ex\<rparr>"

definition merge_plan_version :: "plan_entry \<Rightarrow> plan_entry \<Rightarrow> plan_entry" where
  "merge_plan_version e ex = e\<lparr>pl_version := pl_version ex + 1, pl_quality := pl_quality ex\<rparr>"

definition pg_upsert_skill :: "skill_entry \<Rightarrow> skill_entry json_table \<Rightarrow> skill_entry json_table" where
  "pg_upsert_skill e t = pg_upsert_item skill_ops (Some merge_skill_version) (Some sk_version) None e t"

definition pg_delete_skill :: "string \<Rightarrow> string \<Rightarrow> skill_entry json_table \<Rightarrow> skill_entry json_table \<times> bool" where
  "pg_delete_skill skill_id profile_id t = (case pg_get_item t skill_id profile_id of
     None \<Rightarrow> (t, False) | Some e \<Rightarrow> (pg_upsert_skill (e\<lparr>sk_enabled := False\<rparr>) t, True))"

definition pg_increment_usage :: "string \<Rightarrow> string \<Rightarrow> bool \<Rightarrow> skill_entry json_table \<Rightarrow> skill_entry json_table" where
  "pg_increment_usage skill_id profile_id err t = (case pg_get_item t skill_id profile_id of
     None \<Rightarrow> t
   | Some e \<Rightarrow> pg_upsert_skill (e\<lparr>sk_quality := (if err
       then (sk_quality e)\<lparr>load_errors := load_errors (sk_quality e) + 1\<rparr>
       else (sk_quality e)\<lparr>usage_count := usage_count (sk_quality e) + 1\<rparr>)\<rparr>) t)"

definition pg_upsert_plan :: "plan_entry \<Rightarrow> plan_entry json_table \<Rightarrow> plan_entry json_table" where
  "pg_upsert_plan e t = pg_upsert_item plan_ops (Some merge_plan_version) (Some pl_version) (Some pl_active) e t"

definition pg_load_active :: "string \<Rightarrow> plan_entry json_table \<Rightarrow> plan_entry list" where
  "pg_load_active profile_id t = (
     let rows = sort_key (fst \<circ> fst) (filter (\<lambda>(k, r). snd k = profile_id \<and> pr_enabled r \<and> pr_active r) t) in
     if rows \<noteq> [] then map (pr_payload \<circ> snd) rows else pg_list_items (Some profile_id) True t)"

text \<open>Only the column is written, the payload stays; the answer is read from the payload.\<close>

definition pg_activate_plan :: "string \<Rightarrow> string \<Rightarrow> plan_entry json_table \<Rightarrow> plan_entry json_table \<times> plan_entry option" where
  "pg_activate_plan plan_id profile_id t = (
     let t1 = map (\<lambda>(k, r). (k, if snd k = profile_id then r\<lparr>pr_active := False\<rparr> else r)) t;
         t2 = map (\<lambda>(k, r). (k, if k = (plan_id, profile_id) then r\<lparr>pr_active := True\<rparr> else r)) t1 in
     (t2, pg_get_item t2 plan_id profile_id))"

definition pg_upsert_server :: "mcp_server_entry \<Rightarrow> mcp_server_entry json_table \<Rightarrow> mcp_server_entry json_table" where
  "pg_upsert_server e t = pg_upsert_item mcp_ops None None None e t"

definition pg_upsert_tool :: "tool_entry \<Rightarrow> tool_entry json_table \<Rightarrow> tool_entry json_table" where
  "pg_upsert_tool e t = pg_upsert_item tool_ops None None None e t"

definition pg_seed_tools :: "tool_entry list \<Rightarrow> tool_entry json_table \<Rightarrow> tool_entry json_table" where
  "pg_seed_tools es t = fold pg_upsert_tool es t"

text \<open>UpdatePlanQuality.record_match on this catalog.\<close>

definition pg_record_match :: "string \<Rightarrow> string \<Rightarrow> int \<Rightarrow> plan_entry json_table \<Rightarrow> plan_entry json_table" where
  "pg_record_match plan_id profile_id jobs t = (case pg_get_item t plan_id profile_id of
     None \<Rightarrow> t | Some e \<Rightarrow> pg_upsert_plan (e\<lparr>pl_quality := match_quality jobs (pl_quality e)\<rparr>) t)"

subsection \<open>The audit log\<close>

record audit_row =
  aw_ts :: string
  aw_action :: string
  aw_resource_type :: string
  aw_resource_id :: string
  aw_actor :: string
  aw_details :: payload

record pg_audit =
  pa_process :: "audit_entry list"
  pa_rows :: "audit_row list"

text \<open>link is what the connection raises; the entry is in the log of the process before it.\<close>

definition pg_record_change ::
  "exc option \<Rightarrow> string \<Rightarrow> string \<Rightarrow> string \<Rightarrow> string \<Rightarrow> payload option \<Rightarrow> string \<Rightarrow> string option \<Rightarrow> pg_audit \<Rightarrow> pg_audit \<times> (exc + unit)" where
  "pg_record_change link ts action agent actor details resource_type resource_id a = (
     let rid = (case resource_id of Some (c # cs) \<Rightarrow> c # cs | _ \<Rightarrow> agent);
         a1 = a\<lparr>pa_process := record_catalog_change ts action agent actor details resource_type (Some rid) (pa_process a)\<rparr> in
     case link of Some e \<Rightarrow> (a1, Inl e)
     | None \<Rightarrow> (a1\<lparr>pa_rows := pa_rows a1 @ [\<lparr>aw_ts = ts, aw_action = action, aw_resource_type = resource_type, aw_resource_id = rid,
         aw_actor = actor, aw_details = (case details of Some d \<Rightarrow> d | None \<Rightarrow> [])\<rparr>]\<rparr>, Inr ()))"

text \<open>Newest first; when the connection fails, or for a negative limit, which Postgres refuses, the log of the process.\<close>

definition pg_list_entries :: "exc option \<Rightarrow> int \<Rightarrow> pg_audit \<Rightarrow> audit_entry list + audit_row list" where
  "pg_list_entries link limit a = (
     if link \<noteq> None \<or> limit < 0 then Inl (list_catalog_audit limit (pa_process a)) else Inr (take (nat limit) (rev (pa_rows a))))"

subsection \<open>The same as in memory\<close>

definition json_items :: "'a json_table \<Rightarrow> 'a payload_catalog" where
  "json_items t = map (\<lambda>(k, r). (k, pr_payload r)) t"

definition rows_agree :: "'a payload_ops \<Rightarrow> 'a json_table \<Rightarrow> bool" where
  "rows_agree ops t = (\<forall>(k, r) \<in> set t. k = item_key ops (pr_payload r) \<and> pr_enabled r = po_enabled ops (pr_payload r))"

lemma map_of_json: "map_of (json_items t) k = map_option pr_payload (map_of t k)"
  by (induction t) (auto simp: json_items_def)

lemma json_update: "json_items (AList.update k r t) = AList.update k (pr_payload r) (json_items t)"
  by (induction t) (auto simp: json_items_def)

lemma write_row_items: "json_items (write_row ops v a e t) = AList.update (item_key ops e) e (json_items t)"
  by (simp add: write_row_def Let_def json_update split: option.split)

lemma write_row_agree: "rows_agree ops t \<Longrightarrow> rows_agree ops (write_row ops v a e t)"
  unfolding rows_agree_def write_row_def Let_def
  by (auto dest!: set_update_subset[THEN subsetD] split: option.splits)

definition keeps_key :: "'a payload_ops \<Rightarrow> ('a \<Rightarrow> 'a \<Rightarrow> 'a) option \<Rightarrow> bool" where
  "keeps_key ops merge = (\<forall>m e ex. merge = Some m \<longrightarrow> item_key ops (m e ex) = item_key ops e)"

lemma insort_key_map_in:
  assumes "\<forall>y \<in> set ys. f y = g (h y)" and "f x = g (h x)"
  shows "map h (insort_key f x ys) = insort_key g (h x) (map h ys)"
  using assms by (induction ys) auto

lemma sort_key_map_in:
  assumes "\<forall>x \<in> set xs. f x = g (h x)"
  shows "map h (sort_key f xs) = sort_key g (map h xs)"
  using assms
proof (induction xs)
  case (Cons x xs)
  have "map h (insort_key f x (sort_key f xs)) = insort_key g (h x) (map h (sort_key f xs))"
    by (rule insort_key_map_in) (use Cons.prems in auto)
  with Cons show ?case by simp
qed simp

lemma pg_list_eq:
  assumes "rows_agree ops t"
  shows "pg_list_items p b t = list_items ops (po_id ops) p b (json_items t)"
proof -
  let ?P = "\<lambda>(k, r). (case p of Some (x # xs) \<Rightarrow> snd k = x # xs | _ \<Rightarrow> True) \<and> (b \<longrightarrow> pr_enabled r)"
  let ?Q = "\<lambda>e. (case p of Some (x # xs) \<Rightarrow> po_profile_id ops e = x # xs | _ \<Rightarrow> True) \<and> (b \<longrightarrow> po_enabled ops e)"
  have agree: "fst k = po_id ops (pr_payload r) \<and> snd k = po_profile_id ops (pr_payload r) \<and> pr_enabled r = po_enabled ops (pr_payload r)"
    if "(k, r) \<in> set t" for k r using assms that by (fastforce simp: rows_agree_def item_key_def)
  have same: "?P x = ?Q (pr_payload (snd x))" if "x \<in> set t" for x
  proof (cases x)
    case (Pair k r)
    with agree [of k r] that have "snd k = po_profile_id ops (pr_payload r)" "pr_enabled r = po_enabled ops (pr_payload r)" by auto
    then show ?thesis unfolding Pair prod.case snd_conv by (simp only:)
  qed
  have "filter ?P t = filter (?Q \<circ> (pr_payload \<circ> snd)) t"
    by (rule filter_cong [OF refl]) (simp only: same comp_apply)
  then have "filter ?Q (map (pr_payload \<circ> snd) t) = map (pr_payload \<circ> snd) (filter ?P t)" by (simp only: filter_map)
  moreover have "map (pr_payload \<circ> snd) (sort_key (fst \<circ> fst) (filter ?P t))
      = sort_key (po_id ops) (map (pr_payload \<circ> snd) (filter ?P t))"
    by (rule sort_key_map_in) (use agree in auto)
  moreover have "map snd (json_items t) = map (pr_payload \<circ> snd) t" by (auto simp: json_items_def)
  ultimately show ?thesis by (simp add: pg_list_items_def list_items_def)
qed

lemma pg_get_eq: "pg_get_item t i q = get_item (json_items t) i q"
  by (simp add: pg_get_item_def get_item_def map_of_json)

lemma pg_upsert_eq:
  assumes "keeps_key ops merge"
  shows "json_items (pg_upsert_item ops merge version active e t) = upsert_item ops merge e (json_items t)"
proof -
  have "item_key ops (case (map_of (json_items t) (item_key ops e), merge) of (Some ex, Some m) \<Rightarrow> m e ex | _ \<Rightarrow> e) = item_key ops e"
    using assms by (auto simp: keeps_key_def split: option.split)
  then show ?thesis by (simp add: pg_upsert_item_def write_row_items upsert_item_def Let_def pg_get_eq get_item_def item_key_def)
qed

lemma pg_upsert_agree: "rows_agree ops t \<Longrightarrow> rows_agree ops (pg_upsert_item ops merge version active e t)"
  by (simp add: pg_upsert_item_def write_row_agree)

lemma skill_merge_keeps: "keeps_key skill_ops (Some merge_skill_version)"
  by (simp add: keeps_key_def item_key_def skill_ops_def merge_skill_version_def)

lemma plan_merge_keeps: "keeps_key plan_ops (Some merge_plan_version)"
  by (simp add: keeps_key_def item_key_def plan_ops_def merge_plan_version_def)

lemma no_merge_keeps: "keeps_key ops None"
  by (simp add: keeps_key_def)

text \<open>Skills and servers do the same; the entry of a plan is given the stored quality first; the in-memory upsert of a
  tool is that of the entry marked as the API's.\<close>

lemma pg_skills_eq: "json_items (pg_upsert_skill e t) = upsert_skill e (json_items t)"
  unfolding pg_upsert_skill_def pg_upsert_eq[OF skill_merge_keeps] upsert_skill_def
  by (rule arg_cong[where f = "\<lambda>m. upsert_item skill_ops (Some m) e (json_items t)"]) (intro ext, rule merge_skill_version_def)

lemma pg_servers_eq: "json_items (pg_upsert_server e t) = upsert_server e (json_items t)"
  unfolding pg_upsert_server_def pg_upsert_eq[OF no_merge_keeps] upsert_server_def by (rule refl)

lemma pg_plans_eq: "json_items (pg_upsert_plan e t) = upsert_plan (e\<lparr>pl_quality := (case get_item (json_items t) (pl_id e) (pl_profile_id e) of
    Some old \<Rightarrow> pl_quality old | None \<Rightarrow> pl_quality e)\<rparr>) (json_items t)"
  unfolding pg_upsert_plan_def pg_upsert_eq[OF plan_merge_keeps] upsert_plan_def
  by (auto simp: upsert_item_def merge_plan_version_def item_key_def plan_ops_def get_item_def Let_def split: option.split intro!: arg_cong2[where f = "AList.update (pl_id e, pl_profile_id e)"])

lemma pg_tools_eq: "upsert_tool e (json_items t) = json_items (pg_upsert_tool (e\<lparr>tl_source := API\<rparr>) t)"
  unfolding pg_upsert_tool_def pg_upsert_eq[OF no_merge_keeps] upsert_tool_def by (rule refl)

lemma pg_tool_stored: "get_item (json_items (pg_upsert_tool e t)) (tl_id e) (tl_profile_id e) = Some e"
  unfolding pg_upsert_tool_def pg_upsert_eq[OF no_merge_keeps]
  by (simp add: upsert_item_def get_item_def item_key_def tool_ops_def Let_def update_conv' split: option.split)

lemma pg_tools_listed:
  assumes "rows_agree tool_ops t"
  shows "mset (pg_list_items p b t) = mset (list_tools p b (json_items t))" "sorted (map tl_id (pg_list_items p b t))"
  unfolding pg_list_eq[OF assms] by (simp_all add: list_items_def list_tools_def tool_ops_def)

lemma pg_kinds_agree:
  "rows_agree skill_ops ts \<Longrightarrow> rows_agree skill_ops (pg_upsert_skill s ts)" "rows_agree mcp_ops tm \<Longrightarrow> rows_agree mcp_ops (pg_upsert_server m tm)"
  "rows_agree plan_ops tp \<Longrightarrow> rows_agree plan_ops (pg_upsert_plan l tp)" "rows_agree tool_ops tt \<Longrightarrow> rows_agree tool_ops (pg_upsert_tool e tt)"
  by (simp_all add: pg_upsert_agree pg_upsert_skill_def pg_upsert_server_def pg_upsert_plan_def pg_upsert_tool_def)

lemma pg_lists_eq:
  "rows_agree skill_ops ts \<Longrightarrow> pg_list_items p b ts = list_items skill_ops sk_id p b (json_items ts)"
  "rows_agree mcp_ops tm \<Longrightarrow> pg_list_items p b tm = list_items mcp_ops mcp_id p b (json_items tm)"
  "rows_agree plan_ops tp \<Longrightarrow> pg_list_items p b tp = list_plans p b (json_items tp)"
  by (simp_all add: pg_list_eq list_plans_def) (simp_all add: skill_ops_def mcp_ops_def plan_ops_def)


subsection \<open>The active column\<close>

lemma activated_rows:
  "fst (pg_activate_plan i q t) = map (\<lambda>(k, r). (k, if snd k = q then r\<lparr>pr_active := (k = (i, q))\<rparr> else r)) t"
  by (auto simp: pg_activate_plan_def Let_def)

lemma activated_row: "map_of (fst (pg_activate_plan i q t)) (i, q) = map_option (\<lambda>r. r\<lparr>pr_active := True\<rparr>) (map_of t (i, q))"
  unfolding activated_rows by (induction t) auto

lemma activated_keys: "map fst (fst (pg_activate_plan i q t)) = map fst t"
  unfolding activated_rows by (induction t) auto

lemma activated_only: "(k, r) \<in> set (fst (pg_activate_plan i q t)) \<Longrightarrow> snd k = q \<Longrightarrow> pr_active r \<Longrightarrow> k = (i, q)"
  unfolding activated_rows by (auto split: if_splits)

lemma only_row:
  assumes "distinct (map fst t)" and "map_of t k = Some r" and "P (k, r)" and "\<And>x. x \<in> set t \<Longrightarrow> P x \<Longrightarrow> fst x = k"
  shows "filter P t = [(k, r)]"
  using assms
proof (induction t)
  case (Cons x t)
  have ind: "distinct (map fst t)" "\<And>y. y \<in> set t \<Longrightarrow> P y \<Longrightarrow> fst y = k" using Cons.prems(1,4) by auto
  show ?case
  proof (cases "fst x = k")
    case True
    then have x: "x = (k, r)" using Cons.prems(2) by (cases x) simp
    have "\<not> P y" if "y \<in> set t" for y
    proof
      assume "P y"
      with ind(2) that have "fst y = fst x" using True by simp
      with that have "fst x \<in> fst ` set t" by (metis imageI)
      with Cons.prems(1) show False by simp
    qed
    then have "filter P t = []" by (simp add: filter_empty_conv)
    then show ?thesis using x Cons.prems(3) by simp
  next
    case False
    then have "\<not> P x" using Cons.prems(4) [of x] by auto
    moreover have "map_of t k = Some r" using False Cons.prems(2) by (cases x) simp
    ultimately show ?thesis using Cons.IH ind Cons.prems(3) by simp
  qed
qed simp

lemma matched_none_active:
  assumes "map_of t (i, q) = Some r" and "\<not> pl_active (pr_payload r)" and "po_id plan_ops (pr_payload r) = i"
    and "po_profile_id plan_ops (pr_payload r) = q"
    and "\<And>k r. (k, r) \<in> set t \<Longrightarrow> snd k = q \<Longrightarrow> pr_active r \<Longrightarrow> k = (i, q)" and "distinct (map fst t)"
  shows "filter (\<lambda>(k, r). snd k = q \<and> pr_enabled r \<and> pr_active r) (pg_record_match i q jobs t) = []"
proof -
  let ?e = "(pr_payload r)\<lparr>pl_quality := match_quality jobs (pl_quality (pr_payload r))\<rparr>"
  have id: "pl_id (pr_payload r) = i" "pl_profile_id (pr_payload r) = q" using assms(3,4) by (simp_all add: plan_ops_def)
  have "pg_record_match i q jobs t = write_row plan_ops (Some pl_version) (Some pl_active) (merge_plan_version ?e (pr_payload r)) t"
    using assms(1) id by (simp add: pg_record_match_def pg_get_item_def pg_upsert_plan_def pg_upsert_item_def plan_ops_def)
  also have "\<dots> = AList.update (i, q) (r\<lparr>pr_payload := merge_plan_version ?e (pr_payload r),
      pr_enabled := pl_enabled (pr_payload r), pr_version := pl_version (pr_payload r) + 1, pr_active := False\<rparr>) t"
    using assms(1,2) id by (simp add: write_row_def item_key_def plan_ops_def merge_plan_version_def Let_def)
  finally have t': "pg_record_match i q jobs t = AList.update (i, q) (r\<lparr>pr_payload := merge_plan_version ?e (pr_payload r),
      pr_enabled := pl_enabled (pr_payload r), pr_version := pl_version (pr_payload r) + 1, pr_active := False\<rparr>) t" .
  have "\<not> pr_active r'" if "(k, r') \<in> set (pg_record_match i q jobs t)" "snd k = q" for k r'
  proof (cases "k = (i, q)")
    case True
    have "distinct (map fst (pg_record_match i q jobs t))" unfolding t' using assms(6) by (rule distinct_update)
    with that(1) True have "map_of (pg_record_match i q jobs t) (i, q) = Some r'" by simp
    then show ?thesis by (auto simp: t' update_conv')
  next
    case False
    with that(1) have "(k, r') \<in> set t" unfolding t' using set_update_subset by fastforce
    with assms(5) that(2) False show ?thesis by blast
  qed
  then show ?thesis by (auto simp: filter_empty_conv)
qed

text \<open>Activating a plan in Postgres writes a column that the payload does not know of: the answer shows the plan as
  inactive, and the first event it matches writes the payload back, with its active flag, and so switches it off
  again: the profile routes by all its enabled plans.\<close>

theorem activated_plan_switched_off:
  assumes "rows_agree plan_ops t" and "distinct (map fst t)" and "map_of t (plan_id, profile_id) = Some r"
    and "\<not> pl_active (pr_payload r)" and "pr_enabled r"
  shows "snd (pg_activate_plan plan_id profile_id t) = Some (pr_payload r)
    \<and> pg_load_active profile_id (fst (pg_activate_plan plan_id profile_id t)) = [pr_payload r]
    \<and> pg_load_active profile_id (pg_record_match plan_id profile_id jobs (fst (pg_activate_plan plan_id profile_id t)))
      = pg_list_items (Some profile_id) True (pg_record_match plan_id profile_id jobs (fst (pg_activate_plan plan_id profile_id t)))"
proof -
  let ?K = "(plan_id, profile_id)" and ?t2 = "fst (pg_activate_plan plan_id profile_id t)"
  have key: "po_id plan_ops (pr_payload r) = plan_id" "po_profile_id plan_ops (pr_payload r) = profile_id"
    using assms(1) map_of_SomeD [OF assms(3)] by (auto simp: rows_agree_def item_key_def)
  have get: "map_of ?t2 ?K = Some (r\<lparr>pr_active := True\<rparr>)" by (simp add: activated_row assms(3))
  have "filter (\<lambda>(k, r). snd k = profile_id \<and> pr_enabled r \<and> pr_active r) ?t2 = [(?K, r\<lparr>pr_active := True\<rparr>)]"
    by (rule only_row [OF _ get]) (use assms in \<open>auto simp: activated_keys dest: activated_only\<close>)
  then have "pg_load_active profile_id ?t2 = [pr_payload r]" by (simp add: pg_load_active_def)
  moreover have "snd (pg_activate_plan plan_id profile_id t) = Some (pr_payload r)"
    using get by (simp add: pg_activate_plan_def pg_get_item_def Let_def)
  moreover have "filter (\<lambda>(k, r). snd k = profile_id \<and> pr_enabled r \<and> pr_active r) (pg_record_match plan_id profile_id jobs ?t2) = []"
    by (rule matched_none_active [OF get]) (use assms key in \<open>auto simp: activated_keys dest: activated_only\<close>)
  ultimately show ?thesis by (simp add: pg_load_active_def)
qed

text \<open>What a skill's use teaches is lost in Postgres: the merge of the upsert puts the old quality back.\<close>

theorem pg_usage_lost:
  assumes "rows_agree skill_ops t"
  shows "map_option sk_quality (pg_get_item (pg_increment_usage skill_id profile_id err t) skill_id profile_id)
    = map_option sk_quality (pg_get_item t skill_id profile_id)"
proof (cases "pg_get_item t skill_id profile_id")
  case (Some e)
  then obtain r where "map_of t (skill_id, profile_id) = Some r" "pr_payload r = e" by (auto simp: pg_get_item_def)
  then have "sk_id e = skill_id" "sk_profile_id e = profile_id"
    using assms by (auto simp: rows_agree_def item_key_def skill_ops_def dest!: map_of_SomeD)
  with Some show ?thesis
    by (auto simp: pg_increment_usage_def pg_upsert_skill_def pg_upsert_item_def write_row_def Let_def skill_ops_def item_key_def
      pg_get_item_def update_conv' merge_skill_version_def)
qed (simp add: pg_increment_usage_def)

subsection \<open>Examples\<close>

definition soc_plan :: plan_entry where
  "soc_plan = \<lparr>pl_id = ''p1'', pl_profile_id = ''soc'', pl_name = ''P'', pl_description = [], pl_rules = [], pl_enabled = True,
     pl_active = False, pl_version = 1, pl_quality = \<lparr>plq_match_count = 0, plq_false_positive_rate = 0, plq_avg_jobs_per_event = 0\<rparr>,
     pl_source = SEED, pl_updated_at = 0\<rparr>"

definition soc_plans :: "plan_entry json_table" where
  "soc_plans = pg_upsert_plan (soc_plan\<lparr>pl_id := ''p2''\<rparr>) (pg_upsert_plan soc_plan [])"

definition soc_skill :: skill_entry where
  "soc_skill = \<lparr>sk_id = ''s'', sk_profile_id = ''soc'', sk_name = ''S'', sk_description = [], sk_body = [], sk_content_hash = [],
     sk_trust_tier = ''community'', sk_staging_status = DRAFT, sk_enabled = True, sk_version = 1,
     sk_quality = \<lparr>usage_count = 0, load_errors = 0\<rparr>, sk_source = SEED, sk_updated_at = 0\<rparr>"

lemmas pg_samples = pg_upsert_plan_def pg_upsert_skill_def pg_upsert_item_def write_row_def blank_row_def pg_get_item_def
  soc_plan_def soc_skill_def plan_ops_def skill_ops_def item_key_def merge_plan_version_def merge_skill_version_def

lemma soc_plans_rows: "soc_plans = [((''p1'', ''soc''), \<lparr>pr_payload = soc_plan, pr_version = 1, pr_active = False, pr_enabled = True\<rparr>),
    ((''p2'', ''soc''), \<lparr>pr_payload = soc_plan\<lparr>pl_id := ''p2''\<rparr>, pr_version = 1, pr_active = False, pr_enabled = True\<rparr>)]"
  by (simp add: soc_plans_def pg_samples Let_def)

lemma soc_plans_agree: "rows_agree plan_ops soc_plans"
  by (simp add: rows_agree_def soc_plans_rows pg_samples)

text \<open>A skill and a plan written again, a server, and two tools whose names order them against their ids.\<close>

definition soc_server :: mcp_server_entry where
  "soc_server = \<lparr>mcp_id = ''m'', mcp_url = ''http://m'', mcp_trust_tier = ''community'', mcp_allowed_tools = [], mcp_enabled = True,
     mcp_health_status = [], mcp_profile_id = ''soc'', mcp_updated_at = 0\<rparr>"

definition soc_tool :: "string \<Rightarrow> string \<Rightarrow> tool_entry" where
  "soc_tool i n = \<lparr>tl_id = i, tl_profile_id = ''soc'', tl_name = n, tl_description = [], tl_risk_tier = ''low'', tl_handler = [],
     tl_enabled = True, tl_source = SEED, tl_updated_at = 0\<rparr>"

definition soc_tools :: "tool_entry json_table" where
  "soc_tools = pg_seed_tools [soc_tool ''a'' ''zeek'', soc_tool ''b'' ''arp''] []"

definition learned_plan :: plan_entry where
  "learned_plan = soc_plan\<lparr>pl_quality := \<lparr>plq_match_count = 5, plq_false_positive_rate = 0, plq_avg_jobs_per_event = 2\<rparr>\<rparr>"

lemma sample_tables_agree:
  "rows_agree skill_ops (pg_upsert_skill soc_skill [])" "rows_agree mcp_ops (pg_upsert_server soc_server [])"
  "rows_agree plan_ops (pg_upsert_plan learned_plan [])" "rows_agree tool_ops soc_tools"
proof -
  have empty: "rows_agree ops []" for ops :: "'z payload_ops" by (simp add: rows_agree_def)
  show "rows_agree skill_ops (pg_upsert_skill soc_skill [])" "rows_agree mcp_ops (pg_upsert_server soc_server [])"
    "rows_agree plan_ops (pg_upsert_plan learned_plan [])" "rows_agree tool_ops soc_tools"
    by (simp_all add: soc_tools_def pg_seed_tools_def pg_kinds_agree empty)
qed


theorem activated_plan_switched_off_witness:
  "pg_load_active ''soc'' (fst (pg_activate_plan ''p2'' ''soc'' soc_plans)) = [soc_plan\<lparr>pl_id := ''p2''\<rparr>]
    \<and> length (pg_load_active ''soc'' (pg_record_match ''p2'' ''soc'' 3 (fst (pg_activate_plan ''p2'' ''soc'' soc_plans)))) = 2"
proof -
  have row: "map_of soc_plans (''p2'', ''soc'')
      = Some \<lparr>pr_payload = soc_plan\<lparr>pl_id := ''p2''\<rparr>, pr_version = 1, pr_active = False, pr_enabled = True\<rparr>"
    by (simp add: soc_plans_rows)
  have "distinct (map fst soc_plans)" "\<not> pl_active (soc_plan\<lparr>pl_id := ''p2''\<rparr>)" by (simp_all add: soc_plans_rows soc_plan_def)
  note off = activated_plan_switched_off [OF soc_plans_agree this(1) row, unfolded json_row.simps, OF this(2) TrueI, of 3]
  moreover have "length (pg_list_items (Some ''soc'') True (pg_record_match ''p2'' ''soc'' 3 (fst (pg_activate_plan ''p2'' ''soc'' soc_plans)))) = 2"
    by code_simp
  ultimately show ?thesis by simp
qed

theorem pg_usage_lost_witness:
  "map_option sk_quality (pg_get_item (pg_increment_usage ''s'' ''soc'' False (pg_upsert_skill soc_skill [])) ''s'' ''soc'')
    = Some \<lparr>usage_count = 0, load_errors = 0\<rparr>"
proof -
  have "rows_agree skill_ops (pg_upsert_skill soc_skill [])" by (simp add: rows_agree_def pg_samples Let_def)
  from pg_usage_lost [OF this, of "''s''" "''soc''" False] show ?thesis by (simp add: pg_samples Let_def)
qed

end
