(* ===== verification/Adapters.thy ===== *)
theory Adapters
  imports Runs Tool_Gateway
begin

text \<open>The adapters behind the built-in tools (interfaces/gateways/tool/adapters): the Python sandbox, images and archived
  pages (multimodal.py), documents (read_document.py), web search (web_search.py, search_stack.py), and the client of
  the Veneno tools (integrations/veneno_mcp_client.py). Files, sub-processes, HTTP, models and URL encoding are
  parameters, which act on an external state of any type.\<close>

subsection \<open>Strings\<close>

function runs :: "(char \<Rightarrow> bool) \<Rightarrow> string \<Rightarrow> string list" where
  "runs p s = (let t = dropWhile (\<lambda>c. \<not> p c) s in if t = [] then [] else takeWhile p t # runs p (dropWhile p t))"
  by auto
termination
proof (relation "measure (\<lambda>(p, s). length s)")
  fix p :: "char \<Rightarrow> bool" and s t :: string
  assume t: "t = dropWhile (\<lambda>c. \<not> p c) s" and ne: "t \<noteq> []"
  obtain c cs where c: "t = c # cs" using ne by (cases t) simp_all
  then have "p c" using t by (metis dropWhile_eq_Cons_conv)
  then have "length (dropWhile p t) \<le> length cs" using c by (simp add: length_dropWhile_le)
  moreover have "length t \<le> length s" using t by (simp add: length_dropWhile_le)
  ultimately show "((p, dropWhile p t), p, s) \<in> measure (\<lambda>(p, s). length s)" using c by simp
qed simp

declare runs.simps [simp del]

text \<open>What an expression takes for a character of a word, of those below 256.\<close>

definition is_word :: "char \<Rightarrow> bool" where
  "is_word c = (let n = (of_char c :: nat) in (48 \<le> n \<and> n \<le> 57) \<or> (65 \<le> n \<and> n \<le> 90) \<or> n = 95 \<or> (97 \<le> n \<and> n \<le> 122)
     \<or> n \<in> {170, 178, 179, 181, 185, 186, 188, 189, 190} \<or> (192 \<le> n \<and> n \<noteq> 215 \<and> n \<noteq> 247))"

fun before :: "string \<Rightarrow> string \<Rightarrow> string" where
  "before sep s = (if startswith s sep then [] else (case s of [] \<Rightarrow> [] | c # cs \<Rightarrow> c # before sep cs))"

declare before.simps [simp del]

text \<open>split at a separator that is not empty.\<close>

function split_on :: "string \<Rightarrow> string \<Rightarrow> string list" where
  "split_on sep s = (let p = before sep s in
     if sep = [] \<or> length p = length s then [p] else p # split_on sep (drop (length p + length sep) s))"
  by auto
termination
proof (relation "measure (\<lambda>(sep, s). length s)")
  fix sep s p :: string
  assume p: "p = before sep s" and go: "\<not> (sep = [] \<or> length p = length s)"
  have "s \<noteq> []" using p go by (auto simp: before.simps)
  with go show "((sep, drop (length p + length sep) s), sep, s) \<in> measure (\<lambda>(sep, s). length s)" by (cases sep) auto
qed simp

declare split_on.simps [simp del]

subsection \<open>The sandbox\<close>

text \<open>Outcomes of E2B: whether there was an error, and the lines; of the sub-process: its code and output.\<close>

datatype e2b_run = E2b_missing | E2b_raises string | E2b_ran bool "string list" "string list"

datatype local_run = Local_timeout | Local_raises exc | Local_ran int string string

record 'x sandbox_env =
  sb_e2b_key :: string
  sb_stage :: string
  sb_e2b :: "string \<Rightarrow> 'x \<Rightarrow> 'x \<times> e2b_run"
  sb_local :: "string \<Rightarrow> 'x \<Rightarrow> 'x \<times> local_run"

definition failure :: "string \<Rightarrow> payload" where
  "failure message = [(''success'', PBool False), (''error'', PStr message)]"

definition e2b_execute :: "'x sandbox_env \<Rightarrow> string \<Rightarrow> 'x \<Rightarrow> 'x \<times> payload" where
  "e2b_execute E code x = (case sb_e2b E code x of
     (x1, E2b_missing) \<Rightarrow> (x1, failure ''e2b_code_interpreter package not installed'')
   | (x1, E2b_raises m) \<Rightarrow> (x1, failure m @ [(''provider'', PStr ''e2b'')])
   | (x1, E2b_ran err out errs) \<Rightarrow> (x1, [(''success'', PBool (\<not> err)), (''stdout'', PList (map PStr (py_last 20 out))),
       (''stderr'', PList (map PStr (py_last 10 errs))), (''provider'', PStr ''e2b'')]))"

definition run_locally :: "'x sandbox_env \<Rightarrow> string \<Rightarrow> 'x \<Rightarrow> 'x \<times> (exc + payload)" where
  "run_locally E code x = (case sb_local E code x of
     (x1, Local_timeout) \<Rightarrow> (x1, Inr (failure ''sandbox timeout''))
   | (x1, Local_raises e) \<Rightarrow> (x1, Inl e)
   | (x1, Local_ran rc out err) \<Rightarrow> (x1, Inr [(''success'', PBool (rc = 0)), (''stdout'', PStr (py_last 8000 out)),
       (''stderr'', PStr (py_last 2000 err)), (''exit_code'', PInt rc)]))"

definition succeeded :: "payload \<Rightarrow> bool" where
  "succeeded r = truthy (get_or r ''success'' PNone)"

definition python_sandbox :: "'x sandbox_env \<Rightarrow> string \<Rightarrow> 'x \<Rightarrow> 'x \<times> (exc + payload)" where
  "python_sandbox E code x = (
     let remote = sb_e2b_key E \<noteq> []; (x1, r) = (if remote then e2b_execute E code x else (x, [])) in
     if remote \<and> (succeeded r \<or> sb_stage E = ''prod'') then (x1, Inr r)
     else if sb_stage E = ''prod'' \<and> remote then (x1, Inr (failure ''E2B execution failed; local fallback disabled in prod''))
     else if strip code = [] then (x1, Inr (failure ''empty code''))
     else run_locally E code x1)"

subsection \<open>Files\<close>

text \<open>A file as text and as bytes, each read as one character a byte; Inl is the text of what the read raises.\<close>

record document_env =
  fe_text :: "string \<Rightarrow> (string + string) option"
  fe_bytes :: "string \<Rightarrow> string + string"
  fe_resolve :: "string \<Rightarrow> string"
  fe_name :: "string \<Rightarrow> string"
  fe_base64 :: "string \<Rightarrow> string"

definition is_letter :: "char \<Rightarrow> bool" where
  "is_letter c = (let n = (of_char c :: nat) in (65 \<le> n \<and> n \<le> 90) \<or> (97 \<le> n \<and> n \<le> 122) \<or> n \<in> {170, 181, 186}
     \<or> (192 \<le> n \<and> n \<noteq> 215 \<and> n \<noteq> 247))"

definition read_pdf_stub :: "document_env \<Rightarrow> string \<Rightarrow> string + string" where
  "read_pdf_stub E path = rbind (fe_bytes E path) (\<lambda>raw.
     let bodies = map (before ''endstream'') (filter (\<lambda>p. contains p ''endstream'') (split_on ''stream'' raw));
         chunks = filter (list_ex is_letter) bodies in
     Inr (if chunks \<noteq> [] then py_join newline chunks
       else ''[PDF file '' @ fe_name E path @ '': install a PDF parser for full extraction; binary length='' @ nat_str (length raw) @ '']''))"

definition read_document :: "document_env \<Rightarrow> int \<Rightarrow> string \<Rightarrow> payload" where
  "read_document E max_chars path = (case fe_text E path of
     None \<Rightarrow> failure (''file not found: '' @ path)
   | Some content \<Rightarrow> (let suffix = lower (path_suffix path) in
     case (if suffix = ''.pdf'' then read_pdf_stub E path else content) of
       Inl m \<Rightarrow> failure m
     | Inr t \<Rightarrow> (let truncated = int (length t) > max_chars in
         [(''success'', PBool True), (''path'', PStr (fe_resolve E path)), (''suffix'', PStr suffix), (''truncated'', PBool truncated),
          (''content'', PStr (if truncated then py_take max_chars t @ newline @ ''...[truncated]'' else t))])))"

text \<open>model gets the question, the type of the image and its data; what it raises is a text.\<close>

definition vision_analyze :: "document_env \<Rightarrow> (string \<Rightarrow> string \<Rightarrow> string \<Rightarrow> string + string) \<Rightarrow> string \<Rightarrow> string \<Rightarrow> payload" where
  "vision_analyze E model path question = (if fe_text E path = None then failure (''file not found: '' @ path)
     else (let suffix = lower (path_suffix path) in
       if suffix \<notin> {''.jpg'', ''.jpeg'', ''.png'', ''.gif'', ''.webp''} then failure ''vision_analyze supports image files only''
       else (case rbind (fe_bytes E path) (\<lambda>raw.
              model question (if suffix = ''.png'' then ''image/png'' else ''image/jpeg'') (fe_base64 E raw)) of
           Inr a \<Rightarrow> [(''success'', PBool True), (''path'', PStr path), (''analysis'', PStr a)]
         | Inl m \<Rightarrow> [(''success'', PBool False), (''path'', PStr path), (''error'', PStr m),
             (''note'', PStr ''Vision model unavailable; use read_document or external OCR.'')])))"

subsection \<open>Searching the web\<close>

text \<open>Inl is the text of what a request raises; data is the JSON of an answer, for Jina its text. The judge, when one is
  set, answers a prompt.\<close>

datatype engine = Serper | Perplexity | Jina | Duckduckgo

record 'x web_env =
  wb_serper_key :: string
  wb_provider :: string
  wb_perplexity_key :: string
  wb_jina_key :: string
  wb_fetch :: "engine \<Rightarrow> string \<Rightarrow> int \<Rightarrow> 'x \<Rightarrow> 'x \<times> (string + pyval)"
  wb_archive :: "(string \<times> string) list \<Rightarrow> 'x \<Rightarrow> 'x \<times> (string + pyval)"
  wb_judge :: "(string \<Rightarrow> exc + string) option"
  wb_dumps :: "pyval \<Rightarrow> string"

definition attribute_error :: exc where
  "attribute_error = PyExc ''AttributeError''"

text \<open>x.get(key, default), and a slice from the start.\<close>

definition py_get :: "pyval \<Rightarrow> string \<Rightarrow> pyval \<Rightarrow> exc + pyval" where
  "py_get v key dflt = (case v of PDict d \<Rightarrow> Inr (get_or d key dflt) | _ \<Rightarrow> Inl attribute_error)"

definition py_slice :: "int \<Rightarrow> pyval \<Rightarrow> exc + pyval" where
  "py_slice n v = (case v of PStr s \<Rightarrow> Inr (PStr (py_take n s)) | PList vs \<Rightarrow> Inr (PList (py_take n vs))
     | _ \<Rightarrow> Inl (PyExc ''TypeError''))"

definition searched :: "string \<Rightarrow> pyval list \<Rightarrow> payload" where
  "searched provider results = [(''success'', PBool True), (''provider'', PStr provider), (''results'', PList results)]"

definition unsearched :: "string \<Rightarrow> payload" where
  "unsearched message = [(''success'', PBool False), (''error'', PStr message), (''results'', PList [])]"

definition hit :: "pyval \<Rightarrow> pyval \<Rightarrow> pyval \<Rightarrow> pyval" where
  "hit title snippet url = PDict [(''title'', title), (''snippet'', snippet), (''url'', url)]"

definition topic_hit :: "pyval \<Rightarrow> exc + pyval list" where
  "topic_hit v = (case v of PDict d \<Rightarrow> (case dget d ''Text'' of
       Some t \<Rightarrow> rbind (py_slice 80 t) (\<lambda>short. Inr [hit short t (get_or d ''FirstURL'' (PStr []))])
     | None \<Rightarrow> Inr [])
   | _ \<Rightarrow> Inr [])"

definition duckduckgo_results :: "int \<Rightarrow> pyval \<Rightarrow> exc + payload" where
  "duckduckgo_results limit data = rbind (py_get data ''AbstractText'' PNone) (\<lambda>a. rbind (py_get data ''Heading'' PNone) (\<lambda>h.
     rbind (py_get data ''Heading'' (PStr [])) (\<lambda>title. rbind (py_get data ''AbstractURL'' (PStr [])) (\<lambda>url.
       let abstract = py_or a h; first = (if truthy abstract then [hit title abstract url] else []) in
       rbind (rbind (py_get data ''RelatedTopics'' PNone) (\<lambda>ts. py_slice limit (py_or ts (PList [])))) (\<lambda>topics.
         rbind (rbind (py_iter topics) (traverse topic_hit)) (\<lambda>hs.
           Inr (searched ''duckduckgo'' (py_take limit (first @ concat hs)))))))))"

definition organic_hit :: "pyval \<Rightarrow> exc + pyval" where
  "organic_hit item = rbind (py_get item ''title'' (PStr [])) (\<lambda>t. rbind (py_get item ''snippet'' (PStr [])) (\<lambda>sn.
     rbind (py_get item ''link'' (PStr [])) (\<lambda>u. Inr (hit t sn u))))"

definition serper_results :: "int \<Rightarrow> pyval \<Rightarrow> exc + payload" where
  "serper_results limit data = rbind (rbind (py_get data ''organic'' (PList [])) (py_slice limit)) (\<lambda>items.
     rbind (rbind (py_iter items) (traverse organic_hit)) (\<lambda>hs. Inr (searched ''serper'' hs)))"

text \<open>The first of the choices, its message, its content.\<close>

definition py_first :: "pyval \<Rightarrow> exc + pyval" where
  "py_first v = (case v of PList (x # xs) \<Rightarrow> Inr x | PStr (c # cs) \<Rightarrow> Inr (PStr [c]) | PDict d \<Rightarrow> Inl (PyExc ''KeyError'')
     | PList [] \<Rightarrow> Inl (PyExc ''IndexError'') | PStr [] \<Rightarrow> Inl (PyExc ''IndexError'') | _ \<Rightarrow> Inl (PyExc ''TypeError''))"

definition perplexity_results :: "pyval \<Rightarrow> exc + payload" where
  "perplexity_results data = rbind (py_get data ''choices'' PNone) (\<lambda>cs. rbind (py_first (py_or cs (PList [PDict []]))) (\<lambda>c.
     rbind (py_get c ''message'' PNone) (\<lambda>m. rbind (py_get (py_or m (PDict [])) ''content'' (PStr [])) (\<lambda>content.
       Inr [(''success'', PBool (truthy content)), (''results'', PList [PDict [(''snippet'', content)]]),
         (''provider'', PStr ''perplexity'')]))))"

definition jina_results :: "pyval \<Rightarrow> exc + payload" where
  "jina_results data = (case data of
     PStr t \<Rightarrow> Inr [(''success'', PBool (strip t \<noteq> [])), (''results'', PList [PDict [(''snippet'', PStr (take 8000 t))]]),
       (''provider'', PStr ''jina'')]
   | _ \<Rightarrow> Inl attribute_error)"

definition fetched :: "payload \<Rightarrow> (pyval \<Rightarrow> exc + payload) \<Rightarrow> 'x \<times> (string + pyval) \<Rightarrow> 'x \<times> (exc + payload)" where
  "fetched failed_tail read a = (case a of
     (x1, Inl m) \<Rightarrow> (x1, Inr (unsearched m @ failed_tail)) | (x1, Inr data) \<Rightarrow> (x1, read data))"

definition run_engine :: "'x web_env \<Rightarrow> engine \<Rightarrow> string \<Rightarrow> int \<Rightarrow> 'x \<Rightarrow> 'x \<times> (exc + payload)" where
  "run_engine E e query limit x = (case e of
     Serper \<Rightarrow> fetched [(''provider'', PStr ''serper'')] (serper_results limit) (wb_fetch E Serper query limit x)
   | Perplexity \<Rightarrow> if wb_perplexity_key E = [] then (x, Inr (unsearched ''PERPLEXITY_API_KEY not set''))
       else fetched [] perplexity_results (wb_fetch E Perplexity query limit x)
   | Jina \<Rightarrow> if wb_jina_key E = [] then (x, Inr (unsearched ''JINA_API_KEY not set''))
       else fetched [] jina_results (wb_fetch E Jina query limit x)
   | Duckduckgo \<Rightarrow> fetched [(''provider'', PStr ''duckduckgo'')] (duckduckgo_results limit) (wb_fetch E Duckduckgo query limit x))"

text \<open>The engines, with the names the code has for them; a name it does not know is searched with DuckDuckGo.\<close>

definition engine_named :: "string \<Rightarrow> engine" where
  "engine_named n = (if n = ''serper'' then Serper else if n = ''perplexity'' then Perplexity
     else if n = ''jina'' then Jina else Duckduckgo)"

definition search_engines :: "'x web_env \<Rightarrow> string list" where
  "search_engines E = (if wb_serper_key E \<noteq> [] then [''serper'', ''perplexity'', ''jina'', ''duckduckgo'']
     else (if wb_jina_key E \<noteq> [] then [''jina''] else []) @ (if wb_perplexity_key E \<noteq> [] then [''perplexity''] else [])
       @ [str_or (lower (wb_provider E)) ''duckduckgo''])"

definition any_of :: "string list \<Rightarrow> string \<Rightarrow> bool" where
  "any_of ws s = list_ex (contains s) ws"

definition enhance_query :: "string \<Rightarrow> payload" where
  "enhance_query query = (let t = strip query; l = lower t in
     [(''enhanced_query'', PStr (if length (runs (\<lambda>c. \<not> is_space c) t) \<le> 3 \<and> CHR 0x3F \<notin> set t then ''What is '' @ t @ ''?'' else t)),
      (''query_type'', PStr (if any_of [''compare'', ''analyze'', ''why'', ''how many'', ''list all''] l then ''multi-step'' else ''factual'')),
      (''query_topic'', PStr (if any_of [''paper'', ''research'', ''arxiv'', ''study'', ''theorem''] l then ''academic'' else ''general''))])"

text \<open>The tokens a judgement records go to a session nobody configures, so no budget changes. YES and NO in any case: below 256 only their own small letters become them.\<close>

definition judge_search_llm :: "'x web_env \<Rightarrow> string \<Rightarrow> string \<Rightarrow> bool option" where
  "judge_search_llm E query results_text = (case wb_judge E of
     None \<Rightarrow> None
   | Some ask \<Rightarrow> (case ask (''Query: '' @ query @ newline @ ''Results:'' @ newline @ take 4000 results_text @ newline
         @ ''Did the results answer the query? Reply YES or NO only.'') of
       Inl e \<Rightarrow> None
     | Inr answer \<Rightarrow> (let a = lower (strip answer) in
         if startswith a ''yes'' then Some True else if startswith a ''no'' then Some False else None)))"

definition judge_search_relevance :: "'x web_env \<Rightarrow> string \<Rightarrow> string \<Rightarrow> bool" where
  "judge_search_relevance E query results_text = (case judge_search_llm E query results_text of
     Some verdict \<Rightarrow> verdict
   | None \<Rightarrow> (let l = lower results_text; tokens = filter (\<lambda>t. length t > 3) (runs is_word (lower query)) in
       if strip results_text = [] then False
       else if contains l ''error'' \<and> length l < 80 then False
       else tokens = [] \<or> length (filter (contains l) tokens) \<ge> max 1 (length tokens div 3)))"

text \<open>The engines in turn, until one succeeds with relevant results; else the first that succeeded, else the last.\<close>

definition best_tried :: "payload list \<Rightarrow> payload" where
  "best_tried tried = (case find succeeded tried of Some r \<Rightarrow> r | None \<Rightarrow> last tried)"

fun try_engines :: "'x web_env \<Rightarrow> payload \<Rightarrow> string \<Rightarrow> string \<Rightarrow> int \<Rightarrow> string list \<Rightarrow> payload list \<Rightarrow> 'x \<Rightarrow> 'x \<times> (exc + payload)" where
  "try_engines E meta query enhanced limit [] tried x =
     (x, Inr (dput ''judge_passed'' (PBool False) (dput ''query_meta'' (PDict meta) (best_tried tried))))"
| "try_engines E meta query enhanced limit (e # es) tried x = (case run_engine E (engine_named e) enhanced limit x of
     (x1, Inl exc) \<Rightarrow> (x1, Inl exc)
   | (x1, Inr r) \<Rightarrow> if succeeded r \<and> judge_search_relevance E query (wb_dumps E (PDict r))
       then (x1, Inr (dput ''engine_used'' (PStr e) (dput ''query_meta'' (PDict meta) r)))
       else try_engines E meta query enhanced limit es (tried @ [r]) x1)"

definition web_search :: "'x web_env \<Rightarrow> string \<Rightarrow> int \<Rightarrow> 'x \<Rightarrow> 'x \<times> (exc + payload)" where
  "web_search E query limit x = (let meta = enhance_query query in
     case get_or meta ''enhanced_query'' PNone of
       PStr enhanced \<Rightarrow> try_engines E meta query enhanced limit (search_engines E) [] x
     | _ \<Rightarrow> (x, Inl attribute_error))"

definition search_archived_webpage :: "'x web_env \<Rightarrow> string \<Rightarrow> string \<Rightarrow> 'x \<Rightarrow> 'x \<times> (exc + payload)" where
  "search_archived_webpage E url timestamp x = (if strip url = [] then (x, Inr (failure ''url required''))
     else (case wb_archive E ((''url'', url) # (if timestamp \<noteq> [] then [(''timestamp'', timestamp)] else [])) x of
       (x1, Inl m) \<Rightarrow> (x1, Inr (failure m))
     | (x1, Inr data) \<Rightarrow> (x1, rbind (rbind (py_get data ''archived_snapshots'' PNone)
           (\<lambda>s. py_get (py_or s (PDict [])) ''closest'' PNone)) (\<lambda>c. let closest = py_or c (PDict []) in
         rbind (py_get closest ''available'' PNone) (\<lambda>available.
           if \<not> truthy available then Inr (failure ''no archived snapshot'' @ [(''raw'', data)])
           else rbind (py_get closest ''url'' (PStr [])) (\<lambda>u. rbind (py_get closest ''timestamp'' (PStr [])) (\<lambda>t.
             rbind (py_get closest ''status'' (PStr [])) (\<lambda>st. Inr [(''success'', PBool True), (''url'', PStr url),
               (''archived_url'', u), (''timestamp'', t), (''status'', st)]))))))))"

subsection \<open>The Veneno tools\<close>

definition VENENO_MCP_TOOL_NAMES :: "string list" where
  "VENENO_MCP_TOOL_NAMES = [''run_active_scan'', ''execute_command'', ''engage_run_tool'']"

definition veneno_failure :: "pyval \<Rightarrow> string option \<Rightarrow> payload" where
  "veneno_failure message tool = [(''success'', PBool False), (''error'', message), (''source'', PStr ''veneno-mcp'')]
     @ (case tool of Some t \<Rightarrow> [(''tool'', PStr t)] | None \<Rightarrow> [])"

text \<open>The content of a result is read as that of a Veil tool is.\<close>

definition call_veneno_mcp_tool ::
  "'x gateway_env \<Rightarrow> bool \<Rightarrow> (payload \<Rightarrow> 'x \<Rightarrow> 'x \<times> http_answer) \<Rightarrow> string \<Rightarrow> payload \<Rightarrow> 'x \<Rightarrow> 'x \<times> (exc + payload)" where
  "call_veneno_mcp_tool E enabled post tool args x = (
     if \<not> enabled then (x, Inr (veneno_failure (PStr ''Veneno MCP disabled (VENENO_MCP_ENABLED=false)'') None))
     else if tool \<notin> set VENENO_MCP_TOOL_NAMES then (x, Inr (veneno_failure (PStr (''Veneno tool not allowlisted: '' @ tool)) None))
     else (case post [(''jsonrpc'', PStr ''2.0''), (''id'', PInt 1), (''method'', PStr ''tools/call''),
              (''params'', PDict [(''name'', PStr tool), (''arguments'', PDict args)])] x of
         (x1, Http_error e) \<Rightarrow> (x1, Inr (veneno_failure (PStr (''Veneno MCP HTTP error: '' @ e)) (Some tool)))
       | (x1, Bad_json e) \<Rightarrow> (x1, Inr (veneno_failure (PStr (''Veneno MCP invalid JSON: '' @ e)) (Some tool)))
       | (x1, Http_body (PDict body)) \<Rightarrow> (x1, (case dget body ''error'' of
           Some (PDict err) \<Rightarrow> Inr (veneno_failure (case dget err ''message'' of
               Some m \<Rightarrow> m | None \<Rightarrow> PStr (ge_str E (PDict err))) (Some tool))
         | Some err \<Rightarrow> Inr (veneno_failure (PStr (str_of E err)) (Some tool))
         | None \<Rightarrow> rbind (case py_or (get_or body ''result'' PNone) (PDict []) of PDict d \<Rightarrow> Inr d | _ \<Rightarrow> Inl attribute_error) (\<lambda>result.
             rbind (veil_content E result) (\<lambda>parsed. Inr [(''success'', PBool True), (''tool'', PStr tool), (''result'', parsed),
               (''source'', PStr ''veneno-mcp'')]))))
       | (x1, Http_body v) \<Rightarrow> (x1, Inl (key_error ''error'' v))))"

subsection \<open>Properties\<close>

lemma before_prefix: "\<exists>r. s = before sep s @ r"
  by (induction sep s rule: before.induct) (subst before.simps, auto split: list.split)

lemma startswith_appendI: "startswith p n \<Longrightarrow> startswith (p @ r) n"
  by (auto simp: startswith_iff)

lemma before_free:
  assumes "sep \<noteq> []"
  shows "\<not> contains (before sep s) sep"
proof (induction s)
  case Nil
  show ?case using assms by (simp add: before.simps)
next
  case (Cons c cs)
  show ?case
  proof (cases "startswith (c # cs) sep")
    case True
    with assms show ?thesis by (simp add: before.simps)
  next
    case False
    then have b: "before sep (c # cs) = c # before sep cs" by (simp add: before.simps)
    obtain r where "cs = before sep cs @ r" using before_prefix by blast
    then have "\<not> startswith (c # before sep cs) sep" using False startswith_appendI[of "c # before sep cs" sep r] by auto
    with Cons b show ?thesis by simp
  qed
qed

lemma split_on_free: "sep \<noteq> [] \<Longrightarrow> p \<in> set (split_on sep s) \<Longrightarrow> \<not> contains p sep"
proof (induction sep s rule: split_on.induct)
  case (1 sep s)
  let ?p = "before sep s"
  have u: "split_on sep s = (if sep = [] \<or> length ?p = length s then [?p] else ?p # split_on sep (drop (length ?p + length sep) s))"
    by (subst split_on.simps) (simp add: Let_def)
  show ?case
  proof (cases "length ?p = length s")
    case True
    with u "1.prems" before_free[of sep s] show ?thesis by simp
  next
    case False
    then have "p = ?p \<or> p \<in> set (split_on sep (drop (length ?p + length sep) s))" using u "1.prems" by simp
    with "1.IH"[OF refl] False "1.prems"(1) before_free[of sep s] show ?thesis by blast
  qed
qed

lemma contains_trans: "contains a b \<Longrightarrow> contains b c \<Longrightarrow> contains a c"
  unfolding contains_iff by (metis append.assoc)

text \<open>No text is ever taken from a PDF: the bytes are split at every stream, so that no part has an endstream left. A
  PDF that can be read is answered with the notice that it cannot.\<close>

theorem pdf_never_extracted:
  assumes "fe_text E path = Some content" and "lower (path_suffix path) = ''.pdf''" and "fe_bytes E path = Inr raw"
  shows "read_pdf_stub E path = Inr (''[PDF file '' @ fe_name E path @ '': install a PDF parser for full extraction; binary length=''
      @ nat_str (length raw) @ '']'')
    \<and> succeeded (read_document E max_chars path)"
proof -
  have "\<not> contains p ''endstream''" if "p \<in> set (split_on ''stream'' raw)" for p
  proof
    assume "contains p ''endstream''"
    moreover have "contains ''endstream'' ''stream''" by (simp add: startswith_def)
    ultimately show False using split_on_free[of "''stream''" p raw] that contains_trans by blast
  qed
  then have e: "filter (\<lambda>p. contains p ''endstream'') (split_on ''stream'' raw) = []" by (simp add: filter_empty_conv)
  have r: "read_pdf_stub E path = Inr (''[PDF file '' @ fe_name E path @ '': install a PDF parser for full extraction; binary length=''
      @ nat_str (length raw) @ '']'')"
    by (simp add: read_pdf_stub_def assms(3) e Let_def)
  then have "succeeded (read_document E max_chars path)"
    using assms(1,2) by (simp add: read_document_def succeeded_def get_or_def Let_def)
  with r show ?thesis by simp
qed

text \<open>A document that is answered has at most the allowed characters and the mark that it was cut.\<close>

theorem read_document_bounded:
  assumes "0 \<le> max_chars" and "dget (read_document E max_chars path) ''content'' = Some v"
  shows "\<exists>t. v = PStr t \<and> int (length t) \<le> max_chars + 15 \<and> (dget (read_document E max_chars path) ''truncated'' = Some (PBool False)
    \<longrightarrow> int (length t) \<le> max_chars)"
  using assms by (auto simp: read_document_def failure_def Let_def py_take_def newline_def split: option.splits sum.splits if_splits)

text \<open>With an E2B key in production no code runs on the host: what the sub-process would do makes no difference.\<close>

theorem prod_sandbox_remote:
  assumes "sb_e2b_key E \<noteq> []" and "sb_stage E = ''prod''"
  shows "python_sandbox E code x = (let (x1, r) = e2b_execute E code x in (x1, Inr r))"
    and "python_sandbox (E\<lparr>sb_local := f\<rparr>) code x = python_sandbox E code x"
  using assms by (simp_all add: python_sandbox_def Let_def e2b_execute_def split: prod.split)

text \<open>Without a key code runs on the host in every stage, in production too.\<close>

theorem keyless_sandbox_local:
  assumes "sb_e2b_key E = []" and "strip code \<noteq> []"
  shows "python_sandbox E code x = run_locally E code x"
  using assms by (simp add: python_sandbox_def)

definition accepted_result :: "'x web_env \<Rightarrow> string \<Rightarrow> payload \<Rightarrow> bool" where
  "accepted_result E query r = (succeeded r \<and> judge_search_relevance E query (wb_dumps E (PDict r)))"

fun run_engines :: "'x web_env \<Rightarrow> string \<Rightarrow> int \<Rightarrow> string list \<Rightarrow> 'x \<Rightarrow> 'x \<times> (exc + payload list)" where
  "run_engines E enhanced limit [] x = (x, Inr [])"
| "run_engines E enhanced limit (e # es) x = (case run_engine E (engine_named e) enhanced limit x of
     (x1, Inl exc) \<Rightarrow> (x1, Inl exc)
   | (x1, Inr r) \<Rightarrow> (case run_engines E enhanced limit es x1 of (x2, Inl exc) \<Rightarrow> (x2, Inl exc) | (x2, Inr rs) \<Rightarrow> (x2, Inr (r # rs))))"

lemma try_engines_spec:
  assumes "try_engines E meta query enhanced limit es tried x = (x', Inr out)"
  shows "\<exists>i xi rs. i \<le> length es \<and> run_engines E enhanced limit (take i es) x = (xi, Inr rs) \<and> list_all (\<lambda>r. \<not> accepted_result E query r) rs
    \<and> (if i = length es then x' = xi \<and> out = dput ''judge_passed'' (PBool False) (dput ''query_meta'' (PDict meta) (best_tried (tried @ rs)))
       else \<exists>r. run_engine E (engine_named (es ! i)) enhanced limit xi = (x', Inr r) \<and> accepted_result E query r
         \<and> out = dput ''engine_used'' (PStr (es ! i)) (dput ''query_meta'' (PDict meta) r))"
  using assms
proof (induction es arbitrary: tried x)
  case Nil
  then show ?case by (intro exI[of _ 0] exI[of _ x] exI[of _ "[]"]) simp
next
  case (Cons e es)
  obtain x1 r where e: "run_engine E (engine_named e) enhanced limit x = (x1, Inr r)"
    using Cons.prems by (cases "run_engine E (engine_named e) enhanced limit x"; cases "snd (run_engine E (engine_named e) enhanced limit x)") auto
  show ?case
  proof (cases "accepted_result E query r")
    case True
    with Cons.prems e show ?thesis
      by (intro exI[of _ 0] exI[of _ x] exI[of _ "[]"]) (auto simp: accepted_result_def)
  next
    case False
    then have "try_engines E meta query enhanced limit es (tried @ [r]) x1 = (x', Inr out)"
      using Cons.prems e by (auto simp: accepted_result_def)
    from Cons.IH[OF this] obtain i xi rs where i: "i \<le> length es" "run_engines E enhanced limit (take i es) x1 = (xi, Inr rs)"
      "list_all (\<lambda>r. \<not> accepted_result E query r) rs"
      "if i = length es then x' = xi \<and> out = dput ''judge_passed'' (PBool False) (dput ''query_meta'' (PDict meta) (best_tried (tried @ [r] @ rs)))
       else \<exists>r. run_engine E (engine_named (es ! i)) enhanced limit xi = (x', Inr r) \<and> accepted_result E query r
         \<and> out = dput ''engine_used'' (PStr (es ! i)) (dput ''query_meta'' (PDict meta) r)" by auto
    with e False show ?thesis
      by (intro exI[of _ "Suc i"] exI[of _ xi] exI[of _ "r # rs"]) (auto split: if_splits)
  qed
qed

text \<open>C31: A web search asks its engines in their order and stops at the first whose results are a success and judged
  relevant, and answers with them; when none is accepted, all were asked, and the answer is the first success, else the
  last failure, marked as not relevant.\<close>

theorem web_search_first_relevant:
  assumes "web_search E query limit x = (x', Inr out)"
  shows "\<exists>enhanced i xi rs. dget (enhance_query query) ''enhanced_query'' = Some (PStr enhanced) \<and> i \<le> length (search_engines E)
    \<and> run_engines E enhanced limit (take i (search_engines E)) x = (xi, Inr rs) \<and> list_all (\<lambda>r. \<not> accepted_result E query r) rs
    \<and> (if i = length (search_engines E)
       then x' = xi \<and> out = dput ''judge_passed'' (PBool False) (dput ''query_meta'' (PDict (enhance_query query)) (best_tried rs))
       else \<exists>r. run_engine E (engine_named (search_engines E ! i)) enhanced limit xi = (x', Inr r) \<and> accepted_result E query r
         \<and> out = dput ''engine_used'' (PStr (search_engines E ! i)) (dput ''query_meta'' (PDict (enhance_query query)) r))"
proof -
  obtain enhanced where q: "dget (enhance_query query) ''enhanced_query'' = Some (PStr enhanced)" by (auto simp: enhance_query_def Let_def)
  with assms have "try_engines E (enhance_query query) query enhanced limit (search_engines E) [] x = (x', Inr out)"
    by (simp add: web_search_def get_or_def)
  from try_engines_spec[OF this, unfolded append_Nil] q show ?thesis by blast
qed

text \<open>A Veneno tool that is not on the list, and every one when they are disabled, is answered without a request.\<close>

theorem veneno_refuses_unlisted:
  assumes "\<not> enabled \<or> tool \<notin> set VENENO_MCP_TOOL_NAMES"
  shows "\<exists>r. call_veneno_mcp_tool E enabled post tool args x = (x, Inr r) \<and> \<not> succeeded r"
  using assms by (auto simp: call_veneno_mcp_tool_def veneno_failure_def succeeded_def get_or_def)

subsection \<open>Examples\<close>

definition demo_files :: document_env where
  "demo_files = \<lparr>fe_text = (\<lambda>p. Some (Inr ''some text that is long'')), fe_bytes = (\<lambda>p. Inr ''%PDF stream A endstream''),
     fe_resolve = (\<lambda>p. p), fe_name = (\<lambda>p. p), fe_base64 = (\<lambda>s. s)\<rparr>"

definition demo_sandbox :: "nat sandbox_env" where
  "demo_sandbox = \<lparr>sb_e2b_key = ''k'', sb_stage = ''prod'', sb_e2b = (\<lambda>c x. (x, E2b_raises ''down'')),
     sb_local = (\<lambda>c x. (Suc x, Local_ran 0 c []))\<rparr>"

definition demo_web :: "nat web_env" where
  "demo_web = \<lparr>wb_serper_key = [], wb_provider = [], wb_perplexity_key = ''p'', wb_jina_key = [],
     wb_fetch = (\<lambda>e q l x. (Suc x, case e of Duckduckgo \<Rightarrow> Inr (PDict [(''AbstractText'', PStr ''alpha beta'')]) | _ \<Rightarrow> Inl ''down'')),
     wb_archive = (\<lambda>ps x. (x, Inl ''down'')), wb_judge = None, wb_dumps = (\<lambda>v. ''alpha beta and a good deal of text'')\<rparr>"

theorem pdf_never_extracted_witness:
  "(\<exists>m. read_pdf_stub demo_files ''a.pdf'' = Inr m \<and> take 9 m = ''[PDF file'') \<and> succeeded (read_document demo_files 10 ''a.pdf'')"
proof -
  have "fe_text demo_files ''a.pdf'' = Some (Inr ''some text that is long'')" "lower (path_suffix ''a.pdf'') = ''.pdf''"
    "fe_bytes demo_files ''a.pdf'' = Inr ''%PDF stream A endstream''" by (simp add: demo_files_def, code_simp, simp add: demo_files_def)
  from pdf_never_extracted [OF this, of 10] show ?thesis by simp
qed

theorem read_document_bounded_witness:
  "\<exists>t. dget (read_document demo_files 4 ''a.txt'') ''content'' = Some (PStr t) \<and> int (length t) \<le> 19"
proof -
  have "dget (read_document demo_files 4 ''a.txt'') ''content'' \<noteq> None" by code_simp
  then obtain v where v: "dget (read_document demo_files 4 ''a.txt'') ''content'' = Some v" by auto
  from read_document_bounded [OF _ v] v show ?thesis by auto
qed

theorem prod_sandbox_remote_witness:
  "python_sandbox (demo_sandbox\<lparr>sb_local := \<lambda>c x. (9, Local_timeout)\<rparr>) ''1'' 0 = (0, Inr (failure ''down'' @ [(''provider'', PStr ''e2b'')]))"
proof -
  have "sb_e2b_key demo_sandbox \<noteq> []" "sb_stage demo_sandbox = ''prod''" by (simp_all add: demo_sandbox_def)
  note p = prod_sandbox_remote [OF this]
  show ?thesis unfolding p(2) p(1) by (simp add: e2b_execute_def demo_sandbox_def)
qed

theorem keyless_sandbox_local_witness:
  "fst (python_sandbox (demo_sandbox\<lparr>sb_e2b_key := []\<rparr>) ''1'' 0) = 1"
proof -
  have "sb_e2b_key (demo_sandbox\<lparr>sb_e2b_key := []\<rparr>) = []" "strip ''1'' \<noteq> []" by (simp, code_simp)
  note l = keyless_sandbox_local [OF this]
  show ?thesis unfolding l by (simp add: run_locally_def demo_sandbox_def)
qed

theorem web_search_first_relevant_witness:
  "\<exists>x' out i. web_search demo_web ''alpha beta'' 3 0 = (x', Inr out) \<and> i \<le> length (search_engines demo_web)"
proof -
  let ?r = "web_search demo_web ''alpha beta'' 3 0"
  have "\<not> isl (snd ?r)" by code_simp
  then obtain x' out where r: "?r = (x', Inr out)" by (cases ?r; cases "snd ?r") auto
  from web_search_first_relevant [OF this] r show ?thesis by blast
qed

definition veil_off :: "nat gateway_env" where
  "veil_off = \<lparr>ge_limit = 1, ge_siem_adapter = [], ge_siem_base_url = [], ge_siem_get = (\<lambda>u p x. Inr PNone), ge_veil_enabled = False,
     ge_veil_allowed = [], ge_veil_post = (\<lambda>p x. Http_error []), ge_agents = (\<lambda>n. Inr None), ge_search = (\<lambda>x q n. Inr []),
     ge_rag_max = 1, ge_registry = (\<lambda>n. None), ge_loads = (\<lambda>s. None), ge_dumps = (\<lambda>v. []), ge_str = (\<lambda>v. []), ge_detector = demo_detector\<rparr>"

theorem veneno_refuses_unlisted_witness:
  "\<exists>r. call_veneno_mcp_tool veil_off True (\<lambda>p x. (Suc x, Http_error [])) ''rm'' [] 0 = (0, Inr r) \<and> \<not> succeeded r"
  by (rule veneno_refuses_unlisted) (simp add: VENENO_MCP_TOOL_NAMES_def)

end
