(* ===== verification/Skills.thy ===== *)
theory Skills
  imports Sanitizer Catalog Schemas
begin

text \<open>Skills and shared product assets: the registry of shipped skills (cys_core/registry/skill_registry.py,
  application/skills/catalog.py), the gateway that loads a skill's text for an agent (interfaces/gateways/skill/load.py,
  registry/skills_tool.py), and the rules every agent is given (registry/product_context.py). The files under the
  agents' root, the reading of YAML and the digest are parameters, and so is the em dash of some texts, which is no
  character below 256.\<close>

subsection \<open>Reading a skill\<close>

text \<open>The expression matches dashes, space to the end of a line, the front matter, a line of dashes and the body. The space
  is taken greedily and given back as long as the rest does not match; the front matter is the shortest.\<close>

definition line_ends :: "string \<Rightarrow> nat list" where
  "line_ends s = rev (filter (\<lambda>i. s ! i = CHR 0x0A) [0..<length (takeWhile is_space s)])"

definition fence_end :: "string \<Rightarrow> string option" where
  "fence_end s = (if startswith s (newline @ ''---'')
     then (case line_ends (drop 4 s) of [] \<Rightarrow> None | i # _ \<Rightarrow> Some (drop (Suc i) (drop 4 s))) else None)"

fun front_matter :: "string \<Rightarrow> (string \<times> string) option" where
  "front_matter s = (case fence_end s of
     Some body \<Rightarrow> Some ([], body)
   | None \<Rightarrow> (case s of [] \<Rightarrow> None | c # cs \<Rightarrow> map_option (\<lambda>(front, body). (c # front, body)) (front_matter cs)))"

declare front_matter.simps [simp del]

definition match_skill :: "string \<Rightarrow> (string \<times> string) option" where
  "match_skill text = (if startswith text ''---''
     then (case List.map_filter (\<lambda>i. front_matter (drop (Suc i) (drop 3 text))) (line_ends (drop 3 text)) of
       [] \<Rightarrow> None | m # _ \<Rightarrow> Some m)
     else None)"

definition parse_skill_md :: "(string \<Rightarrow> exc + pyval) \<Rightarrow> string \<Rightarrow> exc + pyval \<times> string" where
  "parse_skill_md yaml text = (case match_skill text of
     Some (front, body) \<Rightarrow> rbind (yaml front) (\<lambda>v. Inr (py_or v (PDict []), strip body))
   | None \<Rightarrow> Inr (PDict [], strip text))"

subsection \<open>The registry of shipped skills\<close>

record skill_manifest =
  sm_skill_id :: string
  sm_name :: string
  sm_description :: string
  sm_version :: string
  sm_content_hash :: string
  sm_trust_tier :: string
  sm_path :: string
  sm_author :: string

text \<open>as_root and the text of a file under it; a file may be unreadable.\<close>

record assets_env =
  as_yaml :: "string \<Rightarrow> exc + pyval"
  as_file :: "string \<Rightarrow> (exc + string) option"
  as_sha256 :: "string \<Rightarrow> string"
  as_str :: "pyval \<Rightarrow> string"
  as_dash :: string

type_synonym skill_registry = "skill_manifest dict"

definition skill_file :: "string \<Rightarrow> string" where
  "skill_file skill_id = ''skills/'' @ skill_id @ ''/SKILL.md''"

text \<open>str of the first truthy of a key's value and a default.\<close>

definition front_text :: "assets_env \<Rightarrow> payload \<Rightarrow> string \<Rightarrow> string \<Rightarrow> string" where
  "front_text E front key dflt = py_text (as_str E) (py_or (get_or front key PNone) (PStr dflt))"

definition manifest_of :: "assets_env \<Rightarrow> string \<Rightarrow> payload \<Rightarrow> string \<Rightarrow> skill_manifest" where
  "manifest_of E skill_id front body = \<lparr>sm_skill_id = skill_id, sm_name = front_text E front ''name'' skill_id,
     sm_description = front_text E front ''description'' [], sm_version = front_text E front ''version'' ''1.0.0'',
     sm_content_hash = as_sha256 E body, sm_trust_tier = ''builtin'', sm_path = skill_file skill_id,
     sm_author = front_text E front ''author'' ''cys-agi''\<rparr>"

definition load_manifest :: "assets_env \<Rightarrow> string \<Rightarrow> exc + skill_manifest option" where
  "load_manifest E skill_id = (case as_file E (skill_file skill_id) of
     None \<Rightarrow> Inr None
   | Some f \<Rightarrow> rbind f (\<lambda>text. rbind (parse_skill_md (as_yaml E) text) (\<lambda>(front, body). case front of
       PDict d \<Rightarrow> Inr (Some (manifest_of E skill_id d body)) | _ \<Rightarrow> Inl (PyExc ''AttributeError''))))"

fun load_manifests :: "assets_env \<Rightarrow> string list \<Rightarrow> skill_registry \<Rightarrow> exc + skill_registry" where
  "load_manifests E [] reg = Inr reg"
| "load_manifests E (i # ids) reg = rbind (load_manifest E i) (\<lambda>m.
     load_manifests E ids (case m of Some m \<Rightarrow> dput (sm_name m) m reg | None \<Rightarrow> reg))"

text \<open>The ids the manifest of the product lists, unless they are given.\<close>

definition manifest_ids :: "assets_env \<Rightarrow> exc + string list" where
  "manifest_ids E = (case as_file E ''manifest.yaml'' of
     None \<Rightarrow> Inr []
   | Some f \<Rightarrow> rbind f (\<lambda>text. rbind (as_yaml E text) (\<lambda>v. case py_or v (PDict []) of
       PDict d \<Rightarrow> rbind (py_iter (get_or d ''skills'' (PList [])))
         (traverse (\<lambda>x. case x of PStr s \<Rightarrow> Inr s | _ \<Rightarrow> Inl (PyExc ''TypeError'')))
     | _ \<Rightarrow> Inl (PyExc ''AttributeError''))))"

definition SkillRegistry_load :: "assets_env \<Rightarrow> string list option \<Rightarrow> exc + skill_registry" where
  "SkillRegistry_load E ids = rbind (case ids of Some given \<Rightarrow> Inr given | None \<Rightarrow> manifest_ids E) (\<lambda>listed. load_manifests E listed [])"

definition skill_registry_get :: "skill_registry \<Rightarrow> string \<Rightarrow> exc + skill_manifest" where
  "skill_registry_get reg name = (case dget reg name of Some m \<Rightarrow> Inr m | None \<Rightarrow> Inl (PyExc ''KeyError''))"

definition metadata_block :: "assets_env \<Rightarrow> skill_registry \<Rightarrow> string list option \<Rightarrow> string" where
  "metadata_block E reg names = (
     let wanted = (case names of Some (n # ns) \<Rightarrow> n # ns | _ \<Rightarrow> map fst reg);
         selected = List.map_filter (dget reg) wanted in
     if selected = [] then []
     else py_join newline ((''AVAILABLE_SKILLS (metadata only '' @ as_dash E @ '' use load_skill to fetch body):'')
       # map (\<lambda>m. ''- '' @ sm_name m @ '': '' @ sm_description m) selected))"

definition skill_metadata_list :: "assets_env \<Rightarrow> string \<Rightarrow> exc + (string \<times> string \<times> string) list" where
  "skill_metadata_list E profile_id = rbind (SkillRegistry_load E None) (\<lambda>reg.
     Inr (map (\<lambda>m. (sm_skill_id m, sm_name m, sm_description m))
       (filter (\<lambda>m. \<not> (profile_id = ''gaia-bench'' \<and> startswith (sm_skill_id m) ''dfir'')) (map snd reg))))"

subsection \<open>The skill gateway\<close>

datatype skill_failure = SkillLoadError string | Skill_raised exc

record skill_gateway =
  sg_assets :: assets_env
  sg_dynamic :: bool
  sg_detector :: detector

definition load_from_catalog ::
  "skill_gateway \<Rightarrow> string \<Rightarrow> string \<Rightarrow> skill_entry payload_catalog \<Rightarrow> skill_failure + string option" where
  "load_from_catalog G name profile_id c = (
     if \<not> sg_dynamic G then Inr None
     else (case get_item c name profile_id of
       None \<Rightarrow> Inr None
     | Some e \<Rightarrow> if \<not> sk_enabled e then Inr None
       else if sk_staging_status e = DRAFT
       then Inl (SkillLoadError (''Skill '' @ [CHR 0x27] @ name @ [CHR 0x27] @ '' is draft '' @ as_dash (sg_assets G) @ '' approve before load''))
       else Inr (Some (sk_body e))))"

definition skill_text_of_file :: "skill_gateway \<Rightarrow> string \<Rightarrow> skill_failure + string" where
  "skill_text_of_file G name = (case as_file (sg_assets G) (skill_file name) of
     None \<Rightarrow> Inl (SkillLoadError (''Unknown skill: '' @ name))
   | Some (Inl e) \<Rightarrow> Inl (Skill_raised e)
   | Some (Inr text) \<Rightarrow> Inr text)"

definition skill_header :: "skill_gateway \<Rightarrow> string \<Rightarrow> string \<Rightarrow> string \<Rightarrow> string \<Rightarrow> string" where
  "skill_header G name persona job body = ''<!-- skill:'' @ name @ '' sha:'' @ take 12 (as_sha256 (sg_assets G) body)
     @ '' persona:'' @ persona @ '' job:'' @ job @ '' -->'' @ newline"

definition load_skill ::
  "skill_gateway \<Rightarrow> string \<Rightarrow> string \<Rightarrow> string list \<Rightarrow> string \<Rightarrow> string \<Rightarrow> skill_entry payload_catalog
    \<Rightarrow> skill_entry payload_catalog \<times> (skill_failure + string)" where
  "load_skill G name persona allowed job profile_id c = (
     if name \<notin> set allowed \<and> allowed \<noteq> []
     then (c, Inl (SkillLoadError (''Skill '' @ [CHR 0x27] @ name @ [CHR 0x27] @ '' not allowlisted for persona ''
       @ [CHR 0x27] @ persona @ [CHR 0x27])))
     else (case rbind (load_from_catalog G name profile_id c)
            (\<lambda>b. case b of Some body \<Rightarrow> Inr body | None \<Rightarrow> skill_text_of_file G name) of
       Inl e \<Rightarrow> (c, Inl e)
     | Inr body \<Rightarrow> (case sanitize (sg_detector G) (Src_other ''skill'') body of
         Inl m \<Rightarrow> (c, Inl (Skill_raised (SecurityViolation m)))
       | Inr safe \<Rightarrow> (increment_usage name profile_id False c, Inr (skill_header G name persona job body @ safe)))))"

text \<open>The tool an agent gets: its loads are in the default profile, and only a SkillLoadError is answered.\<close>

definition load_skill_tool ::
  "skill_gateway \<Rightarrow> string list \<Rightarrow> string \<Rightarrow> string \<Rightarrow> string \<Rightarrow> skill_entry payload_catalog
    \<Rightarrow> skill_entry payload_catalog \<times> (exc + string)" where
  "load_skill_tool G allowed persona job name c = (case load_skill G name persona allowed job DEFAULT_PROFILE_ID c of
     (c', Inr text) \<Rightarrow> (c', Inr text)
   | (c', Inl (SkillLoadError m)) \<Rightarrow> (c', Inr (''SKILL_LOAD_ERROR: '' @ m))
   | (c', Inl (Skill_raised e)) \<Rightarrow> (c', Inl e))"

subsection \<open>The product context\<close>

record product_manifest =
  pm_name :: string
  pm_version :: string
  pm_description :: string
  pm_default_plan :: string

definition load_product_manifest :: "assets_env \<Rightarrow> exc + product_manifest" where
  "load_product_manifest E = (case as_file E ''manifest.yaml'' of
     None \<Rightarrow> Inr \<lparr>pm_name = ''cys-agi'', pm_version = ''0.1.0'', pm_description = [], pm_default_plan = ''full-assessment''\<rparr>
   | Some f \<Rightarrow> rbind f (\<lambda>text. rbind (as_yaml E text) (\<lambda>v. case py_or v (PDict []) of
       PDict d \<Rightarrow> rbind (field a_str (Some ''cys-agi'') ''name'' d) (\<lambda>n. rbind (field a_str (Some ''0.1.0'') ''version'' d) (\<lambda>ver.
         rbind (field a_str (Some []) ''description'' d) (\<lambda>de. rbind (field a_str (Some ''full-assessment'') ''default_plan'' d) (\<lambda>pl.
           Inr \<lparr>pm_name = n, pm_version = ver, pm_description = de, pm_default_plan = pl\<rparr>))))
     | _ \<Rightarrow> Inl (PyExc ''AttributeError''))))"

text \<open>rules are the Markdown files of the directory of rules with their names.\<close>

definition load_rules :: "(string \<times> string) list \<Rightarrow> string" where
  "load_rules rules = (
     let sections = map (strip \<circ> snd) (filter (\<lambda>r. fst r \<noteq> ''README.md'') (sort_key fst rules)) in
     if sections = [] then [] else ''## Global rules'' @ newline @ newline @ py_join (newline @ newline) sections)"

definition build_system_context ::
  "(string \<Rightarrow> string) \<Rightarrow> bool \<Rightarrow> profiles_read option \<Rightarrow> string \<Rightarrow> string \<Rightarrow> string \<Rightarrow> trusted_context" where
  "build_system_context sha256 dynamic catalog rules_block persona profile_id = build_trusted_system_context sha256 persona (
     if dynamic then (case catalog of
       Some (Inr profiles) \<Rightarrow> (case find (\<lambda>p. pk_id p = profile_id \<and> pk_global_rules p \<noteq> []) profiles of
         Some p \<Rightarrow> pk_global_rules p | None \<Rightarrow> rules_block)
     | _ \<Rightarrow> rules_block) else rules_block)"

definition augment_prompt ::
  "(string \<Rightarrow> string) \<Rightarrow> bool \<Rightarrow> profiles_read option \<Rightarrow> string \<Rightarrow> string \<Rightarrow> string" where
  "augment_prompt sha256 dynamic catalog rules_block base_prompt =
     trusted_context_text (build_system_context sha256 dynamic catalog rules_block base_prompt DEFAULT_PROFILE_ID)"

subsection \<open>Properties\<close>

lemma newline_eq: "newline = [CHR 0x0A]" and space_nl: "is_space (CHR 0x0A)"
  by (simp_all add: newline_def nl_def is_space_def)

lemma line_ends_one: "body = [] \<or> \<not> is_space (hd body) \<Longrightarrow> line_ends (newline @ body) = [0]"
  by (cases body) (auto simp: line_ends_def newline_eq space_nl)

lemma fence_end_here: "body = [] \<or> \<not> is_space (hd body) \<Longrightarrow> fence_end (newline @ ''---'' @ newline @ body) = Some body"
  using line_ends_one[of body] by (simp add: fence_end_def startswith_def newline_eq)

lemma ends_in_dashes: "t @ CHR 0x0A # s = ''---'' \<Longrightarrow> False"
  by (drule arg_cong [where f = set]) auto

lemma no_fence_yet:
  assumes "t \<noteq> []" and "\<not> contains t (newline @ ''---'')"
  shows "fence_end (t @ newline @ s) = None"
proof -
  obtain c t' where t: "t = c # t'" using assms(1) by (cases t) auto
  have "\<not> startswith t (newline @ ''---'')" using assms by (cases t) (auto simp: contains.simps)
  then have "\<not> startswith (t @ newline @ s) (newline @ ''---'')"
    unfolding t by (auto simp: startswith_def newline_eq take_Cons split: nat.splits list.splits dest: ends_in_dashes)
  then show ?thesis by (simp add: fence_end_def)
qed

lemma front_matter_found:
  assumes "\<not> contains front (newline @ ''---'')" and "body = [] \<or> \<not> is_space (hd body)"
  shows "front_matter (front @ newline @ ''---'' @ newline @ body) = Some (front, body)"
  using assms(1)
proof (induction front)
  case Nil
  show ?case by (subst front_matter.simps) (use fence_end_here[OF assms(2)] in simp)
next
  case (Cons c front)
  have "fence_end ((c # front) @ newline @ ''---'' @ newline @ body) = None" by (rule no_fence_yet) (use Cons.prems in auto)
  moreover have "\<not> contains front (newline @ ''---'')" using Cons.prems by (auto simp: contains.simps)
  ultimately show ?case using Cons.IH by (subst front_matter.simps) simp
qed

text \<open>A skill file is read back: front matter between two lines of dashes, without such a line in it, and a trimmed
  body come out of the file as they went in.\<close>

theorem skill_file_roundtrip:
  assumes "front \<noteq> []" and "\<not> is_space (hd front)" and "\<not> contains front (newline @ ''---'')" and "trimmed body"
    and "yaml front = Inr (PDict d)" and "d \<noteq> []"
  shows "parse_skill_md yaml (''---'' @ newline @ front @ newline @ ''---'' @ newline @ body) = Inr (PDict d, body)"
proof -
  let ?rest = "front @ newline @ ''---'' @ newline @ body"
  have b: "body = [] \<or> \<not> is_space (hd body)" "strip body = body" using assms(4) by (simp_all add: trimmed_def strip_trimmed)
  have "line_ends (newline @ ?rest) = [0]" by (rule line_ends_one) (use assms(1,2) in auto)
  then have "match_skill (''---'' @ newline @ ?rest) = Some (front, body)"
    using front_matter_found[OF assms(3) b(1)] by (simp add: match_skill_def startswith_def newline_eq List.map_filter_def)
  with assms(5,6) b(2) show ?thesis by (simp add: parse_skill_md_def py_or_def)
qed

definition manifest_ok :: "assets_env \<Rightarrow> string \<times> skill_manifest \<Rightarrow> bool" where
  "manifest_ok E p = (fst p = sm_name (snd p) \<and> sm_path (snd p) = skill_file (sm_skill_id (snd p))
     \<and> (case as_file E (sm_path (snd p)) of Some (Inr text) \<Rightarrow> (case parse_skill_md (as_yaml E) text of
         Inr (front, body) \<Rightarrow> sm_content_hash (snd p) = as_sha256 E body | _ \<Rightarrow> False) | _ \<Rightarrow> False))"

lemma load_manifest_ok: "load_manifest E i = Inr (Some m) \<Longrightarrow> manifest_ok E (sm_name m, m) \<and> sm_skill_id m = i"
proof -
  assume l: "load_manifest E i = Inr (Some m)"
  then obtain src front body where f: "as_file E (skill_file i) = Some (Inr src)"
      and p: "parse_skill_md (as_yaml E) src = Inr (front, body)"
      and m: "(case front of PDict d \<Rightarrow> Inr (Some (manifest_of E i d body)) | _ \<Rightarrow> Inl (PyExc ''AttributeError'')) = Inr (Some m)"
    by (auto simp: load_manifest_def rbind_Inr_iff split: option.splits)
  from m obtain d where d: "front = PDict d" "m = manifest_of E i d body" by (auto split: pyval.splits)
  show ?thesis using f p unfolding d by (simp add: manifest_ok_def manifest_of_def)
qed

lemma load_manifests_ok:
  "load_manifests E ids reg = Inr reg' \<Longrightarrow> \<forall>p \<in> set reg. manifest_ok E p \<and> (sm_skill_id (snd p) \<in> A) \<Longrightarrow> set ids \<subseteq> A
    \<Longrightarrow> \<forall>p \<in> set reg'. manifest_ok E p \<and> sm_skill_id (snd p) \<in> A"
proof (induction ids arbitrary: reg)
  case (Cons i ids)
  from Cons.prems(1) obtain o' where o: "load_manifest E i = Inr o'"
    and r: "load_manifests E ids (case o' of Some m \<Rightarrow> dput (sm_name m) m reg | None \<Rightarrow> reg) = Inr reg'"
    by (auto simp: rbind_Inr_iff)
  have "\<forall>p \<in> set (case o' of Some m \<Rightarrow> dput (sm_name m) m reg | None \<Rightarrow> reg). manifest_ok E p \<and> sm_skill_id (snd p) \<in> A"
  proof (cases o')
    case (Some m)
    with load_manifest_ok[of E i m] o Cons.prems(3) have "manifest_ok E (sm_name m, m) \<and> sm_skill_id m \<in> A" by auto
    with Cons.prems(2) set_update_subset[of "sm_name m" m reg] Some show ?thesis by fastforce
  qed (use Cons.prems(2) in simp)
  from Cons.IH[OF r this] Cons.prems(3) show ?case by simp
qed simp

text \<open>A registered skill is under its own name, is one of the listed skills, and carries the digest of the body its
  file has.\<close>

theorem registered_skills_ok:
  assumes "SkillRegistry_load E (Some ids) = Inr reg" and "dget reg name = Some m"
  shows "sm_name m = name \<and> sm_skill_id m \<in> set ids \<and> manifest_ok E (name, m)"
proof -
  have "load_manifests E ids [] = Inr reg" using assms(1) by (simp add: SkillRegistry_load_def)
  from load_manifests_ok[OF this, of "set ids"] map_of_SomeD[OF assms(2)]
  show ?thesis by (auto simp: manifest_ok_def)
qed

text \<open>C29: A skill that is served was on the agent's list, when it has one. After its header comes the screening of its
  text: no hard injection, filtered and in untrusted-data marks, or as it is where it carries the marker already. The
  text is that of the catalog's entry, which is enabled and no draft, or that of the shipped file. Of the in-memory
  catalog only the count of the skill's uses changes.\<close>

theorem served_skill_screened:
  assumes "load_skill G name persona allowed job profile_id c = (c', Inr text)"
  shows "(allowed = [] \<or> name \<in> set allowed)
    \<and> (\<exists>body safe. text = skill_header G name persona job body @ safe \<and> screening (sg_detector G) (Src_other ''skill'') body safe
        \<and> (case load_from_catalog G name profile_id c of
             Inr (Some b) \<Rightarrow> b = body \<and> (\<exists>e. get_item c name profile_id = Some e \<and> sk_enabled e \<and> sk_staging_status e \<noteq> DRAFT \<and> sk_body e = body)
           | Inr None \<Rightarrow> skill_text_of_file G name = Inr body | Inl _ \<Rightarrow> False))
    \<and> c' = increment_usage name profile_id False c"
proof -
  from assms obtain b body safe where a: "allowed = [] \<or> name \<in> set allowed" and b: "load_from_catalog G name profile_id c = Inr b"
    and body: "(case b of Some x \<Rightarrow> Inr x | None \<Rightarrow> skill_text_of_file G name) = Inr body"
    and safe: "sanitize (sg_detector G) (Src_other ''skill'') body = Inr safe"
    and out: "text = skill_header G name persona job body @ safe" "c' = increment_usage name profile_id False c"
    by (auto simp: load_skill_def rbind_Inr_iff split: if_splits sum.splits)
  have "case b of Some x \<Rightarrow> x = body \<and> (\<exists>e. get_item c name profile_id = Some e \<and> sk_enabled e \<and> sk_staging_status e \<noteq> DRAFT \<and> sk_body e = body)
      | None \<Rightarrow> skill_text_of_file G name = Inr body"
    using b body by (auto simp: load_from_catalog_def split: option.splits if_splits)
  with a b sanitize_screening[OF safe] out show ?thesis by (cases b) auto
qed

text \<open>Disabling a skill in the catalog does not stop its use: the gateway then serves the shipped text of that name,
  whatever the catalog says of it, drafts included.\<close>

theorem disabled_skill_served:
  assumes "get_item c name profile_id = Some e" and "\<not> sk_enabled e"
  shows "snd (load_skill G name persona allowed job profile_id c)
    = snd (load_skill (G\<lparr>sg_dynamic := False\<rparr>) name persona allowed job profile_id c)"
proof -
  have "load_from_catalog G name profile_id c = Inr None" using assms by (simp add: load_from_catalog_def)
  moreover have "load_from_catalog (G\<lparr>sg_dynamic := False\<rparr>) name profile_id c = Inr None" by (simp add: load_from_catalog_def)
  moreover have "skill_text_of_file (G\<lparr>sg_dynamic := False\<rparr>) = skill_text_of_file G"
    "skill_header (G\<lparr>sg_dynamic := False\<rparr>) = skill_header G" by (rule ext, simp add: skill_text_of_file_def)
      ((rule ext)+, simp add: skill_header_def)
  ultimately show ?thesis by (simp add: load_skill_def split: sum.split)
qed

subsection \<open>Examples\<close>

definition triage_file :: string where
  "triage_file = ''---'' @ newline @ ''name: triage'' @ newline @ ''---'' @ newline @ ''Look first.''"

definition demo_assets :: assets_env where
  "demo_assets = \<lparr>as_yaml = (\<lambda>s. Inr (PDict [(''name'', PStr ''triage'')])),
     as_file = (\<lambda>p. if p = ''skills/triage/SKILL.md'' then Some (Inr triage_file) else None),
     as_sha256 = (\<lambda>s. ''0123456789abcdef''), as_str = (\<lambda>v. []), as_dash = ''-''\<rparr>"

definition demo_gateway_of_skills :: skill_gateway where
  "demo_gateway_of_skills = \<lparr>sg_assets = demo_assets, sg_dynamic = True, sg_detector = demo_detector\<rparr>"

definition triage_skill :: skill_entry where
  "triage_skill = \<lparr>sk_id = ''triage'', sk_profile_id = ''soc'', sk_name = ''triage'', sk_description = [], sk_body = ''Edited.'',
     sk_content_hash = [], sk_trust_tier = ''community'', sk_staging_status = DRAFT, sk_enabled = False, sk_version = 1,
     sk_quality = \<lparr>usage_count = 0, load_errors = 0\<rparr>, sk_source = SEED, sk_updated_at = 0\<rparr>"

theorem skill_file_roundtrip_witness:
  "parse_skill_md (as_yaml demo_assets) triage_file = Inr (PDict [(''name'', PStr ''triage'')], ''Look first.'')"
proof -
  have "\<not> is_space (hd ''name: triage'')" "\<not> contains ''name: triage'' (newline @ ''---'')" "trimmed ''Look first.''" by code_simp+
  from skill_file_roundtrip [OF _ this, of "as_yaml demo_assets"] show ?thesis by (simp add: demo_assets_def triage_file_def)
qed

theorem registered_skills_ok_witness:
  "\<exists>reg m. SkillRegistry_load demo_assets (Some [''triage'', ''gone'']) = Inr reg \<and> dget reg ''triage'' = Some m
    \<and> sm_skill_id m \<in> {''triage'', ''gone''} \<and> manifest_ok demo_assets (''triage'', m)"
proof -
  let ?r = "SkillRegistry_load demo_assets (Some [''triage'', ''gone''])"
  have "\<not> isl ?r" "dget (projr ?r) ''triage'' \<noteq> None" by code_simp+
  then obtain reg m where r: "?r = Inr reg" "dget reg ''triage'' = Some m" by (cases ?r) auto
  from registered_skills_ok [OF this] r show ?thesis by auto
qed

text \<open>A vetted skill of the catalog, served from there in place of the shipped file.\<close>

definition vetted_skill :: skill_entry where
  "vetted_skill = triage_skill\<lparr>sk_staging_status := VETTED, sk_enabled := True\<rparr>"

theorem served_skill_screened_witness:
  "\<exists>c' safe. load_skill demo_gateway_of_skills ''triage'' ''soc'' [''triage''] ''j'' ''soc'' [((''triage'', ''soc''), vetted_skill)]
      = (c', Inr (skill_header demo_gateway_of_skills ''triage'' ''soc'' ''j'' ''Edited.'' @ safe))
     \<and> screening demo_detector (Src_other ''skill'') ''Edited.'' safe \<and> map (usage_count \<circ> sk_quality \<circ> snd) c' = [1]"
proof -
  let ?c = "[((''triage'', ''soc''), vetted_skill)]"
  let ?r = "load_skill demo_gateway_of_skills ''triage'' ''soc'' [''triage''] ''j'' ''soc'' ?c"
  have "\<not> isl (snd ?r)" by code_simp
  then obtain c' out where r: "?r = (c', Inr out)" by (cases ?r; cases "snd ?r") auto
  have b: "load_from_catalog demo_gateway_of_skills ''triage'' ''soc'' ?c = Inr (Some ''Edited.'')"
    "map (usage_count \<circ> sk_quality \<circ> snd) (increment_usage ''triage'' ''soc'' False ?c) = [1]" by code_simp+
  have d: "sg_detector demo_gateway_of_skills = demo_detector" by (simp add: demo_gateway_of_skills_def)
  from served_skill_screened[OF r] show ?thesis unfolding b(1) d using r b(2) by auto
qed

theorem disabled_skill_served_witness:
  "\<not> isl (snd (load_skill demo_gateway_of_skills ''triage'' ''soc'' [''triage''] ''j'' ''soc'' [((''triage'', ''soc''), triage_skill)]))"
proof -
  have "get_item [((''triage'', ''soc''), triage_skill)] ''triage'' ''soc'' = Some triage_skill" "\<not> sk_enabled triage_skill"
    by (simp_all add: get_item_def triage_skill_def)
  note e = disabled_skill_served [OF this, of demo_gateway_of_skills "''soc''" "[''triage'']" "''j''"]
  show ?thesis unfolding e by code_simp
qed

end
