(* ===== verification/Builtin_Tools.thy ===== *)
theory Builtin_Tools
  imports Adapters Skills Run_Step Tool_Gate Catalog_Gate Registry
begin

text \<open>The tools agents call (cys_core/registry/tools.py, veil_tools.py), the searches behind some of them
  (discovery_tools.py), and the registry that resolves their names. A tool acts on the stores of runs and on an external
  state of any type. Its answer is the JSON text of a value; json, models, backends, the docstrings of the tools and
  the characters above 255 in some texts are parameters.\<close>

subsection \<open>What tools use\<close>

record 'x tools_world =
  tw_runs :: run_world
  tw_ext :: 'x

record 'x tools_env =
  te_gateway :: "'x gateway_env"
  te_backend :: bool
  te_veneno :: bool
  te_veneno_post :: "payload \<Rightarrow> 'x \<Rightarrow> 'x \<times> http_answer"
  te_sandbox :: "'x sandbox_env"
  te_files :: document_env
  te_vision :: "string \<Rightarrow> string \<Rightarrow> string \<Rightarrow> string + string"
  te_web :: "'x web_env"
  te_profiles :: profiles_read
  te_dynamic :: bool
  te_agents :: "mem_catalog option"
  te_shipped :: registry
  te_skill_entries :: "exc + skill_entry payload_catalog"
  te_skills :: "exc + skill_registry"
  te_tool_names :: "string list"
  te_run :: run_env
  te_browser :: bool
  te_samples :: int
  te_extract :: "string \<Rightarrow> 'x \<Rightarrow> 'x \<times> (exc + string)"

type_synonym 'x tool_fn = "payload \<Rightarrow> 'x tools_world \<Rightarrow> 'x tools_world \<times> (exc + pyval)"

text \<open>json.loads of a text that looks like an array.\<close>

definition loads_array :: "'x tools_env \<Rightarrow> string \<Rightarrow> pyval" where
  "loads_array E s = (if startswith (strip s) ''['' then (case ge_loads (te_gateway E) s of Some v \<Rightarrow> v | None \<Rightarrow> PList []) else PList [])"

subsection \<open>Analysis tools\<close>

definition read_repo_metadata :: "string \<Rightarrow> payload" where
  "read_repo_metadata repo_path = [(''repo_path'', PStr repo_path), (''languages'', PList [PStr ''python'', PStr ''yaml'']),
     (''default_branch'', PStr ''main''), (''ci'', PStr ''github_actions'')]"

definition parse_sast_report :: "'x tools_env \<Rightarrow> string \<Rightarrow> payload" where
  "parse_sast_report E report_json = (
     let data = (if startswith (strip report_json) [CHR 0x7B] then (case ge_loads (te_gateway E) report_json of
           Some v \<Rightarrow> v | None \<Rightarrow> PDict [(''raw'', PStr (take 2000 report_json))])
         else PDict [(''raw'', PStr report_json)]) in
     [(''parsed_findings'', data), (''count'', PInt (int (length (py_text (ge_str (te_gateway E)) data))))])"

definition analyze_workflow :: "string \<Rightarrow> payload" where
  "analyze_workflow workflow_yaml = (let l = lower workflow_yaml;
     risks = (if contains l ''pull_request_target'' then [''pull_request_target usage detected''] else [])
       @ (if contains l ''aws_access_key'' \<or> contains l ''secret'' then [''secrets referenced in workflow environment''] else []) in
     [(''risks'', PList (map PStr (if risks \<noteq> [] then risks else [''no obvious workflow risks in stub''])))])"

definition run_active_scan :: "'x tools_env \<Rightarrow> string \<Rightarrow> 'x \<Rightarrow> 'x \<times> (exc + payload)" where
  "run_active_scan E target x = (if te_veneno E
     then call_veneno_mcp_tool (te_gateway E) (te_veneno E) (te_veneno_post E) ''run_active_scan'' [(''target'', PStr target)] x
     else (x, Inr [(''status'', PStr ''simulated''), (''target'', PStr target),
       (''note'', PStr ''PoC analysis only; enable VENENO_MCP_ENABLED for execution'')]))"

definition parse_netflow :: "string \<Rightarrow> payload" where
  "parse_netflow netflow_text = [(''source'', PStr ''netflow_stub''),
     (''indicators'', PList (if contains netflow_text ''90s'' then [PStr ''periodic_tls'', PStr ''non_browser_traffic''] else [])),
     (''raw_excerpt'', PStr (take 500 netflow_text))]"

definition enrich_ioc :: "'x tools_env \<Rightarrow> string \<Rightarrow> 'x \<Rightarrow> exc + payload" where
  "enrich_ioc E ioc x = (
     let stub = [(''ioc'', PStr ioc), (''reputation'', PStr ''suspicious''), (''tags'', PList [PStr ''stub'']), (''source'', PStr ''stub'')] in
     if ge_veil_enabled (te_gateway E)
     then rbind (call_veil_mcp_tool (te_gateway E) ''ti_search_in_category''
         [(''query'', PStr ioc), (''category'', PStr ''ioc''), (''limit'', PInt 5)] x)
       (\<lambda>r. Inr (if succeeded r then [(''ioc'', PStr ioc), (''source'', PStr ''veil-ti''), (''enrichment'', get_or r ''result'' PNone)] else stub))
     else Inr stub)"

definition correlate_dns :: payload where
  "correlate_dns = [(''pattern'', PStr ''periodic_lookup''), (''confidence'', PFloat (7/10))]"

definition not_configured :: payload where
  "not_configured = [(''error'', PStr ''tool backend not configured'')]"

text \<open>The backend the container wires is that of the gateway.\<close>

definition query_siem_readonly :: "'x tools_env \<Rightarrow> string \<Rightarrow> string \<Rightarrow> 'x \<Rightarrow> exc + payload" where
  "query_siem_readonly E query time_range x = (if \<not> te_backend E then Inr not_configured
     else siem_search_tool (te_gateway E) [(''query'', PStr query), (''time_range'', PStr time_range)] x)"

definition rag_query_of_tool :: "'x tools_env \<Rightarrow> string \<Rightarrow> string \<Rightarrow> string \<Rightarrow> 'x \<Rightarrow> exc + payload" where
  "rag_query_of_tool E query persona tenant x = (if \<not> te_backend E then Inr not_configured
     else rag_query_tool (te_gateway E) [(''query'', PStr query), (''persona'', PStr persona), (''tenant'', PStr tenant)] x)"

definition dedup_alerts :: payload where
  "dedup_alerts = [(''deduplicated_count'', PInt 1), (''clusters'', PList [PStr ''powershell_encoded''])]"

definition build_timeline :: payload where
  "build_timeline = [(''timeline'', PList [PStr ''T+0 EDR alert'', PStr ''T+2m proxy anomaly'', PStr ''T+10m dedup repeat''])]"

definition correlate_findings :: payload where
  "correlate_findings = [(''correlated'', PBool True), (''priority'', PStr ''P2'')]"

definition check_control :: "string \<Rightarrow> string \<Rightarrow> string \<Rightarrow> payload" where
  "check_control framework control_id evidence = [(''framework'', PStr framework), (''control_id'', PStr control_id),
     (''status'', PStr ''partial''), (''gaps'', PList (if contains evidence ''60%'' then [PStr ''missing quarterly access review''] else []))]"

definition map_framework :: payload where
  "map_framework = [(''framework'', PStr ''SOC2''), (''controls'', PList [PStr ''CC6.1'', PStr ''CC7.2''])]"

definition audit_evidence :: payload where
  "audit_evidence = [(''auditability'', PStr ''partial''), (''ticket_coverage'', PStr ''60%'')]"

definition execute_command :: "string \<Rightarrow> payload" where
  "execute_command command = [(''executed'', PStr command), (''status'', PStr ''denied_by_policy'')]"

subsection \<open>Searches\<close>

definition persona_hit :: "string \<Rightarrow> string \<Rightarrow> string list \<Rightarrow> rat \<Rightarrow> pyval" where
  "persona_hit name description capabilities trust = PDict [(''name'', PStr name), (''description'', PStr description),
     (''capabilities'', PList (map PStr capabilities)), (''empirical_trust'', PFloat trust)]"

definition persona_matches :: "string \<Rightarrow> string \<Rightarrow> string \<Rightarrow> string list \<Rightarrow> bool" where
  "persona_matches query name description capabilities =
     contains (lower (py_join '' '' [name, lower description, py_join '' '' capabilities])) (lower query)"

definition best_first :: "mem_catalog option \<Rightarrow> int \<Rightarrow> string list \<Rightarrow> string list" where
  "best_first catalog limit names = py_take limit (sort_key (\<lambda>n. - persona_trust_score n catalog) names)"

definition search_personas :: "mem_catalog option \<Rightarrow> registry \<Rightarrow> string \<Rightarrow> string \<Rightarrow> int \<Rightarrow> pyval list" where
  "search_personas catalog shipped query profile_id limit = (case catalog of
     Some c \<Rightarrow> (let hits = map ag_name (filter (\<lambda>e. persona_matches query (ag_name e) (ag_description e) (ag_capabilities e))
           (list_agents (Some profile_id) True c)) in
       map (\<lambda>n. case get_agent c n of
           Some e \<Rightarrow> persona_hit n (ag_description e) (ag_capabilities e) (persona_trust_score n catalog)
         | None \<Rightarrow> persona_hit n [] [] (persona_trust_score n catalog)) (best_first catalog limit hits))
   | None \<Rightarrow> (let hits = map fst (filter (\<lambda>(n, d). persona_matches query n (ad_description d) (ad_capabilities d)) shipped) in
       map (\<lambda>n. case dget shipped n of
           Some d \<Rightarrow> persona_hit n (ad_description d) (ad_capabilities d) (persona_trust_score n None)
         | None \<Rightarrow> persona_hit n [] [] (persona_trust_score n None)) (best_first None limit hits)))"

definition skill_hit :: "string \<Rightarrow> string \<Rightarrow> pyval" where
  "skill_hit i description = PDict [(''id'', PStr i), (''description'', PStr description)]"

text \<open>The catalog, when it can be read; else the shipped skills.\<close>

definition search_skills ::
  "bool \<Rightarrow> exc + skill_entry payload_catalog \<Rightarrow> exc + skill_registry \<Rightarrow> string \<Rightarrow> string \<Rightarrow> int \<Rightarrow> exc + pyval list" where
  "search_skills dynamic entries shipped query profile_id limit = (let q = lower query in
     case (dynamic, entries) of
       (True, Inr c) \<Rightarrow> Inr (map (\<lambda>e. skill_hit (sk_id e) (sk_description e)) (py_take limit
         (filter (\<lambda>e. contains (sk_id e) q \<or> contains (lower (sk_description e)) q) (list_items skill_ops sk_id (Some profile_id) True c))))
     | _ \<Rightarrow> rbind shipped (\<lambda>reg. Inr (map (\<lambda>(n, m). skill_hit n (sm_description m)) (py_take limit
         (filter (\<lambda>(n, m). contains n q \<or> contains (lower (sm_description m)) q) reg)))))"

definition search_tools ::
  "profiles_read \<Rightarrow> string list \<Rightarrow> string \<Rightarrow> interaction_mode option \<Rightarrow> string \<Rightarrow> int \<Rightarrow> string list" where
  "search_tools cat registered query mode profile_id limit = py_take limit
     (filter (\<lambda>n. ModePolicy_allow_tool cat mode n (Some profile_id) None)
       (filter (\<lambda>n. contains n (lower query)) (filter_tools_for_profile cat registered profile_id None)))"

definition parse_mode :: "string \<Rightarrow> interaction_mode" where
  "parse_mode s = (if s = ''plan'' then PLAN else if s = ''ask'' then ASK else if s = ''debug'' then DEBUG else AGENT)"

subsection \<open>Orchestration tools\<close>

definition ask_user :: "string \<Rightarrow> string \<Rightarrow> string \<Rightarrow> payload" where
  "ask_user question context_id tenant_id = [(''status'', PStr ''awaiting_user''), (''question'', PStr question),
     (''context_id'', PStr context_id), (''tenant_id'', PStr tenant_id)]"

text \<open>The monitor a reasoning tool logs to is its own and is dropped with it.\<close>

definition reasoning_step :: "payload \<Rightarrow> exc + payload" where
  "reasoning_step args = (case validate_reasoning_step (dput ''remaining_steps''
       (py_or (get_or args ''remaining_steps'' PNone) (PList [])) args) of
     Some step \<Rightarrow> Inr step | None \<Rightarrow> invalid)"

definition reasoning_check :: "'x tools_env \<Rightarrow> string \<Rightarrow> string \<Rightarrow> exc + payload" where
  "reasoning_check E goal trace_json = rbind (evaluate_trace None (re_judge_model (te_run E)) (55/100) goal trace_json 0)
     (\<lambda>v. Inr (verdict_dump v))"

definition build_structured_extraction_prompt :: "string \<Rightarrow> string \<Rightarrow> string \<Rightarrow> string" where
  "build_structured_extraction_prompt goal schema_type agent_summary = concat (map (\<lambda>l. l @ newline)
     [''Extract a structured deliverable from the agent summary.'', [], ''Goal: '' @ goal, ''Expected schema: '' @ schema_type, [],
      ''Agent summary:'', take 8000 agent_summary, [], ''Output JSON only with keys:'', ''- schema_type (string)'',
      ''- confidence (0-100 integer)'', ''- weaknesses (list of strings)'', ''- payload (object matching schema_type)''])"

text \<open>The text, else what is between its first opening and its last closing brace.\<close>

definition parse_structured_output :: "(string \<Rightarrow> pyval option) \<Rightarrow> string \<Rightarrow> payload" where
  "parse_structured_output loads t = (let raw = [(''raw'', PStr (strip t))] in
     case (case loads t of Some v \<Rightarrow> Some v | None \<Rightarrow> if brace_slice t = [] then None else loads (brace_slice t)) of
       Some (PDict d) \<Rightarrow> d | _ \<Rightarrow> raw)"

fun sample :: "'x tools_env \<Rightarrow> string \<Rightarrow> nat \<Rightarrow> 'x \<Rightarrow> 'x \<times> (exc + payload list)" where
  "sample E prompt 0 x = (x, Inr [])"
| "sample E prompt (Suc n) x = (case te_extract E prompt x of
     (x1, Inl e) \<Rightarrow> (x1, Inl e)
   | (x1, Inr t) \<Rightarrow> (case sample E prompt n x1 of
       (x2, Inl e) \<Rightarrow> (x2, Inl e)
     | (x2, Inr ds) \<Rightarrow> (x2, Inr (parse_structured_output (ge_loads (te_gateway E)) t # ds))))"

definition merge_samples :: "payload list \<Rightarrow> payload" where
  "merge_samples cs = (let payloads = filter (\<lambda>v. case v of PDict d \<Rightarrow> True | _ \<Rightarrow> False) (map (\<lambda>c. get_or c ''payload'' PNone) cs) in
     if payloads = [] then hd cs
     else dput ''self_consistency'' (PDict [(''samples'', PInt (int (length cs))), (''payloads'', PList payloads)])
       (dput ''payload'' (hd payloads) (hd cs)))"

definition extract_structured_output :: "'x tools_env \<Rightarrow> string \<Rightarrow> string \<Rightarrow> string \<Rightarrow> 'x \<Rightarrow> 'x \<times> (exc + payload)" where
  "extract_structured_output E goal agent_summary schema_type x = (
     let schema = str_or schema_type (detect_output_schema (\<lambda>_. Inr None) goal []);
         n = max 1 (if te_samples E = 0 then 1 else te_samples E) in
     case sample E (build_structured_extraction_prompt goal schema agent_summary) (nat n) x of
       (x1, Inl e) \<Rightarrow> (x1, Inl e)
     | (x1, Inr cs) \<Rightarrow> (x1, Inr (if n = 1 then hd cs else merge_samples cs)))"

definition plan_tool_calls :: "'x tools_env \<Rightarrow> string \<Rightarrow> string \<Rightarrow> payload" where
  "plan_tool_calls E goal steps_json = [(''goal'', PStr goal), (''planned_steps'', loads_array E steps_json), (''status'', PStr ''planned'')]"

definition create_report_outline :: "'x tools_env \<Rightarrow> string \<Rightarrow> string \<Rightarrow> payload" where
  "create_report_outline E title sections_json = [(''title'', PStr title),
     (''sections'', py_or (loads_array E sections_json) (PList [PStr ''summary'', PStr ''findings'', PStr ''recommendations'']))]"

definition browser_use :: "'x tools_env \<Rightarrow> string \<Rightarrow> string \<Rightarrow> payload" where
  "browser_use E url action = (if \<not> te_browser E
     then failure ''browser disabled'' @ [(''hint'', PStr ''set BROWSER_ENABLED=true with HITL'')]
     else [(''success'', PBool False), (''stub'', PBool True), (''url'', PStr url), (''action'', PStr action)])"

definition transcribe_audio :: "string \<Rightarrow> string \<Rightarrow> payload" where
  "transcribe_audio dash path = [(''success'', PBool False), (''path'', PStr path),
     (''note'', PStr (''STT stub '' @ dash @ '' integrate Whisper or cloud STT''))]"

definition update_todos :: "'x tools_env \<Rightarrow> string \<Rightarrow> string \<Rightarrow> string \<Rightarrow> todo_table \<Rightarrow> todo_table \<times> (exc + payload)" where
  "update_todos E todos_json context_id tenant_id t = (case rbind (py_iter (loads_array E todos_json)) (traverse validate_todo) of
     Inl e \<Rightarrow> (t, Inl e)
   | Inr todos \<Rightarrow> (if context_id \<noteq> [] then replace_todos tenant_id context_id todos t else t,
       Inr [(''updated'', PInt (int (length todos))), (''context_id'', PStr context_id)]))"

subsection \<open>The tools by name\<close>

text \<open>What a tool's body gives, as the tool function: pure bodies, bodies that read or change the external state.\<close>

definition says :: "'x tools_env \<Rightarrow> pyval \<Rightarrow> pyval" where
  "says E v = PStr (ge_dumps (te_gateway E) v)"

definition outside :: "'x tools_env \<Rightarrow> ('x \<Rightarrow> 'x \<times> (exc + payload)) \<Rightarrow> 'x tools_world \<Rightarrow> 'x tools_world \<times> (exc + pyval)" where
  "outside E f w = (case f (tw_ext w) of (x, r) \<Rightarrow> (w\<lparr>tw_ext := x\<rparr>, rbind r (\<lambda>d. Inr (says E (PDict d)))))"

definition plain :: "'x tools_env \<Rightarrow> exc + pyval \<Rightarrow> 'x tools_world \<Rightarrow> 'x tools_world \<times> (exc + pyval)" where
  "plain E r w = (w, rbind r (\<lambda>v. Inr (says E v)))"

text \<open>The arguments of a tool are strings, with or without a default; others are ignored.\<close>

definition args1 :: "string \<Rightarrow> string option \<Rightarrow> (string \<Rightarrow> 'x tools_world \<Rightarrow> 'x tools_world \<times> (exc + pyval)) \<Rightarrow> 'x tool_fn" where
  "args1 a da f args w = (case field a_str da a args of Inl e \<Rightarrow> (w, Inl e) | Inr v \<Rightarrow> f v w)"

definition args2 ::
  "string \<Rightarrow> string option \<Rightarrow> string \<Rightarrow> string option \<Rightarrow> (string \<Rightarrow> string \<Rightarrow> 'x tools_world \<Rightarrow> 'x tools_world \<times> (exc + pyval)) \<Rightarrow> 'x tool_fn" where
  "args2 a da b db f args = args1 a da (\<lambda>v. args1 b db (f v) args) args"

definition args3 ::
  "string \<Rightarrow> string option \<Rightarrow> string \<Rightarrow> string option \<Rightarrow> string \<Rightarrow> string option
    \<Rightarrow> (string \<Rightarrow> string \<Rightarrow> string \<Rightarrow> 'x tools_world \<Rightarrow> 'x tools_world \<times> (exc + pyval)) \<Rightarrow> 'x tool_fn" where
  "args3 a da b db c dc f args = args1 a da (\<lambda>v. args2 b db c dc (f v) args) args"

text \<open>An integer, a float without a fraction, or a string of one.\<close>

definition an_int :: "(string \<Rightarrow> rat option) \<Rightarrow> pyval \<Rightarrow> exc + int" where
  "an_int parse v = (case lax_float parse v of
     Some r \<Rightarrow> if of_int \<lfloor>r\<rfloor> = r then Inr \<lfloor>r\<rfloor> else invalid | None \<Rightarrow> invalid)"

definition dict_of :: "payload \<Rightarrow> exc + pyval" where
  "dict_of d = Inr (PDict d)"

definition analysis_tools :: "'x tools_env \<Rightarrow> (string \<times> 'x tool_fn) list" where
  "analysis_tools E = [
     (''read_repo_metadata'', args1 ''repo_path'' None (\<lambda>p. plain E (dict_of (read_repo_metadata p)))),
     (''parse_sast_report'', args1 ''report_json'' None (\<lambda>r. plain E (dict_of (parse_sast_report E r)))),
     (''analyze_workflow'', args1 ''workflow_yaml'' None (\<lambda>y. plain E (dict_of (analyze_workflow y)))),
     (''run_active_scan'', args1 ''target'' None (\<lambda>t. outside E (run_active_scan E t))),
     (''parse_netflow'', args1 ''netflow_text'' None (\<lambda>t. plain E (dict_of (parse_netflow t)))),
     (''enrich_ioc'', args1 ''ioc'' None (\<lambda>i. outside E (\<lambda>x. (x, enrich_ioc E i x)))),
     (''correlate_dns'', args1 ''dns_events'' None (\<lambda>_. plain E (dict_of correlate_dns))),
     (''query_siem_readonly'', args2 ''query'' None ''time_range'' (Some ''24h'') (\<lambda>q t. outside E (\<lambda>x. (x, query_siem_readonly E q t x)))),
     (''rag_query'', args3 ''query'' None ''persona'' (Some ''soc'') ''tenant'' (Some ''default'')
        (\<lambda>q p t. outside E (\<lambda>x. (x, rag_query_of_tool E q p t x)))),
     (''dedup_alerts'', args1 ''alerts_text'' None (\<lambda>_. plain E (dict_of dedup_alerts))),
     (''build_timeline'', args1 ''events_text'' None (\<lambda>_. plain E (dict_of build_timeline))),
     (''correlate_findings'', args1 ''findings_json'' None (\<lambda>_. plain E (dict_of correlate_findings))),
     (''check_control'', args3 ''framework'' None ''control_id'' None ''evidence'' None (\<lambda>f c e. plain E (dict_of (check_control f c e)))),
     (''map_framework'', args1 ''observation'' None (\<lambda>_. plain E (dict_of map_framework))),
     (''audit_evidence'', args1 ''evidence_text'' None (\<lambda>_. plain E (dict_of audit_evidence))),
     (''execute_command'', args1 ''command'' None (\<lambda>c. plain E (dict_of (execute_command c))))]"

definition research_tools :: "'x tools_env \<Rightarrow> (string \<times> 'x tool_fn) list" where
  "research_tools E = [
     (''search_personas'', args1 ''query'' None (\<lambda>q. plain E (Inr (PList (search_personas (te_agents E) (te_shipped E) q DEFAULT_PROFILE_ID 5))))),
     (''search_skills'', args1 ''query'' None (\<lambda>q. plain E (rbind
        (search_skills (te_dynamic E) (te_skill_entries E) (te_skills E) q DEFAULT_PROFILE_ID 5) (\<lambda>vs. Inr (PList vs))))),
     (''search_tools'', args2 ''query'' None ''mode'' (Some ''agent'') (\<lambda>q m. plain E (Inr (PList (map (\<lambda>n. PDict [(''name'', PStr n)])
        (search_tools (te_profiles E) (te_tool_names E) q (Some (parse_mode m)) DEFAULT_PROFILE_ID 10)))))),
     (''ask_user'', args3 ''question'' None ''context_id'' (Some []) ''tenant_id'' (Some ''default'')
        (\<lambda>q c t. plain E (dict_of (ask_user q c t)))),
     (''update_todos'', args3 ''todos_json'' None ''context_id'' (Some []) ''tenant_id'' (Some ''default'') (\<lambda>j c t w.
        case update_todos E j c t (rw_todos (tw_runs w)) of
          (ts, r) \<Rightarrow> (w\<lparr>tw_runs := (tw_runs w)\<lparr>rw_todos := ts\<rparr>\<rparr>, rbind r (\<lambda>d. Inr (says E (PDict d)))))),
     (''web_search'', (\<lambda>args. args1 ''query'' None (\<lambda>q w. case field (an_int (re_parse_float (te_run E))) (Some 5) ''limit'' args of
        Inl e \<Rightarrow> (w, Inl e) | Inr n \<Rightarrow> outside E (web_search (te_web E) q n) w) args)),
     (''read_document'', args1 ''path'' None (\<lambda>p. plain E (dict_of (read_document (te_files E) 12000 p)))),
     (''reasoning_step'', (\<lambda>args. plain E (rbind (reasoning_step args) dict_of))),
     (''reasoning_check'', args2 ''goal'' None ''trace_json'' None (\<lambda>g t. plain E (rbind (reasoning_check E g t) dict_of))),
     (''extract_structured_output'', args3 ''goal'' None ''agent_summary'' None ''schema_type'' (Some [])
        (\<lambda>g a s. outside E (extract_structured_output E g a s))),
     (''python_sandbox'', args1 ''code'' None (\<lambda>c. outside E (python_sandbox (te_sandbox E) c))),
     (''vision_analyze'', args2 ''path'' None ''question'' (Some ''Describe this image in detail.'')
        (\<lambda>p q. plain E (dict_of (vision_analyze (te_files E) (te_vision E) p q)))),
     (''search_archived_webpage'', args2 ''url'' None ''timestamp'' (Some []) (\<lambda>u t. outside E (search_archived_webpage (te_web E) u t))),
     (''delegate_research'', args3 ''subtask'' None ''context_id'' (Some []) ''tenant_id'' (Some ''default'') (\<lambda>s c t w.
        case delegate_research (te_run E) s c t (tw_runs w) of
          (rw, r) \<Rightarrow> (w\<lparr>tw_runs := rw\<rparr>, rbind r (\<lambda>d. Inr (says E (PDict d)))))),
     (''plan_tool_calls'', args2 ''goal'' None ''steps_json'' None (\<lambda>g s. plain E (dict_of (plan_tool_calls E g s)))),
     (''create_report_outline'', args2 ''title'' None ''sections_json'' (Some ''[]'')
        (\<lambda>t s. plain E (dict_of (create_report_outline E t s)))),
     (''browser_use'', args2 ''url'' None ''action'' (Some ''navigate'') (\<lambda>u a. plain E (dict_of (browser_use E u a)))),
     (''transcribe_audio'', args1 ''path'' None (\<lambda>p. plain E (dict_of (transcribe_audio (re_dash (te_run E)) p))))]"

subsection \<open>The registry of tools\<close>

text \<open>The Veil tools of a profile: those its enabled Veil servers allow, or the fourteen the code names. The servers of the
  catalog may fail to be read.\<close>

definition veil_server :: "mcp_server_entry \<Rightarrow> bool" where
  "veil_server s = (mcp_id s = ''veil'' \<or> contains (lower (mcp_url s)) ''veil'')"

definition get_veil_allowed_tools :: "exc + mcp_server_entry payload_catalog \<Rightarrow> string \<Rightarrow> string list" where
  "get_veil_allowed_tools servers profile_id = (case servers of
     Inl e \<Rightarrow> VEIL_MCP_TOOL_NAMES
   | Inr c \<Rightarrow> (let ts = concat (map mcp_allowed_tools (filter veil_server (list_items mcp_ops mcp_id (Some profile_id) True c))) in
       if ts = [] then VEIL_MCP_TOOL_NAMES else fromkeys ts))"

text \<open>A description: of the catalog's entry, of the code's table, or the default. The table is a parameter.\<close>

definition description_for_veil_tool :: "string dict \<Rightarrow> exc + tool_entry payload_catalog \<Rightarrow> string \<Rightarrow> string \<Rightarrow> string" where
  "description_for_veil_tool table tools name profile_id = (
     let dflt = get_or table name (''Veil knowledge MCP tool: '' @ name) in
     case tools of
       Inl e \<Rightarrow> dflt
     | Inr c \<Rightarrow> (case get_item c name profile_id of Some e \<Rightarrow> str_or (tl_description e) dflt | None \<Rightarrow> dflt))"

definition build_veil_tools ::
  "string dict \<Rightarrow> exc + mcp_server_entry payload_catalog \<Rightarrow> exc + tool_entry payload_catalog \<Rightarrow> string \<Rightarrow> string dict" where
  "build_veil_tools table servers tools profile_id =
     map (\<lambda>n. (n, description_for_veil_tool table tools n profile_id)) (sort (get_veil_allowed_tools servers profile_id))"

definition veil_tool :: "'x tools_env \<Rightarrow> string \<Rightarrow> 'x tool_fn" where
  "veil_tool E name args = outside E (\<lambda>x. (x, call_veil_mcp_tool (te_gateway E) name args x))"

text \<open>Tools are objects: those the module keeps are shared with the registry, so that a description written into one stays.
  A registry is the descriptions of the module's objects and of its own.\<close>

record tool_registry =
  tg_all :: "string dict"
  tg_tools :: "string dict"

definition describe :: "tool_entry \<Rightarrow> string dict \<Rightarrow> string dict" where
  "describe e ds = (if tl_enabled e \<and> tl_name e \<in> set (map fst ds) \<and> tl_description e \<noteq> []
     then dput (tl_name e) (tl_description e) ds else ds)"

definition catalog_overrides :: "bool \<Rightarrow> exc + tool_entry payload_catalog \<Rightarrow> string dict \<Rightarrow> string dict" where
  "catalog_overrides dynamic tools ds = (case (dynamic, tools) of
     (True, Inr c) \<Rightarrow> fold describe (list_tools None True c) ds | _ \<Rightarrow> ds)"

definition share :: "string list \<Rightarrow> string dict \<Rightarrow> string dict \<Rightarrow> string dict" where
  "share own now ds = map (\<lambda>(n, d). (n, if n \<in> set own then d else get_or now n d)) ds"

definition ToolRegistry :: "bool \<Rightarrow> exc + tool_entry payload_catalog \<Rightarrow> string dict \<Rightarrow> tool_registry" where
  "ToolRegistry dynamic tools all = (let ds = catalog_overrides dynamic tools (fold (\<lambda>(n, d). dput n d) all []) in
     \<lparr>tg_all = share [] ds all, tg_tools = ds\<rparr>)"

definition reload_tools :: "bool \<Rightarrow> exc + tool_entry payload_catalog \<Rightarrow> string dict \<Rightarrow> tool_registry \<Rightarrow> tool_registry" where
  "reload_tools dynamic tools veil r = (
     let ds = catalog_overrides dynamic tools (fold (\<lambda>(n, d). dput n d) veil (fold (\<lambda>(n, d). dput n d) (tg_all r) [])) in
     \<lparr>tg_all = share (map fst veil) ds (tg_all r), tg_tools = ds\<rparr>)"

definition tool_names :: "profiles_read \<Rightarrow> tool_registry \<Rightarrow> string option \<Rightarrow> string list" where
  "tool_names cat r profile_id = (case profile_id of
     Some (c # cs) \<Rightarrow> filter_tools_for_profile cat (map fst (tg_tools r)) (c # cs) None | _ \<Rightarrow> map fst (tg_tools r))"

definition registry_tool :: "tool_registry \<Rightarrow> string \<Rightarrow> exc + string" where
  "registry_tool r name = (if name \<in> set (map fst (tg_tools r)) then Inr name else Inl (PyExc (''KeyError: Unknown tool: '' @ name)))"

definition registry_resolve :: "profiles_read \<Rightarrow> tool_registry \<Rightarrow> string list \<Rightarrow> string \<Rightarrow> exc + string list" where
  "registry_resolve cat r names profile_id = traverse (registry_tool r) (filter_tools_for_profile cat names profile_id None)"

text \<open>The function behind a resolved name: a built-in tool, else a Veil tool. Only update_todos and delegate_research are
  given the stores of runs; the body of any other tool is a function of its arguments and of the external state.\<close>

definition tool_function :: "'x tools_env \<Rightarrow> string \<Rightarrow> 'x tool_fn" where
  "tool_function E name = (case map_of (analysis_tools E @ research_tools E) name of Some f \<Rightarrow> f | None \<Rightarrow> veil_tool E name)"

subsection \<open>Properties\<close>

lemma set_filter_tools: "set (filter_tools_for_profile cat names p q) \<subseteq> set names"
  by (auto simp: filter_tools_for_profile_def filter_tools_pure_def Let_def split: option.splits if_splits)

lemma traverse_registry_tool:
  "traverse (registry_tool r) ns = (if set ns \<subseteq> set (map fst (tg_tools r)) then Inr ns
     else Inl (PyExc (''KeyError: Unknown tool: '' @ hd (filter (\<lambda>n. n \<notin> set (map fst (tg_tools r))) ns))))"
  by (induction ns) (auto simp: registry_tool_def)

text \<open>An agent's tools are exactly those of its list that its profile allows, in their order, when all of them are
  registered; else the first that is not is named in a KeyError, and the agent gets none.\<close>

theorem resolved_tools_exact:
  "registry_resolve cat r names profile_id = (let allowed = filter_tools_for_profile cat names profile_id None in
     if set allowed \<subseteq> set (map fst (tg_tools r)) then Inr allowed
     else Inl (PyExc (''KeyError: Unknown tool: '' @ hd (filter (\<lambda>n. n \<notin> set (map fst (tg_tools r))) allowed))))"
  by (simp add: registry_resolve_def traverse_registry_tool Let_def)

text \<open>A search for tools names registered tools only, allowed in the profile and in the mode, that have the query in
  their name, in the order of the registry, and leaves none of them out unless the limit is reached.\<close>

theorem search_tools_sound:
  assumes "0 \<le> limit"
  shows "set (search_tools cat registered query mode profile_id limit) \<subseteq> {n \<in> set registered. contains n (lower query)
      \<and> n \<in> set (filter_tools_for_profile cat registered profile_id None) \<and> ModePolicy_allow_tool cat mode n (Some profile_id) None}
    \<and> int (length (search_tools cat registered query mode profile_id limit)) \<le> limit
    \<and> (int (length (search_tools cat registered query mode profile_id limit)) < limit
      \<longrightarrow> set (search_tools cat registered query mode profile_id limit) = {n \<in> set (filter_tools_for_profile cat registered profile_id None).
          contains n (lower query) \<and> ModePolicy_allow_tool cat mode n (Some profile_id) None})"
proof -
  let ?all = "filter (\<lambda>n. ModePolicy_allow_tool cat mode n (Some profile_id) None)
       (filter (\<lambda>n. contains n (lower query)) (filter_tools_for_profile cat registered profile_id None))"
  have s: "search_tools cat registered query mode profile_id limit = take (nat limit) ?all"
    using assms by (simp add: search_tools_def py_take_def)
  have "take (nat limit) ?all = ?all" if "int (length (take (nat limit) ?all)) < limit"
  proof -
    have "length (take (nat limit) ?all) < nat limit" using that assms by linarith
    then have "length ?all \<le> nat limit" unfolding length_take by linarith
    then show ?thesis by (rule take_all)
  qed
  moreover have "set (take (nat limit) ?all) \<subseteq> set ?all" by (rule set_take_subset)
  moreover have "int (length (take (nat limit) ?all)) \<le> limit" using assms by simp
  ultimately show ?thesis unfolding s using set_filter_tools[of cat registered profile_id None] by auto
qed

text \<open>The todos of a run are replaced as a whole or not at all, and those of other runs never change. A text that is no
  JSON array replaces them with none.\<close>

theorem todos_replaced:
  assumes "update_todos E todos_json context_id tenant_id t = (t', r)"
  shows "(case r of Inl e \<Rightarrow> t' = t
      | Inr d \<Rightarrow> \<exists>todos. rbind (py_iter (loads_array E todos_json)) (traverse validate_todo) = Inr todos
          \<and> dget d ''updated'' = Some (PInt (int (length todos)))
          \<and> (if context_id = [] then t' = t else map_of t' (tenant_id, context_id) = Some todos))
    \<and> (\<forall>key. key \<noteq> (tenant_id, context_id) \<longrightarrow> map_of t' key = map_of t key)
    \<and> (ge_loads (te_gateway E) todos_json = None \<and> context_id \<noteq> [] \<longrightarrow> map_of t' (tenant_id, context_id) = Some [])"
proof -
  let ?todos = "rbind (py_iter (loads_array E todos_json)) (traverse validate_todo)"
  have none: "ge_loads (te_gateway E) todos_json = None \<Longrightarrow> ?todos = Inr []" by (simp add: loads_array_def py_iter_def)
  have get: "map_of (replace_todos tenant_id context_id ts t) key = (if key = (tenant_id, context_id) then Some ts else map_of t key)" for ts key
    using todo_rows.get_put by (simp add: replace_todos_def)
  show ?thesis
  proof (cases ?todos)
    case (Inl e)
    with assms none show ?thesis by (auto simp: update_todos_def)
  next
    case (Inr ts)
    with assms have "t' = (if context_id \<noteq> [] then replace_todos tenant_id context_id ts t else t)"
      "r = Inr [(''updated'', PInt (int (length ts))), (''context_id'', PStr context_id)]" by (auto simp: update_todos_def)
    with Inr none get show ?thesis by auto
  qed
qed

text \<open>The enrichment of an indicator is always null: the answer of Veil keeps what was found under content, and the tool
  reads result.\<close>

theorem enrichment_always_null:
  assumes "enrich_ioc E ioc x = Inr d" and "dget d ''source'' = Some (PStr ''veil-ti'')"
  shows "dget d ''enrichment'' = Some PNone"
proof -
  have "get_or r ''result'' PNone = PNone" if "call_veil_mcp_tool G tool args x = Inr r" for G tool args r
    using that by (auto simp: call_veil_mcp_tool_def veil_failure_def rbind_Inr_iff get_or_def Let_def
      split: if_splits http_answer.splits pyval.splits option.splits)
  with assms show ?thesis by (auto simp: enrich_ioc_def rbind_Inr_iff Let_def split: if_splits)
qed

text \<open>An agent is offered the Veil tools its profile's enabled Veil servers allow, when they allow any, and else those the
  code names: a server that is disabled or belongs to another profile adds none.\<close>

theorem veil_tools_allowed:
  assumes "profile_id \<noteq> []"
  shows "set (get_veil_allowed_tools (Inr c) profile_id) = (let ts = {t. \<exists>s. s \<in> snd ` set c \<and> veil_server s \<and> mcp_enabled s
      \<and> mcp_profile_id s = profile_id \<and> t \<in> set (mcp_allowed_tools s)} in
    if ts = {} then set VEIL_MCP_TOOL_NAMES else ts)"
proof -
  have "set (concat (map mcp_allowed_tools (filter veil_server (list_items mcp_ops mcp_id (Some profile_id) True c))))
      = {t. \<exists>s. s \<in> snd ` set c \<and> veil_server s \<and> mcp_enabled s \<and> mcp_profile_id s = profile_id \<and> t \<in> set (mcp_allowed_tools s)}"
    (is "set ?ts = ?S") using assms by (cases profile_id) (auto simp: list_items_def mcp_ops_def)
  moreover have "?ts = [] \<longleftrightarrow> set ?ts = {}" by (simp only: set_empty)
  ultimately show ?thesis unfolding get_veil_allowed_tools_def sum.case Let_def by (simp only: set_fromkeys if_distrib [of set])
qed

lemma describe_other: "n \<noteq> tl_name e \<Longrightarrow> map_of (describe e ds) n = map_of ds n"
  by (simp add: describe_def)

lemma fold_describe_other: "n \<notin> tl_name ` set es \<Longrightarrow> map_of (fold describe es ds) n = map_of ds n"
  by (induction es arbitrary: ds) (auto simp: describe_other)

text \<open>A description the catalog once gave a built-in tool stays when the catalog no longer has it: a reload starts from the
  tools as they were described last.\<close>

theorem description_outlives_entry:
  assumes "distinct (map fst (tg_all r))" and "map_of (tg_all r) n = Some d" and "n \<notin> set (map fst veil)"
    and "n \<notin> tl_name ` set (list_tools None True c)"
  shows "map_of (tg_tools (reload_tools dynamic (Inr c) veil r)) n = Some d
    \<and> map_of (tg_all (reload_tools dynamic (Inr c) veil r)) n = Some d"
proof -
  have put: "map_of (fold (\<lambda>(k, v). dput k v) xs ds) n = (case map_of (rev xs) n of Some v \<Rightarrow> Some v | None \<Rightarrow> map_of ds n)" for xs ds
    by (induction xs arbitrary: ds) (auto simp: map_add_def split: option.splits)
  have rev: "map_of (rev (tg_all r)) n = Some d" "map_of (rev veil) n = None"
    using assms(1-3) by (simp_all add: map_of_eq_Some_iff map_of_eq_None_iff rev_map [symmetric] rev_swap)
  let ?ds = "fold (\<lambda>(k, v). dput k v) veil (fold (\<lambda>(k, v). dput k v) (tg_all r) [])"
  have "map_of ?ds n = Some d" using rev by (simp add: put)
  then have o: "map_of (catalog_overrides dynamic (Inr c) ?ds) n = Some d"
    using fold_describe_other[OF assms(4)] by (cases dynamic) (simp_all add: catalog_overrides_def)
  have "map_of (share own now ds) n = map_option (\<lambda>v. if n \<in> set own then v else get_or now n v) (map_of ds n)" for own now ds
    by (induction ds) (auto simp: share_def)
  with o assms(2,3) show ?thesis by (simp add: reload_tools_def Let_def get_or_def)
qed

subsection \<open>Examples\<close>

definition demo_tools :: "nat tools_env" where
  "demo_tools = \<lparr>te_gateway = veil_off, te_backend = True, te_veneno = False, te_veneno_post = (\<lambda>p x. (x, Http_error [])),
     te_sandbox = demo_sandbox, te_files = demo_files, te_vision = (\<lambda>q m d. Inl []), te_web = demo_web, te_profiles = Inr [],
     te_dynamic = False, te_agents = None, te_shipped = [], te_skill_entries = Inr [], te_skills = Inr [],
     te_tool_names = [''search_skills'', ''web_search''], te_run = demo_run_env [], te_browser = False, te_samples = 0,
     te_extract = (\<lambda>p x. (x, Inr p))\<rparr>"

definition first_todo :: work_todo where
  "first_todo = \<lparr>wt_id = ''1'', wt_content = ''look'', wt_status = TODO_PENDING, wt_assigned_persona = [], wt_depends_on = []\<rparr>"

definition demo_tools_world :: "nat tools_world" where
  "demo_tools_world = \<lparr>tw_runs = empty_run_world\<lparr>rw_todos := [((''t'', ''c''), [first_todo])]\<rparr>, tw_ext = 0\<rparr>"

theorem search_tools_sound_witness:
  "set (search_tools (Inr []) [''search_skills'', ''web_search''] ''SEARCH'' (Some PLAN) DEFAULT_PROFILE_ID 1) \<subseteq> {''search_skills'', ''web_search''}
    \<and> search_tools (Inr []) [''search_skills'', ''web_search''] ''SEARCH'' (Some PLAN) DEFAULT_PROFILE_ID 1 = [''search_skills'']"
proof -
  have "search_tools (Inr []) [''search_skills'', ''web_search''] ''SEARCH'' (Some PLAN) DEFAULT_PROFILE_ID 1 = [''search_skills'']" by code_simp
  with search_tools_sound [of 1 "Inr []" "[''search_skills'', ''web_search'']" "''SEARCH''" "Some PLAN" DEFAULT_PROFILE_ID] show ?thesis by auto
qed

theorem todos_replaced_witness:
  "map_of (fst (update_todos demo_tools ''[{]'' ''c'' ''t'' [((''t'', ''c''), [first_todo])])) (''t'', ''c'') = Some []"
  using todos_replaced [OF prod.collapse [symmetric], of demo_tools "''[{]''" "''c''" "''t''"]
  by (simp add: demo_tools_def veil_off_def)

end
